(* ===== verification/Bview_Prelude.thy ===== *)
theory Bview_Prelude
  imports Main "HOL-Library.Word" "HOL-Library.Char_ord"
begin

text \<open>Shared vocabulary of the agent: the status codes every function returns, the size
  constants of the public headers, results that are either a status or a value, the index
  search that every fixed-size table of the agent performs, and the contract of a table that
  hands out its first free slot.\<close>

named_theorems slot_simps \<open>facts on tables with a first-free-slot search\<close>
named_theorems status_simps \<open>facts on status codes and results\<close>

section \<open>Status codes\<close>

datatype BVIEW_STATUS =
    BVIEW_STATUS_SUCCESS
  | BVIEW_STATUS_FAILURE
  | BVIEW_STATUS_INVALID_PARAMETER
  | BVIEW_STATUS_UNSUPPORTED
  | BVIEW_STATUS_OUTOFMEMORY
  | BVIEW_STATUS_TIMEOUT
  | BVIEW_STATUS_NOTREADY
  | BVIEW_STATUS_TABLE_FULL
  | BVIEW_STATUS_INVALID_COMMAND
  | BVIEW_STATUS_INVALID_JSON
  | BVIEW_STATUS_RESOURCE_NOT_AVAILABLE
  | BVIEW_STATUS_INVALID_MEMORY
  | BVIEW_STATUS_OUTOFRANGE
  | BVIEW_STATUS_INIT_FAILED
  | BVIEW_STATUS_INVALID_ID
  | BVIEW_STATUS_DUPLICATE

text \<open>The numeric value the C enumeration gives each code.\<close>

primrec status_code :: "BVIEW_STATUS \<Rightarrow> nat" where
  "status_code BVIEW_STATUS_SUCCESS = 0"
| "status_code BVIEW_STATUS_FAILURE = 1"
| "status_code BVIEW_STATUS_INVALID_PARAMETER = 2"
| "status_code BVIEW_STATUS_UNSUPPORTED = 3"
| "status_code BVIEW_STATUS_OUTOFMEMORY = 4"
| "status_code BVIEW_STATUS_TIMEOUT = 5"
| "status_code BVIEW_STATUS_NOTREADY = 6"
| "status_code BVIEW_STATUS_TABLE_FULL = 7"
| "status_code BVIEW_STATUS_INVALID_COMMAND = 8"
| "status_code BVIEW_STATUS_INVALID_JSON = 9"
| "status_code BVIEW_STATUS_RESOURCE_NOT_AVAILABLE = 10"
| "status_code BVIEW_STATUS_INVALID_MEMORY = 11"
| "status_code BVIEW_STATUS_OUTOFRANGE = 12"
| "status_code BVIEW_STATUS_INIT_FAILED = 13"
| "status_code BVIEW_STATUS_INVALID_ID = 14"
| "status_code BVIEW_STATUS_DUPLICATE = 15"

lemma status_code_inject [simp, status_simps]: "status_code a = status_code b \<longleftrightarrow> a = b"
  by (cases a; cases b; simp)

instantiation BVIEW_STATUS :: linorder
begin

definition less_eq_BVIEW_STATUS :: "BVIEW_STATUS \<Rightarrow> BVIEW_STATUS \<Rightarrow> bool" where
  "less_eq_BVIEW_STATUS a b = (status_code a \<le> status_code b)"

definition less_BVIEW_STATUS :: "BVIEW_STATUS \<Rightarrow> BVIEW_STATUS \<Rightarrow> bool" where
  "less_BVIEW_STATUS a b = (status_code a < status_code b)"

instance
  by standard (auto simp: less_eq_BVIEW_STATUS_def less_BVIEW_STATUS_def)

end

section \<open>Results\<close>

text \<open>A computation either returns early with a status or goes on with a value.\<close>

type_synonym 'a result = "BVIEW_STATUS + 'a"

fun res_bind :: "'a result \<Rightarrow> ('a \<Rightarrow> 'b result) \<Rightarrow> 'b result" where
  "res_bind (Inl e) f = Inl e"
| "res_bind (Inr x) f = f x"

definition check :: "bool \<Rightarrow> BVIEW_STATUS \<Rightarrow> unit result" where
  "check b e = (if b then Inr () else Inl e)"

lemma res_bind_assoc: "res_bind (res_bind m f) g = res_bind m (\<lambda>x. res_bind (f x) g)"
  by (cases m) simp_all

lemma res_bind_Inr_iff [status_simps]:
  "res_bind m f = Inr y \<longleftrightarrow> (\<exists>x. m = Inr x \<and> f x = Inr y)"
  by (cases m) auto

lemma check_Inr_iff [simp, status_simps]: "check b e = Inr u \<longleftrightarrow> b"
  by (simp add: check_def)

lemma check_True [simp]: "check True e = Inr ()"
  by (simp add: check_def)

lemma check_False [simp]: "check False e = Inl e"
  by (simp add: check_def)

section \<open>Searching a table by index\<close>

primrec find_index :: "('a \<Rightarrow> bool) \<Rightarrow> 'a list \<Rightarrow> nat option" where
  "find_index P [] = None"
| "find_index P (x # xs) = (if P x then Some 0 else map_option Suc (find_index P xs))"

lemma find_index_None [slot_simps]:
  "find_index P xs = None \<longleftrightarrow> (\<forall>x\<in>set xs. \<not> P x)"
  by (induction xs) auto

lemma find_index_SomeD:
  "find_index P xs = Some i \<Longrightarrow> i < length xs \<and> P (xs ! i) \<and> (\<forall>j<i. \<not> P (xs ! j))"
proof (induction xs arbitrary: i)
  case (Cons x xs)
  then show ?case
    by (auto split: if_splits simp: nth_Cons split: nat.splits)
qed simp

lemma find_index_SomeI:
  assumes "i < length xs" "P (xs ! i)" "\<forall>j<i. \<not> P (xs ! j)"
  shows "find_index P xs = Some i"
proof (cases "find_index P xs")
  case None
  then have "\<forall>x\<in>set xs. \<not> P x" by (simp add: find_index_None)
  then show ?thesis using assms nth_mem by blast
next
  case (Some k)
  then have "k < length xs" "P (xs ! k)" "\<forall>j<k. \<not> P (xs ! j)"
    using find_index_SomeD by blast+
  then have "k = i" using assms by (meson linorder_neqE_nat)
  then show ?thesis using Some by simp
qed

lemma find_index_Some_iff [slot_simps]:
  "find_index P xs = Some i \<longleftrightarrow> i < length xs \<and> P (xs ! i) \<and> (\<forall>j<i. \<not> P (xs ! j))"
  using find_index_SomeD find_index_SomeI by metis

lemma find_SomeD: "List.find P xs = Some x \<Longrightarrow> x \<in> set xs \<and> P x"
  by (auto simp: find_Some_iff)

text \<open>The non-NULL pointers of an array, in order.\<close>

primrec somes :: "'a option list \<Rightarrow> 'a list" where
  "somes [] = []"
| "somes (x # xs) = (case x of None \<Rightarrow> somes xs | Some y \<Rightarrow> y # somes xs)"

lemma somes_append [simp]: "somes (xs @ ys) = somes xs @ somes ys"
  by (induction xs) (auto split: option.splits)

lemma in_set_somes [simp]: "x \<in> set (somes xs) \<longleftrightarrow> Some x \<in> set xs"
  by (induction xs) (auto split: option.splits)

text \<open>The number of entries of a table that satisfy a predicate, as an update moves it.\<close>

lemma length_filter_update:
  assumes "i < length xs"
  shows "length (filter P (xs[i := x])) + (if P (xs ! i) then 1 else 0)
       = length (filter P xs) + (if P x then 1 else 0)"
  using assms
proof (induction xs arbitrary: i)
  case (Cons y ys)
  then show ?case
  proof (cases i)
    case (Suc k)
    with Cons show ?thesis by (auto split: if_splits)
  qed simp
qed simp

lemma set_update_subset: "set (xs[i := x]) \<subseteq> insert x (set xs)"
  by (rule set_update_subset_insert)

section \<open>The contract of a table with first-free-slot allocation\<close>

text \<open>The module table, the plugin table and both memory pools are arrays whose entries carry
  an in-use mark. An allocation takes the first free entry and marks it, or reports that
  there is none.\<close>

locale slot_table =
  fixes slots :: "'s \<Rightarrow> 'e list"
    and used :: "'e \<Rightarrow> bool"
    and alloc :: "'a \<Rightarrow> 's \<Rightarrow> ('s \<times> nat) option"
    and inv :: "'s \<Rightarrow> bool"
    and admits :: "'a \<Rightarrow> 's \<Rightarrow> bool"
  assumes alloc_None: "inv s \<Longrightarrow> admits a s \<Longrightarrow> alloc a s = None \<Longrightarrow> \<forall>e\<in>set (slots s). used e"
    and alloc_Some: "inv s \<Longrightarrow> alloc a s = Some (s', i) \<Longrightarrow>
          find_index (\<lambda>e. \<not> used e) (slots s) = Some i
        \<and> (\<exists>e. used e \<and> slots s' = (slots s)[i := e]) \<and> inv s'"
begin

definition in_use :: "'s \<Rightarrow> nat" where
  "in_use s = length (filter used (slots s))"

lemma in_use_le: "in_use s \<le> length (slots s)"
  by (simp add: in_use_def)

lemma alloc_inv: "inv s \<Longrightarrow> alloc a s = Some (s', i) \<Longrightarrow> inv s'"
  using alloc_Some by blast

lemma alloc_length: "inv s \<Longrightarrow> alloc a s = Some (s', i) \<Longrightarrow> length (slots s') = length (slots s)"
  using alloc_Some by fastforce

lemma alloc_bound: "inv s \<Longrightarrow> alloc a s = Some (s', i) \<Longrightarrow> i < length (slots s)"
  using alloc_Some find_index_SomeD by blast

lemma alloc_was_free: "inv s \<Longrightarrow> alloc a s = Some (s', i) \<Longrightarrow> \<not> used (slots s ! i)"
  using alloc_Some find_index_SomeD by blast

lemma alloc_now_used: "inv s \<Longrightarrow> alloc a s = Some (s', i) \<Longrightarrow> used (slots s' ! i)"
  using alloc_Some alloc_bound by fastforce

lemma alloc_frame:
  "inv s \<Longrightarrow> alloc a s = Some (s', i) \<Longrightarrow> j \<noteq> i \<Longrightarrow> slots s' ! j = slots s ! j"
  using alloc_Some by fastforce

lemma alloc_in_use:
  assumes "inv s" "alloc a s = Some (s', i)"
  shows "in_use s' = Suc (in_use s)"
proof -
  obtain e where e: "used e" "slots s' = (slots s)[i := e]"
    using alloc_Some [OF assms] by blast
  show ?thesis
    using length_filter_update [of i "slots s" used e] alloc_bound [OF assms]
      alloc_was_free [OF assms] e
    by (simp add: in_use_def)
qed

lemma alloc_full:
  assumes "inv s" "in_use s = length (slots s)"
  shows "alloc a s = None"
proof (cases "alloc a s")
  case (Some r)
  obtain s' i where "alloc a s = Some (s', i)" using Some by (cases r) simp
  then have "in_use s' = Suc (in_use s)" "length (slots s') = length (slots s)"
    using alloc_in_use alloc_length assms by blast+
  then show ?thesis using assms in_use_le [of s'] by simp
qed

lemma alloc_fails_iff:
  assumes "inv s" "admits a s"
  shows "alloc a s = None \<longleftrightarrow> in_use s = length (slots s)"
proof
  assume "alloc a s = None"
  then show "in_use s = length (slots s)"
    using alloc_None [OF assms] by (simp add: in_use_def filter_id_conv)
qed (rule alloc_full [OF assms(1)])

text \<open>Two allocations in a row never hand out the same slot.\<close>

lemma alloc_twice_distinct:
  assumes "inv s" "alloc a s = Some (s1, i)" "alloc b s1 = Some (s2, j)"
  shows "i \<noteq> j"
  using alloc_now_used [OF assms(1,2)] alloc_was_free assms alloc_inv by blast

primrec alloc_all :: "'a list \<Rightarrow> 's \<Rightarrow> ('s \<times> nat list) option" where
  "alloc_all [] s = Some (s, [])"
| "alloc_all (a # as) s = (case alloc a s of None \<Rightarrow> None
     | Some (s', i) \<Rightarrow> (case alloc_all as s' of None \<Rightarrow> None
         | Some (s'', is) \<Rightarrow> Some (s'', i # is)))"

lemma alloc_all_distinct:
  "inv s \<Longrightarrow> alloc_all as s = Some (s', is) \<Longrightarrow>
   distinct is \<and> (\<forall>i\<in>set is. i < length (slots s) \<and> \<not> used (slots s ! i))"
proof (induction as arbitrary: s s' "is")
  case (Cons a as)
  obtain s1 i js where *: "alloc a s = Some (s1, i)" "alloc_all as s1 = Some (s', js)" "is = i # js"
    using Cons.prems(2) by (auto split: option.splits)
  have IH: "distinct js" "\<forall>j\<in>set js. j < length (slots s1) \<and> \<not> used (slots s1 ! j)"
    using Cons.IH [OF alloc_inv [OF Cons.prems(1) *(1)] *(2)] by auto
  have "i \<notin> set js" using IH(2) alloc_now_used [OF Cons.prems(1) *(1)] by blast
  moreover have "\<forall>j\<in>set js. j < length (slots s) \<and> \<not> used (slots s ! j)"
    using IH(2) alloc_frame [OF Cons.prems(1) *(1)] alloc_length [OF Cons.prems(1) *(1)]
      \<open>i \<notin> set js\<close> by metis
  ultimately show ?case
    using IH(1) *(3) alloc_bound [OF Cons.prems(1) *(1)] alloc_was_free [OF Cons.prems(1) *(1)]
    by simp
qed simp

end

text \<open>A pool admits every request, so that running out of slots is the only way to fail.\<close>

locale slot_pool = slot_table slots used alloc inv admits
  for slots :: "'s \<Rightarrow> 'e list" and used alloc inv and admits :: "'a \<Rightarrow> 's \<Rightarrow> bool" +
  assumes admits_all: "inv s \<Longrightarrow> admits a s"
begin

text \<open>A sequence of allocations succeeds exactly when enough slots are free.\<close>

lemma alloc_all_iff:
  "inv s \<Longrightarrow> alloc_all as s \<noteq> None \<longleftrightarrow> in_use s + length as \<le> length (slots s)"
proof (induction as arbitrary: s)
  case Nil
  then show ?case using in_use_le by simp
next
  case (Cons a as)
  show ?case
  proof (cases "alloc a s")
    case None
    then show ?thesis using alloc_fails_iff [OF Cons.prems admits_all [OF Cons.prems]] by auto
  next
    case (Some r)
    obtain s' i where r: "r = (s', i)" by (cases r)
    have *: "inv s'" "in_use s' = Suc (in_use s)" "length (slots s') = length (slots s)"
      using alloc_inv alloc_in_use alloc_length Cons.prems Some r by blast+
    show ?thesis using Cons.IH [OF *(1)] * Some r by (auto split: option.splits)
  qed
qed

end

end
