(* ===== verification/Json_Memory.thy ===== *)
theory Json_Memory
  imports Bview_Prelude
begin

text \<open>The buffer pools of the JSON encoders: apps/bst/api/bst_json_memory.c with its small and
  large slices, and infrastructure/system/system_utils/api/system_utils_json_memory.c with small
  slices only. Addresses are natural numbers from the address of the pool's first byte; the
  time a slice was taken is a parameter. The NULL address is 0. The callers pass a valid result
  pointer, and the mutex is not modelled.\<close>

section \<open>Slices\<close>

record memory_slice =
  slice_buffer :: nat
  slice_size :: nat
  slice_inUse :: bool
  slice_timeTaken :: int

definition BUFPOOL_MAX_RESPONE_SLICES :: nat where "BUFPOOL_MAX_RESPONE_SLICES = 20"
definition BUFPOOL_MAX_REPORT_SLICES :: nat where "BUFPOOL_MAX_REPORT_SLICES = 4"
definition BSTJSON_MEMSIZE_RESPONSE :: nat where "BSTJSON_MEMSIZE_RESPONSE = 1024"

text \<open>The bytes of the snapshot structure (all members are 64-bit) plus 32 * 2048.\<close>

definition BSTJSON_MEMSIZE_REPORT :: nat where
  "BSTJSON_MEMSIZE_REPORT =
     8 * (1 + 130 * 8 * 2 + 130 * 5 + 5 + 130 * 4 * 4 + 4 * 3 + 4096 * 2 + 128 + 1040 * 3 + 8 * 2 + 11 * 2)
     + 32 * 2048"

definition slices_init :: "nat \<Rightarrow> nat \<Rightarrow> nat \<Rightarrow> memory_slice list" where
  "slices_init start bytes n = map (\<lambda>i. \<lparr>slice_buffer = start + i * bytes, slice_size = bytes,
     slice_inUse = False, slice_timeTaken = 0\<rparr>) [0..<n]"

text \<open>The search for a free slice and its marking; None when all are taken.\<close>

definition slices_take ::
  "int \<Rightarrow> nat \<Rightarrow> memory_slice list \<Rightarrow> (memory_slice list \<times> nat) option" where
  "slices_take now bytes xs =
     (case find_index (\<lambda>s. \<not> slice_inUse s) xs of
        None \<Rightarrow> None
      | Some i \<Rightarrow> Some (xs[i := (xs ! i)\<lparr>slice_inUse := True, slice_size := bytes, slice_timeTaken := now\<rparr>], i))"

text \<open>The return of a pointer that lies in the range of a pool.\<close>

definition slices_return ::
  "nat \<Rightarrow> nat \<Rightarrow> nat \<Rightarrow> memory_slice list \<Rightarrow> BVIEW_STATUS \<times> memory_slice list" where
  "slices_return start bytes pointer xs =
     (let temp = pointer - start in
      if temp mod bytes \<noteq> 0 then (BVIEW_STATUS_INVALID_MEMORY, xs)
      else let i = temp div bytes in
        if slice_buffer (xs ! i) = pointer
        then (BVIEW_STATUS_SUCCESS, xs[i := (xs ! i)\<lparr>slice_inUse := False, slice_timeTaken := 0\<rparr>])
        else (BVIEW_STATUS_INVALID_MEMORY, xs))"

section \<open>The BST pool\<close>

record bst_memory_pool =
  pool_base :: nat
  smallSlices :: "memory_slice list"
  largeSlices :: "memory_slice list"

definition SMALL_POOL_START :: "bst_memory_pool \<Rightarrow> nat" where
  "SMALL_POOL_START p = pool_base p"
definition SMALL_POOL_END :: "bst_memory_pool \<Rightarrow> nat" where
  "SMALL_POOL_END p = SMALL_POOL_START p + (BUFPOOL_MAX_RESPONE_SLICES - 1) * BSTJSON_MEMSIZE_RESPONSE"
definition LARGE_POOL_START :: "bst_memory_pool \<Rightarrow> nat" where
  "LARGE_POOL_START p = pool_base p + BUFPOOL_MAX_RESPONE_SLICES * BSTJSON_MEMSIZE_RESPONSE"
definition LARGE_POOL_END :: "bst_memory_pool \<Rightarrow> nat" where
  "LARGE_POOL_END p = LARGE_POOL_START p + (BUFPOOL_MAX_REPORT_SLICES - 1) * BSTJSON_MEMSIZE_REPORT"

definition bstjson_memory_init :: "nat \<Rightarrow> bst_memory_pool" where
  "bstjson_memory_init base =
     \<lparr>pool_base = base,
      smallSlices = slices_init base BSTJSON_MEMSIZE_RESPONSE BUFPOOL_MAX_RESPONE_SLICES,
      largeSlices = slices_init (base + BUFPOOL_MAX_RESPONE_SLICES * BSTJSON_MEMSIZE_RESPONSE)
        BSTJSON_MEMSIZE_REPORT BUFPOOL_MAX_REPORT_SLICES\<rparr>"

definition bstjson_memory_allocate ::
  "int \<Rightarrow> nat \<Rightarrow> bst_memory_pool \<Rightarrow> BVIEW_STATUS \<times> nat option \<times> bst_memory_pool" where
  "bstjson_memory_allocate now memSize p =
     (if \<not> (memSize = BSTJSON_MEMSIZE_RESPONSE \<or> memSize = BSTJSON_MEMSIZE_REPORT)
      then (BVIEW_STATUS_INVALID_PARAMETER, None, p)
      else if memSize = BSTJSON_MEMSIZE_RESPONSE then
        (case slices_take now memSize (smallSlices p) of
           None \<Rightarrow> (BVIEW_STATUS_OUTOFMEMORY, None, p)
         | Some (xs, i) \<Rightarrow> (BVIEW_STATUS_SUCCESS, Some (slice_buffer (xs ! i)), p\<lparr>smallSlices := xs\<rparr>))
      else
        (case slices_take now memSize (largeSlices p) of
           None \<Rightarrow> (BVIEW_STATUS_OUTOFMEMORY, None, p)
         | Some (xs, i) \<Rightarrow> (BVIEW_STATUS_SUCCESS, Some (slice_buffer (xs ! i)), p\<lparr>largeSlices := xs\<rparr>)))"

definition bstjson_memory_free :: "nat \<Rightarrow> bst_memory_pool \<Rightarrow> BVIEW_STATUS \<times> bst_memory_pool" where
  "bstjson_memory_free pointer p =
     (if pointer = 0 \<or> \<not> ((SMALL_POOL_START p \<le> pointer \<and> pointer \<le> SMALL_POOL_END p) \<or>
             (LARGE_POOL_START p \<le> pointer \<and> pointer \<le> LARGE_POOL_END p))
      then (BVIEW_STATUS_INVALID_PARAMETER, p)
      else if pointer \<le> SMALL_POOL_END p then
        (case slices_return (SMALL_POOL_START p) BSTJSON_MEMSIZE_RESPONSE pointer (smallSlices p) of
           (rv, xs) \<Rightarrow> (rv, p\<lparr>smallSlices := xs\<rparr>))
      else if pointer \<le> LARGE_POOL_END p then
        (case slices_return (LARGE_POOL_START p) BSTJSON_MEMSIZE_REPORT pointer (largeSlices p) of
           (rv, xs) \<Rightarrow> (rv, p\<lparr>largeSlices := xs\<rparr>))
      else (BVIEW_STATUS_INVALID_MEMORY, p))"

section \<open>The system utilities' pool\<close>

record sys_memory_pool =
  sys_pool_base :: nat
  sys_smallSlices :: "memory_slice list"

definition SYSTEM_UTILS_SMALL_POOL_END :: "sys_memory_pool \<Rightarrow> nat" where
  "SYSTEM_UTILS_SMALL_POOL_END p =
     sys_pool_base p + (BUFPOOL_MAX_RESPONE_SLICES - 1) * BSTJSON_MEMSIZE_RESPONSE"

definition system_utils_json_memory_init :: "nat \<Rightarrow> sys_memory_pool" where
  "system_utils_json_memory_init base =
     \<lparr>sys_pool_base = base,
      sys_smallSlices = slices_init base BSTJSON_MEMSIZE_RESPONSE BUFPOOL_MAX_RESPONE_SLICES\<rparr>"

definition system_utils_json_memory_allocate ::
  "int \<Rightarrow> nat \<Rightarrow> sys_memory_pool \<Rightarrow> BVIEW_STATUS \<times> nat option \<times> sys_memory_pool" where
  "system_utils_json_memory_allocate now memSize p =
     (if memSize \<noteq> BSTJSON_MEMSIZE_RESPONSE then (BVIEW_STATUS_INVALID_PARAMETER, None, p)
      else (case slices_take now memSize (sys_smallSlices p) of
           None \<Rightarrow> (BVIEW_STATUS_OUTOFMEMORY, None, p)
         | Some (xs, i) \<Rightarrow> (BVIEW_STATUS_SUCCESS, Some (slice_buffer (xs ! i)), p\<lparr>sys_smallSlices := xs\<rparr>)))"

definition system_utils_json_memory_free :: "nat \<Rightarrow> sys_memory_pool \<Rightarrow> BVIEW_STATUS \<times> sys_memory_pool" where
  "system_utils_json_memory_free pointer p =
     (if pointer = 0 \<or> \<not> (sys_pool_base p \<le> pointer \<and> pointer \<le> SYSTEM_UTILS_SMALL_POOL_END p)
      then (BVIEW_STATUS_INVALID_PARAMETER, p)
      else (case slices_return (sys_pool_base p) BSTJSON_MEMSIZE_RESPONSE pointer (sys_smallSlices p) of
           (rv, xs) \<Rightarrow> (rv, p\<lparr>sys_smallSlices := xs\<rparr>)))"

section \<open>Well-formed slices\<close>

definition slices_ok :: "nat \<Rightarrow> nat \<Rightarrow> nat \<Rightarrow> memory_slice list \<Rightarrow> bool" where
  "slices_ok start bytes n xs = (length xs = n \<and> (\<forall>i<n. slice_buffer (xs ! i) = start + i * bytes))"

lemma slices_init_ok: "slices_ok start bytes n (slices_init start bytes n)"
  by (simp add: slices_ok_def slices_init_def)

lemma slices_take_Some:
  assumes "slices_ok start bytes n xs" "slices_take now sz xs = Some (ys, i)"
  shows "find_index (\<lambda>s. \<not> slice_inUse s) xs = Some i \<and> i < n
    \<and> ys = xs[i := (xs ! i)\<lparr>slice_inUse := True, slice_size := sz, slice_timeTaken := now\<rparr>]
    \<and> slice_buffer (ys ! i) = start + i * bytes \<and> slices_ok start bytes n ys"
proof -
  have f: "find_index (\<lambda>s. \<not> slice_inUse s) xs = Some i"
    and ys: "ys = xs[i := (xs ! i)\<lparr>slice_inUse := True, slice_size := sz, slice_timeTaken := now\<rparr>]"
    using assms(2) by (auto simp: slices_take_def split: option.splits)
  have "i < n" using find_index_SomeD [OF f] assms(1) by (simp add: slices_ok_def)
  then show ?thesis using f ys assms(1) by (auto simp: slices_ok_def nth_list_update)
qed

lemma slices_return_slot:
  assumes "slices_ok start bytes n xs" "i < n" "0 < bytes"
  shows "slices_return start bytes (start + i * bytes) xs =
    (BVIEW_STATUS_SUCCESS, xs[i := (xs ! i)\<lparr>slice_inUse := False, slice_timeTaken := 0\<rparr>])"
  using assms by (simp add: slices_return_def slices_ok_def)

lemma slices_return_misaligned:
  "(pointer - start) mod bytes \<noteq> 0 \<Longrightarrow> slices_return start bytes pointer xs = (BVIEW_STATUS_INVALID_MEMORY, xs)"
  by (simp add: slices_return_def)

lemma slices_return_ok:
  assumes "slices_ok start bytes n xs"
  shows "slices_ok start bytes n (snd (slices_return start bytes pointer xs))"
proof -
  have "slice_buffer (ys [i := (ys ! i)\<lparr>slice_inUse := False, slice_timeTaken := 0\<rparr>] ! j) = slice_buffer (ys ! j)"
    for ys :: "memory_slice list" and i j by (cases "i < length ys"; cases "i = j") (simp_all add: list_update_beyond)
  then show ?thesis using assms by (auto simp: slices_return_def slices_ok_def Let_def)
qed

text \<open>The offsets of a slice are within its pool's range, and only the small slices are below
  the end of the small pool.\<close>

lemma small_range: "i < BUFPOOL_MAX_RESPONE_SLICES \<Longrightarrow>
    SMALL_POOL_START p + i * BSTJSON_MEMSIZE_RESPONSE \<le> SMALL_POOL_END p"
  by (simp add: SMALL_POOL_END_def BUFPOOL_MAX_RESPONE_SLICES_def BSTJSON_MEMSIZE_RESPONSE_def)

lemma large_range: "i < BUFPOOL_MAX_REPORT_SLICES \<Longrightarrow>
    LARGE_POOL_START p + i * BSTJSON_MEMSIZE_REPORT \<le> LARGE_POOL_END p"
  by (simp add: LARGE_POOL_END_def BUFPOOL_MAX_REPORT_SLICES_def)

lemma pools_apart: "SMALL_POOL_END p < LARGE_POOL_START p"
  by (simp add: SMALL_POOL_END_def LARGE_POOL_START_def SMALL_POOL_START_def
      BUFPOOL_MAX_RESPONE_SLICES_def BSTJSON_MEMSIZE_RESPONSE_def)

lemma memsize_distinct: "BSTJSON_MEMSIZE_REPORT \<noteq> BSTJSON_MEMSIZE_RESPONSE" "0 < BSTJSON_MEMSIZE_REPORT"
  "0 < BSTJSON_MEMSIZE_RESPONSE"
  by (simp_all add: BSTJSON_MEMSIZE_REPORT_def BSTJSON_MEMSIZE_RESPONSE_def)

definition pool_ok :: "bst_memory_pool \<Rightarrow> bool" where
  "pool_ok p = (0 < pool_base p \<and> slices_ok (SMALL_POOL_START p) BSTJSON_MEMSIZE_RESPONSE BUFPOOL_MAX_RESPONE_SLICES (smallSlices p)
     \<and> slices_ok (LARGE_POOL_START p) BSTJSON_MEMSIZE_REPORT BUFPOOL_MAX_REPORT_SLICES (largeSlices p))"

definition sys_pool_ok :: "sys_memory_pool \<Rightarrow> bool" where
  "sys_pool_ok p = (0 < sys_pool_base p \<and>
     slices_ok (sys_pool_base p) BSTJSON_MEMSIZE_RESPONSE BUFPOOL_MAX_RESPONE_SLICES (sys_smallSlices p))"

lemma pool_start_simps [simp]:
  "SMALL_POOL_START (p\<lparr>smallSlices := xs\<rparr>) = SMALL_POOL_START p"
  "LARGE_POOL_START (p\<lparr>smallSlices := xs\<rparr>) = LARGE_POOL_START p"
  "SMALL_POOL_START (p\<lparr>largeSlices := xs\<rparr>) = SMALL_POOL_START p"
  "LARGE_POOL_START (p\<lparr>largeSlices := xs\<rparr>) = LARGE_POOL_START p"
  by (simp_all add: SMALL_POOL_START_def LARGE_POOL_START_def)

lemma pool_init_ok:
  "0 < base \<Longrightarrow> pool_ok (bstjson_memory_init base)"
  "0 < base \<Longrightarrow> sys_pool_ok (system_utils_json_memory_init base)"
  by (simp_all add: pool_ok_def sys_pool_ok_def bstjson_memory_init_def system_utils_json_memory_init_def
      SMALL_POOL_START_def LARGE_POOL_START_def slices_init_ok)

section \<open>The contract of a buffer pool\<close>

text \<open>A pool whose slots have addresses, and which takes back a slot by its address.\<close>

locale buffer_pool = slot_pool slots used alloc inv admits
  for slots :: "'s \<Rightarrow> 'e list" and used alloc inv and admits :: "'a \<Rightarrow> 's \<Rightarrow> bool" +
  fixes addr :: "'s \<Rightarrow> nat \<Rightarrow> nat"
    and release :: "nat \<Rightarrow> 's \<Rightarrow> BVIEW_STATUS \<times> 's"
  assumes addr_inj: "inv s \<Longrightarrow> i < length (slots s) \<Longrightarrow> j < length (slots s) \<Longrightarrow>
        addr s i = addr s j \<Longrightarrow> i = j"
    and addr_alloc: "inv s \<Longrightarrow> alloc a s = Some (s', i) \<Longrightarrow> addr s' = addr s"
    and release_slot: "inv s \<Longrightarrow> i < length (slots s) \<Longrightarrow> release (addr s i) s = (rv, s') \<Longrightarrow>
        rv = BVIEW_STATUS_SUCCESS \<and> inv s' \<and> addr s' = addr s
        \<and> (\<exists>e. \<not> used e \<and> slots s' = (slots s)[i := e])"
begin

text \<open>Giving back an allocated buffer frees exactly its slot.\<close>

lemma release_in_use:
  assumes "inv s" "i < length (slots s)" "used (slots s ! i)"
  shows "fst (release (addr s i) s) = BVIEW_STATUS_SUCCESS"
    "Suc (in_use (snd (release (addr s i) s))) = in_use s"
proof -
  obtain e where e: "\<not> used e" "slots (snd (release (addr s i) s)) = (slots s)[i := e]"
    "fst (release (addr s i) s) = BVIEW_STATUS_SUCCESS"
    using release_slot [OF assms(1,2) prod.collapse [symmetric]] by blast
  then show "fst (release (addr s i) s) = BVIEW_STATUS_SUCCESS"
    "Suc (in_use (snd (release (addr s i) s))) = in_use s"
    using length_filter_update [OF assms(2), of used e] assms(3) by (simp_all add: in_use_def)
qed

text \<open>Allocating and giving back leaves the number of free slots as it was.\<close>

lemma alloc_release:
  assumes "inv s" "alloc a s = Some (s', i)"
  shows "in_use (snd (release (addr s' i) s')) = in_use s"
proof -
  have "inv s'" "i < length (slots s')" "used (slots s' ! i)" "in_use s' = Suc (in_use s)"
    using alloc_inv alloc_bound alloc_length alloc_now_used alloc_in_use assms by metis+
  then show ?thesis using release_in_use(2) [of s' i] by simp
qed

text \<open>Buffers handed out one after the other without a return in between are different.\<close>

lemma live_buffers_distinct:
  assumes "inv s" "alloc a s = Some (s1, i)" "alloc b s1 = Some (s2, j)"
  shows "addr s1 i \<noteq> addr s2 j"
proof -
  have "i \<noteq> j" by (rule alloc_twice_distinct [OF assms])
  moreover have "addr s2 = addr s1" using addr_alloc alloc_inv assms by metis
  moreover have "i < length (slots s1)" "j < length (slots s1)"
    using alloc_bound alloc_length alloc_inv assms by metis+
  ultimately show ?thesis using addr_inj alloc_inv assms by metis
qed

end

section \<open>The three pools\<close>

definition small_alloc :: "int \<Rightarrow> bst_memory_pool \<Rightarrow> (bst_memory_pool \<times> nat) option" where
  "small_alloc now p =
     (case bstjson_memory_allocate now BSTJSON_MEMSIZE_RESPONSE p of
        (BVIEW_STATUS_SUCCESS, Some b, p') \<Rightarrow>
           Some (p', (b - SMALL_POOL_START p) div BSTJSON_MEMSIZE_RESPONSE)
      | _ \<Rightarrow> None)"

definition large_alloc :: "int \<Rightarrow> bst_memory_pool \<Rightarrow> (bst_memory_pool \<times> nat) option" where
  "large_alloc now p =
     (case bstjson_memory_allocate now BSTJSON_MEMSIZE_REPORT p of
        (BVIEW_STATUS_SUCCESS, Some b, p') \<Rightarrow>
           Some (p', (b - LARGE_POOL_START p) div BSTJSON_MEMSIZE_REPORT)
      | _ \<Rightarrow> None)"

definition sys_alloc :: "int \<Rightarrow> sys_memory_pool \<Rightarrow> (sys_memory_pool \<times> nat) option" where
  "sys_alloc now p =
     (case system_utils_json_memory_allocate now BSTJSON_MEMSIZE_RESPONSE p of
        (BVIEW_STATUS_SUCCESS, Some b, p') \<Rightarrow>
           Some (p', (b - sys_pool_base p) div BSTJSON_MEMSIZE_RESPONSE)
      | _ \<Rightarrow> None)"

lemma slices_take_slot:
  assumes "slices_ok start bytes n xs" "slices_take now sz xs = Some (ys, i)"
  shows "find_index (\<lambda>s. \<not> slice_inUse s) xs = Some i \<and> (\<exists>e. slice_inUse e \<and> ys = xs[i := e])"
proof -
  have "slice_inUse ((xs ! i)\<lparr>slice_inUse := True, slice_size := sz, slice_timeTaken := now\<rparr>)" by simp
  then show ?thesis using slices_take_Some [OF assms] by blast
qed

lemma slices_take_None: "slices_take now sz xs = None \<Longrightarrow> \<forall>s\<in>set xs. slice_inUse s"
  by (simp add: slices_take_def find_index_None split: option.splits)

lemma small_alloc_eq:
  assumes "pool_ok p"
  shows "small_alloc now p =
    map_option (\<lambda>(xs, i). (p\<lparr>smallSlices := xs\<rparr>, i)) (slices_take now BSTJSON_MEMSIZE_RESPONSE (smallSlices p))"
proof -
  have ok: "slices_ok (SMALL_POOL_START p) BSTJSON_MEMSIZE_RESPONSE BUFPOOL_MAX_RESPONE_SLICES (smallSlices p)"
    using assms by (simp add: pool_ok_def)
  show ?thesis
    using slices_take_Some [OF ok] memsize_distinct
    by (auto simp: small_alloc_def bstjson_memory_allocate_def split: option.splits)
qed

lemma large_alloc_eq:
  assumes "pool_ok p"
  shows "large_alloc now p =
    map_option (\<lambda>(xs, i). (p\<lparr>largeSlices := xs\<rparr>, i)) (slices_take now BSTJSON_MEMSIZE_REPORT (largeSlices p))"
proof -
  have ok: "slices_ok (LARGE_POOL_START p) BSTJSON_MEMSIZE_REPORT BUFPOOL_MAX_REPORT_SLICES (largeSlices p)"
    using assms by (simp add: pool_ok_def)
  show ?thesis
    using slices_take_Some [OF ok] memsize_distinct
    by (auto simp: large_alloc_def bstjson_memory_allocate_def split: option.splits)
qed

lemma sys_alloc_eq:
  assumes "sys_pool_ok p"
  shows "sys_alloc now p =
    map_option (\<lambda>(xs, i). (p\<lparr>sys_smallSlices := xs\<rparr>, i)) (slices_take now BSTJSON_MEMSIZE_RESPONSE (sys_smallSlices p))"
proof -
  have ok: "slices_ok (sys_pool_base p) BSTJSON_MEMSIZE_RESPONSE BUFPOOL_MAX_RESPONE_SLICES (sys_smallSlices p)"
    using assms by (simp add: sys_pool_ok_def)
  show ?thesis
    using slices_take_Some [OF ok] memsize_distinct
    by (auto simp: sys_alloc_def system_utils_json_memory_allocate_def split: option.splits)
qed

lemma small_free_slot:
  assumes "pool_ok p" "i < BUFPOOL_MAX_RESPONE_SLICES"
  shows "bstjson_memory_free (SMALL_POOL_START p + i * BSTJSON_MEMSIZE_RESPONSE) p =
    (BVIEW_STATUS_SUCCESS, p\<lparr>smallSlices := (smallSlices p)
       [i := (smallSlices p ! i)\<lparr>slice_inUse := False, slice_timeTaken := 0\<rparr>]\<rparr>)"
proof -
  have "slices_return (SMALL_POOL_START p) BSTJSON_MEMSIZE_RESPONSE
      (SMALL_POOL_START p + i * BSTJSON_MEMSIZE_RESPONSE) (smallSlices p) = (BVIEW_STATUS_SUCCESS,
      (smallSlices p)[i := (smallSlices p ! i)\<lparr>slice_inUse := False, slice_timeTaken := 0\<rparr>])"
    using assms memsize_distinct slices_return_slot unfolding pool_ok_def by blast
  then show ?thesis using assms(1) small_range [OF assms(2), of p]
    by (simp add: bstjson_memory_free_def pool_ok_def SMALL_POOL_START_def)
qed

lemma large_free_slot:
  assumes "pool_ok p" "i < BUFPOOL_MAX_REPORT_SLICES"
  shows "bstjson_memory_free (LARGE_POOL_START p + i * BSTJSON_MEMSIZE_REPORT) p =
    (BVIEW_STATUS_SUCCESS, p\<lparr>largeSlices := (largeSlices p)
       [i := (largeSlices p ! i)\<lparr>slice_inUse := False, slice_timeTaken := 0\<rparr>]\<rparr>)"
proof -
  have "slices_return (LARGE_POOL_START p) BSTJSON_MEMSIZE_REPORT
      (LARGE_POOL_START p + i * BSTJSON_MEMSIZE_REPORT) (largeSlices p) = (BVIEW_STATUS_SUCCESS,
      (largeSlices p)[i := (largeSlices p ! i)\<lparr>slice_inUse := False, slice_timeTaken := 0\<rparr>])"
    using assms memsize_distinct slices_return_slot unfolding pool_ok_def by blast
  moreover have "\<not> LARGE_POOL_START p + i * BSTJSON_MEMSIZE_REPORT \<le> SMALL_POOL_END p"
    using pools_apart [of p] by simp
  ultimately show ?thesis
    using assms(1) large_range [OF assms(2), of p]
    by (simp add: bstjson_memory_free_def pool_ok_def LARGE_POOL_START_def)
qed

lemma sys_free_slot:
  assumes "sys_pool_ok p" "i < BUFPOOL_MAX_RESPONE_SLICES"
  shows "system_utils_json_memory_free (sys_pool_base p + i * BSTJSON_MEMSIZE_RESPONSE) p =
    (BVIEW_STATUS_SUCCESS, p\<lparr>sys_smallSlices := (sys_smallSlices p)
       [i := (sys_smallSlices p ! i)\<lparr>slice_inUse := False, slice_timeTaken := 0\<rparr>]\<rparr>)"
proof -
  have "i * BSTJSON_MEMSIZE_RESPONSE \<le> (BUFPOOL_MAX_RESPONE_SLICES - 1) * BSTJSON_MEMSIZE_RESPONSE"
    using assms(2) by (intro mult_right_mono) auto
  moreover have "slices_return (sys_pool_base p) BSTJSON_MEMSIZE_RESPONSE
      (sys_pool_base p + i * BSTJSON_MEMSIZE_RESPONSE) (sys_smallSlices p) = (BVIEW_STATUS_SUCCESS,
      (sys_smallSlices p)[i := (sys_smallSlices p ! i)\<lparr>slice_inUse := False, slice_timeTaken := 0\<rparr>])"
    using assms memsize_distinct slices_return_slot unfolding sys_pool_ok_def by blast
  ultimately show ?thesis using assms(1)
    by (simp add: system_utils_json_memory_free_def sys_pool_ok_def SYSTEM_UTILS_SMALL_POOL_END_def)
qed

text \<open>The three pools keep the contract.\<close>

interpretation smallpool: buffer_pool smallSlices slice_inUse small_alloc pool_ok "\<lambda>_ _. True"
  "\<lambda>p i. SMALL_POOL_START p + i * BSTJSON_MEMSIZE_RESPONSE" bstjson_memory_free
proof (unfold_locales, goal_cases)
  case (1 p now)
  then show ?case using slices_take_None by (auto simp: small_alloc_eq)
next
  case (2 p now p' i)
  then obtain ys where ys: "slices_take now BSTJSON_MEMSIZE_RESPONSE (smallSlices p) = Some (ys, i)"
    "p' = p\<lparr>smallSlices := ys\<rparr>" by (auto simp: small_alloc_eq)
  with 2(1) slices_take_slot [OF _ ys(1)] slices_take_Some [OF _ ys(1)] show ?case
    by (auto simp: pool_ok_def)
next
  case (4 p i j)
  then show ?case using memsize_distinct by simp
next
  case (5 p now p' i)
  then show ?case by (auto simp: small_alloc_eq)
next
  case (6 p i rv p')
  then have i: "i < BUFPOOL_MAX_RESPONE_SLICES" by (simp add: pool_ok_def slices_ok_def)
  show ?case using 6 small_free_slot [OF 6(1) i]
    by (auto simp: pool_ok_def slices_ok_def nth_list_update
        intro!: exI [of _ "(smallSlices p ! i)\<lparr>slice_inUse := False, slice_timeTaken := 0\<rparr>"])
qed simp_all

interpretation largepool: buffer_pool largeSlices slice_inUse large_alloc pool_ok "\<lambda>_ _. True"
  "\<lambda>p i. LARGE_POOL_START p + i * BSTJSON_MEMSIZE_REPORT" bstjson_memory_free
proof (unfold_locales, goal_cases)
  case (1 p now)
  then show ?case using slices_take_None by (auto simp: large_alloc_eq)
next
  case (2 p now p' i)
  then obtain ys where ys: "slices_take now BSTJSON_MEMSIZE_REPORT (largeSlices p) = Some (ys, i)"
    "p' = p\<lparr>largeSlices := ys\<rparr>" by (auto simp: large_alloc_eq)
  with 2(1) slices_take_slot [OF _ ys(1)] slices_take_Some [OF _ ys(1)] show ?case
    by (auto simp: pool_ok_def)
next
  case (4 p i j)
  then show ?case using memsize_distinct by simp
next
  case (5 p now p' i)
  then show ?case by (auto simp: large_alloc_eq)
next
  case (6 p i rv p')
  then have i: "i < BUFPOOL_MAX_REPORT_SLICES" by (simp add: pool_ok_def slices_ok_def)
  show ?case using 6 large_free_slot [OF 6(1) i]
    by (auto simp: pool_ok_def slices_ok_def nth_list_update
        intro!: exI [of _ "(largeSlices p ! i)\<lparr>slice_inUse := False, slice_timeTaken := 0\<rparr>"])
qed simp_all

interpretation syspool: buffer_pool sys_smallSlices slice_inUse sys_alloc sys_pool_ok "\<lambda>_ _. True"
  "\<lambda>p i. sys_pool_base p + i * BSTJSON_MEMSIZE_RESPONSE" system_utils_json_memory_free
proof (unfold_locales, goal_cases)
  case (1 p now)
  then show ?case using slices_take_None by (auto simp: sys_alloc_eq)
next
  case (2 p now p' i)
  then obtain ys where ys: "slices_take now BSTJSON_MEMSIZE_RESPONSE (sys_smallSlices p) = Some (ys, i)"
    "p' = p\<lparr>sys_smallSlices := ys\<rparr>" by (auto simp: sys_alloc_eq)
  with 2(1) slices_take_slot [OF _ ys(1)] slices_take_Some [OF _ ys(1)] show ?case
    by (auto simp: sys_pool_ok_def)
next
  case (4 p i j)
  then show ?case using memsize_distinct by simp
next
  case (5 p now p' i)
  then show ?case by (auto simp: sys_alloc_eq)
next
  case (6 p i rv p')
  then have i: "i < BUFPOOL_MAX_RESPONE_SLICES" by (simp add: sys_pool_ok_def slices_ok_def)
  show ?case using 6 sys_free_slot [OF 6(1) i]
    by (auto simp: sys_pool_ok_def slices_ok_def nth_list_update
        intro!: exI [of _ "(sys_smallSlices p ! i)\<lparr>slice_inUse := False, slice_timeTaken := 0\<rparr>"])
qed simp_all

section \<open>Buffers as addresses\<close>

lemma allocate_small:
  assumes "pool_ok p" "bstjson_memory_allocate now BSTJSON_MEMSIZE_RESPONSE p = (BVIEW_STATUS_SUCCESS, Some b, p')"
  shows "\<exists>i. small_alloc now p = Some (p', i) \<and> i < BUFPOOL_MAX_RESPONE_SLICES
    \<and> b = SMALL_POOL_START p + i * BSTJSON_MEMSIZE_RESPONSE \<and> SMALL_POOL_START p' = SMALL_POOL_START p
    \<and> LARGE_POOL_START p' = LARGE_POOL_START p \<and> largeSlices p' = largeSlices p"
proof -
  have ok: "slices_ok (SMALL_POOL_START p) BSTJSON_MEMSIZE_RESPONSE BUFPOOL_MAX_RESPONE_SLICES (smallSlices p)"
    using assms(1) by (simp add: pool_ok_def)
  obtain ys i where t: "slices_take now BSTJSON_MEMSIZE_RESPONSE (smallSlices p) = Some (ys, i)"
    "b = slice_buffer (ys ! i)" "p' = p\<lparr>smallSlices := ys\<rparr>"
    using assms(2) by (auto simp: bstjson_memory_allocate_def split: option.splits)
  then show ?thesis
    using slices_take_Some [OF ok t(1)] small_alloc_eq [OF assms(1), of now] by auto
qed

lemma allocate_large:
  assumes "pool_ok p" "bstjson_memory_allocate now BSTJSON_MEMSIZE_REPORT p = (BVIEW_STATUS_SUCCESS, Some b, p')"
  shows "\<exists>i. large_alloc now p = Some (p', i) \<and> i < BUFPOOL_MAX_REPORT_SLICES
    \<and> b = LARGE_POOL_START p + i * BSTJSON_MEMSIZE_REPORT \<and> LARGE_POOL_START p' = LARGE_POOL_START p
    \<and> SMALL_POOL_START p' = SMALL_POOL_START p \<and> smallSlices p' = smallSlices p"
proof -
  have ok: "slices_ok (LARGE_POOL_START p) BSTJSON_MEMSIZE_REPORT BUFPOOL_MAX_REPORT_SLICES (largeSlices p)"
    using assms(1) by (simp add: pool_ok_def)
  obtain ys i where t: "slices_take now BSTJSON_MEMSIZE_REPORT (largeSlices p) = Some (ys, i)"
    "b = slice_buffer (ys ! i)" "p' = p\<lparr>largeSlices := ys\<rparr>"
    using assms(2) memsize_distinct by (auto simp: bstjson_memory_allocate_def split: option.splits)
  then show ?thesis
    using slices_take_Some [OF ok t(1)] large_alloc_eq [OF assms(1), of now] by auto
qed

lemma allocate_size:
  "bstjson_memory_allocate now sz p = (BVIEW_STATUS_SUCCESS, r, p') \<Longrightarrow>
   sz = BSTJSON_MEMSIZE_RESPONSE \<or> sz = BSTJSON_MEMSIZE_REPORT"
  by (auto simp: bstjson_memory_allocate_def split: if_splits)

lemma allocate_ok:
  assumes "pool_ok p" "bstjson_memory_allocate now sz p = (BVIEW_STATUS_SUCCESS, Some b, p')"
  shows "pool_ok p'"
  using allocate_size [OF assms(2)] allocate_small [OF assms(1)] allocate_large [OF assms(1)] assms(2)
    smallpool.alloc_inv [OF assms(1)] largepool.alloc_inv [OF assms(1)] by blast

text \<open>Slots of one pool do not overlap.\<close>

lemma slots_apart:
  "i \<noteq> j \<Longrightarrow> (s::nat) + i * n + n \<le> s + j * n \<or> s + j * n + n \<le> s + i * n"
proof -
  assume "i \<noteq> j"
  then have "Suc i \<le> j \<or> Suc j \<le> i" by linarith
  then have "Suc i * n \<le> j * n \<or> Suc j * n \<le> i * n" using mult_right_mono by blast
  then show ?thesis by auto
qed

lemma pools_disjoint:
  assumes "i < BUFPOOL_MAX_RESPONE_SLICES"
  shows "SMALL_POOL_START p + i * BSTJSON_MEMSIZE_RESPONSE + BSTJSON_MEMSIZE_RESPONSE
    \<le> LARGE_POOL_START p + j * BSTJSON_MEMSIZE_REPORT"
proof -
  have "Suc i * BSTJSON_MEMSIZE_RESPONSE \<le> BUFPOOL_MAX_RESPONE_SLICES * BSTJSON_MEMSIZE_RESPONSE"
    using assms by (intro mult_right_mono) simp_all
  then show ?thesis by (simp add: SMALL_POOL_START_def LARGE_POOL_START_def)
qed

lemma buffers_disjoint:
  assumes "pool_ok p" "bstjson_memory_allocate now sz p = (BVIEW_STATUS_SUCCESS, Some a, p1)"
    "bstjson_memory_allocate now' sz' p1 = (BVIEW_STATUS_SUCCESS, Some b, p2)"
  shows "a + sz \<le> b \<or> b + sz' \<le> a"
proof -
  have ok: "pool_ok p1" using allocate_ok assms(1,2) by blast
  consider (ss) "sz = BSTJSON_MEMSIZE_RESPONSE" "sz' = BSTJSON_MEMSIZE_RESPONSE"
    | (sl) "sz = BSTJSON_MEMSIZE_RESPONSE" "sz' = BSTJSON_MEMSIZE_REPORT"
    | (ls) "sz = BSTJSON_MEMSIZE_REPORT" "sz' = BSTJSON_MEMSIZE_RESPONSE"
    | (ll) "sz = BSTJSON_MEMSIZE_REPORT" "sz' = BSTJSON_MEMSIZE_REPORT"
    using allocate_size [OF assms(2)] allocate_size [OF assms(3)] by blast
  then show ?thesis
  proof cases
    case ss
    obtain i j where "small_alloc now p = Some (p1, i)" "small_alloc now' p1 = Some (p2, j)"
      and ab: "a = SMALL_POOL_START p + i * sz" "b = SMALL_POOL_START p + j * sz'"
      using allocate_small [OF assms(1)] allocate_small [OF ok] assms(2,3) ss by metis
    then have "i \<noteq> j" using smallpool.alloc_twice_distinct [OF assms(1)] by blast
    then show ?thesis unfolding ab using slots_apart ss by simp
  next
    case sl
    obtain i j where "i < BUFPOOL_MAX_RESPONE_SLICES" "a = SMALL_POOL_START p + i * sz"
      "b = LARGE_POOL_START p + j * sz'"
      using allocate_small [OF assms(1)] allocate_large [OF ok] assms(2,3) sl by metis
    then show ?thesis using pools_disjoint [of i p j] sl by simp
  next
    case ls
    obtain i j where "j < BUFPOOL_MAX_RESPONE_SLICES" "a = LARGE_POOL_START p + i * sz"
      "b = SMALL_POOL_START p + j * sz'"
      using allocate_large [OF assms(1)] allocate_small [OF ok] assms(2,3) ls by metis
    then show ?thesis using pools_disjoint [of j p i] ls by simp
  next
    case ll
    obtain i j where "large_alloc now p = Some (p1, i)" "large_alloc now' p1 = Some (p2, j)"
      and ab: "a = LARGE_POOL_START p + i * sz" "b = LARGE_POOL_START p + j * sz'"
      using allocate_large [OF assms(1)] allocate_large [OF ok] assms(2,3) ll by metis
    then have "i \<noteq> j" using largepool.alloc_twice_distinct [OF assms(1)] by blast
    then show ?thesis unfolding ab using slots_apart ll by simp
  qed
qed

text \<open>Only the start of a slice can be given back.\<close>

lemma slices_return_iff:
  assumes "slices_ok start bytes n xs" "start \<le> pointer" "pointer \<le> start + (n - 1) * bytes" "0 < bytes" "0 < n"
  shows "fst (slices_return start bytes pointer xs) = BVIEW_STATUS_SUCCESS \<longleftrightarrow> (\<exists>i<n. pointer = start + i * bytes)"
proof
  assume *: "fst (slices_return start bytes pointer xs) = BVIEW_STATUS_SUCCESS"
  define i where "i = (pointer - start) div bytes"
  have "(pointer - start) mod bytes = 0" using * by (auto simp: slices_return_def Let_def split: if_splits)
  then have "pointer - start = i * bytes" by (simp add: i_def mod_eq_0_iff_dvd)
  then have p: "pointer = start + i * bytes" using assms(2) by simp
  then have "i * bytes \<le> (n - 1) * bytes" using assms(3) by simp
  then have "i < n" using assms(4,5) by simp
  then show "\<exists>i<n. pointer = start + i * bytes" using p by blast
next
  assume "\<exists>i<n. pointer = start + i * bytes"
  then show "fst (slices_return start bytes pointer xs) = BVIEW_STATUS_SUCCESS"
    using slices_return_slot [OF assms(1) _ assms(4)] by auto
qed

lemma slices_return_fail: "fst (slices_return start bytes pointer xs) \<noteq> BVIEW_STATUS_SUCCESS \<Longrightarrow>
    snd (slices_return start bytes pointer xs) = xs"
  by (auto simp: slices_return_def Let_def)

definition slice_start :: "bst_memory_pool \<Rightarrow> nat \<Rightarrow> bool" where
  "slice_start p pointer =
     ((\<exists>i<BUFPOOL_MAX_RESPONE_SLICES. pointer = SMALL_POOL_START p + i * BSTJSON_MEMSIZE_RESPONSE)
    \<or> (\<exists>i<BUFPOOL_MAX_REPORT_SLICES. pointer = LARGE_POOL_START p + i * BSTJSON_MEMSIZE_REPORT))"

lemma free_spec:
  assumes "pool_ok p" "bstjson_memory_free pointer p = (rv, p')"
  shows "pool_ok p'" "rv = BVIEW_STATUS_SUCCESS \<longleftrightarrow> slice_start p pointer"
    "rv \<noteq> BVIEW_STATUS_SUCCESS \<Longrightarrow> p' = p"
proof -
  have ok: "slices_ok (SMALL_POOL_START p) BSTJSON_MEMSIZE_RESPONSE BUFPOOL_MAX_RESPONE_SLICES (smallSlices p)"
    "slices_ok (LARGE_POOL_START p) BSTJSON_MEMSIZE_REPORT BUFPOOL_MAX_REPORT_SLICES (largeSlices p)"
    "0 < pool_base p"
    using assms(1) by (simp_all add: pool_ok_def)
  show "pool_ok p'"
    using assms slices_return_ok [OF ok(1), of pointer] slices_return_ok [OF ok(2), of pointer]
    by (auto simp: bstjson_memory_free_def pool_ok_def split: if_splits prod.splits)
  show "rv = BVIEW_STATUS_SUCCESS \<longleftrightarrow> slice_start p pointer"
  proof
    assume "slice_start p pointer"
    then show "rv = BVIEW_STATUS_SUCCESS"
      using small_free_slot [OF assms(1)] large_free_slot [OF assms(1)] assms(2)
      by (auto simp: slice_start_def)
  next
    assume rv: "rv = BVIEW_STATUS_SUCCESS"
    then consider
      (small) "SMALL_POOL_START p \<le> pointer" "pointer \<le> SMALL_POOL_END p"
        "fst (slices_return (SMALL_POOL_START p) BSTJSON_MEMSIZE_RESPONSE pointer (smallSlices p)) = BVIEW_STATUS_SUCCESS"
      | (large) "LARGE_POOL_START p \<le> pointer" "pointer \<le> LARGE_POOL_END p"
        "fst (slices_return (LARGE_POOL_START p) BSTJSON_MEMSIZE_REPORT pointer (largeSlices p)) = BVIEW_STATUS_SUCCESS"
      using assms(2) pools_apart [of p] by (auto simp: bstjson_memory_free_def split: if_splits prod.splits)
    then show "slice_start p pointer"
    proof cases
      case small
      then show ?thesis
        using slices_return_iff [OF ok(1) small(1)] memsize_distinct
        by (auto simp: slice_start_def SMALL_POOL_END_def BUFPOOL_MAX_RESPONE_SLICES_def)
    next
      case large
      then show ?thesis
        using slices_return_iff [OF ok(2) large(1)] memsize_distinct
        by (auto simp: slice_start_def LARGE_POOL_END_def BUFPOOL_MAX_REPORT_SLICES_def)
    qed
  qed
  obtain r1 xs r2 ys where
    r: "slices_return (SMALL_POOL_START p) BSTJSON_MEMSIZE_RESPONSE pointer (smallSlices p) = (r1, xs)"
      "slices_return (LARGE_POOL_START p) BSTJSON_MEMSIZE_REPORT pointer (largeSlices p) = (r2, ys)"
    by fastforce
  have f: "r1 \<noteq> BVIEW_STATUS_SUCCESS \<Longrightarrow> xs = smallSlices p" "r2 \<noteq> BVIEW_STATUS_SUCCESS \<Longrightarrow> ys = largeSlices p"
    using slices_return_fail r by (metis fst_conv snd_conv)+
  assume "rv \<noteq> BVIEW_STATUS_SUCCESS"
  then show "p' = p"
    using assms(2) f unfolding bstjson_memory_free_def r by (simp split: if_splits)
qed

end
