(* ===== verification/Bst_Types.thy ===== *)
theory Bst_Types
  imports Bview_Prelude
begin

text \<open>The data of the buffer-statistics-tracking application: the public types of
  public/asic.h and public/bst.h and the JSON parameter structures of apps/bst/api. A C int is
  an int, a uint64_t a 64-bit word, a char array the string it holds. Record fields carry a
  prefix where two C structures share a field name.\<close>

type_synonym u64 = "64 word"

section \<open>The silicon\<close>

record asic_capabilities =
  numPorts :: int
  numUnicastQueues :: int
  numUnicastQueueGroups :: int
  numMulticastQueues :: int
  numServicePools :: int
  numCommonPools :: int
  numCpuQueues :: int
  numRqeQueues :: int
  numRqeQueuePools :: int
  numPriorityGroups :: int
  support1588 :: bool
  cellToByteConv :: int

record asic_info =
  asic_unit :: int
  asic_type :: nat
  scalingParams :: asic_capabilities

definition BVIEW_ASIC_TYPE_TD2 :: nat where "BVIEW_ASIC_TYPE_TD2 = 1"
definition BVIEW_ASIC_TYPE_TH :: nat where "BVIEW_ASIC_TYPE_TH = 2"
definition BVIEW_ASIC_TYPE_ALL :: nat where "BVIEW_ASIC_TYPE_ALL = 65535"

definition BVIEW_FEATURE_SYSTEM :: nat where "BVIEW_FEATURE_SYSTEM = 1"
definition BVIEW_FEATURE_BST :: nat where "BVIEW_FEATURE_BST = 2"
definition BVIEW_FEATURE_PACKET_TRACE :: nat where "BVIEW_FEATURE_PACKET_TRACE = 4"

definition BVIEW_ASIC_MAX_PORTS :: nat where "BVIEW_ASIC_MAX_PORTS = 130"
definition BVIEW_ASIC_MAX_UC_QUEUES :: nat where "BVIEW_ASIC_MAX_UC_QUEUES = 4096"
definition BVIEW_ASIC_MAX_UC_QUEUE_GROUPS :: nat where "BVIEW_ASIC_MAX_UC_QUEUE_GROUPS = 128"
definition BVIEW_ASIC_MAX_MC_QUEUES :: nat where "BVIEW_ASIC_MAX_MC_QUEUES = 1040"
definition BVIEW_ASIC_MAX_SERVICE_POOLS :: nat where "BVIEW_ASIC_MAX_SERVICE_POOLS = 4"
definition BVIEW_ASIC_MAX_COMMON_POOLS :: nat where "BVIEW_ASIC_MAX_COMMON_POOLS = 1"
definition BVIEW_ASIC_MAX_CPU_QUEUES :: nat where "BVIEW_ASIC_MAX_CPU_QUEUES = 8"
definition BVIEW_ASIC_MAX_RQE_QUEUES :: nat where "BVIEW_ASIC_MAX_RQE_QUEUES = 11"
definition BVIEW_ASIC_MAX_RQE_QUEUE_POOLS :: nat where "BVIEW_ASIC_MAX_RQE_QUEUE_POOLS = 4"
definition BVIEW_ASIC_MAX_PRIORITY_GROUPS :: nat where "BVIEW_ASIC_MAX_PRIORITY_GROUPS = 8"
definition BVIEW_ASIC_MAX_INGRESS_SERVICE_POOLS :: nat where
  "BVIEW_ASIC_MAX_INGRESS_SERVICE_POOLS = BVIEW_ASIC_MAX_SERVICE_POOLS + BVIEW_ASIC_MAX_COMMON_POOLS"

lemmas asic_max_defs =
  BVIEW_ASIC_MAX_PORTS_def BVIEW_ASIC_MAX_UC_QUEUES_def BVIEW_ASIC_MAX_UC_QUEUE_GROUPS_def
  BVIEW_ASIC_MAX_MC_QUEUES_def BVIEW_ASIC_MAX_SERVICE_POOLS_def BVIEW_ASIC_MAX_COMMON_POOLS_def
  BVIEW_ASIC_MAX_CPU_QUEUES_def BVIEW_ASIC_MAX_RQE_QUEUES_def BVIEW_ASIC_MAX_RQE_QUEUE_POOLS_def
  BVIEW_ASIC_MAX_PRIORITY_GROUPS_def BVIEW_ASIC_MAX_INGRESS_SERVICE_POOLS_def

section \<open>Counters of one snapshot\<close>

record device_data = bufferCount :: u64
record ippg_data = ippg_umShareBufferCount :: u64  ippg_umHeadroomBufferCount :: u64
record ipsp_data = ipsp_umShareBufferCount :: u64
record isp_data = isp_umShareBufferCount :: u64
record epsp_data =
  epsp_ucShareBufferCount :: u64
  epsp_umShareBufferCount :: u64
  epsp_mcShareBufferCount :: u64
  epsp_mcShareQueueEntries :: u64
record esp_data =
  esp_umShareBufferCount :: u64
  esp_mcShareBufferCount :: u64
  esp_mcShareQueueEntries :: u64
record eucq_data = eucq_ucBufferCount :: u64  eucq_port :: u64
record eucqg_data = eucqg_ucBufferCount :: u64
record emcq_data = mcBufferCount :: u64  mcQueueEntries :: u64  emcq_port :: u64
record cpuq_data = cpuBufferCount :: u64  cpuQueueEntries :: u64
record rqeq_data = rqeBufferCount :: u64  rqeQueueEntries :: u64

record asic_snapshot =
  snap_device :: device_data
  snap_iPortPg :: "ippg_data list list"
  snap_iPortSp :: "ipsp_data list list"
  snap_iSp :: "isp_data list"
  snap_ePortSp :: "epsp_data list list"
  snap_eSp :: "esp_data list"
  snap_eUcQ :: "eucq_data list"
  snap_eUcQg :: "eucqg_data list"
  snap_eMcQ :: "emcq_data list"
  snap_cpqQ :: "cpuq_data list"
  snap_rqeQ :: "rqeq_data list"

text \<open>The snapshot after memset to zero.\<close>

definition zero_snapshot :: asic_snapshot where
  "zero_snapshot =
    \<lparr>snap_device = \<lparr>bufferCount = 0\<rparr>,
     snap_iPortPg = replicate BVIEW_ASIC_MAX_PORTS (replicate BVIEW_ASIC_MAX_PRIORITY_GROUPS
        \<lparr>ippg_umShareBufferCount = 0, ippg_umHeadroomBufferCount = 0\<rparr>),
     snap_iPortSp = replicate BVIEW_ASIC_MAX_PORTS (replicate BVIEW_ASIC_MAX_INGRESS_SERVICE_POOLS
        \<lparr>ipsp_umShareBufferCount = 0\<rparr>),
     snap_iSp = replicate BVIEW_ASIC_MAX_INGRESS_SERVICE_POOLS \<lparr>isp_umShareBufferCount = 0\<rparr>,
     snap_ePortSp = replicate BVIEW_ASIC_MAX_PORTS (replicate BVIEW_ASIC_MAX_SERVICE_POOLS
        \<lparr>epsp_ucShareBufferCount = 0, epsp_umShareBufferCount = 0,
         epsp_mcShareBufferCount = 0, epsp_mcShareQueueEntries = 0\<rparr>),
     snap_eSp = replicate BVIEW_ASIC_MAX_SERVICE_POOLS
        \<lparr>esp_umShareBufferCount = 0, esp_mcShareBufferCount = 0, esp_mcShareQueueEntries = 0\<rparr>,
     snap_eUcQ = replicate BVIEW_ASIC_MAX_UC_QUEUES \<lparr>eucq_ucBufferCount = 0, eucq_port = 0\<rparr>,
     snap_eUcQg = replicate BVIEW_ASIC_MAX_UC_QUEUE_GROUPS \<lparr>eucqg_ucBufferCount = 0\<rparr>,
     snap_eMcQ = replicate BVIEW_ASIC_MAX_MC_QUEUES
        \<lparr>mcBufferCount = 0, mcQueueEntries = 0, emcq_port = 0\<rparr>,
     snap_cpqQ = replicate BVIEW_ASIC_MAX_CPU_QUEUES \<lparr>cpuBufferCount = 0, cpuQueueEntries = 0\<rparr>,
     snap_rqeQ = replicate BVIEW_ASIC_MAX_RQE_QUEUES \<lparr>rqeBufferCount = 0, rqeQueueEntries = 0\<rparr>\<rparr>"

section \<open>Maximum buffers, the reference values of percentages\<close>

record epsp_max_buf = epsp_ucShareMaxBuf :: u64  epsp_umShareMaxBuf :: u64  epsp_mcShareMaxBuf :: u64
record ippg_max_buf = ippg_umShareMaxBuf :: u64  ippg_umHeadroomMaxBuf :: u64
record esp_max_buf = esp_umShareMaxBuf :: u64  esp_mcShareMaxBuf :: u64

record max_buf_snapshot =
  max_device :: u64
  max_iPortPg :: "ippg_max_buf list list"
  max_iPortSp :: "u64 list list"
  max_iSp :: "u64 list"
  max_ePortSp :: "epsp_max_buf list list"
  max_eSp :: "esp_max_buf list"
  max_eUcQ :: "u64 list"
  max_eUcQg :: "u64 list"
  max_eMcQ :: "u64 list"
  max_cpqQ :: "u64 list"
  max_rqeQ :: "u64 list"

section \<open>Configuration and thresholds of the silicon\<close>

definition BVIEW_BST_MODE_CURRENT :: int where "BVIEW_BST_MODE_CURRENT = 1"
definition BVIEW_BST_MODE_PEAK :: int where "BVIEW_BST_MODE_PEAK = 2"

record bst_config =
  enableStatsMonitoring :: bool
  enableDeviceStatsMonitoring :: bool
  enableIngressStatsMonitoring :: bool
  enableEgressStatsMonitoring :: bool
  cfg_mode :: int
  enablePeriodicCollection :: bool
  collectionPeriod :: int
  cfg_statsInPercentage :: int
  cfg_statUnitsInCells :: int
  cfg_bstMaxTriggers :: int
  cfg_sendSnapshotOnTrigger :: int
  cfg_triggerTransmitInterval :: int
  cfg_sendIncrementalReport :: int
  cfg_trackMask :: int
  cfg_trackInit :: bool

text \<open>The structure after memset to zero.\<close>

definition zero_bst_config :: bst_config where
  "zero_bst_config =
    \<lparr>enableStatsMonitoring = False, enableDeviceStatsMonitoring = False,
     enableIngressStatsMonitoring = False, enableEgressStatsMonitoring = False,
     cfg_mode = 0, enablePeriodicCollection = False, collectionPeriod = 0,
     cfg_statsInPercentage = 0, cfg_statUnitsInCells = 0, cfg_bstMaxTriggers = 0,
     cfg_sendSnapshotOnTrigger = 0, cfg_triggerTransmitInterval = 0,
     cfg_sendIncrementalReport = 0, cfg_trackMask = 0, cfg_trackInit = False\<rparr>"

record device_threshold = dev_threshold :: u64
record ippg_threshold = ippg_umShareThreshold :: u64  ippg_umHeadroomThreshold :: u64
record ipsp_threshold = ipsp_umShareThreshold :: u64
record isp_threshold = isp_umShareThreshold :: u64
record epsp_threshold =
  epsp_ucShareThreshold :: u64
  epsp_umShareThreshold :: u64
  epsp_mcShareThreshold :: u64
  epsp_mcShareQueueEntriesThreshold :: u64
record esp_threshold = esp_umShareThreshold :: u64  esp_mcShareThreshold :: u64
record eucq_threshold = eucq_ucBufferThreshold :: u64
record eucqg_threshold = eucqg_ucBufferThreshold :: u64
record emcq_threshold = mcBufferThreshold :: u64  mcQueueThreshold :: u64
record cpuq_threshold = cpuBufferThreshold :: u64  cpuQueueThreshold :: u64
record rqeq_threshold = rqeBufferThreshold :: u64  rqeQueueThreshold :: u64

record trigger_info =
  trig_realm :: string
  trig_counter :: string
  trig_port :: int
  trig_queue :: int

section \<open>Parameters of the JSON commands\<close>

record config_params =
  bstEnable :: int
  sendAsyncReports :: int
  collectionInterval :: int
  statsInPercentage :: int
  statUnitsInCells :: int
  bstMaxTriggers :: int
  sendSnapshotOnTrigger :: int
  triggerTransmitInterval :: int
  sendIncrementalReport :: int
  configMask :: "32 word"

record track_params =
  trackMask :: int
  trackPeakStats :: int
  trackIngressPortPriorityGroup :: int
  trackIngressPortServicePool :: int
  trackIngressServicePool :: int
  trackEgressPortServicePool :: int
  trackEgressServicePool :: int
  trackEgressUcQueue :: int
  trackEgressUcQueueGroup :: int
  trackEgressMcQueue :: int
  trackEgressCpuQueue :: int
  trackEgressRqeQueue :: int
  trackDevice :: int

record stat_collect =
  includeIngressPortPriorityGroup :: int
  includeIngressPortServicePool :: int
  includeIngressServicePool :: int
  includeEgressPortServicePool :: int
  includeEgressServicePool :: int
  includeEgressUcQueue :: int
  includeEgressUcQueueGroup :: int
  includeEgressMcQueue :: int
  includeEgressCpuQueue :: int
  includeEgressRqeQueue :: int
  includeDevice :: int

record threshold_command =
  thr_realm :: string
  thr_port :: int
  thr_priorityGroup :: int
  thr_servicePool :: int
  thr_queue :: int
  thr_queueGroup :: int
  thr_threshold :: int
  thr_umShareThreshold :: int
  thr_umHeadroomThreshold :: int
  thr_ucShareThreshold :: int
  thr_mcShareThreshold :: int
  thr_mcShareQueueEntriesThreshold :: int
  thr_ucThreshold :: int
  thr_mcThreshold :: int
  thr_mcQueueEntriesThreshold :: int
  thr_cpuThreshold :: int
  thr_rqeThreshold :: int

section \<open>Realms\<close>

text \<open>The enumeration BVIEW_BST_REALM_ID_t; the threshold types of bst_app.h have the same
  numbers.\<close>

datatype bst_realm =
    BVIEW_BST_DEVICE
  | BVIEW_BST_EGRESS_PORT_SP
  | BVIEW_BST_EGRESS_SP
  | BVIEW_BST_EGRESS_UC_QUEUE
  | BVIEW_BST_EGRESS_UC_QUEUEGROUPS
  | BVIEW_BST_EGRESS_MC_QUEUE
  | BVIEW_BST_EGRESS_CPU_QUEUE
  | BVIEW_BST_EGRESS_RQE_QUEUE
  | BVIEW_BST_INGRESS_PORT_PG
  | BVIEW_BST_INGRESS_PORT_SP
  | BVIEW_BST_INGRESS_SP

primrec realm_id :: "bst_realm \<Rightarrow> nat" where
  "realm_id BVIEW_BST_DEVICE = 1"
| "realm_id BVIEW_BST_EGRESS_PORT_SP = 2"
| "realm_id BVIEW_BST_EGRESS_SP = 3"
| "realm_id BVIEW_BST_EGRESS_UC_QUEUE = 4"
| "realm_id BVIEW_BST_EGRESS_UC_QUEUEGROUPS = 5"
| "realm_id BVIEW_BST_EGRESS_MC_QUEUE = 6"
| "realm_id BVIEW_BST_EGRESS_CPU_QUEUE = 7"
| "realm_id BVIEW_BST_EGRESS_RQE_QUEUE = 8"
| "realm_id BVIEW_BST_INGRESS_PORT_PG = 9"
| "realm_id BVIEW_BST_INGRESS_PORT_SP = 10"
| "realm_id BVIEW_BST_INGRESS_SP = 11"

definition BVIEW_BST_COUNT :: nat where "BVIEW_BST_COUNT = 12"

definition all_realms :: "bst_realm list" where
  "all_realms = [BVIEW_BST_DEVICE, BVIEW_BST_EGRESS_PORT_SP, BVIEW_BST_EGRESS_SP,
     BVIEW_BST_EGRESS_UC_QUEUE, BVIEW_BST_EGRESS_UC_QUEUEGROUPS, BVIEW_BST_EGRESS_MC_QUEUE,
     BVIEW_BST_EGRESS_CPU_QUEUE, BVIEW_BST_EGRESS_RQE_QUEUE, BVIEW_BST_INGRESS_PORT_PG,
     BVIEW_BST_INGRESS_PORT_SP, BVIEW_BST_INGRESS_SP]"

lemma realm_id_inject [simp]: "realm_id a = realm_id b \<longleftrightarrow> a = b"
  by (cases a; cases b; simp)

lemma realm_id_bounds: "1 \<le> realm_id r \<and> realm_id r < BVIEW_BST_COUNT"
  by (cases r) (simp_all add: BVIEW_BST_COUNT_def)

lemma all_realms_set: "r \<in> set all_realms"
  by (cases r) (simp_all add: all_realms_def)

lemma realm_id_nth: "all_realms ! (realm_id r - 1) = r"
  by (cases r) (simp_all add: all_realms_def)

instantiation bst_realm :: linorder
begin

definition less_eq_bst_realm :: "bst_realm \<Rightarrow> bst_realm \<Rightarrow> bool" where
  "less_eq_bst_realm a b = (realm_id a \<le> realm_id b)"

definition less_bst_realm :: "bst_realm \<Rightarrow> bst_realm \<Rightarrow> bool" where
  "less_bst_realm a b = (realm_id a < realm_id b)"

instance
  by standard (auto simp: less_eq_bst_realm_def less_bst_realm_def)

end

end
