(* ===== verification/Bst_Realm.thy ===== *)
theory Bst_Realm
  imports Bst_Types
begin

unbundle bit_operations_syntax

text \<open>The realms in their several encodings: bits of the tracking mask (bst_mask_to_realm and
  bst_realm_to_mask of apps/bst/bst_main.c), include flags of a report (the BST_COPY macros of
  bst_app.h and bst_set_realm_to_collect), names in the JSON commands (bst_realm_type_get of
  bst_nb_api.c) and counters of the triggers (bst_trigger_index_get of bst_trigger.c).\<close>

section \<open>The tracking mask\<close>

definition realm_bit :: "bst_realm \<Rightarrow> int" where
  "realm_bit r = push_bit (realm_id r) 1"

definition mask_has :: "int \<Rightarrow> bst_realm \<Rightarrow> bool" where
  "mask_has m r = (m AND realm_bit r \<noteq> 0)"

definition bst_mask_to_realm :: "int \<Rightarrow> track_params \<Rightarrow> track_params" where
  "bst_mask_to_realm trackingMask data = data\<lparr>
     trackIngressPortPriorityGroup := (if mask_has trackingMask BVIEW_BST_INGRESS_PORT_PG then 1 else 0),
     trackIngressPortServicePool := (if mask_has trackingMask BVIEW_BST_INGRESS_PORT_SP then 1 else 0),
     trackIngressServicePool := (if mask_has trackingMask BVIEW_BST_INGRESS_SP then 1 else 0),
     trackEgressPortServicePool := (if mask_has trackingMask BVIEW_BST_EGRESS_PORT_SP then 1 else 0),
     trackEgressServicePool := (if mask_has trackingMask BVIEW_BST_EGRESS_SP then 1 else 0),
     trackEgressUcQueue := (if mask_has trackingMask BVIEW_BST_EGRESS_UC_QUEUE then 1 else 0),
     trackEgressUcQueueGroup := (if mask_has trackingMask BVIEW_BST_EGRESS_UC_QUEUEGROUPS then 1 else 0),
     trackEgressMcQueue := (if mask_has trackingMask BVIEW_BST_EGRESS_MC_QUEUE then 1 else 0),
     trackEgressCpuQueue := (if mask_has trackingMask BVIEW_BST_EGRESS_CPU_QUEUE then 1 else 0),
     trackEgressRqeQueue := (if mask_has trackingMask BVIEW_BST_EGRESS_RQE_QUEUE then 1 else 0),
     trackDevice := (if mask_has trackingMask BVIEW_BST_DEVICE then 1 else 0)\<rparr>"

definition bst_realm_to_mask :: "track_params \<Rightarrow> int" where
  "bst_realm_to_mask data =
      (if trackIngressPortPriorityGroup data \<noteq> 0 then realm_bit BVIEW_BST_INGRESS_PORT_PG else 0)
      OR (if trackIngressPortServicePool data \<noteq> 0 then realm_bit BVIEW_BST_INGRESS_PORT_SP else 0)
      OR (if trackIngressServicePool data \<noteq> 0 then realm_bit BVIEW_BST_INGRESS_SP else 0)
      OR (if trackEgressPortServicePool data \<noteq> 0 then realm_bit BVIEW_BST_EGRESS_PORT_SP else 0)
      OR (if trackEgressServicePool data \<noteq> 0 then realm_bit BVIEW_BST_EGRESS_SP else 0)
      OR (if trackEgressUcQueue data \<noteq> 0 then realm_bit BVIEW_BST_EGRESS_UC_QUEUE else 0)
      OR (if trackEgressUcQueueGroup data \<noteq> 0 then realm_bit BVIEW_BST_EGRESS_UC_QUEUEGROUPS else 0)
      OR (if trackEgressMcQueue data \<noteq> 0 then realm_bit BVIEW_BST_EGRESS_MC_QUEUE else 0)
      OR (if trackEgressCpuQueue data \<noteq> 0 then realm_bit BVIEW_BST_EGRESS_CPU_QUEUE else 0)
      OR (if trackEgressRqeQueue data \<noteq> 0 then realm_bit BVIEW_BST_EGRESS_RQE_QUEUE else 0)
      OR (if trackDevice data \<noteq> 0 then realm_bit BVIEW_BST_DEVICE else 0)"

section \<open>Report options\<close>

record report_options =
  opt_includeIngressPortPriorityGroup :: bool
  opt_includeIngressPortServicePool :: bool
  opt_includeIngressServicePool :: bool
  opt_includeEgressPortServicePool :: bool
  opt_includeEgressServicePool :: bool
  opt_includeEgressUcQueue :: bool
  opt_includeEgressUcQueueGroup :: bool
  opt_includeEgressMcQueue :: bool
  opt_includeEgressCpuQueue :: bool
  opt_includeEgressRqeQueue :: bool
  opt_includeDevice :: bool
  opt_statUnitsInCells :: bool
  reportTrigger :: bool
  reportThreshold :: bool
  sendSnapShotOnTrigger :: bool
  opt_triggerInfo :: trigger_info
  opt_sendIncrementalReport :: bool
  opt_statsInPercentage :: bool

definition BST_COPY_TRACK_TO_COLLECT :: "track_params \<Rightarrow> stat_collect" where
  "BST_COPY_TRACK_TO_COLLECT t = \<lparr>
     includeIngressPortPriorityGroup = trackIngressPortPriorityGroup t,
     includeIngressPortServicePool = trackIngressPortServicePool t,
     includeIngressServicePool = trackIngressServicePool t,
     includeEgressPortServicePool = trackEgressPortServicePool t,
     includeEgressServicePool = trackEgressServicePool t,
     includeEgressUcQueue = trackEgressUcQueue t,
     includeEgressUcQueueGroup = trackEgressUcQueueGroup t,
     includeEgressMcQueue = trackEgressMcQueue t,
     includeEgressCpuQueue = trackEgressCpuQueue t,
     includeEgressRqeQueue = trackEgressRqeQueue t,
     includeDevice = trackDevice t\<rparr>"

definition BST_COPY_COLLECT_TO_RESP :: "stat_collect \<Rightarrow> report_options \<Rightarrow> report_options" where
  "BST_COPY_COLLECT_TO_RESP c resp = resp\<lparr>
     opt_includeIngressPortPriorityGroup := (includeIngressPortPriorityGroup c \<noteq> 0),
     opt_includeIngressPortServicePool := (includeIngressPortServicePool c \<noteq> 0),
     opt_includeIngressServicePool := (includeIngressServicePool c \<noteq> 0),
     opt_includeEgressPortServicePool := (includeEgressPortServicePool c \<noteq> 0),
     opt_includeEgressServicePool := (includeEgressServicePool c \<noteq> 0),
     opt_includeEgressUcQueue := (includeEgressUcQueue c \<noteq> 0),
     opt_includeEgressUcQueueGroup := (includeEgressUcQueueGroup c \<noteq> 0),
     opt_includeEgressMcQueue := (includeEgressMcQueue c \<noteq> 0),
     opt_includeEgressCpuQueue := (includeEgressCpuQueue c \<noteq> 0),
     opt_includeEgressRqeQueue := (includeEgressRqeQueue c \<noteq> 0),
     opt_includeDevice := (includeDevice c \<noteq> 0)\<rparr>"

definition BST_COPY_TO_RESP :: "bool \<Rightarrow> report_options \<Rightarrow> report_options" where
  "BST_COPY_TO_RESP v resp = resp\<lparr>
     opt_includeIngressPortPriorityGroup := v,
     opt_includeIngressPortServicePool := v,
     opt_includeIngressServicePool := v,
     opt_includeEgressPortServicePool := v,
     opt_includeEgressServicePool := v,
     opt_includeEgressUcQueue := v,
     opt_includeEgressUcQueueGroup := v,
     opt_includeEgressMcQueue := v,
     opt_includeEgressCpuQueue := v,
     opt_includeEgressRqeQueue := v,
     opt_includeDevice := v\<rparr>"

definition bst_set_realm_to_collect :: "string \<Rightarrow> report_options \<Rightarrow> report_options" where
  "bst_set_realm_to_collect realm options =
     (if realm = ''device'' then options\<lparr>opt_includeDevice := True\<rparr>
      else if realm = ''ingress-service-pool'' then options\<lparr>opt_includeIngressServicePool := True\<rparr>
      else if realm = ''ingress-port-service-pool'' then options\<lparr>opt_includeIngressPortServicePool := True\<rparr>
      else if realm = ''ingress-port-priority-group'' then options\<lparr>opt_includeIngressPortPriorityGroup := True\<rparr>
      else if realm = ''egress-port-service-pool'' then options\<lparr>opt_includeEgressPortServicePool := True\<rparr>
      else if realm = ''egress-service-pool'' then options\<lparr>opt_includeEgressServicePool := True\<rparr>
      else if realm = ''egress-uc-queue'' then options\<lparr>opt_includeEgressUcQueue := True\<rparr>
      else if realm = ''egress-uc-queue-group'' then options\<lparr>opt_includeEgressUcQueueGroup := True\<rparr>
      else if realm = ''egress-mc-queue'' then options\<lparr>opt_includeEgressMcQueue := True\<rparr>
      else if realm = ''egress-cpu-queue'' then options\<lparr>opt_includeEgressCpuQueue := True\<rparr>
      else if realm = ''egress-rqe-queue'' then options\<lparr>opt_includeEgressRqeQueue := True\<rparr>
      else options)"

section \<open>Realm names\<close>

text \<open>The names in the order of the table of bst_realm_type_get, with the threshold type each
  stands for.\<close>

definition bst_realm_map :: "(string \<times> nat) list" where
  "bst_realm_map =
    [(''device'', 1), (''ingress-port-priority-group'', 9), (''ingress-port-service-pool'', 10),
     (''ingress-service-pool'', 11), (''egress-port-service-pool'', 2), (''egress-service-pool'', 3),
     (''egress-uc-queue'', 4), (''egress-uc-queue-group'', 5), (''egress-mc-queue'', 6),
     (''egress-cpu-queue'', 7), (''egress-rqe-queue'', 8)]"

text \<open>The loop looks at entry i - 1 for i from the least to the greatest threshold type; no
  match leaves 0.\<close>

definition bst_realm_type_get :: "string \<Rightarrow> nat" where
  "bst_realm_type_get realm =
     (case List.find (\<lambda>i. fst (bst_realm_map ! (i - 1)) = realm) [1..<12] of
        Some i \<Rightarrow> snd (bst_realm_map ! (i - 1)) | None \<Rightarrow> 0)"

primrec realm_name :: "bst_realm \<Rightarrow> string" where
  "realm_name BVIEW_BST_DEVICE = ''device''"
| "realm_name BVIEW_BST_INGRESS_SP = ''ingress-service-pool''"
| "realm_name BVIEW_BST_INGRESS_PORT_SP = ''ingress-port-service-pool''"
| "realm_name BVIEW_BST_INGRESS_PORT_PG = ''ingress-port-priority-group''"
| "realm_name BVIEW_BST_EGRESS_PORT_SP = ''egress-port-service-pool''"
| "realm_name BVIEW_BST_EGRESS_SP = ''egress-service-pool''"
| "realm_name BVIEW_BST_EGRESS_UC_QUEUE = ''egress-uc-queue''"
| "realm_name BVIEW_BST_EGRESS_UC_QUEUEGROUPS = ''egress-uc-queue-group''"
| "realm_name BVIEW_BST_EGRESS_MC_QUEUE = ''egress-mc-queue''"
| "realm_name BVIEW_BST_EGRESS_CPU_QUEUE = ''egress-cpu-queue''"
| "realm_name BVIEW_BST_EGRESS_RQE_QUEUE = ''egress-rqe-queue''"

section \<open>Trigger counters\<close>

definition BST_ID_MAX :: nat where "BST_ID_MAX = 13"

definition bst_realm_index_map :: "(nat \<times> string \<times> string) list" where
  "bst_realm_index_map =
    [(0, ''device'', ''data''),
     (1, ''ingress-service-pool'', ''um-share-buffer-count''),
     (2, ''ingress-port-service-pool'', ''um-share-buffer-count''),
     (3, ''ingress-port-priority-group'', ''um-share-buffer-count''),
     (4, ''ingress-port-priority-group'', ''um-headroom-buffer-count''),
     (5, ''egress-service-pool'', ''um-share-buffer-count''),
     (6, ''egress-service-pool'', ''mc-share-buffer-count''),
     (7, ''egress-uc-queue'', ''uc-buffer-count''),
     (8, ''egress-mc-queue'', ''mc-buffer-count''),
     (9, ''egress-port-service-pool'', ''uc-share-buffer-count''),
     (10, ''egress-port-service-pool'', ''um-share-buffer-count''),
     (11, ''egress-rqe-queue'', ''rqe-buffer-count''),
     (12, ''egress-uc-queue-group'', ''uc-buffer-count'')]"

definition bst_trigger_index_get :: "string \<Rightarrow> string \<Rightarrow> nat option" where
  "bst_trigger_index_get realm counter =
     map_option fst (List.find (\<lambda>e. realm = fst (snd e) \<and> counter = snd (snd e)) bst_realm_index_map)"

section \<open>Facts on the mask\<close>

primrec realm_tracked :: "bst_realm \<Rightarrow> track_params \<Rightarrow> bool" where
  "realm_tracked BVIEW_BST_DEVICE d = (trackDevice d \<noteq> 0)"
| "realm_tracked BVIEW_BST_INGRESS_SP d = (trackIngressServicePool d \<noteq> 0)"
| "realm_tracked BVIEW_BST_INGRESS_PORT_SP d = (trackIngressPortServicePool d \<noteq> 0)"
| "realm_tracked BVIEW_BST_INGRESS_PORT_PG d = (trackIngressPortPriorityGroup d \<noteq> 0)"
| "realm_tracked BVIEW_BST_EGRESS_PORT_SP d = (trackEgressPortServicePool d \<noteq> 0)"
| "realm_tracked BVIEW_BST_EGRESS_SP d = (trackEgressServicePool d \<noteq> 0)"
| "realm_tracked BVIEW_BST_EGRESS_UC_QUEUE d = (trackEgressUcQueue d \<noteq> 0)"
| "realm_tracked BVIEW_BST_EGRESS_UC_QUEUEGROUPS d = (trackEgressUcQueueGroup d \<noteq> 0)"
| "realm_tracked BVIEW_BST_EGRESS_MC_QUEUE d = (trackEgressMcQueue d \<noteq> 0)"
| "realm_tracked BVIEW_BST_EGRESS_CPU_QUEUE d = (trackEgressCpuQueue d \<noteq> 0)"
| "realm_tracked BVIEW_BST_EGRESS_RQE_QUEUE d = (trackEgressRqeQueue d \<noteq> 0)"

primrec realm_included :: "bst_realm \<Rightarrow> report_options \<Rightarrow> bool" where
  "realm_included BVIEW_BST_DEVICE p = opt_includeDevice p"
| "realm_included BVIEW_BST_INGRESS_SP p = opt_includeIngressServicePool p"
| "realm_included BVIEW_BST_INGRESS_PORT_SP p = opt_includeIngressPortServicePool p"
| "realm_included BVIEW_BST_INGRESS_PORT_PG p = opt_includeIngressPortPriorityGroup p"
| "realm_included BVIEW_BST_EGRESS_PORT_SP p = opt_includeEgressPortServicePool p"
| "realm_included BVIEW_BST_EGRESS_SP p = opt_includeEgressServicePool p"
| "realm_included BVIEW_BST_EGRESS_UC_QUEUE p = opt_includeEgressUcQueue p"
| "realm_included BVIEW_BST_EGRESS_UC_QUEUEGROUPS p = opt_includeEgressUcQueueGroup p"
| "realm_included BVIEW_BST_EGRESS_MC_QUEUE p = opt_includeEgressMcQueue p"
| "realm_included BVIEW_BST_EGRESS_CPU_QUEUE p = opt_includeEgressCpuQueue p"
| "realm_included BVIEW_BST_EGRESS_RQE_QUEUE p = opt_includeEgressRqeQueue p"

lemma mask_has_bit: "mask_has m r \<longleftrightarrow> bit m (realm_id r)"
proof -
  have "m AND push_bit n 1 = (if bit m n then push_bit n 1 else 0)" for n
    by (rule bit_eqI) (auto simp: bit_simps)
  then show ?thesis by (simp add: mask_has_def realm_bit_def push_bit_eq_mult)
qed

lemma bit_realm_bit: "bit (realm_bit r) n \<longleftrightarrow> n = realm_id r"
  by (auto simp: realm_bit_def bit_simps)

lemma bit_realm_to_mask:
  "bit (bst_realm_to_mask d) n \<longleftrightarrow> (\<exists>r. n = realm_id r \<and> realm_tracked r d)"
proof -
  have *: "(\<exists>r. n = realm_id r \<and> realm_tracked r d) \<longleftrightarrow> list_ex (\<lambda>r. n = realm_id r \<and> realm_tracked r d) all_realms"
    using all_realms_set by (auto simp: list_ex_iff)
  have i: "bit (if b then realm_bit r else 0) n \<longleftrightarrow> b \<and> n = realm_id r" for b r
    by (simp add: bit_realm_bit)
  show ?thesis
    unfolding * bst_realm_to_mask_def bit_or_iff i by (auto simp: all_realms_def)
qed

text \<open>The mask of a set of tracked realms tells exactly those realms.\<close>

lemma mask_of_realms: "mask_has (bst_realm_to_mask d) r \<longleftrightarrow> realm_tracked r d"
  by (auto simp: mask_has_bit bit_realm_to_mask)

lemma realms_of_mask: "realm_tracked r (bst_mask_to_realm m d) \<longleftrightarrow> mask_has m r"
  by (cases r) (simp_all add: bst_mask_to_realm_def)

text \<open>Bits that belong to no realm are dropped.\<close>

lemma mask_roundtrip: "bst_realm_to_mask (bst_mask_to_realm m d) = m AND 0xFFE"
proof (rule bit_eqI)
  fix n
  have "(\<exists>r. n = realm_id r) \<longleftrightarrow> n \<in> set [1..<12]"
  proof
    assume "\<exists>r. n = realm_id r"
    then show "n \<in> set [1..<12]" using realm_id_bounds by (auto simp: BVIEW_BST_COUNT_def)
  next
    assume "n \<in> set [1..<12]"
    then have "n \<in> set (map realm_id all_realms)" by (simp add: all_realms_def) presburger
    then show "\<exists>r. n = realm_id r" by auto
  qed
  moreover have "bit (0xFFE::int) n \<longleftrightarrow> n \<in> set [1..<12]"
  proof -
    have e: "(0xFFE::int) = push_bit 1 (mask 11)" by (simp add: mask_eq_exp_minus_1 push_bit_eq_mult)
    show ?thesis unfolding e bit_push_bit_iff bit_mask_iff by auto
  qed
  ultimately show "bit (bst_realm_to_mask (bst_mask_to_realm m d)) n \<longleftrightarrow> bit (m AND 0xFFE) n"
    by (auto simp: bit_realm_to_mask realms_of_mask mask_has_bit bit_and_iff)
qed

text \<open>A record of flags that are 0 or 1 is recovered from its mask, the mask field and the
  peak flag apart.\<close>

definition flags_binary :: "track_params \<Rightarrow> bool" where
  "flags_binary d = (\<forall>x\<in>{trackIngressPortPriorityGroup d, trackIngressPortServicePool d,
     trackIngressServicePool d, trackEgressPortServicePool d, trackEgressServicePool d,
     trackEgressUcQueue d, trackEgressUcQueueGroup d, trackEgressMcQueue d, trackEgressCpuQueue d,
     trackEgressRqeQueue d, trackDevice d}. x = 0 \<or> x = 1)"

lemma realms_roundtrip:
  assumes "flags_binary d"
  shows "bst_mask_to_realm (bst_realm_to_mask d) e =
    d\<lparr>trackMask := trackMask e, trackPeakStats := trackPeakStats e\<rparr>"
proof -
  have t: "x = 0 \<or> x = 1 \<Longrightarrow> (if x \<noteq> 0 then 1 else 0) = x" for x :: int by auto
  show ?thesis
    using assms unfolding bst_mask_to_realm_def mask_of_realms
    by (cases d; cases e) (simp add: flags_binary_def t)
qed

section \<open>Facts on names and counters\<close>

lemma realm_type_of_name: "bst_realm_type_get (realm_name r) = realm_id r"
  by (cases r) (simp_all add: bst_realm_type_get_def bst_realm_map_def upt_conv_Cons)

lemma realm_type_zero_iff: "bst_realm_type_get s = 0 \<longleftrightarrow> (\<forall>r. s \<noteq> realm_name r)"
proof
  assume "bst_realm_type_get s = 0"
  then show "\<forall>r. s \<noteq> realm_name r"
    using realm_type_of_name realm_id_bounds by (metis not_one_le_zero)
next
  assume *: "\<forall>r. s \<noteq> realm_name r"
  have "s \<noteq> realm_name r" for r using * by blast
  from this [of BVIEW_BST_DEVICE] this [of BVIEW_BST_EGRESS_PORT_SP] this [of BVIEW_BST_EGRESS_SP]
    this [of BVIEW_BST_EGRESS_UC_QUEUE] this [of BVIEW_BST_EGRESS_UC_QUEUEGROUPS]
    this [of BVIEW_BST_EGRESS_MC_QUEUE] this [of BVIEW_BST_EGRESS_CPU_QUEUE]
    this [of BVIEW_BST_EGRESS_RQE_QUEUE] this [of BVIEW_BST_INGRESS_PORT_PG]
    this [of BVIEW_BST_INGRESS_PORT_SP] this [of BVIEW_BST_INGRESS_SP]
  show "bst_realm_type_get s = 0"
    by (simp add: bst_realm_type_get_def bst_realm_map_def upt_conv_Cons del: eq_commute)
qed

lemma set_realm_to_collect_name:
  "realm_included r' (bst_set_realm_to_collect (realm_name r) p) \<longleftrightarrow> r' = r \<or> realm_included r' p"
  by (cases r) (cases r', simp_all add: bst_set_realm_to_collect_def)+

lemma copy_to_resp_included: "realm_included r (BST_COPY_TO_RESP v p) = v"
  by (cases r) (simp_all add: BST_COPY_TO_RESP_def)

lemma copy_track_included:
  "realm_included r (BST_COPY_COLLECT_TO_RESP (BST_COPY_TRACK_TO_COLLECT d) p) = realm_tracked r d"
  by (cases r) (simp_all add: BST_COPY_COLLECT_TO_RESP_def BST_COPY_TRACK_TO_COLLECT_def)

lemma trigger_index_bound: "bst_trigger_index_get s c = Some i \<Longrightarrow> i < BST_ID_MAX"
  by (auto simp: bst_trigger_index_get_def bst_realm_index_map_def BST_ID_MAX_def split: if_splits)

text \<open>Different counters have different indices.\<close>

lemma trigger_index_inject:
  assumes "bst_trigger_index_get s c = Some i" "bst_trigger_index_get s' c' = Some i"
  shows "s = s' \<and> c = c'"
proof -
  have "distinct (map fst bst_realm_index_map)" by (simp add: bst_realm_index_map_def)
  moreover obtain e where e: "e \<in> set bst_realm_index_map" "fst e = i" "s = fst (snd e)" "c = snd (snd e)"
    using assms(1) unfolding bst_trigger_index_get_def by (auto dest: find_SomeD)
  moreover obtain e' where e': "e' \<in> set bst_realm_index_map" "fst e' = i" "s' = fst (snd e')" "c' = snd (snd e')"
    using assms(2) unfolding bst_trigger_index_get_def by (auto dest: find_SomeD)
  ultimately have "e = e'" by (metis eq_key_imp_eq_value prod.collapse)
  then show ?thesis using e e' by simp
qed

text \<open>No counter of the CPU queues has an index.\<close>

lemma trigger_index_cpu: "bst_trigger_index_get ''egress-cpu-queue'' c = None"
  by (simp add: bst_trigger_index_get_def bst_realm_index_map_def)

end
