(* ===== verification/Sb_Redirect.thy ===== *)
theory Sb_Redirect
  imports Bst_Types
begin

unbundle bit_operations_syntax

text \<open>The south-bound redirector (sb_plugin/sb_redirector/sbplugin_redirect_core.c): the table
  of registered plugins, their validation and registration, and the search for the feature
  that serves a silicon type. A plugin's callback is a function that takes the plugin's own
  state 'hw to a status, what it wrote through its output pointers (None when nothing) and the
  new state; a NULL callback is None. The read/write lock is not modelled.\<close>

section \<open>Plugins\<close>

definition BVIEW_MAX_ASICS_ON_A_PLATFORM :: nat where "BVIEW_MAX_ASICS_ON_A_PLATFORM = 1"
definition BVIEW_MAX_SUPPORTED_SB_PLUGINS :: nat where "BVIEW_MAX_SUPPORTED_SB_PLUGINS = 8"
definition BVIEW_SBPLUGIN_MAX_FEATURES :: nat where "BVIEW_SBPLUGIN_MAX_FEATURES = 17"

type_synonym ('hw, 'r) sb_op = "'hw \<Rightarrow> BVIEW_STATUS \<times> 'r option \<times> 'hw"

text \<open>The BST feature of a plugin: one callback per function of sbfeature_bst.h.\<close>

record 'hw bst_feature =
  bst_supportedAsicMask :: nat
  bst_config_set_cb :: "(int \<Rightarrow> bst_config \<Rightarrow> ('hw, unit) sb_op) option"
  bst_config_get_cb :: "(int \<Rightarrow> ('hw, bst_config) sb_op) option"
  bst_snapshot_get_cb :: "(int \<Rightarrow> ('hw, asic_snapshot \<times> int) sb_op) option"
  bst_device_data_get_cb :: "(int \<Rightarrow> ('hw, device_data \<times> int) sb_op) option"
  bst_ippg_data_get_cb :: "(int \<Rightarrow> ('hw, ippg_data list list \<times> int) sb_op) option"
  bst_ipsp_data_get_cb :: "(int \<Rightarrow> ('hw, ipsp_data list list \<times> int) sb_op) option"
  bst_isp_data_get_cb :: "(int \<Rightarrow> ('hw, isp_data list \<times> int) sb_op) option"
  bst_epsp_data_get_cb :: "(int \<Rightarrow> ('hw, epsp_data list list \<times> int) sb_op) option"
  bst_esp_data_get_cb :: "(int \<Rightarrow> ('hw, esp_data list \<times> int) sb_op) option"
  bst_eucq_data_get_cb :: "(int \<Rightarrow> ('hw, eucq_data list \<times> int) sb_op) option"
  bst_eucqg_data_get_cb :: "(int \<Rightarrow> ('hw, eucqg_data list \<times> int) sb_op) option"
  bst_emcq_data_get_cb :: "(int \<Rightarrow> ('hw, emcq_data list \<times> int) sb_op) option"
  bst_cpuq_data_get_cb :: "(int \<Rightarrow> ('hw, cpuq_data list \<times> int) sb_op) option"
  bst_rqeq_data_get_cb :: "(int \<Rightarrow> ('hw, rqeq_data list \<times> int) sb_op) option"
  bst_device_threshold_set_cb :: "(int \<Rightarrow> device_threshold \<Rightarrow> ('hw, unit) sb_op) option"
  bst_ippg_threshold_set_cb :: "(int \<Rightarrow> int \<Rightarrow> int \<Rightarrow> ippg_threshold \<Rightarrow> ('hw, unit) sb_op) option"
  bst_ipsp_threshold_set_cb :: "(int \<Rightarrow> int \<Rightarrow> int \<Rightarrow> ipsp_threshold \<Rightarrow> ('hw, unit) sb_op) option"
  bst_isp_threshold_set_cb :: "(int \<Rightarrow> int \<Rightarrow> isp_threshold \<Rightarrow> ('hw, unit) sb_op) option"
  bst_epsp_threshold_set_cb :: "(int \<Rightarrow> int \<Rightarrow> int \<Rightarrow> epsp_threshold \<Rightarrow> ('hw, unit) sb_op) option"
  bst_esp_threshold_set_cb :: "(int \<Rightarrow> int \<Rightarrow> esp_threshold \<Rightarrow> ('hw, unit) sb_op) option"
  bst_eucq_threshold_set_cb :: "(int \<Rightarrow> int \<Rightarrow> eucq_threshold \<Rightarrow> ('hw, unit) sb_op) option"
  bst_eucqg_threshold_set_cb :: "(int \<Rightarrow> int \<Rightarrow> eucqg_threshold \<Rightarrow> ('hw, unit) sb_op) option"
  bst_emcq_threshold_set_cb :: "(int \<Rightarrow> int \<Rightarrow> emcq_threshold \<Rightarrow> ('hw, unit) sb_op) option"
  bst_cpuq_threshold_set_cb :: "(int \<Rightarrow> int \<Rightarrow> cpuq_threshold \<Rightarrow> ('hw, unit) sb_op) option"
  bst_rqeq_threshold_set_cb :: "(int \<Rightarrow> int \<Rightarrow> rqeq_threshold \<Rightarrow> ('hw, unit) sb_op) option"
  bst_threshold_get_cb :: "(int \<Rightarrow> ('hw, asic_snapshot \<times> int) sb_op) option"
  bst_clear_stats_cb :: "(int \<Rightarrow> ('hw, unit) sb_op) option"
  bst_clear_thresholds_cb :: "(int \<Rightarrow> ('hw, unit) sb_op) option"
  bst_register_trigger_cb :: "(int \<Rightarrow> nat \<Rightarrow> nat \<Rightarrow> ('hw, unit) sb_op) option"

text \<open>The system feature (sbplugin_system.h). The translate-to callbacks get the buffer they
  write to.\<close>

record 'hw system_feature =
  sys_supportedAsicMask :: nat
  numSupportedAsics :: nat
  asicList :: "asic_info option list"
  featureMask :: int
  system_name_get_cb :: "(int \<Rightarrow> ('hw, string) sb_op) option"
  system_mac_get_cb :: "(int \<Rightarrow> ('hw, string) sb_op) option"
  system_ip4_get_cb :: "(int \<Rightarrow> ('hw, string) sb_op) option"
  system_time_get_cb :: "('hw, int) sb_op option"
  system_asic_translate_from_notation_cb :: "(string \<Rightarrow> ('hw, int) sb_op) option"
  system_asic_translate_to_notation_cb :: "(int \<Rightarrow> string \<Rightarrow> ('hw, string) sb_op) option"
  system_port_translate_from_notation_cb :: "(string \<Rightarrow> ('hw, int) sb_op) option"
  system_port_translate_to_notation_cb :: "(int \<Rightarrow> int \<Rightarrow> string \<Rightarrow> ('hw, string) sb_op) option"
  system_network_os_get_cb :: "(int \<Rightarrow> ('hw, string) sb_op) option"
  system_uid_get_cb :: "(int \<Rightarrow> ('hw, string) sb_op) option"
  system_lag_translate_to_notation_cb :: "(int \<Rightarrow> int \<Rightarrow> string \<Rightarrow> ('hw, string) sb_op) option"
  system_max_buf_snapshot_get_cb :: "(int \<Rightarrow> ('hw, max_buf_snapshot \<times> int) sb_op) option"

text \<open>A feature pointer points to the common header of one of the feature structures; the
  feature id says which. Features the model has no structure for keep their header.\<close>

datatype 'hw sb_feature =
    SB_SYSTEM "'hw system_feature"
  | SB_BST "'hw bst_feature"
  | SB_OTHER nat nat

fun feature_id :: "'hw sb_feature \<Rightarrow> nat" where
  "feature_id (SB_SYSTEM s) = BVIEW_FEATURE_SYSTEM"
| "feature_id (SB_BST b) = BVIEW_FEATURE_BST"
| "feature_id (SB_OTHER i m) = i"

fun supportedAsicMask :: "'hw sb_feature \<Rightarrow> nat" where
  "supportedAsicMask (SB_SYSTEM s) = sys_supportedAsicMask s"
| "supportedAsicMask (SB_BST b) = bst_supportedAsicMask b"
| "supportedAsicMask (SB_OTHER i m) = m"

record 'hw sb_plugin =
  numSupportedFeatures :: nat
  featureList :: "'hw sb_feature option list"

record 'hw plugin_entry =
  plugin_isInUse :: bool
  sbPlugin :: "'hw sb_plugin"

definition zero_plugin_entry :: "'hw plugin_entry" where
  "zero_plugin_entry = \<lparr>plugin_isInUse = False,
     sbPlugin = \<lparr>numSupportedFeatures = 0,
                 featureList = replicate BVIEW_SBPLUGIN_MAX_FEATURES None\<rparr>\<rparr>"

section \<open>Operations\<close>

definition sb_redirector_init :: "'hw plugin_entry list" where
  "sb_redirector_init = replicate BVIEW_MAX_SUPPORTED_SB_PLUGINS zero_plugin_entry"

text \<open>What the two loops of sb_redirect_feature_handle_get carry along: featurePtrOut,
  asicEntryFound and allAsicEntryFound.\<close>

record 'hw handle_scan =
  featurePtrOut :: "'hw sb_feature option"
  asicEntryFound :: bool
  allAsicEntryFound :: bool

definition feature_step ::
  "nat \<Rightarrow> nat \<Rightarrow> 'hw handle_scan \<Rightarrow> 'hw sb_feature option \<Rightarrow> 'hw handle_scan" where
  "feature_step asicType featureId st featurePtr =
     (if asicEntryFound st then st else
      case featurePtr of None \<Rightarrow> st
      | Some f \<Rightarrow>
          if feature_id f = featureId then
            (if supportedAsicMask f = BVIEW_ASIC_TYPE_ALL \<and> \<not> allAsicEntryFound st
               then st\<lparr>featurePtrOut := Some f, allAsicEntryFound := True\<rparr>
             else if supportedAsicMask f AND asicType = asicType
               then st\<lparr>featurePtrOut := Some f, asicEntryFound := True\<rparr>
             else st)
          else st)"

definition plugin_step ::
  "nat \<Rightarrow> nat \<Rightarrow> 'hw handle_scan \<Rightarrow> 'hw plugin_entry \<Rightarrow> 'hw handle_scan" where
  "plugin_step asicType featureId st e =
     (if asicEntryFound st then st
      else if plugin_isInUse e then
        foldl (feature_step asicType featureId) st
          (take (numSupportedFeatures (sbPlugin e)) (featureList (sbPlugin e)))
      else st)"

definition sb_redirect_feature_handle_get ::
  "'hw plugin_entry list \<Rightarrow> nat \<Rightarrow> nat \<Rightarrow> 'hw sb_feature option" where
  "sb_redirect_feature_handle_get ps asicType featureId =
     featurePtrOut (foldl (plugin_step asicType featureId)
       \<lparr>featurePtrOut = None, asicEntryFound = False, allAsicEntryFound = False\<rparr> ps)"

text \<open>The cast of the handle to the system or BST structure, which the feature id guards.\<close>

definition sb_system_handle :: "'hw plugin_entry list \<Rightarrow> nat \<Rightarrow> 'hw system_feature option" where
  "sb_system_handle ps asicType =
     (case sb_redirect_feature_handle_get ps asicType BVIEW_FEATURE_SYSTEM of
        Some (SB_SYSTEM s) \<Rightarrow> Some s | _ \<Rightarrow> None)"

definition sb_bst_handle :: "'hw plugin_entry list \<Rightarrow> nat \<Rightarrow> 'hw bst_feature option" where
  "sb_bst_handle ps asicType =
     (case sb_redirect_feature_handle_get ps asicType BVIEW_FEATURE_BST of
        Some (SB_BST b) \<Rightarrow> Some b | _ \<Rightarrow> None)"

definition sb_redirect_asic_capabilities_get ::
  "'hw plugin_entry list \<Rightarrow> nat \<Rightarrow> asic_capabilities result" where
  "sb_redirect_asic_capabilities_get ps asicType =
     (case sb_system_handle ps asicType of
        None \<Rightarrow> Inl BVIEW_STATUS_FAILURE
      | Some s \<Rightarrow>
          (case filter (\<lambda>a. case a of None \<Rightarrow> False | Some a \<Rightarrow> asic_type a = asicType)
                  (take (numSupportedAsics s) (asicList s)) of
             Some a # as \<Rightarrow> Inr (scalingParams a)
           | _ \<Rightarrow> Inl BVIEW_STATUS_FAILURE))"

text \<open>A plugin is refused when it lists too many features or a system feature with too many
  silicon units.\<close>

definition system_feature_ok :: "'hw sb_feature option \<Rightarrow> bool" where
  "system_feature_ok f = (case f of
       Some (SB_SYSTEM s) \<Rightarrow> \<not> numSupportedAsics s > BVIEW_MAX_ASICS_ON_A_PLATFORM | _ \<Rightarrow> True)"

definition sb_plugin_validate :: "'hw sb_plugin \<Rightarrow> BVIEW_STATUS" where
  "sb_plugin_validate p =
     (if numSupportedFeatures p > BVIEW_SBPLUGIN_MAX_FEATURES then BVIEW_STATUS_FAILURE
      else if \<forall>f\<in>set (take (numSupportedFeatures p) (featureList p)). system_feature_ok f
      then BVIEW_STATUS_SUCCESS else BVIEW_STATUS_FAILURE)"

definition sb_plugin_register ::
  "'hw sb_plugin \<Rightarrow> 'hw plugin_entry list \<Rightarrow> BVIEW_STATUS \<times> 'hw plugin_entry list" where
  "sb_plugin_register p ps =
     (if sb_plugin_validate p = BVIEW_STATUS_FAILURE then (BVIEW_STATUS_FAILURE, ps)
      else case find_index (\<lambda>e. \<not> plugin_isInUse e) ps of
             None \<Rightarrow> (BVIEW_STATUS_TABLE_FULL, ps)
           | Some i \<Rightarrow> (BVIEW_STATUS_SUCCESS, ps[i := \<lparr>plugin_isInUse = True, sbPlugin = p\<rparr>]))"

section \<open>The features the table holds\<close>

text \<open>The features of the registered plugins in the order the search visits them.\<close>

definition plugin_features :: "'hw plugin_entry \<Rightarrow> 'hw sb_feature option list" where
  "plugin_features e = (if plugin_isInUse e
     then take (numSupportedFeatures (sbPlugin e)) (featureList (sbPlugin e)) else [])"

definition visible_features :: "'hw plugin_entry list \<Rightarrow> nat \<Rightarrow> 'hw sb_feature list" where
  "visible_features ps fid =
     filter (\<lambda>f. feature_id f = fid) (somes (concat (map plugin_features ps)))"

definition serves_asic :: "nat \<Rightarrow> 'hw sb_feature \<Rightarrow> bool" where
  "serves_asic asicType f = (supportedAsicMask f AND asicType = asicType)"

definition catch_all :: "'hw sb_feature \<Rightarrow> bool" where
  "catch_all f = (supportedAsicMask f = BVIEW_ASIC_TYPE_ALL)"

text \<open>The search as one function on the visible features.\<close>

fun best_feature :: "nat \<Rightarrow> 'hw sb_feature option \<Rightarrow> 'hw sb_feature list \<Rightarrow> 'hw sb_feature option" where
  "best_feature t all [] = all"
| "best_feature t all (f # fs) =
     (if catch_all f \<and> all = None then best_feature t (Some f) fs
      else if serves_asic t f then Some f
      else best_feature t all fs)"

lemma foldl_found:
  "asicEntryFound st \<Longrightarrow> foldl (feature_step t fid) st fs = st"
  by (induction fs) (simp_all add: feature_step_def)

lemma plugin_step_foldl:
  "plugin_step t fid st e = foldl (feature_step t fid) st (plugin_features e)"
  by (simp add: plugin_step_def plugin_features_def foldl_found)

lemma foldl_plugin_step:
  "foldl (plugin_step t fid) st ps = foldl (feature_step t fid) st (concat (map plugin_features ps))"
  by (induction ps arbitrary: st) (simp_all add: plugin_step_foldl)

lemma feature_step_None [simp]: "feature_step t fid st None = st"
  by (simp add: feature_step_def)

lemma feature_step_other: "feature_id f \<noteq> fid \<Longrightarrow> feature_step t fid st (Some f) = st"
  by (simp add: feature_step_def)

lemma feature_step_cases:
  assumes "\<not> asicEntryFound st" "feature_id f = fid"
  shows "feature_step t fid st (Some f) =
    (if catch_all f \<and> \<not> allAsicEntryFound st
       then st\<lparr>featurePtrOut := Some f, allAsicEntryFound := True\<rparr>
     else if serves_asic t f then st\<lparr>featurePtrOut := Some f, asicEntryFound := True\<rparr>
     else st)"
  using assms by (simp add: feature_step_def catch_all_def serves_asic_def)

lemma foldl_best:
  assumes "\<not> asicEntryFound st" "allAsicEntryFound st \<longleftrightarrow> featurePtrOut st \<noteq> None"
  shows "featurePtrOut (foldl (feature_step t fid) st fs) =
    best_feature t (featurePtrOut st)
      (filter (\<lambda>f. feature_id f = fid) (somes fs))"
  using assms
proof (induction fs arbitrary: st)
  case (Cons fo fs)
  show ?case
  proof (cases fo)
    case None
    then show ?thesis using Cons by simp
  next
    case (Some f)
    consider "feature_id f \<noteq> fid"
      | "feature_id f = fid" "catch_all f \<and> \<not> allAsicEntryFound st"
      | "feature_id f = fid" "\<not> (catch_all f \<and> \<not> allAsicEntryFound st)" "serves_asic t f"
      | "feature_id f = fid" "\<not> (catch_all f \<and> \<not> allAsicEntryFound st)" "\<not> serves_asic t f"
      by blast
    then show ?thesis
    proof cases
      case 3
      then have "foldl (feature_step t fid) st (fo # fs) = st\<lparr>featurePtrOut := Some f, asicEntryFound := True\<rparr>"
        using Some Cons.prems by (simp add: feature_step_cases foldl_found)
      then show ?thesis using 3 Some Cons.prems by auto
    qed (use Some Cons in \<open>auto simp: feature_step_cases feature_step_other\<close>)
  qed
qed simp

lemma handle_get_best:
  "sb_redirect_feature_handle_get ps t fid = best_feature t None (visible_features ps fid)"
  unfolding sb_redirect_feature_handle_get_def foldl_plugin_step visible_features_def
  by (subst foldl_best) simp_all

lemma best_feature_sound:
  "best_feature t all fs = Some f \<Longrightarrow> all = Some f \<or> f \<in> set fs \<and> (serves_asic t f \<or> catch_all f)"
  by (induction t all fs rule: best_feature.induct) (auto split: if_splits)

lemma best_feature_None:
  "best_feature t all fs = None \<longleftrightarrow> all = None \<and> (\<forall>f\<in>set fs. \<not> serves_asic t f \<and> \<not> catch_all f)"
  by (induction t all fs rule: best_feature.induct) auto

text \<open>With at most one catch-all feature the search is: the first feature made for the silicon
  type, else the catch-all one.\<close>

lemma best_feature_one_all:
  "length (filter catch_all fs) + (if all = None then 0 else 1) \<le> 1 \<Longrightarrow>
   best_feature t all fs =
     (case List.find (\<lambda>f. serves_asic t f \<and> \<not> catch_all f) fs of
        Some f \<Rightarrow> Some f
      | None \<Rightarrow> (case all of Some a \<Rightarrow> Some a | None \<Rightarrow> List.find catch_all fs))"
proof (induction t all fs rule: best_feature.induct)
  case (2 t all f fs)
  then show ?case by (cases "catch_all f"; cases all) (auto split: option.splits if_splits)
qed (simp split: option.splits)

text \<open>A second catch-all feature replaces the first: the scan treats it as made for the type.\<close>

lemma best_feature_two_all:
  assumes "catch_all f" "catch_all g" "serves_asic t g"
  shows "best_feature t None (f # g # fs) = Some g"
  using assms by simp

section \<open>Registration\<close>

lemma sb_plugin_validate_cases:
  "sb_plugin_validate p = BVIEW_STATUS_SUCCESS \<or> sb_plugin_validate p = BVIEW_STATUS_FAILURE"
  by (simp add: sb_plugin_validate_def)

definition plugin_table_ok :: "'hw plugin_entry list \<Rightarrow> bool" where
  "plugin_table_ok ps = (length ps = BVIEW_MAX_SUPPORTED_SB_PLUGINS \<and>
     (\<forall>e\<in>set ps. plugin_isInUse e \<longrightarrow> sb_plugin_validate (sbPlugin e) = BVIEW_STATUS_SUCCESS))"

lemma sb_redirector_init_ok: "plugin_table_ok sb_redirector_init"
  by (simp add: plugin_table_ok_def sb_redirector_init_def zero_plugin_entry_def)

text \<open>Registration as an allocation of the plugin table.\<close>

definition plugin_alloc ::
  "'hw sb_plugin \<Rightarrow> 'hw plugin_entry list \<Rightarrow> ('hw plugin_entry list \<times> nat) option" where
  "plugin_alloc p ps = (case (sb_plugin_register p ps, find_index (\<lambda>e. \<not> plugin_isInUse e) ps) of
     ((BVIEW_STATUS_SUCCESS, ps'), Some i) \<Rightarrow> Some (ps', i) | _ \<Rightarrow> None)"

lemma plugin_alloc_eq:
  "plugin_alloc p ps =
    (if sb_plugin_validate p = BVIEW_STATUS_FAILURE then None
     else map_option (\<lambda>i. (ps[i := \<lparr>plugin_isInUse = True, sbPlugin = p\<rparr>], i))
            (find_index (\<lambda>e. \<not> plugin_isInUse e) ps))"
  by (simp add: plugin_alloc_def sb_plugin_register_def split: option.splits)

lemma plugin_table_ok_update:
  assumes "plugin_table_ok ps" "sb_plugin_validate p = BVIEW_STATUS_SUCCESS"
  shows "plugin_table_ok (ps[i := \<lparr>plugin_isInUse = True, sbPlugin = p\<rparr>])"
  using assms set_update_subset [of ps i "\<lparr>plugin_isInUse = True, sbPlugin = p\<rparr>"]
  by (auto simp: plugin_table_ok_def)

lemma plugin_alloc_Some:
  assumes "plugin_table_ok ps" "plugin_alloc p ps = Some (ps', i)"
  shows "find_index (\<lambda>e. \<not> plugin_isInUse e) ps = Some i
    \<and> (\<exists>e. plugin_isInUse e \<and> ps' = ps[i := e]) \<and> plugin_table_ok ps'"
proof -
  have "find_index (\<lambda>e. \<not> plugin_isInUse e) ps = Some i"
    and ps': "ps' = ps[i := \<lparr>plugin_isInUse = True, sbPlugin = p\<rparr>]"
    and "sb_plugin_validate p = BVIEW_STATUS_SUCCESS"
    using assms(2) sb_plugin_validate_cases [of p] by (auto simp: plugin_alloc_eq split: if_splits)
  moreover have "plugin_isInUse \<lparr>plugin_isInUse = True, sbPlugin = p\<rparr>" by simp
  ultimately show ?thesis using plugin_table_ok_update [OF assms(1)] by blast
qed

interpretation plugtab: slot_table "\<lambda>ps. ps" plugin_isInUse plugin_alloc plugin_table_ok
  "\<lambda>p ps. sb_plugin_validate p = BVIEW_STATUS_SUCCESS"
proof unfold_locales
  fix p :: "'a sb_plugin" and ps
  assume "sb_plugin_validate p = BVIEW_STATUS_SUCCESS" "plugin_alloc p ps = None"
  then show "\<forall>e\<in>set ps. plugin_isInUse e" by (simp add: plugin_alloc_eq find_index_None)
qed (rule plugin_alloc_Some)

lemma sb_plugin_register_ok:
  assumes "plugin_table_ok ps"
  shows "plugin_table_ok (snd (sb_plugin_register p ps))"
  using assms sb_plugin_validate_cases [of p] plugin_table_ok_update [OF assms]
  by (auto simp: sb_plugin_register_def split: option.splits)

text \<open>The features a search sees after a successful registration: those of the new plugin
  come where its slot is.\<close>

lemma plugin_features_zero [simp]: "plugin_features zero_plugin_entry = []"
  by (simp add: plugin_features_def zero_plugin_entry_def)

lemma visible_features_init [simp]: "visible_features sb_redirector_init fid = []"
proof -
  have "concat (map plugin_features (replicate n zero_plugin_entry)) = []" for n
    by (induction n) simp_all
  then show ?thesis by (simp add: visible_features_def sb_redirector_init_def)
qed

lemma visible_features_append:
  "visible_features (ps @ qs) fid = visible_features ps fid @ visible_features qs fid"
  by (simp add: visible_features_def)

lemma visible_features_Cons:
  "visible_features (e # ps) fid = visible_features [e] fid @ visible_features ps fid"
  using visible_features_append [of "[e]" ps fid] by simp

lemma visible_features_unused: "\<not> plugin_isInUse e \<Longrightarrow> visible_features [e] fid = []"
  by (simp add: visible_features_def plugin_features_def)

lemma visible_features_set:
  "f \<in> set (visible_features ps fid) \<longleftrightarrow>
   feature_id f = fid \<and> (\<exists>e\<in>set ps. Some f \<in> set (plugin_features e))"
  by (auto simp: visible_features_def)

end
