(* ===== verification/Sb_Api.thy ===== *)
theory Sb_Api
  imports Sb_Redirect
begin

text \<open>The functions the agent calls on the silicon: the system functions of
  sb_plugin/sb_redirector/sbplugin_redirect_system.c and the 29 BST functions of
  sbplugin_redirect_bst.c. Each finds the feature that serves the unit, checks that the
  feature has the callback, and passes its arguments on. The contract they share is the locale
  sb_service; each BST function is an interpretation of it.\<close>

section \<open>System functions\<close>

definition sbapi_system_num_units_get :: "'hw plugin_entry list \<Rightarrow> nat result" where
  "sbapi_system_num_units_get ps =
     (case sb_system_handle ps BVIEW_ASIC_TYPE_ALL of
        None \<Rightarrow> Inl BVIEW_STATUS_FAILURE
      | Some s \<Rightarrow> if numSupportedAsics s = 0 then Inl BVIEW_STATUS_FAILURE
                  else Inr (numSupportedAsics s))"

definition is_unit :: "int \<Rightarrow> asic_info option \<Rightarrow> bool" where
  "is_unit asic a = (case a of None \<Rightarrow> False | Some a \<Rightarrow> asic_unit a = asic)"

text \<open>The loop runs to the first entry of the unit; running to the end is the failure.\<close>

definition sbapi_system_unit_to_asic_type_get :: "'hw plugin_entry list \<Rightarrow> int \<Rightarrow> nat result" where
  "sbapi_system_unit_to_asic_type_get ps asic =
     (case sb_system_handle ps BVIEW_ASIC_TYPE_ALL of
        None \<Rightarrow> Inl BVIEW_STATUS_FAILURE
      | Some s \<Rightarrow>
          if numSupportedAsics s = 0 then Inl BVIEW_STATUS_FAILURE
          else (case List.find (is_unit asic) (take (numSupportedAsics s) (asicList s)) of
                  Some (Some a) \<Rightarrow> Inr (asic_type a)
                | _ \<Rightarrow> Inl BVIEW_STATUS_FAILURE))"

definition sb_system_call ::
  "'hw plugin_entry list \<Rightarrow> nat \<Rightarrow> ('hw system_feature \<Rightarrow> ('hw, 'r) sb_op option) \<Rightarrow> ('hw, 'r) sb_op" where
  "sb_system_call ps asicType sel hw =
     (case sb_system_handle ps asicType of
        None \<Rightarrow> (BVIEW_STATUS_FAILURE, None, hw)
      | Some s \<Rightarrow> (case sel s of
            None \<Rightarrow> (BVIEW_STATUS_UNSUPPORTED, None, hw)
          | Some f \<Rightarrow> f hw))"

definition sbapi_system_name_get :: "'hw plugin_entry list \<Rightarrow> int \<Rightarrow> ('hw, string) sb_op" where
  "sbapi_system_name_get ps len =
     sb_system_call ps BVIEW_ASIC_TYPE_ALL (\<lambda>s. map_option (\<lambda>cb. cb len) (system_name_get_cb s))"

definition sbapi_system_mac_get :: "'hw plugin_entry list \<Rightarrow> int \<Rightarrow> ('hw, string) sb_op" where
  "sbapi_system_mac_get ps len =
     sb_system_call ps BVIEW_ASIC_TYPE_ALL (\<lambda>s. map_option (\<lambda>cb. cb len) (system_mac_get_cb s))"

definition sbapi_system_ip4_get :: "'hw plugin_entry list \<Rightarrow> int \<Rightarrow> ('hw, string) sb_op" where
  "sbapi_system_ip4_get ps len =
     sb_system_call ps BVIEW_ASIC_TYPE_ALL (\<lambda>s. map_option (\<lambda>cb. cb len) (system_ip4_get_cb s))"

definition sbapi_system_uid_get :: "'hw plugin_entry list \<Rightarrow> int \<Rightarrow> ('hw, string) sb_op" where
  "sbapi_system_uid_get ps len =
     sb_system_call ps BVIEW_ASIC_TYPE_ALL (\<lambda>s. map_option (\<lambda>cb. cb len) (system_uid_get_cb s))"

definition sbapi_system_time_get :: "'hw plugin_entry list \<Rightarrow> ('hw, int) sb_op" where
  "sbapi_system_time_get ps =
     sb_system_call ps BVIEW_ASIC_TYPE_ALL (\<lambda>s. system_time_get_cb s)"

definition sbapi_system_asic_translate_from_notation :: "'hw plugin_entry list \<Rightarrow> string \<Rightarrow> ('hw, int) sb_op" where
  "sbapi_system_asic_translate_from_notation ps src =
     sb_system_call ps BVIEW_ASIC_TYPE_ALL (\<lambda>s. map_option (\<lambda>cb. cb src) (system_asic_translate_from_notation_cb s))"

definition sbapi_system_asic_translate_to_notation :: "'hw plugin_entry list \<Rightarrow> int \<Rightarrow> ('hw, string) sb_op" where
  "sbapi_system_asic_translate_to_notation ps asic =
     sb_system_call ps BVIEW_ASIC_TYPE_ALL (\<lambda>s. map_option (\<lambda>cb. cb asic '''') (system_asic_translate_to_notation_cb s))"

definition sbapi_system_port_translate_from_notation :: "'hw plugin_entry list \<Rightarrow> string \<Rightarrow> ('hw, int) sb_op" where
  "sbapi_system_port_translate_from_notation ps src =
     sb_system_call ps BVIEW_ASIC_TYPE_ALL (\<lambda>s. map_option (\<lambda>cb. cb src) (system_port_translate_from_notation_cb s))"

definition sbapi_system_port_translate_to_notation :: "'hw plugin_entry list \<Rightarrow> int \<Rightarrow> int \<Rightarrow> ('hw, string) sb_op" where
  "sbapi_system_port_translate_to_notation ps asic port =
     sb_system_call ps BVIEW_ASIC_TYPE_ALL (\<lambda>s. map_option (\<lambda>cb. cb asic port '''') (system_port_translate_to_notation_cb s))"

definition sbapi_system_lag_translate_to_notation :: "'hw plugin_entry list \<Rightarrow> int \<Rightarrow> int \<Rightarrow> ('hw, string) sb_op" where
  "sbapi_system_lag_translate_to_notation ps asic lag =
     sb_system_call ps BVIEW_ASIC_TYPE_ALL (\<lambda>s. map_option (\<lambda>cb. cb asic lag '''') (system_lag_translate_to_notation_cb s))"

text \<open>Unlike the others, a missing network-OS callback is a failure.\<close>

definition sbapi_system_network_os_get :: "'hw plugin_entry list \<Rightarrow> int \<Rightarrow> ('hw, string) sb_op" where
  "sbapi_system_network_os_get ps len hw =
     (case sb_system_handle ps BVIEW_ASIC_TYPE_ALL of
        None \<Rightarrow> (BVIEW_STATUS_FAILURE, None, hw)
      | Some s \<Rightarrow> (case system_network_os_get_cb s of
            None \<Rightarrow> (BVIEW_STATUS_FAILURE, None, hw)
          | Some cb \<Rightarrow> cb len hw))"

definition sbapi_system_feature_mask_get :: "'hw plugin_entry list \<Rightarrow> int result" where
  "sbapi_system_feature_mask_get ps =
     (case sb_system_handle ps BVIEW_ASIC_TYPE_ALL of
        None \<Rightarrow> Inl BVIEW_STATUS_FAILURE
      | Some s \<Rightarrow> if numSupportedAsics s = 0 then Inl BVIEW_STATUS_FAILURE
                  else Inr (featureMask s))"

definition sbapi_system_asic_capabilities_get ::
  "'hw plugin_entry list \<Rightarrow> int \<Rightarrow> asic_capabilities result" where
  "sbapi_system_asic_capabilities_get ps asic =
     (case sbapi_system_unit_to_asic_type_get ps asic of
        Inl e \<Rightarrow> Inl BVIEW_STATUS_FAILURE
      | Inr t \<Rightarrow> (case sb_redirect_asic_capabilities_get ps t of
            Inl e \<Rightarrow> Inl BVIEW_STATUS_FAILURE
          | Inr c \<Rightarrow> Inr c))"

definition sb_capability_get ::
  "'hw plugin_entry list \<Rightarrow> int \<Rightarrow> (asic_capabilities \<Rightarrow> 'r) \<Rightarrow> 'r result" where
  "sb_capability_get ps asic field =
     (case sbapi_system_unit_to_asic_type_get ps asic of
        Inl e \<Rightarrow> Inl BVIEW_STATUS_FAILURE
      | Inr t \<Rightarrow> (case sb_redirect_asic_capabilities_get ps t of
            Inl e \<Rightarrow> Inl BVIEW_STATUS_FAILURE
          | Inr c \<Rightarrow> Inr (field c)))"

definition sbapi_system_asic_num_ports_get :: "'hw plugin_entry list \<Rightarrow> int \<Rightarrow> int result" where
  "sbapi_system_asic_num_ports_get ps asic = sb_capability_get ps asic numPorts"

definition sbapi_system_asic_num_ucq_get :: "'hw plugin_entry list \<Rightarrow> int \<Rightarrow> int result" where
  "sbapi_system_asic_num_ucq_get ps asic = sb_capability_get ps asic numUnicastQueues"

definition sbapi_system_asic_num_ucqg_get :: "'hw plugin_entry list \<Rightarrow> int \<Rightarrow> int result" where
  "sbapi_system_asic_num_ucqg_get ps asic = sb_capability_get ps asic numUnicastQueueGroups"

definition sbapi_system_asic_num_mcq_get :: "'hw plugin_entry list \<Rightarrow> int \<Rightarrow> int result" where
  "sbapi_system_asic_num_mcq_get ps asic = sb_capability_get ps asic numMulticastQueues"

definition sbapi_system_asic_num_sp_get :: "'hw plugin_entry list \<Rightarrow> int \<Rightarrow> int result" where
  "sbapi_system_asic_num_sp_get ps asic = sb_capability_get ps asic numServicePools"

definition sbapi_system_asic_num_cp_get :: "'hw plugin_entry list \<Rightarrow> int \<Rightarrow> int result" where
  "sbapi_system_asic_num_cp_get ps asic = sb_capability_get ps asic numCommonPools"

definition sbapi_system_asic_num_cpuq_get :: "'hw plugin_entry list \<Rightarrow> int \<Rightarrow> int result" where
  "sbapi_system_asic_num_cpuq_get ps asic = sb_capability_get ps asic numCpuQueues"

definition sbapi_system_asic_num_rqeq_get :: "'hw plugin_entry list \<Rightarrow> int \<Rightarrow> int result" where
  "sbapi_system_asic_num_rqeq_get ps asic = sb_capability_get ps asic numRqeQueues"

definition sbapi_system_asic_num_rqeqp_get :: "'hw plugin_entry list \<Rightarrow> int \<Rightarrow> int result" where
  "sbapi_system_asic_num_rqeqp_get ps asic = sb_capability_get ps asic numRqeQueuePools"

definition sbapi_system_asic_num_pg_get :: "'hw plugin_entry list \<Rightarrow> int \<Rightarrow> int result" where
  "sbapi_system_asic_num_pg_get ps asic = sb_capability_get ps asic numPriorityGroups"

definition sbapi_system_asic_support_1588_get :: "'hw plugin_entry list \<Rightarrow> int \<Rightarrow> bool result" where
  "sbapi_system_asic_support_1588_get ps asic = sb_capability_get ps asic support1588"

text \<open>The maximum buffers are asked of the feature of the unit's own silicon type.\<close>

definition sbapi_system_max_buf_snapshot_get ::
  "'hw plugin_entry list \<Rightarrow> int \<Rightarrow> ('hw, max_buf_snapshot \<times> int) sb_op" where
  "sbapi_system_max_buf_snapshot_get ps asic hw =
     (case sbapi_system_unit_to_asic_type_get ps asic of
        Inl e \<Rightarrow> (BVIEW_STATUS_FAILURE, None, hw)
      | Inr t \<Rightarrow> sb_system_call ps t
          (\<lambda>s. map_option (\<lambda>cb. cb asic) (system_max_buf_snapshot_get_cb s)) hw)"

section \<open>BST functions\<close>

definition sb_bst_call ::
  "'hw plugin_entry list \<Rightarrow> int \<Rightarrow> ('hw bst_feature \<Rightarrow> ('hw, 'r) sb_op option) \<Rightarrow> ('hw, 'r) sb_op" where
  "sb_bst_call ps asic sel hw =
     (case sbapi_system_unit_to_asic_type_get ps asic of
        Inl e \<Rightarrow> (BVIEW_STATUS_FAILURE, None, hw)
      | Inr asicType \<Rightarrow>
          (case sb_bst_handle ps asicType of
             None \<Rightarrow> (BVIEW_STATUS_FAILURE, None, hw)
           | Some f \<Rightarrow> (case sel f of
                 None \<Rightarrow> (BVIEW_STATUS_UNSUPPORTED, None, hw)
               | Some cb \<Rightarrow> cb hw)))"

definition sbapi_bst_config_get :: "'hw plugin_entry list \<Rightarrow> int \<Rightarrow> ('hw, bst_config) sb_op" where
  "sbapi_bst_config_get ps asic =
     sb_bst_call ps asic (\<lambda>f. map_option (\<lambda>cb. cb asic) (bst_config_get_cb f))"

definition sbapi_bst_config_set :: "'hw plugin_entry list \<Rightarrow> int \<Rightarrow> bst_config \<Rightarrow> ('hw, unit) sb_op" where
  "sbapi_bst_config_set ps asic config =
     sb_bst_call ps asic (\<lambda>f. map_option (\<lambda>cb. cb asic config) (bst_config_set_cb f))"

definition sbapi_bst_snapshot_get :: "'hw plugin_entry list \<Rightarrow> int \<Rightarrow> ('hw, asic_snapshot \<times> int) sb_op" where
  "sbapi_bst_snapshot_get ps asic =
     sb_bst_call ps asic (\<lambda>f. map_option (\<lambda>cb. cb asic) (bst_snapshot_get_cb f))"

definition sbapi_bst_device_data_get :: "'hw plugin_entry list \<Rightarrow> int \<Rightarrow> ('hw, device_data \<times> int) sb_op" where
  "sbapi_bst_device_data_get ps asic =
     sb_bst_call ps asic (\<lambda>f. map_option (\<lambda>cb. cb asic) (bst_device_data_get_cb f))"

definition sbapi_bst_ippg_data_get :: "'hw plugin_entry list \<Rightarrow> int \<Rightarrow> ('hw, ippg_data list list \<times> int) sb_op" where
  "sbapi_bst_ippg_data_get ps asic =
     sb_bst_call ps asic (\<lambda>f. map_option (\<lambda>cb. cb asic) (bst_ippg_data_get_cb f))"

definition sbapi_bst_ipsp_data_get :: "'hw plugin_entry list \<Rightarrow> int \<Rightarrow> ('hw, ipsp_data list list \<times> int) sb_op" where
  "sbapi_bst_ipsp_data_get ps asic =
     sb_bst_call ps asic (\<lambda>f. map_option (\<lambda>cb. cb asic) (bst_ipsp_data_get_cb f))"

definition sbapi_bst_isp_data_get :: "'hw plugin_entry list \<Rightarrow> int \<Rightarrow> ('hw, isp_data list \<times> int) sb_op" where
  "sbapi_bst_isp_data_get ps asic =
     sb_bst_call ps asic (\<lambda>f. map_option (\<lambda>cb. cb asic) (bst_isp_data_get_cb f))"

definition sbapi_bst_epsp_data_get :: "'hw plugin_entry list \<Rightarrow> int \<Rightarrow> ('hw, epsp_data list list \<times> int) sb_op" where
  "sbapi_bst_epsp_data_get ps asic =
     sb_bst_call ps asic (\<lambda>f. map_option (\<lambda>cb. cb asic) (bst_epsp_data_get_cb f))"

definition sbapi_bst_esp_data_get :: "'hw plugin_entry list \<Rightarrow> int \<Rightarrow> ('hw, esp_data list \<times> int) sb_op" where
  "sbapi_bst_esp_data_get ps asic =
     sb_bst_call ps asic (\<lambda>f. map_option (\<lambda>cb. cb asic) (bst_esp_data_get_cb f))"

definition sbapi_bst_eucq_data_get :: "'hw plugin_entry list \<Rightarrow> int \<Rightarrow> ('hw, eucq_data list \<times> int) sb_op" where
  "sbapi_bst_eucq_data_get ps asic =
     sb_bst_call ps asic (\<lambda>f. map_option (\<lambda>cb. cb asic) (bst_eucq_data_get_cb f))"

definition sbapi_bst_eucqg_data_get :: "'hw plugin_entry list \<Rightarrow> int \<Rightarrow> ('hw, eucqg_data list \<times> int) sb_op" where
  "sbapi_bst_eucqg_data_get ps asic =
     sb_bst_call ps asic (\<lambda>f. map_option (\<lambda>cb. cb asic) (bst_eucqg_data_get_cb f))"

definition sbapi_bst_emcq_data_get :: "'hw plugin_entry list \<Rightarrow> int \<Rightarrow> ('hw, emcq_data list \<times> int) sb_op" where
  "sbapi_bst_emcq_data_get ps asic =
     sb_bst_call ps asic (\<lambda>f. map_option (\<lambda>cb. cb asic) (bst_emcq_data_get_cb f))"

definition sbapi_bst_cpuq_data_get :: "'hw plugin_entry list \<Rightarrow> int \<Rightarrow> ('hw, cpuq_data list \<times> int) sb_op" where
  "sbapi_bst_cpuq_data_get ps asic =
     sb_bst_call ps asic (\<lambda>f. map_option (\<lambda>cb. cb asic) (bst_cpuq_data_get_cb f))"

definition sbapi_bst_rqeq_data_get :: "'hw plugin_entry list \<Rightarrow> int \<Rightarrow> ('hw, rqeq_data list \<times> int) sb_op" where
  "sbapi_bst_rqeq_data_get ps asic =
     sb_bst_call ps asic (\<lambda>f. map_option (\<lambda>cb. cb asic) (bst_rqeq_data_get_cb f))"

definition sbapi_bst_clear_stats :: "'hw plugin_entry list \<Rightarrow> int \<Rightarrow> ('hw, unit) sb_op" where
  "sbapi_bst_clear_stats ps asic =
     sb_bst_call ps asic (\<lambda>f. map_option (\<lambda>cb. cb asic) (bst_clear_stats_cb f))"

definition sbapi_bst_device_threshold_set :: "'hw plugin_entry list \<Rightarrow> int \<Rightarrow> device_threshold \<Rightarrow> ('hw, unit) sb_op" where
  "sbapi_bst_device_threshold_set ps asic threshold =
     sb_bst_call ps asic (\<lambda>f. map_option (\<lambda>cb. cb asic threshold) (bst_device_threshold_set_cb f))"

definition sbapi_bst_ippg_threshold_set :: "'hw plugin_entry list \<Rightarrow> int \<Rightarrow> int \<Rightarrow> int \<Rightarrow> ippg_threshold \<Rightarrow> ('hw, unit) sb_op" where
  "sbapi_bst_ippg_threshold_set ps asic port pg threshold =
     sb_bst_call ps asic (\<lambda>f. map_option (\<lambda>cb. cb asic port pg threshold) (bst_ippg_threshold_set_cb f))"

definition sbapi_bst_ipsp_threshold_set :: "'hw plugin_entry list \<Rightarrow> int \<Rightarrow> int \<Rightarrow> int \<Rightarrow> ipsp_threshold \<Rightarrow> ('hw, unit) sb_op" where
  "sbapi_bst_ipsp_threshold_set ps asic port sp threshold =
     sb_bst_call ps asic (\<lambda>f. map_option (\<lambda>cb. cb asic port sp threshold) (bst_ipsp_threshold_set_cb f))"

definition sbapi_bst_isp_threshold_set :: "'hw plugin_entry list \<Rightarrow> int \<Rightarrow> int \<Rightarrow> isp_threshold \<Rightarrow> ('hw, unit) sb_op" where
  "sbapi_bst_isp_threshold_set ps asic sp threshold =
     sb_bst_call ps asic (\<lambda>f. map_option (\<lambda>cb. cb asic sp threshold) (bst_isp_threshold_set_cb f))"

definition sbapi_bst_epsp_threshold_set :: "'hw plugin_entry list \<Rightarrow> int \<Rightarrow> int \<Rightarrow> int \<Rightarrow> epsp_threshold \<Rightarrow> ('hw, unit) sb_op" where
  "sbapi_bst_epsp_threshold_set ps asic port sp threshold =
     sb_bst_call ps asic (\<lambda>f. map_option (\<lambda>cb. cb asic port sp threshold) (bst_epsp_threshold_set_cb f))"

definition sbapi_bst_esp_threshold_set :: "'hw plugin_entry list \<Rightarrow> int \<Rightarrow> int \<Rightarrow> esp_threshold \<Rightarrow> ('hw, unit) sb_op" where
  "sbapi_bst_esp_threshold_set ps asic sp threshold =
     sb_bst_call ps asic (\<lambda>f. map_option (\<lambda>cb. cb asic sp threshold) (bst_esp_threshold_set_cb f))"

definition sbapi_bst_eucq_threshold_set :: "'hw plugin_entry list \<Rightarrow> int \<Rightarrow> int \<Rightarrow> eucq_threshold \<Rightarrow> ('hw, unit) sb_op" where
  "sbapi_bst_eucq_threshold_set ps asic ucQueue threshold =
     sb_bst_call ps asic (\<lambda>f. map_option (\<lambda>cb. cb asic ucQueue threshold) (bst_eucq_threshold_set_cb f))"

definition sbapi_bst_eucqg_threshold_set :: "'hw plugin_entry list \<Rightarrow> int \<Rightarrow> int \<Rightarrow> eucqg_threshold \<Rightarrow> ('hw, unit) sb_op" where
  "sbapi_bst_eucqg_threshold_set ps asic ucQueueGrp threshold =
     sb_bst_call ps asic (\<lambda>f. map_option (\<lambda>cb. cb asic ucQueueGrp threshold) (bst_eucqg_threshold_set_cb f))"

definition sbapi_bst_emcq_threshold_set :: "'hw plugin_entry list \<Rightarrow> int \<Rightarrow> int \<Rightarrow> emcq_threshold \<Rightarrow> ('hw, unit) sb_op" where
  "sbapi_bst_emcq_threshold_set ps asic mcQueue threshold =
     sb_bst_call ps asic (\<lambda>f. map_option (\<lambda>cb. cb asic mcQueue threshold) (bst_emcq_threshold_set_cb f))"

definition sbapi_bst_cpuq_threshold_set :: "'hw plugin_entry list \<Rightarrow> int \<Rightarrow> int \<Rightarrow> cpuq_threshold \<Rightarrow> ('hw, unit) sb_op" where
  "sbapi_bst_cpuq_threshold_set ps asic cpuQueue threshold =
     sb_bst_call ps asic (\<lambda>f. map_option (\<lambda>cb. cb asic cpuQueue threshold) (bst_cpuq_threshold_set_cb f))"

definition sbapi_bst_rqeq_threshold_set :: "'hw plugin_entry list \<Rightarrow> int \<Rightarrow> int \<Rightarrow> rqeq_threshold \<Rightarrow> ('hw, unit) sb_op" where
  "sbapi_bst_rqeq_threshold_set ps asic rqeQueue threshold =
     sb_bst_call ps asic (\<lambda>f. map_option (\<lambda>cb. cb asic rqeQueue threshold) (bst_rqeq_threshold_set_cb f))"

definition sbapi_bst_threshold_get :: "'hw plugin_entry list \<Rightarrow> int \<Rightarrow> ('hw, asic_snapshot \<times> int) sb_op" where
  "sbapi_bst_threshold_get ps asic =
     sb_bst_call ps asic (\<lambda>f. map_option (\<lambda>cb. cb asic) (bst_threshold_get_cb f))"

definition sbapi_bst_clear_thresholds :: "'hw plugin_entry list \<Rightarrow> int \<Rightarrow> ('hw, unit) sb_op" where
  "sbapi_bst_clear_thresholds ps asic =
     sb_bst_call ps asic (\<lambda>f. map_option (\<lambda>cb. cb asic) (bst_clear_thresholds_cb f))"

definition sbapi_bst_register_trigger :: "'hw plugin_entry list \<Rightarrow> int \<Rightarrow> nat \<Rightarrow> nat \<Rightarrow> ('hw, unit) sb_op" where
  "sbapi_bst_register_trigger ps asic callback cookie =
     sb_bst_call ps asic (\<lambda>f. map_option (\<lambda>cb. cb asic callback cookie) (bst_register_trigger_cb f))"

section \<open>The contract of the BST functions\<close>

text \<open>The feature that serves a unit: the unit's silicon type is known and some registered BST
  feature covers it.\<close>

definition unit_bst_feature :: "'hw plugin_entry list \<Rightarrow> int \<Rightarrow> 'hw bst_feature option" where
  "unit_bst_feature ps asic =
     (case sbapi_system_unit_to_asic_type_get ps asic of
        Inl e \<Rightarrow> None | Inr t \<Rightarrow> sb_bst_handle ps t)"

lemma sb_bst_call_simps:
  "sb_bst_call ps asic sel hw =
     (case unit_bst_feature ps asic of
        None \<Rightarrow> (BVIEW_STATUS_FAILURE, None, hw)
      | Some f \<Rightarrow> (case sel f of None \<Rightarrow> (BVIEW_STATUS_UNSUPPORTED, None, hw) | Some cb \<Rightarrow> cb hw))"
  by (simp add: sb_bst_call_def unit_bst_feature_def split: sum.splits)

locale sb_service =
  fixes call :: "'hw plugin_entry list \<Rightarrow> int \<Rightarrow> 'a \<Rightarrow> ('hw, 'r) sb_op"
    and callback :: "'hw bst_feature \<Rightarrow> int \<Rightarrow> 'a \<Rightarrow> ('hw, 'r) sb_op option"
  assumes unserved: "unit_bst_feature ps asic = None \<Longrightarrow> call ps asic a hw = (BVIEW_STATUS_FAILURE, None, hw)"
    and unsupported: "unit_bst_feature ps asic = Some f \<Longrightarrow> callback f asic a = None \<Longrightarrow>
          call ps asic a hw = (BVIEW_STATUS_UNSUPPORTED, None, hw)"
    and served: "unit_bst_feature ps asic = Some f \<Longrightarrow> callback f asic a = Some cb \<Longrightarrow>
          call ps asic a hw = cb hw"
begin

text \<open>The plugin's state changes and output is written only through the callback.\<close>

lemma no_callback_no_effect:
  assumes "\<And>f. unit_bst_feature ps asic = Some f \<Longrightarrow> callback f asic a = None"
  shows "fst (call ps asic a hw) \<noteq> BVIEW_STATUS_SUCCESS \<and> snd (call ps asic a hw) = (None, hw)"
  using assms unserved unsupported by (cases "unit_bst_feature ps asic") auto

lemma success_served:
  assumes "fst (call ps asic a hw) = BVIEW_STATUS_SUCCESS"
  obtains f cb where "unit_bst_feature ps asic = Some f" "callback f asic a = Some cb"
    "call ps asic a hw = cb hw"
  using assms unserved [of ps asic a hw] unsupported [of ps asic _ a hw] served [of ps asic _ a _ hw]
  by (cases "unit_bst_feature ps asic"; cases "callback (the (unit_bst_feature ps asic)) asic a") auto

text \<open>A property of the callback of every feature is a property of the call.\<close>

lemma call_preserves:
  assumes "\<And>f cb. unit_bst_feature ps asic = Some f \<Longrightarrow> callback f asic a = Some cb \<Longrightarrow>
      P (snd (snd (cb hw)))" "P hw"
  shows "P (snd (snd (call ps asic a hw)))"
proof (cases "unit_bst_feature ps asic")
  case None
  then show ?thesis using unserved assms(2) by simp
next
  case (Some f)
  then show ?thesis
    using unsupported served assms by (cases "callback f asic a") simp_all
qed

end

interpretation svc_config_get: sb_service
  "\<lambda>ps asic (_ :: unit). sbapi_bst_config_get ps asic"
  "\<lambda>f asic (_ :: unit). map_option (\<lambda>cb. cb asic) (bst_config_get_cb f)"
  by unfold_locales (auto simp: sbapi_bst_config_get_def sb_bst_call_simps)

interpretation svc_config_set: sb_service
  "\<lambda>ps asic config. sbapi_bst_config_set ps asic config"
  "\<lambda>f asic config. map_option (\<lambda>cb. cb asic config) (bst_config_set_cb f)"
  by unfold_locales (auto simp: sbapi_bst_config_set_def sb_bst_call_simps)

interpretation svc_snapshot_get: sb_service
  "\<lambda>ps asic (_ :: unit). sbapi_bst_snapshot_get ps asic"
  "\<lambda>f asic (_ :: unit). map_option (\<lambda>cb. cb asic) (bst_snapshot_get_cb f)"
  by unfold_locales (auto simp: sbapi_bst_snapshot_get_def sb_bst_call_simps)

interpretation svc_device_data_get: sb_service
  "\<lambda>ps asic (_ :: unit). sbapi_bst_device_data_get ps asic"
  "\<lambda>f asic (_ :: unit). map_option (\<lambda>cb. cb asic) (bst_device_data_get_cb f)"
  by unfold_locales (auto simp: sbapi_bst_device_data_get_def sb_bst_call_simps)

interpretation svc_ippg_data_get: sb_service
  "\<lambda>ps asic (_ :: unit). sbapi_bst_ippg_data_get ps asic"
  "\<lambda>f asic (_ :: unit). map_option (\<lambda>cb. cb asic) (bst_ippg_data_get_cb f)"
  by unfold_locales (auto simp: sbapi_bst_ippg_data_get_def sb_bst_call_simps)

interpretation svc_ipsp_data_get: sb_service
  "\<lambda>ps asic (_ :: unit). sbapi_bst_ipsp_data_get ps asic"
  "\<lambda>f asic (_ :: unit). map_option (\<lambda>cb. cb asic) (bst_ipsp_data_get_cb f)"
  by unfold_locales (auto simp: sbapi_bst_ipsp_data_get_def sb_bst_call_simps)

interpretation svc_isp_data_get: sb_service
  "\<lambda>ps asic (_ :: unit). sbapi_bst_isp_data_get ps asic"
  "\<lambda>f asic (_ :: unit). map_option (\<lambda>cb. cb asic) (bst_isp_data_get_cb f)"
  by unfold_locales (auto simp: sbapi_bst_isp_data_get_def sb_bst_call_simps)

interpretation svc_epsp_data_get: sb_service
  "\<lambda>ps asic (_ :: unit). sbapi_bst_epsp_data_get ps asic"
  "\<lambda>f asic (_ :: unit). map_option (\<lambda>cb. cb asic) (bst_epsp_data_get_cb f)"
  by unfold_locales (auto simp: sbapi_bst_epsp_data_get_def sb_bst_call_simps)

interpretation svc_esp_data_get: sb_service
  "\<lambda>ps asic (_ :: unit). sbapi_bst_esp_data_get ps asic"
  "\<lambda>f asic (_ :: unit). map_option (\<lambda>cb. cb asic) (bst_esp_data_get_cb f)"
  by unfold_locales (auto simp: sbapi_bst_esp_data_get_def sb_bst_call_simps)

interpretation svc_eucq_data_get: sb_service
  "\<lambda>ps asic (_ :: unit). sbapi_bst_eucq_data_get ps asic"
  "\<lambda>f asic (_ :: unit). map_option (\<lambda>cb. cb asic) (bst_eucq_data_get_cb f)"
  by unfold_locales (auto simp: sbapi_bst_eucq_data_get_def sb_bst_call_simps)

interpretation svc_eucqg_data_get: sb_service
  "\<lambda>ps asic (_ :: unit). sbapi_bst_eucqg_data_get ps asic"
  "\<lambda>f asic (_ :: unit). map_option (\<lambda>cb. cb asic) (bst_eucqg_data_get_cb f)"
  by unfold_locales (auto simp: sbapi_bst_eucqg_data_get_def sb_bst_call_simps)

interpretation svc_emcq_data_get: sb_service
  "\<lambda>ps asic (_ :: unit). sbapi_bst_emcq_data_get ps asic"
  "\<lambda>f asic (_ :: unit). map_option (\<lambda>cb. cb asic) (bst_emcq_data_get_cb f)"
  by unfold_locales (auto simp: sbapi_bst_emcq_data_get_def sb_bst_call_simps)

interpretation svc_cpuq_data_get: sb_service
  "\<lambda>ps asic (_ :: unit). sbapi_bst_cpuq_data_get ps asic"
  "\<lambda>f asic (_ :: unit). map_option (\<lambda>cb. cb asic) (bst_cpuq_data_get_cb f)"
  by unfold_locales (auto simp: sbapi_bst_cpuq_data_get_def sb_bst_call_simps)

interpretation svc_rqeq_data_get: sb_service
  "\<lambda>ps asic (_ :: unit). sbapi_bst_rqeq_data_get ps asic"
  "\<lambda>f asic (_ :: unit). map_option (\<lambda>cb. cb asic) (bst_rqeq_data_get_cb f)"
  by unfold_locales (auto simp: sbapi_bst_rqeq_data_get_def sb_bst_call_simps)

interpretation svc_clear_stats: sb_service
  "\<lambda>ps asic (_ :: unit). sbapi_bst_clear_stats ps asic"
  "\<lambda>f asic (_ :: unit). map_option (\<lambda>cb. cb asic) (bst_clear_stats_cb f)"
  by unfold_locales (auto simp: sbapi_bst_clear_stats_def sb_bst_call_simps)

interpretation svc_device_threshold_set: sb_service
  "\<lambda>ps asic threshold. sbapi_bst_device_threshold_set ps asic threshold"
  "\<lambda>f asic threshold. map_option (\<lambda>cb. cb asic threshold) (bst_device_threshold_set_cb f)"
  by unfold_locales (auto simp: sbapi_bst_device_threshold_set_def sb_bst_call_simps)

interpretation svc_ippg_threshold_set: sb_service
  "\<lambda>ps asic (port, pg, threshold). sbapi_bst_ippg_threshold_set ps asic port pg threshold"
  "\<lambda>f asic (port, pg, threshold). map_option (\<lambda>cb. cb asic port pg threshold) (bst_ippg_threshold_set_cb f)"
  by unfold_locales (auto simp: sbapi_bst_ippg_threshold_set_def sb_bst_call_simps)

interpretation svc_ipsp_threshold_set: sb_service
  "\<lambda>ps asic (port, sp, threshold). sbapi_bst_ipsp_threshold_set ps asic port sp threshold"
  "\<lambda>f asic (port, sp, threshold). map_option (\<lambda>cb. cb asic port sp threshold) (bst_ipsp_threshold_set_cb f)"
  by unfold_locales (auto simp: sbapi_bst_ipsp_threshold_set_def sb_bst_call_simps)

interpretation svc_isp_threshold_set: sb_service
  "\<lambda>ps asic (sp, threshold). sbapi_bst_isp_threshold_set ps asic sp threshold"
  "\<lambda>f asic (sp, threshold). map_option (\<lambda>cb. cb asic sp threshold) (bst_isp_threshold_set_cb f)"
  by unfold_locales (auto simp: sbapi_bst_isp_threshold_set_def sb_bst_call_simps)

interpretation svc_epsp_threshold_set: sb_service
  "\<lambda>ps asic (port, sp, threshold). sbapi_bst_epsp_threshold_set ps asic port sp threshold"
  "\<lambda>f asic (port, sp, threshold). map_option (\<lambda>cb. cb asic port sp threshold) (bst_epsp_threshold_set_cb f)"
  by unfold_locales (auto simp: sbapi_bst_epsp_threshold_set_def sb_bst_call_simps)

interpretation svc_esp_threshold_set: sb_service
  "\<lambda>ps asic (sp, threshold). sbapi_bst_esp_threshold_set ps asic sp threshold"
  "\<lambda>f asic (sp, threshold). map_option (\<lambda>cb. cb asic sp threshold) (bst_esp_threshold_set_cb f)"
  by unfold_locales (auto simp: sbapi_bst_esp_threshold_set_def sb_bst_call_simps)

interpretation svc_eucq_threshold_set: sb_service
  "\<lambda>ps asic (ucQueue, threshold). sbapi_bst_eucq_threshold_set ps asic ucQueue threshold"
  "\<lambda>f asic (ucQueue, threshold). map_option (\<lambda>cb. cb asic ucQueue threshold) (bst_eucq_threshold_set_cb f)"
  by unfold_locales (auto simp: sbapi_bst_eucq_threshold_set_def sb_bst_call_simps)

interpretation svc_eucqg_threshold_set: sb_service
  "\<lambda>ps asic (ucQueueGrp, threshold). sbapi_bst_eucqg_threshold_set ps asic ucQueueGrp threshold"
  "\<lambda>f asic (ucQueueGrp, threshold). map_option (\<lambda>cb. cb asic ucQueueGrp threshold) (bst_eucqg_threshold_set_cb f)"
  by unfold_locales (auto simp: sbapi_bst_eucqg_threshold_set_def sb_bst_call_simps)

interpretation svc_emcq_threshold_set: sb_service
  "\<lambda>ps asic (mcQueue, threshold). sbapi_bst_emcq_threshold_set ps asic mcQueue threshold"
  "\<lambda>f asic (mcQueue, threshold). map_option (\<lambda>cb. cb asic mcQueue threshold) (bst_emcq_threshold_set_cb f)"
  by unfold_locales (auto simp: sbapi_bst_emcq_threshold_set_def sb_bst_call_simps)

interpretation svc_cpuq_threshold_set: sb_service
  "\<lambda>ps asic (cpuQueue, threshold). sbapi_bst_cpuq_threshold_set ps asic cpuQueue threshold"
  "\<lambda>f asic (cpuQueue, threshold). map_option (\<lambda>cb. cb asic cpuQueue threshold) (bst_cpuq_threshold_set_cb f)"
  by unfold_locales (auto simp: sbapi_bst_cpuq_threshold_set_def sb_bst_call_simps)

interpretation svc_rqeq_threshold_set: sb_service
  "\<lambda>ps asic (rqeQueue, threshold). sbapi_bst_rqeq_threshold_set ps asic rqeQueue threshold"
  "\<lambda>f asic (rqeQueue, threshold). map_option (\<lambda>cb. cb asic rqeQueue threshold) (bst_rqeq_threshold_set_cb f)"
  by unfold_locales (auto simp: sbapi_bst_rqeq_threshold_set_def sb_bst_call_simps)

interpretation svc_threshold_get: sb_service
  "\<lambda>ps asic (_ :: unit). sbapi_bst_threshold_get ps asic"
  "\<lambda>f asic (_ :: unit). map_option (\<lambda>cb. cb asic) (bst_threshold_get_cb f)"
  by unfold_locales (auto simp: sbapi_bst_threshold_get_def sb_bst_call_simps)

interpretation svc_clear_thresholds: sb_service
  "\<lambda>ps asic (_ :: unit). sbapi_bst_clear_thresholds ps asic"
  "\<lambda>f asic (_ :: unit). map_option (\<lambda>cb. cb asic) (bst_clear_thresholds_cb f)"
  by unfold_locales (auto simp: sbapi_bst_clear_thresholds_def sb_bst_call_simps)

interpretation svc_register_trigger: sb_service
  "\<lambda>ps asic (callback, cookie). sbapi_bst_register_trigger ps asic callback cookie"
  "\<lambda>f asic (callback, cookie). map_option (\<lambda>cb. cb asic callback cookie) (bst_register_trigger_cb f)"
  by unfold_locales (auto simp: sbapi_bst_register_trigger_def sb_bst_call_simps)

end
