(* ===== verification/System_Time.thy ===== *)
theory System_Time
  imports Bview_Prelude "HOL-Library.Signed_Division"
begin

text \<open>The timers of infrastructure/system/system_time.c over the POSIX timer calls. The kernel
  is a list of timers with an upper limit on their number: timer_create fails at the limit,
  timer_settime fails for an unknown timer or for nanoseconds out of range, timer_delete fails
  for an unknown timer.\<close>

section \<open>The kernel's timers\<close>

datatype TIMER_MODE = PERIODIC_MODE | NON_PERIODIC_MODE

record timespec =
  tv_sec :: int
  tv_nsec :: int

record itimerspec =
  it_value :: timespec
  it_interval :: timespec

text \<open>A timer notifies a handler (a function of the agent) with a parameter (the unit).\<close>

datatype timer_handler =
    bst_periodic_collection_cb
  | bst_trigger_timer_cb
  | reg_hb_timer_cb

record kernel_timer =
  kt_id :: nat
  kt_handler :: timer_handler
  kt_param :: int
  kt_spec :: "itimerspec option"

record kernel_timers =
  timers :: "kernel_timer list"
  next_timer :: nat
  timer_limit :: nat

definition timer_create :: "timer_handler \<Rightarrow> int \<Rightarrow> kernel_timers \<Rightarrow> nat option \<times> kernel_timers" where
  "timer_create h p k =
     (if length (timers k) < timer_limit k
      then (Some (next_timer k),
            k\<lparr>timers := timers k @ [\<lparr>kt_id = next_timer k, kt_handler = h, kt_param = p, kt_spec = None\<rparr>],
              next_timer := Suc (next_timer k)\<rparr>)
      else (None, k))"

definition timespec_ok :: "timespec \<Rightarrow> bool" where
  "timespec_ok t = (0 \<le> tv_sec t \<and> 0 \<le> tv_nsec t \<and> tv_nsec t < 1000000000)"

definition timer_known :: "nat \<Rightarrow> kernel_timers \<Rightarrow> bool" where
  "timer_known i k = (\<exists>t\<in>set (timers k). kt_id t = i)"

definition timer_settime :: "nat \<Rightarrow> itimerspec \<Rightarrow> kernel_timers \<Rightarrow> bool \<times> kernel_timers" where
  "timer_settime i s k =
     (if timer_known i k \<and> timespec_ok (it_value s) \<and> timespec_ok (it_interval s)
      then (True, k\<lparr>timers := map (\<lambda>t. if kt_id t = i then t\<lparr>kt_spec := Some s\<rparr> else t) (timers k)\<rparr>)
      else (False, k))"

definition timer_delete :: "nat \<Rightarrow> kernel_timers \<Rightarrow> bool \<times> kernel_timers" where
  "timer_delete i k =
     (if timer_known i k then (True, k\<lparr>timers := filter (\<lambda>t. kt_id t \<noteq> i) (timers k)\<rparr>)
      else (False, k))"

section \<open>The agent's timer functions\<close>

definition CONVERSION_FACTOR :: int where "CONVERSION_FACTOR = 1000000"

definition ms_timerspec :: "int \<Rightarrow> TIMER_MODE \<Rightarrow> itimerspec" where
  "ms_timerspec ms mode =
     (let v = \<lparr>tv_sec = ms sdiv 1000, tv_nsec = (ms smod 1000) * CONVERSION_FACTOR\<rparr>
      in \<lparr>it_value = v,
          it_interval = (if mode = PERIODIC_MODE then v else \<lparr>tv_sec = 0, tv_nsec = 0\<rparr>)\<rparr>)"

definition system_timer_set :: "nat \<Rightarrow> int \<Rightarrow> TIMER_MODE \<Rightarrow> kernel_timers \<Rightarrow> BVIEW_STATUS \<times> kernel_timers" where
  "system_timer_set timerId ms mode k =
     (case timer_settime timerId (ms_timerspec ms mode) k of
        (True, k') \<Rightarrow> (BVIEW_STATUS_SUCCESS, k')
      | (False, k') \<Rightarrow> (BVIEW_STATUS_FAILURE, k'))"

text \<open>The timer id is written as soon as the timer exists, so it is returned even when arming
  fails.\<close>

definition system_timer_add ::
  "timer_handler \<Rightarrow> int \<Rightarrow> TIMER_MODE \<Rightarrow> int \<Rightarrow> kernel_timers \<Rightarrow> BVIEW_STATUS \<times> nat option \<times> kernel_timers" where
  "system_timer_add handler ms mode param k =
     (case timer_create handler param k of
        (Some i, k1) \<Rightarrow> (case system_timer_set i ms mode k1 of (rv, k2) \<Rightarrow> (rv, Some i, k2))
      | (None, k1) \<Rightarrow> (BVIEW_STATUS_FAILURE, None, k1))"

definition system_timer_delete :: "nat \<Rightarrow> kernel_timers \<Rightarrow> BVIEW_STATUS \<times> kernel_timers" where
  "system_timer_delete timerId k =
     (case timer_delete timerId k of
        (True, k') \<Rightarrow> (BVIEW_STATUS_SUCCESS, k') | (False, k') \<Rightarrow> (BVIEW_STATUS_FAILURE, k'))"

section \<open>Facts\<close>

text \<open>Every timer's id is below the next one, and no two timers share an id.\<close>

definition timers_ok :: "kernel_timers \<Rightarrow> bool" where
  "timers_ok k = (distinct (map kt_id (timers k)) \<and> (\<forall>t\<in>set (timers k). kt_id t < next_timer k)
     \<and> length (timers k) \<le> timer_limit k)"

lemma timers_ok_create: "timers_ok k \<Longrightarrow> timers_ok (snd (timer_create h p k))"
  by (auto simp: timers_ok_def timer_create_def)

lemma map_update_id:
  "map kt_id (map (\<lambda>t. if kt_id t = i then t\<lparr>kt_spec := s\<rparr> else t) ts) = map kt_id ts"
  by (induction ts) auto

lemma timers_ok_settime: "timers_ok k \<Longrightarrow> timers_ok (snd (timer_settime i s k))"
  using map_update_id [of i "Some s" "timers k"]
  by (auto simp: timers_ok_def timer_settime_def simp del: map_map)

lemma timers_ok_delete: "timers_ok k \<Longrightarrow> timers_ok (snd (timer_delete i k))"
  by (auto simp: timers_ok_def timer_delete_def distinct_map_filter
      intro: order_trans [OF length_filter_le])

lemma timers_ok_set: "timers_ok k \<Longrightarrow> timers_ok (snd (system_timer_set i ms m k))"
  using timers_ok_settime [of k i "ms_timerspec ms m"]
  by (auto simp: system_timer_set_def split: prod.splits bool.splits)

lemma timers_ok_add: "timers_ok k \<Longrightarrow> timers_ok (snd (snd (system_timer_add h ms m p k)))"
  using timers_ok_create [of k h p] timers_ok_set [of "snd (timer_create h p k)" _ ms m]
  by (auto simp: system_timer_add_def split_beta split: option.splits)

lemma timers_ok_sys_delete: "timers_ok k \<Longrightarrow> timers_ok (snd (system_timer_delete i k))"
  using timers_ok_delete [of k i]
  by (auto simp: system_timer_delete_def split: prod.splits bool.splits)

text \<open>For a time that is not negative the specification is exact and valid.\<close>

lemma ms_timerspec_exact:
  assumes "0 \<le> ms"
  shows "tv_sec (it_value (ms_timerspec ms m)) * 1000000000 + tv_nsec (it_value (ms_timerspec ms m))
      = ms * 1000000"
    and "timespec_ok (it_value (ms_timerspec ms m))"
    and "timespec_ok (it_interval (ms_timerspec ms m))"
proof -
  have d: "ms sdiv 1000 = ms div 1000" "ms smod 1000 = ms mod 1000"
    using assms by (simp_all add: signed_divide_int_def signed_modulo_int_def sgn_if)
  define q r where "q = ms div 1000" and "r = ms mod 1000"
  have "ms = 1000 * q + r" unfolding q_def r_def by simp
  then have "ms * 1000000 = q * 1000000000 + r * 1000000" by linarith
  then have "ms div 1000 * 1000000000 + ms mod 1000 * 1000000 = ms * 1000000"
    unfolding q_def r_def by simp
  moreover have "0 \<le> ms mod 1000" "ms mod 1000 < 1000" "0 \<le> ms div 1000" using assms by simp_all
  ultimately show "tv_sec (it_value (ms_timerspec ms m)) * 1000000000 + tv_nsec (it_value (ms_timerspec ms m))
      = ms * 1000000"
    and "timespec_ok (it_value (ms_timerspec ms m))"
    and "timespec_ok (it_interval (ms_timerspec ms m))"
    unfolding ms_timerspec_def d timespec_ok_def CONVERSION_FACTOR_def Let_def
    by simp_all
qed

definition timer_of :: "nat \<Rightarrow> kernel_timers \<Rightarrow> kernel_timer option" where
  "timer_of i k = List.find (\<lambda>t. kt_id t = i) (timers k)"

text \<open>With a free kernel timer and a time that is not negative, adding succeeds.\<close>

lemma system_timer_add_success:
  assumes "length (timers k) < timer_limit k" "0 \<le> ms" "timers_ok k"
  shows "system_timer_add h ms m p k =
    (BVIEW_STATUS_SUCCESS, Some (next_timer k),
     k\<lparr>timers := timers k @ [\<lparr>kt_id = next_timer k, kt_handler = h, kt_param = p,
                              kt_spec = Some (ms_timerspec ms m)\<rparr>],
       next_timer := Suc (next_timer k)\<rparr>)"
proof -
  have "map (\<lambda>t. if kt_id t = next_timer k then t\<lparr>kt_spec := s\<rparr> else t) (timers k) = timers k" for s
    using assms(3) by (intro map_idI) (auto simp: timers_ok_def)
  then show ?thesis
    using assms ms_timerspec_exact [OF assms(2), of m]
    by (simp add: system_timer_add_def timer_create_def system_timer_set_def timer_settime_def
        timer_known_def)
qed

lemma system_timer_delete_known:
  "timer_known i k \<Longrightarrow> system_timer_delete i k =
    (BVIEW_STATUS_SUCCESS, k\<lparr>timers := filter (\<lambda>t. kt_id t \<noteq> i) (timers k)\<rparr>)"
  by (simp add: system_timer_delete_def timer_delete_def)

lemma system_timer_delete_unknown:
  "\<not> timer_known i k \<Longrightarrow> system_timer_delete i k = (BVIEW_STATUS_FAILURE, k)"
  by (simp add: system_timer_delete_def timer_delete_def)

text \<open>Arming that fails leaves a timer behind that the caller does not count as in use.\<close>

lemma system_timer_add_negative:
  assumes "length (timers k) < timer_limit k" "ms < 0" "timers_ok k"
  shows "fst (system_timer_add h ms m p k) = BVIEW_STATUS_FAILURE"
    "length (timers (snd (snd (system_timer_add h ms m p k)))) = Suc (length (timers k))"
proof -
  have "\<not> timespec_ok (it_value (ms_timerspec ms m))"
  proof -
    have "- ms = 1000 * (- ms div 1000) + - ms mod 1000" by simp
    then have "0 < - ms div 1000 \<or> 0 < - ms mod 1000"
      using assms(2) pos_mod_sign [of 1000 "- ms"] by linarith
    then have "ms sdiv 1000 < 0 \<or> ms smod 1000 < 0"
      using assms(2) by (auto simp: signed_divide_int_def signed_modulo_int_def sgn_if abs_if)
    then show ?thesis by (auto simp: timespec_ok_def ms_timerspec_def Let_def CONVERSION_FACTOR_def)
  qed
  then show "fst (system_timer_add h ms m p k) = BVIEW_STATUS_FAILURE"
    "length (timers (snd (snd (system_timer_add h ms m p k)))) = Suc (length (timers k))"
    using assms(1)
    by (simp_all add: system_timer_add_def timer_create_def system_timer_set_def timer_settime_def)
qed

end
