(* ===== verification/Bst_State.thy ===== *)
theory Bst_State
  imports Bst_Realm Sb_Api System_Time
begin

text \<open>The state of the BST application (apps/bst/bst_app.h) and its environment: the unit
  contexts of bst_info, the plugin state, the kernel timers, the two message queues and the
  responses handed to bst_send_response. The report records live in a memory of blocks, so that the
  record pointers may alias. The locks serialise the handlers and are not modelled.\<close>

section \<open>Messages\<close>

datatype bst_cmd =
    BVIEW_BST_CMD_API_SET_TRACK
  | BVIEW_BST_CMD_API_SET_FEATURE
  | BVIEW_BST_CMD_API_SET_THRESHOLD
  | BVIEW_BST_CMD_API_CLEAR_THRESHOLD
  | BVIEW_BST_CMD_API_CLEAR_STATS
  | BVIEW_BST_CMD_API_GET_REPORT
  | BVIEW_BST_CMD_API_GET_FEATURE
  | BVIEW_BST_CMD_API_GET_TRACK
  | BVIEW_BST_CMD_API_GET_THRESHOLD
  | BVIEW_BST_CMD_API_TRIGGER_REPORT
  | BVIEW_BST_CMD_API_CLEAR_TRIGGER_COUNT
  | BVIEW_BST_CMD_API_ENABLE_BST_ON_TRIGGER
  | BVIEW_BST_CMD_API_TRIGGER_COLLECT
  | BVIEW_BST_CMD_API_UPDATE_TRACK
  | BVIEW_BST_CMD_API_UPDATE_FEATURE
  | BVIEW_BST_CMD_API_MAX

text \<open>The report types; a message that is zeroed and never given one has none of them.\<close>

datatype bst_report_type =
    BVIEW_BST_REPORT_UNSET
  | BVIEW_BST_STATS
  | BVIEW_BST_THRESHOLD
  | BVIEW_BST_STATS_PERIODIC
  | BVIEW_BST_STATS_TRIGGER

text \<open>The union of a request, by the member that was written. A handler reads the member its
  command wrote; the accessors below give zeroed memory for any other.\<close>

datatype bst_request =
    REQ_NONE
  | REQ_CONFIG config_params
  | REQ_TRACK track_params
  | REQ_COLLECT stat_collect
  | REQ_DEVICE device_threshold
  | REQ_IPPG ippg_threshold
  | REQ_IPSP ipsp_threshold
  | REQ_ISP isp_threshold
  | REQ_EPSP epsp_threshold
  | REQ_ESP esp_threshold
  | REQ_EUCQ eucq_threshold
  | REQ_EUCQG eucqg_threshold
  | REQ_EMCQ emcq_threshold
  | REQ_CPUQ cpuq_threshold
  | REQ_RQEQ rqeq_threshold

record request_msg =
  msg_type :: bst_cmd
  msg_unit :: int
  msg_cookie :: "nat option"
  msg_id :: int
  msg_report_type :: bst_report_type
  msg_threshold_type :: nat
  msg_threshold :: threshold_command
  msg_triggerInfo :: trigger_info
  msg_request :: bst_request

definition zero_trigger_info :: trigger_info where
  "zero_trigger_info = \<lparr>trig_realm = [], trig_counter = [], trig_port = 0, trig_queue = 0\<rparr>"

definition zero_threshold_command :: threshold_command where
  "zero_threshold_command = \<lparr>thr_realm = [], thr_port = 0, thr_priorityGroup = 0, thr_servicePool = 0,
     thr_queue = 0, thr_queueGroup = 0, thr_threshold = 0, thr_umShareThreshold = 0,
     thr_umHeadroomThreshold = 0, thr_ucShareThreshold = 0, thr_mcShareThreshold = 0,
     thr_mcShareQueueEntriesThreshold = 0, thr_ucThreshold = 0, thr_mcThreshold = 0,
     thr_mcQueueEntriesThreshold = 0, thr_cpuThreshold = 0, thr_rqeThreshold = 0\<rparr>"

definition zero_msg :: "bst_cmd \<Rightarrow> int \<Rightarrow> request_msg" where
  "zero_msg cmd unit = \<lparr>msg_type = cmd, msg_unit = unit, msg_cookie = None, msg_id = 0,
     msg_report_type = BVIEW_BST_REPORT_UNSET, msg_threshold_type = 0,
     msg_threshold = zero_threshold_command, msg_triggerInfo = zero_trigger_info,
     msg_request = REQ_NONE\<rparr>"

definition zero_config_params :: config_params where
  "zero_config_params = \<lparr>bstEnable = 0, sendAsyncReports = 0, collectionInterval = 0,
     statsInPercentage = 0, statUnitsInCells = 0, bstMaxTriggers = 0, sendSnapshotOnTrigger = 0,
     triggerTransmitInterval = 0, sendIncrementalReport = 0, configMask = 0\<rparr>"

definition zero_track_params :: track_params where
  "zero_track_params = \<lparr>trackMask = 0, trackPeakStats = 0, trackIngressPortPriorityGroup = 0,
     trackIngressPortServicePool = 0, trackIngressServicePool = 0, trackEgressPortServicePool = 0,
     trackEgressServicePool = 0, trackEgressUcQueue = 0, trackEgressUcQueueGroup = 0,
     trackEgressMcQueue = 0, trackEgressCpuQueue = 0, trackEgressRqeQueue = 0, trackDevice = 0\<rparr>"

definition zero_collect :: stat_collect where
  "zero_collect = BST_COPY_TRACK_TO_COLLECT zero_track_params"

definition req_config :: "request_msg \<Rightarrow> config_params" where
  "req_config m = (case msg_request m of REQ_CONFIG c \<Rightarrow> c | _ \<Rightarrow> zero_config_params)"

definition req_track :: "request_msg \<Rightarrow> track_params" where
  "req_track m = (case msg_request m of REQ_TRACK t \<Rightarrow> t | _ \<Rightarrow> zero_track_params)"

definition req_collect :: "request_msg \<Rightarrow> stat_collect" where
  "req_collect m = (case msg_request m of REQ_COLLECT c \<Rightarrow> c | _ \<Rightarrow> zero_collect)"

section \<open>Unit contexts\<close>

record report_snapshot =
  rec_tv :: int
  rec_snapshot :: asic_snapshot

definition zero_report :: report_snapshot where
  "zero_report = \<lparr>rec_tv = 0, rec_snapshot = zero_snapshot\<rparr>"

record bst_timer =
  timer_unit :: int
  timer_in_use :: bool
  bstTimer :: nat

record bst_unit =
  record_memory :: "nat \<Rightarrow> report_snapshot"
  stats_active_record_ptr :: nat
  stats_backup_record_ptr :: nat
  stats_current_record_ptr :: nat
  threshold_record_ptr :: nat
  bst_max_buffers :: "max_buf_snapshot option"
  bst_collection_timer :: bst_timer
  bst_trigger_timer :: bst_timer
  bst_config_ptr :: config_params
  bst_track_ptr :: track_params
  unit_capabilities :: asic_capabilities
  bst_trigger_count :: "32 word list"

section \<open>Replies\<close>

record response_msg =
  resp_msg_type :: bst_cmd
  resp_unit :: int
  resp_cookie :: "nat option"
  resp_id :: int
  resp_options :: report_options
  resp_rv :: BVIEW_STATUS
  resp_config :: "config_params option"
  resp_track :: "track_params option"
  resp_active :: "report_snapshot option"
  resp_backup :: "report_snapshot option"

section \<open>The application's world\<close>

record 'hw bst_world =
  bst_units :: "bst_unit list"
  sb_hw :: 'hw
  kernel :: kernel_timers
  bst_msgq :: "request_msg list"
  bst_trigger_msgq :: "request_msg list"
  msgq_limit :: nat
  sent_responses :: "response_msg list"

definition unit_get :: "'hw bst_world \<Rightarrow> int \<Rightarrow> bst_unit" where
  "unit_get w i = bst_units w ! nat i"

definition unit_set :: "int \<Rightarrow> bst_unit \<Rightarrow> 'hw bst_world \<Rightarrow> 'hw bst_world" where
  "unit_set i u w = w\<lparr>bst_units := (bst_units w)[nat i := u]\<rparr>"

definition unit_valid :: "'hw bst_world \<Rightarrow> int \<Rightarrow> bool" where
  "unit_valid w i = (0 \<le> i \<and> nat i < length (bst_units w))"

lemma unit_get_set [simp]: "unit_valid w i \<Longrightarrow> unit_get (unit_set i u w) i = u"
  by (simp add: unit_get_def unit_set_def unit_valid_def)

lemma unit_get_set_other [simp]:
  "0 \<le> i \<Longrightarrow> 0 \<le> j \<Longrightarrow> i \<noteq> j \<Longrightarrow> unit_get (unit_set i u w) j = unit_get w j"
  by (simp add: unit_get_def unit_set_def)

lemma unit_valid_set [simp]: "unit_valid (unit_set i u w) j = unit_valid w j"
  by (simp add: unit_valid_def unit_set_def)

lemma unit_set_fields [simp]:
  "sb_hw (unit_set i u w) = sb_hw w" "kernel (unit_set i u w) = kernel w"
  "bst_msgq (unit_set i u w) = bst_msgq w" "bst_trigger_msgq (unit_set i u w) = bst_trigger_msgq w"
  "msgq_limit (unit_set i u w) = msgq_limit w" "sent_responses (unit_set i u w) = sent_responses w"
  "length (bst_units (unit_set i u w)) = length (bst_units w)"
  by (simp_all add: unit_set_def)

lemma world_update_units [simp]:
  "unit_get (w\<lparr>sb_hw := h\<rparr>) i = unit_get w i" "unit_get (w\<lparr>kernel := k\<rparr>) i = unit_get w i"
  "unit_get (w\<lparr>bst_msgq := q\<rparr>) i = unit_get w i" "unit_get (w\<lparr>bst_trigger_msgq := q\<rparr>) i = unit_get w i"
  "unit_get (w\<lparr>sent_responses := r\<rparr>) i = unit_get w i"
  "unit_valid (w\<lparr>sb_hw := h\<rparr>) i = unit_valid w i" "unit_valid (w\<lparr>kernel := k\<rparr>) i = unit_valid w i"
  "unit_valid (w\<lparr>bst_msgq := q\<rparr>) i = unit_valid w i"
  "unit_valid (w\<lparr>bst_trigger_msgq := q\<rparr>) i = unit_valid w i"
  "unit_valid (w\<lparr>sent_responses := r\<rparr>) i = unit_valid w i"
  by (simp_all add: unit_get_def unit_valid_def)

lemma unit_set_set [simp]: "unit_set i u (unit_set i v w) = unit_set i u w"
  by (simp add: unit_set_def)

section \<open>Calls that change the plugin's state\<close>

text \<open>Run a south-bound operation on the world's plugin state.\<close>

definition hw_call :: "('hw, 'r) sb_op \<Rightarrow> 'hw bst_world \<Rightarrow> BVIEW_STATUS \<times> 'r option \<times> 'hw bst_world" where
  "hw_call f w = (case f (sb_hw w) of (rv, out, h) \<Rightarrow> (rv, out, w\<lparr>sb_hw := h\<rparr>))"

text \<open>A structure zeroed before the call holds what the callee wrote, if it wrote.\<close>

definition filled :: "'r \<Rightarrow> 'r option \<Rightarrow> 'r" where
  "filled z out = (case out of None \<Rightarrow> z | Some x \<Rightarrow> x)"

lemma hw_call_frame:
  "hw_call f w = (rv, out, w') \<Longrightarrow>
   bst_units w' = bst_units w \<and> kernel w' = kernel w \<and> bst_msgq w' = bst_msgq w \<and>
   bst_trigger_msgq w' = bst_trigger_msgq w \<and> msgq_limit w' = msgq_limit w \<and>
   sent_responses w' = sent_responses w"
  by (auto simp: hw_call_def split: prod.splits)

lemma hw_call_unit [simp]:
  "unit_get (snd (snd (hw_call f w))) i = unit_get w i"
  "unit_valid (snd (snd (hw_call f w))) i = unit_valid w i"
  "kernel (snd (snd (hw_call f w))) = kernel w"
  by (simp_all add: hw_call_def unit_get_def unit_valid_def split_beta)

section \<open>The message queues\<close>

text \<open>msgsnd with IPC_NOWAIT fails when the queue is full.\<close>

definition bst_send_request :: "request_msg \<Rightarrow> 'hw bst_world \<Rightarrow> BVIEW_STATUS \<times> 'hw bst_world" where
  "bst_send_request m w =
     (if length (bst_msgq w) < msgq_limit w
      then (BVIEW_STATUS_SUCCESS, w\<lparr>bst_msgq := bst_msgq w @ [m]\<rparr>)
      else (BVIEW_STATUS_FAILURE, w))"

definition bst_trigger_send_request :: "request_msg \<Rightarrow> 'hw bst_world \<Rightarrow> BVIEW_STATUS \<times> 'hw bst_world" where
  "bst_trigger_send_request m w =
     (if length (bst_trigger_msgq w) < msgq_limit w
      then (BVIEW_STATUS_SUCCESS, w\<lparr>bst_trigger_msgq := bst_trigger_msgq w @ [m]\<rparr>)
      else (BVIEW_STATUS_FAILURE, w))"

text \<open>The timer and plugin call-backs only queue a message. Message fields the code leaves
  indeterminate are zero.\<close>

definition bst_periodic_collection_cb_run :: "int \<Rightarrow> 'hw bst_world \<Rightarrow> BVIEW_STATUS \<times> 'hw bst_world" where
  "bst_periodic_collection_cb_run unit w =
     bst_send_request ((zero_msg BVIEW_BST_CMD_API_GET_REPORT unit)
        \<lparr>msg_report_type := BVIEW_BST_STATS_PERIODIC\<rparr>) w"

definition bst_trigger_timer_cb_run :: "int \<Rightarrow> 'hw bst_world \<Rightarrow> BVIEW_STATUS \<times> 'hw bst_world" where
  "bst_trigger_timer_cb_run unit w =
     bst_trigger_send_request (zero_msg BVIEW_BST_CMD_API_CLEAR_TRIGGER_COUNT unit) w"

definition bst_trigger_cb :: "int \<Rightarrow> trigger_info \<Rightarrow> 'hw bst_world \<Rightarrow> BVIEW_STATUS \<times> 'hw bst_world" where
  "bst_trigger_cb unit info w =
     bst_trigger_send_request ((zero_msg BVIEW_BST_CMD_API_TRIGGER_COLLECT unit)
        \<lparr>msg_triggerInfo := info\<rparr>) w"

definition bst_plugin_cb :: "request_msg option \<Rightarrow> 'hw bst_world \<Rightarrow> BVIEW_STATUS \<times> 'hw bst_world" where
  "bst_plugin_cb request w =
     (case request of None \<Rightarrow> (BVIEW_STATUS_FAILURE, w) | Some m \<Rightarrow> bst_send_request m w)"

end
