(* ===== verification/Bst_Core.thy ===== *)
theory Bst_Core
  imports Bst_State
begin

text \<open>The command handlers of apps/bst/bst.c: feature and tracking configuration, the periodic
  collection timer, thresholds, clearing, reports and the rotation of the report records. A
  handler takes the plugin table, the message and the world to a status and the new world. A
  NULL message or context does not reach a handler and is not modelled.\<close>

section \<open>The periodic collection timer\<close>

definition BVIEW_BST_TIME_CONVERSION_FACTOR :: int where "BVIEW_BST_TIME_CONVERSION_FACTOR = 1000"
definition BVIEW_BST_DEFAULT_PLUGIN_INTERVAL :: int where "BVIEW_BST_DEFAULT_PLUGIN_INTERVAL = 5"

definition bst_periodic_collection_timer_delete :: "int \<Rightarrow> 'hw bst_world \<Rightarrow> BVIEW_STATUS \<times> 'hw bst_world" where
  "bst_periodic_collection_timer_delete unit w =
     (let u = unit_get w unit; t = bst_collection_timer u in
      if timer_in_use t then
        (case system_timer_delete (bstTimer t) (kernel w) of (rv, k) \<Rightarrow>
           if rv = BVIEW_STATUS_SUCCESS
           then (rv, unit_set unit (u\<lparr>bst_collection_timer := t\<lparr>timer_in_use := False\<rparr>\<rparr>) (w\<lparr>kernel := k\<rparr>))
           else (rv, w\<lparr>kernel := k\<rparr>))
      else (BVIEW_STATUS_SUCCESS, w))"

text \<open>A running timer is deleted first; the new one is created whether or not that worked.\<close>

definition bst_periodic_collection_timer_add :: "int \<Rightarrow> 'hw bst_world \<Rightarrow> BVIEW_STATUS \<times> 'hw bst_world" where
  "bst_periodic_collection_timer_add unit w =
     (let w1 = (if timer_in_use (bst_collection_timer (unit_get w unit))
                then snd (bst_periodic_collection_timer_delete unit w) else w);
          u = unit_get w1 unit; t = bst_collection_timer u
      in case system_timer_add bst_periodic_collection_cb
                (collectionInterval (bst_config_ptr u) * BVIEW_BST_TIME_CONVERSION_FACTOR)
                PERIODIC_MODE (timer_unit t) (kernel w1) of
           (rv, tid, k) \<Rightarrow>
             (let t1 = (case tid of None \<Rightarrow> t | Some i \<Rightarrow> t\<lparr>bstTimer := i\<rparr>);
                  t2 = (if rv = BVIEW_STATUS_SUCCESS then t1\<lparr>timer_in_use := True\<rparr> else t1)
              in (rv, unit_set unit (u\<lparr>bst_collection_timer := t2\<rparr>) (w1\<lparr>kernel := k\<rparr>))))"

section \<open>Feature configuration\<close>

definition BST_CONFIG_PARAMS_ENABLE :: nat where "BST_CONFIG_PARAMS_ENABLE = 0"
definition BST_CONFIG_PARAMS_SND_ASYNC_REP :: nat where "BST_CONFIG_PARAMS_SND_ASYNC_REP = 1"
definition BST_CONFIG_PARAMS_COLL_INTRVL :: nat where "BST_CONFIG_PARAMS_COLL_INTRVL = 2"
definition BST_CONFIG_PARAMS_STATS_UNITS :: nat where "BST_CONFIG_PARAMS_STATS_UNITS = 3"
definition BST_CONFIG_PARAMS_TGR_RATE_LIMIT :: nat where "BST_CONFIG_PARAMS_TGR_RATE_LIMIT = 4"
definition BST_CONFIG_PARAMS_SND_SNAP_TGR :: nat where "BST_CONFIG_PARAMS_SND_SNAP_TGR = 5"
definition BST_CONFIG_PARAMS_TGR_RL_INTVL :: nat where "BST_CONFIG_PARAMS_TGR_RL_INTVL = 6"
definition BST_CONFIG_PARAMS_ASYNC_FULL_REP :: nat where "BST_CONFIG_PARAMS_ASYNC_FULL_REP = 7"
definition BST_CONFIG_PARAMS_STATS_IN_PERCENT :: nat where "BST_CONFIG_PARAMS_STATS_IN_PERCENT = 8"

lemmas config_param_defs =
  BST_CONFIG_PARAMS_ENABLE_def BST_CONFIG_PARAMS_SND_ASYNC_REP_def BST_CONFIG_PARAMS_COLL_INTRVL_def
  BST_CONFIG_PARAMS_STATS_UNITS_def BST_CONFIG_PARAMS_TGR_RATE_LIMIT_def
  BST_CONFIG_PARAMS_SND_SNAP_TGR_def BST_CONFIG_PARAMS_TGR_RL_INTVL_def
  BST_CONFIG_PARAMS_ASYNC_FULL_REP_def BST_CONFIG_PARAMS_STATS_IN_PERCENT_def

definition cfg_has :: "config_params \<Rightarrow> nat \<Rightarrow> bool" where
  "cfg_has c p = (configMask c AND push_bit p 1 \<noteq> 0)"

text \<open>The assignments under the write lock, up to the asynchronous-report switch: the
  parameters and whether the collection interval changed.\<close>

definition feature_update_pre :: "config_params \<Rightarrow> config_params \<Rightarrow> config_params \<times> bool" where
  "feature_update_pre req ptr =
     (let interval_new = (cfg_has req BST_CONFIG_PARAMS_COLL_INTRVL \<and>
                          collectionInterval ptr \<noteq> collectionInterval req);
          p1 = (if interval_new then ptr\<lparr>collectionInterval := collectionInterval req\<rparr> else ptr);
          p2 = (if cfg_has req BST_CONFIG_PARAMS_SND_SNAP_TGR \<and>
                   sendSnapshotOnTrigger p1 \<noteq> sendSnapshotOnTrigger req
                then p1\<lparr>sendSnapshotOnTrigger := sendSnapshotOnTrigger req\<rparr> else p1);
          p3 = (if cfg_has req BST_CONFIG_PARAMS_TGR_RATE_LIMIT \<and>
                   bstMaxTriggers p2 \<noteq> bstMaxTriggers req
                then p2\<lparr>bstMaxTriggers := bstMaxTriggers req\<rparr> else p2);
          p4 = (if cfg_has req BST_CONFIG_PARAMS_TGR_RL_INTVL \<and>
                   triggerTransmitInterval p3 \<noteq> triggerTransmitInterval req
                then p3\<lparr>triggerTransmitInterval := triggerTransmitInterval req\<rparr> else p3);
          p5 = (if cfg_has req BST_CONFIG_PARAMS_ASYNC_FULL_REP
                then p4\<lparr>sendIncrementalReport := (if sendIncrementalReport req = 0 then 1 else 0)\<rparr>
                else p4)
      in (p5, interval_new))"

definition put_config :: "int \<Rightarrow> config_params \<Rightarrow> 'hw bst_world \<Rightarrow> 'hw bst_world" where
  "put_config unit c w = unit_set unit ((unit_get w unit)\<lparr>bst_config_ptr := c\<rparr>) w"

definition get_config :: "int \<Rightarrow> 'hw bst_world \<Rightarrow> config_params" where
  "get_config unit w = bst_config_ptr (unit_get w unit)"

text \<open>The asynchronous-report switch: switching on starts the timer when the switch or the
  interval changed, anything else stops it.\<close>

definition feature_async :: "int \<Rightarrow> config_params \<Rightarrow> bool \<Rightarrow> 'hw bst_world \<Rightarrow> 'hw bst_world" where
  "feature_async unit req interval_new w =
     (if cfg_has req BST_CONFIG_PARAMS_SND_ASYNC_REP then
        if sendAsyncReports req = 1 then
          let ptr = get_config unit w;
              switch_on = (sendAsyncReports ptr \<noteq> 1);
              w1 = (if switch_on then put_config unit (ptr\<lparr>sendAsyncReports := 1\<rparr>) w else w)
          in (if interval_new \<or> switch_on then snd (bst_periodic_collection_timer_add unit w1) else w1)
        else
          snd (bst_periodic_collection_timer_delete unit
                 (put_config unit ((get_config unit w)\<lparr>sendAsyncReports := 0\<rparr>) w))
      else w)"

definition feature_update_post :: "config_params \<Rightarrow> config_params \<Rightarrow> config_params" where
  "feature_update_post req ptr =
     (let p1 = (if cfg_has req BST_CONFIG_PARAMS_STATS_UNITS \<and>
                   statUnitsInCells ptr \<noteq> statUnitsInCells req
                then ptr\<lparr>statUnitsInCells := statUnitsInCells req\<rparr> else ptr);
          p2 = (if cfg_has req BST_CONFIG_PARAMS_STATS_IN_PERCENT \<and>
                   statsInPercentage p1 \<noteq> statsInPercentage req
                then p1\<lparr>statsInPercentage := statsInPercentage req\<rparr> else p1)
      in p2)"

definition plugin_interval :: "config_params \<Rightarrow> int" where
  "plugin_interval ptr =
     (if collectionInterval ptr = 0 \<or> collectionInterval ptr > BVIEW_BST_DEFAULT_PLUGIN_INTERVAL
      then BVIEW_BST_DEFAULT_PLUGIN_INTERVAL else collectionInterval ptr)"

definition bst_config_feature_set ::
  "'hw plugin_entry list \<Rightarrow> request_msg \<Rightarrow> 'hw bst_world \<Rightarrow> BVIEW_STATUS \<times> 'hw bst_world" where
  "bst_config_feature_set ps m w =
     (let unit = msg_unit m; req = req_config m;
          (p, interval_new) = feature_update_pre req (get_config unit w);
          w1 = feature_async unit req interval_new (put_config unit p w);
          w2 = put_config unit (feature_update_post req (get_config unit w1)) w1;
          interval = plugin_interval (get_config unit w2)
      in if \<not> cfg_has req BST_CONFIG_PARAMS_ENABLE then (BVIEW_STATUS_SUCCESS, w2)
         else case hw_call (sbapi_bst_config_get ps unit) w2 of
           (rv, out, w3) \<Rightarrow>
             if rv \<noteq> BVIEW_STATUS_SUCCESS then (rv, w3)
             else
               let ptr = get_config unit w3;
                   bstMode = (filled zero_bst_config out)\<lparr>
                     enableStatsMonitoring := (bstEnable req \<noteq> 0),
                     enablePeriodicCollection := True,
                     collectionPeriod := interval,
                     cfg_bstMaxTriggers := bstMaxTriggers ptr,
                     cfg_sendSnapshotOnTrigger := sendSnapshotOnTrigger ptr\<rparr>
               in case hw_call (sbapi_bst_config_set ps unit bstMode) w3 of
                    (rv, _, w4) \<Rightarrow>
                      if rv = BVIEW_STATUS_SUCCESS
                      then (rv, put_config unit ((get_config unit w4)\<lparr>bstEnable := bstEnable req\<rparr>) w4)
                      else (rv, w4))"

text \<open>The getters only check that the context exists.\<close>

definition bst_config_feature_get :: "request_msg \<Rightarrow> 'hw bst_world \<Rightarrow> BVIEW_STATUS \<times> 'hw bst_world" where
  "bst_config_feature_get m w = (BVIEW_STATUS_SUCCESS, w)"

section \<open>Tracking configuration\<close>

definition track_changed :: "track_params \<Rightarrow> track_params \<Rightarrow> bool" where
  "track_changed ptr req =
     (trackPeakStats ptr \<noteq> trackPeakStats req
      \<or> trackIngressPortPriorityGroup ptr \<noteq> trackIngressPortPriorityGroup req
      \<or> trackIngressPortServicePool ptr \<noteq> trackIngressPortServicePool req
      \<or> trackIngressServicePool ptr \<noteq> trackIngressServicePool req
      \<or> trackEgressPortServicePool ptr \<noteq> trackEgressPortServicePool req
      \<or> trackEgressServicePool ptr \<noteq> trackEgressServicePool req
      \<or> trackEgressUcQueue ptr \<noteq> trackEgressUcQueue req
      \<or> trackEgressUcQueueGroup ptr \<noteq> trackEgressUcQueueGroup req
      \<or> trackEgressMcQueue ptr \<noteq> trackEgressMcQueue req
      \<or> trackEgressCpuQueue ptr \<noteq> trackEgressCpuQueue req
      \<or> trackEgressRqeQueue ptr \<noteq> trackEgressRqeQueue req
      \<or> trackDevice ptr \<noteq> trackDevice req)"

text \<open>The status of config_get is only logged; on failure the mode starts zeroed.\<close>

definition bst_config_track_set ::
  "'hw plugin_entry list \<Rightarrow> request_msg \<Rightarrow> 'hw bst_world \<Rightarrow> BVIEW_STATUS \<times> 'hw bst_world" where
  "bst_config_track_set ps m w =
     (let unit = msg_unit m; req = req_track m; cfg = get_config unit w in
      if \<not> track_changed (bst_track_ptr (unit_get w unit)) req then (BVIEW_STATUS_SUCCESS, w)
      else case hw_call (sbapi_bst_config_get ps unit) w of
        (_, out, w1) \<Rightarrow>
          let bstMode = (filled zero_bst_config out)\<lparr>
                enableStatsMonitoring := (bstEnable cfg \<noteq> 0),
                enableDeviceStatsMonitoring := True,
                enableIngressStatsMonitoring := True,
                enableEgressStatsMonitoring := True,
                cfg_mode := (if trackPeakStats req = 1 then BVIEW_BST_MODE_PEAK else BVIEW_BST_MODE_CURRENT),
                cfg_trackMask := trackMask req,
                enablePeriodicCollection := True,
                cfg_bstMaxTriggers := bstMaxTriggers cfg,
                cfg_sendSnapshotOnTrigger := sendSnapshotOnTrigger cfg,
                cfg_statUnitsInCells := statUnitsInCells cfg,
                cfg_statsInPercentage := statsInPercentage cfg,
                cfg_triggerTransmitInterval := triggerTransmitInterval cfg,
                cfg_sendIncrementalReport := sendIncrementalReport cfg\<rparr>
          in case hw_call (sbapi_bst_config_set ps unit bstMode) w1 of
               (rv, _, w2) \<Rightarrow>
                 if rv = BVIEW_STATUS_SUCCESS
                 then (rv, unit_set unit ((unit_get w2 unit)\<lparr>bst_track_ptr := req\<rparr>) w2)
                 else (rv, w2))"

definition bst_config_track_get :: "request_msg \<Rightarrow> 'hw bst_world \<Rightarrow> BVIEW_STATUS \<times> 'hw bst_world" where
  "bst_config_track_get m w = (BVIEW_STATUS_SUCCESS, w)"

section \<open>Changes made behind the agent's back\<close>

definition bst_update_config_set ::
  "'hw plugin_entry list \<Rightarrow> request_msg \<Rightarrow> 'hw bst_world \<Rightarrow> BVIEW_STATUS \<times> 'hw bst_world" where
  "bst_update_config_set ps m w =
     (let unit = msg_unit m in
      case hw_call (sbapi_bst_config_get ps unit) w of
        (rv, out, w1) \<Rightarrow>
          if rv \<noteq> BVIEW_STATUS_SUCCESS then (rv, w1)
          else
            let bstMode = filled zero_bst_config out;
                w2 = (if msg_type m = BVIEW_BST_CMD_API_UPDATE_FEATURE
                      then put_config unit ((get_config unit w1)\<lparr>
                             bstEnable := (if enableStatsMonitoring bstMode then 1 else 0),
                             sendSnapshotOnTrigger := cfg_sendSnapshotOnTrigger bstMode,
                             bstMaxTriggers := cfg_bstMaxTriggers bstMode\<rparr>) w1
                      else w1);
                w3 = (if msg_type m = BVIEW_BST_CMD_API_UPDATE_TRACK
                      then unit_set unit ((unit_get w2 unit)\<lparr>bst_track_ptr :=
                             (bst_mask_to_realm (cfg_trackMask bstMode) (bst_track_ptr (unit_get w2 unit)))\<lparr>
                                trackPeakStats := (if cfg_mode bstMode = BVIEW_BST_MODE_CURRENT then 0 else 1)\<rparr>\<rparr>) w2
                      else w2)
            in (BVIEW_STATUS_SUCCESS, w3))"

end
