(* ===== verification/Bst_Report.thy ===== *)
theory Bst_Report
  imports Bst_Core
begin

text \<open>The rest of apps/bst/bst.c: threshold configuration, clearing of thresholds and
  statistics, the collection of reports and the rotation of the three report records; and
  bst_enable_on_trigger of bst_trigger.c, which a triggered report runs.\<close>

section \<open>Thresholds\<close>

definition req_device :: "request_msg \<Rightarrow> device_threshold" where
  "req_device m = (case msg_request m of REQ_DEVICE t \<Rightarrow> t | _ \<Rightarrow>
    \<lparr>dev_threshold = 0\<rparr>)"

definition req_ippg :: "request_msg \<Rightarrow> ippg_threshold" where
  "req_ippg m = (case msg_request m of REQ_IPPG t \<Rightarrow> t | _ \<Rightarrow>
    \<lparr>ippg_umShareThreshold = 0, ippg_umHeadroomThreshold = 0\<rparr>)"

definition req_ipsp :: "request_msg \<Rightarrow> ipsp_threshold" where
  "req_ipsp m = (case msg_request m of REQ_IPSP t \<Rightarrow> t | _ \<Rightarrow>
    \<lparr>ipsp_umShareThreshold = 0\<rparr>)"

definition req_isp :: "request_msg \<Rightarrow> isp_threshold" where
  "req_isp m = (case msg_request m of REQ_ISP t \<Rightarrow> t | _ \<Rightarrow>
    \<lparr>isp_umShareThreshold = 0\<rparr>)"

definition req_epsp :: "request_msg \<Rightarrow> epsp_threshold" where
  "req_epsp m = (case msg_request m of REQ_EPSP t \<Rightarrow> t | _ \<Rightarrow>
    \<lparr>epsp_ucShareThreshold = 0, epsp_umShareThreshold = 0,
     epsp_mcShareThreshold = 0, epsp_mcShareQueueEntriesThreshold = 0\<rparr>)"

definition req_esp :: "request_msg \<Rightarrow> esp_threshold" where
  "req_esp m = (case msg_request m of REQ_ESP t \<Rightarrow> t | _ \<Rightarrow>
    \<lparr>esp_umShareThreshold = 0, esp_mcShareThreshold = 0\<rparr>)"

definition req_eucq :: "request_msg \<Rightarrow> eucq_threshold" where
  "req_eucq m = (case msg_request m of REQ_EUCQ t \<Rightarrow> t | _ \<Rightarrow>
    \<lparr>eucq_ucBufferThreshold = 0\<rparr>)"

definition req_eucqg :: "request_msg \<Rightarrow> eucqg_threshold" where
  "req_eucqg m = (case msg_request m of REQ_EUCQG t \<Rightarrow> t | _ \<Rightarrow>
    \<lparr>eucqg_ucBufferThreshold = 0\<rparr>)"

definition req_emcq :: "request_msg \<Rightarrow> emcq_threshold" where
  "req_emcq m = (case msg_request m of REQ_EMCQ t \<Rightarrow> t | _ \<Rightarrow>
    \<lparr>mcBufferThreshold = 0, mcQueueThreshold = 0\<rparr>)"

definition req_cpuq :: "request_msg \<Rightarrow> cpuq_threshold" where
  "req_cpuq m = (case msg_request m of REQ_CPUQ t \<Rightarrow> t | _ \<Rightarrow>
    \<lparr>cpuBufferThreshold = 0, cpuQueueThreshold = 0\<rparr>)"

definition req_rqeq :: "request_msg \<Rightarrow> rqeq_threshold" where
  "req_rqeq m = (case msg_request m of REQ_RQEQ t \<Rightarrow> t | _ \<Rightarrow>
    \<lparr>rqeBufferThreshold = 0, rqeQueueThreshold = 0\<rparr>)"

text \<open>The switch on the threshold type; an unknown type changes nothing and succeeds.\<close>

definition threshold_dispatch ::
  "'hw plugin_entry list \<Rightarrow> request_msg \<Rightarrow> 'hw bst_world \<Rightarrow> BVIEW_STATUS \<times> unit option \<times> 'hw bst_world" where
  "threshold_dispatch ps m w =
     (let unit = msg_unit m; t = msg_threshold m in
        if msg_threshold_type m = realm_id BVIEW_BST_DEVICE then
          hw_call (sbapi_bst_device_threshold_set ps unit (req_device m)) w
        else if msg_threshold_type m = realm_id BVIEW_BST_INGRESS_PORT_PG then
          hw_call (sbapi_bst_ippg_threshold_set ps unit (thr_port t) (thr_priorityGroup t) (req_ippg m)) w
        else if msg_threshold_type m = realm_id BVIEW_BST_INGRESS_PORT_SP then
          hw_call (sbapi_bst_ipsp_threshold_set ps unit (thr_port t) (thr_servicePool t) (req_ipsp m)) w
        else if msg_threshold_type m = realm_id BVIEW_BST_INGRESS_SP then
          hw_call (sbapi_bst_isp_threshold_set ps unit (thr_servicePool t) (req_isp m)) w
        else if msg_threshold_type m = realm_id BVIEW_BST_EGRESS_PORT_SP then
          hw_call (sbapi_bst_epsp_threshold_set ps unit (thr_port t) (thr_servicePool t) (req_epsp m)) w
        else if msg_threshold_type m = realm_id BVIEW_BST_EGRESS_SP then
          hw_call (sbapi_bst_esp_threshold_set ps unit (thr_servicePool t) (req_esp m)) w
        else if msg_threshold_type m = realm_id BVIEW_BST_EGRESS_UC_QUEUE then
          hw_call (sbapi_bst_eucq_threshold_set ps unit (thr_queue t) (req_eucq m)) w
        else if msg_threshold_type m = realm_id BVIEW_BST_EGRESS_UC_QUEUEGROUPS then
          hw_call (sbapi_bst_eucqg_threshold_set ps unit (thr_queueGroup t) (req_eucqg m)) w
        else if msg_threshold_type m = realm_id BVIEW_BST_EGRESS_MC_QUEUE then
          hw_call (sbapi_bst_emcq_threshold_set ps unit (thr_queue t) (req_emcq m)) w
        else if msg_threshold_type m = realm_id BVIEW_BST_EGRESS_CPU_QUEUE then
          hw_call (sbapi_bst_cpuq_threshold_set ps unit (thr_queue t) (req_cpuq m)) w
        else if msg_threshold_type m = realm_id BVIEW_BST_EGRESS_RQE_QUEUE then
          hw_call (sbapi_bst_rqeq_threshold_set ps unit (thr_queue t) (req_rqeq m)) w
        else (BVIEW_STATUS_SUCCESS, None, w))"

definition bst_config_threshold_set ::
  "'hw plugin_entry list \<Rightarrow> request_msg \<Rightarrow> 'hw bst_world \<Rightarrow> BVIEW_STATUS \<times> 'hw bst_world" where
  "bst_config_threshold_set ps m w =
     (case threshold_dispatch ps m w of (rv, _, w1) \<Rightarrow> (rv, w1))"

section \<open>The report records\<close>

definition write_record :: "int \<Rightarrow> nat \<Rightarrow> report_snapshot \<Rightarrow> 'hw bst_world \<Rightarrow> 'hw bst_world" where
  "write_record unit p r w =
     (let u = unit_get w unit in unit_set unit (u\<lparr>record_memory := (record_memory u)(p := r)\<rparr>) w)"

definition read_record :: "int \<Rightarrow> nat \<Rightarrow> 'hw bst_world \<Rightarrow> report_snapshot" where
  "read_record unit p w = record_memory (unit_get w unit) p"

definition bst_clear_threshold_set ::
  "'hw plugin_entry list \<Rightarrow> request_msg \<Rightarrow> 'hw bst_world \<Rightarrow> BVIEW_STATUS \<times> 'hw bst_world" where
  "bst_clear_threshold_set ps m w =
     (let unit = msg_unit m in
      case hw_call (sbapi_bst_clear_thresholds ps unit) w of
        (rv, _, w1) \<Rightarrow>
          if rv = BVIEW_STATUS_SUCCESS
          then (rv, write_record unit (threshold_record_ptr (unit_get w1 unit)) zero_report w1)
          else (rv, w1))"

definition bst_clear_stats_set ::
  "'hw plugin_entry list \<Rightarrow> request_msg \<Rightarrow> 'hw bst_world \<Rightarrow> BVIEW_STATUS \<times> 'hw bst_world" where
  "bst_clear_stats_set ps m w =
     (let unit = msg_unit m; u = unit_get w unit;
          w1 = write_record unit (stats_backup_record_ptr u) zero_report w;
          w2 = write_record unit (stats_active_record_ptr u) zero_report w1;
          w3 = write_record unit (stats_current_record_ptr u) zero_report w2
      in case hw_call (sbapi_bst_clear_stats ps unit) w3 of (rv, _, w4) \<Rightarrow> (rv, w4))"

text \<open>The rotation: active becomes backup, current becomes active, the old backup is the next
  current.\<close>

definition rotate_records :: "bst_unit \<Rightarrow> bst_unit" where
  "rotate_records u = u\<lparr>stats_backup_record_ptr := stats_active_record_ptr u,
     stats_active_record_ptr := stats_current_record_ptr u,
     stats_current_record_ptr := stats_backup_record_ptr u\<rparr>"

definition bst_update_data :: "bst_report_type \<Rightarrow> int \<Rightarrow> 'hw bst_world \<Rightarrow> BVIEW_STATUS \<times> 'hw bst_world" where
  "bst_update_data type unit w =
     (BVIEW_STATUS_SUCCESS,
      if type = BVIEW_BST_STATS then unit_set unit (rotate_records (unit_get w unit)) w else w)"

section \<open>Collecting a report\<close>

definition bst_enable_on_trigger ::
  "'hw plugin_entry list \<Rightarrow> request_msg \<Rightarrow> 'hw bst_world \<Rightarrow> BVIEW_STATUS \<times> 'hw bst_world" where
  "bst_enable_on_trigger ps m w =
     (if msg_type m \<noteq> BVIEW_BST_CMD_API_TRIGGER_REPORT \<and>
         msg_type m \<noteq> BVIEW_BST_CMD_API_ENABLE_BST_ON_TRIGGER
      then (BVIEW_STATUS_SUCCESS, w)
      else case hw_call (sbapi_bst_config_get ps (msg_unit m)) w of
        (_, out, w1) \<Rightarrow>
          let bstMode = (filled zero_bst_config out)\<lparr>
                enableDeviceStatsMonitoring := True,
                enableIngressStatsMonitoring := True,
                enableEgressStatsMonitoring := True,
                enableStatsMonitoring := True,
                enablePeriodicCollection := True\<rparr>
          in case hw_call (sbapi_bst_config_set ps (msg_unit m) bstMode) w1 of
               (rv, _, w2) \<Rightarrow> (rv, w2))"

definition collect_snapshot ::
  "'hw plugin_entry list \<Rightarrow> int \<Rightarrow> 'hw bst_world \<Rightarrow> BVIEW_STATUS \<times> 'hw bst_world" where
  "collect_snapshot ps unit w =
     (let ss = stats_current_record_ptr (unit_get w unit);
          w1 = write_record unit ss zero_report w
      in case hw_call (sbapi_bst_snapshot_get ps unit) w1 of
           (rv, out, w2) \<Rightarrow>
             (case out of None \<Rightarrow> (rv, w2)
              | Some (s, t) \<Rightarrow> (rv, write_record unit ss \<lparr>rec_tv = t, rec_snapshot = s\<rparr> w2)))"

definition collect_max_buffers :: "'hw plugin_entry list \<Rightarrow> int \<Rightarrow> 'hw bst_world \<Rightarrow> 'hw bst_world" where
  "collect_max_buffers ps unit w =
     (if statsInPercentage (get_config unit w) = 1 then
        (case hw_call (sbapi_system_max_buf_snapshot_get ps unit) w of
           (_, None, w1) \<Rightarrow> w1
         | (_, Some (b, t), w1) \<Rightarrow> unit_set unit ((unit_get w1 unit)\<lparr>bst_max_buffers := Some b\<rparr>) w1)
      else w)"

definition collect_thresholds ::
  "'hw plugin_entry list \<Rightarrow> int \<Rightarrow> 'hw bst_world \<Rightarrow> BVIEW_STATUS \<times> 'hw bst_world" where
  "collect_thresholds ps unit w =
     (let p = threshold_record_ptr (unit_get w unit);
          w1 = write_record unit p ((read_record unit p w)\<lparr>rec_snapshot := zero_snapshot\<rparr>) w
      in case hw_call (sbapi_bst_threshold_get ps unit) w1 of
           (rv, out, w2) \<Rightarrow>
             (case out of None \<Rightarrow> (rv, w2)
              | Some (s, t) \<Rightarrow> (rv, write_record unit p \<lparr>rec_tv = t, rec_snapshot = s\<rparr> w2)))"

text \<open>The message comes back because a periodic or triggered report writes its collection flags
  from the tracking configuration. The status of a triggered report is that of re-enabling the
  monitoring, whatever the collection returned.\<close>

definition report_message :: "request_msg \<Rightarrow> 'hw bst_world \<Rightarrow> request_msg" where
  "report_message m w =
     (if msg_report_type m = BVIEW_BST_STATS_PERIODIC \<or> msg_report_type m = BVIEW_BST_STATS_TRIGGER
      then m\<lparr>msg_request := REQ_COLLECT (BST_COPY_TRACK_TO_COLLECT (bst_track_ptr (unit_get w (msg_unit m))))\<rparr>
      else m)"

definition bst_get_report ::
  "'hw plugin_entry list \<Rightarrow> request_msg \<Rightarrow> 'hw bst_world \<Rightarrow> BVIEW_STATUS \<times> request_msg \<times> 'hw bst_world" where
  "bst_get_report ps m w =
     (let unit = msg_unit m; m1 = report_message m w in
      if msg_type m = BVIEW_BST_CMD_API_GET_REPORT \<or> msg_type m = BVIEW_BST_CMD_API_TRIGGER_REPORT then
        (case collect_snapshot ps unit w of (rv, w1) \<Rightarrow>
           let w2 = collect_max_buffers ps unit w1 in
           if msg_type m = BVIEW_BST_CMD_API_TRIGGER_REPORT
           then (case bst_enable_on_trigger ps m1 w2 of (rv', w3) \<Rightarrow> (rv', m1, w3))
           else (rv, m1, w2))
      else if msg_type m = BVIEW_BST_CMD_API_GET_THRESHOLD then
        (case collect_thresholds ps unit w of (rv, w1) \<Rightarrow> (rv, m1, w1))
      else (BVIEW_STATUS_SUCCESS, m1, w))"

end
