(* ===== verification/Bst_Trigger.thy ===== *)
theory Bst_Trigger
  imports Bst_Report
begin

text \<open>The rate limiter of the threshold triggers (apps/bst/bst_trigger.c and the clearing
  handlers of bst_main.c): one counter per trigger index, a periodic timer that clears them, and
  the limit on the reports of one interval.\<close>

section \<open>The trigger timer\<close>

definition bst_trigger_timer_add :: "int \<Rightarrow> 'hw bst_world \<Rightarrow> BVIEW_STATUS \<times> 'hw bst_world" where
  "bst_trigger_timer_add unit w =
     (let u = unit_get w unit; t = bst_trigger_timer u in
      if timer_in_use t then (BVIEW_STATUS_SUCCESS, w)
      else case system_timer_add bst_trigger_timer_cb
                (triggerTransmitInterval (bst_config_ptr u) * BVIEW_BST_TIME_CONVERSION_FACTOR)
                PERIODIC_MODE (timer_unit t) (kernel w) of
             (rv, tid, k) \<Rightarrow>
               (let t1 = (case tid of None \<Rightarrow> t | Some i \<Rightarrow> t\<lparr>bstTimer := i\<rparr>);
                    t2 = (if rv = BVIEW_STATUS_SUCCESS then t1\<lparr>timer_in_use := True\<rparr> else t1)
                in (rv, unit_set unit (u\<lparr>bst_trigger_timer := t2\<rparr>) (w\<lparr>kernel := k\<rparr>))))"

definition bst_trigger_timer_delete :: "int \<Rightarrow> 'hw bst_world \<Rightarrow> BVIEW_STATUS \<times> 'hw bst_world" where
  "bst_trigger_timer_delete unit w =
     (let u = unit_get w unit; t = bst_trigger_timer u in
      if timer_in_use t then
        (case system_timer_delete (bstTimer t) (kernel w) of (rv, k) \<Rightarrow>
           if rv = BVIEW_STATUS_SUCCESS
           then (rv, unit_set unit (u\<lparr>bst_trigger_timer := t\<lparr>timer_in_use := False\<rparr>\<rparr>) (w\<lparr>kernel := k\<rparr>))
           else (rv, w\<lparr>kernel := k\<rparr>))
      else (BVIEW_STATUS_SUCCESS, w))"

section \<open>A trigger from the silicon\<close>

definition trigger_report_msg :: "request_msg \<Rightarrow> request_msg" where
  "trigger_report_msg m =
     (zero_msg BVIEW_BST_CMD_API_TRIGGER_REPORT (msg_unit m))
       \<lparr>msg_report_type := BVIEW_BST_STATS_TRIGGER, msg_triggerInfo := msg_triggerInfo m\<rparr>"

definition count_trigger :: "int \<Rightarrow> nat \<Rightarrow> 'hw bst_world \<Rightarrow> 'hw bst_world" where
  "count_trigger unit index w =
     (let u = unit_get w unit in
      unit_set unit (u\<lparr>bst_trigger_count := (bst_trigger_count u)[index := bst_trigger_count u ! index + 1]\<rparr>) w)"

text \<open>The counter is an unsigned int, so the limit is converted to one for the comparison.\<close>

definition trigger_limited :: "int \<Rightarrow> nat \<Rightarrow> 'hw bst_world \<Rightarrow> bool" where
  "trigger_limited unit index w =
     (let bstMax = bstMaxTriggers (get_config unit w) in
      bst_trigger_count (unit_get w unit) ! index \<ge> of_int bstMax \<and> bstMax \<noteq> 0)"

text \<open>A trigger whose realm and counter are not in the table keeps index 0 and limit 0: no
  report is sent, yet counter 0 is increased.\<close>

definition bst_process_trigger :: "request_msg \<Rightarrow> 'hw bst_world \<Rightarrow> BVIEW_STATUS \<times> 'hw bst_world" where
  "bst_process_trigger m w =
     (let unit = msg_unit m;
          found = bst_trigger_index_get (trig_realm (msg_triggerInfo m)) (trig_counter (msg_triggerInfo m));
          index = (case found of Some i \<Rightarrow> i | None \<Rightarrow> 0);
          bstMax = (case found of Some i \<Rightarrow> bstMaxTriggers (get_config unit w) | None \<Rightarrow> 0);
          send_trigger = (found \<noteq> None \<and> \<not> trigger_limited unit index w)
      in if send_trigger then
           (case bst_send_request (trigger_report_msg m) w of (rv, w1) \<Rightarrow>
              if rv \<noteq> BVIEW_STATUS_SUCCESS then (BVIEW_STATUS_FAILURE, w1)
              else
                let w2 = (if bst_trigger_count (unit_get w1 unit) ! index = 0 \<and> bstMax \<noteq> 0
                          then snd (bst_trigger_timer_add unit w1) else w1)
                in (rv, count_trigger unit index w2))
         else (BVIEW_STATUS_SUCCESS, count_trigger unit index w))"

section \<open>The end of an interval\<close>

text \<open>The timer is deleted when nothing was counted since the last clearing; the status of the
  deletion is overwritten by that of the message.\<close>

definition bst_clear_trigger_count :: "request_msg \<Rightarrow> 'hw bst_world \<Rightarrow> BVIEW_STATUS \<times> 'hw bst_world" where
  "bst_clear_trigger_count m w =
     (let unit = msg_unit m; u = unit_get w unit;
          clearTimer = (\<forall>c\<in>set (bst_trigger_count u). c = 0);
          w1 = unit_set unit (u\<lparr>bst_trigger_count := replicate BST_ID_MAX 0\<rparr>) w;
          w2 = (if clearTimer then snd (bst_trigger_timer_delete unit w1) else w1)
      in case bst_send_request (zero_msg BVIEW_BST_CMD_API_ENABLE_BST_ON_TRIGGER unit) w2 of
           (rv, w3) \<Rightarrow> if rv \<noteq> BVIEW_STATUS_SUCCESS then (BVIEW_STATUS_FAILURE, w3) else (rv, w3))"

definition bst_enable_on_trigger_timer_expiry ::
  "'hw plugin_entry list \<Rightarrow> request_msg \<Rightarrow> 'hw bst_world \<Rightarrow> BVIEW_STATUS \<times> 'hw bst_world" where
  "bst_enable_on_trigger_timer_expiry ps m w =
     (if bstEnable (get_config (msg_unit m) w) = 1 then bst_enable_on_trigger ps m w
      else (BVIEW_STATUS_SUCCESS, w))"

end
