(* ===== verification/Timer_Client.thy ===== *)
theory Timer_Client
  imports System_Time
begin

text \<open>The contract of a component that keeps one kernel timer and a flag that says whether it
  runs. The BST collection timer and the BST trigger timer of a unit are its instances
  (Bst_Timers).\<close>

definition owned :: "timer_handler \<Rightarrow> int \<Rightarrow> kernel_timers \<Rightarrow> nat list" where
  "owned h p k = map kt_id (filter (\<lambda>t. kt_handler t = h \<and> kt_param t = p) (timers k))"

text \<open>The kernel timers of the component are exactly the one its flag speaks of.\<close>

definition slot_ok :: "timer_handler \<Rightarrow> int \<Rightarrow> bool \<Rightarrow> nat \<Rightarrow> kernel_timers \<Rightarrow> bool" where
  "slot_ok h p in_use i k = (timers_ok k \<and> owned h p k = (if in_use then [i] else []))"

lemma owned_known: "i \<in> set (owned h p k) \<Longrightarrow> timer_known i k"
  by (auto simp: owned_def timer_known_def)

lemma owned_delete:
  "owned h p (k\<lparr>timers := filter (\<lambda>t. kt_id t \<noteq> i) (timers k)\<rparr>) = filter (\<lambda>j. j \<noteq> i) (owned h p k)"
  by (simp add: owned_def filter_map comp_def conj_commute)

lemma owned_inject:
  assumes "timers_ok k" "i \<in> set (owned h p k)" "i \<in> set (owned h' p' k)"
  shows "h = h' \<and> p = p'"
  using assms by (auto simp: owned_def timers_ok_def distinct_map inj_on_def)

lemma slot_delete:
  assumes "slot_ok h p True i k"
  shows "system_timer_delete i k = (BVIEW_STATUS_SUCCESS, k\<lparr>timers := filter (\<lambda>t. kt_id t \<noteq> i) (timers k)\<rparr>)"
    and "slot_ok h p False j (k\<lparr>timers := filter (\<lambda>t. kt_id t \<noteq> i) (timers k)\<rparr>)"
proof -
  have k: "timers_ok k" "owned h p k = [i]" using assms by (simp_all add: slot_ok_def)
  then have "timer_known i k" using owned_known [of i h p k] by simp
  then show d: "system_timer_delete i k = (BVIEW_STATUS_SUCCESS, k\<lparr>timers := filter (\<lambda>t. kt_id t \<noteq> i) (timers k)\<rparr>)"
    by (rule system_timer_delete_known)
  show "slot_ok h p False j (k\<lparr>timers := filter (\<lambda>t. kt_id t \<noteq> i) (timers k)\<rparr>)"
    using timers_ok_sys_delete [OF k(1), of i] d k(2) by (simp add: slot_ok_def owned_delete)
qed

lemma slot_delete_other:
  assumes "slot_ok h p b i k" "slot_ok h' p' True j k" "(h, p) \<noteq> (h', p')"
  shows "slot_ok h p b i (k\<lparr>timers := filter (\<lambda>t. kt_id t \<noteq> j) (timers k)\<rparr>)"
proof -
  have "timers_ok k" "j \<in> set (owned h' p' k)" using assms(1,2) by (simp_all add: slot_ok_def)
  then have "j \<notin> set (owned h p k)" using owned_inject assms(3) by blast
  then have "filter (\<lambda>n. n \<noteq> j) (owned h p k) = owned h p k" by (simp add: filter_id_conv) blast
  then show ?thesis
    using assms(1) timers_ok_sys_delete [of k j] slot_delete(1) [OF assms(2)]
    by (simp add: slot_ok_def owned_delete)
qed

lemma slot_add:
  assumes "slot_ok h p False i k" "length (timers k) < timer_limit k" "0 \<le> ms"
  shows "\<exists>k'. system_timer_add h ms m p k = (BVIEW_STATUS_SUCCESS, Some (next_timer k), k')
    \<and> slot_ok h p True (next_timer k) k'
    \<and> (\<exists>t\<in>set (timers k'). kt_id t = next_timer k \<and> kt_handler t = h \<and> kt_param t = p
         \<and> kt_spec t = Some (ms_timerspec ms m))
    \<and> (\<forall>h' p' b j. (h', p') \<noteq> (h, p) \<longrightarrow> slot_ok h' p' b j k \<longrightarrow> slot_ok h' p' b j k')"
proof -
  have k: "timers_ok k" "owned h p k = []" using assms(1) by (simp_all add: slot_ok_def)
  define t where "t = \<lparr>kt_id = next_timer k, kt_handler = h, kt_param = p, kt_spec = Some (ms_timerspec ms m)\<rparr>"
  define k' where "k' = k\<lparr>timers := timers k @ [t], next_timer := Suc (next_timer k)\<rparr>"
  have a: "system_timer_add h ms m p k = (BVIEW_STATUS_SUCCESS, Some (next_timer k), k')"
    using system_timer_add_success [OF assms(2,3) k(1)] by (simp add: k'_def t_def)
  have ok: "timers_ok k'" using timers_ok_add [OF k(1), of h ms m p] a by simp
  have o: "owned h' p' k' = owned h' p' k @ (if h' = h \<and> p' = p then [next_timer k] else [])" for h' p'
    by (auto simp: owned_def k'_def t_def)
  have "slot_ok h p True (next_timer k) k'" using ok o [of h p] k(2) by (simp add: slot_ok_def)
  moreover have "t \<in> set (timers k')" by (simp add: k'_def)
  moreover have "\<forall>h' p' b j. (h', p') \<noteq> (h, p) \<longrightarrow> slot_ok h' p' b j k \<longrightarrow> slot_ok h' p' b j k'"
    using ok o by (auto simp: slot_ok_def)
  moreover have "kt_id t = next_timer k \<and> kt_handler t = h \<and> kt_param t = p
    \<and> kt_spec t = Some (ms_timerspec ms m)"
    by (simp add: t_def)
  ultimately show ?thesis using a by blast
qed

section \<open>The contract\<close>

locale timer_client =
  fixes handler :: timer_handler
    and param :: int
    and kern :: "'s \<Rightarrow> kernel_timers"
    and in_use :: "'s \<Rightarrow> bool"
    and tid :: "'s \<Rightarrow> nat"
    and period :: "'s \<Rightarrow> int"
    and start :: "'s \<Rightarrow> BVIEW_STATUS \<times> 's"
    and stop :: "'s \<Rightarrow> BVIEW_STATUS \<times> 's"
    and wf :: "'s \<Rightarrow> bool"
  assumes stop_law: "wf s \<Longrightarrow> slot_ok handler param (in_use s) (tid s) (kern s) \<Longrightarrow> stop s = (rv, s') \<Longrightarrow>
      rv = BVIEW_STATUS_SUCCESS \<and> wf s' \<and> \<not> in_use s'
      \<and> slot_ok handler param (in_use s') (tid s') (kern s')"
    and start_law: "wf s \<Longrightarrow> slot_ok handler param (in_use s) (tid s) (kern s) \<Longrightarrow>
      length (timers (kern s)) < timer_limit (kern s) \<Longrightarrow> 0 \<le> period s \<Longrightarrow> start s = (rv, s') \<Longrightarrow>
      rv = BVIEW_STATUS_SUCCESS \<and> wf s' \<and> in_use s'
      \<and> slot_ok handler param (in_use s') (tid s') (kern s')"
begin

definition consistent :: "'s \<Rightarrow> bool" where
  "consistent s = (wf s \<and> slot_ok handler param (in_use s) (tid s) (kern s))"

lemma at_most_one: "consistent s \<Longrightarrow> length (owned handler param (kern s)) \<le> 1"
  by (simp add: consistent_def slot_ok_def)

lemma running_iff: "consistent s \<Longrightarrow> in_use s \<longleftrightarrow> owned handler param (kern s) \<noteq> []"
  by (simp add: consistent_def slot_ok_def)

lemma stop_consistent:
  "consistent s \<Longrightarrow> consistent (snd (stop s)) \<and> owned handler param (kern (snd (stop s))) = []
     \<and> fst (stop s) = BVIEW_STATUS_SUCCESS"
  using stop_law [of s "fst (stop s)" "snd (stop s)"] by (simp add: consistent_def slot_ok_def)

lemma start_consistent:
  assumes "consistent s" "length (timers (kern s)) < timer_limit (kern s)" "0 \<le> period s"
  shows "consistent (snd (start s)) \<and> length (owned handler param (kern (snd (start s)))) = 1
     \<and> fst (start s) = BVIEW_STATUS_SUCCESS"
  using assms start_law [of s "fst (start s)" "snd (start s)"] by (simp add: consistent_def slot_ok_def)

text \<open>Starting and then stopping leaves no timer behind.\<close>

lemma start_stop:
  assumes "consistent s" "length (timers (kern s)) < timer_limit (kern s)" "0 \<le> period s"
  shows "owned handler param (kern (snd (stop (snd (start s))))) = []"
  using start_consistent [OF assms] stop_consistent by blast

end

end
