(* ===== verification/Bst_Timers.thy ===== *)
theory Bst_Timers
  imports Bst_Trigger Timer_Client
begin

text \<open>The collection and the trigger timer of a unit as clients of the kernel's timers: each
  keeps at most one kernel timer, and its flag tells whether it runs.\<close>

section \<open>The collection timer\<close>

definition coll_flag :: "int \<Rightarrow> 'hw bst_world \<Rightarrow> bool" where
  "coll_flag i w = timer_in_use (bst_collection_timer (unit_get w i))"

definition coll_id :: "int \<Rightarrow> 'hw bst_world \<Rightarrow> nat" where
  "coll_id i w = bstTimer (bst_collection_timer (unit_get w i))"

definition coll_period :: "int \<Rightarrow> 'hw bst_world \<Rightarrow> int" where
  "coll_period i w = collectionInterval (get_config i w) * BVIEW_BST_TIME_CONVERSION_FACTOR"

definition coll_wf :: "int \<Rightarrow> 'hw bst_world \<Rightarrow> bool" where
  "coll_wf i w = (unit_valid w i \<and> timer_unit (bst_collection_timer (unit_get w i)) = i)"

abbreviation coll_ok :: "int \<Rightarrow> 'hw bst_world \<Rightarrow> bool" where
  "coll_ok i w \<equiv> coll_wf i w \<and> slot_ok bst_periodic_collection_cb i (coll_flag i w) (coll_id i w) (kernel w)"

lemma coll_stop:
  assumes "coll_ok i w" "bst_periodic_collection_timer_delete i w = (rv, w')"
  shows "rv = BVIEW_STATUS_SUCCESS \<and> coll_ok i w' \<and> \<not> coll_flag i w'
    \<and> get_config i w' = get_config i w
    \<and> length (timers (kernel w')) \<le> length (timers (kernel w))
    \<and> timer_limit (kernel w') = timer_limit (kernel w)"
proof (cases "coll_flag i w")
  case True
  then have s: "slot_ok bst_periodic_collection_cb i True (coll_id i w) (kernel w)"
    using assms(1) by simp
  show ?thesis
    using assms True slot_delete [OF s]
    by (auto simp: bst_periodic_collection_timer_delete_def coll_flag_def coll_id_def coll_wf_def
        get_config_def Let_def intro!: length_filter_le)
next
  case False
  then show ?thesis
    using assms by (simp add: bst_periodic_collection_timer_delete_def coll_flag_def Let_def)
qed

text \<open>Adding when no timer runs.\<close>

lemma coll_start_stopped:
  assumes "coll_ok i w" "\<not> coll_flag i w" "length (timers (kernel w)) < timer_limit (kernel w)"
    "0 \<le> coll_period i w" "bst_periodic_collection_timer_add i w = (rv, w')"
  shows "rv = BVIEW_STATUS_SUCCESS \<and> coll_ok i w' \<and> coll_flag i w'"
proof -
  have s: "slot_ok bst_periodic_collection_cb i False (coll_id i w) (kernel w)"
    using assms(1,2) by simp
  obtain k' where k': "system_timer_add bst_periodic_collection_cb (coll_period i w) PERIODIC_MODE i (kernel w)
      = (BVIEW_STATUS_SUCCESS, Some (next_timer (kernel w)), k')"
    "slot_ok bst_periodic_collection_cb i True (next_timer (kernel w)) k'"
    using slot_add [OF s assms(3,4), of PERIODIC_MODE] by blast
  then show ?thesis
    using assms
    by (auto simp: bst_periodic_collection_timer_add_def coll_flag_def coll_id_def coll_wf_def
        coll_period_def get_config_def Let_def)
qed

lemma coll_add_running:
  "coll_flag i w \<Longrightarrow> \<not> coll_flag i (snd (bst_periodic_collection_timer_delete i w)) \<Longrightarrow>
   bst_periodic_collection_timer_add i w =
   bst_periodic_collection_timer_add i (snd (bst_periodic_collection_timer_delete i w))"
  by (simp add: bst_periodic_collection_timer_add_def coll_flag_def)

lemma coll_start:
  assumes "coll_ok i w" "length (timers (kernel w)) < timer_limit (kernel w)"
    "0 \<le> coll_period i w" "bst_periodic_collection_timer_add i w = (rv, w')"
  shows "rv = BVIEW_STATUS_SUCCESS \<and> coll_ok i w' \<and> coll_flag i w'"
proof (cases "coll_flag i w")
  case True
  define w1 where "w1 = snd (bst_periodic_collection_timer_delete i w)"
  have "bst_periodic_collection_timer_delete i w = (fst (bst_periodic_collection_timer_delete i w), w1)"
    by (simp add: w1_def)
  from coll_stop [OF assms(1) this]
  have w1: "coll_ok i w1" "\<not> coll_flag i w1" "get_config i w1 = get_config i w"
    "length (timers (kernel w1)) \<le> length (timers (kernel w))"
    "timer_limit (kernel w1) = timer_limit (kernel w)"
    by blast+
  have "bst_periodic_collection_timer_add i w1 = (rv, w')"
    using coll_add_running [OF True] w1(2) assms(4) by (simp add: w1_def)
  moreover have "0 \<le> coll_period i w1" using assms(3) w1(3) by (simp add: coll_period_def)
  ultimately show ?thesis using coll_start_stopped w1 assms(2) by (metis order.strict_trans1)
qed (use coll_start_stopped assms in blast)

interpretation colltimer: timer_client bst_periodic_collection_cb i kernel "coll_flag i" "coll_id i"
  "coll_period i" "bst_periodic_collection_timer_add i" "bst_periodic_collection_timer_delete i" "coll_wf i"
  for i :: int
  using coll_stop coll_start by unfold_locales blast+

section \<open>The trigger timer\<close>

definition trig_flag :: "int \<Rightarrow> 'hw bst_world \<Rightarrow> bool" where
  "trig_flag i w = timer_in_use (bst_trigger_timer (unit_get w i))"

definition trig_id :: "int \<Rightarrow> 'hw bst_world \<Rightarrow> nat" where
  "trig_id i w = bstTimer (bst_trigger_timer (unit_get w i))"

definition trig_period :: "int \<Rightarrow> 'hw bst_world \<Rightarrow> int" where
  "trig_period i w = triggerTransmitInterval (get_config i w) * BVIEW_BST_TIME_CONVERSION_FACTOR"

definition trig_wf :: "int \<Rightarrow> 'hw bst_world \<Rightarrow> bool" where
  "trig_wf i w = (unit_valid w i \<and> timer_unit (bst_trigger_timer (unit_get w i)) = i)"

abbreviation trig_ok :: "int \<Rightarrow> 'hw bst_world \<Rightarrow> bool" where
  "trig_ok i w \<equiv> trig_wf i w \<and> slot_ok bst_trigger_timer_cb i (trig_flag i w) (trig_id i w) (kernel w)"

lemma trig_stop:
  assumes "trig_ok i w" "bst_trigger_timer_delete i w = (rv, w')"
  shows "rv = BVIEW_STATUS_SUCCESS \<and> trig_ok i w' \<and> \<not> trig_flag i w'"
proof (cases "trig_flag i w")
  case True
  then have s: "slot_ok bst_trigger_timer_cb i True (trig_id i w) (kernel w)"
    using assms(1) by simp
  show ?thesis
    using assms True slot_delete [OF s]
    by (auto simp: bst_trigger_timer_delete_def trig_flag_def trig_id_def trig_wf_def Let_def)
next
  case False
  then show ?thesis using assms by (simp add: bst_trigger_timer_delete_def trig_flag_def Let_def)
qed

lemma trig_start:
  assumes "trig_ok i w" "length (timers (kernel w)) < timer_limit (kernel w)"
    "0 \<le> trig_period i w" "bst_trigger_timer_add i w = (rv, w')"
  shows "rv = BVIEW_STATUS_SUCCESS \<and> trig_ok i w' \<and> trig_flag i w'"
proof (cases "trig_flag i w")
  case True
  then show ?thesis using assms by (simp add: bst_trigger_timer_add_def trig_flag_def Let_def)
next
  case False
  have s: "slot_ok bst_trigger_timer_cb i False (trig_id i w) (kernel w)"
    using assms(1) False by simp
  obtain k' where k': "system_timer_add bst_trigger_timer_cb (trig_period i w) PERIODIC_MODE i (kernel w)
      = (BVIEW_STATUS_SUCCESS, Some (next_timer (kernel w)), k')"
    "slot_ok bst_trigger_timer_cb i True (next_timer (kernel w)) k'"
    using slot_add [OF s assms(2,3), of PERIODIC_MODE] by blast
  then show ?thesis
    using assms False
    by (auto simp: bst_trigger_timer_add_def trig_flag_def trig_id_def trig_wf_def
        trig_period_def get_config_def Let_def)
qed

interpretation trigtimer: timer_client bst_trigger_timer_cb i kernel "trig_flag i" "trig_id i"
  "trig_period i" "bst_trigger_timer_add i" "bst_trigger_timer_delete i" "trig_wf i"
  for i :: int
  using trig_stop trig_start by unfold_locales blast+

end
