(* ===== verification/Bst_Config_Laws.thy ===== *)
theory Bst_Config_Laws
  imports Bst_Timers
begin

text \<open>What the configuration handlers of bst.c guarantee: the parameters a feature request
  leaves behind, what it pushes to the silicon, the collection timer it starts or stops, and the
  tracking configuration.\<close>

section \<open>Reading and writing a unit\<close>

lemma get_put_config [simp]: "unit_valid w i \<Longrightarrow> get_config i (put_config i c w) = c"
  by (simp add: get_config_def put_config_def)

lemma put_config_simps [simp]:
  "unit_valid (put_config i c w) j = unit_valid w j" "sb_hw (put_config i c w) = sb_hw w"
  "kernel (put_config i c w) = kernel w"
  by (simp_all add: put_config_def)

lemma put_config_timers [simp]:
  "unit_valid w i \<Longrightarrow> coll_flag i (put_config i c w) = coll_flag i w"
  "unit_valid w i \<Longrightarrow> coll_id i (put_config i c w) = coll_id i w"
  "unit_valid w i \<Longrightarrow> coll_wf i (put_config i c w) = coll_wf i w"
  by (simp_all add: coll_flag_def coll_id_def coll_wf_def put_config_def)

lemma hw_call_reads [simp]:
  "get_config i (snd (snd (hw_call f w))) = get_config i w"
  "coll_flag i (snd (snd (hw_call f w))) = coll_flag i w"
  "coll_id i (snd (snd (hw_call f w))) = coll_id i w"
  "coll_wf i (snd (snd (hw_call f w))) = coll_wf i w"
  by (simp_all add: get_config_def coll_flag_def coll_id_def coll_wf_def)

lemma timer_delete_reads:
  assumes "unit_valid w i" "bst_periodic_collection_timer_delete i w = (rv, w')"
  shows "get_config i w' = get_config i w" "unit_valid w' i" "sb_hw w' = sb_hw w"
    "bst_track_ptr (unit_get w' i) = bst_track_ptr (unit_get w i)"
  using assms
  by (auto simp: bst_periodic_collection_timer_delete_def get_config_def Let_def
      split: if_splits prod.splits)

lemma timer_add_reads:
  assumes "unit_valid w i" "bst_periodic_collection_timer_add i w = (rv, w')"
  shows "get_config i w' = get_config i w" "unit_valid w' i" "sb_hw w' = sb_hw w"
proof -
  define w1 where "w1 = (if timer_in_use (bst_collection_timer (unit_get w i))
    then snd (bst_periodic_collection_timer_delete i w) else w)"
  have w1: "get_config i w1 = get_config i w" "unit_valid w1 i" "sb_hw w1 = sb_hw w"
    using timer_delete_reads [OF assms(1)] assms(1) by (simp_all add: w1_def prod_eq_iff)
  have "\<exists>t k. w' = unit_set i ((unit_get w1 i)\<lparr>bst_collection_timer := t\<rparr>) (w1\<lparr>kernel := k\<rparr>)"
    using assms(2) unfolding bst_periodic_collection_timer_add_def w1_def [symmetric]
    by (auto simp: Let_def split: prod.splits)
  then show "get_config i w' = get_config i w" "unit_valid w' i" "sb_hw w' = sb_hw w"
    using w1 by (auto simp: get_config_def)
qed

section \<open>The parameters after a feature request\<close>

text \<open>The parameters a request describes: each one whose mask bit is set is taken over. The
  full-report switch is stored inverted, and only the value 1 switches reports on.\<close>

definition feature_spec :: "config_params \<Rightarrow> config_params \<Rightarrow> config_params" where
  "feature_spec req ptr = ptr\<lparr>
     collectionInterval := (if cfg_has req BST_CONFIG_PARAMS_COLL_INTRVL
        then collectionInterval req else collectionInterval ptr),
     sendSnapshotOnTrigger := (if cfg_has req BST_CONFIG_PARAMS_SND_SNAP_TGR
        then sendSnapshotOnTrigger req else sendSnapshotOnTrigger ptr),
     bstMaxTriggers := (if cfg_has req BST_CONFIG_PARAMS_TGR_RATE_LIMIT
        then bstMaxTriggers req else bstMaxTriggers ptr),
     triggerTransmitInterval := (if cfg_has req BST_CONFIG_PARAMS_TGR_RL_INTVL
        then triggerTransmitInterval req else triggerTransmitInterval ptr),
     sendIncrementalReport := (if cfg_has req BST_CONFIG_PARAMS_ASYNC_FULL_REP
        then (if sendIncrementalReport req = 0 then 1 else 0) else sendIncrementalReport ptr),
     sendAsyncReports := (if cfg_has req BST_CONFIG_PARAMS_SND_ASYNC_REP
        then (if sendAsyncReports req = 1 then 1 else 0) else sendAsyncReports ptr),
     statUnitsInCells := (if cfg_has req BST_CONFIG_PARAMS_STATS_UNITS
        then statUnitsInCells req else statUnitsInCells ptr),
     statsInPercentage := (if cfg_has req BST_CONFIG_PARAMS_STATS_IN_PERCENT
        then statsInPercentage req else statsInPercentage ptr)\<rparr>"

lemma feature_update_pre_eq:
  "feature_update_pre req ptr =
    (ptr\<lparr>collectionInterval := collectionInterval (feature_spec req ptr),
         sendSnapshotOnTrigger := sendSnapshotOnTrigger (feature_spec req ptr),
         bstMaxTriggers := bstMaxTriggers (feature_spec req ptr),
         triggerTransmitInterval := triggerTransmitInterval (feature_spec req ptr),
         sendIncrementalReport := sendIncrementalReport (feature_spec req ptr)\<rparr>,
     collectionInterval (feature_spec req ptr) \<noteq> collectionInterval ptr)"
  by (cases ptr) (auto simp: feature_update_pre_def feature_spec_def Let_def)

lemma feature_update_post_eq:
  "feature_update_post req ptr =
    ptr\<lparr>statUnitsInCells := (if cfg_has req BST_CONFIG_PARAMS_STATS_UNITS
           then statUnitsInCells req else statUnitsInCells ptr),
        statsInPercentage := (if cfg_has req BST_CONFIG_PARAMS_STATS_IN_PERCENT
           then statsInPercentage req else statsInPercentage ptr)\<rparr>"
  by (cases ptr) (simp add: feature_update_post_def Let_def)

lemma feature_async_reads:
  assumes "unit_valid w i"
  shows "get_config i (feature_async i req b w) = (get_config i w)\<lparr>sendAsyncReports :=
      (if cfg_has req BST_CONFIG_PARAMS_SND_ASYNC_REP then (if sendAsyncReports req = 1 then 1 else 0)
       else sendAsyncReports (get_config i w))\<rparr>"
    and "unit_valid (feature_async i req b w) i" "sb_hw (feature_async i req b w) = sb_hw w"
proof -
  let ?w1 = "if sendAsyncReports (get_config i w) \<noteq> 1
    then put_config i ((get_config i w)\<lparr>sendAsyncReports := 1\<rparr>) w else w"
  let ?w0 = "put_config i ((get_config i w)\<lparr>sendAsyncReports := 0\<rparr>) w"
  have v: "unit_valid ?w1 i" "unit_valid ?w0 i" using assms by simp_all
  have "get_config i ?w1 = (get_config i w)\<lparr>sendAsyncReports := 1\<rparr>"
    using assms by (cases "get_config i w") simp
  moreover have "get_config i ?w0 = (get_config i w)\<lparr>sendAsyncReports := 0\<rparr>" using assms by simp
  moreover note timer_add_reads [OF v(1) prod.collapse [symmetric]]
    timer_delete_reads [OF v(2) prod.collapse [symmetric]]
  ultimately show "get_config i (feature_async i req b w) = (get_config i w)\<lparr>sendAsyncReports :=
      (if cfg_has req BST_CONFIG_PARAMS_SND_ASYNC_REP then (if sendAsyncReports req = 1 then 1 else 0)
       else sendAsyncReports (get_config i w))\<rparr>"
    and "unit_valid (feature_async i req b w) i" "sb_hw (feature_async i req b w) = sb_hw w"
    using assms unfolding feature_async_def Let_def by (simp_all split: if_splits)
qed

text \<open>The world after the updates under the lock, before the silicon is asked.\<close>

definition feature_stored :: "request_msg \<Rightarrow> 'hw bst_world \<Rightarrow> 'hw bst_world" where
  "feature_stored m w =
     (let unit = msg_unit m; req = req_config m; p = feature_update_pre req (get_config unit w);
          w1 = feature_async unit req (snd p) (put_config unit (fst p) w)
      in put_config unit (feature_update_post req (get_config unit w1)) w1)"

lemma feature_stored_reads:
  assumes "unit_valid w (msg_unit m)"
  shows "get_config (msg_unit m) (feature_stored m w) = feature_spec (req_config m) (get_config (msg_unit m) w)"
    and "unit_valid (feature_stored m w) (msg_unit m)" "sb_hw (feature_stored m w) = sb_hw w"
proof -
  define p where "p = feature_update_pre (req_config m) (get_config (msg_unit m) w)"
  have "unit_valid (put_config (msg_unit m) (fst p) w) (msg_unit m)" using assms by simp
  note r = feature_async_reads [OF this, of "req_config m" "snd p"]
  show "get_config (msg_unit m) (feature_stored m w) = feature_spec (req_config m) (get_config (msg_unit m) w)"
    unfolding feature_stored_def Let_def p_def [symmetric] get_put_config [OF r(2)] r(1)
    using assms
    by (cases "get_config (msg_unit m) w")
       (simp add: feature_update_post_eq p_def feature_update_pre_eq feature_spec_def)
  show "unit_valid (feature_stored m w) (msg_unit m)" "sb_hw (feature_stored m w) = sb_hw w"
    unfolding feature_stored_def Let_def p_def [symmetric] using r by simp_all
qed

text \<open>The mode pushed to the silicon.\<close>

definition pushed_mode :: "request_msg \<Rightarrow> config_params \<Rightarrow> bst_config \<Rightarrow> bst_config" where
  "pushed_mode m cfg c = c\<lparr>enableStatsMonitoring := (bstEnable (req_config m) \<noteq> 0),
     enablePeriodicCollection := True, collectionPeriod := plugin_interval cfg,
     cfg_bstMaxTriggers := bstMaxTriggers cfg, cfg_sendSnapshotOnTrigger := sendSnapshotOnTrigger cfg\<rparr>"

lemma bst_config_feature_set_eq:
  "bst_config_feature_set ps m w =
    (let i = msg_unit m; w2 = feature_stored m w in
     if \<not> cfg_has (req_config m) BST_CONFIG_PARAMS_ENABLE then (BVIEW_STATUS_SUCCESS, w2)
     else case hw_call (sbapi_bst_config_get ps i) w2 of
       (rv, out, w3) \<Rightarrow>
         if rv \<noteq> BVIEW_STATUS_SUCCESS then (rv, w3)
         else case hw_call (sbapi_bst_config_set ps i
                     (pushed_mode m (get_config i w2) (filled zero_bst_config out))) w3 of
           (rv, _, w4) \<Rightarrow>
             if rv = BVIEW_STATUS_SUCCESS
             then (rv, put_config i ((get_config i w4)\<lparr>bstEnable := bstEnable (req_config m)\<rparr>) w4)
             else (rv, w4))"
proof -
  have "get_config i w3 = get_config i w2" if "hw_call f w2 = (rv, out, w3)" for i f w2 rv out w3
    using that hw_call_reads(1) [of i f w2] by simp
  then show ?thesis
    unfolding bst_config_feature_set_def feature_stored_def pushed_mode_def Let_def
    by (auto simp: split_beta split: prod.splits)
qed

lemma feature_set_config:
  assumes "unit_valid w (msg_unit m)" "bst_config_feature_set ps m w = (rv, w')"
  shows "get_config (msg_unit m) w' =
    (let c = feature_spec (req_config m) (get_config (msg_unit m) w) in
     if cfg_has (req_config m) BST_CONFIG_PARAMS_ENABLE \<and> rv = BVIEW_STATUS_SUCCESS
     then c\<lparr>bstEnable := bstEnable (req_config m)\<rparr> else c)"
proof -
  note r = feature_stored_reads [OF assms(1)]
  have hw: "get_config i w3 = get_config i w2 \<and> unit_valid w3 i = unit_valid w2 i"
    if "hw_call f w2 = (rv, out, w3)" for i f w2 rv out w3
    using that hw_call_reads(1) [of i f w2] hw_call_unit(2) [of f w2 i] by simp
  show ?thesis
    using assms(2) r unfolding bst_config_feature_set_eq
    by (auto simp: Let_def split: if_splits prod.splits dest!: hw)
qed

section \<open>The collection timer after a feature request\<close>

text \<open>The timer runs exactly while asynchronous reports are on.\<close>

definition async_inv :: "int \<Rightarrow> 'hw bst_world \<Rightarrow> bool" where
  "async_inv i w = (coll_ok i w \<and> (coll_flag i w \<longleftrightarrow> sendAsyncReports (get_config i w) = 1))"

lemma coll_ok_put_config: "coll_ok i w \<Longrightarrow> coll_ok i (put_config i c w)"
  by (simp add: coll_wf_def) (simp add: coll_flag_def coll_id_def put_config_def)

lemma feature_async_inv:
  assumes "coll_ok i w" "coll_flag i w \<longleftrightarrow> sendAsyncReports (get_config i w) = 1"
    "length (timers (kernel w)) < timer_limit (kernel w)" "0 \<le> collectionInterval (get_config i w)"
  shows "async_inv i (feature_async i req b w)"
proof -
  have v: "unit_valid w i" using assms(1) by (simp add: coll_wf_def)
  let ?c1 = "(get_config i w)\<lparr>sendAsyncReports := 1\<rparr>"
  let ?c0 = "(get_config i w)\<lparr>sendAsyncReports := 0\<rparr>"
  have inv_start: "coll_ok i (snd (bst_periodic_collection_timer_add i w1))
      \<and> coll_flag i (snd (bst_periodic_collection_timer_add i w1))"
    if "coll_ok i w1" "kernel w1 = kernel w" "collectionInterval (get_config i w1) = collectionInterval (get_config i w)"
    for w1 :: "'a bst_world"
  proof -
    have "length (timers (kernel w1)) < timer_limit (kernel w1)" "0 \<le> coll_period i w1"
      using assms(3,4) that by (simp_all add: coll_period_def BVIEW_BST_TIME_CONVERSION_FACTOR_def)
    from coll_start [OF that(1) this prod.collapse [symmetric]] show ?thesis by blast
  qed
  have inv_stop: "coll_ok i (snd (bst_periodic_collection_timer_delete i w1))
      \<and> \<not> coll_flag i (snd (bst_periodic_collection_timer_delete i w1))"
    if "coll_ok i w1" for w1 :: "'a bst_world"
    using coll_stop [OF that prod.collapse [symmetric]] by blast
  have ok1: "coll_ok i (put_config i ?c1 w)" and ok0: "coll_ok i (put_config i ?c0 w)"
    using coll_ok_put_config [OF assms(1)] by blast+
  have flag: "sendAsyncReports (get_config i (feature_async i req b w)) =
      (if cfg_has req BST_CONFIG_PARAMS_SND_ASYNC_REP then (if sendAsyncReports req = 1 then 1 else 0)
       else sendAsyncReports (get_config i w))"
    using feature_async_reads(1) [OF v] by simp
  consider (keep) "\<not> cfg_has req BST_CONFIG_PARAMS_SND_ASYNC_REP"
    | (off) "cfg_has req BST_CONFIG_PARAMS_SND_ASYNC_REP" "sendAsyncReports req \<noteq> 1"
    | (on) "cfg_has req BST_CONFIG_PARAMS_SND_ASYNC_REP" "sendAsyncReports req = 1"
    by blast
  then show ?thesis
  proof cases
    case keep
    then show ?thesis using assms(1,2) by (simp add: async_inv_def feature_async_def)
  next
    case off
    then have "feature_async i req b w = snd (bst_periodic_collection_timer_delete i (put_config i ?c0 w))"
      by (simp add: feature_async_def)
    then show ?thesis using inv_stop [OF ok0] flag off by (auto simp: async_inv_def)
  next
    case on
    define w1 where "w1 = (if sendAsyncReports (get_config i w) \<noteq> 1 then put_config i ?c1 w else w)"
    have "coll_ok i w1" "kernel w1 = kernel w"
      "collectionInterval (get_config i w1) = collectionInterval (get_config i w)"
      using ok1 assms(1) v by (simp_all add: w1_def)
    note st = inv_start [OF this]
    have "feature_async i req b w =
        (if b \<or> sendAsyncReports (get_config i w) \<noteq> 1 then snd (bst_periodic_collection_timer_add i w1) else w1)"
      using on by (simp add: feature_async_def Let_def w1_def)
    moreover have "\<not> (b \<or> sendAsyncReports (get_config i w) \<noteq> 1) \<Longrightarrow> w1 = w" by (simp add: w1_def)
    ultimately show ?thesis using st flag on assms(1,2) by (auto simp: async_inv_def)
  qed
qed

lemma feature_stored_inv:
  assumes "async_inv (msg_unit m) w" "length (timers (kernel w)) < timer_limit (kernel w)"
    "0 \<le> collectionInterval (feature_spec (req_config m) (get_config (msg_unit m) w))"
  shows "async_inv (msg_unit m) (feature_stored m w)"
proof -
  let ?i = "msg_unit m"
  have ok: "coll_ok ?i w" "coll_flag ?i w \<longleftrightarrow> sendAsyncReports (get_config ?i w) = 1"
    using assms(1) unfolding async_inv_def by blast+
  have v: "unit_valid w ?i" using ok(1) by (simp add: coll_wf_def)
  define p where "p = feature_update_pre (req_config m) (get_config ?i w)"
  define w0 where "w0 = put_config ?i (fst p) w"
  have c0: "get_config ?i w0 = fst p" and k0: "kernel w0 = kernel w" using v by (simp_all add: w0_def)
  have "coll_ok ?i w0" "coll_flag ?i w0 = coll_flag ?i w"
    using coll_ok_put_config [OF ok(1)] v by (simp_all add: w0_def)
  moreover have "sendAsyncReports (fst p) = sendAsyncReports (get_config ?i w)"
    "0 \<le> collectionInterval (fst p)"
    using assms(3) by (simp_all add: p_def feature_update_pre_eq)
  ultimately have a: "async_inv ?i (feature_async ?i (req_config m) (snd p) w0)"
    using feature_async_inv [of ?i w0] ok(2) assms(2) c0 k0 by simp
  define w1 where "w1 = feature_async ?i (req_config m) (snd p) w0"
  have v1: "unit_valid w1 ?i" using a by (simp add: async_inv_def coll_wf_def w1_def)
  have "feature_stored m w = put_config ?i (feature_update_post (req_config m) (get_config ?i w1)) w1"
    by (simp add: feature_stored_def Let_def w1_def w0_def p_def)
  moreover have "sendAsyncReports (feature_update_post r c) = sendAsyncReports c" for r c
    by (simp add: feature_update_post_eq)
  ultimately show ?thesis
    using a v1 coll_ok_put_config [of ?i w1] unfolding w1_def [symmetric] async_inv_def
    by auto
qed

lemma async_inv_hw_call: "async_inv i (snd (snd (hw_call f w))) = async_inv i w"
  by (simp add: async_inv_def)

lemma async_inv_put_enable:
  "async_inv i w \<Longrightarrow> async_inv i (put_config i ((get_config i w)\<lparr>bstEnable := b\<rparr>) w)"
  using coll_ok_put_config [of i w] by (auto simp: async_inv_def coll_wf_def)

lemma feature_set_async_inv:
  assumes "async_inv (msg_unit m) w" "length (timers (kernel w)) < timer_limit (kernel w)"
    "0 \<le> collectionInterval (feature_spec (req_config m) (get_config (msg_unit m) w))"
  shows "async_inv (msg_unit m) (snd (bst_config_feature_set ps m w))"
proof -
  have hw: "async_inv (msg_unit m) w2 \<Longrightarrow> hw_call f w2 = (rv, out, w3) \<Longrightarrow> async_inv (msg_unit m) w3"
    for f :: "('a, 'c) sb_op" and w2 w3 rv out
    using async_inv_hw_call [of "msg_unit m" f w2] by simp
  have hw': "async_inv (msg_unit m) w2 \<Longrightarrow> hw_call f w2 = (rv, out, w3) \<Longrightarrow> async_inv (msg_unit m) w3"
    for f :: "('a, unit) sb_op" and w2 w3 rv out
    using async_inv_hw_call [of "msg_unit m" f w2] by simp
  show ?thesis
    using feature_stored_inv [OF assms] unfolding bst_config_feature_set_eq
    by (auto simp: Let_def split: prod.splits intro: async_inv_put_enable dest: hw hw')
qed

section \<open>What reaches the silicon\<close>

lemma feature_set_pushes:
  assumes "unit_valid w (msg_unit m)" "cfg_has (req_config m) BST_CONFIG_PARAMS_ENABLE"
    "sbapi_bst_config_get ps (msg_unit m) (sb_hw w) = (BVIEW_STATUS_SUCCESS, Some c, h1)"
    "sbapi_bst_config_set ps (msg_unit m)
       (pushed_mode m (feature_spec (req_config m) (get_config (msg_unit m) w)) c) h1 = (rv2, out, h2)"
    "bst_config_feature_set ps m w = (rv, w')"
  shows "rv = rv2 \<and> sb_hw w' = h2"
  using assms(2-) feature_stored_reads [OF assms(1)]
  by (auto simp: bst_config_feature_set_eq hw_call_def Let_def filled_def split: if_splits)

text \<open>When the silicon's configuration cannot be read nothing is pushed.\<close>

lemma feature_set_no_push:
  assumes "unit_valid w (msg_unit m)" "cfg_has (req_config m) BST_CONFIG_PARAMS_ENABLE"
    "sbapi_bst_config_get ps (msg_unit m) (sb_hw w) = (e, out, h1)" "e \<noteq> BVIEW_STATUS_SUCCESS"
    "bst_config_feature_set ps m w = (rv, w')"
  shows "rv = e \<and> sb_hw w' = h1"
  using assms(2-) feature_stored_reads [OF assms(1)]
  by (auto simp: bst_config_feature_set_eq hw_call_def Let_def)

section \<open>Tracking\<close>

lemma track_set_unchanged:
  assumes "\<not> track_changed (bst_track_ptr (unit_get w (msg_unit m))) (req_track m)"
  shows "bst_config_track_set ps m w = (BVIEW_STATUS_SUCCESS, w)"
  using assms by (simp add: bst_config_track_set_def)

lemma track_set_stores:
  assumes "unit_valid w (msg_unit m)"
    "track_changed (bst_track_ptr (unit_get w (msg_unit m))) (req_track m)"
    "bst_config_track_set ps m w = (rv, w')"
  shows "bst_track_ptr (unit_get w' (msg_unit m)) =
    (if rv = BVIEW_STATUS_SUCCESS then req_track m else bst_track_ptr (unit_get w (msg_unit m)))"
proof -
  have hw: "unit_get w3 (msg_unit m) = unit_get w2 (msg_unit m) \<and> unit_valid w3 (msg_unit m) = unit_valid w2 (msg_unit m)"
    if "hw_call f w2 = (rv, out, w3)" for f :: "('a, 'c) sb_op" and w2 rv out w3
    using that hw_call_unit(1,2) [of f w2 "msg_unit m"] by simp
  have hw': "unit_get w3 (msg_unit m) = unit_get w2 (msg_unit m) \<and> unit_valid w3 (msg_unit m) = unit_valid w2 (msg_unit m)"
    if "hw_call f w2 = (rv, out, w3)" for f :: "('a, unit) sb_op" and w2 rv out w3
    using that hw_call_unit(1,2) [of f w2 "msg_unit m"] by simp
  show ?thesis
    using assms unfolding bst_config_track_set_def
    by (auto simp: Let_def split: prod.splits if_splits dest!: hw hw')
qed

lemma track_changed_irrefl: "\<not> track_changed t t"
  by (simp add: track_changed_def)

text \<open>A tracking request that was stored is a no-op when repeated.\<close>

lemma track_set_twice:
  assumes "unit_valid w (msg_unit m)" "bst_config_track_set ps m w = (BVIEW_STATUS_SUCCESS, w')"
  shows "bst_config_track_set ps m w' = (BVIEW_STATUS_SUCCESS, w')"
proof (cases "track_changed (bst_track_ptr (unit_get w (msg_unit m))) (req_track m)")
  case True
  then show ?thesis
    using track_set_stores [OF assms(1) True assms(2)] track_set_unchanged [of w' m]
    by (simp add: track_changed_irrefl)
next
  case False
  then show ?thesis using assms(2) track_set_unchanged [OF False] by auto
qed

section \<open>Updates from the plugin\<close>

lemma update_track_realms:
  assumes "unit_valid w (msg_unit m)" "msg_type m = BVIEW_BST_CMD_API_UPDATE_TRACK"
    "sbapi_bst_config_get ps (msg_unit m) (sb_hw w) = (BVIEW_STATUS_SUCCESS, Some c, h1)"
    "bst_update_config_set ps m w = (rv, w')"
  shows "rv = BVIEW_STATUS_SUCCESS"
    and "realm_tracked r (bst_track_ptr (unit_get w' (msg_unit m))) \<longleftrightarrow> mask_has (cfg_trackMask c) r"
    and "trackMask (bst_track_ptr (unit_get w' (msg_unit m))) = trackMask (bst_track_ptr (unit_get w (msg_unit m)))"
proof -
  have w': "rv = BVIEW_STATUS_SUCCESS" "bst_track_ptr (unit_get w' (msg_unit m)) =
      (bst_mask_to_realm (cfg_trackMask c) (bst_track_ptr (unit_get w (msg_unit m))))\<lparr>
         trackPeakStats := (if cfg_mode c = BVIEW_BST_MODE_CURRENT then 0 else 1)\<rparr>"
    using assms by (auto simp: bst_update_config_set_def hw_call_def filled_def Let_def)
  then show "rv = BVIEW_STATUS_SUCCESS" by simp
  have "realm_tracked r (d\<lparr>trackPeakStats := x\<rparr>) = realm_tracked r d" for d x by (cases r) simp_all
  then show "realm_tracked r (bst_track_ptr (unit_get w' (msg_unit m))) \<longleftrightarrow> mask_has (cfg_trackMask c) r"
    by (simp add: w'(2) realms_of_mask)
  show "trackMask (bst_track_ptr (unit_get w' (msg_unit m))) = trackMask (bst_track_ptr (unit_get w (msg_unit m)))"
    by (simp add: w'(2) bst_mask_to_realm_def)
qed

lemma update_feature_params:
  assumes "unit_valid w (msg_unit m)" "msg_type m = BVIEW_BST_CMD_API_UPDATE_FEATURE"
    "sbapi_bst_config_get ps (msg_unit m) (sb_hw w) = (BVIEW_STATUS_SUCCESS, Some c, h1)"
    "bst_update_config_set ps m w = (rv, w')"
  shows "rv = BVIEW_STATUS_SUCCESS \<and> get_config (msg_unit m) w' = (get_config (msg_unit m) w)\<lparr>
     bstEnable := (if enableStatsMonitoring c then 1 else 0),
     sendSnapshotOnTrigger := cfg_sendSnapshotOnTrigger c, bstMaxTriggers := cfg_bstMaxTriggers c\<rparr>"
  using assms
  by (auto simp: bst_update_config_set_def hw_call_def filled_def Let_def put_config_def get_config_def)

end
