(* ===== verification/Json.thy ===== *)
theory Json
  imports Bview_Prelude
begin

text \<open>The JSON values the agent reads, as the vendored cJSON library (vendor/cjson) hands them
  out, its case-insensitive member lookup, and the validation macros of public/json.h. A
  C string is the list of its characters before the terminating NUL. The text parser
  cJSON_Parse is a parameter of the definitions that call it.\<close>

section \<open>Values\<close>

text \<open>The constructors are the type tags of cJSON.h; a number carries its valueint, an object
  its members in order, duplicates included.\<close>

datatype json =
    cJSON_False
  | cJSON_True
  | cJSON_NULL
  | cJSON_Number int
  | cJSON_String string
  | cJSON_Array "json list"
  | cJSON_Object "(string \<times> json) list"

definition c_tolower :: "char \<Rightarrow> char" where
  "c_tolower c = (if of_char c \<in> {65..90::nat} then char_of (of_char c + 32 :: nat) else c)"

text \<open>The walk of cJSON_strcasecmp: both strings end with a NUL, which equals nothing but
  another NUL.\<close>

fun cJSON_strcasecmp :: "string \<Rightarrow> string \<Rightarrow> int" where
  "cJSON_strcasecmp [] [] = 0"
| "cJSON_strcasecmp [] (c # cs) = - int (of_char (c_tolower c) :: nat)"
| "cJSON_strcasecmp (c # cs) [] = int (of_char (c_tolower c) :: nat)"
| "cJSON_strcasecmp (c # cs) (d # ds) =
     (if c_tolower c = c_tolower d then cJSON_strcasecmp cs ds
      else int (of_char (c_tolower c) :: nat) - int (of_char (c_tolower d) :: nat))"

primrec member_get :: "(string \<times> json) list \<Rightarrow> string \<Rightarrow> json option" where
  "member_get [] k = None"
| "member_get (m # ms) k = (if cJSON_strcasecmp (fst m) k = 0 then Some (snd m) else member_get ms k)"

text \<open>The children of an array have no name and those of a leaf do not exist, so only an
  object has members to find.\<close>

definition cJSON_GetObjectItem :: "json \<Rightarrow> string \<Rightarrow> json option" where
  "cJSON_GetObjectItem j k = (case j of cJSON_Object ms \<Rightarrow> member_get ms k | _ \<Rightarrow> None)"

section \<open>The validation macros of json.h\<close>

definition JSON_MAX_NODE_LENGTH :: nat where "JSON_MAX_NODE_LENGTH = 64"

definition JSON_VALIDATE_POINTER :: "'a option \<Rightarrow> BVIEW_STATUS \<Rightarrow> 'a result" where
  "JSON_VALIDATE_POINTER x z = (case x of None \<Rightarrow> Inl z | Some v \<Rightarrow> Inr v)"

definition JSON_VALIDATE_JSON_AS_STRING :: "json \<Rightarrow> BVIEW_STATUS \<Rightarrow> string result" where
  "JSON_VALIDATE_JSON_AS_STRING x z = (case x of cJSON_String s \<Rightarrow> Inr s | _ \<Rightarrow> Inl z)"

definition JSON_VALIDATE_JSON_AS_NUMBER :: "json \<Rightarrow> int result" where
  "JSON_VALIDATE_JSON_AS_NUMBER x =
     (case x of cJSON_Number n \<Rightarrow> Inr n | _ \<Rightarrow> Inl BVIEW_STATUS_INVALID_JSON)"

definition JSON_COMPARE_STRINGS_AND_CLEANUP :: "string \<Rightarrow> string \<Rightarrow> unit result" where
  "JSON_COMPARE_STRINGS_AND_CLEANUP y z = check (y = z) BVIEW_STATUS_INVALID_JSON"

definition JSON_CHECK_VALUE_AND_CLEANUP :: "int \<Rightarrow> int \<Rightarrow> int \<Rightarrow> unit result" where
  "JSON_CHECK_VALUE_AND_CLEANUP x y z = check (\<not> (x < y \<or> x > z)) BVIEW_STATUS_INVALID_JSON"

section \<open>Facts\<close>

lemma of_char_c_tolower:
  "(of_char (c_tolower c) :: nat) = (if of_char c \<in> {65..90::nat} then of_char c + 32 else of_char c)"
  by (simp add: c_tolower_def)

lemma c_tolower_NUL: "(of_char (c_tolower c) :: nat) = 0 \<longleftrightarrow> (of_char c :: nat) = 0"
  by (simp add: of_char_c_tolower)

lemma c_tolower_idem [simp]: "c_tolower (c_tolower c) = c_tolower c"
  by (auto simp: c_tolower_def)

text \<open>Two names match exactly when they agree after lowering the case of every letter.\<close>

lemma cJSON_strcasecmp_zero:
  assumes "\<forall>c\<in>set a. (of_char c :: nat) \<noteq> 0" "\<forall>c\<in>set b. (of_char c :: nat) \<noteq> 0"
  shows "cJSON_strcasecmp a b = 0 \<longleftrightarrow> map c_tolower a = map c_tolower b"
  using assms
proof (induction a b rule: cJSON_strcasecmp.induct)
  case (4 c cs d ds)
  then show ?case by (auto simp del: of_char_eq_iff) (metis of_char_eq_iff)
qed (auto simp: c_tolower_NUL)

lemma member_get_append:
  "member_get (ms @ ns) k = (case member_get ms k of None \<Rightarrow> member_get ns k | Some v \<Rightarrow> Some v)"
  by (induction ms) auto

lemma JSON_VALIDATE_POINTER_simps [simp]:
  "JSON_VALIDATE_POINTER None z = Inl z"
  "JSON_VALIDATE_POINTER (Some v) z = Inr v"
  by (simp_all add: JSON_VALIDATE_POINTER_def)

lemma JSON_VALIDATE_POINTER_Inr [status_simps]:
  "JSON_VALIDATE_POINTER x z = Inr v \<longleftrightarrow> x = Some v"
  by (cases x) simp_all

lemma JSON_VALIDATE_JSON_AS_STRING_Inr [status_simps]:
  "JSON_VALIDATE_JSON_AS_STRING x z = Inr s \<longleftrightarrow> x = cJSON_String s"
  by (simp add: JSON_VALIDATE_JSON_AS_STRING_def split: json.splits)

lemma JSON_VALIDATE_JSON_AS_NUMBER_Inr [status_simps]:
  "JSON_VALIDATE_JSON_AS_NUMBER x = Inr n \<longleftrightarrow> x = cJSON_Number n"
  by (simp add: JSON_VALIDATE_JSON_AS_NUMBER_def split: json.splits)

lemma JSON_CHECK_VALUE_Inr [status_simps]:
  "JSON_CHECK_VALUE_AND_CLEANUP x y z = Inr u \<longleftrightarrow> y \<le> x \<and> x \<le> z"
  by (auto simp: JSON_CHECK_VALUE_AND_CLEANUP_def)

lemma JSON_COMPARE_STRINGS_Inr [status_simps]:
  "JSON_COMPARE_STRINGS_AND_CLEANUP y z = Inr u \<longleftrightarrow> y = z"
  by (simp add: JSON_COMPARE_STRINGS_AND_CLEANUP_def)

end
