(* ===== verification/Module_Mgr.thy ===== *)
theory Module_Mgr
  imports Json
begin

text \<open>The module manager (infrastructure/module_mgr/modulemgr.c): the table in which each
  application registers its feature and its REST commands, and the two lookups the web server
  performs in it. A function pointer is a number; NULL is None. The read/write lock serialises
  the three operations and is not modelled.\<close>

section \<open>Data\<close>

definition BVIEW_MAX_MODULES :: nat where "BVIEW_MAX_MODULES = 16"
definition BVIEW_MAX_API_CMDS_PER_FEATURE :: nat where "BVIEW_MAX_API_CMDS_PER_FEATURE = 16"
definition BVIEW_MAX_FEATURE_NAME_LEN :: nat where "BVIEW_MAX_FEATURE_NAME_LEN = 32"

record rest_api =
  apiString :: "string option"
  handler :: "nat option"

record module_feature_info =
  mod_featureId :: nat
  mod_featureName :: string
  restApiList :: "rest_api list"

record module_entry =
  isInUse :: bool
  moduleData :: module_feature_info

definition null_api :: rest_api where
  "null_api = \<lparr>apiString = None, handler = None\<rparr>"

definition zero_module :: module_entry where
  "zero_module = \<lparr>isInUse = False, moduleData =
     \<lparr>mod_featureId = 0, mod_featureName = [],
      restApiList = replicate BVIEW_MAX_API_CMDS_PER_FEATURE null_api\<rparr>\<rparr>"

section \<open>Operations\<close>

definition modulemgr_init :: "module_entry list" where
  "modulemgr_init = replicate BVIEW_MAX_MODULES zero_module"

text \<open>The loop of modulemgr_register: the first unused entry is noted; every other entry,
  unused ones after the first included, is compared with the new feature id.\<close>

fun register_scan :: "nat \<Rightarrow> nat \<Rightarrow> module_entry list \<Rightarrow> nat option \<Rightarrow> bool \<times> nat option" where
  "register_scan fid i [] free = (False, free)"
| "register_scan fid i (e # es) free =
     (if \<not> isInUse e \<and> free = None then register_scan fid (Suc i) es (Some i)
      else if mod_featureId (moduleData e) = fid then (True, free)
      else register_scan fid (Suc i) es free)"

definition modulemgr_register ::
  "module_feature_info \<Rightarrow> module_entry list \<Rightarrow> BVIEW_STATUS \<times> module_entry list" where
  "modulemgr_register featureInfo t =
     (case register_scan (mod_featureId featureInfo) 0 t None of
        (True, free) \<Rightarrow> (BVIEW_STATUS_DUPLICATE, t)
      | (False, None) \<Rightarrow> (BVIEW_STATUS_TABLE_FULL, t)
      | (False, Some i) \<Rightarrow>
          (BVIEW_STATUS_SUCCESS, t[i := \<lparr>isInUse = True, moduleData = featureInfo\<rparr>]))"

text \<open>The method name of a request, cut to the 63 characters the buffer keeps.\<close>

definition json_buf_to_api_string_get ::
  "(string \<Rightarrow> json option) \<Rightarrow> string option \<Rightarrow> string result" where
  "json_buf_to_api_string_get cJSON_Parse jsonBuffer =
     res_bind (JSON_VALIDATE_POINTER jsonBuffer BVIEW_STATUS_INVALID_PARAMETER) (\<lambda>buf.
     res_bind (JSON_VALIDATE_POINTER (cJSON_Parse buf) BVIEW_STATUS_INVALID_JSON) (\<lambda>root.
     res_bind (JSON_VALIDATE_POINTER (cJSON_GetObjectItem root ''method'')
                 BVIEW_STATUS_INVALID_JSON) (\<lambda>json_method.
     res_bind (JSON_VALIDATE_JSON_AS_STRING json_method BVIEW_STATUS_INVALID_JSON) (\<lambda>s.
     Inr (take (JSON_MAX_NODE_LENGTH - 1) s)))))"

definition api_match :: "string \<Rightarrow> rest_api \<Rightarrow> bool" where
  "api_match s a = (apiString a = Some s)"

text \<open>The scan of one module's command list stops at the first command with the name.\<close>

primrec api_scan :: "string \<Rightarrow> rest_api list \<Rightarrow> rest_api option" where
  "api_scan s [] = None"
| "api_scan s (a # as) = (if api_match s a then Some a else api_scan s as)"

primrec handler_scan ::
  "string \<Rightarrow> module_entry list \<Rightarrow> BVIEW_STATUS \<Rightarrow> BVIEW_STATUS \<times> nat option" where
  "handler_scan s [] rv = (BVIEW_STATUS_FAILURE, None)"
| "handler_scan s (e # es) rv = (case api_scan s (restApiList (moduleData e)) of
       None \<Rightarrow> handler_scan s es rv
     | Some a \<Rightarrow> (case handler a of
           Some h \<Rightarrow> (rv, Some h)
         | None \<Rightarrow> handler_scan s es BVIEW_STATUS_FAILURE))"

definition modulemgr_rest_api_handler_get ::
  "(string \<Rightarrow> json option) \<Rightarrow> string option \<Rightarrow> module_entry list \<Rightarrow> BVIEW_STATUS \<times> nat option" where
  "modulemgr_rest_api_handler_get cJSON_Parse jsonBuffer t =
     (case json_buf_to_api_string_get cJSON_Parse jsonBuffer of
        Inl rv \<Rightarrow> (rv, None)
      | Inr s \<Rightarrow> handler_scan s t BVIEW_STATUS_SUCCESS)"

text \<open>strncpy of exactly strlen bytes: the NUL is not copied, so what follows in the
  destination stays.\<close>

definition strncpy_strlen :: "string \<Rightarrow> string \<Rightarrow> string" where
  "strncpy_strlen dst src = src @ drop (length src) dst"

primrec feature_name_scan ::
  "string \<Rightarrow> module_entry list \<Rightarrow> string \<Rightarrow> BVIEW_STATUS \<times> string" where
  "feature_name_scan s [] dst = (BVIEW_STATUS_FAILURE, dst)"
| "feature_name_scan s (e # es) dst = (case api_scan s (restApiList (moduleData e)) of
       None \<Rightarrow> feature_name_scan s es dst
     | Some a \<Rightarrow> (BVIEW_STATUS_SUCCESS, strncpy_strlen dst (mod_featureName (moduleData e))))"

definition modulemgr_rest_api_feature_name_get ::
  "string \<Rightarrow> string \<Rightarrow> module_entry list \<Rightarrow> BVIEW_STATUS \<times> string" where
  "modulemgr_rest_api_feature_name_get s featureName t = feature_name_scan s t featureName"

section \<open>The invariant of the table\<close>

text \<open>The registered modules fill the front of the table with pairwise different nonzero
  feature ids; the rest is zeroed.\<close>

definition module_table_ok :: "module_entry list \<Rightarrow> bool" where
  "module_table_ok t = (\<exists>ms n. t = map (\<lambda>m. \<lparr>isInUse = True, moduleData = m\<rparr>) ms @ replicate n zero_module
      \<and> length t = BVIEW_MAX_MODULES \<and> distinct (map mod_featureId ms) \<and> 0 \<notin> set (map mod_featureId ms))"

abbreviation used_entry :: "module_feature_info \<Rightarrow> module_entry" where
  "used_entry m \<equiv> \<lparr>isInUse = True, moduleData = m\<rparr>"

definition registered :: "module_entry list \<Rightarrow> module_feature_info list" where
  "registered t = map moduleData (filter isInUse t)"

lemma zero_module_simps [simp]:
  "isInUse zero_module = False" "mod_featureId (moduleData zero_module) = 0"
  by (simp_all add: zero_module_def)

lemma registered_shape [simp]:
  "registered (map used_entry ms @ replicate n zero_module) = ms"
  by (induction ms) (simp_all add: registered_def)

lemma registered_used [simp]: "registered (map used_entry ms) = ms"
  using registered_shape [of ms 0] by simp

lemma module_table_okE:
  assumes "module_table_ok t"
  obtains ms n where "t = map used_entry ms @ replicate n zero_module" "registered t = ms"
    "length ms + n = BVIEW_MAX_MODULES" "distinct (map mod_featureId ms)"
    "0 \<notin> set (map mod_featureId ms)"
  using assms unfolding module_table_ok_def by fastforce

lemma module_table_okI:
  assumes "length ms + n = BVIEW_MAX_MODULES" "distinct (map mod_featureId ms)"
    "0 \<notin> set (map mod_featureId ms)"
  shows "module_table_ok (map used_entry ms @ replicate n zero_module)"
  using assms unfolding module_table_ok_def by fastforce

lemma modulemgr_init_ok: "module_table_ok modulemgr_init"
  using module_table_okI [of "[]" BVIEW_MAX_MODULES] by (simp add: modulemgr_init_def)

section \<open>Registration\<close>

lemma register_scan_zero:
  "fid \<noteq> 0 \<Longrightarrow> register_scan fid i (replicate n zero_module) (Some k) = (False, Some k)"
  by (induction n arbitrary: i) simp_all

lemma register_scan_shape:
  assumes "fid \<noteq> 0"
  shows "register_scan fid i (map used_entry ms @ replicate n zero_module) None =
    (if fid \<in> set (map mod_featureId ms) then (True, None)
     else (False, if n = 0 then None else Some (i + length ms)))"
proof (induction ms arbitrary: i)
  case Nil
  show ?case using assms by (cases n) (simp_all add: register_scan_zero)
qed auto

lemma register_shape:
  assumes "mod_featureId f \<noteq> 0"
  shows "modulemgr_register f (map used_entry ms @ replicate n zero_module) =
    (if mod_featureId f \<in> set (map mod_featureId ms)
       then (BVIEW_STATUS_DUPLICATE, map used_entry ms @ replicate n zero_module)
     else if n = 0 then (BVIEW_STATUS_TABLE_FULL, map used_entry ms @ replicate n zero_module)
     else (BVIEW_STATUS_SUCCESS, map used_entry (ms @ [f]) @ replicate (n - 1) zero_module))"
  unfolding modulemgr_register_def register_scan_shape [OF assms]
  by (cases n) (simp_all add: list_update_append)

text \<open>Registration refines insertion into a list of at most sixteen modules keyed by id.\<close>

lemma register_refines:
  assumes "module_table_ok t" "mod_featureId f \<noteq> 0"
  shows "modulemgr_register f t = (rv, t') \<Longrightarrow>
    module_table_ok t' \<and>
    (rv, registered t') =
      (if mod_featureId f \<in> set (map mod_featureId (registered t)) then (BVIEW_STATUS_DUPLICATE, registered t)
       else if length (registered t) = BVIEW_MAX_MODULES then (BVIEW_STATUS_TABLE_FULL, registered t)
       else (BVIEW_STATUS_SUCCESS, registered t @ [f]))"
proof -
  assume run: "modulemgr_register f t = (rv, t')"
  obtain ms n where t: "t = map used_entry ms @ replicate n zero_module" "registered t = ms"
    "length ms + n = BVIEW_MAX_MODULES" "distinct (map mod_featureId ms)" "0 \<notin> set (map mod_featureId ms)"
    using assms(1) by (rule module_table_okE)
  show ?thesis
  proof (cases "mod_featureId f \<in> set (map mod_featureId ms) \<or> n = 0")
    case True
    then show ?thesis using run t assms register_shape [OF assms(2), of ms n]
      by (auto split: if_splits)
  next
    case False
    then have "t' = map used_entry (ms @ [f]) @ replicate (n - 1) zero_module"
      "rv = BVIEW_STATUS_SUCCESS"
      using run t(1) register_shape [OF assms(2), of ms n] by simp_all
    moreover have "module_table_ok (map used_entry (ms @ [f]) @ replicate (n - 1) zero_module)"
      using False t assms(2) by (intro module_table_okI) auto
    ultimately show ?thesis using False t registered_shape [of "ms @ [f]" "n - 1"] by auto
  qed
qed

lemma register_ok:
  "module_table_ok t \<Longrightarrow> mod_featureId f \<noteq> 0 \<Longrightarrow> module_table_ok (snd (modulemgr_register f t))"
  using register_refines [of t f] by (metis prod.collapse)

text \<open>The index at which registration places a module, as an allocation of the table. No
  feature has the id 0: the enumeration BVIEW_FEATURE_ID starts at 1.\<close>

definition module_alloc ::
  "module_feature_info \<Rightarrow> module_entry list \<Rightarrow> (module_entry list \<times> nat) option" where
  "module_alloc f t = (if mod_featureId f = 0 then None else
     (case (modulemgr_register f t, find_index (\<lambda>e. \<not> isInUse e) t) of
        ((BVIEW_STATUS_SUCCESS, t'), Some i) \<Rightarrow> Some (t', i) | _ \<Rightarrow> None))"

definition module_admits :: "module_feature_info \<Rightarrow> module_entry list \<Rightarrow> bool" where
  "module_admits f t = (mod_featureId f \<notin> set (map mod_featureId (registered t)) \<and> mod_featureId f \<noteq> 0)"

lemma find_free_shape:
  "find_index (\<lambda>e. \<not> isInUse e) (map used_entry ms @ replicate n zero_module)
     = (if n = 0 then None else Some (length ms))"
  by (induction ms) (cases n, simp_all)+

lemma module_alloc_shape:
  "module_alloc f (map used_entry ms @ replicate n zero_module) =
    (if mod_featureId f = 0 \<or> mod_featureId f \<in> set (map mod_featureId ms) \<or> n = 0 then None
     else Some (map used_entry (ms @ [f]) @ replicate (n - 1) zero_module, length ms))"
proof (cases "mod_featureId f = 0")
  case False
  show ?thesis
    unfolding module_alloc_def find_free_shape register_shape [OF False] using False by simp
qed (simp add: module_alloc_def)

lemma module_alloc_None:
  assumes "module_table_ok t" "module_admits f t" "module_alloc f t = None"
  shows "\<forall>e\<in>set t. isInUse e"
proof -
  obtain ms n where t: "t = map used_entry ms @ replicate n zero_module" "registered t = ms"
    using assms(1) by (rule module_table_okE)
  then show ?thesis using assms(2,3) module_alloc_shape [of f ms n]
    by (auto simp: module_admits_def split: if_splits)
qed

lemma module_alloc_Some:
  assumes "module_table_ok t" "module_alloc f t = Some (t', i)"
  shows "find_index (\<lambda>e. \<not> isInUse e) t = Some i \<and> (\<exists>e. isInUse e \<and> t' = t[i := e]) \<and> module_table_ok t'"
proof -
  obtain ms n where t: "t = map used_entry ms @ replicate n zero_module" "registered t = ms"
    "length ms + n = BVIEW_MAX_MODULES" "distinct (map mod_featureId ms)" "0 \<notin> set (map mod_featureId ms)"
    using assms(1) by (rule module_table_okE)
  have f: "mod_featureId f \<noteq> 0" "mod_featureId f \<notin> set (map mod_featureId ms)" "n \<noteq> 0"
    and r: "t' = map used_entry (ms @ [f]) @ replicate (n - 1) zero_module" "i = length ms"
    using assms(2) unfolding t(1) module_alloc_shape by (simp_all split: if_splits)
  have "t' = t[i := used_entry f]"
    using f(3) r t(1) by (cases n) (simp_all add: list_update_append)
  moreover have "module_table_ok t'"
    unfolding r(1) using f t by (intro module_table_okI) auto
  moreover have "isInUse (used_entry f)" by simp
  moreover have "find_index (\<lambda>e. \<not> isInUse e) t = Some i"
    using find_free_shape [of ms n] f(3) t(1) r(2) by simp
  ultimately show ?thesis by blast
qed

interpretation modtab: slot_table "\<lambda>t. t" isInUse module_alloc module_table_ok module_admits
  using module_alloc_None module_alloc_Some by unfold_locales blast+

section \<open>Lookup of the REST commands\<close>

text \<open>The first command of a name in a list of modules that has a handler, the commands of each
  module cut to the first one of that name.\<close>

definition module_handler :: "string \<Rightarrow> module_feature_info \<Rightarrow> nat option" where
  "module_handler s m = Option.bind (api_scan s (restApiList m)) handler"

definition module_serves :: "string \<Rightarrow> module_feature_info \<Rightarrow> bool" where
  "module_serves s m = (api_scan s (restApiList m) \<noteq> None)"

text \<open>A module is complete when each command it names has a handler.\<close>

definition module_complete :: "module_feature_info \<Rightarrow> bool" where
  "module_complete m = (\<forall>a\<in>set (restApiList m). apiString a \<noteq> None \<longrightarrow> handler a \<noteq> None)"

definition first_server :: "string \<Rightarrow> module_feature_info list \<Rightarrow> module_feature_info option" where
  "first_server s ms = map_option (\<lambda>i. ms ! i) (find_index (module_serves s) ms)"

lemma first_server_simps [simp]:
  "first_server s [] = None"
  "first_server s (m # ms) = (if module_serves s m then Some m else first_server s ms)"
  by (simp_all add: first_server_def option.map_comp comp_def)

lemma first_server_append:
  "first_server s (ms @ ns) = (case first_server s ms of None \<Rightarrow> first_server s ns | Some m \<Rightarrow> Some m)"
  by (induction ms) auto

lemma api_scan_match: "api_scan s as = Some a \<Longrightarrow> a \<in> set as \<and> apiString a = Some s"
  by (induction as) (auto simp: api_match_def split: if_splits)

lemma api_scan_null [simp]: "api_scan s (replicate n null_api) = None"
  by (induction n) (simp_all add: api_match_def null_api_def)

lemma handler_scan_zero:
  "handler_scan s (replicate n zero_module) rv = (BVIEW_STATUS_FAILURE, None)"
  by (induction n arbitrary: rv) (simp_all add: zero_module_def)

lemma handler_scan_shape:
  assumes "\<forall>m\<in>set ms. module_complete m"
  shows "handler_scan s (map used_entry ms @ replicate n zero_module) rv =
    (case first_server s ms of None \<Rightarrow> (BVIEW_STATUS_FAILURE, None)
       | Some m \<Rightarrow> (rv, module_handler s m))"
  using assms
proof (induction ms arbitrary: rv)
  case Nil
  show ?case by (simp add: handler_scan_zero)
next
  case (Cons m ms)
  show ?case
  proof (cases "api_scan s (restApiList m)")
    case None
    then show ?thesis using Cons by (simp add: module_serves_def)
  next
    case (Some a)
    then have "handler a \<noteq> None"
      using Cons.prems api_scan_match [OF Some] by (auto simp: module_complete_def)
    then show ?thesis using Some by (auto simp: module_serves_def module_handler_def)
  qed
qed

lemma feature_name_scan_shape:
  "feature_name_scan s (map used_entry ms @ replicate n zero_module) dst =
    (case first_server s ms of None \<Rightarrow> (BVIEW_STATUS_FAILURE, dst)
       | Some m \<Rightarrow> (BVIEW_STATUS_SUCCESS, strncpy_strlen dst (mod_featureName m)))"
proof (induction ms)
  case Nil
  show ?case by (induction n) (simp_all add: zero_module_def)
qed (auto simp: module_serves_def split: option.splits)

text \<open>Both lookups read the abstract list of modules only.\<close>

lemma handler_scan_registered:
  assumes "module_table_ok t" "\<forall>m\<in>set (registered t). module_complete m"
  shows "handler_scan s t rv =
    (case first_server s (registered t) of None \<Rightarrow> (BVIEW_STATUS_FAILURE, None)
       | Some m \<Rightarrow> (rv, module_handler s m))"
  using assms by (metis handler_scan_shape module_table_okE)

lemma feature_name_registered:
  assumes "module_table_ok t"
  shows "feature_name_scan s t dst =
    (case first_server s (registered t) of None \<Rightarrow> (BVIEW_STATUS_FAILURE, dst)
       | Some m \<Rightarrow> (BVIEW_STATUS_SUCCESS, strncpy_strlen dst (mod_featureName m)))"
  using assms by (metis feature_name_scan_shape module_table_okE)

lemma module_complete_handler:
  "module_complete m \<Longrightarrow> module_serves s m \<Longrightarrow> module_handler s m \<noteq> None"
  by (cases "api_scan s (restApiList m)")
     (auto simp: module_complete_def module_serves_def module_handler_def dest!: api_scan_match)

text \<open>The C string a buffer holds ends at its first NUL.\<close>

definition c_string :: "string \<Rightarrow> string" where
  "c_string b = takeWhile (\<lambda>c. (of_char c :: nat) \<noteq> 0) b"

lemma c_string_append_NUL:
  "\<forall>c\<in>set s. (of_char c :: nat) \<noteq> 0 \<Longrightarrow> 0 < n \<Longrightarrow>
   c_string (s @ replicate n (char_of (0::nat))) = s"
  by (cases n) (simp_all add: c_string_def takeWhile_append)

lemma c_string_id: "\<forall>c\<in>set s. (of_char c :: nat) \<noteq> 0 \<Longrightarrow> c_string s = s"
  by (simp add: c_string_def takeWhile_eq_all_conv)

end
