(* ===== verification/Bst_Main.thy ===== *)
theory Bst_Main
  imports Bst_Trigger Module_Mgr
begin

text \<open>The two threads of the BST application (apps/bst/bst_main.c, bst_trigger_main of
  bst_trigger.c): the command table, what a reply is filled with, the initial configuration of
  the units, and one turn of each message loop. Encoding the reply as JSON text is left out: a
  turn hands the filled response over as it is.\<close>

section \<open>The command table\<close>

definition BVIEW_BST_DEFAULT_INTERVAL :: int where "BVIEW_BST_DEFAULT_INTERVAL = 60"

definition bst_cmd_api_list :: "(string \<times> nat) list" where
  "bst_cmd_api_list =
    [(''configure-bst-tracking'', 1), (''configure-bst-feature'', 2),
     (''configure-bst-thresholds'', 3), (''get-bst-report'', 4), (''get-bst-feature'', 5),
     (''get-bst-tracking'', 6), (''get-bst-thresholds'', 7), (''clear-bst-thresholds'', 8),
     (''clear-bst-statistics'', 9)]"

text \<open>The module description: the handlers are numbered in the order of the table, the rest of
  the command array is zero.\<close>

definition bst_module_info :: module_feature_info where
  "bst_module_info = \<lparr>mod_featureId = BVIEW_FEATURE_BST, mod_featureName = ''bst'',
     restApiList = map (\<lambda>(s, h). \<lparr>apiString = Some s, handler = Some h\<rparr>) bst_cmd_api_list
       @ replicate (BVIEW_MAX_API_CMDS_PER_FEATURE - length bst_cmd_api_list) null_api\<rparr>"

definition bst_module_register :: "module_entry list \<Rightarrow> BVIEW_STATUS \<times> module_entry list" where
  "bst_module_register t = modulemgr_register bst_module_info t"

datatype bst_handler =
    H_config_feature_get | H_config_track_get | H_get_report | H_process_trigger
  | H_config_feature_set | H_config_track_set | H_config_threshold_set | H_clear_threshold_set
  | H_clear_stats_set | H_clear_trigger_count | H_enable_on_trigger_timer_expiry
  | H_update_config_set

definition bst_api_list :: "(bst_cmd \<times> bst_handler) list" where
  "bst_api_list =
    [(BVIEW_BST_CMD_API_GET_FEATURE, H_config_feature_get),
     (BVIEW_BST_CMD_API_GET_TRACK, H_config_track_get),
     (BVIEW_BST_CMD_API_GET_REPORT, H_get_report),
     (BVIEW_BST_CMD_API_GET_THRESHOLD, H_get_report),
     (BVIEW_BST_CMD_API_TRIGGER_REPORT, H_get_report),
     (BVIEW_BST_CMD_API_TRIGGER_COLLECT, H_process_trigger),
     (BVIEW_BST_CMD_API_SET_FEATURE, H_config_feature_set),
     (BVIEW_BST_CMD_API_SET_TRACK, H_config_track_set),
     (BVIEW_BST_CMD_API_SET_THRESHOLD, H_config_threshold_set),
     (BVIEW_BST_CMD_API_CLEAR_THRESHOLD, H_clear_threshold_set),
     (BVIEW_BST_CMD_API_CLEAR_STATS, H_clear_stats_set),
     (BVIEW_BST_CMD_API_CLEAR_TRIGGER_COUNT, H_clear_trigger_count),
     (BVIEW_BST_CMD_API_ENABLE_BST_ON_TRIGGER, H_enable_on_trigger_timer_expiry),
     (BVIEW_BST_CMD_API_UPDATE_TRACK, H_update_config_set),
     (BVIEW_BST_CMD_API_UPDATE_FEATURE, H_update_config_set)]"

definition bst_type_api_get :: "bst_cmd \<Rightarrow> bst_handler result" where
  "bst_type_api_get type =
     (case List.find (\<lambda>e. fst e = type) bst_api_list of
        Some e \<Rightarrow> Inr (snd e) | None \<Rightarrow> Inl BVIEW_STATUS_INVALID_PARAMETER)"

definition keep_msg :: "request_msg \<Rightarrow> BVIEW_STATUS \<times> 'w \<Rightarrow> BVIEW_STATUS \<times> request_msg \<times> 'w" where
  "keep_msg m r = (fst r, m, snd r)"

primrec run_handler ::
  "bst_handler \<Rightarrow> 'hw plugin_entry list \<Rightarrow> request_msg \<Rightarrow> 'hw bst_world \<Rightarrow>
   BVIEW_STATUS \<times> request_msg \<times> 'hw bst_world" where
  "run_handler H_config_feature_get ps m w = keep_msg m (bst_config_feature_get m w)"
| "run_handler H_config_track_get ps m w = keep_msg m (bst_config_track_get m w)"
| "run_handler H_get_report ps m w = bst_get_report ps m w"
| "run_handler H_process_trigger ps m w = keep_msg m (bst_process_trigger m w)"
| "run_handler H_config_feature_set ps m w = keep_msg m (bst_config_feature_set ps m w)"
| "run_handler H_config_track_set ps m w = keep_msg m (bst_config_track_set ps m w)"
| "run_handler H_config_threshold_set ps m w = keep_msg m (bst_config_threshold_set ps m w)"
| "run_handler H_clear_threshold_set ps m w = keep_msg m (bst_clear_threshold_set ps m w)"
| "run_handler H_clear_stats_set ps m w = keep_msg m (bst_clear_stats_set ps m w)"
| "run_handler H_clear_trigger_count ps m w = keep_msg m (bst_clear_trigger_count m w)"
| "run_handler H_enable_on_trigger_timer_expiry ps m w =
     keep_msg m (bst_enable_on_trigger_timer_expiry ps m w)"
| "run_handler H_update_config_set ps m w = keep_msg m (bst_update_config_set ps m w)"

section \<open>Filling a reply\<close>

definition zero_options :: report_options where
  "zero_options = \<lparr>opt_includeIngressPortPriorityGroup = False, opt_includeIngressPortServicePool = False,
     opt_includeIngressServicePool = False, opt_includeEgressPortServicePool = False,
     opt_includeEgressServicePool = False, opt_includeEgressUcQueue = False,
     opt_includeEgressUcQueueGroup = False, opt_includeEgressMcQueue = False,
     opt_includeEgressCpuQueue = False, opt_includeEgressRqeQueue = False, opt_includeDevice = False,
     opt_statUnitsInCells = False, reportTrigger = False, reportThreshold = False,
     sendSnapShotOnTrigger = False, opt_triggerInfo = zero_trigger_info,
     opt_sendIncrementalReport = False, opt_statsInPercentage = False\<rparr>"

definition zero_response :: "bst_cmd \<Rightarrow> int \<Rightarrow> int \<Rightarrow> nat option \<Rightarrow> BVIEW_STATUS \<Rightarrow> response_msg" where
  "zero_response cmd unit i cookie rv = \<lparr>resp_msg_type = cmd, resp_unit = unit, resp_cookie = cookie,
     resp_id = i, resp_options = zero_options, resp_rv = rv, resp_config = None, resp_track = None,
     resp_active = None, resp_backup = None\<rparr>"

text \<open>The options of a report on demand, periodic or triggered.\<close>

definition report_reply_options ::
  "request_msg \<Rightarrow> config_params \<Rightarrow> report_options \<Rightarrow> report_options" where
  "report_reply_options m cfg o1 =
     (let o2 = (if msg_report_type m = BVIEW_BST_STATS_TRIGGER then
                  (let o' = o1\<lparr>reportTrigger := True, reportThreshold := False,
                              opt_triggerInfo := msg_triggerInfo m,
                              sendSnapShotOnTrigger := (sendSnapshotOnTrigger cfg \<noteq> 0)\<rparr>
                   in if sendSnapshotOnTrigger cfg = 0
                      then bst_set_realm_to_collect (trig_realm (msg_triggerInfo m)) (BST_COPY_TO_RESP False o')
                      else o')
                else o1);
          o3 = o2\<lparr>opt_sendIncrementalReport :=
                   (if msg_report_type m = BVIEW_BST_STATS_PERIODIC
                    then sendIncrementalReport cfg \<noteq> 0 else True)\<rparr>
      in o3\<lparr>opt_statsInPercentage := (statsInPercentage cfg \<noteq> 0)\<rparr>)"

definition bst_copy_reply_params ::
  "request_msg \<Rightarrow> BVIEW_STATUS \<Rightarrow> 'hw bst_world \<Rightarrow> 'hw bst_world" where
  "bst_copy_reply_params m rv w =
     (let unit = msg_unit m;
          u = unit_get w unit;
          cfg = bst_config_ptr u;
          o1 = BST_COPY_COLLECT_TO_RESP (req_collect m)
                 (zero_options\<lparr>opt_statUnitsInCells := (statUnitsInCells cfg \<noteq> 0)\<rparr>);
          r1 = (zero_response (msg_type m) unit (msg_id m) (msg_cookie m) rv)\<lparr>resp_options := o1\<rparr>
      in if msg_type m = BVIEW_BST_CMD_API_GET_REPORT \<or> msg_type m = BVIEW_BST_CMD_API_TRIGGER_REPORT then
           (let w1 = snd (bst_update_data BVIEW_BST_STATS unit w);
                u1 = unit_get w1 unit;
                r2 = r1\<lparr>resp_options := report_reply_options m cfg o1,
                        resp_cookie := (if msg_report_type m = BVIEW_BST_STATS_TRIGGER
                                         \<or> msg_report_type m = BVIEW_BST_STATS_PERIODIC
                                        then None else msg_cookie m),
                        resp_active := Some (record_memory u1 (stats_active_record_ptr u1)),
                        resp_backup := (if msg_report_type m = BVIEW_BST_STATS_PERIODIC
                                         \<and> sendIncrementalReport cfg \<noteq> 0
                                        then Some (record_memory u1 (stats_backup_record_ptr u1)) else None)\<rparr>
            in w1\<lparr>sent_responses := sent_responses w1 @ [r2]\<rparr>)
         else
           (let r2 =
              (if msg_type m = BVIEW_BST_CMD_API_GET_THRESHOLD then
                 r1\<lparr>resp_options := o1\<lparr>reportThreshold := True, opt_sendIncrementalReport := False\<rparr>,
                    resp_active := Some (record_memory u (threshold_record_ptr u)),
                    resp_backup := None\<rparr>
               else if msg_type m = BVIEW_BST_CMD_API_GET_FEATURE then r1\<lparr>resp_config := Some cfg\<rparr>
               else if msg_type m = BVIEW_BST_CMD_API_GET_TRACK then r1\<lparr>resp_track := Some (bst_track_ptr u)\<rparr>
               else r1)
            in w\<lparr>sent_responses := sent_responses w @ [r2]\<rparr>))"

section \<open>One turn of the application loop\<close>

text \<open>A message for a unit that does not exist is answered with an error; one without a handler
  is dropped; an update from the plugin gets no answer.\<close>

definition app_handle ::
  "'hw plugin_entry list \<Rightarrow> nat \<Rightarrow> request_msg \<Rightarrow> 'hw bst_world \<Rightarrow> 'hw bst_world" where
  "app_handle ps num_units m w =
     (if msg_unit m < 0 \<or> int num_units \<le> msg_unit m then
        w\<lparr>sent_responses := sent_responses w @
            [zero_response (msg_type m) (msg_unit m) (msg_id m) (msg_cookie m) BVIEW_STATUS_INVALID_PARAMETER]\<rparr>
      else case bst_type_api_get (msg_type m) of
             Inl e \<Rightarrow> w
           | Inr h \<Rightarrow>
               (case run_handler h ps m w of (rv, m1, w1) \<Rightarrow>
                  if msg_type m1 = BVIEW_BST_CMD_API_UPDATE_TRACK \<or> msg_type m1 = BVIEW_BST_CMD_API_UPDATE_FEATURE
                  then w1 else bst_copy_reply_params m1 rv w1))"

definition bst_app_step :: "'hw plugin_entry list \<Rightarrow> nat \<Rightarrow> 'hw bst_world \<Rightarrow> 'hw bst_world" where
  "bst_app_step ps num_units w =
     (case bst_msgq w of [] \<Rightarrow> w | m # q \<Rightarrow> app_handle ps num_units m (w\<lparr>bst_msgq := q\<rparr>))"

text \<open>The trigger thread runs the same handlers and answers nothing.\<close>

definition trigger_handle ::
  "'hw plugin_entry list \<Rightarrow> nat \<Rightarrow> request_msg \<Rightarrow> 'hw bst_world \<Rightarrow> 'hw bst_world" where
  "trigger_handle ps num_units m w =
     (if msg_unit m < 0 \<or> int num_units \<le> msg_unit m then w
      else case bst_type_api_get (msg_type m) of
             Inl e \<Rightarrow> w
           | Inr h \<Rightarrow> (case run_handler h ps m w of (rv, m1, w1) \<Rightarrow> w1))"

definition bst_trigger_step :: "'hw plugin_entry list \<Rightarrow> nat \<Rightarrow> 'hw bst_world \<Rightarrow> 'hw bst_world" where
  "bst_trigger_step ps num_units w =
     (case bst_trigger_msgq w of [] \<Rightarrow> w
      | m # q \<Rightarrow> trigger_handle ps num_units m (w\<lparr>bst_trigger_msgq := q\<rparr>))"

section \<open>The initial configuration\<close>

definition default_config :: config_params where
  "default_config = zero_config_params\<lparr>bstEnable := 0, sendAsyncReports := 0,
     collectionInterval := BVIEW_BST_DEFAULT_INTERVAL, statUnitsInCells := 1, bstMaxTriggers := 1,
     sendSnapshotOnTrigger := 1, statsInPercentage := 0, triggerTransmitInterval := 1,
     sendIncrementalReport := 1\<rparr>"

definition default_track :: track_params where
  "default_track = (let t = zero_track_params\<lparr>trackDevice := 1\<rparr> in t\<lparr>trackMask := bst_realm_to_mask t\<rparr>)"

text \<open>One unit's part of bst_app_config_init: what config_get leaves untouched keeps the default
  the structure was given. The mode read from the silicon is compared with the default mode, but
  both branches leave peak tracking off, since the default mode is the current one.\<close>

definition init_mode :: bst_config where
  "init_mode = zero_bst_config\<lparr>enableStatsMonitoring := (bstEnable default_config \<noteq> 0),
     cfg_mode := BVIEW_BST_MODE_CURRENT, enablePeriodicCollection := True,
     collectionPeriod := BVIEW_BST_DEFAULT_PLUGIN_INTERVAL,
     cfg_bstMaxTriggers := bstMaxTriggers default_config,
     cfg_sendSnapshotOnTrigger := sendSnapshotOnTrigger default_config,
     cfg_trackInit := True, cfg_trackMask := trackMask default_track\<rparr>"

definition bst_unit_config_init ::
  "'hw plugin_entry list \<Rightarrow> int \<Rightarrow> 'hw bst_world \<Rightarrow> BVIEW_STATUS \<times> 'hw bst_world" where
  "bst_unit_config_init ps unit w =
     (case hw_call (sbapi_bst_config_get ps unit) w of
        (_, out, w1) \<Rightarrow>
          let mode = filled init_mode out;
              cfg = default_config\<lparr>bstEnable := (if enableStatsMonitoring mode then 1 else 0),
                      bstMaxTriggers := cfg_bstMaxTriggers mode,
                      sendSnapshotOnTrigger := cfg_sendSnapshotOnTrigger mode\<rparr>;
              track = (bst_mask_to_realm (cfg_trackMask mode) default_track)\<lparr>
                        trackMask := cfg_trackMask mode, trackPeakStats := 0\<rparr>;
              u = unit_get w1 unit;
              u1 = u\<lparr>bst_config_ptr := cfg, bst_track_ptr := track,
                    bst_collection_timer := (bst_collection_timer u)\<lparr>timer_unit := unit, timer_in_use := False\<rparr>,
                    bst_trigger_timer := (bst_trigger_timer u)\<lparr>timer_unit := unit, timer_in_use := False\<rparr>\<rparr>;
              mode1 = mode\<lparr>cfg_trackInit := True,
                      enableStatsMonitoring := (bstEnable cfg \<noteq> 0),
                      enableDeviceStatsMonitoring := True, enableIngressStatsMonitoring := True,
                      enableEgressStatsMonitoring := True, enablePeriodicCollection := True,
                      collectionPeriod := BVIEW_BST_DEFAULT_PLUGIN_INTERVAL,
                      cfg_mode := (if trackPeakStats track = 1 then BVIEW_BST_MODE_PEAK else BVIEW_BST_MODE_CURRENT),
                      cfg_statUnitsInCells := statUnitsInCells cfg,
                      cfg_statsInPercentage := statsInPercentage cfg,
                      cfg_triggerTransmitInterval := triggerTransmitInterval cfg,
                      cfg_sendIncrementalReport := sendIncrementalReport cfg\<rparr>
          in case hw_call (sbapi_bst_config_set ps unit mode1) (unit_set unit u1 w1) of
               (rv, _, w2) \<Rightarrow>
                 if rv \<noteq> BVIEW_STATUS_SUCCESS then (BVIEW_STATUS_FAILURE, w2)
                 else if sendAsyncReports cfg \<noteq> 0 \<and> bstEnable cfg \<noteq> 0 then
                   (case bst_periodic_collection_timer_add unit w2 of (rv, w3) \<Rightarrow>
                      (if rv \<noteq> BVIEW_STATUS_SUCCESS then BVIEW_STATUS_FAILURE else rv, w3))
                 else (BVIEW_STATUS_SUCCESS, w2))"

text \<open>The units in order, stopping at the first failure; no unit at all is a failure.\<close>

fun config_init_units ::
  "'hw plugin_entry list \<Rightarrow> int list \<Rightarrow> 'hw bst_world \<Rightarrow> BVIEW_STATUS \<times> 'hw bst_world" where
  "config_init_units ps [] w = (BVIEW_STATUS_SUCCESS, w)"
| "config_init_units ps (i # is) w =
     (case bst_unit_config_init ps i w of (rv, w1) \<Rightarrow>
        if rv \<noteq> BVIEW_STATUS_SUCCESS then (rv, w1) else config_init_units ps is w1)"

definition bst_app_config_init ::
  "'hw plugin_entry list \<Rightarrow> nat \<Rightarrow> 'hw bst_world \<Rightarrow> BVIEW_STATUS \<times> 'hw bst_world" where
  "bst_app_config_init ps num_units w =
     (if num_units = 0 then (BVIEW_STATUS_FAILURE, w)
      else config_init_units ps (map int [0..<num_units]) w)"

section \<open>Starting the application\<close>

text \<open>A unit context as bst_main allocates and zeroes it: the four records are different blocks.\<close>

definition zeroed_timer :: bst_timer where
  "zeroed_timer = \<lparr>timer_unit = 0, timer_in_use = False, bstTimer = 0\<rparr>"

definition zero_capabilities :: asic_capabilities where
  "zero_capabilities = \<lparr>numPorts = 0, numUnicastQueues = 0, numUnicastQueueGroups = 0,
     numMulticastQueues = 0, numServicePools = 0, numCommonPools = 0, numCpuQueues = 0,
     numRqeQueues = 0, numRqeQueuePools = 0, numPriorityGroups = 0, support1588 = False,
     cellToByteConv = 0\<rparr>"

definition allocated_unit :: bst_unit where
  "allocated_unit = \<lparr>record_memory = (\<lambda>_. zero_report),
     stats_active_record_ptr = 1, stats_backup_record_ptr = 2, stats_current_record_ptr = 3,
     threshold_record_ptr = 4, bst_max_buffers = None,
     bst_collection_timer = zeroed_timer, bst_trigger_timer = zeroed_timer,
     bst_config_ptr = zero_config_params, bst_track_ptr = zero_track_params,
     unit_capabilities = zero_capabilities, bst_trigger_count = replicate BST_ID_MAX 0\<rparr>"

text \<open>bst_main up to the creation of the threads; alloc_ok tells for each unit whether malloc
  delivered. A message queue that exists is removed and created again, so both start empty.\<close>

definition bst_main ::
  "'hw plugin_entry list \<Rightarrow> (nat \<Rightarrow> bool) \<Rightarrow> 'hw bst_world \<Rightarrow> BVIEW_STATUS \<times> 'hw bst_world" where
  "bst_main ps alloc_ok w =
     (case sbapi_system_num_units_get ps of
        Inl e \<Rightarrow> (BVIEW_STATUS_RESOURCE_NOT_AVAILABLE, w)
      | Inr n \<Rightarrow>
          if \<not> list_all alloc_ok [0..<n] then (BVIEW_STATUS_RESOURCE_NOT_AVAILABLE, w)
          else (case bst_app_config_init ps n (w\<lparr>bst_units := replicate n allocated_unit\<rparr>) of
                  (rv, w1) \<Rightarrow>
                    if rv \<noteq> BVIEW_STATUS_SUCCESS then (BVIEW_STATUS_INIT_FAILED, w1)
                    else (BVIEW_STATUS_SUCCESS, w1\<lparr>bst_msgq := [], bst_trigger_msgq := []\<rparr>)))"

text \<open>What bst_app_main does before its loop: the module is registered, then for each unit the
  trigger call-back is registered and the capabilities are read.\<close>

definition BST_TRIGGER_CALLBACK :: nat where "BST_TRIGGER_CALLBACK = 1"

fun app_start_units ::
  "'hw plugin_entry list \<Rightarrow> nat list \<Rightarrow> 'hw bst_world \<Rightarrow> BVIEW_STATUS \<times> 'hw bst_world" where
  "app_start_units ps [] w = (BVIEW_STATUS_SUCCESS, w)"
| "app_start_units ps (i # is) w =
     (case hw_call (sbapi_bst_register_trigger ps (int i) BST_TRIGGER_CALLBACK i) w of
        (rv, _, w1) \<Rightarrow>
          if rv \<noteq> BVIEW_STATUS_SUCCESS then (BVIEW_STATUS_FAILURE, w1)
          else (case sbapi_system_asic_capabilities_get ps (int i) of
                  Inl e \<Rightarrow> (BVIEW_STATUS_FAILURE, w1)
                | Inr c \<Rightarrow> app_start_units ps is
                    (unit_set (int i) ((unit_get w1 (int i))\<lparr>unit_capabilities := c\<rparr>) w1)))"

definition bst_app_start ::
  "'hw plugin_entry list \<Rightarrow> module_entry list \<Rightarrow> 'hw bst_world
     \<Rightarrow> BVIEW_STATUS \<times> module_entry list \<times> 'hw bst_world" where
  "bst_app_start ps t w =
     (case bst_module_register t of
        (rv, t1) \<Rightarrow>
          if rv \<noteq> BVIEW_STATUS_SUCCESS then (BVIEW_STATUS_FAILURE, t1, w)
          else (case sbapi_system_num_units_get ps of
                  Inl e \<Rightarrow> (BVIEW_STATUS_FAILURE, t1, w)
                | Inr n \<Rightarrow> (case app_start_units ps [0..<n] w of (rv, w1) \<Rightarrow> (rv, t1, w1))))"

end
