(* ===== verification/Bst_Report_Laws.thy ===== *)
theory Bst_Report_Laws
  imports Bst_Config_Laws Bst_Main
begin

text \<open>The report records: the four record pointers of a unit stay different from each other
  through every turn of the application, so that a collection never overwrites a report that is
  still to be compared or sent; and what a turn answers.\<close>

section \<open>The record pointers\<close>

definition record_ptrs :: "bst_unit \<Rightarrow> nat list" where
  "record_ptrs u = [stats_active_record_ptr u, stats_backup_record_ptr u,
     stats_current_record_ptr u, threshold_record_ptr u]"

definition same_ptrs :: "'hw bst_world \<Rightarrow> 'hw bst_world \<Rightarrow> bool" where
  "same_ptrs w w' = (map record_ptrs (bst_units w') = map record_ptrs (bst_units w))"


lemma same_ptrs_refl: "same_ptrs w w"
  by (simp add: same_ptrs_def)

lemma same_ptrs_trans: "same_ptrs w1 w2 \<Longrightarrow> same_ptrs w2 w3 \<Longrightarrow> same_ptrs w1 w3"
  by (simp add: same_ptrs_def)

lemma same_ptrs_fields [simp]:
  "same_ptrs w (w'\<lparr>sb_hw := h\<rparr>) = same_ptrs w w'" "same_ptrs w (w'\<lparr>kernel := k\<rparr>) = same_ptrs w w'"
  "same_ptrs w (w'\<lparr>bst_msgq := q\<rparr>) = same_ptrs w w'"
  "same_ptrs w (w'\<lparr>bst_trigger_msgq := q\<rparr>) = same_ptrs w w'"
  "same_ptrs w (w'\<lparr>sent_responses := r\<rparr>) = same_ptrs w w'"
  by (simp_all add: same_ptrs_def)

lemma same_ptrs_unit_set:
  assumes "record_ptrs u = record_ptrs (unit_get w' i)"
  shows "same_ptrs w (unit_set i u w') = same_ptrs w w'"
proof (cases "nat i < length (bst_units w')")
  case True
  then have "map record_ptrs ((bst_units w')[nat i := u]) = map record_ptrs (bst_units w')"
    using assms by (simp add: map_update unit_get_def) (metis list_update_id nth_map)
  then show ?thesis by (simp add: same_ptrs_def unit_set_def)
qed (simp add: same_ptrs_def unit_set_def list_update_beyond)

lemma ptrs_hw_call [simp]: "same_ptrs w (snd (snd (hw_call f w'))) = same_ptrs w w'"
  by (simp add: same_ptrs_def hw_call_def split_beta)

lemma ptrs_put_config [simp]: "same_ptrs w (put_config i c w') = same_ptrs w w'"
  by (simp add: put_config_def same_ptrs_unit_set record_ptrs_def)

lemma ptrs_write_record [simp]: "same_ptrs w (write_record i p r w') = same_ptrs w w'"
  by (simp add: write_record_def Let_def same_ptrs_unit_set record_ptrs_def)

lemma ptrs_count_trigger [simp]: "same_ptrs w (count_trigger i p w') = same_ptrs w w'"
  by (simp add: count_trigger_def Let_def same_ptrs_unit_set record_ptrs_def)

lemma ptrs_send [simp]: "same_ptrs w (snd (bst_send_request m w')) = same_ptrs w w'"
  by (simp add: bst_send_request_def)

lemma ptrs_coll_delete [simp]:
  "same_ptrs w (snd (bst_periodic_collection_timer_delete i w')) = same_ptrs w w'"
  by (simp add: bst_periodic_collection_timer_delete_def Let_def split_beta same_ptrs_unit_set record_ptrs_def)

lemma ptrs_coll_add [simp]:
  "same_ptrs w (snd (bst_periodic_collection_timer_add i w')) = same_ptrs w w'"
  by (simp add: bst_periodic_collection_timer_add_def Let_def split_beta same_ptrs_unit_set record_ptrs_def)

lemma ptrs_trig_add [simp]: "same_ptrs w (snd (bst_trigger_timer_add i w')) = same_ptrs w w'"
  by (simp add: bst_trigger_timer_add_def Let_def split_beta same_ptrs_unit_set record_ptrs_def)

lemma ptrs_trig_delete [simp]: "same_ptrs w (snd (bst_trigger_timer_delete i w')) = same_ptrs w w'"
  by (simp add: bst_trigger_timer_delete_def Let_def split_beta same_ptrs_unit_set record_ptrs_def)

lemma ptrs_feature_set: "same_ptrs w (snd (bst_config_feature_set ps m w))"
  by (simp add: bst_config_feature_set_eq feature_stored_def feature_async_def Let_def split_beta
      same_ptrs_refl)

lemma ptrs_track_set: "same_ptrs w (snd (bst_config_track_set ps m w))"
  by (simp add: bst_config_track_set_def Let_def split_beta same_ptrs_refl
      same_ptrs_unit_set record_ptrs_def)

lemma ptrs_update_config: "same_ptrs w (snd (bst_update_config_set ps m w))"
  by (simp add: bst_update_config_set_def Let_def split_beta same_ptrs_refl
      same_ptrs_unit_set record_ptrs_def)

lemma ptrs_threshold_set: "same_ptrs w (snd (bst_config_threshold_set ps m w))"
  by (simp add: bst_config_threshold_set_def threshold_dispatch_def Let_def split_beta same_ptrs_refl)

lemma ptrs_clear: "same_ptrs w (snd (bst_clear_threshold_set ps m w))"
  "same_ptrs w (snd (bst_clear_stats_set ps m w))"
  by (simp_all add: bst_clear_threshold_set_def bst_clear_stats_set_def Let_def split_beta same_ptrs_refl)

lemma ptrs_enable [simp]: "same_ptrs w (snd (bst_enable_on_trigger ps m w')) = same_ptrs w w'"
  by (simp add: bst_enable_on_trigger_def Let_def split_beta)

lemma ptrs_collect [simp]:
  "same_ptrs w (snd (collect_snapshot ps i w')) = same_ptrs w w'"
  "same_ptrs w (collect_max_buffers ps i w') = same_ptrs w w'"
  "same_ptrs w (snd (collect_thresholds ps i w')) = same_ptrs w w'"
  by (simp_all add: collect_snapshot_def collect_max_buffers_def collect_thresholds_def Let_def
      split_beta same_ptrs_unit_set record_ptrs_def split: option.splits)

lemma ptrs_get_report: "same_ptrs w (snd (snd (bst_get_report ps m w)))"
  by (simp add: bst_get_report_def Let_def split_beta same_ptrs_refl)

lemma ptrs_process_trigger: "same_ptrs w (snd (bst_process_trigger m w))"
  by (simp add: bst_process_trigger_def Let_def split_beta same_ptrs_refl)

lemma ptrs_clear_count: "same_ptrs w (snd (bst_clear_trigger_count m w))"
  by (simp add: bst_clear_trigger_count_def Let_def split_beta same_ptrs_refl
      same_ptrs_unit_set record_ptrs_def)

lemma ptrs_run_handler: "same_ptrs w (snd (snd (run_handler h ps m w)))"
  by (cases h) (simp_all add: keep_msg_def ptrs_feature_set ptrs_track_set ptrs_update_config
      ptrs_threshold_set ptrs_clear ptrs_get_report ptrs_process_trigger ptrs_clear_count
      bst_enable_on_trigger_timer_expiry_def bst_config_feature_get_def bst_config_track_get_def
      same_ptrs_refl)

text \<open>Different pointers in every unit.\<close>

definition records_ok :: "'hw bst_world \<Rightarrow> bool" where
  "records_ok w = (\<forall>u\<in>set (bst_units w). distinct (record_ptrs u))"

lemma records_ok_map: "records_ok w \<longleftrightarrow> (\<forall>ps\<in>set (map record_ptrs (bst_units w)). distinct ps)"
  by (auto simp: records_ok_def)

lemma records_ok_same: "same_ptrs w w' \<Longrightarrow> records_ok w \<Longrightarrow> records_ok w'"
  unfolding records_ok_map same_ptrs_def by simp

lemma distinct_rotate: "distinct (record_ptrs (rotate_records u)) = distinct (record_ptrs u)"
  by (auto simp: record_ptrs_def rotate_records_def)

lemma rotate_thrice: "rotate_records (rotate_records (rotate_records u)) = u"
  by (cases u) (simp add: rotate_records_def)

lemma records_ok_update_data: "records_ok w \<Longrightarrow> records_ok (snd (bst_update_data t i w))"
proof (cases "nat i < length (bst_units w)")
  case True
  assume ok: "records_ok w"
  have "distinct (record_ptrs (rotate_records (unit_get w i)))"
    unfolding distinct_rotate using ok True by (simp add: records_ok_def unit_get_def)
  then show ?thesis
    using ok set_update_subset [of "bst_units w" "nat i" "rotate_records (unit_get w i)"]
    by (auto simp: bst_update_data_def records_ok_def unit_set_def)
qed (simp add: bst_update_data_def unit_set_def list_update_beyond)

lemma records_ok_reply: "records_ok w \<Longrightarrow> records_ok (bst_copy_reply_params m rv w)"
  using records_ok_update_data [of w BVIEW_BST_STATS "msg_unit m"]
  by (simp add: bst_copy_reply_params_def Let_def records_ok_def)

lemma records_ok_responses [simp]: "records_ok (w\<lparr>sent_responses := r\<rparr>) = records_ok w"
  by (simp add: records_ok_def)

lemma records_ok_app_handle: "records_ok w \<Longrightarrow> records_ok (app_handle ps n m w)"
  using records_ok_same [OF ptrs_run_handler, of w _ ps m]
  by (auto simp: app_handle_def split_beta intro!: records_ok_reply split: sum.splits)

lemma records_ok_trigger_handle: "records_ok w \<Longrightarrow> records_ok (trigger_handle ps n m w)"
  using records_ok_same [OF ptrs_run_handler]
  by (auto simp: trigger_handle_def split_beta split: sum.splits)

section \<open>What a report turn answers\<close>

lemma write_record_reads:
  "unit_valid w i \<Longrightarrow> read_record i q (write_record i p r w) = (if q = p then r else read_record i q w)"
  "unit_valid (write_record i p r w) j = unit_valid w j"
  "unit_valid w i \<Longrightarrow> get_config i (write_record i p r w) = get_config i w"
  "sb_hw (write_record i p r w) = sb_hw w"
  "unit_valid w i \<Longrightarrow> record_ptrs (unit_get (write_record i p r w) i) = record_ptrs (unit_get w i)"
  "sent_responses (write_record i p r w) = sent_responses w"
  by (simp_all add: write_record_def read_record_def get_config_def record_ptrs_def Let_def)

lemma read_record_hw [simp]: "read_record i q (snd (snd (hw_call f w))) = read_record i q w"
  by (simp add: read_record_def)

lemma read_record_sb [simp]: "read_record i q (w\<lparr>sb_hw := h\<rparr>) = read_record i q w"
  by (simp add: read_record_def)

text \<open>After collecting, the current record holds the new snapshot and every other record what it
  held.\<close>

lemma collect_snapshot_reads:
  assumes "unit_valid w i" "sbapi_bst_snapshot_get ps i (sb_hw w) = (rv, Some (s, t), h1)"
  shows "fst (collect_snapshot ps i w) = rv"
    and "read_record i q (snd (collect_snapshot ps i w)) =
      (if q = stats_current_record_ptr (unit_get w i) then \<lparr>rec_tv = t, rec_snapshot = s\<rparr>
       else read_record i q w)"
    and "unit_valid (snd (collect_snapshot ps i w)) i"
    and "get_config i (snd (collect_snapshot ps i w)) = get_config i w"
    and "record_ptrs (unit_get (snd (collect_snapshot ps i w)) i) = record_ptrs (unit_get w i)"
    and "sent_responses (snd (collect_snapshot ps i w)) = sent_responses w"
  using assms
  by (simp_all add: collect_snapshot_def Let_def hw_call_def write_record_reads get_config_def)
     (simp_all add: write_record_def Let_def record_ptrs_def)

lemma collect_max_reads:
  assumes "unit_valid w i"
  shows "read_record i q (collect_max_buffers ps i w) = read_record i q w"
    and "unit_valid (collect_max_buffers ps i w) i"
    and "get_config i (collect_max_buffers ps i w) = get_config i w"
    and "record_ptrs (unit_get (collect_max_buffers ps i w) i) = record_ptrs (unit_get w i)"
    and "sent_responses (collect_max_buffers ps i w) = sent_responses w"
  using assms
  by (auto simp: collect_max_buffers_def hw_call_def read_record_def get_config_def record_ptrs_def
      split: prod.splits option.splits)

lemma report_turn:
  assumes "unit_valid w (msg_unit m)" "msg_unit m < int n" "msg_type m = BVIEW_BST_CMD_API_GET_REPORT"
    "distinct (record_ptrs (unit_get w (msg_unit m)))"
    "sbapi_bst_snapshot_get ps (msg_unit m) (sb_hw w) = (BVIEW_STATUS_SUCCESS, Some (s, t), h1)"
  shows "\<exists>r. sent_responses (app_handle ps n m w) = sent_responses w @ [r]
    \<and> resp_rv r = BVIEW_STATUS_SUCCESS
    \<and> resp_active r = Some \<lparr>rec_tv = t, rec_snapshot = s\<rparr>
    \<and> resp_backup r = (if msg_report_type m = BVIEW_BST_STATS_PERIODIC
           \<and> sendIncrementalReport (get_config (msg_unit m) w) \<noteq> 0
         then Some (read_record (msg_unit m) (stats_active_record_ptr (unit_get w (msg_unit m))) w)
         else None)"
proof -
  let ?i = "msg_unit m"
  define w1 where "w1 = snd (collect_snapshot ps ?i w)"
  define w2 where "w2 = collect_max_buffers ps ?i w1"
  note r1 = collect_snapshot_reads [OF assms(1,5), folded w1_def]
  note r2 = collect_max_reads [OF r1(3), where ps = ps, folded w2_def]
  have ptrs: "record_ptrs (unit_get w2 ?i) = record_ptrs (unit_get w ?i)"
    and cfg: "get_config ?i w2 = get_config ?i w" and v: "unit_valid w2 ?i"
    and sent: "sent_responses w2 = sent_responses w"
    using r1 r2 by simp_all
  have rd: "read_record ?i q w2 = (if q = stats_current_record_ptr (unit_get w ?i)
      then \<lparr>rec_tv = t, rec_snapshot = s\<rparr> else read_record ?i q w)" for q
    using r1(2) r2(1) by simp
  define m1 where "m1 = report_message m w"
  have m1: "msg_unit m1 = ?i" "msg_type m1 = msg_type m" "msg_report_type m1 = msg_report_type m"
    by (simp_all add: m1_def report_message_def)
  have "run_handler H_get_report ps m w = (BVIEW_STATUS_SUCCESS, m1, w2)"
    using assms(3) r1(1) by (simp add: bst_get_report_def Let_def split_beta w2_def w1_def m1_def)
  moreover have "bst_type_api_get (msg_type m) = Inr H_get_report"
    using assms(3) by (simp add: bst_type_api_get_def bst_api_list_def)
  ultimately have h: "app_handle ps n m w = bst_copy_reply_params m1 BVIEW_STATUS_SUCCESS w2"
    using assms(1-3) m1(2) by (simp add: app_handle_def unit_valid_def)
  have p: "stats_active_record_ptr (unit_get w2 ?i) = stats_active_record_ptr (unit_get w ?i)"
    "stats_current_record_ptr (unit_get w2 ?i) = stats_current_record_ptr (unit_get w ?i)"
    "stats_active_record_ptr (unit_get w ?i) \<noteq> stats_current_record_ptr (unit_get w ?i)"
    using ptrs assms(4) by (simp_all add: record_ptrs_def)
  show ?thesis
    unfolding h bst_copy_reply_params_def m1(1,2) Let_def
    using assms(3) v p sent cfg rd [of "stats_active_record_ptr (unit_get w ?i)"]
      rd [of "stats_current_record_ptr (unit_get w ?i)"]
    by (simp add: bst_update_data_def rotate_records_def m1(3) read_record_def get_config_def
        zero_response_def)
qed

text \<open>A triggered report answers with the status of re-enabling the monitoring: when the
  collection failed without writing anything, the zeroed record goes out as a success.\<close>

lemma trigger_report_status:
  assumes "unit_valid w (msg_unit m)" "msg_unit m < int n" "msg_type m = BVIEW_BST_CMD_API_TRIGGER_REPORT"
    "sbapi_bst_snapshot_get ps (msg_unit m) (sb_hw w) = (e, None, h1)"
    "statsInPercentage (get_config (msg_unit m) w) \<noteq> 1"
    "sbapi_bst_config_get ps (msg_unit m) h1 = (e2, out, h2)"
    "\<And>c. sbapi_bst_config_set ps (msg_unit m) c h2 = (BVIEW_STATUS_SUCCESS, Some (), push c)"
  shows "\<exists>r. sent_responses (app_handle ps n m w) = sent_responses w @ [r]
    \<and> resp_rv r = BVIEW_STATUS_SUCCESS \<and> resp_active r = Some zero_report"
proof -
  let ?i = "msg_unit m"
  define w1 where "w1 = write_record ?i (stats_current_record_ptr (unit_get w ?i)) zero_report w"
  have c: "collect_snapshot ps ?i w = (e, w1\<lparr>sb_hw := h1\<rparr>)"
    using assms(4) by (simp add: collect_snapshot_def Let_def w1_def hw_call_def write_record_reads)
  have cfg: "get_config ?i (w1\<lparr>sb_hw := h\<rparr>) = get_config ?i w" for h
    using assms(1) by (simp add: w1_def get_config_def write_record_def Let_def)
  have mx: "collect_max_buffers ps ?i (w1\<lparr>sb_hw := h1\<rparr>) = w1\<lparr>sb_hw := h1\<rparr>"
    using assms(5) cfg by (simp add: collect_max_buffers_def)
  define m1 where "m1 = report_message m w"
  have m1: "msg_unit m1 = ?i" "msg_type m1 = msg_type m" "msg_report_type m1 = msg_report_type m"
    by (simp_all add: m1_def report_message_def)
  obtain h3 where en: "bst_enable_on_trigger ps m1 (w1\<lparr>sb_hw := h1\<rparr>) = (BVIEW_STATUS_SUCCESS, w1\<lparr>sb_hw := h3\<rparr>)"
    using assms(3,6,7) m1 by (simp add: bst_enable_on_trigger_def hw_call_def Let_def)
  have "run_handler H_get_report ps m w = (BVIEW_STATUS_SUCCESS, m1, w1\<lparr>sb_hw := h3\<rparr>)"
    using assms(3) c mx en by (simp add: bst_get_report_def Let_def m1_def)
  moreover have "bst_type_api_get (msg_type m) = Inr H_get_report"
    using assms(3) by (simp add: bst_type_api_get_def bst_api_list_def)
  ultimately have h: "app_handle ps n m w = bst_copy_reply_params m1 BVIEW_STATUS_SUCCESS (w1\<lparr>sb_hw := h3\<rparr>)"
    using assms(1-3) m1(2) by (simp add: app_handle_def unit_valid_def)
  have v: "unit_valid (w1\<lparr>sb_hw := h3\<rparr>) ?i" using assms(1) by (simp add: w1_def write_record_reads)
  have "record_memory (unit_get w1 ?i) (stats_current_record_ptr (unit_get w1 ?i)) = zero_report"
    "sent_responses w1 = sent_responses w"
    using assms(1) by (simp_all add: w1_def write_record_def Let_def)
  then show ?thesis
    unfolding h bst_copy_reply_params_def m1(1,2) Let_def
    using assms(3) v by (simp add: bst_update_data_def rotate_records_def zero_response_def)
qed

section \<open>Clearing\<close>

text \<open>Clearing the statistics zeroes the three statistics records before the silicon is asked,
  whatever it then answers; clearing the thresholds zeroes their record only on success.\<close>

lemma clear_stats_records:
  assumes "unit_valid w (msg_unit m)" "bst_clear_stats_set ps m w = (rv, w')"
    "q \<in> set [stats_active_record_ptr u, stats_backup_record_ptr u, stats_current_record_ptr u]"
    "u = unit_get w (msg_unit m)"
  shows "read_record (msg_unit m) q w' = zero_report"
  using assms
  by (auto simp: bst_clear_stats_set_def Let_def write_record_reads hw_call_def read_record_def
      split: prod.splits)
     (auto simp: write_record_def Let_def)

lemma clear_thresholds_record:
  assumes "unit_valid w (msg_unit m)" "bst_clear_threshold_set ps m w = (rv, w')"
  shows "read_record (msg_unit m) (threshold_record_ptr (unit_get w (msg_unit m))) w' =
    (if rv = BVIEW_STATUS_SUCCESS then zero_report
     else read_record (msg_unit m) (threshold_record_ptr (unit_get w (msg_unit m))) w)"
  using assms
  by (auto simp: bst_clear_threshold_set_def Let_def write_record_reads hw_call_def read_record_def
      split: prod.splits if_splits)
     (auto simp: write_record_def Let_def)

section \<open>Every message gets at most one answer\<close>

lemma sent_timer_ops [simp]:
  "sent_responses (snd (bst_periodic_collection_timer_delete i w)) = sent_responses w"
  "sent_responses (snd (bst_periodic_collection_timer_add i w)) = sent_responses w"
  "sent_responses (snd (bst_trigger_timer_add i w)) = sent_responses w"
  "sent_responses (snd (bst_trigger_timer_delete i w)) = sent_responses w"
  "sent_responses (snd (bst_send_request m w)) = sent_responses w"
  "sent_responses (snd (snd (hw_call f w))) = sent_responses w"
  "sent_responses (put_config i c w) = sent_responses w"
  "sent_responses (write_record i p r w) = sent_responses w"
  "sent_responses (count_trigger i p w) = sent_responses w"
  by (simp_all add: bst_periodic_collection_timer_delete_def bst_periodic_collection_timer_add_def
      bst_trigger_timer_add_def bst_trigger_timer_delete_def bst_send_request_def hw_call_def
      put_config_def write_record_def count_trigger_def Let_def split_beta)

lemma sent_run_handler: "sent_responses (snd (snd (run_handler h ps m w))) = sent_responses w"
  by (cases h)
     (simp_all add: keep_msg_def bst_config_feature_set_eq feature_stored_def feature_async_def
       bst_config_track_set_def bst_update_config_set_def bst_config_threshold_set_def
       threshold_dispatch_def bst_clear_threshold_set_def bst_clear_stats_set_def bst_get_report_def
       collect_snapshot_def collect_max_buffers_def collect_thresholds_def bst_enable_on_trigger_def
       bst_process_trigger_def bst_clear_trigger_count_def bst_enable_on_trigger_timer_expiry_def
       bst_config_feature_get_def bst_config_track_get_def Let_def split_beta split: option.splits)

lemma msg_type_run_handler: "msg_type (fst (snd (run_handler h ps m w))) = msg_type m"
  by (cases h) (simp_all add: keep_msg_def bst_get_report_def report_message_def Let_def split_beta)

lemma msg_kept_run_handler:
  "msg_unit (fst (snd (run_handler h ps m w))) = msg_unit m"
  "msg_id (fst (snd (run_handler h ps m w))) = msg_id m"
  by (cases h, simp_all add: keep_msg_def bst_get_report_def report_message_def Let_def split_beta)+

lemma reply_one:
  "\<exists>r. sent_responses (bst_copy_reply_params m rv w) = sent_responses w @ [r]
     \<and> resp_rv r = rv \<and> resp_msg_type r = msg_type m \<and> resp_unit r = msg_unit m \<and> resp_id r = msg_id m"
  by (auto simp: bst_copy_reply_params_def Let_def zero_response_def bst_update_data_def)

definition gets_answer :: "bst_cmd \<Rightarrow> bool" where
  "gets_answer c = (c \<notin> {BVIEW_BST_CMD_API_UPDATE_TRACK, BVIEW_BST_CMD_API_UPDATE_FEATURE,
     BVIEW_BST_CMD_API_MAX})"

lemma handler_exists: "bst_type_api_get c = Inl e \<longleftrightarrow> c = BVIEW_BST_CMD_API_MAX \<and> e = BVIEW_STATUS_INVALID_PARAMETER"
  by (cases c) (auto simp: bst_type_api_get_def bst_api_list_def)

lemma app_handle_answers:
  assumes "0 \<le> msg_unit m" "msg_unit m < int n"
  shows "if gets_answer (msg_type m)
    then \<exists>r h. sent_responses (app_handle ps n m w) = sent_responses w @ [r]
       \<and> bst_type_api_get (msg_type m) = Inr h \<and> resp_rv r = fst (run_handler h ps m w)
       \<and> resp_msg_type r = msg_type m \<and> resp_unit r = msg_unit m \<and> resp_id r = msg_id m
    else sent_responses (app_handle ps n m w) = sent_responses w"
proof (cases "bst_type_api_get (msg_type m)")
  case (Inl e)
  then show ?thesis using handler_exists [of "msg_type m" e] assms
    by (simp add: app_handle_def gets_answer_def)
next
  case (Inr h)
  then have "msg_type m \<noteq> BVIEW_BST_CMD_API_MAX"
    using handler_exists [of "msg_type m" BVIEW_STATUS_INVALID_PARAMETER] by auto
  then show ?thesis
    using assms Inr sent_run_handler [of h ps m w] msg_type_run_handler [of h ps m w]
      msg_kept_run_handler [of h ps m w]
      reply_one [of "fst (snd (run_handler h ps m w))" "fst (run_handler h ps m w)" "snd (snd (run_handler h ps m w))"]
    by (auto simp: app_handle_def gets_answer_def split_beta)
qed

end
