(* ===== verification/Bst_Trigger_Laws.thy ===== *)
theory Bst_Trigger_Laws
  imports Bst_Timers Bst_Config_Laws
begin

text \<open>The trigger rate limiter as a state machine: within one interval a counter causes at most
  as many reports as configured, a trigger below the limit is reported, and the timer stops
  after an interval without triggers. A trigger the table does not know consumes the budget of
  the device counter.\<close>

section \<open>The cases of a trigger\<close>

definition counts :: "int \<Rightarrow> 'hw bst_world \<Rightarrow> 32 word list" where
  "counts i w = bst_trigger_count (unit_get w i)"

definition counts_ok :: "int \<Rightarrow> 'hw bst_world \<Rightarrow> bool" where
  "counts_ok i w = (unit_valid w i \<and> length (counts i w) = BST_ID_MAX)"

definition trigger_key :: "request_msg \<Rightarrow> nat option" where
  "trigger_key m = bst_trigger_index_get (trig_realm (msg_triggerInfo m)) (trig_counter (msg_triggerInfo m))"

lemma count_trigger_counts:
  "unit_valid w i \<Longrightarrow> counts i (count_trigger i j w) = (counts i w)[j := counts i w ! j + 1]"
  by (simp add: counts_def count_trigger_def Let_def)

lemma count_trigger_frame [simp]:
  "unit_valid (count_trigger i j w) k = unit_valid w k"
  "bst_msgq (count_trigger i j w) = bst_msgq w" "kernel (count_trigger i j w) = kernel w"
  "msgq_limit (count_trigger i j w) = msgq_limit w"
  "unit_valid w i \<Longrightarrow> get_config i (count_trigger i j w) = get_config i w"
  "unit_valid w i \<Longrightarrow> bst_trigger_timer (unit_get (count_trigger i j w) i) = bst_trigger_timer (unit_get w i)"
  by (simp_all add: count_trigger_def Let_def get_config_def)

lemma trigger_timer_add_frame:
  assumes "unit_valid w i" "bst_trigger_timer_add i w = (rv, w')"
  shows "counts i w' = counts i w" "unit_valid w' i" "bst_msgq w' = bst_msgq w"
    "get_config i w' = get_config i w" "msgq_limit w' = msgq_limit w"
  using assms
  by (auto simp: bst_trigger_timer_add_def counts_def get_config_def Let_def split: prod.splits if_splits)

lemma trigger_timer_delete_frame:
  assumes "unit_valid w i" "bst_trigger_timer_delete i w = (rv, w')"
  shows "counts i w' = counts i w" "unit_valid w' i" "bst_msgq w' = bst_msgq w"
    "get_config i w' = get_config i w" "msgq_limit w' = msgq_limit w"
  using assms
  by (auto simp: bst_trigger_timer_delete_def counts_def get_config_def Let_def split: prod.splits if_splits)

lemma trigger_unknown:
  "trigger_key m = None \<Longrightarrow> bst_process_trigger m w = (BVIEW_STATUS_SUCCESS, count_trigger (msg_unit m) 0 w)"
  by (simp add: bst_process_trigger_def trigger_key_def)

lemma trigger_suppressed:
  "trigger_key m = Some j \<Longrightarrow> trigger_limited (msg_unit m) j w \<Longrightarrow>
   bst_process_trigger m w = (BVIEW_STATUS_SUCCESS, count_trigger (msg_unit m) j w)"
  by (simp add: bst_process_trigger_def trigger_key_def)

lemma trigger_queue_full:
  "trigger_key m = Some j \<Longrightarrow> \<not> trigger_limited (msg_unit m) j w \<Longrightarrow> \<not> length (bst_msgq w) < msgq_limit w \<Longrightarrow>
   bst_process_trigger m w = (BVIEW_STATUS_FAILURE, w)"
  by (simp add: bst_process_trigger_def trigger_key_def bst_send_request_def)

definition trigger_sent :: "request_msg \<Rightarrow> nat \<Rightarrow> 'hw bst_world \<Rightarrow> 'hw bst_world" where
  "trigger_sent m j w =
     (let w1 = w\<lparr>bst_msgq := bst_msgq w @ [trigger_report_msg m]\<rparr>
      in count_trigger (msg_unit m) j
           (if counts (msg_unit m) w ! j = 0 \<and> bstMaxTriggers (get_config (msg_unit m) w) \<noteq> 0
            then snd (bst_trigger_timer_add (msg_unit m) w1) else w1))"

lemma trigger_reported:
  "trigger_key m = Some j \<Longrightarrow> \<not> trigger_limited (msg_unit m) j w \<Longrightarrow> length (bst_msgq w) < msgq_limit w \<Longrightarrow>
   bst_process_trigger m w = (BVIEW_STATUS_SUCCESS, trigger_sent m j w)"
  by (simp add: bst_process_trigger_def trigger_key_def bst_send_request_def trigger_sent_def
      counts_def get_config_def Let_def)

lemma trigger_sent_frame:
  assumes "unit_valid w (msg_unit m)"
  shows "counts (msg_unit m) (trigger_sent m j w) = (counts (msg_unit m) w)[j := counts (msg_unit m) w ! j + 1]"
    "unit_valid (trigger_sent m j w) (msg_unit m)"
    "bst_msgq (trigger_sent m j w) = bst_msgq w @ [trigger_report_msg m]"
    "get_config (msg_unit m) (trigger_sent m j w) = get_config (msg_unit m) w"
proof -
  let ?w1 = "w\<lparr>bst_msgq := bst_msgq w @ [trigger_report_msg m]\<rparr>"
  have v: "unit_valid ?w1 (msg_unit m)" and e: "counts (msg_unit m) ?w1 = counts (msg_unit m) w"
    "get_config (msg_unit m) ?w1 = get_config (msg_unit m) w"
    using assms by (simp_all add: counts_def get_config_def)
  note t = trigger_timer_add_frame [OF v prod.collapse [symmetric]]
  show "counts (msg_unit m) (trigger_sent m j w) = (counts (msg_unit m) w)[j := counts (msg_unit m) w ! j + 1]"
    "unit_valid (trigger_sent m j w) (msg_unit m)"
    "bst_msgq (trigger_sent m j w) = bst_msgq w @ [trigger_report_msg m]"
    "get_config (msg_unit m) (trigger_sent m j w) = get_config (msg_unit m) w"
    using v e t by (auto simp: trigger_sent_def Let_def count_trigger_counts)
qed

text \<open>The message queue grows exactly when a report is sent.\<close>

lemma process_trigger_cases:
  assumes "unit_valid w (msg_unit m)"
  obtains (count) j where "bst_process_trigger m w = (BVIEW_STATUS_SUCCESS, count_trigger (msg_unit m) j w)"
      "j < BST_ID_MAX"
  | (full) "bst_process_trigger m w = (BVIEW_STATUS_FAILURE, w)"
  | (report) j where "trigger_key m = Some j" "\<not> trigger_limited (msg_unit m) j w"
      "bst_process_trigger m w = (BVIEW_STATUS_SUCCESS, trigger_sent m j w)" "j < BST_ID_MAX"
proof (cases "trigger_key m")
  case None
  then show ?thesis using count [of 0] trigger_unknown [of m w] by (simp add: BST_ID_MAX_def)
next
  case (Some j)
  then have "j < BST_ID_MAX" using trigger_index_bound by (simp add: trigger_key_def)
  then show ?thesis
    using Some that trigger_suppressed trigger_queue_full trigger_reported by blast
qed

section \<open>The limiter as a state machine\<close>

text \<open>A state of the limiter of unit i is the world with, for each counter, the number of
  reports sent since the last clearing, and the number of triggers since then. Fewer than
  2^32 - 1 triggers come within one interval, so that no counter wraps around. The application
  thread may take messages from the queue at any time.\<close>

definition reports_after :: "request_msg \<Rightarrow> 'hw bst_world \<Rightarrow> 'hw bst_world \<Rightarrow> (nat \<Rightarrow> nat) \<Rightarrow> nat \<Rightarrow> nat" where
  "reports_after m w w' r =
     (if length (bst_msgq w') > length (bst_msgq w)
      then (case trigger_key m of Some j \<Rightarrow> r(j := Suc (r j)) | None \<Rightarrow> r) else r)"

inductive limiter_step ::
  "int \<Rightarrow> 'hw bst_world \<times> (nat \<Rightarrow> nat) \<times> nat \<Rightarrow> 'hw bst_world \<times> (nat \<Rightarrow> nat) \<times> nat \<Rightarrow> bool"
  for i where
  trigger: "msg_unit m = i \<Longrightarrow> n < 2 ^ 32 - 1 \<Longrightarrow> w' = snd (bst_process_trigger m w) \<Longrightarrow>
     limiter_step i (w, r, n) (w', reports_after m w w' r, Suc n)"
| clear: "msg_unit m = i \<Longrightarrow> w' = snd (bst_clear_trigger_count m w) \<Longrightarrow>
     limiter_step i (w, r, n) (w', \<lambda>_. 0, 0)"
| take_message: "limiter_step i (w, r, n) (w\<lparr>bst_msgq := q\<rparr>, r, n)"

inductive_cases limiter_stepE: "limiter_step i (w, r, n) s'"

inductive limiter_reach ::
  "int \<Rightarrow> 'hw bst_world \<Rightarrow> 'hw bst_world \<times> (nat \<Rightarrow> nat) \<times> nat \<Rightarrow> bool"
  for i w0 where
  start: "limiter_reach i w0 (w0, \<lambda>_. 0, 0)"
| step: "limiter_reach i w0 s \<Longrightarrow> limiter_step i s s' \<Longrightarrow> limiter_reach i w0 s'"

definition limiter_inv :: "int \<Rightarrow> int \<Rightarrow> 'hw bst_world \<times> (nat \<Rightarrow> nat) \<times> nat \<Rightarrow> bool" where
  "limiter_inv i mx s = (case s of (w, r, n) \<Rightarrow>
     counts_ok i w \<and> bstMaxTriggers (get_config i w) = mx \<and> n < 2 ^ 32
     \<and> (\<forall>j<BST_ID_MAX. r j \<le> unat (counts i w ! j) \<and> unat (counts i w ! j) \<le> n \<and> r j \<le> nat mx))"

lemma unat_Suc_word:
  assumes "unat (c :: 32 word) \<le> n" "n < 2 ^ 32 - 1"
  shows "unat (c + 1) = Suc (unat c)"
proof -
  have "unat c + unat (1 :: 32 word) < 2 ^ LENGTH(32)" using assms by simp
  then show ?thesis unfolding unat_add_lem by simp
qed

lemma unat_of_limit: "0 \<le> mx \<Longrightarrow> mx < 2 ^ 32 \<Longrightarrow> unat (of_int mx :: 32 word) = nat mx"
  by (simp add: unat_eq_nat_uint uint_word_of_int)

lemma not_limited_below:
  assumes "\<not> trigger_limited i j w" "bstMaxTriggers (get_config i w) = mx" "0 < mx" "mx < 2 ^ 32"
  shows "Suc (unat (counts i w ! j)) \<le> nat mx"
  using assms unat_of_limit [of mx]
  by (simp add: trigger_limited_def counts_def Let_def word_le_nat_alt)

lemma count_trigger_inv:
  assumes "limiter_inv i mx (w, r, n)" "n < 2 ^ 32 - 1" "j < BST_ID_MAX"
  shows "limiter_inv i mx (count_trigger i j w, r, Suc n)"
proof -
  have v: "unit_valid w i" "length (counts i w) = BST_ID_MAX"
    and b: "\<forall>k<BST_ID_MAX. r k \<le> unat (counts i w ! k) \<and> unat (counts i w ! k) \<le> n \<and> r k \<le> nat mx"
    using assms(1) by (simp_all add: limiter_inv_def counts_ok_def)
  have "unat (counts i w ! j + 1) = Suc (unat (counts i w ! j))"
    using unat_Suc_word assms(2,3) b by blast
  then have "\<forall>k<BST_ID_MAX. r k \<le> unat (counts i (count_trigger i j w) ! k)
      \<and> unat (counts i (count_trigger i j w) ! k) \<le> Suc n \<and> r k \<le> nat mx"
    using b assms(3) v by (auto simp: count_trigger_counts nth_list_update intro: le_SucI)
  then show ?thesis
    using assms v by (simp add: limiter_inv_def counts_ok_def count_trigger_counts)
qed

lemma trigger_sent_inv:
  assumes "limiter_inv (msg_unit m) mx (w, r, n)" "n < 2 ^ 32 - 1" "0 < mx" "mx < 2 ^ 32"
    "trigger_key m = Some j" "\<not> trigger_limited (msg_unit m) j w" "j < BST_ID_MAX"
  shows "limiter_inv (msg_unit m) mx (trigger_sent m j w, r(j := Suc (r j)), Suc n)"
proof -
  let ?i = "msg_unit m"
  have v: "unit_valid w ?i" "length (counts ?i w) = BST_ID_MAX" "bstMaxTriggers (get_config ?i w) = mx"
    and b: "\<forall>k<BST_ID_MAX. r k \<le> unat (counts ?i w ! k) \<and> unat (counts ?i w ! k) \<le> n \<and> r k \<le> nat mx"
    using assms(1) by (simp_all add: limiter_inv_def counts_ok_def)
  note f = trigger_sent_frame [OF v(1), of j]
  have s: "unat (counts ?i w ! j + 1) = Suc (unat (counts ?i w ! j))"
    using unat_Suc_word assms(2,7) b by blast
  have "r j \<le> unat (counts ?i w ! j)" using b assms(7) by blast
  then have "Suc (r j) \<le> nat mx"
    using not_limited_below [OF assms(6) v(3) assms(3,4)] by simp
  then have "\<forall>k<BST_ID_MAX. (r(j := Suc (r j))) k \<le> unat (counts ?i (trigger_sent m j w) ! k)
      \<and> unat (counts ?i (trigger_sent m j w) ! k) \<le> Suc n \<and> (r(j := Suc (r j))) k \<le> nat mx"
    using b s assms(7) v(2) by (auto simp: f nth_list_update intro: le_SucI)
  then show ?thesis
    using assms(2) v f by (simp add: limiter_inv_def counts_ok_def)
qed

lemma clear_count_frame:
  assumes "unit_valid w (msg_unit m)" "bst_clear_trigger_count m w = (rv, w')"
  shows "counts (msg_unit m) w' = replicate BST_ID_MAX 0" "unit_valid w' (msg_unit m)"
    "get_config (msg_unit m) w' = get_config (msg_unit m) w"
proof -
  let ?i = "msg_unit m"
  define w1 where "w1 = unit_set ?i ((unit_get w ?i)\<lparr>bst_trigger_count := replicate BST_ID_MAX 0\<rparr>) w"
  have w1: "unit_valid w1 ?i" "counts ?i w1 = replicate BST_ID_MAX 0" "get_config ?i w1 = get_config ?i w"
    using assms(1) by (simp_all add: w1_def counts_def get_config_def)
  define w2 where "w2 = (if \<forall>c\<in>set (counts ?i w). c = 0 then snd (bst_trigger_timer_delete ?i w1) else w1)"
  have w2: "unit_valid w2 ?i" "counts ?i w2 = replicate BST_ID_MAX 0" "get_config ?i w2 = get_config ?i w"
    using w1 trigger_timer_delete_frame [OF w1(1) prod.collapse [symmetric]] by (simp_all add: w2_def)
  have "w' = snd (bst_send_request (zero_msg BVIEW_BST_CMD_API_ENABLE_BST_ON_TRIGGER ?i) w2)"
    using assms(2)
    by (auto simp: bst_clear_trigger_count_def w2_def w1_def counts_def Let_def split: prod.splits if_splits)
  then show "counts ?i w' = replicate BST_ID_MAX 0" "unit_valid w' ?i" "get_config ?i w' = get_config ?i w"
    using w2 by (simp_all add: bst_send_request_def counts_def get_config_def)
qed

lemma limiter_step_inv:
  assumes "limiter_inv i mx s" "limiter_step i s s'" "0 < mx" "mx < 2 ^ 32"
  shows "limiter_inv i mx s'"
proof -
  obtain w r n where s: "s = (w, r, n)" by (cases s)
  have v: "unit_valid w i" using assms(1) s by (simp add: limiter_inv_def counts_ok_def)
  from assms(2) s show ?thesis
  proof (cases rule: limiter_step.cases)
    case (trigger m n' w' w0 r')
    then have e: "w0 = w" "r' = r" "n' = n" and i: "msg_unit m = i" using s by simp_all
    have v': "unit_valid w (msg_unit m)" using v i by simp
    from v' show ?thesis
    proof (cases rule: process_trigger_cases)
      case (count j)
      then show ?thesis
        using count_trigger_inv [of i mx w r n j] trigger e i assms(1) s by (simp add: reports_after_def)
    next
      case full
      then show ?thesis
        using trigger e assms(1) s by (auto simp: reports_after_def limiter_inv_def intro: le_SucI)
    next
      case (report j)
      then have "reports_after m w (trigger_sent m j w) r = r(j := Suc (r j))"
        using trigger_sent_frame(3) [OF v'] by (simp add: reports_after_def)
      then show ?thesis
        using trigger_sent_inv [of m mx w r n j] report trigger e i assms s by simp
    qed
  next
    case (clear m w' w0 r' n')
    then have "unit_valid w (msg_unit m)" "w0 = w" "msg_unit m = i" using s v by simp_all
    then show ?thesis
      using clear_count_frame [OF _ prod.collapse [symmetric], of w m] clear assms(1) s
      by (simp add: limiter_inv_def counts_ok_def BST_ID_MAX_def)
  next
    case (take_message w0 r' n' q)
    then show ?thesis using assms(1) s by (simp add: limiter_inv_def counts_ok_def counts_def get_config_def)
  qed
qed

lemma limiter_reach_inv:
  assumes "limiter_reach i w0 s" "counts_ok i w0" "0 < bstMaxTriggers (get_config i w0)"
    "bstMaxTriggers (get_config i w0) < 2 ^ 32" "\<forall>c\<in>set (counts i w0). c = 0"
  shows "limiter_inv i (bstMaxTriggers (get_config i w0)) s"
  using assms
proof (induction rule: limiter_reach.induct)
  case start
  then have "counts i w0 ! j = 0" if "j < BST_ID_MAX" for j
    using that by (simp add: counts_ok_def)
  then show ?case using start by (simp add: limiter_inv_def)
next
  case (step s s')
  then show ?case using limiter_step_inv by blast
qed

section \<open>Reports below the limit, and the end of the interval\<close>

lemma first_trigger_reported:
  assumes "trigger_key m = Some j" "counts (msg_unit m) w ! j = 0"
    "bstMaxTriggers (get_config (msg_unit m) w) = mx" "0 < mx" "mx < 2 ^ 32"
    "length (bst_msgq w) < msgq_limit w"
  shows "bst_process_trigger m w = (BVIEW_STATUS_SUCCESS, trigger_sent m j w)"
proof -
  have "(of_int mx :: 32 word) \<noteq> 0"
  proof
    assume "(of_int mx :: 32 word) = 0"
    then have "nat mx = 0" using unat_of_limit [of mx] assms(4,5) by simp
    then show False using assms(4) by simp
  qed
  then have "\<not> trigger_limited (msg_unit m) j w"
    using assms(2,3) by (simp add: trigger_limited_def counts_def Let_def)
  then show ?thesis using trigger_reported assms(1,6) by blast
qed

text \<open>The first report of a counter in an interval starts the timer.\<close>

lemma first_report_starts_timer:
  assumes "trig_ok (msg_unit m) w" "counts (msg_unit m) w ! j = 0"
    "bstMaxTriggers (get_config (msg_unit m) w) \<noteq> 0"
    "length (timers (kernel w)) < timer_limit (kernel w)" "0 \<le> trig_period (msg_unit m) w"
  shows "trig_flag (msg_unit m) (trigger_sent m j w)"
proof -
  let ?i = "msg_unit m"
  let ?w1 = "w\<lparr>bst_msgq := bst_msgq w @ [trigger_report_msg m]\<rparr>"
  have "trig_ok ?i ?w1" "0 \<le> trig_period ?i ?w1"
    using assms(1,5) by (simp_all add: trig_wf_def trig_flag_def trig_id_def trig_period_def get_config_def)
  moreover have "length (timers (kernel ?w1)) < timer_limit (kernel ?w1)" using assms(4) by simp
  ultimately have "trig_ok ?i (snd (bst_trigger_timer_add ?i ?w1)) \<and> trig_flag ?i (snd (bst_trigger_timer_add ?i ?w1))"
    using trig_start [OF _ _ _ prod.collapse [symmetric], of ?i ?w1] by blast
  then show ?thesis
    using assms(2,3) by (auto simp: trigger_sent_def Let_def trig_flag_def trig_wf_def)
qed

lemma clear_stops_idle_timer:
  assumes "trig_ok (msg_unit m) w" "bst_clear_trigger_count m w = (rv, w')"
  shows "trig_ok (msg_unit m) w'"
    and "trig_flag (msg_unit m) w' \<longleftrightarrow> trig_flag (msg_unit m) w \<and> (\<exists>c\<in>set (counts (msg_unit m) w). c \<noteq> 0)"
proof -
  let ?i = "msg_unit m"
  define w1 where "w1 = unit_set ?i ((unit_get w ?i)\<lparr>bst_trigger_count := replicate BST_ID_MAX 0\<rparr>) w"
  have v: "unit_valid w ?i" using assms(1) by (simp add: trig_wf_def)
  have f1: "trig_flag ?i w1 = trig_flag ?i w" "trig_id ?i w1 = trig_id ?i w" "trig_wf ?i w1 = trig_wf ?i w"
    "kernel w1 = kernel w"
    using v by (simp_all add: w1_def trig_flag_def trig_id_def trig_wf_def)
  then have ok1: "trig_ok ?i w1" using assms(1) by simp
  define w2 where "w2 = (if \<forall>c\<in>set (counts ?i w). c = 0 then snd (bst_trigger_timer_delete ?i w1) else w1)"
  have w2: "trig_ok ?i w2 \<and> (trig_flag ?i w2 \<longleftrightarrow> trig_flag ?i w \<and> (\<exists>c\<in>set (counts ?i w). c \<noteq> 0))"
    using trig_stop [OF ok1 prod.collapse [symmetric]] ok1 f1 by (auto simp: w2_def)
  have "w' = snd (bst_send_request (zero_msg BVIEW_BST_CMD_API_ENABLE_BST_ON_TRIGGER ?i) w2)"
    using assms(2)
    by (auto simp: bst_clear_trigger_count_def w2_def w1_def counts_def Let_def split: prod.splits if_splits)
  then have w': "trig_flag ?i w' = trig_flag ?i w2" "trig_id ?i w' = trig_id ?i w2"
    "trig_wf ?i w' = trig_wf ?i w2" "kernel w' = kernel w2"
    by (simp_all add: bst_send_request_def trig_flag_def trig_id_def trig_wf_def)
  show "trig_ok ?i w'" unfolding w' using w2 by blast
  show "trig_flag ?i w' \<longleftrightarrow> trig_flag ?i w \<and> (\<exists>c\<in>set (counts ?i w). c \<noteq> 0)"
    unfolding w' using w2 by blast
qed

section \<open>An unknown counter starves the device counter\<close>

definition run_triggers :: "request_msg list \<Rightarrow> 'hw bst_world \<Rightarrow> 'hw bst_world" where
  "run_triggers ms w = foldl (\<lambda>w m. snd (bst_process_trigger m w)) w ms"

lemma run_triggers_simps [simp]:
  "run_triggers [] w = w"
  "run_triggers (m # ms) w = run_triggers ms (snd (bst_process_trigger m w))"
  by (simp_all add: run_triggers_def)

lemma device_limited:
  assumes "counts_ok i w" "bstMaxTriggers (get_config i w) = 1" "counts i w ! 0 \<noteq> 0"
    "msg_unit m = i" "trigger_key m = None \<or> trigger_key m = Some 0"
  shows "bst_process_trigger m w = (BVIEW_STATUS_SUCCESS, count_trigger i 0 w)"
proof -
  have "trigger_limited i 0 w"
    using assms(2,3) by (simp add: trigger_limited_def counts_def Let_def word_le_nat_alt
        unat_gt_0 Suc_le_eq word_neq_0_conv [symmetric])
  then show ?thesis using assms(4,5) trigger_unknown trigger_suppressed by metis
qed

text \<open>While the first counter is not zero and no timer runs, device triggers and unknown ones are
  only counted: nothing is sent, and no timer is started that would clear the counter.\<close>

lemma starved:
  assumes "counts_ok i w" "bstMaxTriggers (get_config i w) = 1"
    "0 < unat (counts i w ! 0)" "unat (counts i w ! 0) + length ms < 2 ^ 32"
    "\<forall>m\<in>set ms. msg_unit m = i \<and> (trigger_key m = None \<or> trigger_key m = Some 0)"
  shows "bst_msgq (run_triggers ms w) = bst_msgq w \<and> kernel (run_triggers ms w) = kernel w"
  using assms
proof (induction ms arbitrary: w)
  case (Cons m ms)
  have nz: "counts i w ! 0 \<noteq> 0" using Cons.prems(3) by auto
  have m: "snd (bst_process_trigger m w) = count_trigger i 0 w"
    using device_limited [OF Cons.prems(1,2) nz] Cons.prems(5) by simp
  have v: "unit_valid w i" "length (counts i w) = BST_ID_MAX" using Cons.prems(1) by (simp_all add: counts_ok_def)
  have "unat (counts i w ! 0 + 1) = Suc (unat (counts i w ! 0))"
    using Cons.prems(4) by (intro unat_Suc_word [of _ "unat (counts i w ! 0)"]) simp_all
  moreover have "counts i (count_trigger i 0 w) ! 0 = counts i w ! 0 + 1"
    using v by (simp add: count_trigger_counts BST_ID_MAX_def)
  ultimately show ?case
    using Cons.IH [of "count_trigger i 0 w"] Cons.prems v m
    by (simp add: counts_ok_def count_trigger_counts)
qed simp

lemma unknown_then_starved:
  assumes "counts_ok i w" "bstMaxTriggers (get_config i w) = 1" "counts i w ! 0 = 0"
    "msg_unit m0 = i" "trigger_key m0 = None" "length ms < 2 ^ 32 - 1"
    "\<forall>m\<in>set ms. msg_unit m = i \<and> (trigger_key m = None \<or> trigger_key m = Some 0)"
  shows "bst_msgq (run_triggers (m0 # ms) w) = bst_msgq w \<and> kernel (run_triggers (m0 # ms) w) = kernel w"
proof -
  have v: "unit_valid w i" "length (counts i w) = BST_ID_MAX" using assms(1) by (simp_all add: counts_ok_def)
  have "counts i (count_trigger i 0 w) ! 0 = 1"
    using v assms(3) by (simp add: count_trigger_counts BST_ID_MAX_def)
  then show ?thesis
    using starved [of i "count_trigger i 0 w" ms] assms v trigger_unknown [OF assms(5), of w]
    by (simp add: counts_ok_def count_trigger_counts)
qed

end
