(* ===== verification/Bst_System.thy ===== *)
theory Bst_System
  imports Bst_Report_Laws Bst_Trigger_Laws
begin

text \<open>The whole application as a transition system: its two threads, the timer call-backs, the
  trigger call-back of the plugin and the requests of the clients, in any order. The invariant:
  every unit has a collection timer exactly while asynchronous reports are on, at most one
  trigger timer, no other timer exists, and the report records of a unit stay apart.\<close>

section \<open>Steps\<close>

text \<open>The requests that come from the REST commands have time intervals that are not negative;
  the JSON decoder checks the ranges.\<close>

definition request_ok :: "request_msg \<Rightarrow> bool" where
  "request_ok m = (0 \<le> collectionInterval (req_config m) \<and> 0 \<le> triggerTransmitInterval (req_config m))"

inductive bst_step ::
  "'hw plugin_entry list \<Rightarrow> nat \<Rightarrow> 'hw bst_world \<Rightarrow> 'hw bst_world \<Rightarrow> bool"
  for ps n where
  app: "bst_step ps n w (bst_app_step ps n w)"
| trigger_thread: "bst_step ps n w (bst_trigger_step ps n w)"
| collection_timer: "t \<in> set (timers (kernel w)) \<Longrightarrow> kt_handler t = bst_periodic_collection_cb \<Longrightarrow>
     bst_step ps n w (snd (bst_periodic_collection_cb_run (kt_param t) w))"
| trigger_timer: "t \<in> set (timers (kernel w)) \<Longrightarrow> kt_handler t = bst_trigger_timer_cb \<Longrightarrow>
     bst_step ps n w (snd (bst_trigger_timer_cb_run (kt_param t) w))"
| silicon_trigger: "bst_step ps n w (snd (bst_trigger_cb unit info w))"
| plugin_update: "msg_type m \<in> {BVIEW_BST_CMD_API_UPDATE_TRACK, BVIEW_BST_CMD_API_UPDATE_FEATURE} \<Longrightarrow>
     request_ok m \<Longrightarrow> bst_step ps n w (snd (bst_plugin_cb (Some m) w))"
| request: "request_ok m \<Longrightarrow> bst_step ps n w (snd (bst_send_request m w))"
| responses_sent: "bst_step ps n w (w\<lparr>sent_responses := rs\<rparr>)"
| silicon: "bst_step ps n w (w\<lparr>sb_hw := hw\<rparr>)"

inductive bst_reach ::
  "'hw plugin_entry list \<Rightarrow> nat \<Rightarrow> 'hw bst_world \<Rightarrow> 'hw bst_world \<Rightarrow> bool"
  for ps n w0 where
  reach_start: "bst_reach ps n w0 w0"
| reach_step: "bst_reach ps n w0 w \<Longrightarrow> bst_step ps n w w' \<Longrightarrow> bst_reach ps n w0 w'"

section \<open>Timers of other owners\<close>

text \<open>What a change to the timers of one owner leaves of the others.\<close>

definition foreign_kept :: "timer_handler \<Rightarrow> int \<Rightarrow> kernel_timers \<Rightarrow> kernel_timers \<Rightarrow> bool" where
  "foreign_kept h p k k' = (timer_limit k' = timer_limit k
     \<and> (\<forall>h' p' b j. (h', p') \<noteq> (h, p) \<longrightarrow> slot_ok h' p' b j k \<longrightarrow> slot_ok h' p' b j k')
     \<and> (\<forall>t\<in>set (timers k'). (kt_handler t, kt_param t) = (h, p) \<or> t \<in> set (timers k)))"

lemma foreign_kept_refl: "foreign_kept h p k k"
  by (simp add: foreign_kept_def)

lemma foreign_kept_trans: "foreign_kept h p k1 k2 \<Longrightarrow> foreign_kept h p k2 k3 \<Longrightarrow> foreign_kept h p k1 k3"
  unfolding foreign_kept_def by metis

lemma foreign_kept_delete:
  assumes "slot_ok h p True i k"
  shows "foreign_kept h p k (snd (system_timer_delete i k))"
  using slot_delete(1) [OF assms] slot_delete_other [OF _ assms] by (auto simp: foreign_kept_def)

lemma foreign_kept_add:
  assumes "slot_ok h p False i k" "length (timers k) < timer_limit k" "0 \<le> ms"
  shows "foreign_kept h p k (snd (snd (system_timer_add h ms m p k)))"
proof -
  have k: "timers_ok k" using assms(1) by (simp add: slot_ok_def)
  show ?thesis
    using slot_add [OF assms, of m] system_timer_add_success [OF assms(2,3) k, of h m p]
    by (auto simp: foreign_kept_def)
qed

text \<open>With all owners known, there are at most as many timers as owners.\<close>

lemma length_by_key:
  assumes "finite K" "key ` set ts \<subseteq> K"
  shows "length ts = (\<Sum>k\<in>K. length (filter (\<lambda>t. key t = k) ts))"
  using assms(2)
proof (induction ts)
  case (Cons t ts)
  have "(\<Sum>k\<in>K. length (filter (\<lambda>t. key t = k) (t # ts)))
      = (\<Sum>k\<in>K. (if k = key t then 1 else 0) + length (filter (\<lambda>t. key t = k) ts))"
    by (intro sum.cong) auto
  also have "\<dots> = Suc (length ts)"
    using Cons assms(1) by (simp add: sum.distrib sum.delta)
  finally show ?case by simp
qed simp

definition timer_keys :: "nat \<Rightarrow> (timer_handler \<times> int) set" where
  "timer_keys n = {bst_periodic_collection_cb, bst_trigger_timer_cb} \<times> {0..<int n}"

lemma card_timer_keys: "finite (timer_keys n)" "card (timer_keys n) = 2 * n"
  by (simp_all add: timer_keys_def card_cartesian_product)

lemma timers_bounded:
  assumes "\<And>t. t \<in> set (timers k) \<Longrightarrow> (kt_handler t, kt_param t) \<in> timer_keys n"
    "\<And>h p. (h, p) \<in> timer_keys n \<Longrightarrow> \<exists>b i. slot_ok h p b i k"
  shows "length (timers k) \<le> 2 * n"
proof -
  have "length (timers k) = (\<Sum>x\<in>timer_keys n.
      length (filter (\<lambda>t. (kt_handler t, kt_param t) = x) (timers k)))"
    using assms(1) card_timer_keys(1) by (intro length_by_key) auto
  also have "\<dots> \<le> (\<Sum>x\<in>timer_keys n. 1)"
  proof (rule sum_mono)
    fix x assume x: "x \<in> timer_keys n"
    obtain h p where hp: "x = (h, p)" by (cases x)
    obtain b i where "slot_ok h p b i k" using assms(2) x hp by blast
    then have "length (owned h p k) \<le> 1" by (simp add: slot_ok_def)
    then show "length (filter (\<lambda>t. (kt_handler t, kt_param t) = x) (timers k)) \<le> 1"
      by (simp add: owned_def hp)
  qed
  finally show ?thesis using card_timer_keys by simp
qed

section \<open>The invariant\<close>

definition unit_timers_ok :: "int \<Rightarrow> 'hw bst_world \<Rightarrow> bool" where
  "unit_timers_ok i w = (async_inv i w \<and> trig_ok i w
     \<and> 0 \<le> collectionInterval (get_config i w) \<and> 0 \<le> triggerTransmitInterval (get_config i w))"

definition timers_inv :: "nat \<Rightarrow> 'hw bst_world \<Rightarrow> bool" where
  "timers_inv n w = (length (bst_units w) = n \<and> 2 * n < timer_limit (kernel w)
     \<and> (\<forall>i. 0 \<le> i \<longrightarrow> i < int n \<longrightarrow> unit_timers_ok i w)
     \<and> (\<forall>t\<in>set (timers (kernel w)). (kt_handler t, kt_param t) \<in> timer_keys n))"

definition queues_ok :: "'hw bst_world \<Rightarrow> bool" where
  "queues_ok w = (\<forall>m\<in>set (bst_msgq w) \<union> set (bst_trigger_msgq w). request_ok m)"

definition sys_inv :: "nat \<Rightarrow> 'hw bst_world \<Rightarrow> bool" where
  "sys_inv n w = (timers_inv n w \<and> queues_ok w \<and> records_ok w)"

lemma timers_inv_unit: "timers_inv n w \<Longrightarrow> 0 \<le> i \<Longrightarrow> i < int n \<Longrightarrow> unit_timers_ok i w \<and> unit_valid w i"
  by (auto simp: timers_inv_def unit_valid_def)

lemma timers_inv_length: "timers_inv n w \<Longrightarrow> length (timers (kernel w)) \<le> 2 * n"
proof (rule timers_bounded)
  fix h p assume inv: "timers_inv n w" and "(h, p) \<in> timer_keys n"
  then have "h = bst_periodic_collection_cb \<or> h = bst_trigger_timer_cb" "unit_timers_ok p w"
    by (auto simp: timer_keys_def timers_inv_def)
  then show "\<exists>b i. slot_ok h p b i (kernel w)"
    unfolding unit_timers_ok_def async_inv_def by blast
qed (auto simp: timers_inv_def)

lemma timers_inv_capacity: "timers_inv n w \<Longrightarrow> length (timers (kernel w)) < timer_limit (kernel w)"
  using timers_inv_length [of n w] by (simp add: timers_inv_def)

section \<open>Handlers that leave the timers alone\<close>

definition timer_view :: "bst_unit \<Rightarrow> bst_timer \<times> bst_timer \<times> int \<times> int \<times> int" where
  "timer_view u = (bst_collection_timer u, bst_trigger_timer u,
     collectionInterval (bst_config_ptr u), triggerTransmitInterval (bst_config_ptr u),
     sendAsyncReports (bst_config_ptr u))"

definition same_timers :: "'hw bst_world \<Rightarrow> 'hw bst_world \<Rightarrow> bool" where
  "same_timers w w' = (map timer_view (bst_units w') = map timer_view (bst_units w)
     \<and> kernel w' = kernel w)"

lemma same_timers_unit:
  assumes "same_timers w w'" "unit_valid w i"
  shows "unit_valid w' i" "timer_view (unit_get w' i) = timer_view (unit_get w i)"
proof -
  have e: "map timer_view (bst_units w') = map timer_view (bst_units w)" using assms(1) by (simp add: same_timers_def)
  then have l: "length (bst_units w') = length (bst_units w)" by (metis length_map)
  then show "unit_valid w' i" using assms(2) by (simp add: unit_valid_def)
  have "map timer_view (bst_units w') ! nat i = map timer_view (bst_units w) ! nat i" using e by simp
  then show "timer_view (unit_get w' i) = timer_view (unit_get w i)"
    using assms(2) l by (simp add: unit_get_def unit_valid_def)
qed

lemma unit_timers_ok_same:
  assumes "same_timers w w'" "unit_timers_ok i w"
  shows "unit_timers_ok i w'"
proof -
  have v: "unit_valid w i" using assms(2) by (simp add: unit_timers_ok_def trig_wf_def)
  have k: "kernel w' = kernel w" using assms(1) by (simp add: same_timers_def)
  have c: "bst_collection_timer (unit_get w' i) = bst_collection_timer (unit_get w i)"
    "bst_trigger_timer (unit_get w' i) = bst_trigger_timer (unit_get w i)"
    "collectionInterval (get_config i w') = collectionInterval (get_config i w)"
    "triggerTransmitInterval (get_config i w') = triggerTransmitInterval (get_config i w)"
    "sendAsyncReports (get_config i w') = sendAsyncReports (get_config i w)"
    using same_timers_unit(2) [OF assms(1) v] by (simp_all add: timer_view_def get_config_def)
  show ?thesis
    using assms(2) same_timers_unit(1) [OF assms(1) v] v
    unfolding unit_timers_ok_def async_inv_def coll_wf_def trig_wf_def coll_flag_def coll_id_def
      trig_flag_def trig_id_def c k by blast
qed

lemma timers_inv_same: "same_timers w w' \<Longrightarrow> timers_inv n w \<Longrightarrow> timers_inv n w'"
  using unit_timers_ok_same [of w w']
  by (auto simp: timers_inv_def same_timers_def dest: arg_cong [where f = length])

lemma same_timers_refl: "same_timers w w"
  by (simp add: same_timers_def)

lemma same_timers_fields [simp]:
  "same_timers w (w'\<lparr>sb_hw := h\<rparr>) = same_timers w w'"
  "same_timers w (w'\<lparr>bst_msgq := q\<rparr>) = same_timers w w'"
  "same_timers w (w'\<lparr>bst_trigger_msgq := q\<rparr>) = same_timers w w'"
  "same_timers w (w'\<lparr>sent_responses := r\<rparr>) = same_timers w w'"
  by (simp_all add: same_timers_def)

lemma same_timers_unit_set:
  assumes "timer_view u = timer_view (unit_get w' i)"
  shows "same_timers w (unit_set i u w') = same_timers w w'"
proof (cases "nat i < length (bst_units w')")
  case True
  then have "map timer_view ((bst_units w')[nat i := u]) = map timer_view (bst_units w')"
    using assms by (simp add: map_update unit_get_def) (metis list_update_id nth_map)
  then show ?thesis by (simp add: same_timers_def unit_set_def)
qed (simp add: same_timers_def unit_set_def list_update_beyond)

lemma timers_hw_call [simp]: "same_timers w (snd (snd (hw_call f w'))) = same_timers w w'"
  by (simp add: same_timers_def hw_call_def split_beta)

lemma timers_write_record [simp]: "same_timers w (write_record i p r w') = same_timers w w'"
  by (simp add: write_record_def Let_def same_timers_unit_set timer_view_def)

lemma timers_count_trigger [simp]: "same_timers w (count_trigger i p w') = same_timers w w'"
  by (simp add: count_trigger_def Let_def same_timers_unit_set timer_view_def)

lemma timers_send [simp]:
  "same_timers w (snd (bst_send_request m w')) = same_timers w w'"
  "same_timers w (snd (bst_trigger_send_request m w')) = same_timers w w'"
  by (simp_all add: bst_send_request_def bst_trigger_send_request_def)

lemma timers_track_set: "same_timers w (snd (bst_config_track_set ps m w))"
  by (simp add: bst_config_track_set_def Let_def split_beta same_timers_refl
      same_timers_unit_set timer_view_def)

lemma timers_update_config: "same_timers w (snd (bst_update_config_set ps m w))"
  by (simp add: bst_update_config_set_def Let_def split_beta same_timers_refl put_config_def
      same_timers_unit_set timer_view_def get_config_def)

lemma timers_threshold_set: "same_timers w (snd (bst_config_threshold_set ps m w))"
  by (simp add: bst_config_threshold_set_def threshold_dispatch_def Let_def split_beta same_timers_refl)

lemma timers_clear: "same_timers w (snd (bst_clear_threshold_set ps m w))"
  "same_timers w (snd (bst_clear_stats_set ps m w))"
  by (simp_all add: bst_clear_threshold_set_def bst_clear_stats_set_def Let_def split_beta same_timers_refl)

lemma timers_enable [simp]: "same_timers w (snd (bst_enable_on_trigger ps m w')) = same_timers w w'"
  by (simp add: bst_enable_on_trigger_def Let_def split_beta)

lemma timers_collect [simp]:
  "same_timers w (snd (collect_snapshot ps i w')) = same_timers w w'"
  "same_timers w (collect_max_buffers ps i w') = same_timers w w'"
  "same_timers w (snd (collect_thresholds ps i w')) = same_timers w w'"
  by (simp_all add: collect_snapshot_def collect_max_buffers_def collect_thresholds_def Let_def
      split_beta same_timers_unit_set timer_view_def split: option.splits)

lemma timers_get_report: "same_timers w (snd (snd (bst_get_report ps m w)))"
  by (simp add: bst_get_report_def Let_def split_beta same_timers_refl)

lemma timers_update_data: "same_timers w (snd (bst_update_data t i w)) "
  by (simp add: bst_update_data_def rotate_records_def same_timers_refl same_timers_unit_set timer_view_def)

lemma timers_reply: "same_timers w (bst_copy_reply_params m rv w)"
  using timers_update_data [of w BVIEW_BST_STATS "msg_unit m"]
  by (simp add: bst_copy_reply_params_def Let_def same_timers_refl)

lemmas quiet_handlers =
  timers_track_set timers_update_config timers_threshold_set timers_clear timers_get_report

section \<open>Handlers that run the timers\<close>

text \<open>A step of unit i that changes at most the timers of one owner h of this unit.\<close>

definition unit_frame :: "timer_handler \<Rightarrow> int \<Rightarrow> 'hw bst_world \<Rightarrow> 'hw bst_world \<Rightarrow> bool" where
  "unit_frame h i w w' = (foreign_kept h i (kernel w) (kernel w')
     \<and> length (bst_units w') = length (bst_units w)
     \<and> (\<forall>j. 0 \<le> j \<longrightarrow> j \<noteq> i \<longrightarrow> unit_get w' j = unit_get w j))"

lemma unit_frame_refl: "unit_frame h i w w"
  by (simp add: unit_frame_def foreign_kept_refl)

lemma unit_frame_trans: "unit_frame h i w1 w2 \<Longrightarrow> unit_frame h i w2 w3 \<Longrightarrow> unit_frame h i w1 w3"
  unfolding unit_frame_def using foreign_kept_trans by metis

lemma unit_frame_same_kernel:
  "kernel w' = kernel w \<Longrightarrow> length (bst_units w') = length (bst_units w) \<Longrightarrow>
   (\<And>j. 0 \<le> j \<Longrightarrow> j \<noteq> i \<Longrightarrow> unit_get w' j = unit_get w j) \<Longrightarrow> unit_frame h i w w'"
  by (simp add: unit_frame_def foreign_kept_refl)

text \<open>The unit itself need only be checked afterwards.\<close>

lemma timers_inv_frame:
  assumes "timers_inv n w" "unit_frame h i w w'" "0 \<le> i" "i < int n" "(h, i) \<in> timer_keys n"
    "unit_timers_ok i w'"
  shows "timers_inv n w'"
proof -
  have f: "foreign_kept h i (kernel w) (kernel w')" "length (bst_units w') = length (bst_units w)"
    and u: "\<And>j. 0 \<le> j \<Longrightarrow> j \<noteq> i \<Longrightarrow> unit_get w' j = unit_get w j"
    using assms(2) unfolding unit_frame_def by blast+
  have "unit_timers_ok j w'" if j: "0 \<le> j" "j < int n" "j \<noteq> i" for j
  proof -
    have ok: "unit_timers_ok j w" using assms(1) j by (simp add: timers_inv_def)
    have g: "unit_get w' j = unit_get w j" using u j by simp
    have v: "unit_valid w' j = unit_valid w j" using f(2) by (simp add: unit_valid_def)
    have s: "slot_ok h' j b k (kernel w) \<Longrightarrow> slot_ok h' j b k (kernel w')" for h' b k
      using f(1) j(3) unfolding foreign_kept_def by blast
    show ?thesis
      using ok s unfolding unit_timers_ok_def async_inv_def coll_wf_def trig_wf_def coll_flag_def
        coll_id_def trig_flag_def trig_id_def get_config_def g v by blast
  qed
  moreover have "(kt_handler t, kt_param t) \<in> timer_keys n" if "t \<in> set (timers (kernel w'))" for t
    using that f(1) assms(1,5) unfolding foreign_kept_def timers_inv_def by metis
  moreover have "timer_limit (kernel w') = timer_limit (kernel w)"
    using f(1) unfolding foreign_kept_def by blast
  ultimately show ?thesis using assms(1,6) f(2) unfolding timers_inv_def by metis
qed

text \<open>The collection timer.\<close>

definition coll_frame :: "int \<Rightarrow> 'hw bst_world \<Rightarrow> 'hw bst_world \<Rightarrow> bool" where
  "coll_frame i w w' = (unit_frame bst_periodic_collection_cb i w w'
     \<and> bst_trigger_timer (unit_get w' i) = bst_trigger_timer (unit_get w i))"

lemma coll_frame_refl: "coll_frame i w w"
  by (simp add: coll_frame_def unit_frame_refl)

lemma coll_frame_trans: "coll_frame i w1 w2 \<Longrightarrow> coll_frame i w2 w3 \<Longrightarrow> coll_frame i w1 w3"
  unfolding coll_frame_def using unit_frame_trans by metis

lemma coll_frame_put_config: "unit_valid w i \<Longrightarrow> coll_frame i w (put_config i c w)"
  by (simp add: coll_frame_def put_config_def unit_valid_def)
     (rule unit_frame_same_kernel, simp_all)

lemma coll_frame_hw_call: "coll_frame i w (snd (snd (hw_call f w)))"
  using unit_frame_same_kernel [of "snd (snd (hw_call f w))" w i bst_periodic_collection_cb]
  by (simp add: coll_frame_def) (simp add: hw_call_def split_beta)

lemma coll_frame_set_timer:
  "unit_valid w i \<Longrightarrow> foreign_kept bst_periodic_collection_cb i (kernel w) k \<Longrightarrow>
   coll_frame i w (unit_set i ((unit_get w i)\<lparr>bst_collection_timer := t\<rparr>) (w\<lparr>kernel := k\<rparr>))"
  by (simp add: coll_frame_def unit_frame_def unit_valid_def)

lemma coll_frame_delete:
  assumes "coll_ok i w"
  shows "coll_frame i w (snd (bst_periodic_collection_timer_delete i w))"
proof (cases "coll_flag i w")
  case True
  then have s: "slot_ok bst_periodic_collection_cb i True (coll_id i w) (kernel w)" using assms by simp
  have v: "unit_valid w i" using assms by (simp add: coll_wf_def)
  have "kernel (snd (bst_periodic_collection_timer_delete i w)) = snd (system_timer_delete (coll_id i w) (kernel w))"
    using True slot_delete(1) [OF s]
    by (simp add: bst_periodic_collection_timer_delete_def coll_flag_def coll_id_def Let_def)
  then show ?thesis
    using True v foreign_kept_delete [OF s] slot_delete(1) [OF s]
    by (simp add: coll_frame_def unit_frame_def bst_periodic_collection_timer_delete_def coll_flag_def
        coll_id_def Let_def unit_valid_def)
next
  case False
  then show ?thesis
    by (simp add: bst_periodic_collection_timer_delete_def coll_flag_def Let_def coll_frame_refl)
qed

lemma coll_frame_add_stopped:
  assumes "coll_ok i w" "\<not> coll_flag i w" "length (timers (kernel w)) < timer_limit (kernel w)"
    "0 \<le> coll_period i w"
  shows "coll_frame i w (snd (bst_periodic_collection_timer_add i w))"
proof -
  have v: "unit_valid w i" "timer_unit (bst_collection_timer (unit_get w i)) = i"
    using assms(1) by (simp_all add: coll_wf_def)
  have s: "slot_ok bst_periodic_collection_cb i False (coll_id i w) (kernel w)" using assms(1,2) by simp
  have "\<exists>t. snd (bst_periodic_collection_timer_add i w) = unit_set i ((unit_get w i)\<lparr>bst_collection_timer := t\<rparr>)
      (w\<lparr>kernel := snd (snd (system_timer_add bst_periodic_collection_cb (coll_period i w) PERIODIC_MODE i (kernel w)))\<rparr>)"
    using assms(2) v(2)
    by (simp add: bst_periodic_collection_timer_add_def coll_flag_def coll_period_def get_config_def
        Let_def split_beta) blast
  then show ?thesis
    using coll_frame_set_timer [OF v(1) foreign_kept_add [OF s assms(3,4), of PERIODIC_MODE]] by auto
qed

lemma coll_frame_add:
  assumes "coll_ok i w" "length (timers (kernel w)) < timer_limit (kernel w)" "0 \<le> coll_period i w"
  shows "coll_frame i w (snd (bst_periodic_collection_timer_add i w))"
proof (cases "coll_flag i w")
  case True
  define w1 where "w1 = snd (bst_periodic_collection_timer_delete i w)"
  have d: "coll_frame i w w1" using coll_frame_delete [OF assms(1)] by (simp add: w1_def)
  have "bst_periodic_collection_timer_delete i w = (fst (bst_periodic_collection_timer_delete i w), w1)"
    by (simp add: w1_def)
  from coll_stop [OF assms(1) this]
  have w1: "coll_ok i w1" "\<not> coll_flag i w1" "get_config i w1 = get_config i w"
    "length (timers (kernel w1)) \<le> length (timers (kernel w))"
    "timer_limit (kernel w1) = timer_limit (kernel w)"
    by blast+
  have "bst_periodic_collection_timer_add i w = bst_periodic_collection_timer_add i w1"
    using coll_add_running [OF True] w1(2) by (simp add: w1_def)
  moreover have "length (timers (kernel w1)) < timer_limit (kernel w1)" "0 \<le> coll_period i w1"
    using assms(2,3) w1(3-5) by (simp_all add: coll_period_def)
  ultimately show ?thesis
    using coll_frame_trans [OF d coll_frame_add_stopped [OF w1(1,2)]] by simp
qed (rule coll_frame_add_stopped [OF assms(1) _ assms(2,3)])

lemma coll_frame_async:
  assumes "coll_ok i w" "length (timers (kernel w)) < timer_limit (kernel w)"
    "0 \<le> collectionInterval (get_config i w)"
  shows "coll_frame i w (feature_async i req b w)"
proof -
  have v: "unit_valid w i" using assms(1) by (simp add: coll_wf_def)
  note ok = coll_ok_put_config [OF assms(1)]
  have p: "0 \<le> coll_period i w'" if "collectionInterval (get_config i w') = collectionInterval (get_config i w)"
    for w' :: "'a bst_world"
    using that assms(3) by (simp add: coll_period_def BVIEW_BST_TIME_CONVERSION_FACTOR_def)
  have off: "coll_frame i w (snd (bst_periodic_collection_timer_delete i (put_config i c w)))" for c
    using coll_frame_trans [OF coll_frame_put_config [OF v] coll_frame_delete [OF ok]] .
  define w1 where "w1 = (if sendAsyncReports (get_config i w) \<noteq> 1
    then put_config i ((get_config i w)\<lparr>sendAsyncReports := 1\<rparr>) w else w)"
  have w1: "coll_ok i w1" "coll_frame i w w1" "kernel w1 = kernel w" "0 \<le> coll_period i w1"
    using assms(1) ok v coll_frame_put_config [OF v] coll_frame_refl [of i w] p
    by (simp_all add: w1_def)
  have on: "coll_frame i w (snd (bst_periodic_collection_timer_add i w1))"
    using coll_frame_trans [OF w1(2) coll_frame_add [OF w1(1)]] w1(3,4) assms(2) by simp
  show ?thesis
    using on off w1(2) coll_frame_refl [of i w]
    by (simp add: feature_async_def Let_def w1_def [symmetric])
qed

lemma coll_frame_feature_set:
  assumes "async_inv (msg_unit m) w" "length (timers (kernel w)) < timer_limit (kernel w)"
    "0 \<le> collectionInterval (feature_spec (req_config m) (get_config (msg_unit m) w))"
  shows "coll_frame (msg_unit m) w (snd (bst_config_feature_set ps m w))"
proof -
  let ?i = "msg_unit m"
  have ok: "coll_ok ?i w" using assms(1) unfolding async_inv_def by blast
  then have v: "unit_valid w ?i" by (simp add: coll_wf_def)
  define p where "p = feature_update_pre (req_config m) (get_config ?i w)"
  define w0 where "w0 = put_config ?i (fst p) w"
  have w0: "coll_ok ?i w0" "kernel w0 = kernel w" "get_config ?i w0 = fst p"
    using coll_ok_put_config [OF ok] v by (simp_all add: w0_def)
  have "0 \<le> collectionInterval (get_config ?i w0)"
    using assms(3) unfolding w0(3) by (simp add: p_def feature_update_pre_eq)
  then have a: "coll_frame ?i w (feature_async ?i (req_config m) (snd p) w0)"
    using coll_frame_trans [OF coll_frame_put_config [OF v, of "fst p", folded w0_def] coll_frame_async [OF w0(1)]]
      w0(2) assms(2)
    by simp
  have va: "unit_valid (feature_async ?i (req_config m) (snd p) w0) ?i"
    using feature_async_reads(2) [of w0 ?i] w0(1) by (simp add: coll_wf_def)
  have s: "coll_frame ?i w (feature_stored m w)"
    using coll_frame_trans [OF a coll_frame_put_config [OF va]]
    by (simp add: feature_stored_def Let_def p_def w0_def)
  have vs: "unit_valid (feature_stored m w) ?i" using feature_stored_reads(2) [OF v] .
  define Q where "Q w' = (coll_frame ?i w w' \<and> unit_valid w' ?i)" for w'
  have hw: "Q w2 \<Longrightarrow> hw_call f w2 = (rv, out, w3) \<Longrightarrow> Q w3"
    for f :: "('a, 'c) sb_op" and w2 w3 rv out
    using coll_frame_trans [OF _ coll_frame_hw_call [of ?i w2 f]] hw_call_unit(2) [of f w2 ?i]
    by (simp add: Q_def)
  have hw': "Q w2 \<Longrightarrow> hw_call f w2 = (rv, out, w3) \<Longrightarrow> Q w3"
    for f :: "('a, unit) sb_op" and w2 w3 rv out
    using coll_frame_trans [OF _ coll_frame_hw_call [of ?i w2 f]] hw_call_unit(2) [of f w2 ?i]
    by (simp add: Q_def)
  have put: "Q w2 \<Longrightarrow> Q (put_config ?i c w2)" for w2 c
    using coll_frame_trans [OF _ coll_frame_put_config [of w2 ?i c]] by (simp add: Q_def)
  have "Q (feature_stored m w)" using s vs by (simp add: Q_def)
  then have "Q (snd (bst_config_feature_set ps m w))"
    unfolding bst_config_feature_set_eq
    by (auto simp: Let_def split: prod.splits intro!: put dest: hw hw')
  then show ?thesis by (simp add: Q_def)
qed

lemma trig_ok_coll_frame:
  assumes "coll_frame i w w'" "trig_ok i w"
  shows "trig_ok i w'"
proof -
  have g: "bst_trigger_timer (unit_get w' i) = bst_trigger_timer (unit_get w i)"
    "unit_valid w' i = unit_valid w i"
    using assms(1) unfolding coll_frame_def unit_frame_def unit_valid_def by auto
  have "slot_ok bst_trigger_timer_cb i b k (kernel w')" if "slot_ok bst_trigger_timer_cb i b k (kernel w)" for b k
    using assms(1) that unfolding coll_frame_def unit_frame_def foreign_kept_def by blast
  then show ?thesis using assms(2) unfolding trig_wf_def trig_flag_def trig_id_def g by blast
qed

lemma feature_spec_intervals:
  "0 \<le> collectionInterval req \<Longrightarrow> 0 \<le> collectionInterval c \<Longrightarrow> 0 \<le> collectionInterval (feature_spec req c)"
  "0 \<le> triggerTransmitInterval req \<Longrightarrow> 0 \<le> triggerTransmitInterval c \<Longrightarrow>
     0 \<le> triggerTransmitInterval (feature_spec req c)"
  by (simp_all add: feature_spec_def)

lemma timers_inv_feature_set:
  assumes "timers_inv n w" "0 \<le> msg_unit m" "msg_unit m < int n" "request_ok m"
  shows "timers_inv n (snd (bst_config_feature_set ps m w))"
proof -
  let ?i = "msg_unit m" and ?w' = "snd (bst_config_feature_set ps m w)"
  have u: "unit_timers_ok ?i w" "unit_valid w ?i" using timers_inv_unit assms(1-3) by blast+
  have c: "0 \<le> collectionInterval (feature_spec (req_config m) (get_config ?i w))"
    "0 \<le> triggerTransmitInterval (feature_spec (req_config m) (get_config ?i w))"
    using u(1) assms(4) feature_spec_intervals by (simp_all add: unit_timers_ok_def request_ok_def)
  have a: "async_inv ?i w" "trig_ok ?i w" using u(1) unfolding unit_timers_ok_def by blast+
  note cap = timers_inv_capacity [OF assms(1)]
  note f = coll_frame_feature_set [OF a(1) cap c(1), of ps]
  have "0 \<le> collectionInterval (get_config ?i ?w') \<and> 0 \<le> triggerTransmitInterval (get_config ?i ?w')"
    using feature_set_config [OF u(2) prod.collapse [symmetric], of ps] c by (simp add: Let_def)
  then have "unit_timers_ok ?i ?w'"
    using feature_set_async_inv [OF a(1) cap c(1), of ps] trig_ok_coll_frame [OF f a(2)]
    unfolding unit_timers_ok_def by blast
  moreover have "unit_frame bst_periodic_collection_cb ?i w ?w'" using f by (simp add: coll_frame_def)
  ultimately show ?thesis
    using timers_inv_frame [OF assms(1) _ assms(2,3)] assms(2,3) by (simp add: timer_keys_def)
qed

text \<open>The trigger timer.\<close>

definition trig_frame :: "int \<Rightarrow> 'hw bst_world \<Rightarrow> 'hw bst_world \<Rightarrow> bool" where
  "trig_frame i w w' = (unit_frame bst_trigger_timer_cb i w w'
     \<and> bst_collection_timer (unit_get w' i) = bst_collection_timer (unit_get w i)
     \<and> get_config i w' = get_config i w)"

lemma trig_frame_refl: "trig_frame i w w"
  by (simp add: trig_frame_def unit_frame_refl)

lemma trig_frame_set_timer:
  "unit_valid w i \<Longrightarrow> foreign_kept bst_trigger_timer_cb i (kernel w) k \<Longrightarrow>
   trig_frame i w (unit_set i ((unit_get w i)\<lparr>bst_trigger_timer := t\<rparr>) (w\<lparr>kernel := k\<rparr>))"
  by (simp add: trig_frame_def unit_frame_def unit_valid_def get_config_def)

lemma trig_frame_delete:
  assumes "trig_ok i w"
  shows "trig_frame i w (snd (bst_trigger_timer_delete i w))"
proof (cases "trig_flag i w")
  case True
  then have s: "slot_ok bst_trigger_timer_cb i True (trig_id i w) (kernel w)" using assms by simp
  have v: "unit_valid w i" using assms by (simp add: trig_wf_def)
  show ?thesis
    using True trig_frame_set_timer [OF v foreign_kept_delete [OF s]] slot_delete(1) [OF s]
    by (simp add: bst_trigger_timer_delete_def trig_flag_def trig_id_def Let_def)
next
  case False
  then show ?thesis by (simp add: bst_trigger_timer_delete_def trig_flag_def Let_def trig_frame_refl)
qed

lemma trig_frame_add:
  assumes "trig_ok i w" "length (timers (kernel w)) < timer_limit (kernel w)" "0 \<le> trig_period i w"
  shows "trig_frame i w (snd (bst_trigger_timer_add i w))"
proof (cases "trig_flag i w")
  case True
  then show ?thesis by (simp add: bst_trigger_timer_add_def trig_flag_def Let_def trig_frame_refl)
next
  case False
  have v: "unit_valid w i" "timer_unit (bst_trigger_timer (unit_get w i)) = i"
    using assms(1) by (simp_all add: trig_wf_def)
  have s: "slot_ok bst_trigger_timer_cb i False (trig_id i w) (kernel w)" using assms(1) False by simp
  have "\<exists>t. snd (bst_trigger_timer_add i w) = unit_set i ((unit_get w i)\<lparr>bst_trigger_timer := t\<rparr>)
      (w\<lparr>kernel := snd (snd (system_timer_add bst_trigger_timer_cb (trig_period i w) PERIODIC_MODE i (kernel w)))\<rparr>)"
    using False v(2)
    by (simp add: bst_trigger_timer_add_def trig_flag_def trig_period_def get_config_def Let_def split_beta) blast
  then show ?thesis
    using trig_frame_set_timer [OF v(1) foreign_kept_add [OF s assms(2,3), of PERIODIC_MODE]] by auto
qed

lemma timers_inv_trig_frame:
  assumes "timers_inv n w" "trig_frame i w w'" "0 \<le> i" "i < int n" "trig_ok i w'"
  shows "timers_inv n w'"
proof -
  have f: "unit_frame bst_trigger_timer_cb i w w'" using assms(2) by (simp add: trig_frame_def)
  have g: "bst_collection_timer (unit_get w' i) = bst_collection_timer (unit_get w i)"
    "get_config i w' = get_config i w" "unit_valid w' i = unit_valid w i"
    using assms(2) unfolding trig_frame_def unit_frame_def unit_valid_def by auto
  have u: "unit_timers_ok i w" using timers_inv_unit [OF assms(1,3,4)] by blast
  have "slot_ok bst_periodic_collection_cb i b k (kernel w')"
    if "slot_ok bst_periodic_collection_cb i b k (kernel w)" for b k
    using f that unfolding unit_frame_def foreign_kept_def by blast
  then have "unit_timers_ok i w'"
    using u assms(5) unfolding unit_timers_ok_def async_inv_def coll_wf_def coll_flag_def coll_id_def g
    by blast
  then show ?thesis
    using timers_inv_frame [OF assms(1) f assms(3,4)] assms(3,4) by (simp add: timer_keys_def)
qed

lemma timers_inv_trig_add:
  assumes "timers_inv n w" "0 \<le> i" "i < int n"
  shows "timers_inv n (snd (bst_trigger_timer_add i w))"
proof -
  have u: "trig_ok i w" "0 \<le> trig_period i w"
    using timers_inv_unit [OF assms] unfolding unit_timers_ok_def
    by (simp_all add: trig_period_def BVIEW_BST_TIME_CONVERSION_FACTOR_def)
  note cap = timers_inv_capacity [OF assms(1)]
  have "trig_ok i (snd (bst_trigger_timer_add i w))"
    using trig_start [OF u(1) cap u(2) prod.collapse [symmetric]] by blast
  then show ?thesis using timers_inv_trig_frame [OF assms(1) trig_frame_add [OF u(1) cap u(2)] assms(2,3)] by blast
qed

lemma timers_inv_trig_delete:
  assumes "timers_inv n w" "0 \<le> i" "i < int n"
  shows "timers_inv n (snd (bst_trigger_timer_delete i w))"
proof -
  have u: "trig_ok i w" using timers_inv_unit [OF assms] unfolding unit_timers_ok_def by blast
  have "trig_ok i (snd (bst_trigger_timer_delete i w))"
    using trig_stop [OF u prod.collapse [symmetric]] by blast
  then show ?thesis using timers_inv_trig_frame [OF assms(1) trig_frame_delete [OF u] assms(2,3)] by blast
qed

lemma timers_inv_process_trigger:
  assumes "timers_inv n w" "0 \<le> msg_unit m" "msg_unit m < int n"
  shows "timers_inv n (snd (bst_process_trigger m w))"
proof -
  have v: "unit_valid w (msg_unit m)" using timers_inv_unit [OF assms] by blast
  have c: "timers_inv n w1 \<Longrightarrow> timers_inv n (count_trigger (msg_unit m) j w1)"
    for w1 :: "'a bst_world" and j
    using timers_inv_same [of w1 "count_trigger (msg_unit m) j w1" n] by (simp add: same_timers_refl)
  have q: "timers_inv n (w\<lparr>bst_msgq := q\<rparr>)" for q
    using timers_inv_same [OF _ assms(1), of "w\<lparr>bst_msgq := q\<rparr>"] by (simp add: same_timers_refl)
  from v show ?thesis
  proof (cases rule: process_trigger_cases)
    case (count j)
    then show ?thesis using c [OF assms(1)] by simp
  next
    case full
    then show ?thesis using assms(1) by simp
  next
    case (report j)
    then show ?thesis
      using c timers_inv_trig_add [OF q assms(2,3)] q by (simp add: trigger_sent_def Let_def)
  qed
qed

lemma timers_inv_clear_count:
  assumes "timers_inv n w" "0 \<le> msg_unit m" "msg_unit m < int n"
  shows "timers_inv n (snd (bst_clear_trigger_count m w))"
proof -
  let ?i = "msg_unit m"
  define w1 where "w1 = unit_set ?i ((unit_get w ?i)\<lparr>bst_trigger_count := replicate BST_ID_MAX 0\<rparr>) w"
  define w2 where "w2 = (if \<forall>c\<in>set (bst_trigger_count (unit_get w ?i)). c = 0
    then snd (bst_trigger_timer_delete ?i w1) else w1)"
  have i1: "timers_inv n w1"
    using timers_inv_same [OF _ assms(1), of w1]
    by (simp add: w1_def same_timers_unit_set timer_view_def same_timers_refl)
  have "timers_inv n w2" using i1 timers_inv_trig_delete [OF i1 assms(2,3)] by (simp add: w2_def)
  moreover have "same_timers w2 (snd (bst_clear_trigger_count m w))"
    by (simp add: bst_clear_trigger_count_def Let_def w1_def [symmetric] split_beta)
       (simp add: w2_def same_timers_refl)
  ultimately show ?thesis using timers_inv_same by blast
qed

lemma timers_inv_run_handler:
  assumes "timers_inv n w" "0 \<le> msg_unit m" "msg_unit m < int n" "request_ok m"
  shows "timers_inv n (snd (snd (run_handler h ps m w)))"
proof -
  note q = timers_inv_same [OF _ assms(1)]
  have e: "same_timers w (snd (bst_enable_on_trigger_timer_expiry ps m w))"
    by (simp add: bst_enable_on_trigger_timer_expiry_def same_timers_refl)
  show ?thesis
    using timers_inv_feature_set [OF assms] timers_inv_process_trigger [OF assms(1-3)]
      timers_inv_clear_count [OF assms(1-3)] assms(1) quiet_handlers [THEN q] e [THEN q]
    by (cases h) (simp_all add: keep_msg_def bst_config_feature_get_def bst_config_track_get_def)
qed

section \<open>The queues\<close>

lemma request_ok_zero: "request_ok (zero_msg c i)" "request_ok (trigger_report_msg m)"
  "request_ok ((zero_msg c i)\<lparr>msg_report_type := t\<rparr>)" "request_ok ((zero_msg c i)\<lparr>msg_triggerInfo := f\<rparr>)"
  by (simp_all add: request_ok_def zero_msg_def trigger_report_msg_def req_config_def zero_config_params_def)

definition same_queues :: "'hw bst_world \<Rightarrow> 'hw bst_world \<Rightarrow> bool" where
  "same_queues w w' = (bst_msgq w' = bst_msgq w \<and> bst_trigger_msgq w' = bst_trigger_msgq w
     \<and> msgq_limit w' = msgq_limit w)"

text \<open>A handler appends at most well-formed messages to the application's queue.\<close>

definition queues_grow :: "'hw bst_world \<Rightarrow> 'hw bst_world \<Rightarrow> bool" where
  "queues_grow w w' = ((\<exists>ms. bst_msgq w' = bst_msgq w @ ms \<and> (\<forall>m\<in>set ms. request_ok m))
     \<and> bst_trigger_msgq w' = bst_trigger_msgq w \<and> msgq_limit w' = msgq_limit w
     \<and> (length (bst_msgq w') \<le> max (length (bst_msgq w)) (msgq_limit w)))"

lemma queues_grow_refl: "queues_grow w w"
  by (simp add: queues_grow_def)

lemma queues_ok_grow: "queues_grow w w' \<Longrightarrow> queues_ok w \<Longrightarrow> queues_ok w'"
  by (auto simp: queues_grow_def queues_ok_def)

lemma queues_grow_send: "request_ok m \<Longrightarrow> queues_grow w w' \<Longrightarrow> queues_grow w (snd (bst_send_request m w'))"
  by (auto simp: queues_grow_def bst_send_request_def)

lemma queues_grow_ops [simp]:
  "queues_grow w (snd (bst_periodic_collection_timer_delete i w')) = queues_grow w w'"
  "queues_grow w (snd (bst_periodic_collection_timer_add i w')) = queues_grow w w'"
  "queues_grow w (snd (bst_trigger_timer_add i w')) = queues_grow w w'"
  "queues_grow w (snd (bst_trigger_timer_delete i w')) = queues_grow w w'"
  "queues_grow w (snd (snd (hw_call f w'))) = queues_grow w w'"
  "queues_grow w (put_config i c w') = queues_grow w w'"
  "queues_grow w (write_record i p r w') = queues_grow w w'"
  "queues_grow w (count_trigger i p w') = queues_grow w w'"
  "queues_grow w (unit_set i u w') = queues_grow w w'"
  by (simp_all add: queues_grow_def bst_periodic_collection_timer_delete_def
      bst_periodic_collection_timer_add_def bst_trigger_timer_add_def bst_trigger_timer_delete_def
      hw_call_def put_config_def write_record_def count_trigger_def Let_def split_beta)

lemma queues_grow_run_handler: "queues_grow w (snd (snd (run_handler h ps m w)))"
  by (cases h)
     (simp_all add: keep_msg_def bst_config_feature_set_eq feature_stored_def feature_async_def
       bst_config_track_set_def bst_update_config_set_def bst_config_threshold_set_def
       threshold_dispatch_def bst_clear_threshold_set_def bst_clear_stats_set_def bst_get_report_def
       collect_snapshot_def collect_max_buffers_def collect_thresholds_def bst_enable_on_trigger_def
       bst_process_trigger_def bst_clear_trigger_count_def bst_enable_on_trigger_timer_expiry_def
       bst_config_feature_get_def bst_config_track_get_def Let_def split_beta queues_grow_refl
       queues_grow_send request_ok_zero split: option.splits)

lemma queues_reply: "bst_msgq (bst_copy_reply_params m rv w) = bst_msgq w"
  "bst_trigger_msgq (bst_copy_reply_params m rv w) = bst_trigger_msgq w"
  "msgq_limit (bst_copy_reply_params m rv w) = msgq_limit w"
  by (simp_all add: bst_copy_reply_params_def Let_def bst_update_data_def)

lemma queues_grow_app_handle: "queues_grow w (app_handle ps n m w)"
  using queues_grow_run_handler [of w _ ps m]
  by (auto simp: app_handle_def split_beta queues_grow_refl queues_reply queues_grow_def split: sum.splits)

lemma queues_grow_trigger_handle: "queues_grow w (trigger_handle ps n m w)"
  using queues_grow_run_handler [of w _ ps m]
  by (auto simp: trigger_handle_def split_beta queues_grow_refl split: sum.splits)

section \<open>The steps keep the invariant\<close>

lemma timers_inv_app_handle:
  assumes "timers_inv n w" "request_ok m"
  shows "timers_inv n (app_handle ps n m w)"
proof -
  have h: "timers_inv n (snd (snd (run_handler h ps m w)))" if "0 \<le> msg_unit m" "msg_unit m < int n" for h
    using timers_inv_run_handler [OF assms(1) that assms(2)] .
  have r: "timers_inv n w1 \<Longrightarrow> timers_inv n (bst_copy_reply_params m1 rv w1)"
    for m1 rv and w1 :: "'a bst_world"
    using timers_inv_same [OF timers_reply] .
  have s: "timers_inv n (w\<lparr>sent_responses := x\<rparr>)" for x
    using timers_inv_same [OF _ assms(1), of "w\<lparr>sent_responses := x\<rparr>"] by (simp add: same_timers_refl)
  show ?thesis
    using assms(1) h r s by (auto simp: app_handle_def split_beta split: sum.splits)
qed

lemma timers_inv_trigger_handle:
  assumes "timers_inv n w" "request_ok m"
  shows "timers_inv n (trigger_handle ps n m w)"
  using assms timers_inv_run_handler [OF assms(1) _ _ assms(2), of _ ps]
  by (auto simp: trigger_handle_def split_beta split: sum.splits)

lemma sys_inv_fields:
  "sys_inv n w \<Longrightarrow> sys_inv n (w\<lparr>sent_responses := r\<rparr>)"
  "sys_inv n w \<Longrightarrow> sys_inv n (w\<lparr>sb_hw := h\<rparr>)"
  "sys_inv n w \<Longrightarrow> set q \<subseteq> set (bst_msgq w) \<union> {m. request_ok m} \<Longrightarrow> sys_inv n (w\<lparr>bst_msgq := q\<rparr>)"
  "sys_inv n w \<Longrightarrow> set q \<subseteq> set (bst_trigger_msgq w) \<union> {m. request_ok m} \<Longrightarrow>
     sys_inv n (w\<lparr>bst_trigger_msgq := q\<rparr>)"
  using timers_inv_same [of w "w\<lparr>sent_responses := r\<rparr>" n] timers_inv_same [of w "w\<lparr>sb_hw := h\<rparr>" n]
    timers_inv_same [of w "w\<lparr>bst_msgq := q\<rparr>" n]
    timers_inv_same [of w "w\<lparr>bst_trigger_msgq := q\<rparr>" n]
  by (auto simp: sys_inv_def queues_ok_def records_ok_def same_timers_refl)

lemma sys_inv_send: "sys_inv n w \<Longrightarrow> request_ok m \<Longrightarrow> sys_inv n (snd (bst_send_request m w))"
  using sys_inv_fields(3) [of n w "bst_msgq w @ [m]"] by (auto simp: bst_send_request_def)

lemma sys_inv_trigger_send: "sys_inv n w \<Longrightarrow> request_ok m \<Longrightarrow> sys_inv n (snd (bst_trigger_send_request m w))"
  using sys_inv_fields(4) [of n w "bst_trigger_msgq w @ [m]"] by (auto simp: bst_trigger_send_request_def)

lemma sys_inv_app_step:
  assumes "sys_inv n w"
  shows "sys_inv n (bst_app_step ps n w)"
proof (cases "bst_msgq w")
  case (Cons m q)
  have i: "sys_inv n (w\<lparr>bst_msgq := q\<rparr>)" using sys_inv_fields(3) [OF assms, of q] Cons by auto
  have m: "request_ok m" using assms Cons by (simp add: sys_inv_def queues_ok_def)
  show ?thesis
    using i timers_inv_app_handle [OF _ m] queues_ok_grow [OF queues_grow_app_handle] records_ok_app_handle Cons
    by (auto simp: sys_inv_def bst_app_step_def)
qed (use assms in \<open>simp add: bst_app_step_def\<close>)

lemma sys_inv_trigger_step:
  assumes "sys_inv n w"
  shows "sys_inv n (bst_trigger_step ps n w)"
proof (cases "bst_trigger_msgq w")
  case (Cons m q)
  have i: "sys_inv n (w\<lparr>bst_trigger_msgq := q\<rparr>)" using sys_inv_fields(4) [OF assms, of q] Cons by auto
  have m: "request_ok m" using assms Cons by (simp add: sys_inv_def queues_ok_def)
  show ?thesis
    using i timers_inv_trigger_handle [OF _ m] queues_ok_grow [OF queues_grow_trigger_handle]
      records_ok_trigger_handle Cons
    by (auto simp: sys_inv_def bst_trigger_step_def)
qed (use assms in \<open>simp add: bst_trigger_step_def\<close>)

lemma sys_inv_step: "bst_step ps n w w' \<Longrightarrow> sys_inv n w \<Longrightarrow> sys_inv n w'"
proof (induction rule: bst_step.induct)
  case (request m w)
  then show ?case using sys_inv_send by blast
qed (simp_all add: sys_inv_app_step sys_inv_trigger_step sys_inv_fields(1,2) sys_inv_send
    sys_inv_trigger_send request_ok_zero bst_periodic_collection_cb_run_def
    bst_trigger_timer_cb_run_def bst_trigger_cb_def bst_plugin_cb_def)

lemma sys_inv_reach: "bst_reach ps n w0 w \<Longrightarrow> sys_inv n w0 \<Longrightarrow> sys_inv n w"
  by (induction rule: bst_reach.induct) (auto intro: sys_inv_step)

text \<open>What the invariant says of a unit.\<close>

lemma sys_inv_collection:
  assumes "sys_inv n w" "0 \<le> i" "i < int n"
  shows "length (owned bst_periodic_collection_cb i (kernel w))
      = (if sendAsyncReports (get_config i w) = 1 then 1 else 0)"
proof -
  have "async_inv i w" using assms timers_inv_unit by (auto simp: sys_inv_def unit_timers_ok_def)
  then have "slot_ok bst_periodic_collection_cb i (coll_flag i w) (coll_id i w) (kernel w)"
    "coll_flag i w \<longleftrightarrow> sendAsyncReports (get_config i w) = 1"
    unfolding async_inv_def by blast+
  then show ?thesis by (simp add: slot_ok_def)
qed

lemma sys_inv_trigger_timer:
  assumes "sys_inv n w" "0 \<le> i" "i < int n"
  shows "length (owned bst_trigger_timer_cb i (kernel w)) \<le> 1"
proof -
  have "trig_ok i w" using assms timers_inv_unit [of n w i] unfolding sys_inv_def unit_timers_ok_def by blast
  then show ?thesis by (simp add: slot_ok_def)
qed

lemma sys_inv_bound: "sys_inv n w \<Longrightarrow> length (timers (kernel w)) \<le> 2 * n"
  using timers_inv_length [of n w] by (simp add: sys_inv_def)

section \<open>The start\<close>

text \<open>Asynchronous reports are off by default, so initialising a unit starts no timer.\<close>

lemma config_init_reads:
  assumes "unit_valid w i" "bst_unit_config_init ps i w = (rv, w')"
  shows "kernel w' = kernel w" "length (bst_units w') = length (bst_units w)"
    "\<And>j. 0 \<le> j \<Longrightarrow> j \<noteq> i \<Longrightarrow> unit_get w' j = unit_get w j"
    "timer_unit (bst_collection_timer (unit_get w' i)) = i \<and> \<not> timer_in_use (bst_collection_timer (unit_get w' i))"
    "timer_unit (bst_trigger_timer (unit_get w' i)) = i \<and> \<not> timer_in_use (bst_trigger_timer (unit_get w' i))"
    "sendAsyncReports (get_config i w') = 0 \<and> collectionInterval (get_config i w') = BVIEW_BST_DEFAULT_INTERVAL
      \<and> triggerTransmitInterval (get_config i w') = 1"
    "same_ptrs w w'"
    "bst_msgq w' = bst_msgq w" "bst_trigger_msgq w' = bst_trigger_msgq w"
proof -
  have i: "0 \<le> i" using assms(1) by (simp add: unit_valid_def)
  obtain cfg track h where w': "w' = unit_set i ((unit_get w i)\<lparr>bst_config_ptr := cfg, bst_track_ptr := track,
      bst_collection_timer := (bst_collection_timer (unit_get w i))\<lparr>timer_unit := i, timer_in_use := False\<rparr>,
      bst_trigger_timer := (bst_trigger_timer (unit_get w i))\<lparr>timer_unit := i, timer_in_use := False\<rparr>\<rparr>)
      (w\<lparr>sb_hw := h\<rparr>)"
    and cfg: "sendAsyncReports cfg = 0 \<and> collectionInterval cfg = BVIEW_BST_DEFAULT_INTERVAL
      \<and> triggerTransmitInterval cfg = 1"
  proof -
    have hw: "hw_call f w1 = (rv1, out, w2) \<Longrightarrow> \<exists>h. w2 = w1\<lparr>sb_hw := h\<rparr>"
      for f :: "('a, 'c) sb_op" and w1 w2 rv1 out by (auto simp: hw_call_def split: prod.splits)
    have hw': "hw_call f w1 = (rv1, out, w2) \<Longrightarrow> \<exists>h. w2 = w1\<lparr>sb_hw := h\<rparr>"
      for f :: "('a, unit) sb_op" and w1 w2 rv1 out by (auto simp: hw_call_def split: prod.splits)
    have e: "(unit_set i u (w\<lparr>sb_hw := h\<rparr>))\<lparr>sb_hw := h'\<rparr> = unit_set i u (w\<lparr>sb_hw := h'\<rparr>)" for u h h'
      by (simp add: unit_set_def)
    show ?thesis
      using assms(2) that
      by (auto simp: bst_unit_config_init_def Let_def default_config_def e split: prod.splits if_splits
          dest!: hw hw')
  qed
  show "kernel w' = kernel w" "length (bst_units w') = length (bst_units w)"
    "\<And>j. 0 \<le> j \<Longrightarrow> j \<noteq> i \<Longrightarrow> unit_get w' j = unit_get w j"
    "timer_unit (bst_collection_timer (unit_get w' i)) = i \<and> \<not> timer_in_use (bst_collection_timer (unit_get w' i))"
    "timer_unit (bst_trigger_timer (unit_get w' i)) = i \<and> \<not> timer_in_use (bst_trigger_timer (unit_get w' i))"
    "sendAsyncReports (get_config i w') = 0 \<and> collectionInterval (get_config i w') = BVIEW_BST_DEFAULT_INTERVAL
      \<and> triggerTransmitInterval (get_config i w') = 1"
    "bst_msgq w' = bst_msgq w" "bst_trigger_msgq w' = bst_trigger_msgq w"
    using assms(1) cfg i by (simp_all add: w' get_config_def)
  show "same_ptrs w w'"
    unfolding w' by (subst same_ptrs_unit_set) (simp_all add: record_ptrs_def same_ptrs_refl)
qed

definition unit_started :: "int \<Rightarrow> 'hw bst_world \<Rightarrow> bool" where
  "unit_started i w =
     (timer_unit (bst_collection_timer (unit_get w i)) = i \<and> \<not> timer_in_use (bst_collection_timer (unit_get w i))
    \<and> timer_unit (bst_trigger_timer (unit_get w i)) = i \<and> \<not> timer_in_use (bst_trigger_timer (unit_get w i))
    \<and> sendAsyncReports (get_config i w) = 0 \<and> 0 \<le> collectionInterval (get_config i w)
    \<and> 0 \<le> triggerTransmitInterval (get_config i w))"

lemma config_init_units_reads:
  "config_init_units ps is w = (BVIEW_STATUS_SUCCESS, w') \<Longrightarrow> \<forall>i\<in>set is. unit_valid w i \<Longrightarrow> distinct is \<Longrightarrow>
   kernel w' = kernel w \<and> length (bst_units w') = length (bst_units w)
   \<and> (\<forall>j. 0 \<le> j \<longrightarrow> j \<notin> set is \<longrightarrow> unit_get w' j = unit_get w j)
   \<and> (\<forall>i\<in>set is. unit_started i w') \<and> same_ptrs w w'"
proof (induction "is" arbitrary: w)
  case Nil
  then show ?case by (simp add: same_ptrs_refl)
next
  case (Cons i js)
  obtain rv w1 where s: "bst_unit_config_init ps i w = (rv, w1)" by (cases "bst_unit_config_init ps i w")
  then have rv: "rv = BVIEW_STATUS_SUCCESS" "config_init_units ps js w1 = (BVIEW_STATUS_SUCCESS, w')"
    using Cons.prems(1) by (auto split: if_splits)
  have v: "unit_valid w i" "0 \<le> i" using Cons.prems(2) by (simp_all add: unit_valid_def)
  note r = config_init_reads [OF v(1) s]
  have "\<forall>j\<in>set js. unit_valid w1 j" using Cons.prems(2) r(2) by (simp add: unit_valid_def)
  note ih = Cons.IH [OF rv(2) this] Cons.prems(3)
  have "unit_started i w1" using r(4-6) by (simp add: unit_started_def BVIEW_BST_DEFAULT_INTERVAL_def)
  moreover have "unit_get w' i = unit_get w1 i" using ih v(2) by simp
  ultimately have "unit_started i w'" by (simp add: unit_started_def get_config_def)
  then show ?case using ih r(1-3) same_ptrs_trans [OF r(7)] by auto
qed

lemma started_timers_ok:
  assumes "unit_started i w" "unit_valid w i" "timers (kernel w) = []"
  shows "unit_timers_ok i w"
proof -
  have "timers_ok (kernel w)" "owned h p (kernel w) = []" for h p
    using assms(3) by (simp_all add: timers_ok_def owned_def)
  then have s: "slot_ok h i False j (kernel w)" for h j by (simp add: slot_ok_def)
  have f: "coll_flag i w = False" "trig_flag i w = False"
    using assms(1) by (simp_all add: unit_started_def coll_flag_def trig_flag_def)
  show ?thesis
    using assms(1,2) s unfolding unit_timers_ok_def async_inv_def f coll_wf_def trig_wf_def unit_started_def
    by auto
qed

lemma bst_main_started:
  assumes "bst_main ps alloc_ok w = (BVIEW_STATUS_SUCCESS, w')" "sbapi_system_num_units_get ps = Inr n"
    "timers (kernel w) = []" "2 * n < timer_limit (kernel w)"
  shows "sys_inv n w'"
proof -
  let ?w0 = "w\<lparr>bst_units := replicate n allocated_unit\<rparr>"
  obtain w1 where i: "bst_app_config_init ps n ?w0 = (BVIEW_STATUS_SUCCESS, w1)"
    and w': "w' = w1\<lparr>bst_msgq := [], bst_trigger_msgq := []\<rparr>"
    using assms(1,2) by (auto simp: bst_main_def split: if_splits prod.splits)
  have c: "config_init_units ps (map int [0..<n]) ?w0 = (BVIEW_STATUS_SUCCESS, w1)"
    using i by (simp add: bst_app_config_init_def split: if_splits)
  have "\<forall>i\<in>set (map int [0..<n]). unit_valid ?w0 i" by (auto simp: unit_valid_def)
  note r = config_init_units_reads [OF c this]
  have d: "distinct (map int [0..<n])" by (simp add: distinct_map)
  have k: "kernel w1 = kernel w" "length (bst_units w1) = n" "same_ptrs ?w0 w1"
    and st: "\<And>i. 0 \<le> i \<Longrightarrow> i < int n \<Longrightarrow> unit_started i w1"
    using r d by auto (metis atLeast0LessThan image_eqI lessThan_iff nonneg_int_cases of_nat_less_iff)
  have "unit_timers_ok i w1" if "0 \<le> i" "i < int n" for i
    using started_timers_ok [OF st [OF that]] that k assms(3) by (simp add: unit_valid_def)
  then have t: "timers_inv n w1" using k assms(3,4) by (simp add: timers_inv_def)
  have "records_ok ?w0" by (simp add: records_ok_def record_ptrs_def allocated_unit_def)
  then have "records_ok w1" using records_ok_same k(3) by blast
  moreover have "same_timers w1 w'" by (simp add: w' same_timers_refl)
  then have "timers_inv n w'" using timers_inv_same t by blast
  ultimately show ?thesis by (auto simp: sys_inv_def queues_ok_def records_ok_def w')
qed

lemma sys_inv_same:
  assumes "sys_inv n w" "same_timers w w'" "same_ptrs w w'" "bst_msgq w' = bst_msgq w"
    "bst_trigger_msgq w' = bst_trigger_msgq w"
  shows "sys_inv n w'"
  using assms timers_inv_same [OF assms(2)] records_ok_same [OF assms(3)]
  by (simp add: sys_inv_def queues_ok_def)

lemma sys_inv_start_units:
  "sys_inv n w \<Longrightarrow> app_start_units ps is w = (rv, w') \<Longrightarrow> sys_inv n w'"
proof (induction "is" arbitrary: w)
  case (Cons i js)
  define w1 where "w1 = snd (snd (hw_call (sbapi_bst_register_trigger ps (int i) BST_TRIGGER_CALLBACK i) w))"
  have w1: "sys_inv n w1"
    using sys_inv_same [OF Cons.prems(1), of w1]
    by (simp add: w1_def same_timers_refl same_ptrs_refl) (simp add: hw_call_def split_beta)
  have "sys_inv n (unit_set (int i) ((unit_get w1 (int i))\<lparr>unit_capabilities := c\<rparr>) w1)" for c
    using sys_inv_same [OF w1]
    by (simp add: same_timers_unit_set timer_view_def same_ptrs_unit_set record_ptrs_def
        same_timers_refl same_ptrs_refl)
  then show ?case
    using Cons.IH Cons.prems(2) w1
    by (auto simp: split_beta w1_def [symmetric] split: if_splits sum.splits)
qed simp

lemma sys_inv_app_start:
  "sys_inv n w \<Longrightarrow> bst_app_start ps t w = (rv, t', w') \<Longrightarrow> sys_inv n w'"
  using sys_inv_start_units [of n w ps]
  by (auto simp: bst_app_start_def split: prod.splits if_splits sum.splits)

section \<open>Every queued request is handled in its turn\<close>

definition app_turns :: "'hw plugin_entry list \<Rightarrow> nat \<Rightarrow> nat \<Rightarrow> 'hw bst_world \<Rightarrow> 'hw bst_world" where
  "app_turns ps n k = (bst_app_step ps n ^^ k)"

lemma app_turns_simps [simp]:
  "app_turns ps n 0 w = w" "app_turns ps n (Suc k) w = bst_app_step ps n (app_turns ps n k w)"
  by (simp_all add: app_turns_def)

lemma app_turns_queue:
  "k \<le> length (bst_msgq w) \<Longrightarrow> \<exists>ms. bst_msgq (app_turns ps n k w) = drop k (bst_msgq w) @ ms"
proof (induction k)
  case (Suc k)
  then obtain ms where ms: "bst_msgq (app_turns ps n k w) = drop k (bst_msgq w) @ ms" by auto
  define v where "v = app_turns ps n k w"
  have d: "drop k (bst_msgq w) = bst_msgq w ! k # drop (Suc k) (bst_msgq w)"
    using Suc.prems by (simp add: Cons_nth_drop_Suc)
  then have q: "bst_msgq v = bst_msgq w ! k # drop (Suc k) (bst_msgq w) @ ms" using ms by (simp add: v_def)
  have "bst_app_step ps n v = app_handle ps n (bst_msgq w ! k) (v\<lparr>bst_msgq := drop (Suc k) (bst_msgq w) @ ms\<rparr>)"
    by (simp add: bst_app_step_def q)
  then have "queues_grow (v\<lparr>bst_msgq := drop (Suc k) (bst_msgq w) @ ms\<rparr>) (bst_app_step ps n v)"
    using queues_grow_app_handle by metis
  then show ?case by (auto simp: queues_grow_def v_def)
qed simp

lemma app_turn_handles:
  assumes "k < length (bst_msgq w)" "v = app_turns ps n k w"
  shows "app_turns ps n (Suc k) w = app_handle ps n (bst_msgq w ! k) (v\<lparr>bst_msgq := tl (bst_msgq v)\<rparr>)"
proof -
  obtain ms where "bst_msgq v = drop k (bst_msgq w) @ ms"
    using app_turns_queue [of k w] assms by auto
  then have "bst_msgq v = bst_msgq w ! k # drop (Suc k) (bst_msgq w) @ ms"
    using assms(1) by (simp add: Cons_nth_drop_Suc)
  then show ?thesis using assms(2) by (simp add: bst_app_step_def)
qed

lemma request_answered:
  assumes "k < length (bst_msgq w)" "m = bst_msgq w ! k" "0 \<le> msg_unit m" "msg_unit m < int n"
    "gets_answer (msg_type m)" "v = app_turns ps n k w"
  shows "\<exists>r h. sent_responses (app_turns ps n (Suc k) w) = sent_responses v @ [r]
    \<and> bst_type_api_get (msg_type m) = Inr h
    \<and> resp_rv r = fst (run_handler h ps m (v\<lparr>bst_msgq := tl (bst_msgq v)\<rparr>))
    \<and> resp_msg_type r = msg_type m \<and> resp_unit r = msg_unit m \<and> resp_id r = msg_id m"
  unfolding app_turn_handles [OF assms(1,6)] assms(2) [symmetric]
  using app_handle_answers [OF assms(3,4), of ps "v\<lparr>bst_msgq := tl (bst_msgq v)\<rparr>"] assms(5) by auto

end
