(* ===== verification/Bst_Sample.thy ===== *)
theory Bst_Sample
  imports Bst_System
begin

text \<open>A concrete configuration at which the theorems are applied: a plugin whose state is the
  configuration last pushed, with one unit, and an application that just started on it.\<close>

section \<open>A plugin\<close>

definition sample_capabilities :: asic_capabilities where
  "sample_capabilities = zero_capabilities\<lparr>numPorts := 74, numUnicastQueues := 2960,
     numUnicastQueueGroups := 128, numMulticastQueues := 1040, numServicePools := 4,
     numCommonPools := 1, numCpuQueues := 8, numRqeQueues := 11, numRqeQueuePools := 4,
     numPriorityGroups := 8, cellToByteConv := 208\<rparr>"

definition sample_system :: "bst_config system_feature" where
  "sample_system = \<lparr>sys_supportedAsicMask = BVIEW_ASIC_TYPE_ALL, numSupportedAsics = 1,
     asicList = [Some \<lparr>asic_unit = 0, asic_type = BVIEW_ASIC_TYPE_TD2, scalingParams = sample_capabilities\<rparr>],
     featureMask = 3, system_name_get_cb = None, system_mac_get_cb = None, system_ip4_get_cb = None,
     system_time_get_cb = None,
     system_asic_translate_from_notation_cb = Some (\<lambda>s h. (BVIEW_STATUS_SUCCESS, Some 0, h)),
     system_asic_translate_to_notation_cb = None, system_port_translate_from_notation_cb = None,
     system_port_translate_to_notation_cb = None, system_network_os_get_cb = None,
     system_uid_get_cb = None, system_lag_translate_to_notation_cb = None,
     system_max_buf_snapshot_get_cb = None\<rparr>"

definition sample_bst :: "bst_config bst_feature" where
  "sample_bst = \<lparr>bst_supportedAsicMask = BVIEW_ASIC_TYPE_TD2,
     bst_config_set_cb = Some (\<lambda>asic c h. (BVIEW_STATUS_SUCCESS, Some (), c)),
     bst_config_get_cb = Some (\<lambda>asic h. (BVIEW_STATUS_SUCCESS, Some h, h)),
     bst_snapshot_get_cb = Some (\<lambda>asic h. if enableStatsMonitoring h
        then (BVIEW_STATUS_SUCCESS, Some (zero_snapshot, 7), h) else (BVIEW_STATUS_FAILURE, None, h)),
     bst_device_data_get_cb = None, bst_ippg_data_get_cb = None, bst_ipsp_data_get_cb = None,
     bst_isp_data_get_cb = None, bst_epsp_data_get_cb = None, bst_esp_data_get_cb = None,
     bst_eucq_data_get_cb = None, bst_eucqg_data_get_cb = None, bst_emcq_data_get_cb = None,
     bst_cpuq_data_get_cb = None, bst_rqeq_data_get_cb = None, bst_device_threshold_set_cb = None,
     bst_ippg_threshold_set_cb = None, bst_ipsp_threshold_set_cb = None, bst_isp_threshold_set_cb = None,
     bst_epsp_threshold_set_cb = None, bst_esp_threshold_set_cb = None, bst_eucq_threshold_set_cb = None,
     bst_eucqg_threshold_set_cb = None, bst_emcq_threshold_set_cb = None, bst_cpuq_threshold_set_cb = None,
     bst_rqeq_threshold_set_cb = None, bst_threshold_get_cb = None,
     bst_clear_stats_cb = Some (\<lambda>asic h. (BVIEW_STATUS_SUCCESS, Some (), h)),
     bst_clear_thresholds_cb = Some (\<lambda>asic h. (BVIEW_STATUS_SUCCESS, Some (), h)),
     bst_register_trigger_cb = Some (\<lambda>asic cb cookie h. (BVIEW_STATUS_SUCCESS, Some (), h))\<rparr>"

definition sample_plugin :: "bst_config sb_plugin" where
  "sample_plugin = \<lparr>numSupportedFeatures = 2,
     featureList = [Some (SB_SYSTEM sample_system), Some (SB_BST sample_bst)]
       @ replicate (BVIEW_SBPLUGIN_MAX_FEATURES - 2) None\<rparr>"

definition sample_plugins :: "bst_config plugin_entry list" where
  "sample_plugins = snd (sb_plugin_register sample_plugin sb_redirector_init)"

lemma sample_plugins_eq:
  "sample_plugins = \<lparr>plugin_isInUse = True, sbPlugin = sample_plugin\<rparr> # replicate 7 zero_plugin_entry"
  by (simp add: sample_plugins_def sb_plugin_register_def sb_plugin_validate_def sample_plugin_def
      sb_redirector_init_def BVIEW_MAX_SUPPORTED_SB_PLUGINS_def BVIEW_SBPLUGIN_MAX_FEATURES_def
      system_feature_ok_def sample_system_def BVIEW_MAX_ASICS_ON_A_PLATFORM_def zero_plugin_entry_def
      numeral_eq_Suc)

lemma visible_features_zero [simp]: "visible_features (replicate n zero_plugin_entry) fid = []"
proof -
  have "concat (map plugin_features (replicate n zero_plugin_entry)) = []" by (induction n) simp_all
  then show ?thesis by (simp add: visible_features_def)
qed

lemma sample_visible:
  "visible_features sample_plugins BVIEW_FEATURE_SYSTEM = [SB_SYSTEM sample_system]"
  "visible_features sample_plugins BVIEW_FEATURE_BST = [SB_BST sample_bst]"
  unfolding sample_plugins_eq visible_features_Cons [of _ "replicate 7 zero_plugin_entry"]
  by (simp_all add: visible_features_def plugin_features_def sample_plugin_def
      BVIEW_FEATURE_SYSTEM_def BVIEW_FEATURE_BST_def zero_plugin_entry_def)

lemma sample_system_handle: "sb_system_handle sample_plugins BVIEW_ASIC_TYPE_ALL = Some sample_system"
  "sb_bst_handle sample_plugins BVIEW_ASIC_TYPE_TD2 = Some sample_bst"
  by (simp_all add: sb_system_handle_def sb_bst_handle_def handle_get_best sample_visible)
     (simp_all add: catch_all_def serves_asic_def sample_system_def sample_bst_def
      BVIEW_ASIC_TYPE_ALL_def BVIEW_ASIC_TYPE_TD2_def)

lemma sample_units: "sbapi_system_num_units_get sample_plugins = Inr 1"
  by (simp add: sbapi_system_num_units_get_def sample_system_handle) (simp add: sample_system_def)

lemma sample_unit_type: "sbapi_system_unit_to_asic_type_get sample_plugins 0 = Inr BVIEW_ASIC_TYPE_TD2"
  by (simp add: sbapi_system_unit_to_asic_type_get_def sample_system_handle)
     (simp add: sample_system_def is_unit_def)

lemma sample_unit_feature: "unit_bst_feature sample_plugins 0 = Some sample_bst"
  by (simp add: unit_bst_feature_def sample_unit_type sample_system_handle)

lemma sample_calls [simp]:
  "sbapi_bst_config_get sample_plugins 0 h = (BVIEW_STATUS_SUCCESS, Some h, h)"
  "sbapi_bst_config_set sample_plugins 0 c h = (BVIEW_STATUS_SUCCESS, Some (), c)"
  "sbapi_bst_snapshot_get sample_plugins 0 h = (if enableStatsMonitoring h
     then (BVIEW_STATUS_SUCCESS, Some (zero_snapshot, 7), h) else (BVIEW_STATUS_FAILURE, None, h))"
  "sbapi_bst_clear_stats sample_plugins 0 h = (BVIEW_STATUS_SUCCESS, Some (), h)"
  "sbapi_bst_clear_thresholds sample_plugins 0 h = (BVIEW_STATUS_SUCCESS, Some (), h)"
  by (simp_all add: sbapi_bst_config_get_def sbapi_bst_config_set_def sbapi_bst_snapshot_get_def
      sbapi_bst_clear_stats_def sbapi_bst_clear_thresholds_def sb_bst_call_simps sample_unit_feature
      sample_bst_def)

section \<open>An application\<close>

definition sample_unit :: bst_unit where
  "sample_unit = allocated_unit\<lparr>bst_config_ptr := default_config, bst_track_ptr := default_track\<rparr>"

definition sample_world :: "bst_config bst_world" where
  "sample_world = \<lparr>bst_units = [sample_unit], sb_hw = zero_bst_config,
     kernel = \<lparr>timers = [], next_timer = 0, timer_limit = 8\<rparr>,
     bst_msgq = [], bst_trigger_msgq = [], msgq_limit = 16, sent_responses = []\<rparr>"

lemma sample_world_simps [simp]:
  "unit_valid sample_world 0" "unit_get sample_world 0 = sample_unit"
  "get_config 0 sample_world = default_config" "sb_hw sample_world = zero_bst_config"
  "bst_msgq sample_world = []" "sent_responses sample_world = []" "msgq_limit sample_world = 16"
  "timers (kernel sample_world) = []" "timer_limit (kernel sample_world) = 8"
  "bst_units sample_world = [sample_unit]" "bst_trigger_msgq sample_world = []"
  by (simp_all add: sample_world_def unit_valid_def unit_get_def get_config_def sample_unit_def)

lemma sample_inv: "sys_inv 1 sample_world"
proof -
  have "unit_started 0 sample_world"
    by (simp add: unit_started_def)
       (simp add: sample_unit_def allocated_unit_def zeroed_timer_def default_config_def
         zero_config_params_def BVIEW_BST_DEFAULT_INTERVAL_def)
  then have u: "unit_timers_ok 0 sample_world" by (simp add: started_timers_ok)
  have "unit_timers_ok i sample_world" if "0 \<le> i" "i < 1" for i
  proof -
    have "i = 0" using that by simp
    then show ?thesis using u by simp
  qed
  then have "timers_inv 1 sample_world" by (simp add: timers_inv_def)
  then show ?thesis
    by (simp add: sys_inv_def queues_ok_def records_ok_def)
       (simp add: sample_unit_def allocated_unit_def record_ptrs_def)
qed

definition sample_request :: "bst_cmd \<Rightarrow> bst_request \<Rightarrow> request_msg" where
  "sample_request c r = (zero_msg c 0)\<lparr>msg_cookie := Some 1, msg_id := 42, msg_request := r\<rparr>"

lemma sample_request_simps [simp]:
  "msg_unit (sample_request c r) = 0" "msg_type (sample_request c r) = c"
  "msg_request (sample_request c r) = r" "msg_id (sample_request c r) = 42"
  "msg_report_type (sample_request c r) = BVIEW_BST_REPORT_UNSET"
  by (simp_all add: sample_request_def zero_msg_def)

end
