(* ===== verification/Platform_Props.thy ===== *)
theory Platform_Props
  imports Json_Memory Bst_Sample
begin

text \<open>Properties of the platform: the module table, the plugin table, the timers and the buffer
  pools, each with its application at a concrete input.\<close>

section \<open>The module table\<close>

text \<open>C32: registering a module refines appending to a list of at most sixteen modules
  keyed by feature id: a known id is a duplicate, a full table is refused, and in both cases the
  table stays as it was.\<close>

theorem modulemgr_register_spec:
  assumes "module_table_ok t" "mod_featureId f \<noteq> 0" "modulemgr_register f t = (rv, t')"
  shows "module_table_ok t' \<and> (rv, registered t') =
      (if mod_featureId f \<in> set (map mod_featureId (registered t)) then (BVIEW_STATUS_DUPLICATE, registered t)
       else if length (registered t) = BVIEW_MAX_MODULES then (BVIEW_STATUS_TABLE_FULL, registered t)
       else (BVIEW_STATUS_SUCCESS, registered t @ [f]))"
  using register_refines [OF assms(1,2)] assms(3) by blast

lemma registered_init: "registered modulemgr_init = []"
  using registered_shape [of "[]" BVIEW_MAX_MODULES] by (simp add: modulemgr_init_def)

lemma bst_module_id: "mod_featureId bst_module_info = 2"
  by (simp add: bst_module_info_def BVIEW_FEATURE_BST_def)

theorem modulemgr_register_spec_witness:
  "module_table_ok (snd (modulemgr_register bst_module_info modulemgr_init))
   \<and> (fst (modulemgr_register bst_module_info modulemgr_init),
      registered (snd (modulemgr_register bst_module_info modulemgr_init)))
     = (BVIEW_STATUS_SUCCESS, [bst_module_info])"
  using modulemgr_register_spec [OF modulemgr_init_ok _ prod.collapse [symmetric], of bst_module_info] bst_module_id
  by (simp add: registered_init BVIEW_MAX_MODULES_def)

text \<open>The handler of a request is the one that the first registered module
  serving the request's method has for it; a method no module serves is a failure.\<close>

lemma rest_handler_spec:
  assumes "module_table_ok t" "\<forall>m\<in>set (registered t). module_complete m"
    "json_buf_to_api_string_get cJSON_Parse buf = Inr s"
  shows "modulemgr_rest_api_handler_get cJSON_Parse buf t =
    (case first_server s (registered t) of None \<Rightarrow> (BVIEW_STATUS_FAILURE, None)
       | Some m \<Rightarrow> (BVIEW_STATUS_SUCCESS, module_handler s m))"
  using handler_scan_registered [OF assms(1,2)] assms(3)
  by (simp add: modulemgr_rest_api_handler_get_def)

definition method_json :: "string \<Rightarrow> json" where
  "method_json s = cJSON_Object [(''jsonrpc'', cJSON_String ''2.0''), (''method'', cJSON_String s)]"

lemma method_parsed:
  "length s < JSON_MAX_NODE_LENGTH \<Longrightarrow> json_buf_to_api_string_get (\<lambda>b. Some (method_json s)) (Some b) = Inr s"
  by (simp add: json_buf_to_api_string_get_def method_json_def cJSON_GetObjectItem_def
      JSON_VALIDATE_JSON_AS_STRING_def JSON_MAX_NODE_LENGTH_def c_tolower_def)

lemma api_scan_listed:
  "(s, h) \<in> set xs \<Longrightarrow> distinct (map fst xs) \<Longrightarrow>
   api_scan s (map (\<lambda>(s, h). \<lparr>apiString = Some s, handler = Some h\<rparr>) xs @ ys)
     = Some \<lparr>apiString = Some s, handler = Some h\<rparr>"
  by (induction xs) (auto simp: api_match_def rev_image_eqI)

lemma bst_api_scan:
  "(s, h) \<in> set bst_cmd_api_list \<Longrightarrow> api_scan s (restApiList bst_module_info) = Some \<lparr>apiString = Some s, handler = Some h\<rparr>"
proof -
  assume "(s, h) \<in> set bst_cmd_api_list"
  moreover have "distinct (map fst bst_cmd_api_list)" by (simp add: bst_cmd_api_list_def)
  ultimately show ?thesis by (simp add: bst_module_info_def api_scan_listed)
qed

lemma bst_module_complete: "module_complete bst_module_info"
  by (auto simp: module_complete_def bst_module_info_def null_api_def)

lemma bst_registered_table:
  "module_table_ok (snd (modulemgr_register bst_module_info modulemgr_init))"
  "registered (snd (modulemgr_register bst_module_info modulemgr_init)) = [bst_module_info]"
  using register_refines [OF modulemgr_init_ok, of bst_module_info _ "snd (modulemgr_register bst_module_info modulemgr_init)"]
    bst_module_id
  by (auto simp: registered_init BVIEW_MAX_MODULES_def prod_eq_iff)

lemma rest_handler_spec_witness:
  "modulemgr_rest_api_handler_get (\<lambda>b. Some (method_json ''get-bst-report'')) (Some ''{...}'')
     (snd (modulemgr_register bst_module_info modulemgr_init)) = (BVIEW_STATUS_SUCCESS, Some 4)"
proof -
  have a: "(''get-bst-report'', 4) \<in> set bst_cmd_api_list" by (simp add: bst_cmd_api_list_def)
  have "first_server ''get-bst-report'' [bst_module_info] = Some bst_module_info"
    using bst_api_scan [OF a] by (simp add: module_serves_def)
  moreover have "module_handler ''get-bst-report'' bst_module_info = Some 4"
    using bst_api_scan [OF a] by (simp add: module_handler_def)
  ultimately show ?thesis
    using rest_handler_spec [OF bst_registered_table(1) _ method_parsed, of "''get-bst-report''" "''{...}''"]
      bst_registered_table(2) bst_module_complete by (simp add: JSON_MAX_NODE_LENGTH_def)
qed

text \<open>Once the BST application has registered in a table with room, and no
  earlier module serves the command, each of its nine REST commands is found with its handler.\<close>

lemma bst_commands_found:
  assumes "module_table_ok t" "\<forall>m\<in>set (registered t). module_complete m"
    "BVIEW_FEATURE_BST \<notin> set (map mod_featureId (registered t))" "length (registered t) < BVIEW_MAX_MODULES"
    "(s, h) \<in> set bst_cmd_api_list" "first_server s (registered t) = None"
    "json_buf_to_api_string_get cJSON_Parse buf = Inr s" "bst_module_register t = (rv, t')"
  shows "rv = BVIEW_STATUS_SUCCESS \<and>
    modulemgr_rest_api_handler_get cJSON_Parse buf t' = (BVIEW_STATUS_SUCCESS, Some h)"
proof -
  have id: "mod_featureId bst_module_info = BVIEW_FEATURE_BST" by (simp add: bst_module_info_def)
  have r: "module_table_ok t' \<and> rv = BVIEW_STATUS_SUCCESS \<and> registered t' = registered t @ [bst_module_info]"
    using register_refines [OF assms(1), of bst_module_info rv t'] assms(3,4,8) id
    by (simp add: bst_module_register_def BVIEW_FEATURE_BST_def)
  have "first_server s (registered t') = Some bst_module_info"
    using r assms(6) bst_api_scan [OF assms(5)] by (simp add: first_server_append module_serves_def)
  moreover have "module_handler s bst_module_info = Some h"
    using bst_api_scan [OF assms(5)] by (simp add: module_handler_def)
  moreover have "\<forall>m\<in>set (registered t'). module_complete m" using r assms(2) bst_module_complete by auto
  ultimately show ?thesis
    using r assms(7) handler_scan_registered [of t' s BVIEW_STATUS_SUCCESS]
    by (simp add: modulemgr_rest_api_handler_get_def)
qed

lemma bst_commands_found_witness:
  "modulemgr_rest_api_handler_get (\<lambda>b. Some (method_json ''clear-bst-statistics'')) (Some ''{...}'')
     (snd (bst_module_register modulemgr_init)) = (BVIEW_STATUS_SUCCESS, Some 9)"
  using bst_commands_found [OF modulemgr_init_ok, of "''clear-bst-statistics''" 9
      "\<lambda>b. Some (method_json ''clear-bst-statistics'')" "Some ''{...}''"
      "fst (bst_module_register modulemgr_init)" "snd (bst_module_register modulemgr_init)"]
    method_parsed [of "''clear-bst-statistics''" "''{...}''"]
  by (simp add: registered_init BVIEW_MAX_MODULES_def bst_cmd_api_list_def JSON_MAX_NODE_LENGTH_def)

text \<open>Into a zeroed buffer the lookup of a feature's name writes exactly the name that was
  registered, as a terminated string.\<close>

lemma feature_name_roundtrip:
  assumes "module_table_ok t" "first_server s (registered t) = Some m"
    "length (mod_featureName m) < BVIEW_MAX_FEATURE_NAME_LEN"
    "\<forall>c\<in>set (mod_featureName m). (of_char c :: nat) \<noteq> 0"
    "modulemgr_rest_api_feature_name_get s (replicate BVIEW_MAX_FEATURE_NAME_LEN (char_of (0::nat))) t = (rv, buf)"
  shows "rv = BVIEW_STATUS_SUCCESS \<and> c_string buf = mod_featureName m
    \<and> length buf = BVIEW_MAX_FEATURE_NAME_LEN"
  using assms feature_name_registered [OF assms(1)] c_string_append_NUL [OF assms(4)]
  by (auto simp: modulemgr_rest_api_feature_name_get_def strncpy_strlen_def)

lemma feature_name_roundtrip_witness:
  "c_string (snd (modulemgr_rest_api_feature_name_get ''get-bst-report''
     (replicate BVIEW_MAX_FEATURE_NAME_LEN (char_of (0::nat)))
     (snd (modulemgr_register bst_module_info modulemgr_init)))) = ''bst''"
proof -
  have "first_server ''get-bst-report'' [bst_module_info] = Some bst_module_info"
    using bst_api_scan [of "''get-bst-report''" 4] by (simp add: module_serves_def bst_cmd_api_list_def)
  moreover have "mod_featureName bst_module_info = ''bst''" by (simp add: bst_module_info_def)
  ultimately show ?thesis
    using feature_name_roundtrip [OF bst_registered_table(1) _ _ _ prod.collapse [symmetric],
        of "''get-bst-report''" bst_module_info] bst_registered_table(2)
    by (simp add: BVIEW_MAX_FEATURE_NAME_LEN_def)
qed

section \<open>The plugin table\<close>

text \<open>With at most one catch-all feature registered, the search for a feature of a silicon
  type returns the first registered feature made for that type, and the catch-all one only when
  there is none.\<close>

lemma handle_get_spec:
  assumes "length (filter catch_all (visible_features ps fid)) \<le> 1"
  shows "sb_redirect_feature_handle_get ps t fid =
    (case List.find (\<lambda>f. serves_asic t f \<and> \<not> catch_all f) (visible_features ps fid) of
       Some f \<Rightarrow> Some f | None \<Rightarrow> List.find catch_all (visible_features ps fid))"
  using assms best_feature_one_all [of "visible_features ps fid" None t] handle_get_best [of ps t fid]
  by (simp split: option.splits)

lemma handle_get_spec_witness:
  "sb_redirect_feature_handle_get sample_plugins BVIEW_ASIC_TYPE_TD2 BVIEW_FEATURE_BST = Some (SB_BST sample_bst)
   \<and> sb_redirect_feature_handle_get sample_plugins BVIEW_ASIC_TYPE_TH BVIEW_FEATURE_BST = None"
proof -
  have c: "\<not> catch_all (SB_BST sample_bst)"
    by (simp add: catch_all_def sample_bst_def BVIEW_ASIC_TYPE_ALL_def BVIEW_ASIC_TYPE_TD2_def)
  have s: "serves_asic BVIEW_ASIC_TYPE_TD2 (SB_BST sample_bst)" "\<not> serves_asic BVIEW_ASIC_TYPE_TH (SB_BST sample_bst)"
    by (simp_all add: serves_asic_def sample_bst_def BVIEW_ASIC_TYPE_TD2_def BVIEW_ASIC_TYPE_TH_def)
  show ?thesis
    using handle_get_spec [of sample_plugins BVIEW_FEATURE_BST] c s by (simp add: sample_visible)
qed

text \<open>The search finds nothing exactly when no feature of that id in a registered plugin covers the
  silicon type, and what it finds is such a feature.\<close>

lemma handle_get_none:
  "(sb_redirect_feature_handle_get ps t fid = None) =
     (filter (\<lambda>f. serves_asic t f \<or> catch_all f) (visible_features ps fid) = [])
   \<and> set_option (sb_redirect_feature_handle_get ps t fid)
       \<subseteq> {f \<in> set (visible_features ps fid). serves_asic t f \<or> catch_all f}"
  using best_feature_None [of t None "visible_features ps fid"]
    best_feature_sound [of t None "visible_features ps fid"]
  by (auto simp: handle_get_best filter_empty_conv)

text \<open>Of two features registered for all silicon, the later one serves every type, because
  the scan takes the second for one made for the type.\<close>

lemma second_catch_all_wins:
  assumes "visible_features ps fid = f # g # fs" "catch_all f" "catch_all g" "t \<le> BVIEW_ASIC_TYPE_ALL"
  shows "sb_redirect_feature_handle_get ps t fid = Some g"
proof -
  have "(0xFFFF::nat) AND t = t"
  proof -
    have "(0xFFFF::nat) = mask 16" by (simp add: mask_eq_exp_minus_1)
    then have "(0xFFFF::nat) AND t = take_bit 16 t" by (simp add: take_bit_eq_mask and.commute)
    also have "\<dots> = t" using assms(4) by (simp add: take_bit_nat_eq_self_iff BVIEW_ASIC_TYPE_ALL_def)
    finally show ?thesis .
  qed
  then have "serves_asic t g" using assms(3) by (simp add: serves_asic_def catch_all_def BVIEW_ASIC_TYPE_ALL_def)
  then show ?thesis using best_feature_two_all [OF assms(2,3)] assms(1) by (simp add: handle_get_best)
qed

definition other_system :: "bst_config system_feature" where
  "other_system = sample_system\<lparr>featureMask := 7\<rparr>"

definition two_plugins :: "bst_config plugin_entry list" where
  "two_plugins = snd (sb_plugin_register
     \<lparr>numSupportedFeatures = 1, featureList = [Some (SB_SYSTEM other_system)]\<rparr> sample_plugins)"

lemma two_plugins_visible:
  "visible_features two_plugins BVIEW_FEATURE_SYSTEM = [SB_SYSTEM sample_system, SB_SYSTEM other_system]"
proof -
  define p where "p = \<lparr>plugin_isInUse = True, sbPlugin =
    \<lparr>numSupportedFeatures = 1, featureList = [Some (SB_SYSTEM other_system)]\<rparr>\<rparr>"
  define q where "q = \<lparr>plugin_isInUse = True, sbPlugin = sample_plugin\<rparr>"
  have e: "replicate 7 z = z # replicate 6 z" for z :: "bst_config plugin_entry" by (simp add: numeral_eq_Suc)
  have "sb_plugin_validate (sbPlugin p) = BVIEW_STATUS_SUCCESS"
    by (simp add: p_def sb_plugin_validate_def system_feature_ok_def other_system_def sample_system_def
        BVIEW_MAX_ASICS_ON_A_PLATFORM_def BVIEW_SBPLUGIN_MAX_FEATURES_def)
  moreover have "\<not> plugin_isInUse (zero_plugin_entry :: bst_config plugin_entry)" by (simp add: zero_plugin_entry_def)
  ultimately have "two_plugins = q # p # replicate 6 zero_plugin_entry"
    by (simp add: two_plugins_def sample_plugins_eq e sb_plugin_register_def p_def q_def)
  moreover have "visible_features [q] BVIEW_FEATURE_SYSTEM = [SB_SYSTEM sample_system]"
    "visible_features [p] BVIEW_FEATURE_SYSTEM = [SB_SYSTEM other_system]"
    by (simp_all add: visible_features_def plugin_features_def sample_plugin_def p_def q_def
        BVIEW_FEATURE_SYSTEM_def BVIEW_FEATURE_BST_def)
  ultimately show ?thesis
    using visible_features_Cons [of q "p # replicate 6 zero_plugin_entry" BVIEW_FEATURE_SYSTEM]
      visible_features_Cons [of p "replicate 6 zero_plugin_entry" BVIEW_FEATURE_SYSTEM] by simp
qed

lemma second_catch_all_wins_witness:
  "sb_redirect_feature_handle_get two_plugins BVIEW_ASIC_TYPE_TD2 BVIEW_FEATURE_SYSTEM = Some (SB_SYSTEM other_system)"
  using second_catch_all_wins [OF two_plugins_visible, of BVIEW_ASIC_TYPE_TD2]
  by (simp add: catch_all_def BVIEW_ASIC_TYPE_ALL_def BVIEW_ASIC_TYPE_TD2_def sample_system_def other_system_def)

text \<open>Registering a plugin succeeds exactly when it is valid and a slot is free; it
  then occupies one more slot and leaves every other plugin where it was, and a failure leaves
  the table as it was.\<close>

lemma plugin_register_spec:
  assumes "plugin_table_ok ps" "sb_plugin_register p ps = (rv, ps')"
  shows "plugin_table_ok ps'
    \<and> (rv = BVIEW_STATUS_SUCCESS) = (sb_plugin_validate p = BVIEW_STATUS_SUCCESS \<and> (\<exists>e\<in>set ps. \<not> plugin_isInUse e))
    \<and> length (filter plugin_isInUse ps') =
        length (filter plugin_isInUse ps) + (if rv = BVIEW_STATUS_SUCCESS then 1 else 0)
    \<and> (\<forall>i<length ps. plugin_isInUse (ps ! i) \<longrightarrow> ps' ! i = ps ! i)
    \<and> (rv = BVIEW_STATUS_SUCCESS \<or> ps' = ps)"
proof (cases "plugin_alloc p ps")
  case None
  then have "ps' = ps \<and> rv \<noteq> BVIEW_STATUS_SUCCESS
      \<and> \<not> (sb_plugin_validate p = BVIEW_STATUS_SUCCESS \<and> (\<exists>e\<in>set ps. \<not> plugin_isInUse e))"
    using assms(2) sb_plugin_validate_cases [of p] find_index_None [of "\<lambda>e. \<not> plugin_isInUse e" ps]
    by (auto simp: plugin_alloc_eq sb_plugin_register_def split: if_splits option.splits)
  then show ?thesis using assms(1) by auto
next
  case (Some r)
  obtain qs i where r: "plugin_alloc p ps = Some (qs, i)" using Some by (cases r) simp
  then have q: "qs = ps'" "rv = BVIEW_STATUS_SUCCESS" "sb_plugin_validate p = BVIEW_STATUS_SUCCESS"
    using assms(2) sb_plugin_validate_cases [of p]
    by (auto simp: plugin_alloc_eq sb_plugin_register_def split: if_splits option.splits)
  note a = r [unfolded q(1)]
  have i: "i < length ps" "\<not> plugin_isInUse (ps ! i)"
    using plugtab.alloc_bound [OF assms(1) a] plugtab.alloc_was_free [OF assms(1) a] .
  have "length (filter plugin_isInUse ps') = Suc (length (filter plugin_isInUse ps))"
    using plugtab.alloc_in_use [OF assms(1) a] by (simp add: plugtab.in_use_def)
  moreover have "\<forall>j<length ps. plugin_isInUse (ps ! j) \<longrightarrow> ps' ! j = ps ! j"
    using plugtab.alloc_frame [OF assms(1) a] i(2) by metis
  moreover have "\<exists>e\<in>set ps. \<not> plugin_isInUse e" using i nth_mem by blast
  ultimately show ?thesis using plugtab.alloc_inv [OF assms(1) a] q(2,3) by simp
qed

lemma plugin_register_spec_witness:
  "fst (sb_plugin_register sample_plugin sb_redirector_init) = BVIEW_STATUS_SUCCESS
   \<and> length (filter plugin_isInUse (snd (sb_plugin_register sample_plugin sb_redirector_init))) = 1"
proof -
  have "sb_plugin_validate sample_plugin = BVIEW_STATUS_SUCCESS"
    by (simp add: sb_plugin_validate_def sample_plugin_def system_feature_ok_def sample_system_def
        BVIEW_MAX_ASICS_ON_A_PLATFORM_def BVIEW_SBPLUGIN_MAX_FEATURES_def)
  moreover have "\<exists>e\<in>set (sb_redirector_init :: bst_config plugin_entry list). \<not> plugin_isInUse e"
    by (simp add: sb_redirector_init_def BVIEW_MAX_SUPPORTED_SB_PLUGINS_def zero_plugin_entry_def)
  moreover have "length (filter plugin_isInUse (sb_redirector_init :: bst_config plugin_entry list)) = 0"
    by (simp add: sb_redirector_init_def zero_plugin_entry_def)
  ultimately show ?thesis
    using plugin_register_spec [OF sb_redirector_init_ok prod.collapse [symmetric], of sample_plugin] by simp
qed

section \<open>Timers\<close>

text \<open>With a free kernel timer and a time of at least 0 ms, adding a timer creates exactly
  one, with a new id, that fires after exactly that time, again and again when periodic and never
  again when not.\<close>

lemma timer_add_exact:
  assumes "timers_ok k" "length (timers k) < timer_limit k" "0 \<le> ms"
    "system_timer_add h ms m p k = (rv, tid, k')"
  shows "\<exists>t s. rv = BVIEW_STATUS_SUCCESS \<and> tid = Some (kt_id t) \<and> timers k' = timers k @ [t]
    \<and> kt_id t \<notin> kt_id ` set (timers k) \<and> kt_handler t = h \<and> kt_param t = p \<and> kt_spec t = Some s
    \<and> timespec_ok (it_value s)
    \<and> tv_sec (it_value s) * 1000000000 + tv_nsec (it_value s) = ms * 1000000
    \<and> it_interval s = (case m of PERIODIC_MODE \<Rightarrow> it_value s | NON_PERIODIC_MODE \<Rightarrow> \<lparr>tv_sec = 0, tv_nsec = 0\<rparr>)"
proof -
  have "next_timer k \<notin> kt_id ` set (timers k)" using assms(1) by (auto simp: timers_ok_def)
  moreover have "it_interval (ms_timerspec ms m) =
      (case m of PERIODIC_MODE \<Rightarrow> it_value (ms_timerspec ms m) | NON_PERIODIC_MODE \<Rightarrow> \<lparr>tv_sec = 0, tv_nsec = 0\<rparr>)"
    by (cases m) (simp_all add: ms_timerspec_def Let_def)
  ultimately show ?thesis
    using system_timer_add_success [OF assms(2,3,1), of h m p] assms(4) ms_timerspec_exact [OF assms(3), of m]
    by (intro exI [of _ "\<lparr>kt_id = next_timer k, kt_handler = h, kt_param = p, kt_spec = Some (ms_timerspec ms m)\<rparr>"]
        exI [of _ "ms_timerspec ms m"]) simp
qed

definition empty_kernel :: kernel_timers where
  "empty_kernel = \<lparr>timers = [], next_timer = 0, timer_limit = 8\<rparr>"

lemma timer_add_exact_witness:
  "\<exists>t s. timers (snd (snd (system_timer_add bst_trigger_timer_cb 1500 PERIODIC_MODE 0 empty_kernel))) = [t]
     \<and> kt_spec t = Some s \<and> tv_sec (it_value s) * 1000000000 + tv_nsec (it_value s) = 1500000000
     \<and> it_interval s = it_value s"
  using timer_add_exact [of empty_kernel 1500 bst_trigger_timer_cb PERIODIC_MODE 0 _ _
      "snd (snd (system_timer_add bst_trigger_timer_cb 1500 PERIODIC_MODE 0 empty_kernel))"]
  by (fastforce simp: empty_kernel_def timers_ok_def prod_eq_iff)

text \<open>When arming fails, for a negative time, the caller is told of a failure
  but the kernel timer stays allocated.\<close>

lemma timer_add_leaks:
  assumes "timers_ok k" "length (timers k) < timer_limit k" "ms < 0"
    "system_timer_add h ms m p k = (rv, tid, k')"
  shows "rv = BVIEW_STATUS_FAILURE \<and> length (timers k') = Suc (length (timers k))"
  using system_timer_add_negative [OF assms(2,3,1), of h m p] assms(4) by simp

lemma timer_add_leaks_witness:
  "fst (system_timer_add bst_trigger_timer_cb (-1) PERIODIC_MODE 0 empty_kernel) = BVIEW_STATUS_FAILURE
   \<and> length (timers (snd (snd (system_timer_add bst_trigger_timer_cb (-1) PERIODIC_MODE 0 empty_kernel)))) = 1"
  using timer_add_leaks [of empty_kernel "-1" bst_trigger_timer_cb PERIODIC_MODE 0
      "fst (system_timer_add bst_trigger_timer_cb (-1) PERIODIC_MODE 0 empty_kernel)"
      "fst (snd (system_timer_add bst_trigger_timer_cb (-1) PERIODIC_MODE 0 empty_kernel))"
      "snd (snd (system_timer_add bst_trigger_timer_cb (-1) PERIODIC_MODE 0 empty_kernel))"]
  by (simp add: timers_ok_def) (simp add: empty_kernel_def)

section \<open>The buffer pools\<close>

text \<open>From the start, a sequence of requests for response buffers without a return is
  served exactly up to twenty of them, one for report buffers up to four.\<close>

lemma json_pool_capacity:
  assumes "0 < base"
  shows "(smallpool.alloc_all nows (bstjson_memory_init base) \<noteq> None) = (length nows \<le> 20)
    \<and> (largepool.alloc_all nows (bstjson_memory_init base) \<noteq> None) = (length nows \<le> 4)"
proof -
  have s: "smallpool.in_use (bstjson_memory_init base) = 0" "largepool.in_use (bstjson_memory_init base) = 0"
    by (simp_all add: smallpool.in_use_def largepool.in_use_def bstjson_memory_init_def slices_init_def)
  have l: "length (smallSlices (bstjson_memory_init base)) = 20" "length (largeSlices (bstjson_memory_init base)) = 4"
    by (simp_all add: bstjson_memory_init_def slices_init_def BUFPOOL_MAX_RESPONE_SLICES_def
        BUFPOOL_MAX_REPORT_SLICES_def)
  show ?thesis
    using smallpool.alloc_all_iff [OF pool_init_ok(1) [OF assms], of nows]
      largepool.alloc_all_iff [OF pool_init_ok(1) [OF assms], of nows] s l by simp
qed

lemma json_pool_capacity_witness:
  "smallpool.alloc_all (replicate 20 0) (bstjson_memory_init 4096) \<noteq> None
   \<and> smallpool.alloc_all (replicate 21 0) (bstjson_memory_init 4096) = None"
  using json_pool_capacity [of 4096 "replicate 20 0"] json_pool_capacity [of 4096 "replicate 21 0"]
  by (simp del: not_None_eq split_paired_Ex)

text \<open>C33: the memory of two buffers handed out one after the other never overlaps, whatever
  their sizes.\<close>

theorem json_buffers_disjoint:
  assumes "pool_ok p" "bstjson_memory_allocate now sz p = (BVIEW_STATUS_SUCCESS, Some a, p1)"
    "bstjson_memory_allocate now' sz' p1 = (BVIEW_STATUS_SUCCESS, Some b, p2)"
  shows "pool_ok p2 \<and> {a..<a + sz} \<inter> {b..<b + sz'} = {}"
  using buffers_disjoint [OF assms] allocate_ok [OF allocate_ok [OF assms(1,2)] assms(3)] by auto

lemma sample_allocations:
  "bstjson_memory_allocate 0 BSTJSON_MEMSIZE_RESPONSE (bstjson_memory_init 4096) =
     (BVIEW_STATUS_SUCCESS, Some 4096, snd (snd (bstjson_memory_allocate 0 BSTJSON_MEMSIZE_RESPONSE (bstjson_memory_init 4096))))"
  "bstjson_memory_allocate 0 BSTJSON_MEMSIZE_REPORT
       (snd (snd (bstjson_memory_allocate 0 BSTJSON_MEMSIZE_RESPONSE (bstjson_memory_init 4096)))) =
     (BVIEW_STATUS_SUCCESS, Some 24576,
      snd (snd (bstjson_memory_allocate 0 BSTJSON_MEMSIZE_REPORT
       (snd (snd (bstjson_memory_allocate 0 BSTJSON_MEMSIZE_RESPONSE (bstjson_memory_init 4096)))))))"
  using memsize_distinct
  by (simp_all add: bstjson_memory_allocate_def bstjson_memory_init_def slices_take_def slices_init_def
      BUFPOOL_MAX_RESPONE_SLICES_def BUFPOOL_MAX_REPORT_SLICES_def upt_conv_Cons)
     (simp add: BSTJSON_MEMSIZE_RESPONSE_def)

theorem json_buffers_disjoint_witness:
  "{4096..<4096 + BSTJSON_MEMSIZE_RESPONSE} \<inter> {24576..<24576 + BSTJSON_MEMSIZE_REPORT} = {}"
  using json_buffers_disjoint [OF pool_init_ok(1) sample_allocations] by simp

text \<open>Giving back a pointer succeeds exactly for the start of a slice of one of the pools; any
  other pointer is refused and changes nothing.\<close>

lemma json_free_spec:
  assumes "pool_ok p" "bstjson_memory_free pointer p = (rv, p')"
  shows "pool_ok p' \<and> (rv = BVIEW_STATUS_SUCCESS) = slice_start p pointer
    \<and> (rv = BVIEW_STATUS_SUCCESS \<or> p' = p)"
  using free_spec [OF assms] by blast

lemma json_free_spec_witness:
  "fst (bstjson_memory_free 4097 (bstjson_memory_init 4096)) \<noteq> BVIEW_STATUS_SUCCESS"
proof -
  have "\<not> slice_start (bstjson_memory_init 4096) 4097"
  proof -
    have s: "SMALL_POOL_START (bstjson_memory_init 4096) = 4096" "LARGE_POOL_START (bstjson_memory_init 4096) = 24576"
      by (simp_all add: SMALL_POOL_START_def LARGE_POOL_START_def bstjson_memory_init_def
          BSTJSON_MEMSIZE_RESPONSE_def BUFPOOL_MAX_RESPONE_SLICES_def)
    have "4097 \<noteq> 4096 + i * BSTJSON_MEMSIZE_RESPONSE" for i
      by (cases i) (simp_all add: BSTJSON_MEMSIZE_RESPONSE_def)
    moreover have "4097 \<noteq> 24576 + j" for j :: nat by simp
    ultimately show ?thesis unfolding slice_start_def s by blast
  qed
  then show ?thesis
    using json_free_spec [OF pool_init_ok(1) prod.collapse [symmetric], of 4096 4097] by simp
qed

text \<open>A buffer that was handed out can be given back, and then as many slots
  of either pool are free as before.\<close>

lemma json_alloc_free:
  assumes "pool_ok p" "bstjson_memory_allocate now sz p = (BVIEW_STATUS_SUCCESS, Some b, p1)"
    "bstjson_memory_free b p1 = (rv, p2)"
  shows "rv = BVIEW_STATUS_SUCCESS
    \<and> length (filter slice_inUse (smallSlices p2)) = length (filter slice_inUse (smallSlices p))
    \<and> length (filter slice_inUse (largeSlices p2)) = length (filter slice_inUse (largeSlices p))"
proof -
  have ok: "pool_ok p1" using allocate_ok assms(1,2) by blast
  have "sz = BSTJSON_MEMSIZE_RESPONSE \<or> sz = BSTJSON_MEMSIZE_REPORT" using allocate_size assms(2) by blast
  then show ?thesis
  proof
    assume "sz = BSTJSON_MEMSIZE_RESPONSE"
    then obtain i where i: "small_alloc now p = Some (p1, i)" "i < BUFPOOL_MAX_RESPONE_SLICES"
      "b = SMALL_POOL_START p1 + i * BSTJSON_MEMSIZE_RESPONSE" "largeSlices p1 = largeSlices p"
      using allocate_small [OF assms(1)] assms(2) by metis
    then show ?thesis
      using smallpool.alloc_release [OF assms(1) i(1)] small_free_slot [OF ok i(2)] assms(3)
      by (auto simp: smallpool.in_use_def)
  next
    assume "sz = BSTJSON_MEMSIZE_REPORT"
    then obtain i where i: "large_alloc now p = Some (p1, i)" "i < BUFPOOL_MAX_REPORT_SLICES"
      "b = LARGE_POOL_START p1 + i * BSTJSON_MEMSIZE_REPORT" "smallSlices p1 = smallSlices p"
      using allocate_large [OF assms(1)] assms(2) by metis
    then show ?thesis
      using largepool.alloc_release [OF assms(1) i(1)] large_free_slot [OF ok i(2)] assms(3)
      by (auto simp: largepool.in_use_def)
  qed
qed

lemma json_alloc_free_witness:
  "fst (bstjson_memory_free 4096
     (snd (snd (bstjson_memory_allocate 0 BSTJSON_MEMSIZE_RESPONSE (bstjson_memory_init 4096))))) = BVIEW_STATUS_SUCCESS"
  using json_alloc_free [OF pool_init_ok(1) sample_allocations(1) prod.collapse [symmetric]] by simp

end
