(* ===== verification/Bst_Props.thy ===== *)
theory Bst_Props
  imports Bst_Sample
begin

text \<open>Properties of the handlers of the BST application: realms, configuration, reports,
  thresholds, clearing and triggers, each with its application at a concrete input.\<close>

section \<open>Realms\<close>

text \<open>The tracking mask computed from the tracking flags contains the bit of a realm
  exactly when the realm is tracked, and the flags computed from a mask track exactly the realms
  of the mask.\<close>

lemma mask_tells_realms:
  "mask_has (bst_realm_to_mask d) r = realm_tracked r d
   \<and> realm_tracked r (bst_mask_to_realm m d) = mask_has m r"
  using mask_of_realms realms_of_mask by blast

text \<open>Going from a mask to the flags and back keeps the eleven realm bits and
  drops every other bit of the mask.\<close>

lemma mask_roundtrip_exact: "bst_realm_to_mask (bst_mask_to_realm m d) = and m 0xFFE"
  using mask_roundtrip by simp

text \<open>Flags that are 0 or 1 are recovered from their mask; the mask
  field and the peak flag are those of the structure written to.\<close>

lemma flags_roundtrip:
  assumes "flags_binary d"
  shows "bst_mask_to_realm (bst_realm_to_mask d) e =
    d\<lparr>trackMask := trackMask e, trackPeakStats := trackPeakStats e\<rparr>"
  using realms_roundtrip [OF assms] .

lemma flags_roundtrip_witness:
  "bst_mask_to_realm (bst_realm_to_mask (zero_track_params\<lparr>trackEgressUcQueue := 1, trackDevice := 1\<rparr>)) zero_track_params
     = zero_track_params\<lparr>trackEgressUcQueue := 1, trackDevice := 1\<rparr>"
  using flags_roundtrip [of "zero_track_params\<lparr>trackEgressUcQueue := 1, trackDevice := 1\<rparr>" zero_track_params]
  by (simp add: flags_binary_def zero_track_params_def)

text \<open>The name of a realm in a command is translated to the realm's own
  threshold type, and every other string to 0.\<close>

lemma realm_names:
  "bst_realm_type_get (realm_name r) = realm_id r \<and> (bst_realm_type_get s = 0) = (s \<notin> range realm_name)"
  using realm_type_of_name realm_type_zero_iff by auto

text \<open>No two pairs of realm and counter share a trigger counter, every index is within
  the array of counters, and the CPU queues have none.\<close>

lemma trigger_indices:
  assumes "bst_trigger_index_get s c = Some i" "bst_trigger_index_get s' c' = Some i"
  shows "s = s' \<and> c = c' \<and> i < BST_ID_MAX \<and> s \<noteq> ''egress-cpu-queue''"
  using trigger_index_inject [OF assms] trigger_index_bound [OF assms(1)] trigger_index_cpu assms(1) by auto

lemma sample_index: "bst_trigger_index_get ''egress-mc-queue'' ''mc-buffer-count'' = Some 8"
  by (simp add: bst_trigger_index_get_def bst_realm_index_map_def)

lemma trigger_indices_witness: "(8::nat) < BST_ID_MAX"
  using trigger_indices [OF sample_index sample_index] by blast

section \<open>Feature configuration\<close>

text \<open>C30: after a feature request the unit's parameters are exactly those the request
  describes: each parameter whose mask bit is set is taken over, the others stay, and the
  enable switch changes only when the silicon accepted it.\<close>

theorem feature_request_stored:
  assumes "unit_valid w (msg_unit m)" "bst_config_feature_set ps m w = (rv, w')"
  shows "get_config (msg_unit m) w' =
    (let c = feature_spec (req_config m) (get_config (msg_unit m) w) in
     if cfg_has (req_config m) BST_CONFIG_PARAMS_ENABLE \<and> rv = BVIEW_STATUS_SUCCESS
     then c\<lparr>bstEnable := bstEnable (req_config m)\<rparr> else c)"
  using feature_set_config [OF assms] .

definition sample_feature_request :: request_msg where
  "sample_feature_request = sample_request BVIEW_BST_CMD_API_SET_FEATURE
     (REQ_CONFIG (zero_config_params\<lparr>bstEnable := 1, bstMaxTriggers := 3, configMask := 0x11\<rparr>))"

lemma sample_feature_simps:
  "msg_unit sample_feature_request = 0"
  "req_config sample_feature_request = zero_config_params\<lparr>bstEnable := 1, bstMaxTriggers := 3, configMask := 0x11\<rparr>"
  by (simp_all add: sample_feature_request_def req_config_def)

lemma sample_cfg_has:
  "cfg_has (zero_config_params\<lparr>bstEnable := 1, bstMaxTriggers := 3, configMask := 0x11\<rparr>) p = (p = 0 \<or> p = 4)"
  if "p \<in> {0, 1, 2, 3, 4, 5, 6, 7, 8}"
  using that by (auto simp: cfg_has_def)

lemma sample_feature_spec:
  "feature_spec (req_config sample_feature_request) default_config = default_config\<lparr>bstMaxTriggers := 3\<rparr>"
  by (simp add: feature_spec_def sample_feature_simps sample_cfg_has config_param_defs)

lemma sample_feature_set:
  "fst (bst_config_feature_set sample_plugins sample_feature_request sample_world) = BVIEW_STATUS_SUCCESS"
proof -
  have "unit_valid sample_world (msg_unit sample_feature_request)" by (simp add: sample_feature_simps)
  note r = feature_stored_reads [OF this]
  show ?thesis
    by (simp add: bst_config_feature_set_eq Let_def sample_feature_simps sample_cfg_has config_param_defs
        hw_call_def)
qed

theorem feature_request_stored_witness:
  "get_config 0 (snd (bst_config_feature_set sample_plugins sample_feature_request sample_world)) =
     default_config\<lparr>bstMaxTriggers := 3, bstEnable := 1\<rparr>"
  using feature_request_stored [OF _ prod.collapse [symmetric], of sample_world sample_feature_request sample_plugins]
    sample_feature_set sample_feature_spec
  by (simp add: sample_feature_simps Let_def) (simp add: sample_cfg_has config_param_defs)

text \<open>An enabling feature request that can read the silicon's configuration pushes
  it back with the monitoring switch, the collection period and the trigger parameters replaced,
  and answers what the silicon answers.\<close>

lemma feature_request_pushed:
  assumes "unit_valid w (msg_unit m)" "cfg_has (req_config m) BST_CONFIG_PARAMS_ENABLE"
    "sbapi_bst_config_get ps (msg_unit m) (sb_hw w) = (BVIEW_STATUS_SUCCESS, Some c, h1)"
    "new = feature_spec (req_config m) (get_config (msg_unit m) w)"
    "sbapi_bst_config_set ps (msg_unit m)
       (c\<lparr>enableStatsMonitoring := (bstEnable (req_config m) \<noteq> 0), enablePeriodicCollection := True,
          collectionPeriod := (if collectionInterval new = 0 \<or> collectionInterval new > 5 then 5
                               else collectionInterval new),
          cfg_bstMaxTriggers := bstMaxTriggers new, cfg_sendSnapshotOnTrigger := sendSnapshotOnTrigger new\<rparr>) h1
      = (rv2, out, h2)"
    "bst_config_feature_set ps m w = (rv, w')"
  shows "rv = rv2 \<and> sb_hw w' = h2"
  using feature_set_pushes [OF assms(1-3) _ assms(6), unfolded pushed_mode_def plugin_interval_def
      BVIEW_BST_DEFAULT_PLUGIN_INTERVAL_def, folded assms(4)] assms(5) by blast

lemma feature_request_pushed_witness:
  "sb_hw (snd (bst_config_feature_set sample_plugins sample_feature_request sample_world)) =
     zero_bst_config\<lparr>enableStatsMonitoring := True, enablePeriodicCollection := True, collectionPeriod := 5,
       cfg_bstMaxTriggers := 3, cfg_sendSnapshotOnTrigger := 1\<rparr>"
  using feature_request_pushed [of sample_world sample_feature_request sample_plugins zero_bst_config
      zero_bst_config "default_config\<lparr>bstMaxTriggers := 3\<rparr>" _ _ _
      "fst (bst_config_feature_set sample_plugins sample_feature_request sample_world)"
      "snd (bst_config_feature_set sample_plugins sample_feature_request sample_world)"] sample_feature_spec
  by (simp add: sample_feature_simps sample_cfg_has config_param_defs)
     (simp add: default_config_def BVIEW_BST_DEFAULT_INTERVAL_def)

text \<open>When the silicon's configuration cannot be read nothing is pushed,
  the error is answered, and the enable switch stays.\<close>

lemma feature_request_not_pushed:
  assumes "unit_valid w (msg_unit m)" "cfg_has (req_config m) BST_CONFIG_PARAMS_ENABLE"
    "sbapi_bst_config_get ps (msg_unit m) (sb_hw w) = (e, out, h1)" "e \<noteq> BVIEW_STATUS_SUCCESS"
    "bst_config_feature_set ps m w = (rv, w')"
  shows "rv = e \<and> sb_hw w' = h1 \<and> bstEnable (get_config (msg_unit m) w') = bstEnable (get_config (msg_unit m) w)"
  using feature_set_no_push [OF assms] feature_set_config [OF assms(1,5)] assms(4)
  by (simp add: Let_def feature_spec_def)

lemma feature_request_not_pushed_witness:
  "fst (bst_config_feature_set (sb_redirector_init :: bst_config plugin_entry list) sample_feature_request sample_world)
     = BVIEW_STATUS_FAILURE"
proof -
  have "sbapi_bst_config_get (sb_redirector_init :: bst_config plugin_entry list) 0 h = (BVIEW_STATUS_FAILURE, None, h)" for h
    by (simp add: sbapi_bst_config_get_def sb_bst_call_simps unit_bst_feature_def
        sbapi_system_unit_to_asic_type_get_def sb_system_handle_def handle_get_best)
  then show ?thesis
    using feature_request_not_pushed [of sample_world sample_feature_request
        "sb_redirector_init :: bst_config plugin_entry list", OF _ _ _ _ prod.collapse [symmetric]]
    by (simp add: sample_feature_simps sample_cfg_has config_param_defs)
qed

section \<open>Tracking configuration\<close>

text \<open>A tracking request is stored exactly when the silicon accepted it, and a request that
  succeeded is a no-op when it comes again.\<close>

lemma track_request:
  assumes "unit_valid w (msg_unit m)" "bst_config_track_set ps m w = (rv, w')"
    "track_changed (bst_track_ptr (unit_get w (msg_unit m))) (req_track m)"
  shows "bst_track_ptr (unit_get w' (msg_unit m)) =
      (if rv = BVIEW_STATUS_SUCCESS then req_track m else bst_track_ptr (unit_get w (msg_unit m)))
    \<and> (rv \<noteq> BVIEW_STATUS_SUCCESS \<or> bst_config_track_set ps m w' = (BVIEW_STATUS_SUCCESS, w'))"
  using track_set_stores [OF assms(1,3,2)] track_set_twice [OF assms(1), of ps w'] assms(2) by blast

definition sample_track_request :: request_msg where
  "sample_track_request = sample_request BVIEW_BST_CMD_API_SET_TRACK
     (REQ_TRACK (zero_track_params\<lparr>trackMask := 16, trackEgressUcQueue := 1\<rparr>))"

lemma sample_track_simps:
  "msg_unit sample_track_request = 0"
  "req_track sample_track_request = zero_track_params\<lparr>trackMask := 16, trackEgressUcQueue := 1\<rparr>"
  "bst_track_ptr sample_unit = default_track"
  by (simp_all add: sample_track_request_def req_track_def sample_unit_def)

lemma sample_track_changed:
  "track_changed default_track (zero_track_params\<lparr>trackMask := 16, trackEgressUcQueue := 1\<rparr>)"
  by (simp add: track_changed_def default_track_def zero_track_params_def Let_def)

lemma sample_track_success:
  "fst (bst_config_track_set sample_plugins sample_track_request sample_world) = BVIEW_STATUS_SUCCESS"
  by (simp add: bst_config_track_set_def sample_track_simps sample_track_changed Let_def hw_call_def)

lemma track_request_witness:
  "bst_track_ptr (unit_get (snd (bst_config_track_set sample_plugins sample_track_request sample_world)) 0)
     = zero_track_params\<lparr>trackMask := 16, trackEgressUcQueue := 1\<rparr>"
  using track_request [OF _ prod.collapse [symmetric], of sample_world sample_track_request sample_plugins]
    sample_track_success
  by (simp add: sample_track_simps sample_track_changed)

text \<open>After the plugin reports a changed tracking configuration the unit tracks exactly the
  realms of the silicon's mask, and the peak flag follows the silicon's mode; the mask field of the
  unit keeps its old value.\<close>

lemma plugin_track_update:
  assumes "unit_valid w (msg_unit m)" "msg_type m = BVIEW_BST_CMD_API_UPDATE_TRACK"
    "sbapi_bst_config_get ps (msg_unit m) (sb_hw w) = (BVIEW_STATUS_SUCCESS, Some c, h1)"
    "bst_update_config_set ps m w = (rv, w')"
  shows "rv = BVIEW_STATUS_SUCCESS
    \<and> {r. realm_tracked r (bst_track_ptr (unit_get w' (msg_unit m)))} = {r. mask_has (cfg_trackMask c) r}
    \<and> trackMask (bst_track_ptr (unit_get w' (msg_unit m))) = trackMask (bst_track_ptr (unit_get w (msg_unit m)))"
  using update_track_realms [OF assms] by blast

lemma plugin_track_update_witness:
  "{r. realm_tracked r (bst_track_ptr (unit_get (snd (bst_update_config_set sample_plugins
      (sample_request BVIEW_BST_CMD_API_UPDATE_TRACK REQ_NONE) sample_world)) 0))} = {}"
  using plugin_track_update [OF _ _ _ prod.collapse [symmetric], of sample_world
      "sample_request BVIEW_BST_CMD_API_UPDATE_TRACK REQ_NONE" sample_plugins]
  by (simp add: zero_bst_config_def mask_has_def)

text \<open>After the plugin reports a changed feature configuration the unit's enable switch,
  trigger limit and snapshot switch are the silicon's, and nothing else of its parameters changed.\<close>

lemma plugin_feature_update:
  assumes "unit_valid w (msg_unit m)" "msg_type m = BVIEW_BST_CMD_API_UPDATE_FEATURE"
    "sbapi_bst_config_get ps (msg_unit m) (sb_hw w) = (BVIEW_STATUS_SUCCESS, Some c, h1)"
    "bst_update_config_set ps m w = (rv, w')"
  shows "rv = BVIEW_STATUS_SUCCESS \<and> get_config (msg_unit m) w' = (get_config (msg_unit m) w)\<lparr>
     bstEnable := (if enableStatsMonitoring c then 1 else 0),
     sendSnapshotOnTrigger := cfg_sendSnapshotOnTrigger c, bstMaxTriggers := cfg_bstMaxTriggers c\<rparr>"
  using update_feature_params [OF assms] .

lemma plugin_feature_update_witness:
  "get_config 0 (snd (bst_update_config_set sample_plugins
      (sample_request BVIEW_BST_CMD_API_UPDATE_FEATURE REQ_NONE) sample_world)) =
     default_config\<lparr>bstEnable := 0, sendSnapshotOnTrigger := 0, bstMaxTriggers := 0\<rparr>"
  using plugin_feature_update [OF _ _ _ prod.collapse [symmetric], of sample_world
      "sample_request BVIEW_BST_CMD_API_UPDATE_FEATURE REQ_NONE" sample_plugins]
  by (simp add: zero_bst_config_def)

text \<open>The initialisation of a unit always pushes the current-value mode, also
  when the silicon was in peak mode, and leaves the peak flag off.\<close>

lemma init_never_peak:
  assumes "unit_valid w i" "\<And>c h. sbapi_bst_config_set ps i c h = (BVIEW_STATUS_SUCCESS, Some (), push c h)"
    "bst_unit_config_init ps i w = (rv, w')"
  shows "\<exists>c h. sb_hw w' = push c h \<and> cfg_mode c = BVIEW_BST_MODE_CURRENT
    \<and> trackPeakStats (bst_track_ptr (unit_get w' i)) = 0"
proof -
  obtain e out h1 where g: "sbapi_bst_config_get ps i (sb_hw w) = (e, out, h1)" by (metis prod_cases3)
  let ?m = "filled init_mode out"
  let ?c = "?m\<lparr>cfg_trackInit := True,
      enableStatsMonitoring := ((if enableStatsMonitoring ?m then 1 else 0::int) \<noteq> 0),
      enableDeviceStatsMonitoring := True, enableIngressStatsMonitoring := True,
      enableEgressStatsMonitoring := True, enablePeriodicCollection := True,
      collectionPeriod := BVIEW_BST_DEFAULT_PLUGIN_INTERVAL, cfg_mode := BVIEW_BST_MODE_CURRENT,
      cfg_statUnitsInCells := 1, cfg_statsInPercentage := 0, cfg_triggerTransmitInterval := 1,
      cfg_sendIncrementalReport := 1\<rparr>"
  have "sb_hw w' = push ?c h1"
    using assms(2,3) g by (auto simp: bst_unit_config_init_def hw_call_def Let_def default_config_def)
  moreover have "cfg_mode ?c = BVIEW_BST_MODE_CURRENT" by simp
  moreover have "trackPeakStats (bst_track_ptr (unit_get w' i)) = 0"
    using assms g by (auto simp: bst_unit_config_init_def hw_call_def Let_def default_config_def)
  ultimately show ?thesis by metis
qed

lemma init_never_peak_witness:
  "cfg_mode (sb_hw (snd (bst_unit_config_init sample_plugins 0
     (sample_world\<lparr>sb_hw := zero_bst_config\<lparr>cfg_mode := BVIEW_BST_MODE_PEAK\<rparr>\<rparr>)))) = BVIEW_BST_MODE_CURRENT"
  using init_never_peak [of "sample_world\<lparr>sb_hw := zero_bst_config\<lparr>cfg_mode := BVIEW_BST_MODE_PEAK\<rparr>\<rparr>" 0
      sample_plugins "\<lambda>c h. c", OF _ _ prod.collapse [symmetric]]
  by auto

section \<open>Thresholds\<close>

text \<open>The call-back that a threshold request of a realm is for, applied to the request.\<close>

primrec threshold_callback ::
  "bst_realm \<Rightarrow> request_msg \<Rightarrow> 'hw bst_feature \<Rightarrow> ('hw, unit) sb_op option" where
  "threshold_callback BVIEW_BST_DEVICE m f =
     map_option (\<lambda>cb. cb (msg_unit m) (req_device m)) (bst_device_threshold_set_cb f)"
| "threshold_callback BVIEW_BST_INGRESS_PORT_PG m f =
     map_option (\<lambda>cb. cb (msg_unit m) (thr_port (msg_threshold m)) (thr_priorityGroup (msg_threshold m)) (req_ippg m))
       (bst_ippg_threshold_set_cb f)"
| "threshold_callback BVIEW_BST_INGRESS_PORT_SP m f =
     map_option (\<lambda>cb. cb (msg_unit m) (thr_port (msg_threshold m)) (thr_servicePool (msg_threshold m)) (req_ipsp m))
       (bst_ipsp_threshold_set_cb f)"
| "threshold_callback BVIEW_BST_INGRESS_SP m f =
     map_option (\<lambda>cb. cb (msg_unit m) (thr_servicePool (msg_threshold m)) (req_isp m)) (bst_isp_threshold_set_cb f)"
| "threshold_callback BVIEW_BST_EGRESS_PORT_SP m f =
     map_option (\<lambda>cb. cb (msg_unit m) (thr_port (msg_threshold m)) (thr_servicePool (msg_threshold m)) (req_epsp m))
       (bst_epsp_threshold_set_cb f)"
| "threshold_callback BVIEW_BST_EGRESS_SP m f =
     map_option (\<lambda>cb. cb (msg_unit m) (thr_servicePool (msg_threshold m)) (req_esp m)) (bst_esp_threshold_set_cb f)"
| "threshold_callback BVIEW_BST_EGRESS_UC_QUEUE m f =
     map_option (\<lambda>cb. cb (msg_unit m) (thr_queue (msg_threshold m)) (req_eucq m)) (bst_eucq_threshold_set_cb f)"
| "threshold_callback BVIEW_BST_EGRESS_UC_QUEUEGROUPS m f =
     map_option (\<lambda>cb. cb (msg_unit m) (thr_queueGroup (msg_threshold m)) (req_eucqg m)) (bst_eucqg_threshold_set_cb f)"
| "threshold_callback BVIEW_BST_EGRESS_MC_QUEUE m f =
     map_option (\<lambda>cb. cb (msg_unit m) (thr_queue (msg_threshold m)) (req_emcq m)) (bst_emcq_threshold_set_cb f)"
| "threshold_callback BVIEW_BST_EGRESS_CPU_QUEUE m f =
     map_option (\<lambda>cb. cb (msg_unit m) (thr_queue (msg_threshold m)) (req_cpuq m)) (bst_cpuq_threshold_set_cb f)"
| "threshold_callback BVIEW_BST_EGRESS_RQE_QUEUE m f =
     map_option (\<lambda>cb. cb (msg_unit m) (thr_queue (msg_threshold m)) (req_rqeq m)) (bst_rqeq_threshold_set_cb f)"

lemma threshold_dispatch_realm:
  assumes "msg_threshold_type m = realm_id r"
  shows "threshold_dispatch ps m w = hw_call (sb_bst_call ps (msg_unit m) (threshold_callback r m)) w"
  unfolding threshold_dispatch_def Let_def assms realm_id_inject
  by (cases r) (simp_all add: hw_call_def sb_bst_call_simps
      sbapi_bst_device_threshold_set_def sbapi_bst_ippg_threshold_set_def
      sbapi_bst_ipsp_threshold_set_def sbapi_bst_isp_threshold_set_def sbapi_bst_epsp_threshold_set_def
      sbapi_bst_esp_threshold_set_def sbapi_bst_eucq_threshold_set_def sbapi_bst_eucqg_threshold_set_def
      sbapi_bst_emcq_threshold_set_def sbapi_bst_cpuq_threshold_set_def sbapi_bst_rqeq_threshold_set_def
      split: option.splits)

text \<open>C31: a threshold request for a named realm reaches the call-back of that realm in the
  feature that serves the unit, with the request's port, pool or queue, and answers its status;
  without a feature or a call-back nothing happens but the error.\<close>

theorem threshold_request:
  assumes "msg_threshold_type m = bst_realm_type_get (realm_name r)"
  shows "bst_config_threshold_set ps m w =
    (case unit_bst_feature ps (msg_unit m) of
       None \<Rightarrow> (BVIEW_STATUS_FAILURE, w)
     | Some f \<Rightarrow> (case threshold_callback r m f of
          None \<Rightarrow> (BVIEW_STATUS_UNSUPPORTED, w)
        | Some cb \<Rightarrow> (case cb (sb_hw w) of (rv, _, h) \<Rightarrow> (rv, w\<lparr>sb_hw := h\<rparr>))))"
  using threshold_dispatch_realm [of m r ps w] assms
  by (auto simp: bst_config_threshold_set_def realm_type_of_name hw_call_def sb_bst_call_simps
      split: option.splits prod.splits)

theorem threshold_request_witness:
  "bst_config_threshold_set sample_plugins
     ((sample_request BVIEW_BST_CMD_API_SET_THRESHOLD (REQ_DEVICE \<lparr>dev_threshold = 9\<rparr>))\<lparr>msg_threshold_type := 1\<rparr>)
     sample_world = (BVIEW_STATUS_UNSUPPORTED, sample_world)"
proof -
  have "bst_realm_type_get (realm_name BVIEW_BST_DEVICE) = 1" unfolding realm_type_of_name by simp
  then show ?thesis
    using threshold_request [of "(sample_request BVIEW_BST_CMD_API_SET_THRESHOLD (REQ_DEVICE \<lparr>dev_threshold = 9\<rparr>))
        \<lparr>msg_threshold_type := 1\<rparr>" BVIEW_BST_DEVICE sample_plugins sample_world]
    by (simp add: sample_request_def zero_msg_def sample_unit_feature) (simp add: sample_bst_def)
qed

end
