(* ===== verification/Report_Props.thy ===== *)
theory Report_Props
  imports Bst_Sample
begin

text \<open>Properties of the reports, of clearing and of the triggers, each with its application at a
  concrete input.\<close>

section \<open>Which realms a report contains\<close>

lemma set_realm_included:
  "realm_included k (bst_set_realm_to_collect s p) \<longleftrightarrow> s = realm_name k \<or> realm_included k p"
proof (cases "\<exists>r. s = realm_name r")
  case True
  then obtain r where r: "s = realm_name r" by blast
  have "realm_name r = realm_name k \<longleftrightarrow> k = r" by (cases r; cases k; simp)
  then show ?thesis using set_realm_to_collect_name [of k r p] r by auto
next
  case False
  then have n: "s \<noteq> realm_name r" for r by blast
  have "bst_set_realm_to_collect s p = p"
    using n [of BVIEW_BST_DEVICE] n [of BVIEW_BST_EGRESS_PORT_SP] n [of BVIEW_BST_EGRESS_SP]
      n [of BVIEW_BST_EGRESS_UC_QUEUE] n [of BVIEW_BST_EGRESS_UC_QUEUEGROUPS]
      n [of BVIEW_BST_EGRESS_MC_QUEUE] n [of BVIEW_BST_EGRESS_CPU_QUEUE] n [of BVIEW_BST_EGRESS_RQE_QUEUE]
      n [of BVIEW_BST_INGRESS_PORT_PG] n [of BVIEW_BST_INGRESS_PORT_SP] n [of BVIEW_BST_INGRESS_SP]
    by (simp add: bst_set_realm_to_collect_def)
  then show ?thesis using n by simp
qed

lemma realm_included_fields [simp]:
  "realm_included k (p\<lparr>reportTrigger := a\<rparr>) = realm_included k p"
  "realm_included k (p\<lparr>reportThreshold := a\<rparr>) = realm_included k p"
  "realm_included k (p\<lparr>opt_triggerInfo := f\<rparr>) = realm_included k p"
  "realm_included k (p\<lparr>sendSnapShotOnTrigger := a\<rparr>) = realm_included k p"
  "realm_included k (p\<lparr>opt_sendIncrementalReport := a\<rparr>) = realm_included k p"
  "realm_included k (p\<lparr>opt_statsInPercentage := a\<rparr>) = realm_included k p"
  by (cases k; simp)+

lemma report_options_realms:
  "realm_included k (report_reply_options m cfg p) =
    (if msg_report_type m = BVIEW_BST_STATS_TRIGGER \<and> sendSnapshotOnTrigger cfg = 0
     then trig_realm (msg_triggerInfo m) = realm_name k else realm_included k p)"
  by (simp add: report_reply_options_def Let_def set_realm_included copy_to_resp_included)

lemma config_collect [simp]:
  "unit_valid w i \<Longrightarrow> get_config i (snd (collect_snapshot ps i w)) = get_config i w"
  "unit_valid w i \<Longrightarrow> get_config i (collect_max_buffers ps i w) = get_config i w"
  "unit_valid w i \<Longrightarrow> unit_valid (snd (collect_snapshot ps i w)) i"
  "unit_valid w i \<Longrightarrow> unit_valid (collect_max_buffers ps i w) i"
proof -
  assume v: "unit_valid w i"
  show "get_config i (snd (collect_snapshot ps i w)) = get_config i w" "unit_valid (snd (collect_snapshot ps i w)) i"
    using v by (simp_all add: collect_snapshot_def Let_def split_beta write_record_reads split: option.splits)
  show "get_config i (collect_max_buffers ps i w) = get_config i w" "unit_valid (collect_max_buffers ps i w) i"
    using collect_max_reads [OF v] by simp_all
qed

lemma config_enable [simp]: "get_config i (snd (bst_enable_on_trigger ps m w)) = get_config i w"
  by (simp add: bst_enable_on_trigger_def Let_def split_beta)

lemma config_get_report:
  "unit_valid w (msg_unit m) \<Longrightarrow> msg_type m \<noteq> BVIEW_BST_CMD_API_GET_THRESHOLD \<Longrightarrow>
   get_config (msg_unit m) (snd (snd (bst_get_report ps m w))) = get_config (msg_unit m) w"
  by (simp add: bst_get_report_def Let_def split_beta)

text \<open>C6: a periodic or triggered report contains exactly the realms the unit tracks; without
  snapshots on triggers a triggered report contains only the realm of its trigger.\<close>

theorem report_realms:
  assumes "unit_valid w (msg_unit m)" "msg_unit m < int n"
    "msg_type m = BVIEW_BST_CMD_API_GET_REPORT \<or> msg_type m = BVIEW_BST_CMD_API_TRIGGER_REPORT"
    "msg_report_type m = BVIEW_BST_STATS_PERIODIC \<or> msg_report_type m = BVIEW_BST_STATS_TRIGGER"
    "u = unit_get w (msg_unit m)"
  shows "\<exists>r. sent_responses (app_handle ps n m w) = sent_responses w @ [r]
    \<and> {k. realm_included k (resp_options r)} =
       (if msg_report_type m = BVIEW_BST_STATS_TRIGGER \<and> sendSnapshotOnTrigger (bst_config_ptr u) = 0
        then {k. realm_name k = trig_realm (msg_triggerInfo m)} else {k. realm_tracked k (bst_track_ptr u)})"
proof -
  let ?i = "msg_unit m"
  obtain rv w1 where h: "run_handler H_get_report ps m w = (rv, report_message m w, w1)"
    using assms(3) by (auto simp: bst_get_report_def Let_def split_beta)
  have m1: "msg_unit (report_message m w) = ?i" "msg_type (report_message m w) = msg_type m"
    "msg_report_type (report_message m w) = msg_report_type m"
    "msg_triggerInfo (report_message m w) = msg_triggerInfo m"
    "req_collect (report_message m w) = BST_COPY_TRACK_TO_COLLECT (bst_track_ptr u)"
    using assms(4,5) by (auto simp: report_message_def req_collect_def)
  have "get_config ?i w1 = get_config ?i w"
    using config_get_report [OF assms(1), of ps] assms(3) h by auto
  then have c: "bst_config_ptr (unit_get w1 ?i) = bst_config_ptr u" using assms(5) by (simp add: get_config_def)
  have s: "sent_responses w1 = sent_responses w" using sent_run_handler [of H_get_report ps m w] h by simp
  have "bst_type_api_get (msg_type m) = Inr H_get_report"
    using assms(3) by (auto simp: bst_type_api_get_def bst_api_list_def)
  then have a: "app_handle ps n m w = bst_copy_reply_params (report_message m w) rv w1"
    using assms(1-3) h m1(2) by (auto simp: app_handle_def unit_valid_def)
  have x: "realm_included k (BST_COPY_COLLECT_TO_RESP (BST_COPY_TRACK_TO_COLLECT d) p) = realm_tracked k d" for k d p
    by (rule copy_track_included)
  show ?thesis
    unfolding a bst_copy_reply_params_def Let_def m1 c
    using assms(3) s
    by (auto simp: bst_update_data_def zero_response_def report_options_realms x m1)
qed

definition sample_periodic :: request_msg where
  "sample_periodic = (zero_msg BVIEW_BST_CMD_API_GET_REPORT 0)\<lparr>msg_report_type := BVIEW_BST_STATS_PERIODIC\<rparr>"

lemma sample_periodic_simps [simp]:
  "msg_unit sample_periodic = 0" "msg_type sample_periodic = BVIEW_BST_CMD_API_GET_REPORT"
  "msg_report_type sample_periodic = BVIEW_BST_STATS_PERIODIC"
  by (simp_all add: sample_periodic_def zero_msg_def)

lemma sample_tracked: "{k. realm_tracked k (bst_track_ptr sample_unit)} = {BVIEW_BST_DEVICE}"
proof -
  have "realm_tracked k default_track \<longleftrightarrow> k = BVIEW_BST_DEVICE" for k
    by (cases k) (simp_all add: default_track_def zero_track_params_def Let_def)
  then show ?thesis by (simp add: sample_unit_def)
qed

theorem report_realms_witness:
  "\<exists>r. sent_responses (app_handle sample_plugins 1 sample_periodic sample_world) = [r]
     \<and> {k. realm_included k (resp_options r)} = {BVIEW_BST_DEVICE}"
  using report_realms [of sample_world sample_periodic 1 sample_unit sample_plugins] sample_tracked by simp

section \<open>What a report carries\<close>

text \<open>C5: a report request answers the snapshot just taken from the silicon; a periodic
  incremental report also carries the previous report, untouched by the new collection.\<close>

theorem report_answer:
  assumes "unit_valid w (msg_unit m)" "msg_unit m < int n" "msg_type m = BVIEW_BST_CMD_API_GET_REPORT"
    "distinct (record_ptrs (unit_get w (msg_unit m)))"
    "sbapi_bst_snapshot_get ps (msg_unit m) (sb_hw w) = (BVIEW_STATUS_SUCCESS, Some (s, t), h1)"
  shows "\<exists>r. sent_responses (app_handle ps n m w) = sent_responses w @ [r]
    \<and> resp_rv r = BVIEW_STATUS_SUCCESS
    \<and> resp_active r = Some \<lparr>rec_tv = t, rec_snapshot = s\<rparr>
    \<and> resp_backup r = (if msg_report_type m = BVIEW_BST_STATS_PERIODIC
           \<and> sendIncrementalReport (get_config (msg_unit m) w) \<noteq> 0
         then Some (read_record (msg_unit m) (stats_active_record_ptr (unit_get w (msg_unit m))) w)
         else None)"
  using report_turn [OF assms] .

theorem report_answer_witness:
  "\<exists>r. sent_responses (app_handle sample_plugins 1 sample_periodic
          (sample_world\<lparr>sb_hw := zero_bst_config\<lparr>enableStatsMonitoring := True\<rparr>\<rparr>)) = [r]
     \<and> resp_rv r = BVIEW_STATUS_SUCCESS \<and> resp_active r = Some \<lparr>rec_tv = 7, rec_snapshot = zero_snapshot\<rparr>"
proof -
  let ?w = "sample_world\<lparr>sb_hw := zero_bst_config\<lparr>enableStatsMonitoring := True\<rparr>\<rparr>"
  have "distinct (record_ptrs (unit_get ?w (msg_unit sample_periodic)))"
    by (simp add: sample_unit_def allocated_unit_def record_ptrs_def)
  moreover have "sbapi_bst_snapshot_get sample_plugins (msg_unit sample_periodic) (sb_hw ?w) =
      (BVIEW_STATUS_SUCCESS, Some (zero_snapshot, 7), sb_hw ?w)" by simp
  ultimately show ?thesis
    using report_answer [of ?w sample_periodic 1 sample_plugins] by fastforce
qed

text \<open>A triggered report whose collection failed without delivering anything is still answered as a
  success, with the zeroed record, when re-enabling the monitoring succeeds.\<close>

lemma failed_trigger_report:
  assumes "unit_valid w (msg_unit m)" "msg_unit m < int n" "msg_type m = BVIEW_BST_CMD_API_TRIGGER_REPORT"
    "sbapi_bst_snapshot_get ps (msg_unit m) (sb_hw w) = (e, None, h1)" "e \<noteq> BVIEW_STATUS_SUCCESS"
    "statsInPercentage (get_config (msg_unit m) w) \<noteq> 1"
    "sbapi_bst_config_get ps (msg_unit m) h1 = (e2, out, h2)"
    "\<And>c. sbapi_bst_config_set ps (msg_unit m) c h2 = (BVIEW_STATUS_SUCCESS, Some (), push c)"
  shows "\<exists>r. sent_responses (app_handle ps n m w) = sent_responses w @ [r]
    \<and> resp_rv r = BVIEW_STATUS_SUCCESS \<and> resp_active r = Some zero_report"
  using trigger_report_status [OF assms(1-4,6-8)] .

definition sample_trigger_report :: request_msg where
  "sample_trigger_report = (zero_msg BVIEW_BST_CMD_API_TRIGGER_REPORT 0)\<lparr>msg_report_type := BVIEW_BST_STATS_TRIGGER\<rparr>"

lemma failed_trigger_report_witness:
  "\<exists>r. sent_responses (app_handle sample_plugins 1 sample_trigger_report sample_world) = [r]
     \<and> resp_rv r = BVIEW_STATUS_SUCCESS \<and> resp_active r = Some zero_report"
proof -
  have m: "msg_unit sample_trigger_report = 0" "msg_type sample_trigger_report = BVIEW_BST_CMD_API_TRIGGER_REPORT"
    by (simp_all add: sample_trigger_report_def zero_msg_def)
  have "sbapi_bst_snapshot_get sample_plugins 0 (sb_hw sample_world) = (BVIEW_STATUS_FAILURE, None, zero_bst_config)"
    by (simp add: zero_bst_config_def)
  then show ?thesis
    using failed_trigger_report [of sample_world sample_trigger_report 1 sample_plugins BVIEW_STATUS_FAILURE
        zero_bst_config BVIEW_STATUS_SUCCESS "Some zero_bst_config" zero_bst_config "\<lambda>c. c"] m
    by (simp add: default_config_def)
qed

section \<open>Clearing\<close>

text \<open>Clearing the statistics of a unit zeroes its three statistics records, whatever
  the silicon answers, and keeps the threshold record.\<close>

lemma clear_statistics:
  assumes "unit_valid w (msg_unit m)" "bst_clear_stats_set ps m w = (rv, w')" "u = unit_get w (msg_unit m)"
    "distinct (record_ptrs u)"
  shows "(\<forall>q\<in>{stats_active_record_ptr u, stats_backup_record_ptr u, stats_current_record_ptr u}.
      read_record (msg_unit m) q w' = zero_report)
    \<and> read_record (msg_unit m) (threshold_record_ptr u) w' = read_record (msg_unit m) (threshold_record_ptr u) w"
proof -
  have "read_record (msg_unit m) (threshold_record_ptr u) w' = read_record (msg_unit m) (threshold_record_ptr u) w"
    using assms
    by (auto simp: bst_clear_stats_set_def Let_def write_record_reads hw_call_def record_ptrs_def split: prod.splits)
  then show ?thesis using clear_stats_records [OF assms(1,2) _ assms(3)] by auto
qed

lemma clear_statistics_witness:
  "read_record 0 1 (snd (bst_clear_stats_set sample_plugins (sample_request BVIEW_BST_CMD_API_CLEAR_STATS REQ_NONE)
     sample_world)) = zero_report"
  using clear_statistics [OF _ prod.collapse [symmetric] refl, of sample_world
      "sample_request BVIEW_BST_CMD_API_CLEAR_STATS REQ_NONE" sample_plugins]
  by (simp add: sample_unit_def allocated_unit_def record_ptrs_def)

text \<open>Clearing the thresholds zeroes the unit's threshold record exactly when the silicon accepts;
  the statistics records stay.\<close>

lemma clear_thresholds:
  assumes "unit_valid w (msg_unit m)" "bst_clear_threshold_set ps m w = (rv, w')"
    "u = unit_get w (msg_unit m)" "distinct (record_ptrs u)"
  shows "read_record (msg_unit m) (threshold_record_ptr u) w' =
      (if rv = BVIEW_STATUS_SUCCESS then zero_report else read_record (msg_unit m) (threshold_record_ptr u) w)
    \<and> read_record (msg_unit m) (stats_active_record_ptr u) w' = read_record (msg_unit m) (stats_active_record_ptr u) w"
proof -
  have "read_record (msg_unit m) (stats_active_record_ptr u) w' = read_record (msg_unit m) (stats_active_record_ptr u) w"
    using assms
    by (auto simp: bst_clear_threshold_set_def Let_def write_record_reads hw_call_def record_ptrs_def
        split: prod.splits if_splits)
  then show ?thesis using clear_thresholds_record [OF assms(1,2)] assms(3) by simp
qed

lemma clear_thresholds_witness:
  "read_record 0 4 (snd (bst_clear_threshold_set sample_plugins
     (sample_request BVIEW_BST_CMD_API_CLEAR_THRESHOLD REQ_NONE) sample_world)) = zero_report"
proof -
  have "fst (bst_clear_threshold_set sample_plugins (sample_request BVIEW_BST_CMD_API_CLEAR_THRESHOLD REQ_NONE)
      sample_world) = BVIEW_STATUS_SUCCESS"
    by (simp add: bst_clear_threshold_set_def hw_call_def)
  then show ?thesis
    using clear_thresholds [OF _ prod.collapse [symmetric] refl, of sample_world
        "sample_request BVIEW_BST_CMD_API_CLEAR_THRESHOLD REQ_NONE" sample_plugins]
    by (simp add: sample_unit_def allocated_unit_def record_ptrs_def)
qed

section \<open>Triggers\<close>

definition device_trigger :: request_msg where
  "device_trigger = (zero_msg BVIEW_BST_CMD_API_TRIGGER_COLLECT 0)
     \<lparr>msg_triggerInfo := \<lparr>trig_realm = ''device'', trig_counter = ''data'', trig_port = 0, trig_queue = 0\<rparr>\<rparr>"

definition cpu_trigger :: request_msg where
  "cpu_trigger = (zero_msg BVIEW_BST_CMD_API_TRIGGER_COLLECT 0)
     \<lparr>msg_triggerInfo := \<lparr>trig_realm = ''egress-cpu-queue'', trig_counter = ''cpu-buffer-count'',
        trig_port = 0, trig_queue = 0\<rparr>\<rparr>"

lemma sample_trigger_simps:
  "msg_unit device_trigger = 0" "msg_unit cpu_trigger = 0"
  "trigger_key device_trigger = Some 0" "trigger_key cpu_trigger = None"
  "counts 0 sample_world = replicate BST_ID_MAX 0" "counts_ok 0 sample_world"
  "bstMaxTriggers default_config = 1"
  using trigger_index_cpu
  by (simp_all add: device_trigger_def cpu_trigger_def zero_msg_def trigger_key_def
      bst_trigger_index_get_def bst_realm_index_map_def counts_def counts_ok_def sample_unit_def
      allocated_unit_def default_config_def)

lemma sample_trig_ok: "trig_ok 0 sample_world" "trig_period 0 sample_world = 1000"
proof -
  have "unit_timers_ok 0 sample_world" using sample_inv by (simp add: sys_inv_def timers_inv_def)
  then show "trig_ok 0 sample_world" unfolding unit_timers_ok_def by blast
qed (simp add: trig_period_def default_config_def BVIEW_BST_TIME_CONVERSION_FACTOR_def)

text \<open>C29: between two clearings of the counters, whatever triggers, clearings and
  readings of the queue come, a trigger counter causes at most as many reports as the unit is
  configured for, as long as fewer than 2^32 triggers come.\<close>

theorem limiter_bounds_reports:
  assumes "limiter_reach i w0 (w, r, k)" "counts_ok i w0" "bstMaxTriggers (get_config i w0) = mx"
    "0 < mx" "mx < 2 ^ 32" "\<forall>c\<in>set (counts i w0). c = 0" "j < BST_ID_MAX"
  shows "int (r j) \<le> mx"
  using limiter_reach_inv [OF assms(1,2) _ _ assms(6)] assms(3-5,7)
  by (auto simp: limiter_inv_def)

theorem limiter_bounds_reports_witness:
  "reports_after device_trigger (snd (bst_process_trigger device_trigger sample_world))
     (snd (bst_process_trigger device_trigger (snd (bst_process_trigger device_trigger sample_world))))
     (reports_after device_trigger sample_world (snd (bst_process_trigger device_trigger sample_world)) (\<lambda>_. 0)) 0 \<le> 1"
proof -
  let ?w1 = "snd (bst_process_trigger device_trigger sample_world)"
  let ?w2 = "snd (bst_process_trigger device_trigger ?w1)"
  have "limiter_step 0 (sample_world, \<lambda>_. 0, 0) (?w1, reports_after device_trigger sample_world ?w1 (\<lambda>_. 0), Suc 0)"
    by (rule limiter_step.trigger) (simp_all add: sample_trigger_simps)
  moreover have "limiter_step 0 (?w1, reports_after device_trigger sample_world ?w1 (\<lambda>_. 0), Suc 0)
      (?w2, reports_after device_trigger ?w1 ?w2 (reports_after device_trigger sample_world ?w1 (\<lambda>_. 0)), Suc (Suc 0))"
    by (rule limiter_step.trigger) (simp_all add: sample_trigger_simps)
  ultimately have "limiter_reach 0 sample_world
      (?w2, reports_after device_trigger ?w1 ?w2 (reports_after device_trigger sample_world ?w1 (\<lambda>_. 0)), Suc (Suc 0))"
    using limiter_reach.step [OF limiter_reach.step [OF limiter_reach.start]] by blast
  from limiter_bounds_reports [OF this sample_trigger_simps(6), of 1 0]
  show ?thesis by (simp add: sample_trigger_simps BST_ID_MAX_def)
qed

text \<open>The first trigger of a counter in an interval is reported when the queue has room, and
  starts the unit's trigger timer.\<close>

lemma first_trigger:
  assumes "trigger_key m = Some j" "counts (msg_unit m) w ! j = 0"
    "0 < bstMaxTriggers (get_config (msg_unit m) w)" "bstMaxTriggers (get_config (msg_unit m) w) < 2 ^ 32"
    "length (bst_msgq w) < msgq_limit w" "trig_ok (msg_unit m) w"
    "length (timers (kernel w)) < timer_limit (kernel w)" "0 \<le> trig_period (msg_unit m) w"
    "bst_process_trigger m w = (rv, w')"
  shows "rv = BVIEW_STATUS_SUCCESS \<and> bst_msgq w' = bst_msgq w @ [trigger_report_msg m]
    \<and> trig_flag (msg_unit m) w'"
proof -
  have p: "bst_process_trigger m w = (BVIEW_STATUS_SUCCESS, trigger_sent m j w)"
    using first_trigger_reported [OF assms(1,2) refl assms(3,4,5)] .
  have "unit_valid w (msg_unit m)" using assms(6) by (simp add: trig_wf_def)
  then show ?thesis
    using p assms(3,9) trigger_sent_frame(3) [of w m j] first_report_starts_timer [OF assms(6,2) _ assms(7,8)] by auto
qed

lemma first_trigger_witness:
  "bst_msgq (snd (bst_process_trigger device_trigger sample_world)) = [trigger_report_msg device_trigger]"
  using first_trigger [OF sample_trigger_simps(3) _ _ _ _ _ _ _ prod.collapse [symmetric], of sample_world]
    sample_trig_ok
  by (simp add: sample_trigger_simps BST_ID_MAX_def)

text \<open>The end of an interval zeroes every counter of the unit, and the trigger timer goes
  on exactly when something was counted in the interval.\<close>

lemma interval_end:
  assumes "trig_ok (msg_unit m) w" "bst_clear_trigger_count m w = (rv, w')"
  shows "counts (msg_unit m) w' = replicate BST_ID_MAX 0
    \<and> trig_flag (msg_unit m) w' = (trig_flag (msg_unit m) w \<and> (\<exists>c\<in>set (counts (msg_unit m) w). c \<noteq> 0))"
proof -
  have "unit_valid w (msg_unit m)" using assms(1) by (simp add: trig_wf_def)
  then show ?thesis using clear_count_frame(1) [OF _ assms(2)] clear_stops_idle_timer(2) [OF assms] by blast
qed

lemma interval_end_witness:
  "counts 0 (snd (bst_clear_trigger_count device_trigger sample_world)) = replicate BST_ID_MAX 0"
  using interval_end [OF _ prod.collapse [symmetric], of device_trigger sample_world] sample_trig_ok(1)
  by (simp add: sample_trigger_simps)



end
