(* ===== verification/Platform.thy ===== *)
theory Platform
  imports Bview_Prelude
begin

text \<open>The limits of src/platform, one header per board; the build selects one. The header of UB-OVSDB
  has the values of Trident2.\<close>

section \<open>Limits of the thresholds\<close>

record platform =
  BVIEW_BST_UCAST_THRES_DEFAULT :: int
  BVIEW_BST_MCAST_THRES_DEFAULT :: int
  BVIEW_BST_E_P_SP_UC_THRES_DEFAULT :: int
  BVIEW_BST_E_P_SP_UCMC_THRES_DEFAULT :: int
  BVIEW_BST_E_SP_UCMC_THRES_DEFAULT :: int
  BVIEW_BST_E_SP_MC_THRES_DEFAULT :: int
  BVIEW_BST_E_CPU_UCMC_THRES_DEFAULT :: int
  BVIEW_BST_E_RQE_THRES_DEFAULT :: int
  BVIEW_BST_I_P_PG_UCMC_SHARED_THRES_DEFAULT :: int
  BVIEW_BST_I_P_PG_UCMC_HDRM_THRES_DEFAULT :: int
  BVIEW_BST_I_P_SP_UCMC_SHARED_THRES_DEFAULT :: int
  BVIEW_BST_I_SP_UCMC_SHARED_THRES_DEFAULT :: int
  BVIEW_BST_DEVICE_THRES_DEFAULT :: int
  BVIEW_BST_UCAST_QUEUE_GROUP_DEFAULT :: int

definition trident2_platform :: platform where
  "trident2_platform = \<lparr>BVIEW_BST_UCAST_THRES_DEFAULT = 0x3FFF * 208,
     BVIEW_BST_MCAST_THRES_DEFAULT = 0x1FFFF * 208,
     BVIEW_BST_E_P_SP_UC_THRES_DEFAULT = 0x3FFF * 208,
     BVIEW_BST_E_P_SP_UCMC_THRES_DEFAULT = 0x1FFFF * 208,
     BVIEW_BST_E_SP_UCMC_THRES_DEFAULT = 0x1FFFF * 208,
     BVIEW_BST_E_SP_MC_THRES_DEFAULT = 0x1FFFF * 208,
     BVIEW_BST_E_CPU_UCMC_THRES_DEFAULT = 0x1FFFF * 208,
     BVIEW_BST_E_RQE_THRES_DEFAULT = 0x1FFFF * 208,
     BVIEW_BST_I_P_PG_UCMC_SHARED_THRES_DEFAULT = 0x1FFFF * 208,
     BVIEW_BST_I_P_PG_UCMC_HDRM_THRES_DEFAULT = 0xFFF * 208,
     BVIEW_BST_I_P_SP_UCMC_SHARED_THRES_DEFAULT = 0x1FFFF * 208,
     BVIEW_BST_I_SP_UCMC_SHARED_THRES_DEFAULT = 0x1FFFF * 208,
     BVIEW_BST_DEVICE_THRES_DEFAULT = 0x1FFFF * 208,
     BVIEW_BST_UCAST_QUEUE_GROUP_DEFAULT = 0x3FFF * 208\<rparr>"

definition tomahawk_platform :: platform where
  "tomahawk_platform = \<lparr>BVIEW_BST_UCAST_THRES_DEFAULT = 0xFFF * 208,
     BVIEW_BST_MCAST_THRES_DEFAULT = 0x7FFF * 208,
     BVIEW_BST_E_P_SP_UC_THRES_DEFAULT = 0x7FFF * 208,
     BVIEW_BST_E_P_SP_UCMC_THRES_DEFAULT = 0x7FFF * 208,
     BVIEW_BST_E_SP_UCMC_THRES_DEFAULT = 0x7FFF * 208,
     BVIEW_BST_E_SP_MC_THRES_DEFAULT = 0x7FFF * 208,
     BVIEW_BST_E_CPU_UCMC_THRES_DEFAULT = 0x7FFF * 208,
     BVIEW_BST_E_RQE_THRES_DEFAULT = 0x7FFF * 208,
     BVIEW_BST_I_P_PG_UCMC_SHARED_THRES_DEFAULT = 0x7FFF * 208,
     BVIEW_BST_I_P_PG_UCMC_HDRM_THRES_DEFAULT = 0x7FFF * 208,
     BVIEW_BST_I_P_SP_UCMC_SHARED_THRES_DEFAULT = 0x7FFF * 208,
     BVIEW_BST_I_SP_UCMC_SHARED_THRES_DEFAULT = 0x7FFF * 208,
     BVIEW_BST_DEVICE_THRES_DEFAULT = 0x7FFF * 208,
     BVIEW_BST_UCAST_QUEUE_GROUP_DEFAULT = 0xFFF * 208\<rparr>"

section \<open>Default sizes of the buffers\<close>

record platform_buffers =
  SB_BRCM_BST_STAT_ID_DEVICE_DEFAULT :: int
  SB_BRCM_BST_STAT_ID_PRI_GROUP_SHARED_DEFAULT :: int
  SB_BRCM_BST_STAT_ID_PRI_GROUP_HEADROOM_DEFAULT :: int
  SB_BRCM_BST_STAT_ID_PORT_POOL_DEFAULT :: int
  SB_BRCM_BST_STAT_ID_ING_POOL_DEFAULT :: int
  SB_BRCM_BST_STAT_ID_EGR_UCAST_PORT_SHARED_DEFAULT :: int
  SB_BRCM_BST_STAT_ID_EGR_PORT_SHARED_DEFAULT :: int
  SB_BRCM_BST_STAT_ID_EGR_MCAST_PORT_SHARED_DEFAULT :: int
  SB_BRCM_BST_STAT_ID_EGR_POOL_DEFAULT :: int
  SB_BRCM_BST_STAT_ID_EGR_MCAST_POOL_DEFAULT :: int
  SB_BRCM_BST_STAT_ID_UCAST_DEFAULT :: int
  SB_BRCM_BST_STAT_ID_UCAST_GROUP_DEFAULT :: int
  SB_BRCM_BST_STAT_ID_MCAST_DEFAULT :: int
  SB_BRCM_BST_STAT_ID_CPU_DEFAULT :: int
  SB_BRCM_BST_STAT_ID_RQE_QUEUE_DEFAULT :: int
  SB_BRCM_BST_STAT_ID_RQE_POOL_DEFAULT :: int

definition trident2_buffers :: platform_buffers where
  "trident2_buffers = \<lparr>SB_BRCM_BST_STAT_ID_DEVICE_DEFAULT = 0xFFFF * 208,
     SB_BRCM_BST_STAT_ID_PRI_GROUP_SHARED_DEFAULT = 0xFFFF * 208,
     SB_BRCM_BST_STAT_ID_PRI_GROUP_HEADROOM_DEFAULT = 0xFFFF * 208,
     SB_BRCM_BST_STAT_ID_PORT_POOL_DEFAULT = 0xEA77 * 208,
     SB_BRCM_BST_STAT_ID_ING_POOL_DEFAULT = 0xDC0B * 208,
     SB_BRCM_BST_STAT_ID_EGR_UCAST_PORT_SHARED_DEFAULT = 0xD942 * 208,
     SB_BRCM_BST_STAT_ID_EGR_PORT_SHARED_DEFAULT = 0xD942 * 208,
     SB_BRCM_BST_STAT_ID_EGR_MCAST_PORT_SHARED_DEFAULT = 0xD942 * 208,
     SB_BRCM_BST_STAT_ID_EGR_POOL_DEFAULT = 0xEA81 * 208,
     SB_BRCM_BST_STAT_ID_EGR_MCAST_POOL_DEFAULT = 0xEA81 * 208,
     SB_BRCM_BST_STAT_ID_UCAST_DEFAULT = 0xEA77 * 208,
     SB_BRCM_BST_STAT_ID_UCAST_GROUP_DEFAULT = 0x1FF * 208,
     SB_BRCM_BST_STAT_ID_MCAST_DEFAULT = 0xEA77 * 208,
     SB_BRCM_BST_STAT_ID_CPU_DEFAULT = 0xEA81 * 208,
     SB_BRCM_BST_STAT_ID_RQE_QUEUE_DEFAULT = 0xEA77 * 208,
     SB_BRCM_BST_STAT_ID_RQE_POOL_DEFAULT = 0xEA77 * 208\<rparr>"

definition tomahawk_buffers :: platform_buffers where
  "tomahawk_buffers = \<lparr>SB_BRCM_BST_STAT_ID_DEVICE_DEFAULT = 0x55C8 * 208,
     SB_BRCM_BST_STAT_ID_PRI_GROUP_SHARED_DEFAULT = 0xFFFF * 208,
     SB_BRCM_BST_STAT_ID_PRI_GROUP_HEADROOM_DEFAULT = 0xFFFF * 208,
     SB_BRCM_BST_STAT_ID_PORT_POOL_DEFAULT = 0x4EC5 * 208,
     SB_BRCM_BST_STAT_ID_ING_POOL_DEFAULT = 0x21FC * 208,
     SB_BRCM_BST_STAT_ID_EGR_UCAST_PORT_SHARED_DEFAULT = 0x4EC5 * 208,
     SB_BRCM_BST_STAT_ID_EGR_PORT_SHARED_DEFAULT = 0x4EC5 * 208,
     SB_BRCM_BST_STAT_ID_EGR_MCAST_PORT_SHARED_DEFAULT = 0x4EC5 * 208,
     SB_BRCM_BST_STAT_ID_EGR_POOL_DEFAULT = 0x4D0D * 208,
     SB_BRCM_BST_STAT_ID_EGR_MCAST_POOL_DEFAULT = 0x4D0D * 208,
     SB_BRCM_BST_STAT_ID_UCAST_DEFAULT = 0x4D0D * 208,
     SB_BRCM_BST_STAT_ID_UCAST_GROUP_DEFAULT = 0x4D0D * 208,
     SB_BRCM_BST_STAT_ID_MCAST_DEFAULT = 0x4D0D * 208,
     SB_BRCM_BST_STAT_ID_CPU_DEFAULT = 0x4D0D * 208,
     SB_BRCM_BST_STAT_ID_RQE_QUEUE_DEFAULT = 0x4D0D * 208,
     SB_BRCM_BST_STAT_ID_RQE_POOL_DEFAULT = 0x4D0D * 208\<rparr>"

end
