(* ===== verification/Bst_Decode.thy ===== *)
theory Bst_Decode
  imports Bst_Core Json
begin

unbundle bit_operations_syntax

text \<open>The decoders of the BST commands, one file of apps/bst/api each: from the text of a request
  to the parameter structure of its command. They share the checks on the envelope of the request
  (bst_envelope). A decoder returns early with a status; the only effect it can have before is that
  of translating the notation of the unit or of a port, which asks the plugin. cJSON_Parse is a
  parameter; releasing the parsed tree has no effect on the model.\<close>

section \<open>Notations\<close>

definition JSON_ASIC_ID_MAP_FROM_NOTATION ::
  "'hw plugin_entry list \<Rightarrow> string \<Rightarrow> 'hw \<Rightarrow> int result \<times> 'hw" where
  "JSON_ASIC_ID_MAP_FROM_NOTATION ps asicStr hw =
     (case sbapi_system_asic_translate_from_notation ps asicStr hw of
        (rv, out, hw1) \<Rightarrow>
          (if rv \<noteq> BVIEW_STATUS_SUCCESS then Inl BVIEW_STATUS_INVALID_JSON else Inr (filled 0 out), hw1))"

definition JSON_PORT_MAP_FROM_NOTATION ::
  "'hw plugin_entry list \<Rightarrow> string \<Rightarrow> 'hw \<Rightarrow> int result \<times> 'hw" where
  "JSON_PORT_MAP_FROM_NOTATION ps portStr hw =
     (case sbapi_system_port_translate_from_notation ps portStr hw of
        (rv, out, hw1) \<Rightarrow>
          (if rv \<noteq> BVIEW_STATUS_SUCCESS then Inl BVIEW_STATUS_INVALID_JSON else Inr (filled 0 out), hw1))"

section \<open>Members\<close>

text \<open>A required string member, cut to the 63 characters of its buffer.\<close>

definition string_member :: "json \<Rightarrow> string \<Rightarrow> string result" where
  "string_member j name =
     res_bind (JSON_VALIDATE_POINTER (cJSON_GetObjectItem j name) BVIEW_STATUS_INVALID_JSON) (\<lambda>v.
       JSON_VALIDATE_JSON_AS_STRING v BVIEW_STATUS_INVALID_JSON)"

definition node_string :: "json \<Rightarrow> string \<Rightarrow> string result" where
  "node_string j name = res_bind (string_member j name) (\<lambda>s. Inr (take (JSON_MAX_NODE_LENGTH - 1) s))"

text \<open>A required number in a range.\<close>

definition range_member :: "json \<Rightarrow> string \<Rightarrow> int \<Rightarrow> int \<Rightarrow> int result" where
  "range_member j name lo hi =
     res_bind (JSON_VALIDATE_POINTER (cJSON_GetObjectItem j name) BVIEW_STATUS_INVALID_JSON) (\<lambda>v.
     res_bind (JSON_VALIDATE_JSON_AS_NUMBER v) (\<lambda>n.
     res_bind (JSON_CHECK_VALUE_AND_CLEANUP n lo hi) (\<lambda>_. Inr n)))"

text \<open>Steps that fill a structure: a required member in a range, one that may be missing, and one
  that may be missing and takes any number.\<close>

definition required :: "json \<Rightarrow> string \<Rightarrow> int \<Rightarrow> int \<Rightarrow> (int \<Rightarrow> 'c \<Rightarrow> 'c) \<Rightarrow> 'c \<Rightarrow> 'c result" where
  "required j name lo hi upd c = res_bind (range_member j name lo hi) (\<lambda>n. Inr (upd n c))"

definition if_present :: "json \<Rightarrow> string \<Rightarrow> int \<Rightarrow> int \<Rightarrow> (int \<Rightarrow> 'c \<Rightarrow> 'c) \<Rightarrow> 'c \<Rightarrow> 'c result" where
  "if_present j name lo hi upd c =
     (if cJSON_GetObjectItem j name = None then Inr c else required j name lo hi upd c)"

definition any_if_present :: "json \<Rightarrow> string \<Rightarrow> (int \<Rightarrow> 'c \<Rightarrow> 'c) \<Rightarrow> 'c \<Rightarrow> 'c result" where
  "any_if_present j name upd c =
     (case cJSON_GetObjectItem j name of None \<Rightarrow> Inr c
      | Some v \<Rightarrow> res_bind (JSON_VALIDATE_JSON_AS_NUMBER v) (\<lambda>n. Inr (upd n c)))"

primrec res_chain :: "('c \<Rightarrow> 'c result) list \<Rightarrow> 'c \<Rightarrow> 'c result" where
  "res_chain [] c = Inr c"
| "res_chain (f # fs) c = res_bind (f c) (res_chain fs)"

section \<open>The envelope\<close>

text \<open>What every decoder does first: the text and its parse tree, the version, the method, the
  unit in its notation and the request id. The length check compares with strlen as an unsigned
  number, which no negative length passes.\<close>

definition bst_envelope_text ::
  "(string \<Rightarrow> json option) \<Rightarrow> string \<Rightarrow> nat option \<Rightarrow> string option \<Rightarrow> int \<Rightarrow> (json \<times> json \<times> string) result" where
  "bst_envelope_text cJSON_Parse name cookie jsonBuffer bufLength =
     res_bind (JSON_VALIDATE_POINTER cookie BVIEW_STATUS_INVALID_PARAMETER) (\<lambda>_.
     res_bind (JSON_VALIDATE_POINTER jsonBuffer BVIEW_STATUS_INVALID_PARAMETER) (\<lambda>buf.
     res_bind (check (0 \<le> bufLength \<and> bufLength \<le> int (length buf)) BVIEW_STATUS_INVALID_PARAMETER) (\<lambda>_.
     res_bind (JSON_VALIDATE_POINTER (cJSON_Parse buf) BVIEW_STATUS_INVALID_JSON) (\<lambda>root.
     res_bind (JSON_VALIDATE_POINTER (cJSON_GetObjectItem root ''params'') BVIEW_STATUS_INVALID_JSON) (\<lambda>params.
     res_bind (node_string root ''jsonrpc'') (\<lambda>jsonrpc.
     res_bind (JSON_COMPARE_STRINGS_AND_CLEANUP jsonrpc ''2.0'') (\<lambda>_.
     res_bind (node_string root ''method'') (\<lambda>method.
     res_bind (JSON_COMPARE_STRINGS_AND_CLEANUP method name) (\<lambda>_.
     res_bind (string_member root ''asic-id'') (\<lambda>asicStr.
     Inr (root, params, asicStr)))))))))))"

definition bst_envelope ::
  "(string \<Rightarrow> json option) \<Rightarrow> 'hw plugin_entry list \<Rightarrow> string \<Rightarrow> nat option \<Rightarrow> string option \<Rightarrow> int
     \<Rightarrow> 'hw \<Rightarrow> (json \<times> int \<times> int) result \<times> 'hw" where
  "bst_envelope cJSON_Parse ps name cookie jsonBuffer bufLength hw =
     (case bst_envelope_text cJSON_Parse name cookie jsonBuffer bufLength of
        Inl e \<Rightarrow> (Inl e, hw)
      | Inr (root, params, asicStr) \<Rightarrow>
          (case JSON_ASIC_ID_MAP_FROM_NOTATION ps asicStr hw of
             (Inl e, hw1) \<Rightarrow> (Inl e, hw1)
           | (Inr asicId, hw1) \<Rightarrow>
               (res_bind (range_member root ''id'' 1 100000) (\<lambda>i. Inr (params, asicId, i)), hw1)))"

section \<open>The parameters of each command\<close>

definition feature_set :: "nat \<Rightarrow> (int \<Rightarrow> config_params \<Rightarrow> config_params) \<Rightarrow> int \<Rightarrow> config_params \<Rightarrow> config_params" where
  "feature_set p upd v c = (upd v c)\<lparr>configMask := configMask c OR push_bit p 1\<rparr>"

definition decode_configure_bst_feature :: "json \<Rightarrow> config_params result" where
  "decode_configure_bst_feature params = res_chain
     [required params ''bst-enable'' 0 1
        (feature_set BST_CONFIG_PARAMS_ENABLE (\<lambda>v. bstEnable_update (\<lambda>_. v))),
      required params ''send-async-reports'' 0 1
        (feature_set BST_CONFIG_PARAMS_SND_ASYNC_REP (\<lambda>v. sendAsyncReports_update (\<lambda>_. v))),
      required params ''collection-interval'' 0 600
        (feature_set BST_CONFIG_PARAMS_COLL_INTRVL (\<lambda>v. collectionInterval_update (\<lambda>_. v))),
      required params ''stat-units-in-cells'' 0 1
        (feature_set BST_CONFIG_PARAMS_STATS_UNITS (\<lambda>v. statUnitsInCells_update (\<lambda>_. v))),
      if_present params ''trigger-rate-limit'' 1 30
        (feature_set BST_CONFIG_PARAMS_TGR_RATE_LIMIT (\<lambda>v. bstMaxTriggers_update (\<lambda>_. v))),
      if_present params ''send-snapshot-on-trigger'' 0 1
        (feature_set BST_CONFIG_PARAMS_SND_SNAP_TGR (\<lambda>v. sendSnapshotOnTrigger_update (\<lambda>_. v))),
      if_present params ''trigger-rate-limit-interval'' 1 60
        (feature_set BST_CONFIG_PARAMS_TGR_RL_INTVL (\<lambda>v. triggerTransmitInterval_update (\<lambda>_. v))),
      if_present params ''async-full-reports'' 0 1
        (feature_set BST_CONFIG_PARAMS_ASYNC_FULL_REP (\<lambda>v. sendIncrementalReport_update (\<lambda>_. v))),
      if_present params ''stats-in-percentage'' 0 1
        (feature_set BST_CONFIG_PARAMS_STATS_IN_PERCENT (\<lambda>v. statsInPercentage_update (\<lambda>_. v)))]
     zero_config_params"

text \<open>The tracking and report flags are all required and 0 or 1; a tracking flag that is set puts the bit of its realm into the mask.\<close>

definition track_set :: "bst_realm \<Rightarrow> (int \<Rightarrow> track_params \<Rightarrow> track_params) \<Rightarrow> int \<Rightarrow> track_params \<Rightarrow> track_params" where
  "track_set r upd v c =
     (let c1 = upd v c in if v \<noteq> 0 then c1\<lparr>trackMask := trackMask c1 OR realm_bit r\<rparr> else c1)"

definition decode_configure_bst_tracking :: "json \<Rightarrow> track_params result" where
  "decode_configure_bst_tracking params = res_chain
     (map (\<lambda>(name, upd). required params name 0 1 upd)
     [(''track-peak-stats'', \<lambda>v. trackPeakStats_update (\<lambda>_. v)),
      (''track-ingress-port-priority-group'', track_set BVIEW_BST_INGRESS_PORT_PG (\<lambda>v. trackIngressPortPriorityGroup_update (\<lambda>_. v))),
      (''track-ingress-port-service-pool'', track_set BVIEW_BST_INGRESS_PORT_SP (\<lambda>v. trackIngressPortServicePool_update (\<lambda>_. v))),
      (''track-ingress-service-pool'', track_set BVIEW_BST_INGRESS_SP (\<lambda>v. trackIngressServicePool_update (\<lambda>_. v))),
      (''track-egress-port-service-pool'', track_set BVIEW_BST_EGRESS_PORT_SP (\<lambda>v. trackEgressPortServicePool_update (\<lambda>_. v))),
      (''track-egress-service-pool'', track_set BVIEW_BST_EGRESS_SP (\<lambda>v. trackEgressServicePool_update (\<lambda>_. v))),
      (''track-egress-uc-queue'', track_set BVIEW_BST_EGRESS_UC_QUEUE (\<lambda>v. trackEgressUcQueue_update (\<lambda>_. v))),
      (''track-egress-uc-queue-group'', track_set BVIEW_BST_EGRESS_UC_QUEUEGROUPS (\<lambda>v. trackEgressUcQueueGroup_update (\<lambda>_. v))),
      (''track-egress-mc-queue'', track_set BVIEW_BST_EGRESS_MC_QUEUE (\<lambda>v. trackEgressMcQueue_update (\<lambda>_. v))),
      (''track-egress-cpu-queue'', track_set BVIEW_BST_EGRESS_CPU_QUEUE (\<lambda>v. trackEgressCpuQueue_update (\<lambda>_. v))),
      (''track-egress-rqe-queue'', track_set BVIEW_BST_EGRESS_RQE_QUEUE (\<lambda>v. trackEgressRqeQueue_update (\<lambda>_. v))),
      (''track-device'', track_set BVIEW_BST_DEVICE (\<lambda>v. trackDevice_update (\<lambda>_. v)))])
     zero_track_params"

definition decode_get_bst_report :: "json \<Rightarrow> stat_collect result" where
  "decode_get_bst_report params = res_chain
     (map (\<lambda>(name, upd). required params name 0 1 upd)
     [(''include-ingress-port-priority-group'', \<lambda>v. includeIngressPortPriorityGroup_update (\<lambda>_. v)),
      (''include-ingress-port-service-pool'', \<lambda>v. includeIngressPortServicePool_update (\<lambda>_. v)),
      (''include-ingress-service-pool'', \<lambda>v. includeIngressServicePool_update (\<lambda>_. v)),
      (''include-egress-port-service-pool'', \<lambda>v. includeEgressPortServicePool_update (\<lambda>_. v)),
      (''include-egress-service-pool'', \<lambda>v. includeEgressServicePool_update (\<lambda>_. v)),
      (''include-egress-uc-queue'', \<lambda>v. includeEgressUcQueue_update (\<lambda>_. v)),
      (''include-egress-uc-queue-group'', \<lambda>v. includeEgressUcQueueGroup_update (\<lambda>_. v)),
      (''include-egress-mc-queue'', \<lambda>v. includeEgressMcQueue_update (\<lambda>_. v)),
      (''include-egress-cpu-queue'', \<lambda>v. includeEgressCpuQueue_update (\<lambda>_. v)),
      (''include-egress-rqe-queue'', \<lambda>v. includeEgressRqeQueue_update (\<lambda>_. v)),
      (''include-device'', \<lambda>v. includeDevice_update (\<lambda>_. v))])
     zero_collect"

text \<open>The parameters of get-bst-thresholds are a structure with the members of a report request, read the
  same way.\<close>

definition decode_get_bst_thresholds :: "json \<Rightarrow> stat_collect result" where
  "decode_get_bst_thresholds params = decode_get_bst_report params"

text \<open>The threshold command: the realm, the port in its notation, the other places with their
  ranges, and any number as a threshold.\<close>

definition decode_threshold_port ::
  "'hw plugin_entry list \<Rightarrow> json \<Rightarrow> threshold_command \<Rightarrow> 'hw \<Rightarrow> threshold_command result \<times> 'hw" where
  "decode_threshold_port ps params c hw =
     (case cJSON_GetObjectItem params ''port'' of
        None \<Rightarrow> (Inr c, hw)
      | Some v \<Rightarrow> (case JSON_VALIDATE_JSON_AS_STRING v BVIEW_STATUS_INVALID_JSON of
            Inl e \<Rightarrow> (Inl e, hw)
          | Inr s \<Rightarrow> (case JSON_PORT_MAP_FROM_NOTATION ps s hw of
                (Inl e, hw1) \<Rightarrow> (Inl e, hw1)
              | (Inr p, hw1) \<Rightarrow> (Inr (c\<lparr>thr_port := p\<rparr>), hw1))))"

definition decode_threshold_values :: "json \<Rightarrow> threshold_command \<Rightarrow> threshold_command result" where
  "decode_threshold_values params = res_chain
     [if_present params ''priority-group'' 0 7 (\<lambda>v. thr_priorityGroup_update (\<lambda>_. v)),
      if_present params ''service-pool'' 0 3 (\<lambda>v. thr_servicePool_update (\<lambda>_. v)),
      if_present params ''queue'' 0 4095 (\<lambda>v. thr_queue_update (\<lambda>_. v)),
      if_present params ''queue-group'' 0 127 (\<lambda>v. thr_queueGroup_update (\<lambda>_. v)),
      any_if_present params ''threshold'' (\<lambda>v. thr_threshold_update (\<lambda>_. v)),
      any_if_present params ''um-share-threshold'' (\<lambda>v. thr_umShareThreshold_update (\<lambda>_. v)),
      any_if_present params ''um-headroom-threshold'' (\<lambda>v. thr_umHeadroomThreshold_update (\<lambda>_. v)),
      any_if_present params ''uc-share-threshold'' (\<lambda>v. thr_ucShareThreshold_update (\<lambda>_. v)),
      any_if_present params ''mc-share-threshold'' (\<lambda>v. thr_mcShareThreshold_update (\<lambda>_. v)),
      any_if_present params ''mc-share-queue-entries-threshold'' (\<lambda>v. thr_mcShareQueueEntriesThreshold_update (\<lambda>_. v)),
      any_if_present params ''uc-threshold'' (\<lambda>v. thr_ucThreshold_update (\<lambda>_. v)),
      any_if_present params ''mc-threshold'' (\<lambda>v. thr_mcThreshold_update (\<lambda>_. v)),
      any_if_present params ''mc-queue-entries-threshold'' (\<lambda>v. thr_mcQueueEntriesThreshold_update (\<lambda>_. v)),
      any_if_present params ''cpu-threshold'' (\<lambda>v. thr_cpuThreshold_update (\<lambda>_. v)),
      any_if_present params ''rqe-threshold'' (\<lambda>v. thr_rqeThreshold_update (\<lambda>_. v))]"

definition decode_configure_bst_thresholds ::
  "'hw plugin_entry list \<Rightarrow> json \<Rightarrow> 'hw \<Rightarrow> threshold_command result \<times> 'hw" where
  "decode_configure_bst_thresholds ps params hw =
     (case node_string params ''realm'' of
        Inl e \<Rightarrow> (Inl e, hw)
      | Inr s \<Rightarrow>
          (case decode_threshold_port ps params (zero_threshold_command\<lparr>thr_realm := s\<rparr>) hw of
             (Inl e, hw1) \<Rightarrow> (Inl e, hw1)
           | (Inr c, hw1) \<Rightarrow> (decode_threshold_values params c, hw1)))"

end
