(* ===== verification/Bst_Nb_Api.thy ===== *)
theory Bst_Nb_Api
  imports Platform Bst_Decode Bst_Main
begin

text \<open>The north-bound side of the BST application (apps/bst/bst_nb_api.c): each decoded command
  becomes a message on the application's queue; a threshold command is validated against the
  capabilities of its unit and the limits of the platform first. With the decoders in front, the
  nine REST handlers of the application (bst_rest_handler), which the module manager hands to the web
  server. Also the notification of the plugin that the configuration changed.\<close>

section \<open>Threshold commands\<close>

text \<open>The shape all threshold checks of public/bst.h share: the value is refused.\<close>

definition threshold_refused :: "int \<Rightarrow> int \<Rightarrow> bool" where
  "threshold_refused limit v = (v \<le> 0 \<or> v > limit)"

text \<open>_BST_INPUT_PARAMS_CHECK of bst_app.h: the place of the threshold against the capabilities;
  the port of a priority group is not checked.\<close>

definition input_params_ok :: "nat \<Rightarrow> asic_capabilities \<Rightarrow> threshold_command \<Rightarrow> bool" where
  "input_params_ok type cap p =
     (\<not> (type = realm_id BVIEW_BST_INGRESS_PORT_PG
           \<and> (0 > thr_priorityGroup p \<or> thr_priorityGroup p \<ge> numPriorityGroups cap))
    \<and> \<not> ((type = realm_id BVIEW_BST_INGRESS_PORT_SP \<or> type = realm_id BVIEW_BST_EGRESS_PORT_SP)
           \<and> (0 > thr_servicePool p \<or> thr_servicePool p \<ge> numServicePools cap \<or> thr_port p > numPorts cap))
    \<and> \<not> ((type = realm_id BVIEW_BST_INGRESS_SP \<or> type = realm_id BVIEW_BST_EGRESS_SP)
           \<and> (0 > thr_servicePool p \<or> thr_servicePool p \<ge> numServicePools cap))
    \<and> \<not> (type = realm_id BVIEW_BST_EGRESS_UC_QUEUE
           \<and> (0 > thr_queue p \<or> thr_queue p \<ge> numUnicastQueues cap))
    \<and> \<not> (type = realm_id BVIEW_BST_EGRESS_UC_QUEUEGROUPS
           \<and> (0 > thr_queueGroup p \<or> thr_queueGroup p \<ge> numUnicastQueueGroups cap))
    \<and> \<not> (type = realm_id BVIEW_BST_EGRESS_MC_QUEUE
           \<and> (0 > thr_queue p \<or> thr_queue p \<ge> numMulticastQueues cap))
    \<and> \<not> (type = realm_id BVIEW_BST_EGRESS_CPU_QUEUE
           \<and> (0 > thr_queue p \<or> thr_queue p \<ge> numCpuQueues cap))
    \<and> \<not> (type = realm_id BVIEW_BST_EGRESS_RQE_QUEUE
           \<and> (0 > thr_queue p \<or> thr_queue p \<ge> numRqeQueues cap)))"

text \<open>The switch on the realm: the limits, then the place and the values of the message. The members
  of a threshold structure that no assignment names stay zero.\<close>

definition threshold_fill ::
  "platform \<Rightarrow> nat \<Rightarrow> threshold_command \<Rightarrow> request_msg \<Rightarrow> request_msg result" where
  "threshold_fill pf type p m =
     (if type = realm_id BVIEW_BST_DEVICE then
        res_bind (check (\<not> threshold_refused (BVIEW_BST_DEVICE_THRES_DEFAULT pf) (thr_threshold p))
          BVIEW_STATUS_INVALID_PARAMETER) (\<lambda>_.
        Inr (m\<lparr>msg_request := REQ_DEVICE \<lparr>dev_threshold = of_int (thr_threshold p)\<rparr>\<rparr>))
      else if type = realm_id BVIEW_BST_INGRESS_PORT_PG then
        res_bind (check (\<not> (thr_port p = 0
            \<or> threshold_refused (BVIEW_BST_I_P_SP_UCMC_SHARED_THRES_DEFAULT pf) (thr_umShareThreshold p)
            \<or> threshold_refused (BVIEW_BST_I_P_PG_UCMC_HDRM_THRES_DEFAULT pf) (thr_umHeadroomThreshold p)))
          BVIEW_STATUS_INVALID_PARAMETER) (\<lambda>_.
        Inr (m\<lparr>msg_threshold := (msg_threshold m)\<lparr>thr_port := thr_port p, thr_priorityGroup := thr_priorityGroup p\<rparr>,
               msg_request := REQ_IPPG \<lparr>ippg_umShareThreshold = of_int (thr_umShareThreshold p),
                                        ippg_umHeadroomThreshold = of_int (thr_umHeadroomThreshold p)\<rparr>\<rparr>))
      else if type = realm_id BVIEW_BST_INGRESS_PORT_SP then
        res_bind (check (\<not> (thr_port p = 0
            \<or> threshold_refused (BVIEW_BST_I_SP_UCMC_SHARED_THRES_DEFAULT pf) (thr_umShareThreshold p)))
          BVIEW_STATUS_INVALID_PARAMETER) (\<lambda>_.
        Inr (m\<lparr>msg_threshold := (msg_threshold m)\<lparr>thr_port := thr_port p, thr_servicePool := thr_servicePool p\<rparr>,
               msg_request := REQ_IPSP \<lparr>ipsp_umShareThreshold = of_int (thr_umShareThreshold p)\<rparr>\<rparr>))
      else if type = realm_id BVIEW_BST_INGRESS_SP then
        res_bind (check (\<not> threshold_refused (0x1FFFF * 208) (thr_umShareThreshold p))
          BVIEW_STATUS_INVALID_PARAMETER) (\<lambda>_.
        Inr (m\<lparr>msg_threshold := (msg_threshold m)\<lparr>thr_servicePool := thr_servicePool p\<rparr>,
               msg_request := REQ_ISP \<lparr>isp_umShareThreshold = of_int (thr_umShareThreshold p)\<rparr>\<rparr>))
      else if type = realm_id BVIEW_BST_EGRESS_PORT_SP then
        res_bind (check (\<not> (thr_port p = 0
            \<or> threshold_refused (BVIEW_BST_E_P_SP_UC_THRES_DEFAULT pf) (thr_ucShareThreshold p)
            \<or> threshold_refused (BVIEW_BST_E_P_SP_UCMC_THRES_DEFAULT pf) (thr_umShareThreshold p)
            \<or> threshold_refused (0x1FFFF * 208) (thr_mcShareThreshold p)
            \<or> threshold_refused (0x1FFFF * 208) (thr_mcShareQueueEntriesThreshold p)))
          BVIEW_STATUS_INVALID_PARAMETER) (\<lambda>_.
        Inr (m\<lparr>msg_threshold := (msg_threshold m)\<lparr>thr_port := thr_port p, thr_servicePool := thr_servicePool p\<rparr>,
               msg_request := REQ_EPSP \<lparr>epsp_ucShareThreshold = of_int (thr_ucShareThreshold p),
                                        epsp_umShareThreshold = of_int (thr_umShareThreshold p),
                                        epsp_mcShareThreshold = of_int (thr_mcShareThreshold p),
                                        epsp_mcShareQueueEntriesThreshold = 0\<rparr>\<rparr>))
      else if type = realm_id BVIEW_BST_EGRESS_SP then
        res_bind (check (\<not> (threshold_refused (BVIEW_BST_E_SP_UCMC_THRES_DEFAULT pf) (thr_umShareThreshold p)
            \<or> threshold_refused (BVIEW_BST_E_SP_MC_THRES_DEFAULT pf) (thr_mcShareThreshold p)
            \<or> threshold_refused (0x1FFFF * 208) (thr_mcShareQueueEntriesThreshold p)))
          BVIEW_STATUS_INVALID_PARAMETER) (\<lambda>_.
        Inr (m\<lparr>msg_threshold := (msg_threshold m)\<lparr>thr_servicePool := thr_servicePool p\<rparr>,
               msg_request := REQ_ESP \<lparr>esp_umShareThreshold = of_int (thr_umShareThreshold p),
                                       esp_mcShareThreshold = of_int (thr_mcShareThreshold p)\<rparr>\<rparr>))
      else if type = realm_id BVIEW_BST_EGRESS_UC_QUEUE then
        res_bind (check (\<not> threshold_refused (0x1FFFF * 208) (thr_ucThreshold p))
          BVIEW_STATUS_INVALID_PARAMETER) (\<lambda>_.
        Inr (m\<lparr>msg_threshold := (msg_threshold m)\<lparr>thr_queue := thr_queue p\<rparr>,
               msg_request := REQ_EUCQ \<lparr>eucq_ucBufferThreshold = of_int (thr_ucThreshold p)\<rparr>\<rparr>))
      else if type = realm_id BVIEW_BST_EGRESS_UC_QUEUEGROUPS then
        res_bind (check (\<not> (thr_queue p \<noteq> 0 \<or> thr_servicePool p \<noteq> 0 \<or> thr_threshold p \<noteq> 0
            \<or> thr_umShareThreshold p \<noteq> 0 \<or> thr_umHeadroomThreshold p \<noteq> 0 \<or> thr_ucShareThreshold p \<noteq> 0
            \<or> thr_mcShareThreshold p \<noteq> 0 \<or> thr_mcShareQueueEntriesThreshold p \<noteq> 0 \<or> thr_mcThreshold p \<noteq> 0
            \<or> thr_mcQueueEntriesThreshold p \<noteq> 0 \<or> thr_cpuThreshold p \<noteq> 0 \<or> thr_rqeThreshold p \<noteq> 0
            \<or> threshold_refused (0x1FFFF * 208) (thr_ucThreshold p)))
          BVIEW_STATUS_INVALID_PARAMETER) (\<lambda>_.
        Inr (m\<lparr>msg_threshold := (msg_threshold m)\<lparr>thr_queueGroup := thr_queueGroup p\<rparr>,
               msg_request := REQ_EUCQG \<lparr>eucqg_ucBufferThreshold = of_int (thr_ucThreshold p)\<rparr>\<rparr>))
      else if type = realm_id BVIEW_BST_EGRESS_MC_QUEUE then
        res_bind (check (\<not> (threshold_refused (0x1FFFF * 208) (thr_mcThreshold p)
            \<or> threshold_refused (0x1FFFF * 208) (thr_mcQueueEntriesThreshold p)))
          BVIEW_STATUS_INVALID_PARAMETER) (\<lambda>_.
        Inr (m\<lparr>msg_threshold := (msg_threshold m)\<lparr>thr_queue := thr_queue p\<rparr>,
               msg_request := REQ_EMCQ \<lparr>mcBufferThreshold = of_int (thr_mcThreshold p),
                                        mcQueueThreshold = of_int (thr_mcQueueEntriesThreshold p)\<rparr>\<rparr>))
      else if type = realm_id BVIEW_BST_EGRESS_CPU_QUEUE then
        res_bind (check (\<not> threshold_refused (0x1FFFF * 208) (thr_cpuThreshold p))
          BVIEW_STATUS_INVALID_PARAMETER) (\<lambda>_.
        Inr (m\<lparr>msg_threshold := (msg_threshold m)\<lparr>thr_queue := thr_queue p\<rparr>,
               msg_request := REQ_CPUQ \<lparr>cpuBufferThreshold = of_int (thr_cpuThreshold p), cpuQueueThreshold = 0\<rparr>\<rparr>))
      else if type = realm_id BVIEW_BST_EGRESS_RQE_QUEUE then
        res_bind (check (\<not> threshold_refused (0x1FFFF * 208) (thr_rqeThreshold p))
          BVIEW_STATUS_INVALID_PARAMETER) (\<lambda>_.
        Inr (m\<lparr>msg_threshold := (msg_threshold m)\<lparr>thr_queue := thr_queue p\<rparr>,
               msg_request := REQ_RQEQ \<lparr>rqeBufferThreshold = of_int (thr_rqeThreshold p), rqeQueueThreshold = 0\<rparr>\<rparr>))
      else Inr m)"

section \<open>Posting a command\<close>

definition nb_msg :: "bst_cmd \<Rightarrow> int \<Rightarrow> nat option \<Rightarrow> int \<Rightarrow> request_msg" where
  "nb_msg cmd asicId cookie i = (zero_msg cmd asicId)\<lparr>msg_cookie := cookie, msg_id := i\<rparr>"

definition bstjson_clear_bst_statistics_impl ::
  "nat option \<Rightarrow> int \<Rightarrow> int \<Rightarrow> 'hw bst_world \<Rightarrow> BVIEW_STATUS \<times> 'hw bst_world" where
  "bstjson_clear_bst_statistics_impl cookie asicId i w =
     bst_send_request (nb_msg BVIEW_BST_CMD_API_CLEAR_STATS asicId cookie i) w"

definition bstjson_clear_bst_thresholds_impl ::
  "nat option \<Rightarrow> int \<Rightarrow> int \<Rightarrow> 'hw bst_world \<Rightarrow> BVIEW_STATUS \<times> 'hw bst_world" where
  "bstjson_clear_bst_thresholds_impl cookie asicId i w =
     bst_send_request (nb_msg BVIEW_BST_CMD_API_CLEAR_THRESHOLD asicId cookie i) w"

definition bstjson_configure_bst_feature_impl ::
  "nat option \<Rightarrow> int \<Rightarrow> int \<Rightarrow> config_params \<Rightarrow> 'hw bst_world \<Rightarrow> BVIEW_STATUS \<times> 'hw bst_world" where
  "bstjson_configure_bst_feature_impl cookie asicId i command w =
     bst_send_request ((nb_msg BVIEW_BST_CMD_API_SET_FEATURE asicId cookie i)\<lparr>msg_request := REQ_CONFIG command\<rparr>) w"

definition bstjson_configure_bst_thresholds_impl ::
  "platform \<Rightarrow> 'hw plugin_entry list \<Rightarrow> nat option \<Rightarrow> int \<Rightarrow> int \<Rightarrow> threshold_command \<Rightarrow> 'hw bst_world
     \<Rightarrow> BVIEW_STATUS \<times> 'hw bst_world" where
  "bstjson_configure_bst_thresholds_impl pf ps cookie asicId i command w =
     (let type = bst_realm_type_get (thr_realm command);
          m = (nb_msg BVIEW_BST_CMD_API_SET_THRESHOLD asicId cookie i)\<lparr>msg_threshold_type := type\<rparr>
      in if type = 0 then (BVIEW_STATUS_INVALID_PARAMETER, w)
         else case sbapi_system_asic_capabilities_get ps asicId of
           Inl e \<Rightarrow> (BVIEW_STATUS_FAILURE, w)
         | Inr cap \<Rightarrow>
             if \<not> input_params_ok type cap command then (BVIEW_STATUS_INVALID_PARAMETER, w)
             else case threshold_fill pf type command m of
                    Inl e \<Rightarrow> (e, w)
                  | Inr m1 \<Rightarrow> bst_send_request m1 w)"

definition bstjson_configure_bst_tracking_impl ::
  "nat option \<Rightarrow> int \<Rightarrow> int \<Rightarrow> track_params \<Rightarrow> 'hw bst_world \<Rightarrow> BVIEW_STATUS \<times> 'hw bst_world" where
  "bstjson_configure_bst_tracking_impl cookie asicId i command w =
     bst_send_request ((nb_msg BVIEW_BST_CMD_API_SET_TRACK asicId cookie i)\<lparr>msg_request := REQ_TRACK command\<rparr>) w"

definition bstjson_get_bst_feature_impl ::
  "nat option \<Rightarrow> int \<Rightarrow> int \<Rightarrow> 'hw bst_world \<Rightarrow> BVIEW_STATUS \<times> 'hw bst_world" where
  "bstjson_get_bst_feature_impl cookie asicId i w =
     bst_send_request (nb_msg BVIEW_BST_CMD_API_GET_FEATURE asicId cookie i) w"

definition bstjson_get_bst_report_impl ::
  "nat option \<Rightarrow> int \<Rightarrow> int \<Rightarrow> stat_collect \<Rightarrow> 'hw bst_world \<Rightarrow> BVIEW_STATUS \<times> 'hw bst_world" where
  "bstjson_get_bst_report_impl cookie asicId i command w =
     bst_send_request ((nb_msg BVIEW_BST_CMD_API_GET_REPORT asicId cookie i)\<lparr>msg_request := REQ_COLLECT command\<rparr>) w"

definition bstjson_get_bst_thresholds_impl ::
  "nat option \<Rightarrow> int \<Rightarrow> int \<Rightarrow> stat_collect \<Rightarrow> 'hw bst_world \<Rightarrow> BVIEW_STATUS \<times> 'hw bst_world" where
  "bstjson_get_bst_thresholds_impl cookie asicId i command w =
     bst_send_request ((nb_msg BVIEW_BST_CMD_API_GET_THRESHOLD asicId cookie i)\<lparr>msg_request := REQ_COLLECT command\<rparr>) w"

definition bstjson_get_bst_tracking_impl ::
  "nat option \<Rightarrow> int \<Rightarrow> int \<Rightarrow> 'hw bst_world \<Rightarrow> BVIEW_STATUS \<times> 'hw bst_world" where
  "bstjson_get_bst_tracking_impl cookie asicId i w =
     bst_send_request (nb_msg BVIEW_BST_CMD_API_GET_TRACK asicId cookie i) w"

text \<open>Both update ids of public/bst.h are 1: the second assignment of the message type always
  follows the first.\<close>

definition BVIEW_BST_CONFIG_FEATURE_UPDATE :: int where "BVIEW_BST_CONFIG_FEATURE_UPDATE = 1"
definition BVIEW_BST_CONFIG_TRACK_UPDATE :: int where "BVIEW_BST_CONFIG_TRACK_UPDATE = 1"

definition bst_notify_config_change :: "int \<Rightarrow> int \<Rightarrow> 'hw bst_world \<Rightarrow> BVIEW_STATUS \<times> 'hw bst_world" where
  "bst_notify_config_change asicId i w =
     (if i \<noteq> BVIEW_BST_CONFIG_FEATURE_UPDATE \<and> i \<noteq> BVIEW_BST_CONFIG_TRACK_UPDATE
      then (BVIEW_STATUS_INVALID_PARAMETER, w)
      else
        let m = zero_msg BVIEW_BST_CMD_API_MAX asicId;
            m1 = (if i = BVIEW_BST_CONFIG_TRACK_UPDATE then m\<lparr>msg_type := BVIEW_BST_CMD_API_UPDATE_TRACK\<rparr> else m);
            m2 = (if i = BVIEW_BST_CONFIG_FEATURE_UPDATE then m1\<lparr>msg_type := BVIEW_BST_CMD_API_UPDATE_FEATURE\<rparr> else m1)
        in bst_send_request m2 w)"

section \<open>The REST handlers\<close>

text \<open>A handler is its decoder followed by the function that posts the command.\<close>

definition with_envelope ::
  "(string \<Rightarrow> json option) \<Rightarrow> 'hw plugin_entry list \<Rightarrow> string \<Rightarrow> nat option \<Rightarrow> string option \<Rightarrow> int
     \<Rightarrow> (json \<Rightarrow> int \<Rightarrow> int \<Rightarrow> 'hw bst_world \<Rightarrow> BVIEW_STATUS \<times> 'hw bst_world)
     \<Rightarrow> 'hw bst_world \<Rightarrow> BVIEW_STATUS \<times> 'hw bst_world" where
  "with_envelope cJSON_Parse ps name cookie jsonBuffer bufLength go w =
     (case bst_envelope cJSON_Parse ps name cookie jsonBuffer bufLength (sb_hw w) of
        (Inl e, hw) \<Rightarrow> (e, w\<lparr>sb_hw := hw\<rparr>)
      | (Inr (params, asicId, i), hw) \<Rightarrow> go params asicId i (w\<lparr>sb_hw := hw\<rparr>))"

definition with_params ::
  "'c result \<Rightarrow> ('c \<Rightarrow> 'hw bst_world \<Rightarrow> BVIEW_STATUS \<times> 'hw bst_world) \<Rightarrow> 'hw bst_world \<Rightarrow> BVIEW_STATUS \<times> 'hw bst_world" where
  "with_params r go w = (case r of Inl e \<Rightarrow> (e, w) | Inr c \<Rightarrow> go c w)"

definition bstjson_configure_bst_tracking where
  "bstjson_configure_bst_tracking parse ps cookie buf len =
     with_envelope parse ps ''configure-bst-tracking'' cookie buf len (\<lambda>params asicId i.
       with_params (decode_configure_bst_tracking params) (bstjson_configure_bst_tracking_impl cookie asicId i))"

definition bstjson_configure_bst_feature where
  "bstjson_configure_bst_feature parse ps cookie buf len =
     with_envelope parse ps ''configure-bst-feature'' cookie buf len (\<lambda>params asicId i.
       with_params (decode_configure_bst_feature params) (bstjson_configure_bst_feature_impl cookie asicId i))"

definition bstjson_configure_bst_thresholds where
  "bstjson_configure_bst_thresholds pf parse ps cookie buf len =
     with_envelope parse ps ''configure-bst-thresholds'' cookie buf len (\<lambda>params asicId i w.
       case decode_configure_bst_thresholds ps params (sb_hw w) of
         (r, hw) \<Rightarrow> with_params r (bstjson_configure_bst_thresholds_impl pf ps cookie asicId i) (w\<lparr>sb_hw := hw\<rparr>))"

definition bstjson_get_bst_report where
  "bstjson_get_bst_report parse ps cookie buf len =
     with_envelope parse ps ''get-bst-report'' cookie buf len (\<lambda>params asicId i.
       with_params (decode_get_bst_report params) (bstjson_get_bst_report_impl cookie asicId i))"

definition bstjson_get_bst_feature where
  "bstjson_get_bst_feature parse ps cookie buf len =
     with_envelope parse ps ''get-bst-feature'' cookie buf len (\<lambda>params asicId i.
       bstjson_get_bst_feature_impl cookie asicId i)"

definition bstjson_get_bst_tracking where
  "bstjson_get_bst_tracking parse ps cookie buf len =
     with_envelope parse ps ''get-bst-tracking'' cookie buf len (\<lambda>params asicId i.
       bstjson_get_bst_tracking_impl cookie asicId i)"

definition bstjson_get_bst_thresholds where
  "bstjson_get_bst_thresholds parse ps cookie buf len =
     with_envelope parse ps ''get-bst-thresholds'' cookie buf len (\<lambda>params asicId i.
       with_params (decode_get_bst_thresholds params) (bstjson_get_bst_thresholds_impl cookie asicId i))"

definition bstjson_clear_bst_thresholds where
  "bstjson_clear_bst_thresholds parse ps cookie buf len =
     with_envelope parse ps ''clear-bst-thresholds'' cookie buf len (\<lambda>params asicId i.
       bstjson_clear_bst_thresholds_impl cookie asicId i)"

definition bstjson_clear_bst_statistics where
  "bstjson_clear_bst_statistics parse ps cookie buf len =
     with_envelope parse ps ''clear-bst-statistics'' cookie buf len (\<lambda>params asicId i.
       bstjson_clear_bst_statistics_impl cookie asicId i)"

text \<open>The handler behind each number of bst_cmd_api_list.\<close>

definition bst_rest_handler ::
  "platform \<Rightarrow> (string \<Rightarrow> json option) \<Rightarrow> 'hw plugin_entry list \<Rightarrow> nat \<Rightarrow> nat option \<Rightarrow> string option \<Rightarrow> int
     \<Rightarrow> 'hw bst_world \<Rightarrow> BVIEW_STATUS \<times> 'hw bst_world" where
  "bst_rest_handler pf parse ps h cookie buf len =
     (if h = 1 then bstjson_configure_bst_tracking parse ps cookie buf len
      else if h = 2 then bstjson_configure_bst_feature parse ps cookie buf len
      else if h = 3 then bstjson_configure_bst_thresholds pf parse ps cookie buf len
      else if h = 4 then bstjson_get_bst_report parse ps cookie buf len
      else if h = 5 then bstjson_get_bst_feature parse ps cookie buf len
      else if h = 6 then bstjson_get_bst_tracking parse ps cookie buf len
      else if h = 7 then bstjson_get_bst_thresholds parse ps cookie buf len
      else if h = 8 then bstjson_clear_bst_thresholds parse ps cookie buf len
      else if h = 9 then bstjson_clear_bst_statistics parse ps cookie buf len
      else Pair BVIEW_STATUS_FAILURE)"

end
