(* ===== verification/Bst_Rest_Laws.thy ===== *)
theory Bst_Rest_Laws
  imports Bst_Nb_Api Bst_System
begin

text \<open>What the decoders and the north-bound functions guarantee: which requests are accepted and what
  the queued message holds; and that a REST command, whatever its text, is at most one step of the
  application's transition system.\<close>

section \<open>Members\<close>

text \<open>A member that is a number in a range, one that is missing or in a range, and its value.\<close>

definition number_in :: "json \<Rightarrow> string \<Rightarrow> int \<Rightarrow> int \<Rightarrow> bool" where
  "number_in j name lo hi =
     (case cJSON_GetObjectItem j name of Some (cJSON_Number n) \<Rightarrow> lo \<le> n \<and> n \<le> hi | _ \<Rightarrow> False)"

definition has_member :: "json \<Rightarrow> string \<Rightarrow> bool" where
  "has_member j name = (cJSON_GetObjectItem j name \<noteq> None)"

definition member_int :: "json \<Rightarrow> string \<Rightarrow> int" where
  "member_int j name = (case cJSON_GetObjectItem j name of Some (cJSON_Number n) \<Rightarrow> n | _ \<Rightarrow> 0)"

definition maybe_in :: "json \<Rightarrow> string \<Rightarrow> int \<Rightarrow> int \<Rightarrow> bool" where
  "maybe_in j name lo hi = (\<not> has_member j name \<or> number_in j name lo hi)"

definition maybe_number :: "json \<Rightarrow> string \<Rightarrow> bool" where
  "maybe_number j name =
     (case cJSON_GetObjectItem j name of None \<Rightarrow> True | Some (cJSON_Number n) \<Rightarrow> True | _ \<Rightarrow> False)"

lemma member_int_bounds: "number_in j name lo hi \<Longrightarrow> lo \<le> member_int j name \<and> member_int j name \<le> hi"
  by (auto simp: number_in_def member_int_def split: option.splits json.splits)

lemma number_in_has: "number_in j name lo hi \<Longrightarrow> has_member j name"
  by (auto simp: number_in_def has_member_def split: option.splits)

lemma member_int_missing: "\<not> has_member j name \<Longrightarrow> member_int j name = 0"
  by (simp add: has_member_def member_int_def)

lemma range_member_Inr [status_simps]:
  "range_member j name lo hi = Inr n \<longleftrightarrow> number_in j name lo hi \<and> n = member_int j name"
  by (auto simp: range_member_def status_simps number_in_def member_int_def split: option.splits json.splits)

lemma required_Inr [status_simps]:
  "required j name lo hi upd c = Inr c' \<longleftrightarrow> number_in j name lo hi \<and> c' = upd (member_int j name) c"
  by (auto simp: required_def status_simps)

lemma if_present_Inr [status_simps]:
  "if_present j name lo hi upd c = Inr c' \<longleftrightarrow>
     maybe_in j name lo hi \<and> c' = (if has_member j name then upd (member_int j name) c else c)"
  by (auto simp: if_present_def required_Inr maybe_in_def has_member_def dest: number_in_has)

lemma any_if_present_Inr [status_simps]:
  "any_if_present j name upd c = Inr c' \<longleftrightarrow>
     maybe_number j name \<and> c' = (if has_member j name then upd (member_int j name) c else c)"
  by (auto simp: any_if_present_def status_simps maybe_number_def has_member_def member_int_def
      split: option.splits json.splits)

lemma res_chain_Cons_Inr [status_simps]:
  "res_chain (f # fs) c = Inr c' \<longleftrightarrow> (\<exists>d. f c = Inr d \<and> res_chain fs d = Inr c')"
  by (simp add: res_bind_Inr_iff)

lemma res_chain_Nil_Inr [status_simps]: "res_chain [] c = Inr c' \<longleftrightarrow> c' = c"
  by auto

text \<open>What every step of a chain keeps, the chain keeps.\<close>

lemma res_chain_inv:
  assumes "res_chain fs c = Inr c'" "P c" "\<And>f d d'. f \<in> set fs \<Longrightarrow> P d \<Longrightarrow> f d = Inr d' \<Longrightarrow> P d'"
  shows "P c'"
  using assms
proof (induction fs arbitrary: c)
  case (Cons f fs)
  then obtain d where "f c = Inr d" "res_chain fs d = Inr c'" by (auto simp: res_bind_Inr_iff)
  then show ?case using Cons by (metis list.set_intros)
qed simp

section \<open>The envelope\<close>

lemma node_string_Inr [status_simps]:
  "node_string j name = Inr s \<longleftrightarrow>
     (\<exists>v. cJSON_GetObjectItem j name = Some (cJSON_String v) \<and> s = take 63 v)"
  by (auto simp: node_string_def string_member_def status_simps JSON_MAX_NODE_LENGTH_def)

lemma string_member_Inr [status_simps]:
  "string_member j name = Inr s \<longleftrightarrow> cJSON_GetObjectItem j name = Some (cJSON_String s)"
  by (auto simp: string_member_def status_simps)

lemma envelope_text_Inr:
  "bst_envelope_text cJSON_Parse name cookie jsonBuffer bufLength = Inr (root, params, asicStr) \<longleftrightarrow>
     (\<exists>c text ver meth. cookie = Some c \<and> jsonBuffer = Some text \<and> 0 \<le> bufLength \<and> bufLength \<le> int (length text)
      \<and> cJSON_Parse text = Some root \<and> cJSON_GetObjectItem root ''params'' = Some params
      \<and> cJSON_GetObjectItem root ''jsonrpc'' = Some (cJSON_String ver) \<and> take 63 ver = ''2.0''
      \<and> cJSON_GetObjectItem root ''method'' = Some (cJSON_String meth) \<and> take 63 meth = name
      \<and> cJSON_GetObjectItem root ''asic-id'' = Some (cJSON_String asicStr))"
  by (simp add: bst_envelope_text_def status_simps) auto

section \<open>The feature command\<close>

definition feature_request_valid :: "json \<Rightarrow> bool" where
  "feature_request_valid j =
     (number_in j ''bst-enable'' 0 1 \<and> number_in j ''send-async-reports'' 0 1
    \<and> number_in j ''collection-interval'' 0 600 \<and> number_in j ''stat-units-in-cells'' 0 1
    \<and> maybe_in j ''trigger-rate-limit'' 1 30 \<and> maybe_in j ''send-snapshot-on-trigger'' 0 1
    \<and> maybe_in j ''trigger-rate-limit-interval'' 1 60 \<and> maybe_in j ''async-full-reports'' 0 1
    \<and> maybe_in j ''stats-in-percentage'' 0 1)"

definition member_bit :: "json \<Rightarrow> string \<Rightarrow> nat \<Rightarrow> 32 word" where
  "member_bit j name p = (if has_member j name then push_bit p 1 else 0)"

definition feature_of :: "json \<Rightarrow> config_params" where
  "feature_of j = \<lparr>bstEnable = member_int j ''bst-enable'',
     sendAsyncReports = member_int j ''send-async-reports'',
     collectionInterval = member_int j ''collection-interval'',
     statsInPercentage = member_int j ''stats-in-percentage'',
     statUnitsInCells = member_int j ''stat-units-in-cells'',
     bstMaxTriggers = member_int j ''trigger-rate-limit'',
     sendSnapshotOnTrigger = member_int j ''send-snapshot-on-trigger'',
     triggerTransmitInterval = member_int j ''trigger-rate-limit-interval'',
     sendIncrementalReport = member_int j ''async-full-reports'',
     configMask = 15 OR member_bit j ''trigger-rate-limit'' 4 OR member_bit j ''send-snapshot-on-trigger'' 5
       OR member_bit j ''trigger-rate-limit-interval'' 6 OR member_bit j ''async-full-reports'' 7
       OR member_bit j ''stats-in-percentage'' 8\<rparr>"

text \<open>A member that may be missing sets its parameter and its bit, or nothing.\<close>

lemma feature_optional:
  fixes c :: config_params
  shows "(if has_member j n then feature_set p (\<lambda>v. bstMaxTriggers_update (\<lambda>_. v)) (member_int j n) c else c) =
      c\<lparr>bstMaxTriggers := (if has_member j n then member_int j n else bstMaxTriggers c),
        configMask := configMask c OR member_bit j n p\<rparr>"
    and "(if has_member j n then feature_set p (\<lambda>v. sendSnapshotOnTrigger_update (\<lambda>_. v)) (member_int j n) c else c) =
      c\<lparr>sendSnapshotOnTrigger := (if has_member j n then member_int j n else sendSnapshotOnTrigger c),
        configMask := configMask c OR member_bit j n p\<rparr>"
    and "(if has_member j n then feature_set p (\<lambda>v. triggerTransmitInterval_update (\<lambda>_. v)) (member_int j n) c else c) =
      c\<lparr>triggerTransmitInterval := (if has_member j n then member_int j n else triggerTransmitInterval c),
        configMask := configMask c OR member_bit j n p\<rparr>"
    and "(if has_member j n then feature_set p (\<lambda>v. sendIncrementalReport_update (\<lambda>_. v)) (member_int j n) c else c) =
      c\<lparr>sendIncrementalReport := (if has_member j n then member_int j n else sendIncrementalReport c),
        configMask := configMask c OR member_bit j n p\<rparr>"
    and "(if has_member j n then feature_set p (\<lambda>v. statsInPercentage_update (\<lambda>_. v)) (member_int j n) c else c) =
      c\<lparr>statsInPercentage := (if has_member j n then member_int j n else statsInPercentage c),
        configMask := configMask c OR member_bit j n p\<rparr>"
  by (cases c; simp add: feature_set_def member_bit_def)+

lemma decode_feature_Inr:
  "decode_configure_bst_feature j = Inr c \<longleftrightarrow> feature_request_valid j \<and> c = feature_of j"
proof -
  have val: "(if has_member j n then member_int j n else 0) = member_int j n" for n
    by (simp add: member_int_missing)
  show ?thesis
    unfolding decode_configure_bst_feature_def status_simps feature_request_valid_def feature_of_def feature_optional
    by (simp add: feature_set_def zero_config_params_def config_param_defs val cong: if_cong split del: if_split)
      (simp add: or.assoc)
qed

section \<open>The tracking and report commands\<close>

definition realm_member :: "string \<Rightarrow> bst_realm \<Rightarrow> string" where
  "realm_member pre r = pre @ ''-'' @ realm_name r"

definition track_of :: "json \<Rightarrow> track_params" where
  "track_of j = (let t = zero_track_params\<lparr>trackPeakStats := member_int j ''track-peak-stats'',
     trackIngressPortPriorityGroup := member_int j ''track-ingress-port-priority-group'',
     trackIngressPortServicePool := member_int j ''track-ingress-port-service-pool'',
     trackIngressServicePool := member_int j ''track-ingress-service-pool'',
     trackEgressPortServicePool := member_int j ''track-egress-port-service-pool'',
     trackEgressServicePool := member_int j ''track-egress-service-pool'',
     trackEgressUcQueue := member_int j ''track-egress-uc-queue'',
     trackEgressUcQueueGroup := member_int j ''track-egress-uc-queue-group'',
     trackEgressMcQueue := member_int j ''track-egress-mc-queue'',
     trackEgressCpuQueue := member_int j ''track-egress-cpu-queue'',
     trackEgressRqeQueue := member_int j ''track-egress-rqe-queue'',
     trackDevice := member_int j ''track-device''\<rparr> in t\<lparr>trackMask := bst_realm_to_mask t\<rparr>)"

text \<open>A chain of required members that are 0 or 1.\<close>

lemma flag_chain:
  "res_chain (map (\<lambda>(n, u). required j n 0 1 u) xs) z = Inr c \<longleftrightarrow>
     (\<forall>(n, u)\<in>set xs. number_in j n 0 1) \<and> c = foldl (\<lambda>z (n, u). u (member_int j n) z) z xs"
proof (induction xs arbitrary: z)
  case (Cons x xs)
  obtain n u where x: "x = (n, u)" by (cases x)
  have "res_chain (map (\<lambda>(n, u). required j n 0 1 u) (x # xs)) z = Inr c \<longleftrightarrow>
      number_in j n 0 1 \<and> res_chain (map (\<lambda>(n, u). required j n 0 1 u) xs) (u (member_int j n) z) = Inr c"
    by (auto simp: x status_simps simp del: res_chain.simps)
  then show ?case unfolding Cons.IH by (auto simp: x)
qed auto

lemma decode_tracking_Inr:
  "decode_configure_bst_tracking j = Inr c \<longleftrightarrow>
     number_in j ''track-peak-stats'' 0 1 \<and> (\<forall>r. number_in j (realm_member ''track'' r) 0 1) \<and> c = track_of j"
proof -
  have all: "(\<forall>r. P r) = list_all P all_realms" for P :: "bst_realm \<Rightarrow> bool"
    unfolding list_all_iff by (auto simp: all_realms_set)
  have rec: "(if b then \<lparr>trackMask = m, trackPeakStats = p, trackIngressPortPriorityGroup = a1,
      trackIngressPortServicePool = a2, trackIngressServicePool = a3, trackEgressPortServicePool = a4,
      trackEgressServicePool = a5, trackEgressUcQueue = a6, trackEgressUcQueueGroup = a7, trackEgressMcQueue = a8,
      trackEgressCpuQueue = a9, trackEgressRqeQueue = a10, trackDevice = a11\<rparr>
    else \<lparr>trackMask = k, trackPeakStats = p, trackIngressPortPriorityGroup = a1,
      trackIngressPortServicePool = a2, trackIngressServicePool = a3, trackEgressPortServicePool = a4,
      trackEgressServicePool = a5, trackEgressUcQueue = a6, trackEgressUcQueueGroup = a7, trackEgressMcQueue = a8,
      trackEgressCpuQueue = a9, trackEgressRqeQueue = a10, trackDevice = a11\<rparr>)
    = \<lparr>trackMask = if b then m else k, trackPeakStats = p, trackIngressPortPriorityGroup = a1,
      trackIngressPortServicePool = a2, trackIngressServicePool = a3, trackEgressPortServicePool = a4,
      trackEgressServicePool = a5, trackEgressUcQueue = a6, trackEgressUcQueueGroup = a7, trackEgressMcQueue = a8,
      trackEgressCpuQueue = a9, trackEgressRqeQueue = a10, trackDevice = a11\<rparr>"
    for b m k p a1 a2 a3 a4 a5 a6 a7 a8 a9 a10 a11 by simp
  have mask: "(if b then m OR k else m) = m OR (if b then k else 0)" for b and m k :: int by simp
  show ?thesis
    unfolding decode_configure_bst_tracking_def all flag_chain
    by (simp add: all_realms_def realm_member_def track_of_def zero_track_params_def bst_realm_to_mask_def
        track_set_def rec mask Let_def cong: if_cong split del: if_split)
      (simp add: or.assoc split del: if_split, blast)
qed

lemma decode_report_Inr:
  "decode_get_bst_report j = Inr c \<longleftrightarrow>
     (\<forall>r. number_in j (realm_member ''include'' r) 0 1)
   \<and> c = \<lparr>includeIngressPortPriorityGroup = member_int j ''include-ingress-port-priority-group'',
     includeIngressPortServicePool = member_int j ''include-ingress-port-service-pool'',
     includeIngressServicePool = member_int j ''include-ingress-service-pool'',
     includeEgressPortServicePool = member_int j ''include-egress-port-service-pool'',
     includeEgressServicePool = member_int j ''include-egress-service-pool'',
     includeEgressUcQueue = member_int j ''include-egress-uc-queue'',
     includeEgressUcQueueGroup = member_int j ''include-egress-uc-queue-group'',
     includeEgressMcQueue = member_int j ''include-egress-mc-queue'',
     includeEgressCpuQueue = member_int j ''include-egress-cpu-queue'',
     includeEgressRqeQueue = member_int j ''include-egress-rqe-queue'',
     includeDevice = member_int j ''include-device''\<rparr>"
proof -
  have all: "(\<forall>r. P r) = list_all P all_realms" for P :: "bst_realm \<Rightarrow> bool"
    unfolding list_all_iff by (auto simp: all_realms_set)
  show ?thesis
    unfolding decode_get_bst_report_def flag_chain all
    by (simp add: zero_collect_def BST_COPY_TRACK_TO_COLLECT_def all_realms_def realm_member_def) blast
qed

section \<open>The threshold command\<close>

text \<open>A threshold request that is posted names a place the unit has and values within the limits.\<close>

definition place_ok :: "bst_realm \<Rightarrow> asic_capabilities \<Rightarrow> threshold_command \<Rightarrow> bool" where
  "place_ok r cap p = (case r of
     BVIEW_BST_DEVICE \<Rightarrow> True
   | BVIEW_BST_INGRESS_PORT_PG \<Rightarrow> thr_port p \<noteq> 0 \<and> thr_priorityGroup p \<in> {0..<numPriorityGroups cap}
   | BVIEW_BST_INGRESS_PORT_SP \<Rightarrow> thr_port p \<noteq> 0 \<and> thr_port p \<le> numPorts cap \<and> thr_servicePool p \<in> {0..<numServicePools cap}
   | BVIEW_BST_INGRESS_SP \<Rightarrow> thr_servicePool p \<in> {0..<numServicePools cap}
   | BVIEW_BST_EGRESS_PORT_SP \<Rightarrow> thr_port p \<noteq> 0 \<and> thr_port p \<le> numPorts cap \<and> thr_servicePool p \<in> {0..<numServicePools cap}
   | BVIEW_BST_EGRESS_SP \<Rightarrow> thr_servicePool p \<in> {0..<numServicePools cap}
   | BVIEW_BST_EGRESS_UC_QUEUE \<Rightarrow> thr_queue p \<in> {0..<numUnicastQueues cap}
   | BVIEW_BST_EGRESS_UC_QUEUEGROUPS \<Rightarrow> thr_queueGroup p \<in> {0..<numUnicastQueueGroups cap}
   | BVIEW_BST_EGRESS_MC_QUEUE \<Rightarrow> thr_queue p \<in> {0..<numMulticastQueues cap}
   | BVIEW_BST_EGRESS_CPU_QUEUE \<Rightarrow> thr_queue p \<in> {0..<numCpuQueues cap}
   | BVIEW_BST_EGRESS_RQE_QUEUE \<Rightarrow> thr_queue p \<in> {0..<numRqeQueues cap})"

lemma realm_id_eq [simp]: "realm_id a = realm_id b \<longleftrightarrow> a = b"
  by (cases a; cases b) simp_all

text \<open>The thresholds a realm has, each with its limit, and the members a queue group command must not
  set.\<close>

definition threshold_values :: "platform \<Rightarrow> bst_realm \<Rightarrow> threshold_command \<Rightarrow> (int \<times> int) list" where
  "threshold_values pf r p = (let l = 0x1FFFF * 208 in case r of
     BVIEW_BST_DEVICE \<Rightarrow> [(thr_threshold p, BVIEW_BST_DEVICE_THRES_DEFAULT pf)]
   | BVIEW_BST_INGRESS_PORT_PG \<Rightarrow> [(thr_umShareThreshold p, BVIEW_BST_I_P_SP_UCMC_SHARED_THRES_DEFAULT pf),
       (thr_umHeadroomThreshold p, BVIEW_BST_I_P_PG_UCMC_HDRM_THRES_DEFAULT pf)]
   | BVIEW_BST_INGRESS_PORT_SP \<Rightarrow> [(thr_umShareThreshold p, BVIEW_BST_I_SP_UCMC_SHARED_THRES_DEFAULT pf)]
   | BVIEW_BST_INGRESS_SP \<Rightarrow> [(thr_umShareThreshold p, l)]
   | BVIEW_BST_EGRESS_PORT_SP \<Rightarrow> [(thr_ucShareThreshold p, BVIEW_BST_E_P_SP_UC_THRES_DEFAULT pf),
       (thr_umShareThreshold p, BVIEW_BST_E_P_SP_UCMC_THRES_DEFAULT pf),
       (thr_mcShareThreshold p, l), (thr_mcShareQueueEntriesThreshold p, l)]
   | BVIEW_BST_EGRESS_SP \<Rightarrow> [(thr_umShareThreshold p, BVIEW_BST_E_SP_UCMC_THRES_DEFAULT pf),
       (thr_mcShareThreshold p, BVIEW_BST_E_SP_MC_THRES_DEFAULT pf), (thr_mcShareQueueEntriesThreshold p, l)]
   | BVIEW_BST_EGRESS_UC_QUEUE \<Rightarrow> [(thr_ucThreshold p, l)]
   | BVIEW_BST_EGRESS_UC_QUEUEGROUPS \<Rightarrow> [(thr_ucThreshold p, l)]
   | BVIEW_BST_EGRESS_MC_QUEUE \<Rightarrow> [(thr_mcThreshold p, l), (thr_mcQueueEntriesThreshold p, l)]
   | BVIEW_BST_EGRESS_CPU_QUEUE \<Rightarrow> [(thr_cpuThreshold p, l)]
   | BVIEW_BST_EGRESS_RQE_QUEUE \<Rightarrow> [(thr_rqeThreshold p, l)])"

definition queue_group_only :: "threshold_command \<Rightarrow> bool" where
  "queue_group_only p = list_all (\<lambda>v. v = 0)
     [thr_queue p, thr_servicePool p, thr_threshold p, thr_umShareThreshold p, thr_umHeadroomThreshold p,
      thr_ucShareThreshold p, thr_mcShareThreshold p, thr_mcShareQueueEntriesThreshold p, thr_mcThreshold p,
      thr_mcQueueEntriesThreshold p, thr_cpuThreshold p, thr_rqeThreshold p]"

definition threshold_valid :: "platform \<Rightarrow> asic_capabilities \<Rightarrow> bst_realm \<Rightarrow> threshold_command \<Rightarrow> bool" where
  "threshold_valid pf cap r p =
     (place_ok r cap p \<and> list_all (\<lambda>(v, l). 0 < v \<and> v \<le> l) (threshold_values pf r p)
    \<and> (if r = BVIEW_BST_EGRESS_UC_QUEUEGROUPS then queue_group_only p else True))"

text \<open>The message of a threshold command, as the plugin is meant to get it.\<close>

definition threshold_request_of :: "bst_realm \<Rightarrow> threshold_command \<Rightarrow> bst_request" where
  "threshold_request_of r p = (case r of
     BVIEW_BST_DEVICE \<Rightarrow> REQ_DEVICE \<lparr>dev_threshold = of_int (thr_threshold p)\<rparr>
   | BVIEW_BST_INGRESS_PORT_PG \<Rightarrow> REQ_IPPG \<lparr>ippg_umShareThreshold = of_int (thr_umShareThreshold p),
       ippg_umHeadroomThreshold = of_int (thr_umHeadroomThreshold p)\<rparr>
   | BVIEW_BST_INGRESS_PORT_SP \<Rightarrow> REQ_IPSP \<lparr>ipsp_umShareThreshold = of_int (thr_umShareThreshold p)\<rparr>
   | BVIEW_BST_INGRESS_SP \<Rightarrow> REQ_ISP \<lparr>isp_umShareThreshold = of_int (thr_umShareThreshold p)\<rparr>
   | BVIEW_BST_EGRESS_PORT_SP \<Rightarrow> REQ_EPSP \<lparr>epsp_ucShareThreshold = of_int (thr_ucShareThreshold p),
       epsp_umShareThreshold = of_int (thr_umShareThreshold p),
       epsp_mcShareThreshold = of_int (thr_mcShareThreshold p), epsp_mcShareQueueEntriesThreshold = 0\<rparr>
   | BVIEW_BST_EGRESS_SP \<Rightarrow> REQ_ESP \<lparr>esp_umShareThreshold = of_int (thr_umShareThreshold p),
       esp_mcShareThreshold = of_int (thr_mcShareThreshold p)\<rparr>
   | BVIEW_BST_EGRESS_UC_QUEUE \<Rightarrow> REQ_EUCQ \<lparr>eucq_ucBufferThreshold = of_int (thr_ucThreshold p)\<rparr>
   | BVIEW_BST_EGRESS_UC_QUEUEGROUPS \<Rightarrow> REQ_EUCQG \<lparr>eucqg_ucBufferThreshold = of_int (thr_ucThreshold p)\<rparr>
   | BVIEW_BST_EGRESS_MC_QUEUE \<Rightarrow> REQ_EMCQ \<lparr>mcBufferThreshold = of_int (thr_mcThreshold p),
       mcQueueThreshold = of_int (thr_mcQueueEntriesThreshold p)\<rparr>
   | BVIEW_BST_EGRESS_CPU_QUEUE \<Rightarrow> REQ_CPUQ \<lparr>cpuBufferThreshold = of_int (thr_cpuThreshold p), cpuQueueThreshold = 0\<rparr>
   | BVIEW_BST_EGRESS_RQE_QUEUE \<Rightarrow> REQ_RQEQ \<lparr>rqeBufferThreshold = of_int (thr_rqeThreshold p), rqeQueueThreshold = 0\<rparr>)"

lemma threshold_valid_accepted:
  "threshold_valid pf cap r p \<Longrightarrow>
     input_params_ok (realm_id r) cap p \<and> (\<exists>m1. threshold_fill pf (realm_id r) p m = Inr m1)"
  by (cases r)
     (simp_all add: input_params_ok_def threshold_fill_def threshold_valid_def place_ok_def threshold_values_def
       threshold_refused_def queue_group_only_def res_bind_Inr_iff del: realm_id.simps)

text \<open>A threshold command is posted exactly when it is valid.\<close>

definition threshold_msg :: "int \<Rightarrow> nat option \<Rightarrow> int \<Rightarrow> bst_realm \<Rightarrow> threshold_command \<Rightarrow> request_msg" where
  "threshold_msg asicId cookie i r p =
     (nb_msg BVIEW_BST_CMD_API_SET_THRESHOLD asicId cookie i)
       \<lparr>msg_threshold_type := realm_id r, msg_request := threshold_request_of r p,
        msg_threshold := (case r of
            BVIEW_BST_DEVICE \<Rightarrow> zero_threshold_command
          | BVIEW_BST_INGRESS_PORT_PG \<Rightarrow> zero_threshold_command\<lparr>thr_port := thr_port p, thr_priorityGroup := thr_priorityGroup p\<rparr>
          | BVIEW_BST_INGRESS_PORT_SP \<Rightarrow> zero_threshold_command\<lparr>thr_port := thr_port p, thr_servicePool := thr_servicePool p\<rparr>
          | BVIEW_BST_EGRESS_PORT_SP \<Rightarrow> zero_threshold_command\<lparr>thr_port := thr_port p, thr_servicePool := thr_servicePool p\<rparr>
          | BVIEW_BST_INGRESS_SP \<Rightarrow> zero_threshold_command\<lparr>thr_servicePool := thr_servicePool p\<rparr>
          | BVIEW_BST_EGRESS_SP \<Rightarrow> zero_threshold_command\<lparr>thr_servicePool := thr_servicePool p\<rparr>
          | BVIEW_BST_EGRESS_UC_QUEUEGROUPS \<Rightarrow> zero_threshold_command\<lparr>thr_queueGroup := thr_queueGroup p\<rparr>
          | _ \<Rightarrow> zero_threshold_command\<lparr>thr_queue := thr_queue p\<rparr>)\<rparr>"

lemma threshold_fill_eq:
  "input_params_ok (realm_id r) cap p \<Longrightarrow>
   threshold_fill pf (realm_id r) p ((nb_msg BVIEW_BST_CMD_API_SET_THRESHOLD asicId cookie i)\<lparr>msg_threshold_type := realm_id r\<rparr>) =
     (if threshold_valid pf cap r p then Inr (threshold_msg asicId cookie i r p) else Inl BVIEW_STATUS_INVALID_PARAMETER)"
  by (cases r)
     (auto simp: input_params_ok_def threshold_fill_def threshold_valid_def place_ok_def threshold_values_def
       threshold_request_of_def threshold_refused_def queue_group_only_def threshold_msg_def nb_msg_def zero_msg_def
       check_def simp del: realm_id.simps)

lemma threshold_impl_exact:
  assumes "sbapi_system_asic_capabilities_get ps asicId = Inr cap" "thr_realm p = realm_name r"
  shows "bstjson_configure_bst_thresholds_impl pf ps cookie asicId i p w =
    (if threshold_valid pf cap r p then bst_send_request (threshold_msg asicId cookie i r p) w
     else (BVIEW_STATUS_INVALID_PARAMETER, w))"
proof -
  have "realm_id r \<noteq> 0" by (cases r) simp_all
  moreover have "\<not> threshold_valid pf cap r p" if "\<not> input_params_ok (realm_id r) cap p"
    using that threshold_valid_accepted by blast
  ultimately show ?thesis
    using assms
    by (auto simp: bstjson_configure_bst_thresholds_impl_def realm_type_of_name threshold_fill_eq Let_def)
qed

section \<open>Errors\<close>

text \<open>Every refused parameter is reported as invalid JSON.\<close>

lemma range_member_Inl: "range_member j n lo hi = Inl e \<Longrightarrow> e = BVIEW_STATUS_INVALID_JSON"
  by (auto simp: range_member_def JSON_VALIDATE_POINTER_def JSON_VALIDATE_JSON_AS_NUMBER_def
      JSON_CHECK_VALUE_AND_CLEANUP_def check_def split: option.splits json.splits if_splits)

lemma required_Inl: "required j n lo hi upd c = Inl e \<Longrightarrow> e = BVIEW_STATUS_INVALID_JSON"
  using range_member_Inl by (cases "range_member j n lo hi") (auto simp: required_def)

lemma if_present_Inl: "if_present j n lo hi upd c = Inl e \<Longrightarrow> e = BVIEW_STATUS_INVALID_JSON"
  using required_Inl by (auto simp: if_present_def split: if_splits)

lemma res_chain_Inl:
  "res_chain fs c = Inl e \<Longrightarrow> (\<And>f d e'. f \<in> set fs \<Longrightarrow> f d = Inl e' \<Longrightarrow> e' = BVIEW_STATUS_INVALID_JSON) \<Longrightarrow>
     e = BVIEW_STATUS_INVALID_JSON"
proof (induction fs arbitrary: c)
  case (Cons f fs)
  then show ?case by (cases "f c") auto
qed simp

lemma decode_feature_Inl: "decode_configure_bst_feature j = Inl e \<Longrightarrow> e = BVIEW_STATUS_INVALID_JSON"
  unfolding decode_configure_bst_feature_def
  by (erule res_chain_Inl) (auto dest: required_Inl if_present_Inl)

lemma decode_report_Inl: "decode_get_bst_report j = Inl e \<Longrightarrow> e = BVIEW_STATUS_INVALID_JSON"
  unfolding decode_get_bst_report_def by (erule res_chain_Inl) (auto dest: required_Inl)

lemma decode_tracking_Inl: "decode_configure_bst_tracking j = Inl e \<Longrightarrow> e = BVIEW_STATUS_INVALID_JSON"
  unfolding decode_configure_bst_tracking_def by (erule res_chain_Inl) (auto dest: required_Inl)

section \<open>A REST command is a step\<close>

text \<open>A function that changes the plugin's state at most, and queues at most one request, whose intervals
  are not negative.\<close>

definition posts :: "('hw bst_world \<Rightarrow> 'r \<times> 'hw bst_world) \<Rightarrow> bool" where
  "posts f = (\<forall>w. \<exists>hw. snd (f w) = w\<lparr>sb_hw := hw\<rparr>
     \<or> (\<exists>m. request_ok m \<and> snd (f w) = snd (bst_send_request m (w\<lparr>sb_hw := hw\<rparr>))))"

lemma postsD: "posts f \<Longrightarrow> \<exists>hw. snd (f w) = w\<lparr>sb_hw := hw\<rparr>
     \<or> (\<exists>m. request_ok m \<and> snd (f w) = snd (bst_send_request m (w\<lparr>sb_hw := hw\<rparr>)))"
  by (simp add: posts_def)

lemma posts_Pair [intro]: "posts (Pair x)"
proof -
  have "snd (Pair x w) = w\<lparr>sb_hw := sb_hw w\<rparr>" for w :: "'hw bst_world" by simp
  then show ?thesis unfolding posts_def by blast
qed

lemma posts_send [intro]: "request_ok m \<Longrightarrow> posts (bst_send_request m)"
proof -
  assume "request_ok m"
  moreover have "bst_send_request m w = bst_send_request m (w\<lparr>sb_hw := sb_hw w\<rparr>)" for w :: "'hw bst_world"
    by simp
  ultimately show ?thesis unfolding posts_def by metis
qed

lemma posts_at:
  assumes "posts f"
  shows "\<exists>hw. snd (f (w\<lparr>sb_hw := h\<rparr>)) = w\<lparr>sb_hw := hw\<rparr>
     \<or> (\<exists>m. request_ok m \<and> snd (f (w\<lparr>sb_hw := h\<rparr>)) = snd (bst_send_request m (w\<lparr>sb_hw := hw\<rparr>)))"
  using postsD [OF assms, of "w\<lparr>sb_hw := h\<rparr>"] by simp

lemma posts_params [intro]: "(\<And>c. r = Inr c \<Longrightarrow> posts (go c)) \<Longrightarrow> posts (with_params r go)"
proof (cases r)
  case (Inl e)
  then have "with_params r go = Pair e" by (simp add: with_params_def fun_eq_iff)
  then show ?thesis by (simp add: posts_Pair)
next
  case (Inr c)
  then have "with_params r go = go c" by (simp add: with_params_def fun_eq_iff)
  then show "(\<And>c. r = Inr c \<Longrightarrow> posts (go c)) \<Longrightarrow> posts (with_params r go)" using Inr by simp
qed

lemma posts_envelope [intro]:
  fixes go :: "json \<Rightarrow> int \<Rightarrow> int \<Rightarrow> 'hw bst_world \<Rightarrow> BVIEW_STATUS \<times> 'hw bst_world"
  assumes "\<And>p a i. posts (go p a i)"
  shows "posts (with_envelope parse ps name cookie buf bytes go)"
  unfolding posts_def
proof
  fix w :: "'hw bst_world"
  obtain r hw where e: "bst_envelope parse ps name cookie buf bytes (sb_hw w) = (r, hw)" by fastforce
  show "\<exists>hw. snd (with_envelope parse ps name cookie buf bytes go w) = w\<lparr>sb_hw := hw\<rparr>
     \<or> (\<exists>m. request_ok m \<and> snd (with_envelope parse ps name cookie buf bytes go w)
            = snd (bst_send_request m (w\<lparr>sb_hw := hw\<rparr>)))"
    using e assms by (cases r) (auto simp: with_envelope_def posts_at split: prod.splits)
qed

lemma request_ok_msg:
  "request_ok (nb_msg cmd a cookie i)"
  "request_ok ((nb_msg cmd a cookie i)\<lparr>msg_request := REQ_TRACK t\<rparr>)"
  "request_ok ((nb_msg cmd a cookie i)\<lparr>msg_request := REQ_COLLECT s\<rparr>)"
  "feature_request_valid j \<Longrightarrow> request_ok ((nb_msg cmd a cookie i)\<lparr>msg_request := REQ_CONFIG (feature_of j)\<rparr>)"
proof -
  assume j: "feature_request_valid j"
  have "0 \<le> member_int j ''trigger-rate-limit-interval''"
    using j member_int_bounds [of j "''trigger-rate-limit-interval''" 1 60]
    by (auto simp: feature_request_valid_def maybe_in_def member_int_missing)
  moreover have "0 \<le> member_int j ''collection-interval''"
    using j member_int_bounds [of j "''collection-interval''" 0 600] by (simp add: feature_request_valid_def)
  ultimately show "request_ok ((nb_msg cmd a cookie i)\<lparr>msg_request := REQ_CONFIG (feature_of j)\<rparr>)"
    by (simp add: request_ok_def req_config_def feature_of_def)
qed (simp_all add: request_ok_def nb_msg_def zero_msg_def req_config_def zero_config_params_def)

text \<open>The nine commands.\<close>

lemma posts_thresholds:
  "posts (bstjson_configure_bst_thresholds_impl pf ps cookie asicId i p)"
proof -
  have "\<exists>f. posts f \<and> bstjson_configure_bst_thresholds_impl pf ps cookie asicId i p = f"
  proof (cases "\<exists>r cap. thr_realm p = realm_name r \<and> sbapi_system_asic_capabilities_get ps asicId = Inr cap")
    case True
    then obtain r cap where "thr_realm p = realm_name r" "sbapi_system_asic_capabilities_get ps asicId = Inr cap" by blast
    note e = threshold_impl_exact [OF this(2,1), of pf cookie i]
    show ?thesis
    proof (cases "threshold_valid pf cap r p")
      case True
      then have "bstjson_configure_bst_thresholds_impl pf ps cookie asicId i p =
          bst_send_request (threshold_msg asicId cookie i r p)" by (simp add: e fun_eq_iff)
      moreover have "request_ok (threshold_msg asicId cookie i r p)"
        by (auto simp: request_ok_def threshold_msg_def req_config_def zero_config_params_def
            threshold_request_of_def split: bst_realm.splits)
      ultimately show ?thesis using posts_send by metis
    next
      case False
      then have "bstjson_configure_bst_thresholds_impl pf ps cookie asicId i p = Pair BVIEW_STATUS_INVALID_PARAMETER"
        by (simp add: e fun_eq_iff)
      then show ?thesis using posts_Pair by metis
    qed
  next
    case False
    then have "bst_realm_type_get (thr_realm p) = 0 \<or> (\<exists>e. sbapi_system_asic_capabilities_get ps asicId = Inl e)"
      using realm_type_zero_iff [of "thr_realm p"] by (cases "sbapi_system_asic_capabilities_get ps asicId") auto
    then have "\<exists>e. bstjson_configure_bst_thresholds_impl pf ps cookie asicId i p = Pair e"
      by (cases "bst_realm_type_get (thr_realm p) = 0")
         (auto simp: bstjson_configure_bst_thresholds_impl_def fun_eq_iff Let_def)
    then show ?thesis using posts_Pair by metis
  qed
  then show ?thesis by simp
qed

lemma posts_threshold_decode:
  "posts (\<lambda>w. case decode_configure_bst_thresholds ps params (sb_hw w) of
     (r, hw) \<Rightarrow> with_params r (bstjson_configure_bst_thresholds_impl pf ps cookie asicId i) (w\<lparr>sb_hw := hw\<rparr>))"
proof -
  have "posts (with_params r (bstjson_configure_bst_thresholds_impl pf ps cookie asicId i))" for r :: "threshold_command result"
    using posts_thresholds by (rule posts_params)
  note p = posts_at [OF this]
  show ?thesis unfolding posts_def split_beta using p by blast
qed

lemmas nb_impls =
  bstjson_clear_bst_statistics_impl_def bstjson_clear_bst_thresholds_impl_def bstjson_configure_bst_feature_impl_def
  bstjson_configure_bst_tracking_impl_def bstjson_get_bst_feature_impl_def bstjson_get_bst_report_impl_def
  bstjson_get_bst_thresholds_impl_def bstjson_get_bst_tracking_impl_def

lemma posts_impls:
  "posts (bstjson_clear_bst_statistics_impl cookie a i)" "posts (bstjson_clear_bst_thresholds_impl cookie a i)"
  "posts (bstjson_get_bst_feature_impl cookie a i)" "posts (bstjson_get_bst_tracking_impl cookie a i)"
  "posts (bstjson_configure_bst_tracking_impl cookie a i t)" "posts (bstjson_get_bst_report_impl cookie a i s)"
  "posts (bstjson_get_bst_thresholds_impl cookie a i s)"
  "feature_request_valid j \<Longrightarrow> posts (bstjson_configure_bst_feature_impl cookie a i (feature_of j))"
  unfolding nb_impls by (rule posts_send, rule request_ok_msg)+

lemmas nb_handlers =
  bstjson_configure_bst_tracking_def bstjson_configure_bst_feature_def bstjson_configure_bst_thresholds_def
  bstjson_get_bst_report_def bstjson_get_bst_feature_def bstjson_get_bst_tracking_def
  bstjson_get_bst_thresholds_def bstjson_clear_bst_thresholds_def bstjson_clear_bst_statistics_def

lemma posts_handlers: "posts (bst_rest_handler pf parse ps h cookie buf bytes)"
proof -
  have f: "posts (with_params (decode_configure_bst_feature p) (bstjson_configure_bst_feature_impl cookie a i))" for p a i
    by (rule posts_params) (use posts_impls(8) in \<open>auto simp: decode_feature_Inr\<close>)
  note e = posts_envelope
  have "posts (bstjson_configure_bst_tracking parse ps cookie buf bytes)"
    unfolding nb_handlers by (rule e, rule posts_params, rule posts_impls)
  moreover have "posts (bstjson_configure_bst_feature parse ps cookie buf bytes)"
    unfolding nb_handlers by (rule e, rule f)
  moreover have "posts (bstjson_configure_bst_thresholds pf parse ps cookie buf bytes)"
    unfolding nb_handlers by (rule e, rule posts_threshold_decode)
  moreover have "posts (bstjson_get_bst_report parse ps cookie buf bytes)"
    unfolding nb_handlers by (rule e, rule posts_params, rule posts_impls)
  moreover have "posts (bstjson_get_bst_thresholds parse ps cookie buf bytes)"
    unfolding nb_handlers by (rule e, rule posts_params, rule posts_impls)
  moreover have "posts (bstjson_get_bst_feature parse ps cookie buf bytes)"
    "posts (bstjson_get_bst_tracking parse ps cookie buf bytes)"
    "posts (bstjson_clear_bst_thresholds parse ps cookie buf bytes)"
    "posts (bstjson_clear_bst_statistics parse ps cookie buf bytes)"
    unfolding nb_handlers by (rule e, rule posts_impls)+
  ultimately show ?thesis by (simp add: bst_rest_handler_def posts_Pair)
qed

lemma bst_reach_trans: "bst_reach ps n w1 w2 \<Longrightarrow> bst_reach ps n w0 w1 \<Longrightarrow> bst_reach ps n w0 w2"
  by (induction rule: bst_reach.induct) (auto intro: bst_reach.reach_step)

lemma posts_reach:
  assumes "posts f"
  shows "bst_reach ps n w (snd (f w))"
proof -
  have s: "bst_reach ps n w (w\<lparr>sb_hw := hw\<rparr>)" for hw
    using bst_reach.reach_step [OF bst_reach.reach_start bst_step.silicon] .
  then have "bst_reach ps n w (snd (bst_send_request m (w\<lparr>sb_hw := hw\<rparr>)))" if "request_ok m" for m hw
    using bst_reach.reach_step bst_step.request [OF that] by blast
  then show ?thesis using postsD [OF assms, of w] s by metis
qed

end
