(* ===== verification/Rest_Props.thy ===== *)
theory Rest_Props
  imports Bst_Rest_Laws Report_Props
begin

text \<open>Properties of the REST commands of the BST application, from the text of a request to what the
  application holds and answers.\<close>

section \<open>Any command\<close>

text \<open>C34: whatever text a client posts to whichever command, decoding, validating and
  queueing it leaves the application in a state its own steps reach, so that every invariant of the
  application also holds under arbitrary client input.\<close>

theorem rest_command_reaches:
  "bst_reach ps n w (snd (bst_rest_handler pf cJSON_Parse ps h cookie jsonBuffer bufLength w))"
  using posts_reach [OF posts_handlers] .

text \<open>C39: a command gets past the checks on its envelope exactly when there is a cookie, the
  text parses to an object with parameters, the stated length is within the text, the first 63 characters
  of the version and of the method are those expected, the plugin knows the unit's notation, and the id
  is between 1 and 100000.\<close>

theorem envelope_exact:
  "bst_envelope cJSON_Parse ps name cookie jsonBuffer bufLength hw = (Inr (params, asicId, i), hw') \<longleftrightarrow>
     (\<exists>c text root ver meth asicStr out.
        cookie = Some c \<and> jsonBuffer = Some text \<and> 0 \<le> bufLength \<and> bufLength \<le> int (length text)
      \<and> cJSON_Parse text = Some root \<and> cJSON_GetObjectItem root ''params'' = Some params
      \<and> cJSON_GetObjectItem root ''jsonrpc'' = Some (cJSON_String ver) \<and> take 63 ver = ''2.0''
      \<and> cJSON_GetObjectItem root ''method'' = Some (cJSON_String meth) \<and> take 63 meth = name
      \<and> cJSON_GetObjectItem root ''asic-id'' = Some (cJSON_String asicStr)
      \<and> sbapi_system_asic_translate_from_notation ps asicStr hw = (BVIEW_STATUS_SUCCESS, out, hw')
      \<and> asicId = filled 0 out
      \<and> cJSON_GetObjectItem root ''id'' = Some (cJSON_Number i) \<and> 1 \<le> i \<and> i \<le> 100000)"
proof -
  have n: "range_member root ''id'' 1 100000 = Inr i \<longleftrightarrow>
      cJSON_GetObjectItem root ''id'' = Some (cJSON_Number i) \<and> 1 \<le> i \<and> i \<le> 100000" for root
    by (auto simp: range_member_def status_simps simp del: range_member_Inr)
  have asic: "JSON_ASIC_ID_MAP_FROM_NOTATION ps s hw = (Inr asicId, hw') \<longleftrightarrow>
      (\<exists>out. sbapi_system_asic_translate_from_notation ps s hw = (BVIEW_STATUS_SUCCESS, out, hw')
         \<and> asicId = filled 0 out)" for s
    by (auto simp: JSON_ASIC_ID_MAP_FROM_NOTATION_def split: prod.splits if_splits)
  have "bst_envelope cJSON_Parse ps name cookie jsonBuffer bufLength hw = (Inr (params, asicId, i), hw') \<longleftrightarrow>
      (\<exists>root asicStr. bst_envelope_text cJSON_Parse name cookie jsonBuffer bufLength = Inr (root, params, asicStr)
         \<and> JSON_ASIC_ID_MAP_FROM_NOTATION ps asicStr hw = (Inr asicId, hw')
         \<and> range_member root ''id'' 1 100000 = Inr i)"
    unfolding bst_envelope_def
    by (cases "bst_envelope_text cJSON_Parse name cookie jsonBuffer bufLength")
       (auto simp: res_bind_Inr_iff simp del: range_member_Inr split: prod.splits sum.splits)
  then show ?thesis
    unfolding n asic envelope_text_Inr by (simp only: ex_simps conj_assoc) blast
qed

section \<open>A request on a concrete text\<close>

definition sample_json :: "string \<Rightarrow> (string \<times> json) list \<Rightarrow> json" where
  "sample_json method params = cJSON_Object [(''jsonrpc'', cJSON_String ''2.0''), (''method'', cJSON_String method),
     (''asic-id'', cJSON_String ''0''), (''params'', cJSON_Object params), (''id'', cJSON_Number 42)]"

lemma sample_translate: "sbapi_system_asic_translate_from_notation sample_plugins s h = (BVIEW_STATUS_SUCCESS, Some 0, h)"
  by (simp add: sbapi_system_asic_translate_from_notation_def sb_system_call_def sample_system_handle)
     (simp add: sample_system_def)

text \<open>The text itself is irrelevant: the parser is instantiated by the one that yields the sample.\<close>

lemma sample_envelope:
  assumes "name \<in> {''configure-bst-feature'', ''get-bst-report''}"
  shows "bst_envelope (\<lambda>_. Some (sample_json name params)) sample_plugins name (Some 1) (Some ''{}'') 2 h =
    (Inr (cJSON_Object params, 0, 42), h)"
  using assms
  by (auto simp: envelope_exact sample_translate sample_json_def cJSON_GetObjectItem_def filled_def c_tolower_def)

section \<open>The feature command\<close>

text \<open>What a feature command asks for: its four required members, the optional ones when they are there,
  the full-report switch stored inverted.\<close>

definition feature_applied :: "json \<Rightarrow> config_params \<Rightarrow> config_params" where
  "feature_applied j c = c\<lparr>
     sendAsyncReports := member_int j ''send-async-reports'',
     collectionInterval := member_int j ''collection-interval'',
     statUnitsInCells := member_int j ''stat-units-in-cells'',
     bstMaxTriggers := (if has_member j ''trigger-rate-limit'' then member_int j ''trigger-rate-limit'' else bstMaxTriggers c),
     sendSnapshotOnTrigger := (if has_member j ''send-snapshot-on-trigger''
        then member_int j ''send-snapshot-on-trigger'' else sendSnapshotOnTrigger c),
     triggerTransmitInterval := (if has_member j ''trigger-rate-limit-interval''
        then member_int j ''trigger-rate-limit-interval'' else triggerTransmitInterval c),
     sendIncrementalReport := (if has_member j ''async-full-reports''
        then 1 - member_int j ''async-full-reports'' else sendIncrementalReport c),
     statsInPercentage := (if has_member j ''stats-in-percentage''
        then member_int j ''stats-in-percentage'' else statsInPercentage c)\<rparr>"

lemma feature_of_bits:
  "cfg_has (feature_of j) BST_CONFIG_PARAMS_ENABLE" "cfg_has (feature_of j) BST_CONFIG_PARAMS_SND_ASYNC_REP"
  "cfg_has (feature_of j) BST_CONFIG_PARAMS_COLL_INTRVL" "cfg_has (feature_of j) BST_CONFIG_PARAMS_STATS_UNITS"
  "cfg_has (feature_of j) BST_CONFIG_PARAMS_TGR_RATE_LIMIT = has_member j ''trigger-rate-limit''"
  "cfg_has (feature_of j) BST_CONFIG_PARAMS_SND_SNAP_TGR = has_member j ''send-snapshot-on-trigger''"
  "cfg_has (feature_of j) BST_CONFIG_PARAMS_TGR_RL_INTVL = has_member j ''trigger-rate-limit-interval''"
  "cfg_has (feature_of j) BST_CONFIG_PARAMS_ASYNC_FULL_REP = has_member j ''async-full-reports''"
  "cfg_has (feature_of j) BST_CONFIG_PARAMS_STATS_IN_PERCENT = has_member j ''stats-in-percentage''"
  by (auto simp: cfg_has_def feature_of_def config_param_defs member_bit_def)

lemma feature_of_fields:
  "sendAsyncReports (feature_of j) = member_int j ''send-async-reports''"
  "collectionInterval (feature_of j) = member_int j ''collection-interval''"
  "statUnitsInCells (feature_of j) = member_int j ''stat-units-in-cells''"
  "bstMaxTriggers (feature_of j) = member_int j ''trigger-rate-limit''"
  "sendSnapshotOnTrigger (feature_of j) = member_int j ''send-snapshot-on-trigger''"
  "triggerTransmitInterval (feature_of j) = member_int j ''trigger-rate-limit-interval''"
  "sendIncrementalReport (feature_of j) = member_int j ''async-full-reports''"
  "statsInPercentage (feature_of j) = member_int j ''stats-in-percentage''"
  "bstEnable (feature_of j) = member_int j ''bst-enable''"
  by (simp_all add: feature_of_def)

lemma binary_member: "number_in j n 0 1 \<Longrightarrow> member_int j n = 0 \<or> member_int j n = 1"
  using member_int_bounds [of j n 0 1] by linarith

lemma feature_of_spec:
  assumes "feature_request_valid j"
  shows "feature_spec (feature_of j) c = feature_applied j c"
proof -
  have "number_in j ''send-async-reports'' 0 1" "maybe_in j ''async-full-reports'' 0 1"
    using assms by (simp_all add: feature_request_valid_def)
  then have i: "(if member_int j ''async-full-reports'' = 0 then 1 else 0) = 1 - member_int j ''async-full-reports''"
    and a: "(if member_int j ''send-async-reports'' = 1 then 1 else 0) = member_int j ''send-async-reports''"
    using binary_member [of j "''async-full-reports''"] binary_member [of j "''send-async-reports''"]
    by (auto simp: maybe_in_def member_int_missing)
  show ?thesis
    by (cases c) (simp add: feature_spec_def feature_of_bits feature_applied_def feature_of_fields i a
        cong: if_cong split del: if_split)
qed

lemma idle_step: "w1 = w\<lparr>bst_msgq := [m]\<rparr> \<Longrightarrow> bst_msgq w = [] \<Longrightarrow> bst_app_step ps n w1 = app_handle ps n m w"
  by (cases w) (simp add: bst_app_step_def)

text \<open>C35: a feature command with valid parameters, posted to an idle application, is
  answered under its own id after one turn, and leaves the unit with exactly the parameters of its text,
  the optional ones that are missing unchanged; the enable switch changes exactly when the answer is a
  success.\<close>

theorem feature_command_applied:
  assumes "bst_envelope cJSON_Parse ps ''configure-bst-feature'' cookie jsonBuffer bufLength (sb_hw w) =
      (Inr (params, asicId, i), hw)"
    "feature_request_valid params" "bst_msgq w = []" "0 < msgq_limit w" "unit_valid w asicId" "asicId < int n"
    "bstjson_configure_bst_feature cJSON_Parse ps cookie jsonBuffer bufLength w = (rv, w1)"
    "w2 = bst_app_step ps n w1"
  shows "rv = BVIEW_STATUS_SUCCESS
    \<and> (\<exists>r. sent_responses w2 = sent_responses w @ [r] \<and> resp_id r = i \<and> resp_unit r = asicId
        \<and> get_config asicId w2 = (let c = feature_applied params (get_config asicId w) in
            if resp_rv r = BVIEW_STATUS_SUCCESS then c\<lparr>bstEnable := member_int params ''bst-enable''\<rparr> else c))"
proof -
  define m where "m = (nb_msg BVIEW_BST_CMD_API_SET_FEATURE asicId cookie i)\<lparr>msg_request := REQ_CONFIG (feature_of params)\<rparr>"
  let ?v = "w\<lparr>sb_hw := hw\<rparr>"
  have m: "msg_unit m = asicId" "msg_type m = BVIEW_BST_CMD_API_SET_FEATURE" "msg_id m = i"
    "req_config m = feature_of params"
    by (simp_all add: m_def nb_msg_def zero_msg_def req_config_def)
  have post: "rv = BVIEW_STATUS_SUCCESS" "w1 = ?v\<lparr>bst_msgq := [m]\<rparr>"
    using assms(7) decode_feature_Inr [of params "feature_of params"] assms(1-4)
    by (simp_all add: nb_handlers with_envelope_def with_params_def nb_impls bst_send_request_def m_def)
  have v: "unit_valid ?v (msg_unit m)" "0 \<le> msg_unit m" "msg_unit m < int n"
    using assms(5,6) m by (simp_all add: unit_valid_def)
  have step: "w2 = app_handle ps n m ?v" 
    using idle_step [OF post(2)] assms(3) by (simp add: assms(8))
  obtain rv' w' where s: "bst_config_feature_set ps m ?v = (rv', w')" by fastforce
  have h: "bst_type_api_get (msg_type m) = Inr H_config_feature_set"
    by (simp add: m bst_type_api_get_def bst_api_list_def)
  then have eq: "w2 = bst_copy_reply_params m rv' w'"
    using v s m by (simp add: step app_handle_def keep_msg_def)
  have "gets_answer (msg_type m)" by (simp add: gets_answer_def m)
  then obtain r where r: "sent_responses w2 = sent_responses ?v @ [r]" "resp_rv r = rv'" "resp_id r = i" "resp_unit r = asicId"
    using app_handle_answers [OF v(2,3), of ps ?v] h s m by (auto simp: step keep_msg_def)
  have "get_config asicId w2 = get_config asicId w'"
    using m by (simp add: eq bst_copy_reply_params_def Let_def get_config_def)
  also have "\<dots> = (let c = feature_applied params (get_config asicId w) in
      if rv' = BVIEW_STATUS_SUCCESS then c\<lparr>bstEnable := member_int params ''bst-enable''\<rparr> else c)"
    using feature_set_config [OF v(1) s] feature_of_spec [OF assms(2)] feature_of_bits(1) m
    by (simp add: get_config_def Let_def feature_of_fields)
  finally show ?thesis using post(1) r by auto
qed

definition sample_feature_params :: "(string \<times> json) list" where
  "sample_feature_params = [(''bst-enable'', cJSON_Number 1), (''send-async-reports'', cJSON_Number 1),
     (''collection-interval'', cJSON_Number 10), (''stat-units-in-cells'', cJSON_Number 0),
     (''async-full-reports'', cJSON_Number 1)]"

lemma sample_feature_valid: "feature_request_valid (cJSON_Object sample_feature_params)"
  by (simp add: feature_request_valid_def sample_feature_params_def number_in_def maybe_in_def has_member_def
      cJSON_GetObjectItem_def c_tolower_def)

definition sample_after_feature :: "bst_config bst_world" where
  "sample_after_feature = bst_app_step sample_plugins 1 (snd (bstjson_configure_bst_feature
     (\<lambda>_. Some (sample_json ''configure-bst-feature'' sample_feature_params)) sample_plugins (Some 1) (Some ''{}'') 2 sample_world))"

theorem feature_command_applied_witness:
  "collectionInterval (get_config 0 sample_after_feature) = 10 \<and> sendIncrementalReport (get_config 0 sample_after_feature) = 0"
proof -
  let ?p = "cJSON_Object sample_feature_params"
  have n: "member_int ?p ''collection-interval'' = 10" "member_int ?p ''async-full-reports'' = 1"
    "has_member ?p ''async-full-reports''" "member_int ?p ''bst-enable'' = 1"
    by (simp_all add: sample_feature_params_def member_int_def has_member_def cJSON_GetObjectItem_def c_tolower_def)
  have a: "collectionInterval (feature_applied ?p c) = 10" "sendIncrementalReport (feature_applied ?p c) = 0" for c
    by (simp_all add: feature_applied_def n)
  show ?thesis
    using feature_command_applied [OF sample_envelope sample_feature_valid, of sample_world 1, OF _ _ _ _ _ prod.collapse [symmetric]
        sample_after_feature_def]
      a by (auto simp: Let_def split: if_splits)
qed

text \<open>C36: a report command whose flags are all present and 0 or 1, posted to an idle
  application, is answered after one turn under its own id, to its own client, with exactly the realms its
  text asks for.\<close>

theorem report_command_answered:
  assumes "bst_envelope cJSON_Parse ps ''get-bst-report'' cookie jsonBuffer bufLength (sb_hw w) =
      (Inr (params, asicId, i), hw)"
    "decode_get_bst_report params = Inr flags" "bst_msgq w = []" "0 < msgq_limit w" "unit_valid w asicId" "asicId < int n"
    "bstjson_get_bst_report cJSON_Parse ps cookie jsonBuffer bufLength w = (rv, w1)"
  shows "\<exists>r. sent_responses (bst_app_step ps n w1) = sent_responses w @ [r]
    \<and> resp_id r = i \<and> resp_cookie r = cookie \<and> resp_unit r = asicId
    \<and> {k. realm_included k (resp_options r)} = {k. member_int params (realm_member ''include'' k) = 1}"
proof -
  define m where "m = (nb_msg BVIEW_BST_CMD_API_GET_REPORT asicId cookie i)\<lparr>msg_request := REQ_COLLECT flags\<rparr>"
  let ?v = "w\<lparr>sb_hw := hw\<rparr>"
  have m: "msg_unit m = asicId" "msg_type m = BVIEW_BST_CMD_API_GET_REPORT" "msg_id m = i" "msg_cookie m = cookie"
    "req_collect m = flags" "msg_report_type m = BVIEW_BST_REPORT_UNSET"
    by (simp_all add: m_def nb_msg_def zero_msg_def req_collect_def)
  have "w1 = ?v\<lparr>bst_msgq := [m]\<rparr>"
    using assms(7,1-4) by (simp add: nb_handlers with_envelope_def with_params_def nb_impls bst_send_request_def m_def)
  then have step: "bst_app_step ps n w1 = app_handle ps n m ?v" 
    using idle_step [where w = ?v] assms(3) by simp
  have v: "unit_valid ?v (msg_unit m)" "0 \<le> msg_unit m" "msg_unit m < int n"
    using assms(5,6) m by (simp_all add: unit_valid_def)
  have h: "bst_type_api_get (msg_type m) = Inr H_get_report" by (simp add: m bst_type_api_get_def bst_api_list_def)
  obtain rv' w' where s: "bst_get_report ps m ?v = (rv', report_message m ?v, w')"
    using m(2) by (auto simp: bst_get_report_def Let_def split_beta)
  have rm: "report_message m ?v = m" using m(6) by (simp add: report_message_def Let_def)
  have sent: "sent_responses w' = sent_responses w" using sent_run_handler [of H_get_report ps m ?v] s by simp
  have eq: "bst_app_step ps n w1 = bst_copy_reply_params m rv' w'"
    using v h s m rm by (simp add: step app_handle_def)
  have inc: "realm_included k (BST_COPY_COLLECT_TO_RESP flags p) \<longleftrightarrow> member_int params (realm_member ''include'' k) = 1" for k p
  proof -
    have "number_in params (realm_member ''include'' k) 0 1" using assms(2) by (simp add: decode_report_Inr)
    then have "member_int params (realm_member ''include'' k) \<noteq> 0 \<longleftrightarrow> member_int params (realm_member ''include'' k) = 1"
      using binary_member by fastforce
    then show ?thesis
      using assms(2) by (cases k) (simp_all add: decode_report_Inr BST_COPY_COLLECT_TO_RESP_def realm_member_def)
  qed
  show ?thesis
    unfolding eq bst_copy_reply_params_def Let_def
    using m sent by (auto simp: zero_response_def report_options_realms inc bst_update_data_def)
qed

definition sample_report_params :: "(string \<times> json) list" where
  "sample_report_params = (''include-device'', cJSON_Number 1) #
     map (\<lambda>r. (realm_member ''include'' r, cJSON_Number 0)) (remove1 BVIEW_BST_DEVICE all_realms)"

lemma sample_report_members:
  "number_in (cJSON_Object sample_report_params) (realm_member ''include'' r) 0 1"
  "member_int (cJSON_Object sample_report_params) (realm_member ''include'' r) = (if r = BVIEW_BST_DEVICE then 1 else 0)"
  by (cases r; simp add: sample_report_params_def all_realms_def realm_member_def number_in_def member_int_def
      cJSON_GetObjectItem_def c_tolower_def)+

theorem report_command_answered_witness:
  "\<exists>r. sent_responses (bst_app_step sample_plugins 1 (snd (bstjson_get_bst_report
       (\<lambda>_. Some (sample_json ''get-bst-report'' sample_report_params)) sample_plugins (Some 1) (Some ''{}'') 2 sample_world))) = [r]
     \<and> resp_id r = 42 \<and> {k. realm_included k (resp_options r)} = {BVIEW_BST_DEVICE}"
proof -
  let ?p = "cJSON_Object sample_report_params"
  obtain c where "decode_get_bst_report ?p = Inr c"
    using sample_report_members by (auto simp: decode_report_Inr)
  from report_command_answered [OF sample_envelope this, of sample_world 1, OF _ _ _ _ _ prod.collapse [symmetric]]
  show ?thesis by (auto simp: sample_report_members)
qed

section \<open>The tracking command\<close>

lemma track_of_fields:
  "trackIngressPortPriorityGroup (track_of j) = member_int j ''track-ingress-port-priority-group''"
  "trackIngressPortServicePool (track_of j) = member_int j ''track-ingress-port-service-pool''"
  "trackIngressServicePool (track_of j) = member_int j ''track-ingress-service-pool''"
  "trackEgressPortServicePool (track_of j) = member_int j ''track-egress-port-service-pool''"
  "trackEgressServicePool (track_of j) = member_int j ''track-egress-service-pool''"
  "trackEgressUcQueue (track_of j) = member_int j ''track-egress-uc-queue''"
  "trackEgressUcQueueGroup (track_of j) = member_int j ''track-egress-uc-queue-group''"
  "trackEgressMcQueue (track_of j) = member_int j ''track-egress-mc-queue''"
  "trackEgressCpuQueue (track_of j) = member_int j ''track-egress-cpu-queue''"
  "trackEgressRqeQueue (track_of j) = member_int j ''track-egress-rqe-queue''"
  "trackDevice (track_of j) = member_int j ''track-device''"
  "trackPeakStats (track_of j) = member_int j ''track-peak-stats''"
  "trackMask (track_of j) = bst_realm_to_mask (track_of j)"
  by (simp_all add: track_of_def Let_def) (simp add: bst_realm_to_mask_def)

text \<open>C37: the decoder of the tracking command only produces structures whose flags are 0
  or 1, whose mask is the mask of the flags, and that track exactly the realms whose members are 1.\<close>

theorem tracking_command_typed:
  assumes "decode_configure_bst_tracking params = Inr t"
  shows "flags_binary t \<and> trackPeakStats t \<in> {0, 1} \<and> trackMask t = bst_realm_to_mask t
    \<and> {r. realm_tracked r t} = {r. member_int params (realm_member ''track'' r) = 1}"
proof -
  note d = assms [unfolded decode_tracking_Inr]
  have b: "member_int params (realm_member ''track'' r) = 0 \<or> member_int params (realm_member ''track'' r) = 1" for r
    using d binary_member by blast
  have p: "trackPeakStats t \<in> {0, 1}" using d binary_member by (simp add: track_of_fields)
  have m: "trackMask t = bst_realm_to_mask t"
    using d track_of_fields(13) by simp
  have f: "flags_binary t"
    using b [of BVIEW_BST_INGRESS_PORT_PG] b [of BVIEW_BST_INGRESS_PORT_SP] b [of BVIEW_BST_INGRESS_SP]
      b [of BVIEW_BST_EGRESS_PORT_SP] b [of BVIEW_BST_EGRESS_SP] b [of BVIEW_BST_EGRESS_UC_QUEUE]
      b [of BVIEW_BST_EGRESS_UC_QUEUEGROUPS] b [of BVIEW_BST_EGRESS_MC_QUEUE] b [of BVIEW_BST_EGRESS_CPU_QUEUE]
      b [of BVIEW_BST_EGRESS_RQE_QUEUE] b [of BVIEW_BST_DEVICE]
    unfolding flags_binary_def by (simp add: d track_of_fields realm_member_def)
  have "realm_tracked r t \<longleftrightarrow> member_int params (realm_member ''track'' r) = 1" for r
    using d b [of r] by (cases r) (auto simp: track_of_fields realm_member_def)
  then show ?thesis using f p m by blast
qed

definition sample_track_params :: "(string \<times> json) list" where
  "sample_track_params = (''track-peak-stats'', cJSON_Number 0) # (''track-device'', cJSON_Number 1) #
     map (\<lambda>r. (realm_member ''track'' r, cJSON_Number 0)) (remove1 BVIEW_BST_DEVICE all_realms)"

lemma sample_track_members:
  "number_in (cJSON_Object sample_track_params) ''track-peak-stats'' 0 1"
  "number_in (cJSON_Object sample_track_params) (realm_member ''track'' r) 0 1"
  "member_int (cJSON_Object sample_track_params) (realm_member ''track'' r) = (if r = BVIEW_BST_DEVICE then 1 else 0)"
  by (simp_all add: sample_track_params_def number_in_def cJSON_GetObjectItem_def c_tolower_def)
     (cases r; simp add: sample_track_params_def all_realms_def realm_member_def number_in_def member_int_def
      cJSON_GetObjectItem_def c_tolower_def)+

theorem tracking_command_typed_witness:
  "trackMask (track_of (cJSON_Object sample_track_params)) = bst_realm_to_mask (track_of (cJSON_Object sample_track_params))
   \<and> {r. realm_tracked r (track_of (cJSON_Object sample_track_params))} = {BVIEW_BST_DEVICE}"
proof -
  have "decode_configure_bst_tracking (cJSON_Object sample_track_params) = Inr (track_of (cJSON_Object sample_track_params))"
    using sample_track_members by (simp add: decode_tracking_Inr)
  from tracking_command_typed [OF this] show ?thesis by (simp add: sample_track_members)
qed

section \<open>The threshold command\<close>






text \<open>Of a threshold command for egress ports and service pools, the limit on the
  queue entries of multicast is checked but never sent: two valid commands that differ only in it queue
  the same message, with zero in its place.\<close>

lemma shared_queue_entries_lost:
  assumes "thr_realm p = ''egress-port-service-pool''" "0 < v" "v \<le> 27262768"
    "0 < thr_mcShareQueueEntriesThreshold p" "thr_mcShareQueueEntriesThreshold p \<le> 27262768"
  shows "bstjson_configure_bst_thresholds_impl pf ps cookie asicId i (p\<lparr>thr_mcShareQueueEntriesThreshold := v\<rparr>) w =
    bstjson_configure_bst_thresholds_impl pf ps cookie asicId i p w"
proof (cases "sbapi_system_asic_capabilities_get ps asicId")
  case (Inl e)
  then show ?thesis using assms(1) by (simp add: bstjson_configure_bst_thresholds_impl_def Let_def)
next
  case (Inr cap)
  let ?r = BVIEW_BST_EGRESS_PORT_SP and ?p = "p\<lparr>thr_mcShareQueueEntriesThreshold := v\<rparr>"
  have r: "thr_realm p = realm_name ?r" "thr_realm ?p = realm_name ?r" using assms(1) by simp_all
  have "threshold_valid pf cap ?r ?p = threshold_valid pf cap ?r p"
    using assms(2-5) by (simp add: threshold_valid_def place_ok_def threshold_values_def Let_def)
  moreover have "threshold_msg asicId cookie i ?r ?p = threshold_msg asicId cookie i ?r p"
    by (simp add: threshold_msg_def threshold_request_of_def)
  ultimately show ?thesis by (simp add: threshold_impl_exact [OF Inr r(1)] threshold_impl_exact [OF Inr r(2)])
qed

definition sample_pool_threshold :: threshold_command where
  "sample_pool_threshold = zero_threshold_command\<lparr>thr_realm := ''egress-port-service-pool'', thr_port := 1,
     thr_ucShareThreshold := 208, thr_umShareThreshold := 208, thr_mcShareThreshold := 208,
     thr_mcShareQueueEntriesThreshold := 208\<rparr>"

lemma shared_queue_entries_lost_witness:
  "bstjson_configure_bst_thresholds_impl trident2_platform sample_plugins (Some 1) 0 42
     (sample_pool_threshold\<lparr>thr_mcShareQueueEntriesThreshold := 416\<rparr>) sample_world =
   bstjson_configure_bst_thresholds_impl trident2_platform sample_plugins (Some 1) 0 42 sample_pool_threshold sample_world"
  using shared_queue_entries_lost [of sample_pool_threshold 416] by (simp add: sample_pool_threshold_def)

section \<open>Notifications\<close>

text \<open>The plugin's notification that the tracking configuration changed queues the
  same message as the one for the feature configuration.\<close>

lemma notify_always_feature:
  "bst_notify_config_change asicId BVIEW_BST_CONFIG_TRACK_UPDATE w =
     bst_send_request (zero_msg BVIEW_BST_CMD_API_UPDATE_FEATURE asicId) w"
  by (simp add: bst_notify_config_change_def BVIEW_BST_CONFIG_TRACK_UPDATE_def BVIEW_BST_CONFIG_FEATURE_UPDATE_def
      zero_msg_def)

end
