(* ===== verification/C_Loops.thy ===== *)
theory C_Loops
  imports Bview_Prelude
begin

text \<open>The counting loops of the plugins over arrays in a structure: loops whose body can make the function
  return early, loops whose body can write outside an array, and the writes themselves. A pair of a flag and
  data is what the data holds when the loop ends and whether it ended normally.\<close>

section \<open>Loops that may return early\<close>

primrec sweep :: "('k \<Rightarrow> 'd \<Rightarrow> bool \<times> 'd) \<Rightarrow> 'k list \<Rightarrow> 'd \<Rightarrow> bool \<times> 'd" where
  "sweep f [] d = (True, d)"
| "sweep f (k # ks) d = (case f k d of (ok, d') \<Rightarrow> if ok then sweep f ks d' else (False, d'))"

text \<open>Two parts of a body, one after the other.\<close>

definition and_then :: "('d \<Rightarrow> bool \<times> 'd) \<Rightarrow> ('d \<Rightarrow> bool \<times> 'd) \<Rightarrow> 'd \<Rightarrow> bool \<times> 'd" where
  "and_then f g d = (case f d of (ok, d') \<Rightarrow> if ok then g d' else (False, d'))"

section \<open>Loops that write\<close>

primrec each :: "('k \<Rightarrow> 'd \<Rightarrow> 'd option) \<Rightarrow> 'k list \<Rightarrow> 'd \<Rightarrow> 'd option" where
  "each f [] d = Some d"
| "each f (k # ks) d = (case f k d of None \<Rightarrow> None | Some d' \<Rightarrow> each f ks d')"

text \<open>A member of an array changed in place, and a write that is undefined outside it.\<close>

definition at_cell :: "nat \<Rightarrow> ('a \<Rightarrow> 'a) \<Rightarrow> 'a list \<Rightarrow> 'a list" where
  "at_cell i f xs = xs[i := f (xs ! i)]"

definition write_at :: "nat \<Rightarrow> ('a \<Rightarrow> 'a) \<Rightarrow> 'a list \<Rightarrow> 'a list option" where
  "write_at i f xs = (if i < length xs then Some (at_cell i f xs) else None)"

definition write_grid :: "nat \<Rightarrow> nat \<Rightarrow> ('a \<Rightarrow> 'a) \<Rightarrow> 'a list list \<Rightarrow> 'a list list option" where
  "write_grid i j f g = (if i < length g \<and> j < length (g ! i) then Some (at_cell i (at_cell j f) g) else None)"

section \<open>Facts\<close>

lemma sweep_append:
  "sweep f (xs @ ys) d = (case sweep f xs d of (ok, d') \<Rightarrow> if ok then sweep f ys d' else (False, d'))"
  by (induction xs arbitrary: d) (auto split: prod.splits)

lemma length_at_cell [simp]: "length (at_cell i f xs) = length xs"
  by (simp add: at_cell_def)

lemma nth_at_cell: "i < length xs \<Longrightarrow> at_cell i f xs ! j = (if j = i then f (xs ! i) else xs ! j)"
  by (simp add: at_cell_def nth_list_update)

lemma at_cell_outside: "length xs \<le> i \<Longrightarrow> at_cell i f xs = xs"
  by (simp add: at_cell_def list_update_beyond)

lemma at_cell_at_cell [simp]: "at_cell i f (at_cell i g xs) = at_cell i (\<lambda>x. f (g x)) xs"
  by (cases "i < length xs") (simp_all add: at_cell_def list_update_beyond)

lemma at_cell_id [simp]: "at_cell i (\<lambda>x. x) xs = xs"
  by (simp add: at_cell_def)

lemma each_append:
  "each f (xs @ ys) d = (case each f xs d of None \<Rightarrow> None | Some d' \<Rightarrow> each f ys d')"
  by (induction xs arbitrary: d) (auto split: option.splits)

text \<open>The first cells of an array, each changed by a function of its index.\<close>

definition fill :: "nat \<Rightarrow> (nat \<Rightarrow> 'a \<Rightarrow> 'a) \<Rightarrow> 'a list \<Rightarrow> 'a list" where
  "fill n g xs = map (\<lambda>i. if i < n then g i (xs ! i) else xs ! i) [0..<length xs]"

lemma length_fill [simp]: "length (fill n g xs) = length xs"
  by (simp add: fill_def)

lemma nth_fill [simp]: "i < length xs \<Longrightarrow> fill n g xs ! i = (if i < n then g i (xs ! i) else xs ! i)"
  by (simp add: fill_def)

lemma fill_0 [simp]: "fill 0 g xs = xs"
  by (simp add: fill_def map_nth)

lemma at_cell_fill_0 [simp]: "at_cell i (fill 0 g) d = d"
  by (simp add: at_cell_def)

lemma fill_Suc: "at_cell n (g n) (fill n g xs) = fill (Suc n) g xs"
proof (rule nth_equalityI)
  fix i
  assume "i < length (at_cell n (g n) (fill n g xs))"
  then show "at_cell n (g n) (fill n g xs) ! i = fill (Suc n) g xs ! i"
    by (cases "n < length xs") (auto simp: nth_at_cell at_cell_outside less_Suc_eq)
qed simp

text \<open>A loop that never fails and changes the cell of its counter fills the array.\<close>

lemma sweep_fill:
  assumes "\<And>i d. i < n \<Longrightarrow> f i d = (True, at_cell i (g i) d)"
  shows "sweep f [0..<n] d = (True, fill n g d)"
  using assms by (induction n) (simp_all add: sweep_append fill_Suc)

lemma sweep_row:
  assumes "\<And>j d. j < m \<Longrightarrow> f j d = (True, at_cell i (at_cell j (g j)) d)"
  shows "sweep f [0..<m] d = (True, at_cell i (fill m g) d)"
  using assms by (induction m) (simp_all add: sweep_append fill_Suc)

lemma sweep_ports:
  assumes "\<And>p d. 1 \<le> p \<Longrightarrow> p \<le> n \<Longrightarrow> f p d = (True, at_cell (p - 1) (g p) d)"
  shows "sweep f [1..<Suc n] d = (True, fill n (\<lambda>i. g (Suc i)) d)"
  using assms
proof (induction n)
  case (Suc n)
  have "[1..<Suc (Suc n)] = [1..<Suc n] @ [Suc n]" by simp
  then show ?case using Suc fill_Suc [of n "\<lambda>i. g (Suc i)" d] by (simp add: sweep_append)
qed simp

text \<open>The same for the loops that write without a check.\<close>

lemma each_fill:
  assumes "n \<le> length d"
  shows "each (\<lambda>i. write_at i (g i)) [0..<n] d = Some (fill n g d)"
  using assms by (induction n) (simp_all add: each_append write_at_def fill_Suc)

lemma each_row:
  assumes "i < length d" "m \<le> length (d ! i)"
  shows "each (\<lambda>j. write_grid i j (g j)) [0..<m] d = Some (at_cell i (fill m g) d)"
  using assms by (induction m) (simp_all add: each_append write_grid_def fill_Suc nth_at_cell)

lemma each_ports:
  assumes "n \<le> length d" "\<And>p d'. 1 \<le> p \<Longrightarrow> p \<le> n \<Longrightarrow> length d' = length d \<Longrightarrow> (\<forall>i<length d. p - 1 \<le> i \<longrightarrow> d' ! i = d ! i)
      \<Longrightarrow> f p d' = Some (at_cell (p - 1) (g p) d')"
  shows "each f [1..<Suc n] d = Some (fill n (\<lambda>i. g (Suc i)) d)"
  using assms
proof (induction n)
  case (Suc n)
  then have a: "each f [1..<Suc n] d = Some (fill n (\<lambda>i. g (Suc i)) d)" by simp
  have "[1..<Suc (Suc n)] = [1..<Suc n] @ [Suc n]" by simp
  moreover have "f (Suc n) (fill n (\<lambda>i. g (Suc i)) d) = Some (at_cell n (g (Suc n)) (fill n (\<lambda>i. g (Suc i)) d))"
    using Suc.prems(2) [of "Suc n" "fill n (\<lambda>i. g (Suc i)) d"] by simp
  ultimately show ?case using a fill_Suc [of n "\<lambda>i. g (Suc i)" d] by (simp add: each_append)
qed simp

end
