(* ===== verification/C_Text.thy ===== *)
theory C_Text
  imports Bview_Prelude
begin

text \<open>The string functions of the C library the plugin and the encoders use, on strings without NUL:
  decimal conversion both ways, and strtok with one delimiter, called until it returns NULL.\<close>

section \<open>Numbers\<close>

definition digit_char :: "nat \<Rightarrow> char" where
  "digit_char n = char_of (48 + n)"

definition is_digit :: "char \<Rightarrow> bool" where
  "is_digit c = (48 \<le> (of_char c :: nat) \<and> (of_char c :: nat) \<le> 57)"

definition is_space :: "char \<Rightarrow> bool" where
  "is_space c = ((of_char c :: nat) = 32 \<or> 9 \<le> (of_char c :: nat) \<and> (of_char c :: nat) \<le> 13)"

text \<open>The conversion of printf for d, from the last digit to the first.\<close>

function decimal :: "nat \<Rightarrow> string" where
  "decimal n = (if n < 10 then [digit_char n] else decimal (n div 10) @ [digit_char (n mod 10)])"
  by auto
termination by (relation "measure (\<lambda>n. n)") auto

definition fmt_d :: "int \<Rightarrow> string" where
  "fmt_d i = (if i < 0 then CHR ''-'' # decimal (nat (- i)) else decimal (nat i))"

definition digits_value :: "string \<Rightarrow> int" where
  "digits_value s = foldl (\<lambda>a c. 10 * a + (int (of_char c) - 48)) 0 (takeWhile is_digit s)"

text \<open>atoi skips white space, takes a sign and the digits that follow; a text without them is 0.\<close>

definition atoi :: "string \<Rightarrow> int" where
  "atoi s = (case dropWhile is_space s of
      [] \<Rightarrow> 0
    | c # t \<Rightarrow> if c = CHR ''-'' then - digits_value t
               else if c = CHR ''+'' then digits_value t else digits_value (c # t))"

declare decimal.simps [simp del]

section \<open>Tokens\<close>

text \<open>The non-empty pieces between delimiters, as successive calls of strtok return them.\<close>

function strtok_all :: "char \<Rightarrow> string \<Rightarrow> string list" where
  "strtok_all d s =
     (case dropWhile (\<lambda>c. c = d) s of
        [] \<Rightarrow> []
      | t \<Rightarrow> takeWhile (\<lambda>c. c \<noteq> d) t # strtok_all d (dropWhile (\<lambda>c. c \<noteq> d) t))"
  by auto
termination
proof (relation "measure (\<lambda>(d, s). length s)")
  fix d :: char and s x y and z :: string
  assume "dropWhile (\<lambda>c. c = d) s = x # y" and "z = x # y"
  moreover from this have "x \<noteq> d" using hd_dropWhile [of "\<lambda>c. c = d" s] by auto
  moreover have "length (dropWhile (\<lambda>c. c \<noteq> d) y) \<le> length y" by (rule length_dropWhile_le)
  moreover have "length (dropWhile (\<lambda>c. c = d) s) \<le> length s" by (rule length_dropWhile_le)
  ultimately show "((d, dropWhile (\<lambda>c. c \<noteq> d) (x # y)), (d, s)) \<in> measure (\<lambda>(d, s). length s)" by simp
qed simp

declare strtok_all.simps [simp del]

section \<open>Facts\<close>

lemma of_digit_char: "n < 10 \<Longrightarrow> (of_char (digit_char n) :: nat) = 48 + n"
  by (simp add: digit_char_def)

lemma is_digit_char: "n < 10 \<Longrightarrow> is_digit (digit_char n)"
  by (simp add: is_digit_def of_digit_char)

lemma decimal_digits: "\<forall>c\<in>set (decimal n). is_digit c"
proof (induction n rule: decimal.induct)
  case (1 n)
  then show ?case by (subst decimal.simps) (auto simp: is_digit_char)
qed

lemma decimal_not_Nil [simp]: "decimal n \<noteq> []"
  by (subst decimal.simps) simp

lemma takeWhile_digits: "\<forall>c\<in>set s. is_digit c \<Longrightarrow> takeWhile is_digit s = s"
  by (simp add: takeWhile_eq_all_conv)

lemma decimal_value: "foldl (\<lambda>a c. 10 * a + (int (of_char c) - 48)) 0 (decimal n) = int n"
proof (induction n rule: decimal.induct)
  case (1 n)
  have o: "int (of_char (digit_char (n mod 10))) = 48 + int (n mod 10)" by (simp add: of_digit_char)
  show ?case
  proof (cases "n < 10")
    case True
    then show ?thesis by (subst decimal.simps) (simp add: of_digit_char)
  next
    case False
    then have "foldl (\<lambda>a c. 10 * a + (int (of_char c) - 48)) 0 (decimal (n div 10)) = int (n div 10)"
      using 1 by blast
    then show ?thesis using False o by (subst decimal.simps) (simp add: zdiv_int zmod_int)
  qed
qed

lemma digits_value_decimal: "digits_value (decimal n) = int n"
  by (simp add: digits_value_def takeWhile_digits decimal_digits decimal_value)

lemma digit_plain: "is_digit c \<Longrightarrow> \<not> is_space c \<and> c \<noteq> CHR ''-'' \<and> c \<noteq> CHR ''+'' \<and> c \<noteq> CHR ''/''"
  by (auto simp: is_digit_def is_space_def)

text \<open>Reading a number that was printed gives it back.\<close>

lemma atoi_fmt_d: "atoi (fmt_d i) = i"
proof -
  obtain c t where d: "decimal (nat \<bar>i\<bar>) = c # t" using decimal_not_Nil list.exhaust by metis
  then have c: "\<not> is_space c" "c \<noteq> CHR ''-''" "c \<noteq> CHR ''+''"
    using decimal_digits [of "nat \<bar>i\<bar>"] digit_plain by auto
  have s: "\<not> is_space (CHR ''-'')" by (simp add: is_space_def)
  have v: "digits_value (decimal (nat \<bar>i\<bar>)) = \<bar>i\<bar>" by (simp add: digits_value_decimal)
  show ?thesis
  proof (cases "i < 0")
    case True
    then show ?thesis using v s by (simp add: fmt_d_def atoi_def)
  next
    case False
    then show ?thesis using v d c by (simp add: fmt_d_def atoi_def)
  qed
qed

lemma atoi_no_number: "s \<noteq> [] \<Longrightarrow> \<not> is_space (hd s) \<Longrightarrow> \<not> is_digit (hd s) \<Longrightarrow> hd s \<notin> {CHR ''-'', CHR ''+''} \<Longrightarrow> atoi s = 0"
  by (cases s) (simp_all add: atoi_def digits_value_def)

lemma fmt_d_no_slash: "CHR ''/'' \<notin> set (fmt_d i)"
  using decimal_digits digit_plain by (auto simp: fmt_d_def)

lemma fmt_d_not_Nil [simp]: "fmt_d i \<noteq> []"
  by (simp add: fmt_d_def)

lemma strtok_all_Nil [simp]: "strtok_all d [] = []"
  by (subst strtok_all.simps) simp

text \<open>A piece without delimiters in front is the first token.\<close>

lemma strtok_all_piece:
  assumes "p \<noteq> []" "d \<notin> set p"
  shows "strtok_all d (p @ d # s) = p # strtok_all d (d # s)" "strtok_all d p = [p]"
proof -
  obtain x y where p: "p = x # y" using assms(1) by (cases p) auto
  have a: "dropWhile (\<lambda>c. c = d) (p @ t) = p @ t" for t using assms(2) p by auto
  have n: "\<And>x. x \<in> set p \<Longrightarrow> x \<noteq> d" using assms(2) by blast
  then have t: "takeWhile (\<lambda>c. c \<noteq> d) (p @ t) = p @ takeWhile (\<lambda>c. c \<noteq> d) t"
    "dropWhile (\<lambda>c. c \<noteq> d) (p @ t) = dropWhile (\<lambda>c. c \<noteq> d) t" for t
    by (simp_all add: takeWhile_append2 dropWhile_append2)
  show "strtok_all d (p @ d # s) = p # strtok_all d (d # s)" "strtok_all d p = [p]"
    using a [of "d # s"] a [of "[]"] t [of "d # s"] t [of "[]"] p by (subst strtok_all.simps, simp)+
qed

lemma strtok_all_delimiter [simp]: "strtok_all d (d # s) = strtok_all d s"
  by (subst strtok_all.simps, subst (2) strtok_all.simps) simp

lemma decimal_length: "n < 10 ^ k \<Longrightarrow> 0 < k \<Longrightarrow> length (decimal n) \<le> k"
proof (induction n arbitrary: k rule: decimal.induct)
  case (1 n)
  show ?case
  proof (cases "n < 10")
    case True
    then show ?thesis using 1(3) by (subst decimal.simps) simp
  next
    case False
    then obtain j where k: "k = Suc j" "0 < j" using 1(2) by (cases k; cases "k - 1") auto
    have "n div 10 < 10 ^ j" using 1(2) k by (simp add: div_less_iff_less_mult mult.commute)
    from 1(1) [OF False this k(2)] show ?thesis using False k by (subst decimal.simps) simp
  qed
qed

end
