(* ===== verification/Ovs_Table.thy ===== *)
theory Ovs_Table
  imports C_Text Platform Sb_Redirect
begin

text \<open>The counters of the OVSDB plugin and where they live: the table bid_tab_params of
  sb_plugin/sb_ovsdb/bst/sbplugin_bst_ovsdb.c (one row per kind of counter), the translation of a counter
  to its name in the database and back, and to its row of the cache (sbplugin_bst_cache.c).\<close>

section \<open>The cache\<close>

record bid_info =
  stat :: u64
  threshold :: u64
  enabled :: bool

text \<open>The arrays of the cache of one unit; offsetof and the member names both become the names
  below, and the structure the function from them to the arrays.\<close>

datatype stat_field =
    at_device | at_iPGShared | at_iPGHeadroom | at_iPortSP | at_iSP
  | at_ePortSPucShare | at_ePortSPumShare | at_ePortSPmcShare | at_eSPumShare | at_eSPmcShare
  | at_ucQ | at_eUCqGroup | at_mcQ | at_eCPU | at_rqe | at_rqeQueueEntries

type_synonym stat_db = "stat_field \<Rightarrow> bid_info list"

primrec stat_size :: "stat_field \<Rightarrow> nat" where
  "stat_size at_device = 1"
| "stat_size at_iPGShared = BVIEW_ASIC_MAX_PORTS * BVIEW_ASIC_MAX_PRIORITY_GROUPS"
| "stat_size at_iPGHeadroom = BVIEW_ASIC_MAX_PORTS * BVIEW_ASIC_MAX_PRIORITY_GROUPS"
| "stat_size at_iPortSP = BVIEW_ASIC_MAX_PORTS * BVIEW_ASIC_MAX_INGRESS_SERVICE_POOLS"
| "stat_size at_iSP = BVIEW_ASIC_MAX_INGRESS_SERVICE_POOLS"
| "stat_size at_ePortSPucShare = BVIEW_ASIC_MAX_PORTS * BVIEW_ASIC_MAX_SERVICE_POOLS"
| "stat_size at_ePortSPumShare = BVIEW_ASIC_MAX_PORTS * BVIEW_ASIC_MAX_SERVICE_POOLS"
| "stat_size at_ePortSPmcShare = BVIEW_ASIC_MAX_PORTS * BVIEW_ASIC_MAX_SERVICE_POOLS"
| "stat_size at_eSPumShare = BVIEW_ASIC_MAX_SERVICE_POOLS"
| "stat_size at_eSPmcShare = BVIEW_ASIC_MAX_SERVICE_POOLS"
| "stat_size at_ucQ = BVIEW_ASIC_MAX_UC_QUEUES"
| "stat_size at_eUCqGroup = BVIEW_ASIC_MAX_UC_QUEUE_GROUPS"
| "stat_size at_mcQ = BVIEW_ASIC_MAX_MC_QUEUES"
| "stat_size at_eCPU = BVIEW_ASIC_MAX_CPU_QUEUES"
| "stat_size at_rqe = BVIEW_ASIC_MAX_RQE_QUEUES"
| "stat_size at_rqeQueueEntries = BVIEW_ASIC_MAX_RQE_QUEUES"

definition zero_stat_db :: stat_db where
  "zero_stat_db f = replicate (stat_size f) \<lparr>stat = 0, threshold = 0, enabled = False\<rparr>"

record ovsdb_config =
  bst_enable :: bool
  bst_tracking_mode :: int
  periodic_collection :: bool
  collection_interval :: int
  ovs_bstMaxTriggers :: int
  ovs_sendSnapshotOnTrigger :: bool
  triggerCollectionEnabled :: bool
  trackingMask :: int
  ovs_trackInit :: bool

definition zero_ovsdb_config :: ovsdb_config where
  "zero_ovsdb_config = \<lparr>bst_enable = False, bst_tracking_mode = 0, periodic_collection = False,
     collection_interval = 0, ovs_bstMaxTriggers = 0, ovs_sendSnapshotOnTrigger = False,
     triggerCollectionEnabled = False, trackingMask = 0, ovs_trackInit = False\<rparr>"

section \<open>The table of counters\<close>

definition SB_OVSDB_BST_STAT_ID_DEVICE :: nat where "SB_OVSDB_BST_STAT_ID_DEVICE = 0"
definition SB_OVSDB_BST_STAT_ID_EGR_POOL :: nat where "SB_OVSDB_BST_STAT_ID_EGR_POOL = 1"
definition SB_OVSDB_BST_STAT_ID_EGR_MCAST_POOL :: nat where "SB_OVSDB_BST_STAT_ID_EGR_MCAST_POOL = 2"
definition SB_OVSDB_BST_STAT_ID_ING_POOL :: nat where "SB_OVSDB_BST_STAT_ID_ING_POOL = 3"
definition SB_OVSDB_BST_STAT_ID_PORT_POOL :: nat where "SB_OVSDB_BST_STAT_ID_PORT_POOL = 4"
definition SB_OVSDB_BST_STAT_ID_PRI_GROUP_SHARED :: nat where "SB_OVSDB_BST_STAT_ID_PRI_GROUP_SHARED = 5"
definition SB_OVSDB_BST_STAT_ID_PRI_GROUP_HEADROOM :: nat where "SB_OVSDB_BST_STAT_ID_PRI_GROUP_HEADROOM = 6"
definition SB_OVSDB_BST_STAT_ID_UCAST :: nat where "SB_OVSDB_BST_STAT_ID_UCAST = 7"
definition SB_OVSDB_BST_STAT_ID_MCAST :: nat where "SB_OVSDB_BST_STAT_ID_MCAST = 8"
definition SB_OVSDB_BST_STAT_ID_EGR_UCAST_PORT_SHARED :: nat where "SB_OVSDB_BST_STAT_ID_EGR_UCAST_PORT_SHARED = 9"
definition SB_OVSDB_BST_STAT_ID_EGR_PORT_SHARED :: nat where "SB_OVSDB_BST_STAT_ID_EGR_PORT_SHARED = 10"
definition SB_OVSDB_BST_STAT_ID_RQE_QUEUE :: nat where "SB_OVSDB_BST_STAT_ID_RQE_QUEUE = 11"
definition SB_OVSDB_BST_STAT_ID_RQE_POOL :: nat where "SB_OVSDB_BST_STAT_ID_RQE_POOL = 12"
definition SB_OVSDB_BST_STAT_ID_UCAST_GROUP :: nat where "SB_OVSDB_BST_STAT_ID_UCAST_GROUP = 13"
definition SB_OVSDB_BST_STAT_ID_CPU_QUEUE :: nat where "SB_OVSDB_BST_STAT_ID_CPU_QUEUE = 14"
definition SB_OVSDB_BST_STAT_ID_MAX_COUNT :: nat where "SB_OVSDB_BST_STAT_ID_MAX_COUNT = 15"

lemmas stat_id_defs =
  SB_OVSDB_BST_STAT_ID_DEVICE_def SB_OVSDB_BST_STAT_ID_EGR_POOL_def SB_OVSDB_BST_STAT_ID_EGR_MCAST_POOL_def
  SB_OVSDB_BST_STAT_ID_ING_POOL_def SB_OVSDB_BST_STAT_ID_PORT_POOL_def SB_OVSDB_BST_STAT_ID_PRI_GROUP_SHARED_def
  SB_OVSDB_BST_STAT_ID_PRI_GROUP_HEADROOM_def SB_OVSDB_BST_STAT_ID_UCAST_def SB_OVSDB_BST_STAT_ID_MCAST_def
  SB_OVSDB_BST_STAT_ID_EGR_UCAST_PORT_SHARED_def SB_OVSDB_BST_STAT_ID_EGR_PORT_SHARED_def
  SB_OVSDB_BST_STAT_ID_RQE_QUEUE_def SB_OVSDB_BST_STAT_ID_RQE_POOL_def SB_OVSDB_BST_STAT_ID_UCAST_GROUP_def
  SB_OVSDB_BST_STAT_ID_CPU_QUEUE_def SB_OVSDB_BST_STAT_ID_MAX_COUNT_def

record bid_params =
  bid_realm_name :: string
  bid_counter_name :: string
  is_indexed :: bool
  is_double_indexed :: bool
  num_of_columns :: nat
  bid_size :: nat
  bid_offset :: stat_field
  default_threshold :: int

definition bid_tab_params :: "platform \<Rightarrow> bid_params list" where
  "bid_tab_params pf =
    [\<lparr>bid_realm_name = ''device'', bid_counter_name = ''data'', is_indexed = False, is_double_indexed = False,
       num_of_columns = 1, bid_size = 1, bid_offset = at_device,
       default_threshold = BVIEW_BST_DEVICE_THRES_DEFAULT pf\<rparr>,
     \<lparr>bid_realm_name = ''egress-service-pool'', bid_counter_name = ''um-share-buffer-count'',
       is_indexed = True, is_double_indexed = False, num_of_columns = BVIEW_ASIC_MAX_SERVICE_POOLS,
       bid_size = BVIEW_ASIC_MAX_SERVICE_POOLS, bid_offset = at_eSPumShare,
       default_threshold = BVIEW_BST_E_SP_UCMC_THRES_DEFAULT pf\<rparr>,
     \<lparr>bid_realm_name = ''egress-service-pool'', bid_counter_name = ''mc-share-buffer-count'',
       is_indexed = True, is_double_indexed = False, num_of_columns = BVIEW_ASIC_MAX_SERVICE_POOLS,
       bid_size = BVIEW_ASIC_MAX_SERVICE_POOLS, bid_offset = at_eSPmcShare,
       default_threshold = BVIEW_BST_E_SP_MC_THRES_DEFAULT pf\<rparr>,
     \<lparr>bid_realm_name = ''ingress-service-pool'', bid_counter_name = ''um-share-buffer-count'',
       is_indexed = True, is_double_indexed = False, num_of_columns = BVIEW_ASIC_MAX_INGRESS_SERVICE_POOLS,
       bid_size = BVIEW_ASIC_MAX_INGRESS_SERVICE_POOLS, bid_offset = at_iSP,
       default_threshold = BVIEW_BST_I_SP_UCMC_SHARED_THRES_DEFAULT pf\<rparr>,
     \<lparr>bid_realm_name = ''ingress-port-service-pool'', bid_counter_name = ''um-share-buffer-count'',
       is_indexed = True, is_double_indexed = True, num_of_columns = BVIEW_ASIC_MAX_INGRESS_SERVICE_POOLS,
       bid_size = BVIEW_ASIC_MAX_PORTS * BVIEW_ASIC_MAX_INGRESS_SERVICE_POOLS, bid_offset = at_iPortSP,
       default_threshold = BVIEW_BST_I_P_SP_UCMC_SHARED_THRES_DEFAULT pf\<rparr>,
     \<lparr>bid_realm_name = ''ingress-port-priority-group'', bid_counter_name = ''um-share-buffer-count'',
       is_indexed = True, is_double_indexed = True, num_of_columns = BVIEW_ASIC_MAX_PRIORITY_GROUPS,
       bid_size = BVIEW_ASIC_MAX_PORTS * BVIEW_ASIC_MAX_PRIORITY_GROUPS, bid_offset = at_iPGShared,
       default_threshold = BVIEW_BST_I_P_PG_UCMC_SHARED_THRES_DEFAULT pf\<rparr>,
     \<lparr>bid_realm_name = ''ingress-port-priority-group'', bid_counter_name = ''um-headroom-buffer-count'',
       is_indexed = True, is_double_indexed = True, num_of_columns = BVIEW_ASIC_MAX_PRIORITY_GROUPS,
       bid_size = BVIEW_ASIC_MAX_PORTS * BVIEW_ASIC_MAX_PRIORITY_GROUPS, bid_offset = at_iPGHeadroom,
       default_threshold = BVIEW_BST_I_P_PG_UCMC_HDRM_THRES_DEFAULT pf\<rparr>,
     \<lparr>bid_realm_name = ''egress-uc-queue'', bid_counter_name = ''uc-buffer-count'',
       is_indexed = True, is_double_indexed = False, num_of_columns = BVIEW_ASIC_MAX_UC_QUEUES,
       bid_size = BVIEW_ASIC_MAX_UC_QUEUES, bid_offset = at_ucQ,
       default_threshold = BVIEW_BST_UCAST_THRES_DEFAULT pf\<rparr>,
     \<lparr>bid_realm_name = ''egress-mc-queue'', bid_counter_name = ''mc-buffer-count'',
       is_indexed = True, is_double_indexed = False, num_of_columns = BVIEW_ASIC_MAX_MC_QUEUES,
       bid_size = BVIEW_ASIC_MAX_MC_QUEUES, bid_offset = at_mcQ,
       default_threshold = BVIEW_BST_MCAST_THRES_DEFAULT pf\<rparr>,
     \<lparr>bid_realm_name = ''egress-port-service-pool'', bid_counter_name = ''uc-share-buffer-count'',
       is_indexed = True, is_double_indexed = True, num_of_columns = BVIEW_ASIC_MAX_SERVICE_POOLS,
       bid_size = BVIEW_ASIC_MAX_PORTS * BVIEW_ASIC_MAX_SERVICE_POOLS, bid_offset = at_ePortSPucShare,
       default_threshold = BVIEW_BST_E_P_SP_UC_THRES_DEFAULT pf\<rparr>,
     \<lparr>bid_realm_name = ''egress-port-service-pool'', bid_counter_name = ''um-share-buffer-count'',
       is_indexed = True, is_double_indexed = True, num_of_columns = BVIEW_ASIC_MAX_SERVICE_POOLS,
       bid_size = BVIEW_ASIC_MAX_PORTS * BVIEW_ASIC_MAX_SERVICE_POOLS, bid_offset = at_ePortSPumShare,
       default_threshold = BVIEW_BST_E_P_SP_UCMC_THRES_DEFAULT pf\<rparr>,
     \<lparr>bid_realm_name = ''egress-rqe-queue'', bid_counter_name = ''rqe-buffer-count'',
       is_indexed = True, is_double_indexed = False, num_of_columns = BVIEW_ASIC_MAX_RQE_QUEUES,
       bid_size = BVIEW_ASIC_MAX_RQE_QUEUES, bid_offset = at_rqe,
       default_threshold = BVIEW_BST_E_RQE_THRES_DEFAULT pf\<rparr>,
     \<lparr>bid_realm_name = ''egress-rqe-queue'', bid_counter_name = ''rqe-queue-count'',
       is_indexed = True, is_double_indexed = False, num_of_columns = BVIEW_ASIC_MAX_RQE_QUEUES,
       bid_size = BVIEW_ASIC_MAX_RQE_QUEUES, bid_offset = at_rqeQueueEntries,
       default_threshold = BVIEW_BST_E_RQE_THRES_DEFAULT pf\<rparr>,
     \<lparr>bid_realm_name = ''egress-uc-queue-group'', bid_counter_name = ''uc-buffer-count'',
       is_indexed = True, is_double_indexed = False, num_of_columns = BVIEW_ASIC_MAX_UC_QUEUE_GROUPS,
       bid_size = BVIEW_ASIC_MAX_UC_QUEUE_GROUPS, bid_offset = at_eUCqGroup,
       default_threshold = BVIEW_BST_UCAST_QUEUE_GROUP_DEFAULT pf\<rparr>,
     \<lparr>bid_realm_name = ''egress-cpu-queue'', bid_counter_name = ''cpu-buffer-count'',
       is_indexed = True, is_double_indexed = False, num_of_columns = BVIEW_ASIC_MAX_CPU_QUEUES,
       bid_size = BVIEW_ASIC_MAX_CPU_QUEUES, bid_offset = at_eCPU,
       default_threshold = BVIEW_BST_E_CPU_UCMC_THRES_DEFAULT pf\<rparr>]"

abbreviation bid_row :: "platform \<Rightarrow> nat \<Rightarrow> bid_params" where
  "bid_row pf bid \<equiv> bid_tab_params pf ! bid"

section \<open>From a counter to its row\<close>

text \<open>Ports count from 1, indices from 0. Only the upper bound is checked: a negative result
  passes.\<close>

definition bst_ovsdb_resolve_index :: "platform \<Rightarrow> nat \<Rightarrow> int \<Rightarrow> int \<Rightarrow> int result" where
  "bst_ovsdb_resolve_index pf bid port index =
     (if SB_OVSDB_BST_STAT_ID_MAX_COUNT \<le> bid then Inl BVIEW_STATUS_FAILURE
      else
        let b = bid_row pf bid;
            db_index = (if is_double_indexed b then (port - 1) * int (num_of_columns b) + index
                        else if \<not> is_indexed b then 0 else index)
        in if int (bid_size b) \<le> db_index then Inl BVIEW_STATUS_FAILURE else Inr db_index)"

text \<open>The row of a counter that is named as in the database, where both numbers count from 1.\<close>

definition bst_ovsdb_cache_row_get :: "platform \<Rightarrow> nat \<Rightarrow> int \<Rightarrow> int \<Rightarrow> (stat_field \<times> int) result" where
  "bst_ovsdb_cache_row_get pf bid index1 index2 =
     (let b = bid_row pf bid;
          index = (if is_double_indexed b then (index1 - 1) * int (num_of_columns b) + (index2 - 1)
                   else if \<not> is_indexed b then 0 else index2 - 1)
      in if int (bid_size b) \<le> index then Inl BVIEW_STATUS_FAILURE else Inr (bid_offset b, index))"

section \<open>The name of a counter\<close>

text \<open>The buffer is 1024 bytes; no name comes near it, so nothing is cut.\<close>

definition bst_bid_port_index_to_ovsdb_key :: "platform \<Rightarrow> nat \<Rightarrow> int \<Rightarrow> int \<Rightarrow> nat \<Rightarrow> string result" where
  "bst_bid_port_index_to_ovsdb_key pf bid port index length_of_key =
     (if SB_OVSDB_BST_STAT_ID_MAX_COUNT \<le> bid then Inl BVIEW_STATUS_FAILURE
      else
        let b = bid_row pf bid;
            src_string = bid_realm_name b @ ''/'' @ bid_counter_name b @ ''/'' @
              (if is_indexed b then
                 (if is_double_indexed b then fmt_d port @ ''/'' else '''') @ fmt_d index @
                 (if \<not> is_double_indexed b then ''/'' @ ''NONE'' else '''')
               else ''NONE/NONE'')
        in if length_of_key \<le> length src_string then Inl BVIEW_STATUS_FAILURE else Inr src_string)"

text \<open>The search stops at the first row with the realm and the counter.\<close>

primrec bid_search :: "bid_params list \<Rightarrow> string \<Rightarrow> string \<Rightarrow> nat" where
  "bid_search [] realm name = 0"
| "bid_search (b # bs) realm name =
     (if bid_realm_name b = realm \<and> bid_counter_name b = name then 0 else Suc (bid_search bs realm name))"

text \<open>A name read back: the counter, the port and the queue. The port keeps the value it had
  unless the counter has one. None: the name does not fit the buffer of 1024 bytes it is copied
  to, which C leaves undefined.\<close>

definition bst_ovsdb_row_info_get :: "platform \<Rightarrow> string \<Rightarrow> int \<Rightarrow> (nat \<times> int \<times> int) result option" where
  "bst_ovsdb_row_info_get pf ovsdb_key port =
     (if 1024 \<le> length ovsdb_key then None
      else Some (case strtok_all CHR ''/'' ovsdb_key of
        [realm, name, index1, index2] \<Rightarrow>
          (let bid = bid_search (bid_tab_params pf) realm name in
           if bid = length (bid_tab_params pf) then Inl BVIEW_STATUS_FAILURE
           else
             let b = bid_row pf bid;
                 index = (if is_double_indexed b then (atoi index1 - 1) * int (num_of_columns b) + (atoi index2 - 1)
                          else if \<not> is_indexed b then 0 else atoi index1 - 1);
                 port' = (if is_double_indexed b then atoi index1 else port);
                 queue = (if is_double_indexed b then atoi index2 else atoi index1)
             in if int (bid_size b) \<le> index then Inl BVIEW_STATUS_FAILURE else Inr (bid, port', queue))
      | _ \<Rightarrow> Inl BVIEW_STATUS_FAILURE))"

definition bst_ovsdb_default_threshold_get :: "platform \<Rightarrow> nat \<Rightarrow> u64" where
  "bst_ovsdb_default_threshold_get pf bid = of_int (default_threshold (bid_row pf bid))"

end
