(* ===== verification/Ovs_Bst.thy ===== *)
theory Ovs_Bst
  imports Ovs_Table Bst_Nb_Api "HOL-Library.Monad_Syntax"
begin

text \<open>The OVSDB side of the plugin (sb_plugin/sb_ovsdb/bst: sbplugin_bst_cache.c, sbplugin_bst_ovsdb.c
  and ovsdb_bst_ctl.c): its cache of configuration and counters, the updates the database sends, and the
  transactions it is sent. A JSON value is the structure the OVSDB library parses (an object the list of
  its members in the order the hash table is walked); a transaction is the text handed to the library.
  The value None stands for an assertion of that library that fails, or for what C leaves undefined
  (a union member that was not written, a write outside an array). The locks are not modelled.\<close>

section \<open>JSON of the OVSDB library\<close>

datatype ovs_json =
    JSON_NULL | JSON_FALSE | JSON_TRUE
  | JSON_OBJECT "(string \<times> ovs_json) list"
  | JSON_ARRAY "ovs_json list"
  | JSON_INTEGER int
  | JSON_REAL "64 word"
  | JSON_STRING string

fun json_array :: "ovs_json \<Rightarrow> ovs_json list option" where
  "json_array (JSON_ARRAY xs) = Some xs"
| "json_array _ = None"

fun json_object :: "ovs_json \<Rightarrow> (string \<times> ovs_json) list option" where
  "json_object (JSON_OBJECT ms) = Some ms"
| "json_object _ = None"

fun json_text :: "ovs_json \<Rightarrow> string option" where
  "json_text (JSON_STRING s) = Some s"
| "json_text _ = None"

fun json_number :: "ovs_json \<Rightarrow> int option" where
  "json_number (JSON_INTEGER i) = Some i"
| "json_number _ = None"

section \<open>The state of the plugin\<close>

datatype ovs_event =
    OVS_NOTIFY int int
  | OVS_TRIGGER nat int nat trigger_info

text \<open>The variables of both plugins, and what they see of the world: whether a session with the
  database opens, the clock and the two answers of ioctl. ov_sent collects the transactions, ov_raised the
  calls of the agent (the notification of a change, the trigger callback), both in order. A callback of 0 is
  NULL.\<close>

record ovsdb =
  asicDb :: "asic_info list"
  sbMaxBufSnapshot :: "max_buf_snapshot list"
  config_data :: ovsdb_config
  bst_cache :: "stat_db list"
  system_table_uuid :: string
  sys_cache_init_done :: bool
  monitor_init_done_sem :: nat
  trigger_callback :: nat
  trigger_cookie :: nat
  threshold_session :: bool
  ov_opens :: bool
  ov_clock :: int
  ov_hwaddr :: "string option"
  ov_ipaddr :: "string option"
  ov_sent :: "string list"
  ov_raised :: "ovs_event list"

definition send_transaction :: "string \<Rightarrow> ovsdb \<Rightarrow> ovsdb" where
  "send_transaction t st = st\<lparr>ov_sent := ov_sent st @ [t]\<rparr>"

definition raise_event :: "ovs_event \<Rightarrow> ovsdb \<Rightarrow> ovsdb" where
  "raise_event e st = st\<lparr>ov_raised := ov_raised st @ [e]\<rparr>"

text \<open>The unit is compared as an unsigned number with the units the system plugin entered.\<close>

definition sbplugin_ovsdb_valid_unit_check :: "int \<Rightarrow> ovsdb \<Rightarrow> BVIEW_STATUS" where
  "sbplugin_ovsdb_valid_unit_check unit st =
     (if \<exists>a\<in>set (asicDb st). asic_unit a mod 2 ^ 32 = unit mod 2 ^ 32 then BVIEW_STATUS_SUCCESS
      else BVIEW_STATUS_FAILURE)"

abbreviation unit_known :: "int \<Rightarrow> ovsdb \<Rightarrow> bool" where
  "unit_known unit st \<equiv> sbplugin_ovsdb_valid_unit_check unit st = BVIEW_STATUS_SUCCESS"

section \<open>The cache of the configuration\<close>

definition OVSDB_BST_MAX_TRIGGERS_NOT_INIT :: int where "OVSDB_BST_MAX_TRIGGERS_NOT_INIT = 0"
definition OVSDB_BST_MAX_TRIGGERS_DEFAULT :: int where "OVSDB_BST_MAX_TRIGGERS_DEFAULT = 60"

text \<open>The tracking mask, its initialisation and the collection of triggers are not stored.\<close>

definition bst_ovsdb_cache_bst_config_set :: "int \<Rightarrow> ovsdb_config \<Rightarrow> ovsdb \<Rightarrow> BVIEW_STATUS \<times> ovsdb" where
  "bst_ovsdb_cache_bst_config_set asic config st =
     (if \<not> unit_known asic st then (BVIEW_STATUS_INVALID_PARAMETER, st)
      else (BVIEW_STATUS_SUCCESS, st\<lparr>config_data := (config_data st)\<lparr>
              bst_enable := bst_enable config,
              bst_tracking_mode := bst_tracking_mode config,
              periodic_collection := periodic_collection config,
              collection_interval := collection_interval config,
              ovs_bstMaxTriggers := ovs_bstMaxTriggers config,
              ovs_sendSnapshotOnTrigger := ovs_sendSnapshotOnTrigger config\<rparr>\<rparr>))"

text \<open>A rate limit of 0 reads as the default. The caller's structure keeps its other members.\<close>

definition bst_ovsdb_cache_bst_config_get :: "int \<Rightarrow> ovsdb_config \<Rightarrow> ovsdb \<Rightarrow> ovsdb_config result" where
  "bst_ovsdb_cache_bst_config_get asic config st =
     (if \<not> unit_known asic st then Inl BVIEW_STATUS_INVALID_PARAMETER
      else let c = config_data st in
        Inr (config\<lparr>bst_enable := bst_enable c,
                    bst_tracking_mode := bst_tracking_mode c,
                    periodic_collection := periodic_collection c,
                    collection_interval := collection_interval c,
                    ovs_bstMaxTriggers := (if ovs_bstMaxTriggers c = OVSDB_BST_MAX_TRIGGERS_NOT_INIT
                                           then OVSDB_BST_MAX_TRIGGERS_DEFAULT else ovs_bstMaxTriggers c),
                    ovs_sendSnapshotOnTrigger := ovs_sendSnapshotOnTrigger c,
                    trackingMask := trackingMask c\<rparr>))"

section \<open>The cache of the counters\<close>

definition cell :: "int \<Rightarrow> stat_field \<Rightarrow> int \<Rightarrow> ovsdb \<Rightarrow> bid_info" where
  "cell asic f i st = (bst_cache st ! nat asic) f ! nat i"

definition write_cell :: "int \<Rightarrow> stat_field \<Rightarrow> int \<Rightarrow> (bid_info \<Rightarrow> bid_info) \<Rightarrow> ovsdb \<Rightarrow> ovsdb option" where
  "write_cell asic f i g st =
     (if asic < 0 \<or> int (length (bst_cache st)) \<le> asic \<or> i < 0 then None
      else let db = bst_cache st ! nat asic in
        Some (st\<lparr>bst_cache := (bst_cache st)[nat asic := db(f := (db f)[nat i := g (db f ! nat i)])]\<rparr>))"

definition bst_ovsdb_row_update ::
  "platform \<Rightarrow> int \<Rightarrow> nat \<Rightarrow> int \<Rightarrow> int \<Rightarrow> bool \<Rightarrow> bid_info \<Rightarrow> ovsdb \<Rightarrow> (BVIEW_STATUS \<times> ovsdb) option" where
  "bst_ovsdb_row_update pf asic bid port queue use_default row st =
     (case bst_ovsdb_cache_row_get pf bid port queue of
        Inl _ \<Rightarrow> Some (BVIEW_STATUS_FAILURE, st)
      | Inr (f, i) \<Rightarrow> do {
          let limit = (if use_default then bst_ovsdb_default_threshold_get pf bid else threshold row);
          st' \<leftarrow> write_cell asic f i (\<lambda>r. r\<lparr>stat := stat row, threshold := limit\<rparr>) st;
          Some (BVIEW_STATUS_SUCCESS, st')
        })"

text \<open>The callers ask for indices from 0 on.\<close>

definition bst_ovsdb_threshold_get :: "platform \<Rightarrow> int \<Rightarrow> int \<Rightarrow> int \<Rightarrow> nat \<Rightarrow> ovsdb \<Rightarrow> u64 result" where
  "bst_ovsdb_threshold_get pf asic port index bid st =
     res_bind (bst_ovsdb_resolve_index pf bid port index)
       (\<lambda>db_index. Inr (threshold (cell asic (bid_offset (bid_row pf bid)) db_index st)))"

section \<open>Transactions\<close>

definition json_bool_text :: "bool \<Rightarrow> string" where
  "json_bool_text b = (if b then ''true'' else ''false'')"

definition BST_OVSDB_THRESHOLD_JSON :: "string \<Rightarrow> string \<Rightarrow> string" where
  "BST_OVSDB_THRESHOLD_JSON v key =
     ''[\"OpenSwitch\",{\"op\":\"update\",\"table\":\"bufmon\",\"row\":{\"trigger_threshold\":'' @ v @
     ''},\"where\":[[\"name\",\"==\", \"'' @ key @ ''\"]]}]''"

definition BST_OVSDB_CLEAR_THRESHOLDS_JSON :: "string \<Rightarrow> string" where
  "BST_OVSDB_CLEAR_THRESHOLDS_JSON unit =
     ''[\"OpenSwitch\",{\"op\":\"update\",\"table\":\"bufmon\",\"row\":{\"trigger_threshold\":[\"set\",[]]},\"where\":[[\"hw_unit_id\",\"==\",'' @
     unit @ '']]}]''"

definition BST_OVSDB_CLEAR_STATS_JSON :: "string \<Rightarrow> string" where
  "BST_OVSDB_CLEAR_STATS_JSON unit =
     ''[\"OpenSwitch\",{\"op\":\"update\",\"table\":\"bufmon\",\"row\":{\"counter_value\":0},\"where\":[[\"hw_unit_id\",\"==\",'' @
     unit @ '']]}]''"

definition BST_JSON_TRACKING_FORMAT_ENABLE :: "string \<Rightarrow> string" where
  "BST_JSON_TRACKING_FORMAT_ENABLE realm =
     ''[\"OpenSwitch\",{\"op\":\"update\",\"table\":\"bufmon\",\"row\":{\"enabled\":true},\"where\":[[\"counter_vendor_specific_info\",\"includes\", [\"map\",[[\"realm\",\"'' @
     realm @ ''\"]]]]]}]''"

definition BST_JSON_TRACKING_FORMAT_DISABLE :: "string \<Rightarrow> string" where
  "BST_JSON_TRACKING_FORMAT_DISABLE realm =
     ''[\"OpenSwitch\",{\"op\":\"update\",\"table\":\"bufmon\",\"row\":{\"enabled\":[\"set\",[]]},\"where\":[[\"counter_vendor_specific_info\",\"includes\", [\"map\",[[\"realm\",\"'' @
     realm @ ''\"]]]]]}]''"

definition BST_OVSDB_CONFIG_JSON_FORMAT :: "ovsdb_config \<Rightarrow> string \<Rightarrow> string" where
  "BST_OVSDB_CONFIG_JSON_FORMAT c uuid =
     ''[\"OpenSwitch\",{\"op\":\"update\",\"table\":\"System\",\"row\":{\"bufmon_config\":[\"map\",[[\"enabled\",\"'' @
     json_bool_text (bst_enable c) @ ''\"], [\"counters_mode\",\"'' @
     (if bst_tracking_mode c = BVIEW_BST_MODE_PEAK then ''peak'' else ''current'') @
     ''\"], [\"periodic_collection_enabled\",\"'' @ json_bool_text (periodic_collection c) @
     ''\"], [\"snapshot_on_threshold_trigger\", \"'' @ json_bool_text (ovs_sendSnapshotOnTrigger c) @
     ''\"], [\"collection_period\", \"'' @ fmt_d (collection_interval c) @
     ''\"], [\"threshold_trigger_rate_limit\", \"'' @ fmt_d (ovs_bstMaxTriggers c) @
     ''\"],[\"threshold_trigger_collection_enabled\", \"'' @ json_bool_text (triggerCollectionEnabled c) @
     ''\"]]]} , \"where\":[[\"_uuid\",\"==\",[\"uuid\", \"'' @ uuid @ ''\"]]]}]''"

section \<open>Realms\<close>

definition realm_id_map :: "(string \<times> nat) list" where
  "realm_id_map =
    [(''device'', realm_id BVIEW_BST_DEVICE),
     (''ingress-port-priority-group'', realm_id BVIEW_BST_INGRESS_PORT_PG),
     (''ingress-port-service-pool'', realm_id BVIEW_BST_INGRESS_PORT_SP),
     (''ingress-service-pool'', realm_id BVIEW_BST_INGRESS_SP),
     (''egress-port-service-pool'', realm_id BVIEW_BST_EGRESS_PORT_SP),
     (''egress-service-pool'', realm_id BVIEW_BST_EGRESS_SP),
     (''egress-uc-queue'', realm_id BVIEW_BST_EGRESS_UC_QUEUE),
     (''egress-uc-queue-group'', realm_id BVIEW_BST_EGRESS_UC_QUEUEGROUPS),
     (''egress-mc-queue'', realm_id BVIEW_BST_EGRESS_MC_QUEUE),
     (''egress-cpu-queue'', realm_id BVIEW_BST_EGRESS_CPU_QUEUE),
     (''egress-rqe-queue'', realm_id BVIEW_BST_EGRESS_RQE_QUEUE)]"

text \<open>The loop goes on after a match, so the last entry with the number names it; the buffer keeps its
  text when there is none.\<close>

definition bst_ovsdb_realm_name_get :: "nat \<Rightarrow> string \<Rightarrow> string result" where
  "bst_ovsdb_realm_name_get realmId realmName =
     (if BVIEW_BST_COUNT \<le> realmId then Inl BVIEW_STATUS_FAILURE
      else Inr (foldl (\<lambda>s (name, i). if i = realmId then name else s) realmName realm_id_map))"

definition bst_ovsdb_realm_id_get :: "string \<Rightarrow> nat result" where
  "bst_ovsdb_realm_id_get realmName =
     (case find_index (\<lambda>(name, i). name = realmName) realm_id_map of
        None \<Rightarrow> Inl BVIEW_STATUS_FAILURE
      | Some k \<Rightarrow> Inr (snd (realm_id_map ! k)))"

section \<open>Commits\<close>

text \<open>The session is opened once and kept. The status of sending is only logged; the cast of the threshold
  to the signed type that lld prints is sint.\<close>

definition bst_ovsdb_threshold_commit ::
  "platform \<Rightarrow> int \<Rightarrow> int \<Rightarrow> int \<Rightarrow> nat \<Rightarrow> u64 \<Rightarrow> ovsdb \<Rightarrow> BVIEW_STATUS \<times> ovsdb" where
  "bst_ovsdb_threshold_commit pf asic port index bid v st =
     (case bst_bid_port_index_to_ovsdb_key pf bid port index 1024 of
        Inl _ \<Rightarrow> (BVIEW_STATUS_FAILURE, st)
      | Inr s_key \<Rightarrow>
          if \<not> threshold_session st \<and> \<not> ov_opens st then (BVIEW_STATUS_FAILURE, st)
          else (BVIEW_STATUS_SUCCESS,
                send_transaction (BST_OVSDB_THRESHOLD_JSON (fmt_d (sint v)) s_key)
                  (st\<lparr>threshold_session := True\<rparr>)))"

definition bst_ovsdb_threshold_set ::
  "platform \<Rightarrow> int \<Rightarrow> int \<Rightarrow> int \<Rightarrow> nat \<Rightarrow> u64 \<Rightarrow> ovsdb \<Rightarrow> BVIEW_STATUS \<times> ovsdb" where
  "bst_ovsdb_threshold_set pf asic port index bid v st =
     (case bst_ovsdb_resolve_index pf bid port index of
        Inl rv \<Rightarrow> (rv, st)
      | Inr _ \<Rightarrow>
          (case bst_ovsdb_threshold_commit pf asic port (index + 1) bid v st of
             (rv, st') \<Rightarrow> (if rv \<noteq> BVIEW_STATUS_SUCCESS then BVIEW_STATUS_FAILURE else BVIEW_STATUS_SUCCESS, st')))"

text \<open>A transaction on a session of its own; whether the database accepted it is only logged.\<close>

definition own_session :: "string \<Rightarrow> ovsdb \<Rightarrow> BVIEW_STATUS \<times> ovsdb" where
  "own_session t st =
     (if \<not> ov_opens st then (BVIEW_STATUS_FAILURE, st) else (BVIEW_STATUS_SUCCESS, send_transaction t st))"

definition bst_ovsdb_bst_config_commit :: "int \<Rightarrow> ovsdb_config \<Rightarrow> ovsdb \<Rightarrow> BVIEW_STATUS \<times> ovsdb" where
  "bst_ovsdb_bst_config_commit asic config st =
     own_session (BST_OVSDB_CONFIG_JSON_FORMAT config (system_table_uuid st)) st"

definition bst_ovsdb_clear_thresholds_commit :: "int \<Rightarrow> ovsdb \<Rightarrow> BVIEW_STATUS \<times> ovsdb" where
  "bst_ovsdb_clear_thresholds_commit asic = own_session (BST_OVSDB_CLEAR_THRESHOLDS_JSON (fmt_d asic))"

definition bst_ovsdb_clear_stats_commit :: "int \<Rightarrow> ovsdb \<Rightarrow> BVIEW_STATUS \<times> ovsdb" where
  "bst_ovsdb_clear_stats_commit asic = own_session (BST_OVSDB_CLEAR_STATS_JSON (fmt_d asic))"

definition bst_ovsdb_clear_thresholds :: "int \<Rightarrow> ovsdb \<Rightarrow> BVIEW_STATUS \<times> ovsdb" where
  "bst_ovsdb_clear_thresholds asic = bst_ovsdb_clear_thresholds_commit asic"

definition bst_ovsdb_clear_stats :: "int \<Rightarrow> ovsdb \<Rightarrow> BVIEW_STATUS \<times> ovsdb" where
  "bst_ovsdb_clear_stats asic = bst_ovsdb_clear_stats_commit asic"

text \<open>One step per realm: the text in the buffer of the name goes from one step to the next.\<close>

definition mask_bit :: "int \<Rightarrow> nat \<Rightarrow> bool" where
  "mask_bit m i = (m AND push_bit i 1 \<noteq> 0)"

definition tracking_step :: "int \<Rightarrow> nat \<Rightarrow> string \<times> ovsdb \<Rightarrow> string \<times> ovsdb" where
  "tracking_step m realmId s =
     (case s of (buf, st) \<Rightarrow>
       let realmName = (case bst_ovsdb_realm_name_get realmId buf of Inl _ \<Rightarrow> buf | Inr n \<Rightarrow> n);
           t = (if mask_bit m realmId then BST_JSON_TRACKING_FORMAT_ENABLE realmName
                else BST_JSON_TRACKING_FORMAT_DISABLE realmName)
       in (realmName, send_transaction t st))"

text \<open>The last realm is sent a second time, and that time the call waits.\<close>

definition bst_ovsdb_bst_tracking_commit :: "int \<Rightarrow> ovsdb_config \<Rightarrow> ovsdb \<Rightarrow> BVIEW_STATUS \<times> ovsdb" where
  "bst_ovsdb_bst_tracking_commit asic config st =
     (if \<not> ov_opens st then (BVIEW_STATUS_FAILURE, st)
      else
        let s = fold (tracking_step (trackingMask config)) [realm_id BVIEW_BST_DEVICE..<BVIEW_BST_COUNT] ([], st)
        in (BVIEW_STATUS_SUCCESS, snd (tracking_step (trackingMask config) (BVIEW_BST_COUNT - 1) s)))"

definition bst_ovsdb_bst_config_get :: "int \<Rightarrow> ovsdb_config \<Rightarrow> ovsdb \<Rightarrow> ovsdb_config result" where
  "bst_ovsdb_bst_config_get asic config st = bst_ovsdb_cache_bst_config_get asic config st"

definition bst_ovsdb_bst_config_set :: "int \<Rightarrow> ovsdb_config \<Rightarrow> ovsdb \<Rightarrow> BVIEW_STATUS \<times> ovsdb" where
  "bst_ovsdb_bst_config_set asic config st =
     (case bst_ovsdb_bst_config_commit asic config st of
        (rv, st1) \<Rightarrow>
          if rv \<noteq> BVIEW_STATUS_SUCCESS then (rv, st1)
          else if ovs_trackInit config then (rv, st1)
          else case bst_ovsdb_bst_tracking_commit asic config st1 of
            (rv2, st2) \<Rightarrow>
              if rv2 \<noteq> BVIEW_STATUS_SUCCESS then (rv2, st2)
              else (rv2, st2\<lparr>config_data := (config_data st2)\<lparr>trackingMask := trackingMask config\<rparr>\<rparr>))"

section \<open>Triggers\<close>

definition bst_ovsdb_trigger_callback :: "platform \<Rightarrow> int \<Rightarrow> nat \<Rightarrow> int \<Rightarrow> int \<Rightarrow> ovsdb \<Rightarrow> BVIEW_STATUS \<times> ovsdb" where
  "bst_ovsdb_trigger_callback pf asic bid port queue st =
     (let info = \<lparr>trig_realm = bid_realm_name (bid_row pf bid), trig_counter = bid_counter_name (bid_row pf bid),
                 trig_port = port, trig_queue = queue\<rparr>
      in (BVIEW_STATUS_SUCCESS,
          if trigger_callback st = 0 then st
          else raise_event (OVS_TRIGGER (trigger_callback st) asic (trigger_cookie st) info) st))"

definition bst_ovsdb_bst_register_trigger :: "int \<Rightarrow> nat \<Rightarrow> nat \<Rightarrow> ovsdb \<Rightarrow> BVIEW_STATUS \<times> ovsdb" where
  "bst_ovsdb_bst_register_trigger asic callback cookie st =
     (BVIEW_STATUS_SUCCESS, st\<lparr>trigger_callback := callback, trigger_cookie := cookie\<rparr>)"

end
