(* ===== verification/Ovs_Monitor.thy ===== *)
theory Ovs_Monitor
  imports Ovs_Bst
begin

text \<open>The thread of ovsdb_bst_ctl.c that receives the updates of the database: what it does with a message,
  with the table bufmon (one row per counter) and with the row of the table System that holds the
  configuration, and the initialisation that waits for the first updates.\<close>

section \<open>The configuration\<close>

text \<open>One pair of key and value. A tracking mode never counts as a change; the flag enabled is
  true after every change of it.\<close>

definition config_entry :: "string \<Rightarrow> ovs_json \<Rightarrow> ovsdb_config \<times> bool \<Rightarrow> (ovsdb_config \<times> bool) option" where
  "config_entry key val s =
     (case s of (c, updated) \<Rightarrow>
       if key = ''counters_mode'' then do {
         v \<leftarrow> json_text val;
         Some (c\<lparr>bst_tracking_mode := (if v = ''peak'' then BVIEW_BST_MODE_PEAK else BVIEW_BST_MODE_CURRENT)\<rparr>, updated)
       }
       else if key = ''enabled'' then do {
         v \<leftarrow> json_text val;
         let b = (v = ''true'');
         Some (if b \<noteq> bst_enable c then (c\<lparr>bst_enable := True\<rparr>, True) else (c\<lparr>bst_enable := b\<rparr>, updated))
       }
       else if key = ''periodic_collection_enabled'' then do {
         v \<leftarrow> json_text val;
         let b = (v = ''true'');
         Some (c\<lparr>periodic_collection := b\<rparr>, updated \<or> b \<noteq> periodic_collection c)
       }
       else if key = ''collection_period'' then do {
         v \<leftarrow> json_text val;
         Some (c\<lparr>collection_interval := atoi v\<rparr>, updated \<or> atoi v \<noteq> collection_interval c)
       }
       else if key = ''threshold_trigger_collection_enabled'' then do {
         v \<leftarrow> json_text val;
         let b = (v = ''true'');
         Some (c\<lparr>triggerCollectionEnabled := b\<rparr>, updated \<or> b \<noteq> triggerCollectionEnabled c)
       }
       else if key = ''snapshot_on_threshold_trigger'' then do {
         v \<leftarrow> json_text val;
         let b = (v = ''true'');
         Some (c\<lparr>ovs_sendSnapshotOnTrigger := b\<rparr>, updated \<or> b \<noteq> ovs_sendSnapshotOnTrigger c)
       }
       else if key = ''threshold_trigger_rate_limit'' then do {
         v \<leftarrow> json_text val;
         Some (c\<lparr>ovs_bstMaxTriggers := atoi v\<rparr>, updated \<or> atoi v \<noteq> ovs_bstMaxTriggers c)
       }
       else Some (c, updated))"

text \<open>Elements of the map that are not pairs are skipped when they are no arrays.\<close>

primrec config_entries :: "ovs_json list \<Rightarrow> ovsdb_config \<times> bool \<Rightarrow> (ovsdb_config \<times> bool) option" where
  "config_entries [] s = Some s"
| "config_entries (e # es) s =
     (case e of
        JSON_ARRAY (k # v # _) \<Rightarrow> do { key \<leftarrow> json_text k; s' \<leftarrow> config_entry key v s; config_entries es s' }
      | JSON_ARRAY _ \<Rightarrow> None
      | _ \<Rightarrow> config_entries es s)"

definition config_map :: "ovs_json list \<Rightarrow> ovsdb \<Rightarrow> (BVIEW_STATUS \<times> ovsdb) option" where
  "config_map es st = do {
     (c, updated) \<leftarrow> config_entries es (config_data st, False);
     let st1 = st\<lparr>config_data := c\<rparr>;
     Some (BVIEW_STATUS_SUCCESS,
       if updated then raise_event (OVS_NOTIFY 0 BVIEW_BST_CONFIG_FEATURE_UPDATE) st1 else st1)
   }"

definition bst_system_bufmon_config_update :: "ovs_json \<Rightarrow> ovsdb \<Rightarrow> (BVIEW_STATUS \<times> ovsdb) option" where
  "bst_system_bufmon_config_update j st =
     (case j of
        JSON_ARRAY (m # a # _) \<Rightarrow> do {
          s \<leftarrow> json_text m;
          if s \<noteq> ''map'' then Some (BVIEW_STATUS_FAILURE, st)
          else (case json_array a of None \<Rightarrow> Some (BVIEW_STATUS_FAILURE, st) | Some es \<Rightarrow> config_map es st)
        }
      | _ \<Rightarrow> None)"

section \<open>The counters\<close>

text \<open>A column is read from the new row, from the old one when there is no new one.\<close>

definition OVSDB_GET_COLUMN :: "ovs_json option \<Rightarrow> ovs_json option \<Rightarrow> string \<Rightarrow> ovs_json option option" where
  "OVSDB_GET_COLUMN old new column =
     (case new of
        Some n \<Rightarrow> do { ms \<leftarrow> json_object n; Some (map_of ms column) }
      | None \<Rightarrow> (case old of
          Some v \<Rightarrow> do { ms \<leftarrow> json_object v; Some (map_of ms column) }
        | None \<Rightarrow> None))"

text \<open>A realm that is enabled enters both masks, the one of this update and the one of the cache.\<close>

definition track_realm :: "nat \<Rightarrow> int \<times> ovsdb \<Rightarrow> int \<times> ovsdb" where
  "track_realm r s =
     (case s of (tmask, st) \<Rightarrow>
       if mask_bit tmask r then s
       else (tmask OR push_bit r 1,
             st\<lparr>config_data := (config_data st)\<lparr>
                  trackingMask := trackingMask (config_data st) OR push_bit r 1\<rparr>\<rparr>))"

definition bufmon_values :: "ovs_json option \<Rightarrow> ovs_json option \<Rightarrow> bid_info \<times> bool" where
  "bufmon_values counter_value trigger_threshold =
     (\<lparr>stat = (case counter_value of Some (JSON_INTEGER i) \<Rightarrow> of_int i | _ \<Rightarrow> 0),
       threshold = (case trigger_threshold of Some (JSON_INTEGER i) \<Rightarrow> of_int i | _ \<Rightarrow> 0),
       enabled = False\<rparr>,
      case trigger_threshold of Some (JSON_ARRAY _) \<Rightarrow> True | _ \<Rightarrow> False)"

definition track_row :: "bool \<Rightarrow> nat result \<Rightarrow> int \<times> ovsdb \<Rightarrow> int \<times> ovsdb" where
  "track_row is_enabled realm s =
     (if is_enabled then (case realm of Inl _ \<Rightarrow> s | Inr r \<Rightarrow> track_realm r s) else s)"

text \<open>A row whose name has been read.\<close>

definition bufmon_row ::
  "platform \<Rightarrow> int \<Rightarrow> nat \<Rightarrow> int \<Rightarrow> int \<Rightarrow> bid_info \<times> bool \<Rightarrow> bool \<Rightarrow> bool \<Rightarrow> int \<times> ovsdb \<Rightarrow> (int \<times> ovsdb) option" where
  "bufmon_row pf asic bid port queue vals is_enabled triggered s = do {
     let s1 = track_row is_enabled (bst_ovsdb_realm_id_get (bid_realm_name (bid_row pf bid))) s;
     (_, st1) \<leftarrow> bst_ovsdb_row_update pf asic bid port queue (snd vals) (fst vals) (snd s1);
     Some (fst s1, if triggered then snd (bst_ovsdb_trigger_callback pf asic bid port (queue - 1) st1) else st1)
   }"

definition bufmon_update ::
  "platform \<Rightarrow> ovs_json option \<Rightarrow> ovs_json option \<Rightarrow> int \<times> ovsdb \<Rightarrow> (int \<times> ovsdb) option" where
  "bufmon_update pf old new s = do {
     hw_unit_id \<leftarrow> OVSDB_GET_COLUMN old new ''hw_unit_id'';
     name \<leftarrow> OVSDB_GET_COLUMN old new ''name'';
     counter_value \<leftarrow> OVSDB_GET_COLUMN old new ''counter_value'';
     trigger_threshold \<leftarrow> OVSDB_GET_COLUMN old new ''trigger_threshold'';
     enabled_col \<leftarrow> OVSDB_GET_COLUMN old new ''enabled'';
     status \<leftarrow> OVSDB_GET_COLUMN old new ''status'';
     if name = None \<or> hw_unit_id = None then Some s
     else do {
       asic \<leftarrow> json_number (the hw_unit_id);
       key \<leftarrow> json_text (the name);
       found \<leftarrow> bst_ovsdb_row_info_get pf key 0;
       (case found of
          Inl _ \<Rightarrow> Some s
        | Inr (bid, port, queue) \<Rightarrow>
            bufmon_row pf asic bid port queue (bufmon_values counter_value trigger_threshold)
              (enabled_col = Some JSON_TRUE) (status = Some (JSON_STRING ''triggered'')) s)
     }
   }"

section \<open>The row of the system\<close>

definition OVSDB_UUID_SIZE :: nat where "OVSDB_UUID_SIZE = 36"

text \<open>The buffer of the identifier has no room for a terminator; the byte that follows it is taken
  to be 0.\<close>

definition system_update ::
  "string \<Rightarrow> ovs_json option \<Rightarrow> ovs_json option \<Rightarrow> int \<times> ovsdb \<Rightarrow> (int \<times> ovsdb) option" where
  "system_update node_name old new s =
     (case s of (tmask, st) \<Rightarrow>
       if length node_name \<noteq> OVSDB_UUID_SIZE then Some s
       else do {
         let st1 = st\<lparr>system_table_uuid := node_name\<rparr>;
         config \<leftarrow> OVSDB_GET_COLUMN old new ''bufmon_config'';
         (case config of
            None \<Rightarrow> Some (tmask, st1)
          | Some c \<Rightarrow> do {
              (_, st2) \<leftarrow> bst_system_bufmon_config_update c st1;
              Some (tmask, st2\<lparr>sys_cache_init_done := True\<rparr>)
            })
       })"

section \<open>A table\<close>

definition row_step :: "platform \<Rightarrow> string \<Rightarrow> string \<times> ovs_json \<Rightarrow> int \<times> ovsdb \<Rightarrow> (int \<times> ovsdb) option" where
  "row_step pf table_name node s =
     (case snd node of
        JSON_OBJECT ms \<Rightarrow>
          (let old = map_of ms ''old''; new = map_of ms ''new'' in
           if table_name = ''bufmon'' then bufmon_update pf old new s
           else if table_name = ''System'' then system_update (fst node) old new s
           else Some s)
      | _ \<Rightarrow> Some s)"

primrec table_rows ::
  "platform \<Rightarrow> string \<Rightarrow> (string \<times> ovs_json) list \<Rightarrow> int \<times> ovsdb \<Rightarrow> (int \<times> ovsdb) option" where
  "table_rows pf table_name [] s = Some s"
| "table_rows pf table_name (r # rs) s = do { s' \<leftarrow> row_step pf table_name r s; table_rows pf table_name rs s' }"

text \<open>The mask of the realms this update enabled is compared with the mask of the cache before
  it.\<close>

definition bst_ovsdb_cache_update_table ::
  "platform \<Rightarrow> string \<Rightarrow> ovs_json \<Rightarrow> ovsdb \<Rightarrow> (BVIEW_STATUS \<times> ovsdb) option" where
  "bst_ovsdb_cache_update_table pf table_name table_update st =
     (case table_update of
        JSON_OBJECT rows \<Rightarrow> do {
          let oldTrackMask = trackingMask (config_data st);
          (tmask, st1) \<leftarrow> table_rows pf table_name rows (0, st);
          let st2 = (if oldTrackMask \<noteq> tmask
                     then raise_event (OVS_NOTIFY 0 BVIEW_BST_CONFIG_TRACK_UPDATE) st1 else st1);
          Some (BVIEW_STATUS_SUCCESS,
            if system_table_uuid st2 \<noteq> [] \<and> sys_cache_init_done st2
            then st2\<lparr>monitor_init_done_sem := monitor_init_done_sem st2 + 1\<rparr> else st2)
        }
      | _ \<Rightarrow> Some (BVIEW_STATUS_FAILURE, st))"

definition bst_table_name :: "string list" where
  "bst_table_name = [''bufmon'', ''System'']"

primrec update_tables ::
  "platform \<Rightarrow> string list \<Rightarrow> (string \<times> ovs_json) list \<Rightarrow> ovsdb \<Rightarrow> ovsdb option" where
  "update_tables pf [] ts st = Some st"
| "update_tables pf (n # ns) ts st =
     (case map_of ts n of
        None \<Rightarrow> update_tables pf ns ts st
      | Some u \<Rightarrow> do { (_, st1) \<leftarrow> bst_ovsdb_cache_update_table pf n u st; update_tables pf ns ts st1 })"

definition bst_ovsdb_cache_update :: "platform \<Rightarrow> ovs_json \<Rightarrow> ovsdb \<Rightarrow> (BVIEW_STATUS \<times> ovsdb) option" where
  "bst_ovsdb_cache_update pf table_updates st =
     (case table_updates of
        JSON_OBJECT ts \<Rightarrow> do { st1 \<leftarrow> update_tables pf bst_table_name ts st; Some (BVIEW_STATUS_SUCCESS, st1) }
      | _ \<Rightarrow> Some (BVIEW_STATUS_FAILURE, st))"

section \<open>Messages\<close>

text \<open>A reply, with whether its id is that of the request to monitor, a notification, or any other
  message. The loop never ends; the model runs it over the messages that have arrived.\<close>

datatype ovs_msg =
    JSONRPC_REPLY bool ovs_json
  | JSONRPC_NOTIFY string ovs_json
  | JSONRPC_OTHER

definition monitor_message :: "platform \<Rightarrow> ovs_msg \<Rightarrow> ovsdb \<Rightarrow> ovsdb option" where
  "monitor_message pf msg st =
     (case msg of
        JSONRPC_REPLY ours r \<Rightarrow>
          if ours then map_option snd (bst_ovsdb_cache_update pf r st) else Some st
      | JSONRPC_NOTIFY method params \<Rightarrow>
          (case params of
             JSON_ARRAY [JSON_NULL, u] \<Rightarrow>
               if method = ''update'' then map_option snd (bst_ovsdb_cache_update pf u st) else Some st
           | _ \<Rightarrow> Some st)
      | JSONRPC_OTHER \<Rightarrow> Some st)"

primrec monitor_messages :: "platform \<Rightarrow> ovs_msg list \<Rightarrow> ovsdb \<Rightarrow> ovsdb option" where
  "monitor_messages pf [] st = Some st"
| "monitor_messages pf (m # ms) st = do { st1 \<leftarrow> monitor_message pf m st; monitor_messages pf ms st1 }"

definition BST_JSON_MONITOR_BUFMON :: string where
  "BST_JSON_MONITOR_BUFMON =
     ''[\"OpenSwitch\",null,{\"bufmon\":[{\"columns\":[\"counter_value\",\"counter_vendor_specific_info\",\"enabled\",\"hw_unit_id\",\"name\",\"status\",\"trigger_threshold\",\"_version\"]}], \"System\":[{\"columns\":[\"bufmon_config\"]},{\"columns\":[\"bufmon_info\"]}]}]''"

text \<open>The thread asks the database to monitor both tables; it ends when it cannot, and otherwise handles
  what arrives.\<close>

definition bst_ovsdb_monitor :: "platform \<Rightarrow> bool \<Rightarrow> ovs_msg list \<Rightarrow> ovsdb \<Rightarrow> ovsdb option" where
  "bst_ovsdb_monitor pf send_ok msgs st =
     (if \<not> ov_opens st then Some st
      else let st1 = send_transaction BST_JSON_MONITOR_BUFMON st in
        if \<not> send_ok then Some st1 else monitor_messages pf msgs st1)"

section \<open>Initialisation\<close>

text \<open>What the operating system grants: the semaphore, the thread, the clock. The messages are those
  that arrive within the 40 seconds the initialisation waits for the first post.\<close>

record os_grants =
  sem_ok :: bool
  thread_ok :: bool
  clock_ok :: bool
  lock_ok :: bool
  send_monitor_ok :: bool

definition bst_ovsdb_client_init ::
  "platform \<Rightarrow> os_grants \<Rightarrow> ovs_msg list \<Rightarrow> ovsdb \<Rightarrow> (BVIEW_STATUS \<times> ovsdb) option" where
  "bst_ovsdb_client_init pf os msgs st =
     (if \<not> sem_ok os then Some (BVIEW_STATUS_FAILURE, st)
      else if \<not> thread_ok os then Some (BVIEW_STATUS_FAILURE, st\<lparr>monitor_init_done_sem := 0\<rparr>)
      else do {
        st1 \<leftarrow> bst_ovsdb_monitor pf (send_monitor_ok os) msgs (st\<lparr>monitor_init_done_sem := 0\<rparr>);
        Some (if \<not> clock_ok os \<or> monitor_init_done_sem st1 = 0 then (BVIEW_STATUS_FAILURE, st1)
              else (BVIEW_STATUS_SUCCESS, st1\<lparr>monitor_init_done_sem := monitor_init_done_sem st1 - 1\<rparr>))
      })"

definition sbplugin_ovsdb_bst_infra_init ::
  "platform \<Rightarrow> os_grants \<Rightarrow> ovs_msg list \<Rightarrow> ovsdb \<Rightarrow> (BVIEW_STATUS \<times> ovsdb) option" where
  "sbplugin_ovsdb_bst_infra_init pf os msgs st =
     (if \<not> lock_ok os then Some (BVIEW_STATUS_FAILURE, st) else bst_ovsdb_client_init pf os msgs st)"

end
