(* ===== verification/Ovs_System.thy ===== *)
theory Ovs_System
  imports C_Loops Ovs_Monitor
begin

text \<open>The system half of the OVSDB plugin (sb_plugin/sb_ovsdb/system): what it knows of the silicon, the
  default sizes of the buffers, names and addresses, and the notations of units, ports and trunks.
  Output through pointers is the option in the result. As in the update of the counters, None in place of
  a result stands for a write outside an array.\<close>

section \<open>The environment\<close>

text \<open>What the build selects (the limits of the board, the sizes of its buffers, the chip), and what lies
  in front of the two arrays of unit numbers, which a negative number reads.\<close>

record ovsdb_env =
  env_platform :: platform
  env_buffers :: platform_buffers
  env_tomahawk :: bool
  env_before_asicMap :: "int \<Rightarrow> int"
  env_before_asicAppMap :: "int \<Rightarrow> int"

section \<open>Sizes of the buffers\<close>

definition BVIEW_SYSTEM_NUM_COS_PORT :: nat where "BVIEW_SYSTEM_NUM_COS_PORT = 8"

definition zero_max_buf :: max_buf_snapshot where
  "zero_max_buf = \<lparr>max_device = 0,
     max_iPortPg = replicate BVIEW_ASIC_MAX_PORTS (replicate BVIEW_ASIC_MAX_PRIORITY_GROUPS
        \<lparr>ippg_umShareMaxBuf = 0, ippg_umHeadroomMaxBuf = 0\<rparr>),
     max_iPortSp = replicate BVIEW_ASIC_MAX_PORTS (replicate BVIEW_ASIC_MAX_INGRESS_SERVICE_POOLS 0),
     max_iSp = replicate BVIEW_ASIC_MAX_INGRESS_SERVICE_POOLS 0,
     max_ePortSp = replicate BVIEW_ASIC_MAX_PORTS (replicate BVIEW_ASIC_MAX_SERVICE_POOLS
        \<lparr>epsp_ucShareMaxBuf = 0, epsp_umShareMaxBuf = 0, epsp_mcShareMaxBuf = 0\<rparr>),
     max_eSp = replicate BVIEW_ASIC_MAX_SERVICE_POOLS \<lparr>esp_umShareMaxBuf = 0, esp_mcShareMaxBuf = 0\<rparr>,
     max_eUcQ = replicate BVIEW_ASIC_MAX_UC_QUEUES 0,
     max_eUcQg = replicate BVIEW_ASIC_MAX_UC_QUEUE_GROUPS 0,
     max_eMcQ = replicate BVIEW_ASIC_MAX_MC_QUEUES 0,
     max_cpqQ = replicate BVIEW_ASIC_MAX_CPU_QUEUES 0,
     max_rqeQ = replicate BVIEW_ASIC_MAX_RQE_QUEUES 0\<rparr>"

text \<open>The loops count ports from 1 with an unsigned counter. Only the loops over ports have a bound that the
  arrays do not give.\<close>

definition asic_params :: "int \<Rightarrow> ovsdb \<Rightarrow> asic_capabilities" where
  "asic_params asic st = scalingParams (asicDb st ! nat asic)"

definition unsigned_count :: "int \<Rightarrow> nat" where
  "unsigned_count n = nat (n mod 2 ^ 32)"

definition port_iter :: "int \<Rightarrow> ovsdb \<Rightarrow> nat list" where
  "port_iter asic st = [1..<Suc (unsigned_count (numPorts (asic_params asic st)))]"

definition sbplugin_system_default_device_max_buf_data_get :: "platform_buffers \<Rightarrow> int \<Rightarrow> u64 \<Rightarrow> u64 option" where
  "sbplugin_system_default_device_max_buf_data_get bf asic d =
     Some (of_int (SB_BRCM_BST_STAT_ID_DEVICE_DEFAULT bf))"

definition sbplugin_system_default_ippg_max_buf_data_get ::
  "platform_buffers \<Rightarrow> int \<Rightarrow> ovsdb \<Rightarrow> ippg_max_buf list list \<Rightarrow> ippg_max_buf list list option" where
  "sbplugin_system_default_ippg_max_buf_data_get bf asic st =
     each (\<lambda>port. each (\<lambda>pg. write_grid (port - 1) pg (\<lambda>c. c\<lparr>
         ippg_umShareMaxBuf := of_int (SB_BRCM_BST_STAT_ID_PRI_GROUP_SHARED_DEFAULT bf),
         ippg_umHeadroomMaxBuf := of_int (SB_BRCM_BST_STAT_ID_PRI_GROUP_HEADROOM_DEFAULT bf)\<rparr>))
       [0..<BVIEW_ASIC_MAX_PRIORITY_GROUPS]) (port_iter asic st)"

definition sbplugin_system_default_ipsp_max_buf_data_get ::
  "platform_buffers \<Rightarrow> int \<Rightarrow> ovsdb \<Rightarrow> u64 list list \<Rightarrow> u64 list list option" where
  "sbplugin_system_default_ipsp_max_buf_data_get bf asic st =
     each (\<lambda>port. each (\<lambda>sp. write_grid (port - 1) sp (\<lambda>_. of_int (SB_BRCM_BST_STAT_ID_PORT_POOL_DEFAULT bf)))
       [0..<BVIEW_ASIC_MAX_SERVICE_POOLS]) (port_iter asic st)"

definition sbplugin_system_default_isp_max_buf_data_get ::
  "platform_buffers \<Rightarrow> int \<Rightarrow> u64 list \<Rightarrow> u64 list option" where
  "sbplugin_system_default_isp_max_buf_data_get bf asic =
     each (\<lambda>sp. write_at sp (\<lambda>_. of_int (SB_BRCM_BST_STAT_ID_ING_POOL_DEFAULT bf)))
       [0..<BVIEW_ASIC_MAX_SERVICE_POOLS]"

definition sbplugin_system_default_epsp_max_buf_data_get ::
  "platform_buffers \<Rightarrow> int \<Rightarrow> ovsdb \<Rightarrow> epsp_max_buf list list \<Rightarrow> epsp_max_buf list list option" where
  "sbplugin_system_default_epsp_max_buf_data_get bf asic st =
     each (\<lambda>port. each (\<lambda>sp. write_grid (port - 1) sp (\<lambda>c. c\<lparr>
         epsp_ucShareMaxBuf := of_int (SB_BRCM_BST_STAT_ID_EGR_UCAST_PORT_SHARED_DEFAULT bf),
         epsp_umShareMaxBuf := of_int (SB_BRCM_BST_STAT_ID_EGR_PORT_SHARED_DEFAULT bf),
         epsp_mcShareMaxBuf := of_int (SB_BRCM_BST_STAT_ID_EGR_MCAST_PORT_SHARED_DEFAULT bf)\<rparr>))
       [0..<BVIEW_ASIC_MAX_SERVICE_POOLS]) (port_iter asic st)"

definition sbplugin_system_default_esp_max_buf_data_get ::
  "platform_buffers \<Rightarrow> int \<Rightarrow> esp_max_buf list \<Rightarrow> esp_max_buf list option" where
  "sbplugin_system_default_esp_max_buf_data_get bf asic =
     each (\<lambda>sp. write_at sp (\<lambda>c. c\<lparr>
         esp_umShareMaxBuf := of_int (SB_BRCM_BST_STAT_ID_EGR_POOL_DEFAULT bf),
         esp_mcShareMaxBuf := of_int (SB_BRCM_BST_STAT_ID_EGR_MCAST_POOL_DEFAULT bf)\<rparr>))
       [0..<BVIEW_ASIC_MAX_SERVICE_POOLS]"

definition sbplugin_system_default_eucq_max_buf_data_get ::
  "platform_buffers \<Rightarrow> int \<Rightarrow> ovsdb \<Rightarrow> u64 list \<Rightarrow> u64 list option" where
  "sbplugin_system_default_eucq_max_buf_data_get bf asic st =
     each (\<lambda>port. each (\<lambda>cosq. write_at ((port - 1) * BVIEW_SYSTEM_NUM_COS_PORT + cosq)
         (\<lambda>_. of_int (SB_BRCM_BST_STAT_ID_UCAST_DEFAULT bf)))
       [0..<BVIEW_SYSTEM_NUM_COS_PORT]) (port_iter asic st)"

definition sbplugin_system_default_eucqg_max_buf_data_get ::
  "platform_buffers \<Rightarrow> int \<Rightarrow> u64 list \<Rightarrow> u64 list option" where
  "sbplugin_system_default_eucqg_max_buf_data_get bf asic =
     each (\<lambda>cosq. write_at cosq (\<lambda>_. of_int (SB_BRCM_BST_STAT_ID_UCAST_GROUP_DEFAULT bf)))
       [0..<BVIEW_ASIC_MAX_UC_QUEUE_GROUPS]"

definition sbplugin_system_default_emcq_max_buf_data_get ::
  "platform_buffers \<Rightarrow> int \<Rightarrow> ovsdb \<Rightarrow> u64 list \<Rightarrow> u64 list option" where
  "sbplugin_system_default_emcq_max_buf_data_get bf asic st =
     each (\<lambda>port. each (\<lambda>cosq. write_at ((port - 1) * BVIEW_SYSTEM_NUM_COS_PORT + cosq)
         (\<lambda>_. of_int (SB_BRCM_BST_STAT_ID_MCAST_DEFAULT bf)))
       [0..<BVIEW_SYSTEM_NUM_COS_PORT]) (port_iter asic st)"

definition sbplugin_system_default_cpuq_max_buf_data_get ::
  "platform_buffers \<Rightarrow> int \<Rightarrow> u64 list \<Rightarrow> u64 list option" where
  "sbplugin_system_default_cpuq_max_buf_data_get bf asic =
     each (\<lambda>cosq. write_at cosq (\<lambda>_. of_int (SB_BRCM_BST_STAT_ID_CPU_DEFAULT bf)))
       [0..<BVIEW_ASIC_MAX_CPU_QUEUES]"

definition sbplugin_system_default_rqeq_max_buf_data_get ::
  "platform_buffers \<Rightarrow> int \<Rightarrow> u64 list \<Rightarrow> u64 list option" where
  "sbplugin_system_default_rqeq_max_buf_data_get bf asic =
     each (\<lambda>cosq. write_at cosq (\<lambda>_. of_int (SB_BRCM_BST_STAT_ID_RQE_QUEUE_DEFAULT bf)))
       [0..<BVIEW_ASIC_MAX_RQE_QUEUES]"

text \<open>None of the parts fails, so none of the early returns is taken.\<close>

definition sbplugin_system_max_buf_defaults_get ::
  "platform_buffers \<Rightarrow> int \<Rightarrow> ovsdb \<Rightarrow> max_buf_snapshot \<Rightarrow> max_buf_snapshot option" where
  "sbplugin_system_max_buf_defaults_get bf asic st s = do {
     v1 \<leftarrow> sbplugin_system_default_device_max_buf_data_get bf asic (max_device s);
     v2 \<leftarrow> sbplugin_system_default_ippg_max_buf_data_get bf asic st (max_iPortPg s);
     v3 \<leftarrow> sbplugin_system_default_ipsp_max_buf_data_get bf asic st (max_iPortSp s);
     v4 \<leftarrow> sbplugin_system_default_isp_max_buf_data_get bf asic (max_iSp s);
     v5 \<leftarrow> sbplugin_system_default_epsp_max_buf_data_get bf asic st (max_ePortSp s);
     v6 \<leftarrow> sbplugin_system_default_esp_max_buf_data_get bf asic (max_eSp s);
     v7 \<leftarrow> sbplugin_system_default_eucq_max_buf_data_get bf asic st (max_eUcQ s);
     v8 \<leftarrow> sbplugin_system_default_eucqg_max_buf_data_get bf asic (max_eUcQg s);
     v9 \<leftarrow> sbplugin_system_default_emcq_max_buf_data_get bf asic st (max_eMcQ s);
     v10 \<leftarrow> sbplugin_system_default_cpuq_max_buf_data_get bf asic (max_cpqQ s);
     v11 \<leftarrow> sbplugin_system_default_rqeq_max_buf_data_get bf asic (max_rqeQ s);
     Some \<lparr>max_device = v1, max_iPortPg = v2, max_iPortSp = v3, max_iSp = v4, max_ePortSp = v5, max_eSp = v6,
           max_eUcQ = v7, max_eUcQg = v8, max_eMcQ = v9, max_cpqQ = v10, max_rqeQ = v11\<rparr>
   }"

definition sbplugin_system_max_buf_update :: "platform_buffers \<Rightarrow> nat \<Rightarrow> ovsdb \<Rightarrow> ovsdb option" where
  "sbplugin_system_max_buf_update bf unit st = do {
     s \<leftarrow> sbplugin_system_max_buf_defaults_get bf (int unit) st (sbMaxBufSnapshot st ! unit);
     Some (st\<lparr>sbMaxBufSnapshot := (sbMaxBufSnapshot st)[unit := s]\<rparr>)
   }"

definition sbplugin_ovsdb_system_max_buf_snapshot_get :: "int \<Rightarrow> (ovsdb, max_buf_snapshot \<times> int) sb_op" where
  "sbplugin_ovsdb_system_max_buf_snapshot_get asic st =
     (if \<not> unit_known asic st then (BVIEW_STATUS_INVALID_PARAMETER, None, st)
      else (BVIEW_STATUS_SUCCESS, Some (sbMaxBufSnapshot st ! nat asic, ov_clock st), st))"

section \<open>Names and addresses\<close>

text \<open>A string is what the buffer of the given length holds of it.\<close>

definition sbplugin_ovsdb_system_name_get :: "int \<Rightarrow> (ovsdb, string) sb_op" where
  "sbplugin_ovsdb_system_name_get len st =
     (BVIEW_STATUS_SUCCESS, Some (take (nat len) ''OVSDB-PLUGIN''), st)"

definition sbplugin_ovsdb_system_mac_get :: "int \<Rightarrow> (ovsdb, string) sb_op" where
  "sbplugin_ovsdb_system_mac_get len st =
     (case ov_hwaddr st of
        None \<Rightarrow> (BVIEW_STATUS_FAILURE, None, st)
      | Some mac \<Rightarrow> (BVIEW_STATUS_SUCCESS, Some (take (nat len) mac), st))"

definition sbplugin_ovsdb_system_ipv4_get :: "int \<Rightarrow> (ovsdb, string) sb_op" where
  "sbplugin_ovsdb_system_ipv4_get len st =
     (case ov_ipaddr st of
        None \<Rightarrow> (BVIEW_STATUS_FAILURE, None, st)
      | Some ip \<Rightarrow> (BVIEW_STATUS_SUCCESS, Some (take (nat len) ip), st))"

definition sbplugin_ovsdb_system_time_get :: "(ovsdb, int) sb_op" where
  "sbplugin_ovsdb_system_time_get st = (BVIEW_STATUS_SUCCESS, Some (ov_clock st), st)"

definition SBPLUGIN_NETWORK_OS :: string where "SBPLUGIN_NETWORK_OS = ''ovsdb''"

definition sbplugin_ovsdb_system_network_os_get :: "int \<Rightarrow> (ovsdb, string) sb_op" where
  "sbplugin_ovsdb_system_network_os_get len st =
     (BVIEW_STATUS_SUCCESS, Some (take (nat len) SBPLUGIN_NETWORK_OS), st)"

definition hex_digit :: "nat \<Rightarrow> char" where
  "hex_digit n = ''0123456789abcdef'' ! n"

definition fmt_02x :: "nat \<Rightarrow> string" where
  "fmt_02x n = [hex_digit (n div 16 mod 16), hex_digit (n mod 16)]"

definition BVIEW_MACADDR_LEN :: nat where "BVIEW_MACADDR_LEN = 6"

text \<open>Two zero bytes and the hardware address, cut to the buffer with its terminator.\<close>

definition sbplugin_ovsdb_system_uid_get :: "int \<Rightarrow> (ovsdb, string) sb_op" where
  "sbplugin_ovsdb_system_uid_get len st =
     (case sbplugin_ovsdb_system_mac_get (int BVIEW_MACADDR_LEN) st of
        (BVIEW_STATUS_SUCCESS, Some mac, st1) \<Rightarrow>
          (BVIEW_STATUS_SUCCESS, Some (take (nat (len - 1)) (concat (map fmt_02x (0 # 0 # map of_char mac)))), st1)
      | (_, _, st1) \<Rightarrow> (BVIEW_STATUS_FAILURE, None, st1))"

section \<open>Notations\<close>

definition asicMap :: "int list" where "asicMap = [- 1, 0]"
definition asicAppMap :: "int list" where "asicAppMap = [1]"

text \<open>The number is written before it is checked. Only numbers above the last unit are refused.\<close>

definition sbplugin_ovsdb_system_asic_translate_from_notation ::
  "ovsdb_env \<Rightarrow> string \<Rightarrow> (ovsdb, int) sb_op" where
  "sbplugin_ovsdb_system_asic_translate_from_notation env src st =
     (let asic = atoi src in
      if int BVIEW_MAX_ASICS_ON_A_PLATFORM < asic then (BVIEW_STATUS_INVALID_PARAMETER, Some asic, st)
      else (BVIEW_STATUS_SUCCESS,
            Some (if asic < 0 then env_before_asicMap env asic else asicMap ! nat asic), st))"

definition sbplugin_ovsdb_system_port_translate_from_notation :: "string \<Rightarrow> (ovsdb, int) sb_op" where
  "sbplugin_ovsdb_system_port_translate_from_notation src st = (BVIEW_STATUS_SUCCESS, Some (atoi src), st)"

definition sbplugin_ovsdb_system_asic_translate_to_notation ::
  "ovsdb_env \<Rightarrow> int \<Rightarrow> string \<Rightarrow> (ovsdb, string) sb_op" where
  "sbplugin_ovsdb_system_asic_translate_to_notation env asic dst st =
     (if int BVIEW_MAX_ASICS_ON_A_PLATFORM \<le> asic then (BVIEW_STATUS_INVALID_PARAMETER, None, st)
      else (BVIEW_STATUS_SUCCESS,
            Some (fmt_d (if asic < 0 then env_before_asicAppMap env asic else asicAppMap ! nat asic)), st))"

definition sbplugin_ovsdb_system_port_translate_to_notation :: "int \<Rightarrow> int \<Rightarrow> string \<Rightarrow> (ovsdb, string) sb_op" where
  "sbplugin_ovsdb_system_port_translate_to_notation asic port dst st =
     (BVIEW_STATUS_SUCCESS, Some (fmt_d port), st)"

text \<open>Trunks count from 1 outside.\<close>

definition sbplugin_ovsdb_system_lag_translate_to_notation :: "int \<Rightarrow> int \<Rightarrow> string \<Rightarrow> (ovsdb, string) sb_op" where
  "sbplugin_ovsdb_system_lag_translate_to_notation asic lag dst st =
     (BVIEW_STATUS_SUCCESS, Some (fmt_d (lag + 1)), st)"

section \<open>The number of ports\<close>

text \<open>A call that polls the database may still wait when the replies given end; or it runs into what C
  leaves undefined; or it is done.\<close>

datatype 'a c_run = WAITS | UNDEFINED | DONE 'a

fun run_bind :: "'a c_run \<Rightarrow> ('a \<Rightarrow> 'b c_run) \<Rightarrow> 'b c_run" where
  "run_bind WAITS f = WAITS"
| "run_bind UNDEFINED f = UNDEFINED"
| "run_bind (DONE x) f = f x"

definition run_of :: "'a option \<Rightarrow> 'a c_run" where
  "run_of x = (case x of None \<Rightarrow> UNDEFINED | Some v \<Rightarrow> DONE v)"

datatype ovs_reply = NO_REPLY | OTHER_MESSAGE | REPLY ovs_json

definition SYSTEM_OVSDB_ASIC_INFO_JSON :: string where
  "SYSTEM_OVSDB_ASIC_INFO_JSON =
     ''[\"OpenSwitch\",{\"op\":\"select\",\"table\":\"Subsystem\",\"where\":[], \"columns\": [\"other_info\"]}]''"

definition SYSTEM_OVSDB_CUR_CFG_INFO_JSON :: string where
  "SYSTEM_OVSDB_CUR_CFG_INFO_JSON =
     ''[\"OpenSwitch\",{\"op\":\"select\",\"table\":\"System\",\"where\":[], \"columns\": [\"cur_cfg\"]}]''"

text \<open>The rows of the first result of a transaction.\<close>

definition first_rows :: "ovs_json \<Rightarrow> ovs_json list result c_run" where
  "first_rows r =
     (case r of
        JSON_ARRAY (JSON_OBJECT ms # _) \<Rightarrow>
          (case map_of ms ''rows'' of Some (JSON_ARRAY rows) \<Rightarrow> DONE (Inr rows) | _ \<Rightarrow> DONE (Inl BVIEW_STATUS_FAILURE))
      | JSON_ARRAY (_ # _) \<Rightarrow> DONE (Inl BVIEW_STATUS_FAILURE)
      | _ \<Rightarrow> UNDEFINED)"

definition row_member :: "ovs_json \<Rightarrow> string \<Rightarrow> ovs_json option" where
  "row_member row name = (case row of JSON_OBJECT ms \<Rightarrow> map_of ms name | _ \<Rightarrow> None)"

text \<open>The poll asks until the configuration counter is not 0. The counter is cut to an int.\<close>

primrec poll_cur_cfg :: "ovs_reply list \<Rightarrow> ovsdb \<Rightarrow> (unit result \<times> ovsdb) c_run" where
  "poll_cur_cfg [] st = WAITS"
| "poll_cur_cfg (r # rs) st =
     (let st1 = send_transaction SYSTEM_OVSDB_CUR_CFG_INFO_JSON st in
      case r of
        NO_REPLY \<Rightarrow> DONE (Inl BVIEW_STATUS_INVALID_PARAMETER, st1)
      | OTHER_MESSAGE \<Rightarrow> poll_cur_cfg rs st1
      | REPLY j \<Rightarrow> run_bind (first_rows j) (\<lambda>res. case res of
            Inl e \<Rightarrow> DONE (Inl e, st1)
          | Inr [] \<Rightarrow> poll_cur_cfg rs st1
          | Inr (row # _) \<Rightarrow> (case row_member row ''cur_cfg'' of
                Some (JSON_INTEGER n) \<Rightarrow>
                  if n mod 2 ^ 32 = 0 then poll_cur_cfg rs st1 else DONE (Inr (), st1)
              | _ \<Rightarrow> DONE (Inl BVIEW_STATUS_FAILURE, st1))))"

text \<open>The pairs of the map other_info up to the number of interfaces, which goes to the caller's number.\<close>

primrec interface_count :: "ovs_json list \<Rightarrow> int \<Rightarrow> (BVIEW_STATUS \<times> int) c_run" where
  "interface_count [] numports = DONE (BVIEW_STATUS_SUCCESS, numports)"
| "interface_count (e # es) numports =
     (case e of
        JSON_ARRAY (k # v # _) \<Rightarrow>
          (case k of
             JSON_STRING key \<Rightarrow>
               if key = ''interface_count''
               then run_bind (run_of (json_text v)) (\<lambda>s. DONE (BVIEW_STATUS_SUCCESS, atoi s))
               else interface_count es numports
           | _ \<Rightarrow> interface_count es numports)
      | JSON_ARRAY _ \<Rightarrow> UNDEFINED
      | _ \<Rightarrow> DONE (BVIEW_STATUS_FAILURE, numports))"

definition other_info_ports :: "ovs_json \<Rightarrow> int \<Rightarrow> (BVIEW_STATUS \<times> int) c_run" where
  "other_info_ports j numports =
     run_bind (first_rows j) (\<lambda>res. case res of
         Inl e \<Rightarrow> DONE (e, numports)
       | Inr [] \<Rightarrow> UNDEFINED
       | Inr (row # _) \<Rightarrow> (case row_member row ''other_info'' of
             Some (JSON_ARRAY (m # a # _)) \<Rightarrow>
               run_bind (run_of (json_text m)) (\<lambda>t.
                 case a of
                   JSON_ARRAY es \<Rightarrow> if t = ''map'' then interface_count es numports
                                    else DONE (BVIEW_STATUS_FAILURE, numports)
                 | _ \<Rightarrow> DONE (BVIEW_STATUS_FAILURE, numports))
           | Some (JSON_ARRAY _) \<Rightarrow> UNDEFINED
           | _ \<Rightarrow> DONE (BVIEW_STATUS_FAILURE, numports)))"

definition system_ovsdb_common_get_asicinfo ::
  "ovs_reply list \<Rightarrow> ovs_reply \<Rightarrow> int \<Rightarrow> ovsdb \<Rightarrow> (BVIEW_STATUS \<times> int \<times> ovsdb) c_run" where
  "system_ovsdb_common_get_asicinfo polls info numports st =
     (if \<not> ov_opens st then DONE (BVIEW_STATUS_FAILURE, numports, st)
      else run_bind (poll_cur_cfg polls st) (\<lambda>(res, st1). case res of
          Inl e \<Rightarrow> DONE (e, numports, st1)
        | Inr _ \<Rightarrow>
            (let st2 = send_transaction SYSTEM_OVSDB_ASIC_INFO_JSON st1 in
             case info of
               NO_REPLY \<Rightarrow> DONE (BVIEW_STATUS_INVALID_PARAMETER, numports, st2)
             | OTHER_MESSAGE \<Rightarrow> UNDEFINED
             | REPLY j \<Rightarrow> run_bind (other_info_ports j numports) (\<lambda>(rv, n). DONE (rv, n, st2)))))"

section \<open>Initialisation\<close>

definition sbplugin_ovsdb_system_util_chip_type_get :: "ovsdb_env \<Rightarrow> nat" where
  "sbplugin_ovsdb_system_util_chip_type_get env =
     (if env_tomahawk env then BVIEW_ASIC_TYPE_TH else BVIEW_ASIC_TYPE_TD2)"

definition sbplugin_ovsdb_system_util_td2_init :: "asic_info \<Rightarrow> asic_info" where
  "sbplugin_ovsdb_system_util_td2_init a = a\<lparr>scalingParams := (scalingParams a)\<lparr>
     numUnicastQueues := 2960, numUnicastQueueGroups := 128, numMulticastQueues := 1040,
     numServicePools := 4, numCommonPools := 1, numCpuQueues := 8, numRqeQueues := 11,
     numRqeQueuePools := 4, numPriorityGroups := 8, support1588 := True, cellToByteConv := 208\<rparr>\<rparr>"

definition ovsdb_system_feature :: "ovsdb_env \<Rightarrow> asic_info \<Rightarrow> ovsdb system_feature" where
  "ovsdb_system_feature env a = \<lparr>
     sys_supportedAsicMask = BVIEW_ASIC_TYPE_ALL,
     numSupportedAsics = 1,
     asicList = [Some a],
     featureMask = 0,
     system_name_get_cb = Some sbplugin_ovsdb_system_name_get,
     system_mac_get_cb = Some sbplugin_ovsdb_system_mac_get,
     system_ip4_get_cb = Some sbplugin_ovsdb_system_ipv4_get,
     system_time_get_cb = Some sbplugin_ovsdb_system_time_get,
     system_asic_translate_from_notation_cb = Some (sbplugin_ovsdb_system_asic_translate_from_notation env),
     system_asic_translate_to_notation_cb = Some (sbplugin_ovsdb_system_asic_translate_to_notation env),
     system_port_translate_from_notation_cb = Some sbplugin_ovsdb_system_port_translate_from_notation,
     system_port_translate_to_notation_cb = Some sbplugin_ovsdb_system_port_translate_to_notation,
     system_network_os_get_cb = Some sbplugin_ovsdb_system_network_os_get,
     system_uid_get_cb = Some sbplugin_ovsdb_system_uid_get,
     system_lag_translate_to_notation_cb = Some sbplugin_ovsdb_system_lag_translate_to_notation,
     system_max_buf_snapshot_get_cb = Some sbplugin_ovsdb_system_max_buf_snapshot_get\<rparr>"

text \<open>The status of asking for the ports is not looked at; it counts that there are some.\<close>

definition sbplugin_ovsdb_system_init ::
  "ovsdb_env \<Rightarrow> ovs_reply list \<Rightarrow> ovs_reply \<Rightarrow> ovsdb \<Rightarrow> (ovsdb system_feature result \<times> ovsdb) c_run" where
  "sbplugin_ovsdb_system_init env polls info st =
     run_bind (system_ovsdb_common_get_asicinfo polls info 0 st) (\<lambda>(_, num_ports, st1).
       if num_ports mod 2 ^ 32 = 0 then DONE (Inl BVIEW_STATUS_FAILURE, st1)
       else
         let a0 = asicDb st1 ! 0;
             a = sbplugin_ovsdb_system_util_td2_init (a0\<lparr>
                   scalingParams := (scalingParams a0)\<lparr>numPorts := num_ports\<rparr>,
                   asic_unit := 0, asic_type := sbplugin_ovsdb_system_util_chip_type_get env\<rparr>)
         in run_bind (run_of (sbplugin_system_max_buf_update (env_buffers env) 0
                                (st1\<lparr>asicDb := (asicDb st1)[0 := a]\<rparr>)))
              (\<lambda>st2. DONE (Inr (ovsdb_system_feature env a), st2)))"

end
