(* ===== verification/Ovs_Plugin.thy ===== *)
theory Ovs_Plugin
  imports Ovs_System
begin

text \<open>The BST half of the OVSDB plugin (sb_plugin/sb_ovsdb/bst/sbplugin_bst.c): the functions the redirector
  calls through the plugin's BST feature, and the registration of the plugin (sbplugin_init.c). The caller's
  structure is an argument: members the plugin does not write keep what it held. Limits of the
  loops are those of the unit, whose number is checked first.\<close>

section \<open>Configuration\<close>

definition sbplugin_ovsdb_bst_config_set :: "int \<Rightarrow> bst_config \<Rightarrow> (ovsdb, unit) sb_op" where
  "sbplugin_ovsdb_bst_config_set asic data st =
     (if \<not> unit_known asic st then (BVIEW_STATUS_INVALID_PARAMETER, None, st)
      else if cfg_mode data \<noteq> BVIEW_BST_MODE_CURRENT \<and> cfg_mode data \<noteq> BVIEW_BST_MODE_PEAK
      then (BVIEW_STATUS_INVALID_PARAMETER, None, st)
      else
        let config = \<lparr>bst_enable = enableStatsMonitoring data, bst_tracking_mode = cfg_mode data,
              periodic_collection = enablePeriodicCollection data, collection_interval = collectionPeriod data,
              ovs_bstMaxTriggers = cfg_bstMaxTriggers data,
              ovs_sendSnapshotOnTrigger = (cfg_sendSnapshotOnTrigger data \<noteq> 0),
              triggerCollectionEnabled = True, trackingMask = cfg_trackMask data,
              ovs_trackInit = cfg_trackInit data\<rparr>
        in case bst_ovsdb_bst_config_set asic config st of
             (rv, st1) \<Rightarrow>
               if rv \<noteq> BVIEW_STATUS_SUCCESS then (BVIEW_STATUS_FAILURE, None, st1)
               else (case bst_ovsdb_cache_bst_config_set asic config st1 of
                 (rv2, st2) \<Rightarrow>
                   if rv2 \<noteq> BVIEW_STATUS_SUCCESS then (BVIEW_STATUS_FAILURE, None, st2)
                   else (BVIEW_STATUS_SUCCESS, None, st2)))"

definition sbplugin_ovsdb_bst_config_get :: "int \<Rightarrow> bst_config \<Rightarrow> (ovsdb, bst_config) sb_op" where
  "sbplugin_ovsdb_bst_config_get asic data st =
     (if \<not> unit_known asic st then (BVIEW_STATUS_INVALID_PARAMETER, None, st)
      else case bst_ovsdb_bst_config_get asic zero_ovsdb_config st of
             Inl _ \<Rightarrow> (BVIEW_STATUS_FAILURE, None, st)
           | Inr config \<Rightarrow> (BVIEW_STATUS_SUCCESS,
               Some (data\<lparr>enableStatsMonitoring := bst_enable config, cfg_mode := bst_tracking_mode config,
                 enablePeriodicCollection := periodic_collection config,
                 collectionPeriod := collection_interval config,
                 cfg_bstMaxTriggers := ovs_bstMaxTriggers config,
                 cfg_sendSnapshotOnTrigger := (if ovs_sendSnapshotOnTrigger config then 1 else 0),
                 cfg_trackMask := trackingMask config\<rparr>), st))"

section \<open>Counters\<close>

text \<open>Every counter is looked up by its row; a row outside the table ends the call, and what was
  written so far stays written.\<close>

definition read_stat ::
  "platform \<Rightarrow> int \<Rightarrow> ovsdb \<Rightarrow> nat \<Rightarrow> stat_field \<Rightarrow> nat \<Rightarrow> nat \<Rightarrow> (u64 \<Rightarrow> 'd \<Rightarrow> 'd) \<Rightarrow> 'd \<Rightarrow> bool \<times> 'd" where
  "read_stat pf asic st bid f port index put d =
     (case bst_ovsdb_resolve_index pf bid (int port) (int index) of
        Inl _ \<Rightarrow> (False, d)
      | Inr db_index \<Rightarrow> (True, put (stat (cell asic f db_index st)) d))"

definition data_result :: "int \<Rightarrow> ovsdb \<Rightarrow> bool \<times> 'd \<Rightarrow> BVIEW_STATUS \<times> ('d \<times> int) option \<times> ovsdb" where
  "data_result asic st run =
     (if \<not> unit_known asic st then (BVIEW_STATUS_INVALID_PARAMETER, None, st)
      else (if fst run then BVIEW_STATUS_SUCCESS else BVIEW_STATUS_FAILURE, Some (snd run, ov_clock st), st))"

definition pg_iter :: "int \<Rightarrow> ovsdb \<Rightarrow> nat list" where
  "pg_iter asic st = [0..<unsigned_count (numPriorityGroups (asic_params asic st))]"

definition sp_iter :: "int \<Rightarrow> ovsdb \<Rightarrow> nat list" where
  "sp_iter asic st = [0..<unsigned_count (numServicePools (asic_params asic st))]"

definition uc_queue_iter :: "int \<Rightarrow> ovsdb \<Rightarrow> nat list" where
  "uc_queue_iter asic st = [0..<unsigned_count (numUnicastQueues (asic_params asic st))]"

definition mc_queue_iter :: "int \<Rightarrow> ovsdb \<Rightarrow> nat list" where
  "mc_queue_iter asic st = [0..<unsigned_count (numMulticastQueues (asic_params asic st))]"

definition cpu_queue_iter :: "int \<Rightarrow> ovsdb \<Rightarrow> nat list" where
  "cpu_queue_iter asic st = [0..<unsigned_count (numCpuQueues (asic_params asic st))]"

definition rqe_queue_iter :: "int \<Rightarrow> ovsdb \<Rightarrow> nat list" where
  "rqe_queue_iter asic st = [0..<unsigned_count (numRqeQueues (asic_params asic st))]"

definition uc_queue_grp_iter :: "int \<Rightarrow> ovsdb \<Rightarrow> nat list" where
  "uc_queue_grp_iter asic st = [0..<unsigned_count (numUnicastQueueGroups (asic_params asic st))]"

definition sbplugin_ovsdb_bst_device_data_get :: "int \<Rightarrow> device_data \<Rightarrow> (ovsdb, device_data \<times> int) sb_op" where
  "sbplugin_ovsdb_bst_device_data_get asic data st =
     data_result asic st (True, data\<lparr>bufferCount := stat (cell asic at_device 0 st)\<rparr>)"

definition sbplugin_ovsdb_bst_ippg_data_get ::
  "platform \<Rightarrow> int \<Rightarrow> ippg_data list list \<Rightarrow> (ovsdb, ippg_data list list \<times> int) sb_op" where
  "sbplugin_ovsdb_bst_ippg_data_get pf asic data st = data_result asic st
     (sweep (\<lambda>port. sweep (\<lambda>pg. and_then
         (read_stat pf asic st SB_OVSDB_BST_STAT_ID_PRI_GROUP_SHARED at_iPGShared port pg
            (\<lambda>v. at_cell (port - 1) (at_cell pg (\<lambda>c. c\<lparr>ippg_umShareBufferCount := v\<rparr>))))
         (read_stat pf asic st SB_OVSDB_BST_STAT_ID_PRI_GROUP_HEADROOM at_iPGHeadroom port pg
            (\<lambda>v. at_cell (port - 1) (at_cell pg (\<lambda>c. c\<lparr>ippg_umHeadroomBufferCount := v\<rparr>)))))
       (pg_iter asic st)) (port_iter asic st) data)"

definition sbplugin_ovsdb_bst_ipsp_data_get ::
  "platform \<Rightarrow> int \<Rightarrow> ipsp_data list list \<Rightarrow> (ovsdb, ipsp_data list list \<times> int) sb_op" where
  "sbplugin_ovsdb_bst_ipsp_data_get pf asic data st = data_result asic st
     (sweep (\<lambda>port. sweep (\<lambda>sp.
         read_stat pf asic st SB_OVSDB_BST_STAT_ID_PORT_POOL at_iPortSP port sp
            (\<lambda>v. at_cell (port - 1) (at_cell sp (\<lambda>c. c\<lparr>ipsp_umShareBufferCount := v\<rparr>))))
       (sp_iter asic st)) (port_iter asic st) data)"

text \<open>The counter of this loop is signed.\<close>

definition sbplugin_ovsdb_bst_isp_data_get ::
  "platform \<Rightarrow> int \<Rightarrow> isp_data list \<Rightarrow> (ovsdb, isp_data list \<times> int) sb_op" where
  "sbplugin_ovsdb_bst_isp_data_get pf asic data st = data_result asic st
     (sweep (\<lambda>sp. read_stat pf asic st SB_OVSDB_BST_STAT_ID_ING_POOL at_iSP 0 sp
            (\<lambda>v. at_cell sp (\<lambda>c. c\<lparr>isp_umShareBufferCount := v\<rparr>)))
       [0..<nat (numServicePools (asic_params asic st))] data)"

definition sbplugin_ovsdb_bst_epsp_data_get ::
  "platform \<Rightarrow> int \<Rightarrow> epsp_data list list \<Rightarrow> (ovsdb, epsp_data list list \<times> int) sb_op" where
  "sbplugin_ovsdb_bst_epsp_data_get pf asic data st = data_result asic st
     (sweep (\<lambda>port. sweep (\<lambda>sp. and_then
         (read_stat pf asic st SB_OVSDB_BST_STAT_ID_EGR_UCAST_PORT_SHARED at_ePortSPucShare port sp
            (\<lambda>v. at_cell (port - 1) (at_cell sp (\<lambda>c. c\<lparr>epsp_ucShareBufferCount := v\<rparr>))))
         (read_stat pf asic st SB_OVSDB_BST_STAT_ID_EGR_PORT_SHARED at_ePortSPumShare port sp
            (\<lambda>v. at_cell (port - 1) (at_cell sp (\<lambda>c. c\<lparr>epsp_umShareBufferCount := v\<rparr>)))))
       (sp_iter asic st)) (port_iter asic st) data)"

definition sbplugin_ovsdb_bst_esp_data_get ::
  "platform \<Rightarrow> int \<Rightarrow> esp_data list \<Rightarrow> (ovsdb, esp_data list \<times> int) sb_op" where
  "sbplugin_ovsdb_bst_esp_data_get pf asic data st = data_result asic st
     (sweep (\<lambda>sp. and_then
         (read_stat pf asic st SB_OVSDB_BST_STAT_ID_EGR_POOL at_eSPumShare 0 sp
            (\<lambda>v. at_cell sp (\<lambda>c. c\<lparr>esp_umShareBufferCount := v\<rparr>)))
         (read_stat pf asic st SB_OVSDB_BST_STAT_ID_EGR_MCAST_POOL at_eSPmcShare 0 sp
            (\<lambda>v. at_cell sp (\<lambda>c. c\<lparr>esp_mcShareBufferCount := v\<rparr>))))
       (sp_iter asic st) data)"

definition sbplugin_ovsdb_bst_eucq_data_get ::
  "platform \<Rightarrow> int \<Rightarrow> eucq_data list \<Rightarrow> (ovsdb, eucq_data list \<times> int) sb_op" where
  "sbplugin_ovsdb_bst_eucq_data_get pf asic data st = data_result asic st
     (sweep (\<lambda>cosq. read_stat pf asic st SB_OVSDB_BST_STAT_ID_UCAST at_ucQ 0 cosq
            (\<lambda>v. at_cell cosq (\<lambda>c. c\<lparr>eucq_ucBufferCount := v\<rparr>)))
       (uc_queue_iter asic st) data)"

definition sbplugin_ovsdb_bst_eucqg_data_get ::
  "platform \<Rightarrow> int \<Rightarrow> eucqg_data list \<Rightarrow> (ovsdb, eucqg_data list \<times> int) sb_op" where
  "sbplugin_ovsdb_bst_eucqg_data_get pf asic data st = data_result asic st
     (sweep (\<lambda>cosq. read_stat pf asic st SB_OVSDB_BST_STAT_ID_UCAST_GROUP at_eUCqGroup 0 cosq
            (\<lambda>v. at_cell cosq (\<lambda>c. c\<lparr>eucqg_ucBufferCount := v\<rparr>)))
       (uc_queue_grp_iter asic st) data)"

definition sbplugin_ovsdb_bst_emcq_data_get ::
  "platform \<Rightarrow> int \<Rightarrow> emcq_data list \<Rightarrow> (ovsdb, emcq_data list \<times> int) sb_op" where
  "sbplugin_ovsdb_bst_emcq_data_get pf asic data st = data_result asic st
     (sweep (\<lambda>cosq. read_stat pf asic st SB_OVSDB_BST_STAT_ID_MCAST at_mcQ 0 cosq
            (\<lambda>v. at_cell cosq (\<lambda>c. c\<lparr>mcBufferCount := v\<rparr>)))
       (mc_queue_iter asic st) data)"

definition sbplugin_ovsdb_bst_cpuq_data_get ::
  "platform \<Rightarrow> int \<Rightarrow> cpuq_data list \<Rightarrow> (ovsdb, cpuq_data list \<times> int) sb_op" where
  "sbplugin_ovsdb_bst_cpuq_data_get pf asic data st = data_result asic st
     (sweep (\<lambda>cosq. read_stat pf asic st SB_OVSDB_BST_STAT_ID_CPU_QUEUE at_eCPU 0 cosq
            (\<lambda>v. at_cell cosq (\<lambda>c. c\<lparr>cpuBufferCount := v\<rparr>)))
       (cpu_queue_iter asic st) data)"

definition sbplugin_ovsdb_bst_rqeq_data_get ::
  "platform \<Rightarrow> int \<Rightarrow> rqeq_data list \<Rightarrow> (ovsdb, rqeq_data list \<times> int) sb_op" where
  "sbplugin_ovsdb_bst_rqeq_data_get pf asic data st = data_result asic st
     (sweep (\<lambda>cosq. read_stat pf asic st SB_OVSDB_BST_STAT_ID_RQE_QUEUE at_rqe 0 cosq
            (\<lambda>v. at_cell cosq (\<lambda>c. c\<lparr>rqeBufferCount := v\<rparr>)))
       (rqe_queue_iter asic st) data)"

section \<open>The snapshot\<close>

text \<open>One part of the snapshot: the function of the part, on the member it is given.\<close>

definition snapshot_part ::
  "('p \<Rightarrow> (ovsdb, 'p \<times> int) sb_op) \<Rightarrow> (asic_snapshot \<Rightarrow> 'p) \<Rightarrow> ('p \<Rightarrow> asic_snapshot \<Rightarrow> asic_snapshot) \<Rightarrow>
   ovsdb \<Rightarrow> asic_snapshot \<Rightarrow> bool \<times> asic_snapshot" where
  "snapshot_part get sel put st s =
     (case get (sel s) st of
        (rv, out, _) \<Rightarrow> (rv = BVIEW_STATUS_SUCCESS, case out of None \<Rightarrow> s | Some (d, _) \<Rightarrow> put d s))"

definition snapshot_parts :: "platform \<Rightarrow> int \<Rightarrow> (ovsdb \<Rightarrow> asic_snapshot \<Rightarrow> bool \<times> asic_snapshot) list" where
  "snapshot_parts pf asic =
    [snapshot_part (sbplugin_ovsdb_bst_device_data_get asic) snap_device (\<lambda>d s. s\<lparr>snap_device := d\<rparr>),
     snapshot_part (sbplugin_ovsdb_bst_ippg_data_get pf asic) snap_iPortPg (\<lambda>d s. s\<lparr>snap_iPortPg := d\<rparr>),
     snapshot_part (sbplugin_ovsdb_bst_ipsp_data_get pf asic) snap_iPortSp (\<lambda>d s. s\<lparr>snap_iPortSp := d\<rparr>),
     snapshot_part (sbplugin_ovsdb_bst_isp_data_get pf asic) snap_iSp (\<lambda>d s. s\<lparr>snap_iSp := d\<rparr>),
     snapshot_part (sbplugin_ovsdb_bst_epsp_data_get pf asic) snap_ePortSp (\<lambda>d s. s\<lparr>snap_ePortSp := d\<rparr>),
     snapshot_part (sbplugin_ovsdb_bst_esp_data_get pf asic) snap_eSp (\<lambda>d s. s\<lparr>snap_eSp := d\<rparr>),
     snapshot_part (sbplugin_ovsdb_bst_eucq_data_get pf asic) snap_eUcQ (\<lambda>d s. s\<lparr>snap_eUcQ := d\<rparr>),
     snapshot_part (sbplugin_ovsdb_bst_eucqg_data_get pf asic) snap_eUcQg (\<lambda>d s. s\<lparr>snap_eUcQg := d\<rparr>),
     snapshot_part (sbplugin_ovsdb_bst_emcq_data_get pf asic) snap_eMcQ (\<lambda>d s. s\<lparr>snap_eMcQ := d\<rparr>),
     snapshot_part (sbplugin_ovsdb_bst_cpuq_data_get pf asic) snap_cpqQ (\<lambda>d s. s\<lparr>snap_cpqQ := d\<rparr>),
     snapshot_part (sbplugin_ovsdb_bst_rqeq_data_get pf asic) snap_rqeQ (\<lambda>d s. s\<lparr>snap_rqeQ := d\<rparr>)]"

definition sbplugin_ovsdb_bst_snapshot_get ::
  "platform \<Rightarrow> int \<Rightarrow> asic_snapshot \<Rightarrow> (ovsdb, asic_snapshot \<times> int) sb_op" where
  "sbplugin_ovsdb_bst_snapshot_get pf asic snapshot st =
     data_result asic st (sweep (\<lambda>part. part st) (snapshot_parts pf asic) snapshot)"

end
