(* ===== verification/Ovs_Init.thy ===== *)
theory Ovs_Init
  imports Ovs_Plugin
begin

text \<open>The rest of sb_plugin/sb_ovsdb/bst/sbplugin_bst.c: thresholds, clearing, the trigger callback
  and the feature structure; and sb_plugin/sb_ovsdb/sbplugin_init.c, which registers both features with
  the redirector.\<close>

section \<open>Limits of the thresholds\<close>

text \<open>The macros of public/bst.h on the structures of the south-bound side, where a threshold is an
  unsigned number of 64 bits.\<close>

definition over_limit :: "int \<Rightarrow> u64 \<Rightarrow> bool" where
  "over_limit limit v = (v \<le> 0 \<or> of_int limit < v)"

definition BVIEW_BST_E_CPU_THRESHOLD_CHECK :: "platform \<Rightarrow> cpuq_threshold \<Rightarrow> bool" where
  "BVIEW_BST_E_CPU_THRESHOLD_CHECK pf p = over_limit (BVIEW_BST_E_CPU_UCMC_THRES_DEFAULT pf) (cpuBufferThreshold p)"

definition BVIEW_BST_E_MC_THRESHOLD_CHECK :: "platform \<Rightarrow> emcq_threshold \<Rightarrow> bool" where
  "BVIEW_BST_E_MC_THRESHOLD_CHECK pf p = over_limit (BVIEW_BST_MCAST_THRES_DEFAULT pf) (mcBufferThreshold p)"

definition BVIEW_BST_E_MC_QUEUE_THRESHOLD_CHECK :: "emcq_threshold \<Rightarrow> bool" where
  "BVIEW_BST_E_MC_QUEUE_THRESHOLD_CHECK p = over_limit (0x1FFFF * 208) (mcQueueThreshold p)"

definition BVIEW_BST_E_UC_GRP_THRESHOLD_CHECK :: "platform \<Rightarrow> eucqg_threshold \<Rightarrow> bool" where
  "BVIEW_BST_E_UC_GRP_THRESHOLD_CHECK pf p = over_limit (BVIEW_BST_UCAST_QUEUE_GROUP_DEFAULT pf) (eucqg_ucBufferThreshold p)"

definition BVIEW_BST_E_UC_THRESHOLD_CHECK :: "platform \<Rightarrow> eucq_threshold \<Rightarrow> bool" where
  "BVIEW_BST_E_UC_THRESHOLD_CHECK pf p = over_limit (BVIEW_BST_UCAST_THRES_DEFAULT pf) (eucq_ucBufferThreshold p)"

definition BVIEW_BST_EPSP_UC_THRESHOLD_CHECK :: "platform \<Rightarrow> epsp_threshold \<Rightarrow> bool" where
  "BVIEW_BST_EPSP_UC_THRESHOLD_CHECK pf p = over_limit (BVIEW_BST_E_P_SP_UC_THRES_DEFAULT pf) (epsp_ucShareThreshold p)"

definition BVIEW_BST_EPSP_UM_THRESHOLD_CHECK :: "platform \<Rightarrow> epsp_threshold \<Rightarrow> bool" where
  "BVIEW_BST_EPSP_UM_THRESHOLD_CHECK pf p = over_limit (BVIEW_BST_E_P_SP_UCMC_THRES_DEFAULT pf) (epsp_umShareThreshold p)"

definition BVIEW_BST_EPSP_MC_THRESHOLD_CHECK :: "epsp_threshold \<Rightarrow> bool" where
  "BVIEW_BST_EPSP_MC_THRESHOLD_CHECK p = over_limit (0x1FFFF * 208) (epsp_mcShareThreshold p)"

definition BVIEW_BST_IPSP_THRESHOLD_CHECK :: "platform \<Rightarrow> ipsp_threshold \<Rightarrow> bool" where
  "BVIEW_BST_IPSP_THRESHOLD_CHECK pf p = over_limit (BVIEW_BST_I_SP_UCMC_SHARED_THRES_DEFAULT pf) (ipsp_umShareThreshold p)"

definition BVIEW_BST_IPPG_SHRD_THRESHOLD_CHECK :: "platform \<Rightarrow> ippg_threshold \<Rightarrow> bool" where
  "BVIEW_BST_IPPG_SHRD_THRESHOLD_CHECK pf p = over_limit (BVIEW_BST_I_P_SP_UCMC_SHARED_THRES_DEFAULT pf) (ippg_umShareThreshold p)"

definition BVIEW_BST_IPPG_HDRM_THRESHOLD_CHECK :: "platform \<Rightarrow> ippg_threshold \<Rightarrow> bool" where
  "BVIEW_BST_IPPG_HDRM_THRESHOLD_CHECK pf p = over_limit (BVIEW_BST_I_P_PG_UCMC_HDRM_THRES_DEFAULT pf) (ippg_umHeadroomThreshold p)"

definition BVIEW_BST_DEVICE_THRESHOLD_CHECK :: "platform \<Rightarrow> device_threshold \<Rightarrow> bool" where
  "BVIEW_BST_DEVICE_THRESHOLD_CHECK pf p = over_limit (BVIEW_BST_DEVICE_THRES_DEFAULT pf) (dev_threshold p)"

definition BVIEW_BST_ISP_THRESHOLD_CHECK :: "isp_threshold \<Rightarrow> bool" where
  "BVIEW_BST_ISP_THRESHOLD_CHECK p = over_limit (0x1FFFF * 208) (isp_umShareThreshold p)"

definition BVIEW_BST_E_SP_UM_THRESHOLD_CHECK :: "platform \<Rightarrow> esp_threshold \<Rightarrow> bool" where
  "BVIEW_BST_E_SP_UM_THRESHOLD_CHECK pf p = over_limit (BVIEW_BST_E_SP_UCMC_THRES_DEFAULT pf) (esp_umShareThreshold p)"

definition BVIEW_BST_E_SP_MC_THRESHOLD_CHECK :: "platform \<Rightarrow> esp_threshold \<Rightarrow> bool" where
  "BVIEW_BST_E_SP_MC_THRESHOLD_CHECK pf p = over_limit (BVIEW_BST_E_SP_MC_THRES_DEFAULT pf) (esp_mcShareThreshold p)"

definition BVIEW_BST_E_RQE_THRESHOLD_CHECK :: "platform \<Rightarrow> rqeq_threshold \<Rightarrow> bool" where
  "BVIEW_BST_E_RQE_THRESHOLD_CHECK pf p = over_limit (BVIEW_BST_E_RQE_THRES_DEFAULT pf) (rqeBufferThreshold p)"

section \<open>Setting thresholds\<close>

text \<open>Each function refuses an unknown unit and a value over its limit, and then sets its counters one
  after the other until one fails.\<close>

definition set_one :: "platform \<Rightarrow> int \<Rightarrow> int \<Rightarrow> int \<Rightarrow> nat \<times> u64 \<Rightarrow> ovsdb \<Rightarrow> bool \<times> ovsdb" where
  "set_one pf asic port index c st =
     (case bst_ovsdb_threshold_set pf asic port index (fst c) (snd c) st of
        (rv, st') \<Rightarrow> (rv = BVIEW_STATUS_SUCCESS, st'))"

definition set_thresholds ::
  "platform \<Rightarrow> int \<Rightarrow> bool \<Rightarrow> int \<Rightarrow> int \<Rightarrow> (nat \<times> u64) list \<Rightarrow> (ovsdb, unit) sb_op" where
  "set_thresholds pf asic refused port index counters st =
     (if \<not> unit_known asic st \<or> refused then (BVIEW_STATUS_INVALID_PARAMETER, None, st)
      else case sweep (set_one pf asic port index) counters st of
             (ok, st') \<Rightarrow> (if ok then BVIEW_STATUS_SUCCESS else BVIEW_STATUS_FAILURE, None, st'))"

definition sbplugin_ovsdb_bst_device_threshold_set :: "platform \<Rightarrow> int \<Rightarrow> device_threshold \<Rightarrow> (ovsdb, unit) sb_op" where
  "sbplugin_ovsdb_bst_device_threshold_set pf asic thres =
     set_thresholds pf asic (BVIEW_BST_DEVICE_THRESHOLD_CHECK pf thres) 0 0
       [(SB_OVSDB_BST_STAT_ID_DEVICE, dev_threshold thres)]"

definition sbplugin_ovsdb_bst_ippg_threshold_set :: "platform \<Rightarrow> int \<Rightarrow> int \<Rightarrow> int \<Rightarrow> ippg_threshold \<Rightarrow> (ovsdb, unit) sb_op" where
  "sbplugin_ovsdb_bst_ippg_threshold_set pf asic port pg thres =
     set_thresholds pf asic
       (BVIEW_BST_IPPG_SHRD_THRESHOLD_CHECK pf thres \<or> BVIEW_BST_IPPG_HDRM_THRESHOLD_CHECK pf thres) port pg
       [(SB_OVSDB_BST_STAT_ID_PRI_GROUP_SHARED, ippg_umShareThreshold thres),
        (SB_OVSDB_BST_STAT_ID_PRI_GROUP_HEADROOM, ippg_umHeadroomThreshold thres)]"

definition sbplugin_ovsdb_bst_ipsp_threshold_set :: "platform \<Rightarrow> int \<Rightarrow> int \<Rightarrow> int \<Rightarrow> ipsp_threshold \<Rightarrow> (ovsdb, unit) sb_op" where
  "sbplugin_ovsdb_bst_ipsp_threshold_set pf asic port sp thres =
     set_thresholds pf asic (BVIEW_BST_IPSP_THRESHOLD_CHECK pf thres) port sp
       [(SB_OVSDB_BST_STAT_ID_PORT_POOL, ipsp_umShareThreshold thres)]"

definition sbplugin_ovsdb_bst_isp_threshold_set :: "platform \<Rightarrow> int \<Rightarrow> int \<Rightarrow> isp_threshold \<Rightarrow> (ovsdb, unit) sb_op" where
  "sbplugin_ovsdb_bst_isp_threshold_set pf asic sp thres =
     set_thresholds pf asic (BVIEW_BST_ISP_THRESHOLD_CHECK thres) 0 sp
       [(SB_OVSDB_BST_STAT_ID_ING_POOL, isp_umShareThreshold thres)]"

text \<open>The third limit is checked, but the counter it is for does not exist.\<close>

definition sbplugin_ovsdb_bst_epsp_threshold_set :: "platform \<Rightarrow> int \<Rightarrow> int \<Rightarrow> int \<Rightarrow> epsp_threshold \<Rightarrow> (ovsdb, unit) sb_op" where
  "sbplugin_ovsdb_bst_epsp_threshold_set pf asic port sp thres =
     set_thresholds pf asic
       (BVIEW_BST_EPSP_UC_THRESHOLD_CHECK pf thres \<or> BVIEW_BST_EPSP_UM_THRESHOLD_CHECK pf thres \<or>
        BVIEW_BST_EPSP_MC_THRESHOLD_CHECK thres) port sp
       [(SB_OVSDB_BST_STAT_ID_EGR_UCAST_PORT_SHARED, epsp_ucShareThreshold thres),
        (SB_OVSDB_BST_STAT_ID_EGR_PORT_SHARED, epsp_umShareThreshold thres)]"

definition sbplugin_ovsdb_bst_esp_threshold_set :: "platform \<Rightarrow> int \<Rightarrow> int \<Rightarrow> esp_threshold \<Rightarrow> (ovsdb, unit) sb_op" where
  "sbplugin_ovsdb_bst_esp_threshold_set pf asic sp thres =
     set_thresholds pf asic
       (BVIEW_BST_E_SP_UM_THRESHOLD_CHECK pf thres \<or> BVIEW_BST_E_SP_MC_THRESHOLD_CHECK pf thres) 0 sp
       [(SB_OVSDB_BST_STAT_ID_EGR_POOL, esp_umShareThreshold thres),
        (SB_OVSDB_BST_STAT_ID_EGR_MCAST_POOL, esp_mcShareThreshold thres)]"

definition sbplugin_ovsdb_bst_eucq_threshold_set :: "platform \<Rightarrow> int \<Rightarrow> int \<Rightarrow> eucq_threshold \<Rightarrow> (ovsdb, unit) sb_op" where
  "sbplugin_ovsdb_bst_eucq_threshold_set pf asic ucQueue thres =
     set_thresholds pf asic (BVIEW_BST_E_UC_THRESHOLD_CHECK pf thres) 0 ucQueue
       [(SB_OVSDB_BST_STAT_ID_UCAST, eucq_ucBufferThreshold thres)]"

definition sbplugin_ovsdb_bst_eucqg_threshold_set :: "platform \<Rightarrow> int \<Rightarrow> int \<Rightarrow> eucqg_threshold \<Rightarrow> (ovsdb, unit) sb_op" where
  "sbplugin_ovsdb_bst_eucqg_threshold_set pf asic ucQueueGrp thres =
     set_thresholds pf asic (BVIEW_BST_E_UC_GRP_THRESHOLD_CHECK pf thres) 0 ucQueueGrp
       [(SB_OVSDB_BST_STAT_ID_UCAST_GROUP, eucqg_ucBufferThreshold thres)]"

definition sbplugin_ovsdb_bst_emcq_threshold_set :: "platform \<Rightarrow> int \<Rightarrow> int \<Rightarrow> emcq_threshold \<Rightarrow> (ovsdb, unit) sb_op" where
  "sbplugin_ovsdb_bst_emcq_threshold_set pf asic mcQueue thres =
     set_thresholds pf asic
       (BVIEW_BST_E_MC_THRESHOLD_CHECK pf thres \<or> BVIEW_BST_E_MC_QUEUE_THRESHOLD_CHECK thres) 0 mcQueue
       [(SB_OVSDB_BST_STAT_ID_MCAST, mcBufferThreshold thres)]"

definition sbplugin_ovsdb_bst_cpuq_threshold_set :: "platform \<Rightarrow> int \<Rightarrow> int \<Rightarrow> cpuq_threshold \<Rightarrow> (ovsdb, unit) sb_op" where
  "sbplugin_ovsdb_bst_cpuq_threshold_set pf asic cpuQueue thres =
     set_thresholds pf asic (BVIEW_BST_E_CPU_THRESHOLD_CHECK pf thres) 0 cpuQueue
       [(SB_OVSDB_BST_STAT_ID_CPU_QUEUE, cpuBufferThreshold thres)]"

definition sbplugin_ovsdb_bst_rqeq_threshold_set :: "platform \<Rightarrow> int \<Rightarrow> int \<Rightarrow> rqeq_threshold \<Rightarrow> (ovsdb, unit) sb_op" where
  "sbplugin_ovsdb_bst_rqeq_threshold_set pf asic rqeQueue thres =
     set_thresholds pf asic (BVIEW_BST_E_RQE_THRESHOLD_CHECK pf thres) 0 rqeQueue
       [(SB_OVSDB_BST_STAT_ID_RQE_QUEUE, rqeBufferThreshold thres)]"

definition sbplugin_ovsdb_bst_clear_stats :: "int \<Rightarrow> (ovsdb, unit) sb_op" where
  "sbplugin_ovsdb_bst_clear_stats asic st =
     (if \<not> unit_known asic st then (BVIEW_STATUS_INVALID_PARAMETER, None, st)
      else case bst_ovsdb_clear_stats asic st of (rv, st1) \<Rightarrow> (rv, None, st1))"

definition sbplugin_ovsdb_bst_clear_thresholds :: "int \<Rightarrow> (ovsdb, unit) sb_op" where
  "sbplugin_ovsdb_bst_clear_thresholds asic st =
     (if \<not> unit_known asic st then (BVIEW_STATUS_INVALID_PARAMETER, None, st)
      else case bst_ovsdb_clear_thresholds asic st of (rv, st1) \<Rightarrow> (rv, None, st1))"

definition sbplugin_ovsdb_bst_register_trigger :: "int \<Rightarrow> nat \<Rightarrow> nat \<Rightarrow> (ovsdb, unit) sb_op" where
  "sbplugin_ovsdb_bst_register_trigger asic callback cookie st =
     (case bst_ovsdb_bst_register_trigger asic callback cookie st of
        (rv, st1) \<Rightarrow> (if rv \<noteq> BVIEW_STATUS_SUCCESS then BVIEW_STATUS_FAILURE else BVIEW_STATUS_SUCCESS, None, st1))"

section \<open>Reading thresholds\<close>

definition read_threshold ::
  "platform \<Rightarrow> int \<Rightarrow> ovsdb \<Rightarrow> nat \<Rightarrow> nat \<Rightarrow> nat \<Rightarrow> (u64 \<Rightarrow> asic_snapshot \<Rightarrow> asic_snapshot) \<Rightarrow>
   asic_snapshot \<Rightarrow> bool \<times> asic_snapshot" where
  "read_threshold pf asic st port index bid put d =
     (case bst_ovsdb_threshold_get pf asic (int port) (int index) bid st of
        Inl _ \<Rightarrow> (False, d)
      | Inr v \<Rightarrow> (True, put v d))"

text \<open>The counters of one port.\<close>

definition port_thresholds :: "platform \<Rightarrow> int \<Rightarrow> ovsdb \<Rightarrow> nat \<Rightarrow> asic_snapshot \<Rightarrow> bool \<times> asic_snapshot" where
  "port_thresholds pf asic st port =
     and_then
       (sweep (\<lambda>index. and_then
           (read_threshold pf asic st port index SB_OVSDB_BST_STAT_ID_PRI_GROUP_SHARED
              (\<lambda>v s. s\<lparr>snap_iPortPg := at_cell (port - 1) (at_cell index (\<lambda>c. c\<lparr>ippg_umShareBufferCount := v\<rparr>)) (snap_iPortPg s)\<rparr>))
           (read_threshold pf asic st port index SB_OVSDB_BST_STAT_ID_PRI_GROUP_HEADROOM
              (\<lambda>v s. s\<lparr>snap_iPortPg := at_cell (port - 1) (at_cell index (\<lambda>c. c\<lparr>ippg_umHeadroomBufferCount := v\<rparr>)) (snap_iPortPg s)\<rparr>)))
         (pg_iter asic st))
     (and_then
       (sweep (\<lambda>index.
           read_threshold pf asic st port index SB_OVSDB_BST_STAT_ID_PORT_POOL
              (\<lambda>v s. s\<lparr>snap_iPortSp := at_cell (port - 1) (at_cell index (\<lambda>c. c\<lparr>ipsp_umShareBufferCount := v\<rparr>)) (snap_iPortSp s)\<rparr>))
         (sp_iter asic st))
       (sweep (\<lambda>index. and_then
           (read_threshold pf asic st port index SB_OVSDB_BST_STAT_ID_EGR_UCAST_PORT_SHARED
              (\<lambda>v s. s\<lparr>snap_ePortSp := at_cell (port - 1) (at_cell index (\<lambda>c. c\<lparr>epsp_ucShareBufferCount := v\<rparr>)) (snap_ePortSp s)\<rparr>))
           (read_threshold pf asic st port index SB_OVSDB_BST_STAT_ID_EGR_PORT_SHARED
              (\<lambda>v s. s\<lparr>snap_ePortSp := at_cell (port - 1) (at_cell index (\<lambda>c. c\<lparr>epsp_umShareBufferCount := v\<rparr>)) (snap_ePortSp s)\<rparr>)))
         (sp_iter asic st)))"

text \<open>The counters that belong to no port; port is the one after the last, which their rows do not
  use.\<close>

definition queue_thresholds :: "platform \<Rightarrow> int \<Rightarrow> ovsdb \<Rightarrow> nat \<Rightarrow> asic_snapshot \<Rightarrow> bool \<times> asic_snapshot" where
  "queue_thresholds pf asic st port =
     and_then
       (sweep (\<lambda>index. read_threshold pf asic st port index SB_OVSDB_BST_STAT_ID_MCAST
              (\<lambda>v s. s\<lparr>snap_eMcQ := at_cell index (\<lambda>c. c\<lparr>mcBufferCount := v, emcq_port := 0\<rparr>) (snap_eMcQ s)\<rparr>))
         (mc_queue_iter asic st))
       (sweep (\<lambda>index. read_threshold pf asic st port index SB_OVSDB_BST_STAT_ID_UCAST
              (\<lambda>v s. s\<lparr>snap_eUcQ := at_cell index (\<lambda>c. c\<lparr>eucq_ucBufferCount := v, eucq_port := 0\<rparr>) (snap_eUcQ s)\<rparr>))
         (uc_queue_iter asic st))"

definition pool_thresholds :: "platform \<Rightarrow> int \<Rightarrow> ovsdb \<Rightarrow> asic_snapshot \<Rightarrow> bool \<times> asic_snapshot" where
  "pool_thresholds pf asic st =
     and_then
       (sweep (\<lambda>index. and_then
           (read_threshold pf asic st 0 index SB_OVSDB_BST_STAT_ID_EGR_POOL
              (\<lambda>v s. s\<lparr>snap_eSp := at_cell index (\<lambda>c. c\<lparr>esp_umShareBufferCount := v\<rparr>) (snap_eSp s)\<rparr>))
           (read_threshold pf asic st 0 index SB_OVSDB_BST_STAT_ID_EGR_MCAST_POOL
              (\<lambda>v s. s\<lparr>snap_eSp := at_cell index (\<lambda>c. c\<lparr>esp_mcShareBufferCount := v\<rparr>) (snap_eSp s)\<rparr>)))
         (sp_iter asic st))
       (sweep (\<lambda>index. read_threshold pf asic st 0 index SB_OVSDB_BST_STAT_ID_ING_POOL
              (\<lambda>v s. s\<lparr>snap_iSp := at_cell index (\<lambda>c. c\<lparr>isp_umShareBufferCount := v\<rparr>) (snap_iSp s)\<rparr>))
         (sp_iter asic st))"

definition cpu_rqe_group_thresholds :: "platform \<Rightarrow> int \<Rightarrow> ovsdb \<Rightarrow> nat \<Rightarrow> asic_snapshot \<Rightarrow> bool \<times> asic_snapshot" where
  "cpu_rqe_group_thresholds pf asic st port =
     and_then
       (sweep (\<lambda>index. read_threshold pf asic st port index SB_OVSDB_BST_STAT_ID_CPU_QUEUE
              (\<lambda>v s. s\<lparr>snap_cpqQ := at_cell index (\<lambda>c. c\<lparr>cpuBufferCount := v\<rparr>) (snap_cpqQ s)\<rparr>))
         (cpu_queue_iter asic st))
     (and_then
       (sweep (\<lambda>index. read_threshold pf asic st 0 index SB_OVSDB_BST_STAT_ID_RQE_QUEUE
              (\<lambda>v s. s\<lparr>snap_rqeQ := at_cell index (\<lambda>c. c\<lparr>rqeBufferCount := v\<rparr>) (snap_rqeQ s)\<rparr>))
         (rqe_queue_iter asic st))
       (sweep (\<lambda>index. read_threshold pf asic st 0 index SB_OVSDB_BST_STAT_ID_UCAST_GROUP
              (\<lambda>v s. s\<lparr>snap_eUcQg := at_cell index (\<lambda>c. c\<lparr>eucqg_ucBufferCount := v\<rparr>) (snap_eUcQg s)\<rparr>))
         (uc_queue_grp_iter asic st)))"

definition sbplugin_ovsdb_bst_threshold_get ::
  "platform \<Rightarrow> int \<Rightarrow> asic_snapshot \<Rightarrow> (ovsdb, asic_snapshot \<times> int) sb_op" where
  "sbplugin_ovsdb_bst_threshold_get pf asic data st =
     (let ports = port_iter asic st; port = Suc (length ports) in
      data_result asic st
        (and_then
           (read_threshold pf asic st 0 0 SB_OVSDB_BST_STAT_ID_DEVICE
              (\<lambda>v s. s\<lparr>snap_device := \<lparr>bufferCount = v\<rparr>\<rparr>))
         (and_then (sweep (port_thresholds pf asic st) ports)
         (and_then (queue_thresholds pf asic st port)
         (and_then (pool_thresholds pf asic st)
                   (cpu_rqe_group_thresholds pf asic st port)))) data))"

section \<open>The feature\<close>

definition BVIEW_BST_SUPPORT_MASK :: nat where
  "BVIEW_BST_SUPPORT_MASK = BVIEW_ASIC_TYPE_TD2 OR BVIEW_ASIC_TYPE_TH"

text \<open>The structure the agent passes to a reading function is zeroed before the call.\<close>

definition ovsdb_bst_feature :: "platform \<Rightarrow> ovsdb bst_feature" where
  "ovsdb_bst_feature pf = \<lparr>
     bst_supportedAsicMask = BVIEW_BST_SUPPORT_MASK,
     bst_config_set_cb = Some sbplugin_ovsdb_bst_config_set,
     bst_config_get_cb = Some (\<lambda>asic. sbplugin_ovsdb_bst_config_get asic zero_bst_config),
     bst_snapshot_get_cb = Some (\<lambda>asic. sbplugin_ovsdb_bst_snapshot_get pf asic zero_snapshot),
     bst_device_data_get_cb = Some (\<lambda>asic. sbplugin_ovsdb_bst_device_data_get asic (snap_device zero_snapshot)),
     bst_ippg_data_get_cb = Some (\<lambda>asic. sbplugin_ovsdb_bst_ippg_data_get pf asic (snap_iPortPg zero_snapshot)),
     bst_ipsp_data_get_cb = Some (\<lambda>asic. sbplugin_ovsdb_bst_ipsp_data_get pf asic (snap_iPortSp zero_snapshot)),
     bst_isp_data_get_cb = Some (\<lambda>asic. sbplugin_ovsdb_bst_isp_data_get pf asic (snap_iSp zero_snapshot)),
     bst_epsp_data_get_cb = Some (\<lambda>asic. sbplugin_ovsdb_bst_epsp_data_get pf asic (snap_ePortSp zero_snapshot)),
     bst_esp_data_get_cb = Some (\<lambda>asic. sbplugin_ovsdb_bst_esp_data_get pf asic (snap_eSp zero_snapshot)),
     bst_eucq_data_get_cb = Some (\<lambda>asic. sbplugin_ovsdb_bst_eucq_data_get pf asic (snap_eUcQ zero_snapshot)),
     bst_eucqg_data_get_cb = Some (\<lambda>asic. sbplugin_ovsdb_bst_eucqg_data_get pf asic (snap_eUcQg zero_snapshot)),
     bst_emcq_data_get_cb = Some (\<lambda>asic. sbplugin_ovsdb_bst_emcq_data_get pf asic (snap_eMcQ zero_snapshot)),
     bst_cpuq_data_get_cb = Some (\<lambda>asic. sbplugin_ovsdb_bst_cpuq_data_get pf asic (snap_cpqQ zero_snapshot)),
     bst_rqeq_data_get_cb = Some (\<lambda>asic. sbplugin_ovsdb_bst_rqeq_data_get pf asic (snap_rqeQ zero_snapshot)),
     bst_device_threshold_set_cb = Some (sbplugin_ovsdb_bst_device_threshold_set pf),
     bst_ippg_threshold_set_cb = Some (sbplugin_ovsdb_bst_ippg_threshold_set pf),
     bst_ipsp_threshold_set_cb = Some (sbplugin_ovsdb_bst_ipsp_threshold_set pf),
     bst_isp_threshold_set_cb = Some (sbplugin_ovsdb_bst_isp_threshold_set pf),
     bst_epsp_threshold_set_cb = Some (sbplugin_ovsdb_bst_epsp_threshold_set pf),
     bst_esp_threshold_set_cb = Some (sbplugin_ovsdb_bst_esp_threshold_set pf),
     bst_eucq_threshold_set_cb = Some (sbplugin_ovsdb_bst_eucq_threshold_set pf),
     bst_eucqg_threshold_set_cb = Some (sbplugin_ovsdb_bst_eucqg_threshold_set pf),
     bst_emcq_threshold_set_cb = Some (sbplugin_ovsdb_bst_emcq_threshold_set pf),
     bst_cpuq_threshold_set_cb = Some (sbplugin_ovsdb_bst_cpuq_threshold_set pf),
     bst_rqeq_threshold_set_cb = Some (sbplugin_ovsdb_bst_rqeq_threshold_set pf),
     bst_threshold_get_cb = Some (\<lambda>asic. sbplugin_ovsdb_bst_threshold_get pf asic zero_snapshot),
     bst_clear_stats_cb = Some sbplugin_ovsdb_bst_clear_stats,
     bst_clear_thresholds_cb = Some sbplugin_ovsdb_bst_clear_thresholds,
     bst_register_trigger_cb = Some sbplugin_ovsdb_bst_register_trigger\<rparr>"

definition sbplugin_ovsdb_bst_init ::
  "platform \<Rightarrow> os_grants \<Rightarrow> ovs_msg list \<Rightarrow> ovsdb \<Rightarrow> (ovsdb bst_feature result \<times> ovsdb) option" where
  "sbplugin_ovsdb_bst_init pf os msgs st = do {
     (rv, st1) \<leftarrow> sbplugin_ovsdb_bst_infra_init pf os msgs st;
     Some (if rv \<noteq> BVIEW_STATUS_SUCCESS then Inl rv else Inr (ovsdb_bst_feature pf), st1)
   }"

section \<open>Registration\<close>

text \<open>The path of the socket is not modelled: ov_opens says whether the session opens.\<close>

definition sbplugin_common_init ::
  "ovsdb_env \<Rightarrow> os_grants \<Rightarrow> ovs_reply list \<Rightarrow> ovs_reply \<Rightarrow> ovs_msg list \<Rightarrow>
   ovsdb plugin_entry list \<Rightarrow> ovsdb \<Rightarrow> (BVIEW_STATUS \<times> ovsdb plugin_entry list \<times> ovsdb) c_run" where
  "sbplugin_common_init env os polls info msgs ps st =
     run_bind (sbplugin_ovsdb_system_init env polls info st) (\<lambda>(sys, st1). case sys of
         Inl rv \<Rightarrow> DONE (rv, ps, st1)
       | Inr s \<Rightarrow> run_bind (run_of (sbplugin_ovsdb_bst_init (env_platform env) os msgs st1)) (\<lambda>(bst, st2). case bst of
             Inl rv \<Rightarrow> DONE (rv, ps, st2)
           | Inr b \<Rightarrow>
               (let s1 = s\<lparr>featureMask := featureMask s OR int BVIEW_FEATURE_BST\<rparr>;
                    p = \<lparr>numSupportedFeatures = 2,
                         featureList = [Some (SB_SYSTEM s1), Some (SB_BST b)] @ replicate (BVIEW_SBPLUGIN_MAX_FEATURES - 2) None\<rparr>
                in case sb_plugin_register p ps of (rv, ps1) \<Rightarrow> DONE (rv, ps1, st2))))"

end
