(* ===== verification/Ovs_Laws.thy ===== *)
theory Ovs_Laws
  imports Ovs_Init
begin

text \<open>Facts about the OVSDB plugin: the geometry of the table of counters, names of counters and what is read
  back from them, the cache and its invariant.\<close>

section \<open>Lengths of printed numbers\<close>

lemma length_decimal: "n < 10 ^ k \<Longrightarrow> 0 < k \<Longrightarrow> length (decimal n) \<le> k"
proof (induction n arbitrary: k rule: decimal.induct)
  case (1 n)
  show ?case
  proof (cases "n < 10")
    case True
    then show ?thesis using 1 by (subst decimal.simps) simp
  next
    case False
    obtain j where k: "k = Suc j" using 1 by (cases k) auto
    have "n div 10 < 10 ^ j" using 1(2) k by (simp add: less_mult_imp_div_less mult.commute)
    moreover have "0 < j" using False 1(2) k by (cases j) auto
    ultimately have "length (decimal (n div 10)) \<le> j" using 1(1) False by blast
    then show ?thesis using False k by (subst decimal.simps) simp
  qed
qed

definition c_int :: "int \<Rightarrow> bool" where
  "c_int i = (- (2 ^ 31) \<le> i \<and> i < 2 ^ 31)"

lemma length_fmt_d:
  assumes "c_int i"
  shows "length (fmt_d i) \<le> 11"
proof -
  have "\<bar>i\<bar> < 10 ^ 10" using assms by (simp add: c_int_def abs_less_iff)
  then have "nat \<bar>i\<bar> < 10 ^ 10" by (simp add: nat_less_iff)
  then have "length (decimal (nat \<bar>i\<bar>)) \<le> 10" by (rule length_decimal) simp
  then show ?thesis by (cases "i < 0") (simp_all add: fmt_d_def)
qed

section \<open>The table\<close>

lemma length_bid_tab: "length (bid_tab_params pf) = 15"
  by (simp add: bid_tab_params_def)

lemma bid_row_in: "bid < SB_OVSDB_BST_STAT_ID_MAX_COUNT \<Longrightarrow> bid_row pf bid \<in> set (bid_tab_params pf)"
  by (simp add: length_bid_tab SB_OVSDB_BST_STAT_ID_MAX_COUNT_def)

text \<open>What the rest needs to know of every row: its names are tokens, its size is that of its
  array, a row with two indices has one.\<close>

definition bid_params_ok :: "bid_params \<Rightarrow> bool" where
  "bid_params_ok b = (bid_realm_name b \<noteq> [] \<and> CHR ''/'' \<notin> set (bid_realm_name b) \<and>
     bid_counter_name b \<noteq> [] \<and> CHR ''/'' \<notin> set (bid_counter_name b) \<and>
     length (bid_realm_name b) \<le> 40 \<and> length (bid_counter_name b) \<le> 40 \<and>
     bid_size b = stat_size (bid_offset b) \<and> (is_double_indexed b \<longrightarrow> is_indexed b) \<and>
     0 < num_of_columns b \<and> 0 < bid_size b)"

lemma bid_tab_ok: "\<forall>b\<in>set (bid_tab_params pf). bid_params_ok b"
  by (simp add: bid_tab_params_def bid_params_ok_def asic_max_defs)

lemma bid_row_ok: "bid < SB_OVSDB_BST_STAT_ID_MAX_COUNT \<Longrightarrow> bid_params_ok (bid_row pf bid)"
  using bid_tab_ok bid_row_in by blast

lemma bid_names_distinct: "distinct (map (\<lambda>b. (bid_realm_name b, bid_counter_name b)) (bid_tab_params pf))"
  by (simp add: bid_tab_params_def)

lemma bid_search_nth:
  "distinct (map (\<lambda>b. (bid_realm_name b, bid_counter_name b)) bs) \<Longrightarrow> i < length bs \<Longrightarrow>
   bid_search bs (bid_realm_name (bs ! i)) (bid_counter_name (bs ! i)) = i"
proof (induction bs arbitrary: i)
  case (Cons b bs)
  show ?case
  proof (cases i)
    case (Suc j)
    then have "bs ! j \<in> set bs" using Cons.prems by simp
    then have "\<not> (bid_realm_name b = bid_realm_name (bs ! j) \<and> bid_counter_name b = bid_counter_name (bs ! j))"
      using Cons.prems(1) by (auto simp: image_iff)
    then show ?thesis using Suc Cons by simp
  qed simp
qed simp

lemma bid_search_row:
  "bid < SB_OVSDB_BST_STAT_ID_MAX_COUNT \<Longrightarrow>
   bid_search (bid_tab_params pf) (bid_realm_name (bid_row pf bid)) (bid_counter_name (bid_row pf bid)) = bid"
  using bid_search_nth [OF bid_names_distinct] by (simp add: length_bid_tab SB_OVSDB_BST_STAT_ID_MAX_COUNT_def)

section \<open>Names\<close>

lemma strtok_four:
  assumes "a \<noteq> []" "d \<notin> set a" "b \<noteq> []" "d \<notin> set b" "e \<noteq> []" "d \<notin> set e" "f \<noteq> []" "d \<notin> set f"
  shows "strtok_all d (a @ d # b @ d # e @ d # f) = [a, b, e, f]"
  using assms by (simp add: strtok_all_piece)

text \<open>The two last tokens of a name.\<close>

definition key_tokens :: "bid_params \<Rightarrow> int \<Rightarrow> int \<Rightarrow> string \<times> string" where
  "key_tokens b port index =
     (if is_double_indexed b then (fmt_d port, fmt_d index)
      else if is_indexed b then (fmt_d index, ''NONE'') else (''NONE'', ''NONE''))"

lemma key_tokens_ok:
  "(fst (key_tokens b port index) \<noteq> [] \<and> CHR ''/'' \<notin> set (fst (key_tokens b port index))) \<and>
   (snd (key_tokens b port index) \<noteq> [] \<and> CHR ''/'' \<notin> set (snd (key_tokens b port index)))"
  by (simp add: key_tokens_def fmt_d_no_slash)

lemma key_text:
  assumes "bid < SB_OVSDB_BST_STAT_ID_MAX_COUNT" "c_int port" "c_int index"
  shows "bst_bid_port_index_to_ovsdb_key pf bid port index 1024 =
    Inr (bid_realm_name (bid_row pf bid) @ ''/'' @ bid_counter_name (bid_row pf bid) @ ''/'' @
         fst (key_tokens (bid_row pf bid) port index) @ ''/'' @ snd (key_tokens (bid_row pf bid) port index))"
proof -
  have ok: "bid_params_ok (bid_row pf bid)" by (rule bid_row_ok [OF assms(1)])
  have "length (fmt_d port) \<le> 11" "length (fmt_d index) \<le> 11" using assms length_fmt_d by blast+
  then show ?thesis using ok assms(1)
    by (auto simp: bst_bid_port_index_to_ovsdb_key_def key_tokens_def bid_params_ok_def Let_def)
qed

lemma length_key:
  assumes "bst_bid_port_index_to_ovsdb_key pf bid port index n = Inr key"
  shows "length key < n"
  using assms by (auto simp: bst_bid_port_index_to_ovsdb_key_def Let_def split: if_splits)

text \<open>What is read back from a name is the counter that was named.\<close>

lemma atoi_NONE: "atoi ''NONE'' = 0"
  by (rule atoi_no_number) (simp_all add: is_space_def is_digit_def)

lemma key_row_info:
  assumes "bid < SB_OVSDB_BST_STAT_ID_MAX_COUNT" "c_int port" "c_int index"
    "bst_bid_port_index_to_ovsdb_key pf bid port index 1024 = Inr key"
  shows "bst_ovsdb_row_info_get pf key p0 =
    Some (let b = bid_row pf bid;
              p = (if is_double_indexed b then port else p0);
              q = (if is_double_indexed b then index else if is_indexed b then index else 0)
          in res_bind (bst_ovsdb_cache_row_get pf bid p q) (\<lambda>_. Inr (bid, p, q)))"
proof -
  let ?b = "bid_row pf bid"
  have ok: "bid_params_ok ?b" by (rule bid_row_ok [OF assms(1)])
  have len: "length key < 1024" by (rule length_key [OF assms(4)])
  have key: "key = bid_realm_name ?b @ CHR ''/'' # bid_counter_name ?b @ CHR ''/'' #
      fst (key_tokens ?b port index) @ CHR ''/'' # snd (key_tokens ?b port index)"
    using key_text [OF assms(1-3), of pf] assms(4) by simp
  have tok: "strtok_all CHR ''/'' key = [bid_realm_name ?b, bid_counter_name ?b,
      fst (key_tokens ?b port index), snd (key_tokens ?b port index)]"
    unfolding key using ok key_tokens_ok [of ?b port index]
    by (intro strtok_four) (simp_all add: bid_params_ok_def)
  have find: "bid_search (bid_tab_params pf) (bid_realm_name ?b) (bid_counter_name ?b) = bid"
    by (rule bid_search_row [OF assms(1)])
  have bid: "bid \<noteq> length (bid_tab_params pf)"
    using assms(1) by (simp add: length_bid_tab SB_OVSDB_BST_STAT_ID_MAX_COUNT_def)
  show ?thesis using len tok find bid ok
    by (auto simp: bst_ovsdb_row_info_get_def bst_ovsdb_cache_row_get_def key_tokens_def bid_params_ok_def
        Let_def atoi_fmt_d atoi_NONE)
qed

lemma row_get_resolve:
  assumes "bid < SB_OVSDB_BST_STAT_ID_MAX_COUNT"
  shows "bst_ovsdb_cache_row_get pf bid port (index + 1) =
    res_bind (bst_ovsdb_resolve_index pf bid port index) (\<lambda>i. Inr (bid_offset (bid_row pf bid), i))"
  using assms by (simp add: bst_ovsdb_cache_row_get_def bst_ovsdb_resolve_index_def Let_def)

end
