(* ===== verification/Ovs_Monitor_Laws.thy ===== *)
theory Ovs_Monitor_Laws
  imports Ovs_Laws
begin

text \<open>What the updates of the database can do to the state of the plugin. Relations between the state before
  and after that hold for the elementary changes hold for any sequence of messages: the locale
  monitor_relation proves that once, and its interpretations are the invariants of the plugin.\<close>

section \<open>The elementary changes\<close>

lemma bufmon_update_cases:
  assumes "bufmon_update pf old new s = Some s'"
  obtains (same) "s' = s"
    | (row) asic bid port queue vals e c where "bufmon_row pf asic bid port queue vals e c s = Some s'"
proof -
  consider "s' = s" | asic found cv tt en stat where "(case found of Inl (z :: BVIEW_STATUS) \<Rightarrow> Some s
      | Inr (bid, port, queue) \<Rightarrow> bufmon_row pf asic bid port queue (bufmon_values cv tt)
          (en = Some JSON_TRUE) (stat = Some (JSON_STRING ''triggered'')) s) = Some s'"
    using assms by (auto simp: bufmon_update_def bind_eq_Some_conv split: if_split_asm)
  then show ?thesis
  proof cases
    case (2 asic found cv tt en stat)
    show ?thesis
    proof (cases found)
      case (Inr r)
      obtain bid port queue where "r = (bid, port, queue)" by (cases r)
      then show ?thesis using 2 Inr by (intro that(2)) simp
    qed (use 2 that(1) in simp)
  qed (rule that(1))
qed

lemma config_map_cases:
  assumes "config_map es st = Some (rv, st')"
  obtains c updated where "rv = BVIEW_STATUS_SUCCESS"
    "config_entries es (config_data st, False) = Some (c, updated)"
    "st' = (if updated then raise_event (OVS_NOTIFY 0 BVIEW_BST_CONFIG_FEATURE_UPDATE) (st\<lparr>config_data := c\<rparr>)
            else st\<lparr>config_data := c\<rparr>)"
  using assms by (auto simp: config_map_def bind_eq_Some_conv Let_def)

lemma config_update_cases:
  assumes "bst_system_bufmon_config_update j st = Some (rv, st')"
  obtains (same) "st' = st" | (entries) es where "config_map es st = Some (rv, st')"
proof -
  obtain m a xs where j: "j = JSON_ARRAY (m # a # xs)"
  proof (cases j)
    case (JSON_ARRAY es)
    then show thesis using assms that
      by (cases es; cases "tl es"; simp add: bst_system_bufmon_config_update_def)
  qed (use assms in \<open>simp_all add: bst_system_bufmon_config_update_def\<close>)
  then obtain t where "json_text m = Some t"
    using assms by (auto simp: bst_system_bufmon_config_update_def bind_eq_Some_conv)
  then show ?thesis using assms that unfolding j
    by (simp add: bst_system_bufmon_config_update_def split: if_split_asm option.split_asm)
qed

lemma system_update_cases:
  assumes "system_update n old new s = Some s'"
  obtains (same) "s' = s"
    | (uuid) "s' = (fst s, (snd s)\<lparr>system_table_uuid := n\<rparr>)"
    | (config) c rv st2 where
        "bst_system_bufmon_config_update c ((snd s)\<lparr>system_table_uuid := n\<rparr>) = Some (rv, st2)"
        "s' = (fst s, st2\<lparr>sys_cache_init_done := True\<rparr>)"
proof -
  obtain m st where s: "s = (m, st)" by (cases s)
  show ?thesis
  proof (cases "length n = OVSDB_UUID_SIZE")
    case True
    then obtain config where "OVSDB_GET_COLUMN old new ''bufmon_config'' = Some config"
      and c: "(case config of None \<Rightarrow> Some (m, st\<lparr>system_table_uuid := n\<rparr>)
        | Some c \<Rightarrow> bst_system_bufmon_config_update c (st\<lparr>system_table_uuid := n\<rparr>) \<bind>
            (\<lambda>(_, st2). Some (m, st2\<lparr>sys_cache_init_done := True\<rparr>))) = Some s'"
      using assms by (auto simp: s system_update_def bind_eq_Some_conv Let_def)
    show ?thesis
    proof (cases config)
      case None
      then show ?thesis using c that(2) by (simp add: s)
    next
      case (Some d)
      then show ?thesis using c that(3) by (auto simp: s bind_eq_Some_conv)
    qed
  next
    case False
    then show ?thesis using assms that(1) by (simp add: s system_update_def)
  qed
qed

section \<open>Relations over the updates\<close>

locale monitor_relation =
  fixes R :: "ovsdb \<Rightarrow> ovsdb \<Rightarrow> bool"
  assumes R_refl: "R st st"
    and R_trans: "R x y \<Longrightarrow> R y z \<Longrightarrow> R x z"
    and R_write: "write_cell asic f i g st = Some st' \<Longrightarrow> R st st'"
    and R_raise: "R st (raise_event e st)"
    and R_uuid: "R st (st\<lparr>system_table_uuid := u\<rparr>)"
    and R_done: "R st (st\<lparr>sys_cache_init_done := True\<rparr>)"
    and R_sem: "R st (st\<lparr>monitor_init_done_sem := n\<rparr>)"
    and R_mask: "R st (st\<lparr>config_data := (config_data st)\<lparr>
        trackingMask := trackingMask (config_data st) OR m\<rparr>\<rparr>)"
    and R_config: "config_entries es (config_data st, False) = Some (c, updated) \<Longrightarrow> R st (st\<lparr>config_data := c\<rparr>)"
begin

lemma R_row_update:
  assumes "bst_ovsdb_row_update pf asic bid port queue d row st = Some (rv, st')"
  shows "R st st'"
  using assms R_refl
  by (auto simp: bst_ovsdb_row_update_def bind_eq_Some_conv split: sum.splits prod.splits dest: R_write)

lemma R_trigger: "R st (snd (bst_ovsdb_trigger_callback pf asic bid port queue st))"
  by (simp add: bst_ovsdb_trigger_callback_def Let_def R_refl R_raise)

lemma R_track: "R (snd s) (snd (track_row e r s))"
  by (cases s) (simp add: track_row_def track_realm_def R_refl R_mask split: sum.splits)

lemma R_bufmon_row:
  assumes "bufmon_row pf asic bid port queue vals e c s = Some s'"
  shows "R (snd s) (snd s')"
proof -
  let ?s1 = "track_row e (bst_ovsdb_realm_id_get (bid_realm_name (bid_row pf bid))) s"
  obtain rv st1 where u: "bst_ovsdb_row_update pf asic bid port queue (snd vals) (fst vals) (snd ?s1) = Some (rv, st1)"
    and s': "s' = (fst ?s1, if c then snd (bst_ovsdb_trigger_callback pf asic bid port (queue - 1) st1) else st1)"
    using assms by (auto simp: bufmon_row_def bind_eq_Some_conv Let_def)
  have "R (snd s) st1" by (rule R_trans [OF R_track R_row_update [OF u]])
  then show ?thesis using s' R_trans [OF _ R_trigger] by simp
qed

lemma R_bufmon:
  assumes "bufmon_update pf old new s = Some s'"
  shows "R (snd s) (snd s')"
  using assms
proof (cases rule: bufmon_update_cases)
  case same
  then show ?thesis by (simp add: R_refl)
next
  case (row asic bid port queue vals e c)
  then show ?thesis by (rule R_bufmon_row)
qed

lemma R_config_update:
  assumes "bst_system_bufmon_config_update j st = Some (rv, st')"
  shows "R st st'"
  using assms
proof (cases rule: config_update_cases)
  case same
  then show ?thesis by (simp add: R_refl)
next
  case (entries es)
  then show ?thesis using R_trans [OF R_config R_raise] R_config by (auto elim!: config_map_cases)
qed

lemma R_system:
  assumes "system_update n old new s = Some s'"
  shows "R (snd s) (snd s')"
  using assms
proof (cases rule: system_update_cases)
  case (config c rv st2)
  then show ?thesis using R_trans [OF R_uuid R_trans [OF R_config_update R_done]] by simp
qed (simp_all add: R_refl R_uuid)

lemma R_row:
  assumes "row_step pf tn node s = Some s'"
  shows "R (snd s) (snd s')"
  using assms R_refl R_bufmon R_system
  by (auto simp: row_step_def Let_def split: ovs_json.splits if_splits)

lemma R_rows:
  assumes "table_rows pf tn rows s = Some s'"
  shows "R (snd s) (snd s')"
  using assms
proof (induction rows arbitrary: s)
  case (Cons r rs)
  then obtain s1 where "row_step pf tn r s = Some s1" "table_rows pf tn rs s1 = Some s'"
    by (auto simp: bind_eq_Some_conv)
  then show ?case using Cons.IH R_trans [OF R_row] by blast
qed (simp add: R_refl)

lemma R_table:
  assumes "bst_ovsdb_cache_update_table pf tn u st = Some (rv, st')"
  shows "R st st'"
proof (cases u)
  case (JSON_OBJECT rows)
  then obtain m st1 where r: "table_rows pf tn rows (0, st) = Some (m, st1)"
    and st': "st' = (let st2 = (if trackingMask (config_data st) \<noteq> m
                 then raise_event (OVS_NOTIFY 0 BVIEW_BST_CONFIG_TRACK_UPDATE) st1 else st1)
               in if system_table_uuid st2 \<noteq> [] \<and> sys_cache_init_done st2
                  then st2\<lparr>monitor_init_done_sem := monitor_init_done_sem st2 + 1\<rparr> else st2)"
    using assms by (auto simp: bst_ovsdb_cache_update_table_def bind_eq_Some_conv Let_def)
  have "R st st1" using R_rows [OF r] by simp
  then show ?thesis unfolding st' Let_def using R_trans [OF _ R_sem] R_trans [OF _ R_raise] by auto
qed (use assms in \<open>auto simp: bst_ovsdb_cache_update_table_def R_refl\<close>)

lemma R_tables:
  assumes "update_tables pf ns ts st = Some st'"
  shows "R st st'"
  using assms
proof (induction ns arbitrary: st)
  case (Cons n ns)
  show ?case
  proof (cases "map_of ts n")
    case None
    then show ?thesis using Cons by simp
  next
    case (Some u)
    then obtain rv st1 where "bst_ovsdb_cache_update_table pf n u st = Some (rv, st1)" "update_tables pf ns ts st1 = Some st'"
      using Cons.prems by (auto simp: bind_eq_Some_conv)
    then show ?thesis using Cons.IH R_trans [OF R_table] by blast
  qed
qed (simp add: R_refl)

lemma R_update:
  assumes "bst_ovsdb_cache_update pf u st = Some (rv, st')"
  shows "R st st'"
  using assms R_refl R_tables
  by (auto simp: bst_ovsdb_cache_update_def bind_eq_Some_conv split: ovs_json.splits)

lemma R_message:
  assumes "monitor_message pf m st = Some st'"
  shows "R st st'"
  using assms R_refl R_update
  by (auto simp: monitor_message_def split: ovs_msg.splits ovs_json.splits list.splits if_splits)

lemma R_messages:
  assumes "monitor_messages pf ms st = Some st'"
  shows "R st st'"
  using assms
proof (induction ms arbitrary: st)
  case (Cons m ms)
  then obtain st1 where "monitor_message pf m st = Some st1" "monitor_messages pf ms st1 = Some st'"
    by (auto simp: bind_eq_Some_conv)
  then show ?case using Cons.IH R_trans [OF R_message] by blast
qed (simp add: R_refl)

end

section \<open>The invariants\<close>

text \<open>A pair of the map leaves the tracking mask alone, and cannot switch the feature off.\<close>

lemma config_entry_keeps:
  assumes "config_entry key v (c, u) = Some (c', u')"
  shows "trackingMask c' = trackingMask c \<and> ovs_trackInit c' = ovs_trackInit c \<and> (bst_enable c \<longrightarrow> bst_enable c')"
  using assms by (auto simp: config_entry_def bind_eq_Some_conv Let_def split: if_split_asm)

lemma config_entries_keep:
  assumes "config_entries es (c, u) = Some (c', u')"
  shows "trackingMask c' = trackingMask c \<and> (bst_enable c \<longrightarrow> bst_enable c')"
  using assms
proof (induction es arbitrary: c u)
  case (Cons e es)
  show ?case
  proof (cases "\<exists>k v xs. e = JSON_ARRAY (k # v # xs)")
    case True
    then obtain k v xs where "e = JSON_ARRAY (k # v # xs)" by blast
    then obtain key c1 u1 where "config_entry key v (c, u) = Some (c1, u1)" "config_entries es (c1, u1) = Some (c', u')"
      using Cons.prems by (auto simp: bind_eq_Some_conv)
    then show ?thesis using Cons.IH config_entry_keeps by metis
  next
    case False
    then have "config_entries es (c, u) = Some (c', u')"
      using Cons.prems by (auto split: ovs_json.split_asm list.split_asm)
    then show ?thesis by (rule Cons.IH)
  qed
qed simp

definition cache_ok :: "ovsdb \<Rightarrow> bool" where
  "cache_ok st = (length (bst_cache st) = BVIEW_MAX_ASICS_ON_A_PLATFORM \<and>
     (\<forall>db\<in>set (bst_cache st). \<forall>f. length (db f) = stat_size f))"

lemma write_cell_shape:
  assumes "write_cell asic f i g st = Some st'"
  shows "\<exists>c. st' = st\<lparr>bst_cache := c\<rparr>"
  using assms by (auto simp: write_cell_def Let_def split: if_split_asm)

lemma write_cell_ok:
  assumes "write_cell asic f i g st = Some st'" "cache_ok st"
  shows "cache_ok st'"
  using assms by (auto simp: write_cell_def cache_ok_def Let_def split: if_split_asm dest!: set_update_subset_insert [THEN subsetD])

lemma cache_ok_cong: "bst_cache st = bst_cache st' \<Longrightarrow> cache_ok st = cache_ok st'"
  by (simp only: cache_ok_def)

interpretation keeps_cache: monitor_relation "\<lambda>st st'. cache_ok st \<longrightarrow> cache_ok st'"
proof
  fix st st' :: ovsdb and asic i :: int and f g
  assume "write_cell asic f i g st = Some st'"
  then show "cache_ok st \<longrightarrow> cache_ok st'" using write_cell_ok by blast
next
  fix x y z :: ovsdb
  assume "cache_ok x \<longrightarrow> cache_ok y" "cache_ok y \<longrightarrow> cache_ok z"
  then show "cache_ok x \<longrightarrow> cache_ok z" by blast
qed (auto simp: raise_event_def elim!: cache_ok_cong [THEN iffD1, rotated])

text \<open>The feature is never switched off and no realm ever leaves the tracking mask.\<close>

definition only_enables :: "ovsdb \<Rightarrow> ovsdb \<Rightarrow> bool" where
  "only_enables st st' = ((bst_enable (config_data st) \<longrightarrow> bst_enable (config_data st')) \<and>
     trackingMask (config_data st) AND trackingMask (config_data st') = trackingMask (config_data st))"

lemma and_or_absorb: "(a :: int) AND (a OR b) = a"
  by (simp add: bit_eq_iff bit_simps) blast

lemma and_trans: "(a :: int) AND b = a \<Longrightarrow> b AND c = b \<Longrightarrow> a AND c = a"
  by (metis and.assoc)

interpretation enables: monitor_relation only_enables
proof
  fix st st' :: ovsdb and asic i :: int and f g
  assume "write_cell asic f i g st = Some st'"
  then show "only_enables st st'" using write_cell_shape by (fastforce simp: only_enables_def)
next
  fix st :: ovsdb and es c updated
  assume "config_entries es (config_data st, False) = Some (c, updated)"
  then show "only_enables st (st\<lparr>config_data := c\<rparr>)" using config_entries_keep by (fastforce simp: only_enables_def)
next
  fix x y z :: ovsdb
  assume "only_enables x y" "only_enables y z"
  then show "only_enables x z" using and_trans by (simp add: only_enables_def) blast
qed (simp_all add: only_enables_def raise_event_def and_or_absorb)

text \<open>The rest of the state is not touched, and calls of the agent are only added.\<close>

definition monitor_frame :: "ovsdb \<Rightarrow> ovsdb \<Rightarrow> bool" where
  "monitor_frame st st' = (asicDb st' = asicDb st \<and> sbMaxBufSnapshot st' = sbMaxBufSnapshot st \<and>
     ov_sent st' = ov_sent st \<and> ov_opens st' = ov_opens st \<and> threshold_session st' = threshold_session st \<and>
     trigger_callback st' = trigger_callback st \<and> trigger_cookie st' = trigger_cookie st \<and>
     ov_clock st' = ov_clock st \<and> (\<exists>es. ov_raised st' = ov_raised st @ es))"

interpretation frame: monitor_relation monitor_frame
proof
  fix st st' :: ovsdb and asic i :: int and f g
  assume "write_cell asic f i g st = Some st'"
  then show "monitor_frame st st'" using write_cell_shape by (fastforce simp: monitor_frame_def)
qed (auto simp: monitor_frame_def raise_event_def)

end
