(* ===== verification/Ovs_Plugin_Laws.thy ===== *)
theory Ovs_Plugin_Laws
  imports Ovs_Monitor_Laws
begin

text \<open>What the BST functions of the OVSDB plugin read: on a unit whose silicon fits the arrays the snapshot of
  the counters, and the snapshot of the thresholds, are the cells of the cache in the places the north-bound
  side expects.\<close>

section \<open>Rows of the silicon\<close>

text \<open>The unit as the system plugin enters it, with n ports.\<close>

definition ovsdb_asic :: "ovsdb_env \<Rightarrow> int \<Rightarrow> asic_info" where
  "ovsdb_asic env n = \<lparr>asic_unit = 0, asic_type = sbplugin_ovsdb_system_util_chip_type_get env,
     scalingParams = \<lparr>numPorts = n, numUnicastQueues = 2960, numUnicastQueueGroups = 128,
       numMulticastQueues = 1040, numServicePools = 4, numCommonPools = 1, numCpuQueues = 8,
       numRqeQueues = 11, numRqeQueuePools = 4, numPriorityGroups = 8, support1588 = True,
       cellToByteConv = 208\<rparr>\<rparr>"

definition fits :: "ovsdb_env \<Rightarrow> int \<Rightarrow> ovsdb \<Rightarrow> bool" where
  "fits env n st = (asicDb st = [ovsdb_asic env n] \<and> 1 \<le> n \<and> n \<le> int BVIEW_ASIC_MAX_PORTS)"

lemma unsigned_count_small: "0 \<le> i \<Longrightarrow> i < 2 ^ 32 \<Longrightarrow> unsigned_count i = nat i"
  by (simp add: unsigned_count_def)

lemma fits_unit: "fits env n st \<Longrightarrow> unit_known 0 st"
  by (simp add: fits_def sbplugin_ovsdb_valid_unit_check_def ovsdb_asic_def)

lemma fits_other_unit: "fits env n st \<Longrightarrow> c_int asic \<Longrightarrow> asic \<noteq> 0 \<Longrightarrow> \<not> unit_known asic st"
proof -
  assume f: "fits env n st" and "c_int asic" "asic \<noteq> 0"
  then have "asic mod 2 ^ 32 \<noteq> 0" by (auto simp: c_int_def dvd_def mod_eq_0_iff_dvd)
  then show ?thesis using f by (auto simp: fits_def sbplugin_ovsdb_valid_unit_check_def ovsdb_asic_def)
qed

lemma fits_iters:
  assumes "fits env n st"
  shows "port_iter 0 st = [1..<Suc (nat n)]" "pg_iter 0 st = [0..<8]" "sp_iter 0 st = [0..<4]"
    "uc_queue_iter 0 st = [0..<2960]" "mc_queue_iter 0 st = [0..<1040]" "cpu_queue_iter 0 st = [0..<8]"
    "rqe_queue_iter 0 st = [0..<11]" "uc_queue_grp_iter 0 st = [0..<128]"
    "numServicePools (asic_params 0 st) = 4"
  using assms unsigned_count_small
  by (simp_all add: fits_def port_iter_def pg_iter_def sp_iter_def uc_queue_iter_def mc_queue_iter_def
      cpu_queue_iter_def rqe_queue_iter_def uc_queue_grp_iter_def asic_params_def ovsdb_asic_def
      BVIEW_ASIC_MAX_PORTS_def del: upt_Suc)

text \<open>The row of each counter that the loops ask for.\<close>

lemma resolve_plain:
  assumes "bid < SB_OVSDB_BST_STAT_ID_MAX_COUNT" "\<not> is_double_indexed (bid_row pf bid)" "is_indexed (bid_row pf bid)"
    "index < bid_size (bid_row pf bid)"
  shows "bst_ovsdb_resolve_index pf bid port (int index) = Inr (int index)"
  using assms by (simp add: bst_ovsdb_resolve_index_def Let_def)

lemma resolve_port:
  assumes "bid < SB_OVSDB_BST_STAT_ID_MAX_COUNT" "is_double_indexed (bid_row pf bid)"
    "bid_size (bid_row pf bid) = BVIEW_ASIC_MAX_PORTS * num_of_columns (bid_row pf bid)"
    "1 \<le> port" "port \<le> BVIEW_ASIC_MAX_PORTS" "index < num_of_columns (bid_row pf bid)"
  shows "bst_ovsdb_resolve_index pf bid (int port) (int index) =
    Inr (int ((port - 1) * num_of_columns (bid_row pf bid) + index))"
proof -
  let ?c = "num_of_columns (bid_row pf bid)"
  obtain p where p: "port = Suc p" using assms(4) by (cases port) auto
  have "p * ?c + index < p * ?c + ?c" using assms(6) by simp
  also have "\<dots> = Suc p * ?c" by simp
  also have "\<dots> \<le> BVIEW_ASIC_MAX_PORTS * ?c" using assms(5) p by (intro mult_right_mono) simp_all
  finally have "p * ?c + index < BVIEW_ASIC_MAX_PORTS * ?c" .
  then have "int (p * ?c + index) < int (BVIEW_ASIC_MAX_PORTS * ?c)" by (simp only: of_nat_less_iff)
  then show ?thesis using assms p by (simp add: bst_ovsdb_resolve_index_def Let_def)
qed

lemma resolve_device: "bst_ovsdb_resolve_index pf 0 port index = Inr 0"
  by (simp add: bst_ovsdb_resolve_index_def bid_tab_params_def SB_OVSDB_BST_STAT_ID_MAX_COUNT_def)

lemmas bid_rows = bid_tab_params_def stat_id_defs asic_max_defs

lemma resolve_rows:
  "1 \<le> port \<Longrightarrow> port \<le> 130 \<Longrightarrow> i < 8 \<Longrightarrow> bst_ovsdb_resolve_index pf SB_OVSDB_BST_STAT_ID_PRI_GROUP_SHARED (int port) (int i) = Inr (int ((port - 1) * 8 + i))"
  "1 \<le> port \<Longrightarrow> port \<le> 130 \<Longrightarrow> i < 8 \<Longrightarrow> bst_ovsdb_resolve_index pf SB_OVSDB_BST_STAT_ID_PRI_GROUP_HEADROOM (int port) (int i) = Inr (int ((port - 1) * 8 + i))"
  "1 \<le> port \<Longrightarrow> port \<le> 130 \<Longrightarrow> i < 5 \<Longrightarrow> bst_ovsdb_resolve_index pf SB_OVSDB_BST_STAT_ID_PORT_POOL (int port) (int i) = Inr (int ((port - 1) * 5 + i))"
  "1 \<le> port \<Longrightarrow> port \<le> 130 \<Longrightarrow> i < 4 \<Longrightarrow> bst_ovsdb_resolve_index pf SB_OVSDB_BST_STAT_ID_EGR_UCAST_PORT_SHARED (int port) (int i) = Inr (int ((port - 1) * 4 + i))"
  "1 \<le> port \<Longrightarrow> port \<le> 130 \<Longrightarrow> i < 4 \<Longrightarrow> bst_ovsdb_resolve_index pf SB_OVSDB_BST_STAT_ID_EGR_PORT_SHARED (int port) (int i) = Inr (int ((port - 1) * 4 + i))"
  "i < 5 \<Longrightarrow> bst_ovsdb_resolve_index pf SB_OVSDB_BST_STAT_ID_ING_POOL p (int i) = Inr (int i)"
  "i < 4 \<Longrightarrow> bst_ovsdb_resolve_index pf SB_OVSDB_BST_STAT_ID_EGR_POOL p (int i) = Inr (int i)"
  "i < 4 \<Longrightarrow> bst_ovsdb_resolve_index pf SB_OVSDB_BST_STAT_ID_EGR_MCAST_POOL p (int i) = Inr (int i)"
  "i < 4096 \<Longrightarrow> bst_ovsdb_resolve_index pf SB_OVSDB_BST_STAT_ID_UCAST p (int i) = Inr (int i)"
  "i < 1040 \<Longrightarrow> bst_ovsdb_resolve_index pf SB_OVSDB_BST_STAT_ID_MCAST p (int i) = Inr (int i)"
  "i < 128 \<Longrightarrow> bst_ovsdb_resolve_index pf SB_OVSDB_BST_STAT_ID_UCAST_GROUP p (int i) = Inr (int i)"
  "i < 8 \<Longrightarrow> bst_ovsdb_resolve_index pf SB_OVSDB_BST_STAT_ID_CPU_QUEUE p (int i) = Inr (int i)"
  "i < 11 \<Longrightarrow> bst_ovsdb_resolve_index pf SB_OVSDB_BST_STAT_ID_RQE_QUEUE p (int i) = Inr (int i)"
  using resolve_port [of SB_OVSDB_BST_STAT_ID_PRI_GROUP_SHARED pf port i]
    resolve_port [of SB_OVSDB_BST_STAT_ID_PRI_GROUP_HEADROOM pf port i]
    resolve_port [of SB_OVSDB_BST_STAT_ID_PORT_POOL pf port i]
    resolve_port [of SB_OVSDB_BST_STAT_ID_EGR_UCAST_PORT_SHARED pf port i]
    resolve_port [of SB_OVSDB_BST_STAT_ID_EGR_PORT_SHARED pf port i]
  by (simp_all add: bid_rows resolve_plain)

section \<open>The snapshot\<close>

text \<open>What a snapshot holds when the value of a counter is given by its array and its row, on
  silicon with n ports: the counters of the first n ports, and of the pools and queues of the
  silicon; the rest stays zero.\<close>

definition counters_of :: "(stat_field \<Rightarrow> nat \<Rightarrow> u64) \<Rightarrow> nat \<Rightarrow> asic_snapshot" where
  "counters_of r n = zero_snapshot\<lparr>
     snap_device := \<lparr>bufferCount = r at_device 0\<rparr>,
     snap_iPortPg := fill n (\<lambda>p. fill 8 (\<lambda>i c. c\<lparr>ippg_umShareBufferCount := r at_iPGShared (p * 8 + i),
        ippg_umHeadroomBufferCount := r at_iPGHeadroom (p * 8 + i)\<rparr>)) (snap_iPortPg zero_snapshot),
     snap_iPortSp := fill n (\<lambda>p. fill 4 (\<lambda>i c. c\<lparr>ipsp_umShareBufferCount := r at_iPortSP (p * 5 + i)\<rparr>)) (snap_iPortSp zero_snapshot),
     snap_iSp := fill 4 (\<lambda>i c. c\<lparr>isp_umShareBufferCount := r at_iSP i\<rparr>) (snap_iSp zero_snapshot),
     snap_ePortSp := fill n (\<lambda>p. fill 4 (\<lambda>i c. c\<lparr>epsp_ucShareBufferCount := r at_ePortSPucShare (p * 4 + i),
        epsp_umShareBufferCount := r at_ePortSPumShare (p * 4 + i)\<rparr>)) (snap_ePortSp zero_snapshot),
     snap_eSp := fill 4 (\<lambda>i c. c\<lparr>esp_umShareBufferCount := r at_eSPumShare i,
        esp_mcShareBufferCount := r at_eSPmcShare i\<rparr>) (snap_eSp zero_snapshot),
     snap_eUcQ := fill 2960 (\<lambda>i c. c\<lparr>eucq_ucBufferCount := r at_ucQ i\<rparr>) (snap_eUcQ zero_snapshot),
     snap_eUcQg := fill 128 (\<lambda>i c. c\<lparr>eucqg_ucBufferCount := r at_eUCqGroup i\<rparr>) (snap_eUcQg zero_snapshot),
     snap_eMcQ := fill 1040 (\<lambda>i c. c\<lparr>mcBufferCount := r at_mcQ i\<rparr>) (snap_eMcQ zero_snapshot),
     snap_cpqQ := fill 8 (\<lambda>i c. c\<lparr>cpuBufferCount := r at_eCPU i\<rparr>) (snap_cpqQ zero_snapshot),
     snap_rqeQ := fill 11 (\<lambda>i c. c\<lparr>rqeBufferCount := r at_rqe i\<rparr>) (snap_rqeQ zero_snapshot)\<rparr>"

definition stat_of :: "ovsdb \<Rightarrow> stat_field \<Rightarrow> nat \<Rightarrow> u64" where
  "stat_of st f i = stat ((bst_cache st ! 0) f ! i)"

definition threshold_of :: "ovsdb \<Rightarrow> stat_field \<Rightarrow> nat \<Rightarrow> u64" where
  "threshold_of st f i = threshold ((bst_cache st ! 0) f ! i)"

lemma stat_cell: "stat (cell 0 f (int i) st) = stat_of st f i"
  by (simp add: cell_def stat_of_def)

lemma threshold_cell: "threshold (cell 0 f (int i) st) = threshold_of st f i"
  by (simp add: cell_def threshold_of_def)

lemma read_stat_row:
  assumes "bst_ovsdb_resolve_index pf bid (int port) (int i) = Inr (int k)"
  shows "read_stat pf 0 st bid f port i put d = (True, put (stat_of st f k) d)"
  using assms by (simp add: read_stat_def stat_cell)

lemma and_then_True: "f d = (True, d') \<Longrightarrow> and_then f g d = g d'"
  by (simp add: and_then_def)

text \<open>The loops over the ports, one inner loop per port.\<close>

lemma sweep_grid:
  assumes "1 \<le> n" "n \<le> 130"
    "\<And>p i d. 1 \<le> p \<Longrightarrow> p \<le> nat n \<Longrightarrow> i < m \<Longrightarrow> f p i d = (True, at_cell (p - 1) (at_cell i (g p i)) d)"
  shows "sweep (\<lambda>p. sweep (f p) [0..<m]) [1..<Suc (nat n)] d = (True, fill (nat n) (\<lambda>p. fill m (g (Suc p))) d)"
  by (rule sweep_ports) (rule sweep_row, use assms in simp)

lemma data_parts:
  assumes "fits env n st"
  shows
    "sbplugin_ovsdb_bst_ippg_data_get pf 0 d1 st = (BVIEW_STATUS_SUCCESS, Some (fill (nat n) (\<lambda>p. fill 8 (\<lambda>i c. c\<lparr>
        ippg_umShareBufferCount := stat_of st at_iPGShared (p * 8 + i),
        ippg_umHeadroomBufferCount := stat_of st at_iPGHeadroom (p * 8 + i)\<rparr>)) d1, ov_clock st), st)" (is ?ippg)
    "sbplugin_ovsdb_bst_ipsp_data_get pf 0 d2 st = (BVIEW_STATUS_SUCCESS, Some (fill (nat n) (\<lambda>p. fill 4 (\<lambda>i c. c\<lparr>
        ipsp_umShareBufferCount := stat_of st at_iPortSP (p * 5 + i)\<rparr>)) d2, ov_clock st), st)" (is ?ipsp)
    "sbplugin_ovsdb_bst_epsp_data_get pf 0 d3 st = (BVIEW_STATUS_SUCCESS, Some (fill (nat n) (\<lambda>p. fill 4 (\<lambda>i c. c\<lparr>
        epsp_ucShareBufferCount := stat_of st at_ePortSPucShare (p * 4 + i),
        epsp_umShareBufferCount := stat_of st at_ePortSPumShare (p * 4 + i)\<rparr>)) d3, ov_clock st), st)" (is ?epsp)
proof -
  have n: "1 \<le> n" "n \<le> 130" using assms by (simp_all add: fits_def BVIEW_ASIC_MAX_PORTS_def)
  have p: "p \<le> nat n \<Longrightarrow> p \<le> 130" for p using n by simp
  note unit = fits_unit [OF assms] and iters = fits_iters [OF assms]
  show ?ippg unfolding sbplugin_ovsdb_bst_ippg_data_get_def iters
    by (subst sweep_grid [OF n, where g = "\<lambda>p i c. c\<lparr>
        ippg_umShareBufferCount := stat_of st at_iPGShared ((p - 1) * 8 + i),
        ippg_umHeadroomBufferCount := stat_of st at_iPGHeadroom ((p - 1) * 8 + i)\<rparr>"])
      (simp_all add: data_result_def unit read_stat_row [OF resolve_rows(1)] read_stat_row [OF resolve_rows(2)] p and_then_True)
  show ?ipsp unfolding sbplugin_ovsdb_bst_ipsp_data_get_def iters
    by (subst sweep_grid [OF n, where g = "\<lambda>p i c. c\<lparr>
        ipsp_umShareBufferCount := stat_of st at_iPortSP ((p - 1) * 5 + i)\<rparr>"])
      (simp_all add: data_result_def unit read_stat_row [OF resolve_rows(3)] p)
  show ?epsp unfolding sbplugin_ovsdb_bst_epsp_data_get_def iters
    by (subst sweep_grid [OF n, where g = "\<lambda>p i c. c\<lparr>
        epsp_ucShareBufferCount := stat_of st at_ePortSPucShare ((p - 1) * 4 + i),
        epsp_umShareBufferCount := stat_of st at_ePortSPumShare ((p - 1) * 4 + i)\<rparr>"])
      (simp_all add: data_result_def unit read_stat_row [OF resolve_rows(4)] read_stat_row [OF resolve_rows(5)] p and_then_True)
qed

lemma data_lists:
  assumes "fits env n st"
  shows
    "sbplugin_ovsdb_bst_isp_data_get pf 0 d1 st = (BVIEW_STATUS_SUCCESS, Some (fill 4 (\<lambda>i c. c\<lparr>
        isp_umShareBufferCount := stat_of st at_iSP i\<rparr>) d1, ov_clock st), st)"
    "sbplugin_ovsdb_bst_esp_data_get pf 0 d2 st = (BVIEW_STATUS_SUCCESS, Some (fill 4 (\<lambda>i c. c\<lparr>
        esp_umShareBufferCount := stat_of st at_eSPumShare i, esp_mcShareBufferCount := stat_of st at_eSPmcShare i\<rparr>) d2, ov_clock st), st)"
    "sbplugin_ovsdb_bst_eucq_data_get pf 0 d3 st = (BVIEW_STATUS_SUCCESS, Some (fill 2960 (\<lambda>i c. c\<lparr>
        eucq_ucBufferCount := stat_of st at_ucQ i\<rparr>) d3, ov_clock st), st)"
    "sbplugin_ovsdb_bst_eucqg_data_get pf 0 d4 st = (BVIEW_STATUS_SUCCESS, Some (fill 128 (\<lambda>i c. c\<lparr>
        eucqg_ucBufferCount := stat_of st at_eUCqGroup i\<rparr>) d4, ov_clock st), st)"
    "sbplugin_ovsdb_bst_emcq_data_get pf 0 d5 st = (BVIEW_STATUS_SUCCESS, Some (fill 1040 (\<lambda>i c. c\<lparr>
        mcBufferCount := stat_of st at_mcQ i\<rparr>) d5, ov_clock st), st)"
    "sbplugin_ovsdb_bst_cpuq_data_get pf 0 d6 st = (BVIEW_STATUS_SUCCESS, Some (fill 8 (\<lambda>i c. c\<lparr>
        cpuBufferCount := stat_of st at_eCPU i\<rparr>) d6, ov_clock st), st)"
    "sbplugin_ovsdb_bst_rqeq_data_get pf 0 d7 st = (BVIEW_STATUS_SUCCESS, Some (fill 11 (\<lambda>i c. c\<lparr>
        rqeBufferCount := stat_of st at_rqe i\<rparr>) d7, ov_clock st), st)"
proof -
  note unit = fits_unit [OF assms] and iters = fits_iters [OF assms]
  have four: "[0..<nat 4] = [0..<4]" by simp
  show "sbplugin_ovsdb_bst_isp_data_get pf 0 d1 st = (BVIEW_STATUS_SUCCESS, Some (fill 4 (\<lambda>i c. c\<lparr>
        isp_umShareBufferCount := stat_of st at_iSP i\<rparr>) d1, ov_clock st), st)"
    unfolding sbplugin_ovsdb_bst_isp_data_get_def iters four
    by (subst sweep_fill [where g = "\<lambda>i c. c\<lparr>isp_umShareBufferCount := stat_of st at_iSP i\<rparr>"])
      (simp_all add: data_result_def unit read_stat_row [OF resolve_rows(6)])
  show "sbplugin_ovsdb_bst_esp_data_get pf 0 d2 st = (BVIEW_STATUS_SUCCESS, Some (fill 4 (\<lambda>i c. c\<lparr>
        esp_umShareBufferCount := stat_of st at_eSPumShare i, esp_mcShareBufferCount := stat_of st at_eSPmcShare i\<rparr>) d2, ov_clock st), st)"
    unfolding sbplugin_ovsdb_bst_esp_data_get_def iters
    by (subst sweep_fill [where g = "\<lambda>i c. c\<lparr>esp_umShareBufferCount := stat_of st at_eSPumShare i,
        esp_mcShareBufferCount := stat_of st at_eSPmcShare i\<rparr>"])
      (simp_all add: data_result_def unit read_stat_row [OF resolve_rows(7)] read_stat_row [OF resolve_rows(8)] and_then_True)
  show "sbplugin_ovsdb_bst_eucq_data_get pf 0 d3 st = (BVIEW_STATUS_SUCCESS, Some (fill 2960 (\<lambda>i c. c\<lparr>
        eucq_ucBufferCount := stat_of st at_ucQ i\<rparr>) d3, ov_clock st), st)"
    unfolding sbplugin_ovsdb_bst_eucq_data_get_def iters
    by (subst sweep_fill [where g = "\<lambda>i c. c\<lparr>eucq_ucBufferCount := stat_of st at_ucQ i\<rparr>"])
      (simp_all add: data_result_def unit read_stat_row [OF resolve_rows(9)])
  show "sbplugin_ovsdb_bst_eucqg_data_get pf 0 d4 st = (BVIEW_STATUS_SUCCESS, Some (fill 128 (\<lambda>i c. c\<lparr>
        eucqg_ucBufferCount := stat_of st at_eUCqGroup i\<rparr>) d4, ov_clock st), st)"
    unfolding sbplugin_ovsdb_bst_eucqg_data_get_def iters
    by (subst sweep_fill [where g = "\<lambda>i c. c\<lparr>eucqg_ucBufferCount := stat_of st at_eUCqGroup i\<rparr>"])
      (simp_all add: data_result_def unit read_stat_row [OF resolve_rows(11)])
  show "sbplugin_ovsdb_bst_emcq_data_get pf 0 d5 st = (BVIEW_STATUS_SUCCESS, Some (fill 1040 (\<lambda>i c. c\<lparr>
        mcBufferCount := stat_of st at_mcQ i\<rparr>) d5, ov_clock st), st)"
    unfolding sbplugin_ovsdb_bst_emcq_data_get_def iters
    by (subst sweep_fill [where g = "\<lambda>i c. c\<lparr>mcBufferCount := stat_of st at_mcQ i\<rparr>"])
      (simp_all add: data_result_def unit read_stat_row [OF resolve_rows(10)])
  show "sbplugin_ovsdb_bst_cpuq_data_get pf 0 d6 st = (BVIEW_STATUS_SUCCESS, Some (fill 8 (\<lambda>i c. c\<lparr>
        cpuBufferCount := stat_of st at_eCPU i\<rparr>) d6, ov_clock st), st)"
    unfolding sbplugin_ovsdb_bst_cpuq_data_get_def iters
    by (subst sweep_fill [where g = "\<lambda>i c. c\<lparr>cpuBufferCount := stat_of st at_eCPU i\<rparr>"])
      (simp_all add: data_result_def unit read_stat_row [OF resolve_rows(12)])
  show "sbplugin_ovsdb_bst_rqeq_data_get pf 0 d7 st = (BVIEW_STATUS_SUCCESS, Some (fill 11 (\<lambda>i c. c\<lparr>
        rqeBufferCount := stat_of st at_rqe i\<rparr>) d7, ov_clock st), st)"
    unfolding sbplugin_ovsdb_bst_rqeq_data_get_def iters
    by (subst sweep_fill [where g = "\<lambda>i c. c\<lparr>rqeBufferCount := stat_of st at_rqe i\<rparr>"])
      (simp_all add: data_result_def unit read_stat_row [OF resolve_rows(13)])
qed

lemma device_data_cell:
  "fits env n st \<Longrightarrow> sbplugin_ovsdb_bst_device_data_get 0 d st =
   (BVIEW_STATUS_SUCCESS, Some (d\<lparr>bufferCount := stat_of st at_device 0\<rparr>, ov_clock st), st)"
  using stat_cell [of at_device 0 st] by (simp add: sbplugin_ovsdb_bst_device_data_get_def data_result_def fits_unit)

lemma snapshot_counters:
  assumes "fits env n st"
  shows "sbplugin_ovsdb_bst_snapshot_get pf 0 zero_snapshot st =
    (BVIEW_STATUS_SUCCESS, Some (counters_of (stat_of st) (nat n), ov_clock st), st)"
  by (simp add: sbplugin_ovsdb_bst_snapshot_get_def snapshot_parts_def snapshot_part_def data_result_def
      fits_unit [OF assms] device_data_cell [OF assms] data_parts [OF assms] data_lists [OF assms] counters_of_def
      del: One_nat_def)

end
