(* ===== verification/Ovs_Threshold_Laws.thy ===== *)
theory Ovs_Threshold_Laws
  imports Ovs_Plugin_Laws
begin

text \<open>Reading and setting the thresholds through the OVSDB plugin: the loops of
  sbplugin_ovsdb_bst_threshold_get change one member of the snapshot each, and together they return the
  thresholds of the cache in the places of the counters.\<close>

section \<open>Loops over one member of a structure\<close>

lemma sweep_member_fill:
  assumes "\<And>d s. sel (put d s) = d" "\<And>d d' s. put d (put d' s) = put d s" "\<And>s. put (sel s) s = s"
    "\<And>i s. i < n \<Longrightarrow> f i s = (True, put (at_cell i (g i) (sel s)) s)"
  shows "sweep f [0..<n] s = (True, put (fill n g (sel s)) s)"
  using assms(4) by (induction n) (simp_all add: sweep_append assms(1-3) fill_Suc)

lemma sweep_member_row:
  assumes "\<And>d s. sel (put d s) = d" "\<And>d d' s. put d (put d' s) = put d s" "\<And>s. put (sel s) s = s"
    "\<And>j s. j < m \<Longrightarrow> f j s = (True, put (at_cell i (at_cell j (g j)) (sel s)) s)"
  shows "sweep f [0..<m] s = (True, put (at_cell i (fill m g) (sel s)) s)"
  using assms(4) by (induction m) (simp_all add: sweep_append assms(1-3) fill_Suc)

lemma fill_cong:
  assumes "\<And>i. i < n \<Longrightarrow> i < length xs \<Longrightarrow> g i (xs ! i) = g' i (xs ! i)"
  shows "fill n g xs = fill n g' xs"
  using assms by (simp add: fill_def)

section \<open>Reading\<close>

lemma read_threshold_row:
  assumes "bst_ovsdb_resolve_index pf bid (int port) (int i) = Inr (int k)"
  shows "read_threshold pf 0 st port i bid put s = (True, put (threshold_of st (bid_offset (bid_row pf bid)) k) s)"
  using assms by (simp add: read_threshold_def bst_ovsdb_threshold_get_def threshold_cell)

lemma bid_offsets:
  "bid_offset (bid_row pf SB_OVSDB_BST_STAT_ID_DEVICE) = at_device"
  "bid_offset (bid_row pf SB_OVSDB_BST_STAT_ID_EGR_POOL) = at_eSPumShare"
  "bid_offset (bid_row pf SB_OVSDB_BST_STAT_ID_EGR_MCAST_POOL) = at_eSPmcShare"
  "bid_offset (bid_row pf SB_OVSDB_BST_STAT_ID_ING_POOL) = at_iSP"
  "bid_offset (bid_row pf SB_OVSDB_BST_STAT_ID_PORT_POOL) = at_iPortSP"
  "bid_offset (bid_row pf SB_OVSDB_BST_STAT_ID_PRI_GROUP_SHARED) = at_iPGShared"
  "bid_offset (bid_row pf SB_OVSDB_BST_STAT_ID_PRI_GROUP_HEADROOM) = at_iPGHeadroom"
  "bid_offset (bid_row pf SB_OVSDB_BST_STAT_ID_UCAST) = at_ucQ"
  "bid_offset (bid_row pf SB_OVSDB_BST_STAT_ID_MCAST) = at_mcQ"
  "bid_offset (bid_row pf SB_OVSDB_BST_STAT_ID_EGR_UCAST_PORT_SHARED) = at_ePortSPucShare"
  "bid_offset (bid_row pf SB_OVSDB_BST_STAT_ID_EGR_PORT_SHARED) = at_ePortSPumShare"
  "bid_offset (bid_row pf SB_OVSDB_BST_STAT_ID_RQE_QUEUE) = at_rqe"
  "bid_offset (bid_row pf SB_OVSDB_BST_STAT_ID_UCAST_GROUP) = at_eUCqGroup"
  "bid_offset (bid_row pf SB_OVSDB_BST_STAT_ID_CPU_QUEUE) = at_eCPU"
  by (simp_all add: bid_tab_params_def stat_id_defs)

text \<open>What the loop over the ports leaves in the three members it writes.\<close>

definition pg_thresholds :: "(stat_field \<Rightarrow> nat \<Rightarrow> u64) \<Rightarrow> nat \<Rightarrow> ippg_data list \<Rightarrow> ippg_data list" where
  "pg_thresholds r p = fill 8 (\<lambda>i c. c\<lparr>ippg_umShareBufferCount := r at_iPGShared (p * 8 + i),
     ippg_umHeadroomBufferCount := r at_iPGHeadroom (p * 8 + i)\<rparr>)"

definition ipsp_thresholds :: "(stat_field \<Rightarrow> nat \<Rightarrow> u64) \<Rightarrow> nat \<Rightarrow> ipsp_data list \<Rightarrow> ipsp_data list" where
  "ipsp_thresholds r p = fill 4 (\<lambda>i c. c\<lparr>ipsp_umShareBufferCount := r at_iPortSP (p * 5 + i)\<rparr>)"

definition epsp_thresholds :: "(stat_field \<Rightarrow> nat \<Rightarrow> u64) \<Rightarrow> nat \<Rightarrow> epsp_data list \<Rightarrow> epsp_data list" where
  "epsp_thresholds r p = fill 4 (\<lambda>i c. c\<lparr>epsp_ucShareBufferCount := r at_ePortSPucShare (p * 4 + i),
     epsp_umShareBufferCount := r at_ePortSPumShare (p * 4 + i)\<rparr>)"

lemma port_thresholds_row:
  assumes "fits env n st" "1 \<le> p" "p \<le> nat n"
  shows "port_thresholds pf 0 st p s = (True, s\<lparr>
     snap_iPortPg := at_cell (p - 1) (pg_thresholds (threshold_of st) (p - 1)) (snap_iPortPg s),
     snap_iPortSp := at_cell (p - 1) (ipsp_thresholds (threshold_of st) (p - 1)) (snap_iPortSp s),
     snap_ePortSp := at_cell (p - 1) (epsp_thresholds (threshold_of st) (p - 1)) (snap_ePortSp s)\<rparr>)"
proof -
  have "nat n \<le> 130" using assms by (simp add: fits_def BVIEW_ASIC_MAX_PORTS_def nat_le_iff)
  then have p: "1 \<le> p" "p \<le> 130" using assms by simp_all
  note rows = read_threshold_row [OF resolve_rows(1) [OF p]] read_threshold_row [OF resolve_rows(2) [OF p]]
    read_threshold_row [OF resolve_rows(3) [OF p]] read_threshold_row [OF resolve_rows(4) [OF p]]
    read_threshold_row [OF resolve_rows(5) [OF p]]
  have pg: "sweep (\<lambda>index. and_then
       (read_threshold pf 0 st p index SB_OVSDB_BST_STAT_ID_PRI_GROUP_SHARED
          (\<lambda>v s. s\<lparr>snap_iPortPg := at_cell (p - 1) (at_cell index (\<lambda>c. c\<lparr>ippg_umShareBufferCount := v\<rparr>)) (snap_iPortPg s)\<rparr>))
       (read_threshold pf 0 st p index SB_OVSDB_BST_STAT_ID_PRI_GROUP_HEADROOM
          (\<lambda>v s. s\<lparr>snap_iPortPg := at_cell (p - 1) (at_cell index (\<lambda>c. c\<lparr>ippg_umHeadroomBufferCount := v\<rparr>)) (snap_iPortPg s)\<rparr>)))
     [0..<8] t = (True, t\<lparr>snap_iPortPg := at_cell (p - 1) (pg_thresholds (threshold_of st) (p - 1)) (snap_iPortPg t)\<rparr>)" for t
    unfolding pg_thresholds_def
    by (rule sweep_member_row [where sel = snap_iPortPg and put = "\<lambda>d s. s\<lparr>snap_iPortPg := d\<rparr>"])
      (simp_all add: rows and_then_True bid_offsets)
  have ip: "sweep (\<lambda>index.
       read_threshold pf 0 st p index SB_OVSDB_BST_STAT_ID_PORT_POOL
          (\<lambda>v s. s\<lparr>snap_iPortSp := at_cell (p - 1) (at_cell index (\<lambda>c. c\<lparr>ipsp_umShareBufferCount := v\<rparr>)) (snap_iPortSp s)\<rparr>))
     [0..<4] t = (True, t\<lparr>snap_iPortSp := at_cell (p - 1) (ipsp_thresholds (threshold_of st) (p - 1)) (snap_iPortSp t)\<rparr>)" for t
    unfolding ipsp_thresholds_def
    by (rule sweep_member_row [where sel = snap_iPortSp and put = "\<lambda>d s. s\<lparr>snap_iPortSp := d\<rparr>"])
      (simp_all add: rows bid_offsets)
  have ep: "sweep (\<lambda>index. and_then
       (read_threshold pf 0 st p index SB_OVSDB_BST_STAT_ID_EGR_UCAST_PORT_SHARED
          (\<lambda>v s. s\<lparr>snap_ePortSp := at_cell (p - 1) (at_cell index (\<lambda>c. c\<lparr>epsp_ucShareBufferCount := v\<rparr>)) (snap_ePortSp s)\<rparr>))
       (read_threshold pf 0 st p index SB_OVSDB_BST_STAT_ID_EGR_PORT_SHARED
          (\<lambda>v s. s\<lparr>snap_ePortSp := at_cell (p - 1) (at_cell index (\<lambda>c. c\<lparr>epsp_umShareBufferCount := v\<rparr>)) (snap_ePortSp s)\<rparr>)))
     [0..<4] t = (True, t\<lparr>snap_ePortSp := at_cell (p - 1) (epsp_thresholds (threshold_of st) (p - 1)) (snap_ePortSp t)\<rparr>)" for t
    unfolding epsp_thresholds_def
    by (rule sweep_member_row [where sel = snap_ePortSp and put = "\<lambda>d s. s\<lparr>snap_ePortSp := d\<rparr>"])
      (simp_all add: rows and_then_True bid_offsets)
  show ?thesis unfolding port_thresholds_def fits_iters [OF assms(1)]
    by (simp add: and_then_True [OF pg] and_then_True [OF ip] ep del: One_nat_def)
qed

lemma ports_thresholds:
  assumes "fits env n st" "m \<le> nat n"
  shows "sweep (port_thresholds pf 0 st) [1..<Suc m] s = (True, s\<lparr>
     snap_iPortPg := fill m (pg_thresholds (threshold_of st)) (snap_iPortPg s),
     snap_iPortSp := fill m (ipsp_thresholds (threshold_of st)) (snap_iPortSp s),
     snap_ePortSp := fill m (epsp_thresholds (threshold_of st)) (snap_ePortSp s)\<rparr>)"
  using assms(2)
proof (induction m)
  case (Suc m)
  have "[1..<Suc (Suc m)] = [1..<Suc m] @ [Suc m]" by simp
  then show ?case using Suc port_thresholds_row [OF assms(1), of "Suc m" pf] by (simp add: sweep_append fill_Suc)
qed simp

lemma queue_thresholds_rows:
  assumes "fits env n st"
  shows "queue_thresholds pf 0 st p s = (True, s\<lparr>
     snap_eMcQ := fill 1040 (\<lambda>i c. c\<lparr>mcBufferCount := threshold_of st at_mcQ i, emcq_port := 0\<rparr>) (snap_eMcQ s),
     snap_eUcQ := fill 2960 (\<lambda>i c. c\<lparr>eucq_ucBufferCount := threshold_of st at_ucQ i, eucq_port := 0\<rparr>) (snap_eUcQ s)\<rparr>)"
proof -
  have mc: "sweep (\<lambda>index. read_threshold pf 0 st p index SB_OVSDB_BST_STAT_ID_MCAST
      (\<lambda>v s. s\<lparr>snap_eMcQ := at_cell index (\<lambda>c. c\<lparr>mcBufferCount := v, emcq_port := 0\<rparr>) (snap_eMcQ s)\<rparr>)) [0..<1040] t =
    (True, t\<lparr>snap_eMcQ := fill 1040 (\<lambda>i c. c\<lparr>mcBufferCount := threshold_of st at_mcQ i, emcq_port := 0\<rparr>) (snap_eMcQ t)\<rparr>)" for t
    by (rule sweep_member_fill [where sel = snap_eMcQ and put = "\<lambda>d s. s\<lparr>snap_eMcQ := d\<rparr>"])
      (simp_all add: read_threshold_row [OF resolve_rows(10)] bid_offsets)
  have uc: "sweep (\<lambda>index. read_threshold pf 0 st p index SB_OVSDB_BST_STAT_ID_UCAST
      (\<lambda>v s. s\<lparr>snap_eUcQ := at_cell index (\<lambda>c. c\<lparr>eucq_ucBufferCount := v, eucq_port := 0\<rparr>) (snap_eUcQ s)\<rparr>)) [0..<2960] t =
    (True, t\<lparr>snap_eUcQ := fill 2960 (\<lambda>i c. c\<lparr>eucq_ucBufferCount := threshold_of st at_ucQ i, eucq_port := 0\<rparr>) (snap_eUcQ t)\<rparr>)" for t
    by (rule sweep_member_fill [where sel = snap_eUcQ and put = "\<lambda>d s. s\<lparr>snap_eUcQ := d\<rparr>"])
      (simp_all add: read_threshold_row [OF resolve_rows(9)] bid_offsets)
  show ?thesis unfolding queue_thresholds_def fits_iters [OF assms] by (simp add: and_then_True [OF mc] uc)
qed

lemma pool_thresholds_rows:
  assumes "fits env n st"
  shows "pool_thresholds pf 0 st s = (True, s\<lparr>
     snap_eSp := fill 4 (\<lambda>i c. c\<lparr>esp_umShareBufferCount := threshold_of st at_eSPumShare i,
        esp_mcShareBufferCount := threshold_of st at_eSPmcShare i\<rparr>) (snap_eSp s),
     snap_iSp := fill 4 (\<lambda>i c. c\<lparr>isp_umShareBufferCount := threshold_of st at_iSP i\<rparr>) (snap_iSp s)\<rparr>)"
proof -
  have e: "sweep (\<lambda>index. and_then
      (read_threshold pf 0 st 0 index SB_OVSDB_BST_STAT_ID_EGR_POOL
         (\<lambda>v s. s\<lparr>snap_eSp := at_cell index (\<lambda>c. c\<lparr>esp_umShareBufferCount := v\<rparr>) (snap_eSp s)\<rparr>))
      (read_threshold pf 0 st 0 index SB_OVSDB_BST_STAT_ID_EGR_MCAST_POOL
         (\<lambda>v s. s\<lparr>snap_eSp := at_cell index (\<lambda>c. c\<lparr>esp_mcShareBufferCount := v\<rparr>) (snap_eSp s)\<rparr>))) [0..<4] t =
    (True, t\<lparr>snap_eSp := fill 4 (\<lambda>i c. c\<lparr>esp_umShareBufferCount := threshold_of st at_eSPumShare i,
        esp_mcShareBufferCount := threshold_of st at_eSPmcShare i\<rparr>) (snap_eSp t)\<rparr>)" for t
    by (rule sweep_member_fill [where sel = snap_eSp and put = "\<lambda>d s. s\<lparr>snap_eSp := d\<rparr>"])
      (simp_all add: read_threshold_row [OF resolve_rows(7)] read_threshold_row [OF resolve_rows(8)] and_then_True bid_offsets)
  have i: "sweep (\<lambda>index. read_threshold pf 0 st 0 index SB_OVSDB_BST_STAT_ID_ING_POOL
      (\<lambda>v s. s\<lparr>snap_iSp := at_cell index (\<lambda>c. c\<lparr>isp_umShareBufferCount := v\<rparr>) (snap_iSp s)\<rparr>)) [0..<4] t =
    (True, t\<lparr>snap_iSp := fill 4 (\<lambda>i c. c\<lparr>isp_umShareBufferCount := threshold_of st at_iSP i\<rparr>) (snap_iSp t)\<rparr>)" for t
    by (rule sweep_member_fill [where sel = snap_iSp and put = "\<lambda>d s. s\<lparr>snap_iSp := d\<rparr>"])
      (simp_all add: read_threshold_row [OF resolve_rows(6)] bid_offsets)
  show ?thesis unfolding pool_thresholds_def fits_iters [OF assms] by (simp add: and_then_True [OF e] i)
qed

lemma cpu_rqe_group_thresholds_rows:
  assumes "fits env n st"
  shows "cpu_rqe_group_thresholds pf 0 st p s = (True, s\<lparr>
     snap_cpqQ := fill 8 (\<lambda>i c. c\<lparr>cpuBufferCount := threshold_of st at_eCPU i\<rparr>) (snap_cpqQ s),
     snap_rqeQ := fill 11 (\<lambda>i c. c\<lparr>rqeBufferCount := threshold_of st at_rqe i\<rparr>) (snap_rqeQ s),
     snap_eUcQg := fill 128 (\<lambda>i c. c\<lparr>eucqg_ucBufferCount := threshold_of st at_eUCqGroup i\<rparr>) (snap_eUcQg s)\<rparr>)"
proof -
  have c: "sweep (\<lambda>index. read_threshold pf 0 st p index SB_OVSDB_BST_STAT_ID_CPU_QUEUE
      (\<lambda>v s. s\<lparr>snap_cpqQ := at_cell index (\<lambda>c. c\<lparr>cpuBufferCount := v\<rparr>) (snap_cpqQ s)\<rparr>)) [0..<8] t =
    (True, t\<lparr>snap_cpqQ := fill 8 (\<lambda>i c. c\<lparr>cpuBufferCount := threshold_of st at_eCPU i\<rparr>) (snap_cpqQ t)\<rparr>)" for t
    by (rule sweep_member_fill [where sel = snap_cpqQ and put = "\<lambda>d s. s\<lparr>snap_cpqQ := d\<rparr>"])
      (simp_all add: read_threshold_row [OF resolve_rows(12)] bid_offsets)
  have r: "sweep (\<lambda>index. read_threshold pf 0 st 0 index SB_OVSDB_BST_STAT_ID_RQE_QUEUE
      (\<lambda>v s. s\<lparr>snap_rqeQ := at_cell index (\<lambda>c. c\<lparr>rqeBufferCount := v\<rparr>) (snap_rqeQ s)\<rparr>)) [0..<11] t =
    (True, t\<lparr>snap_rqeQ := fill 11 (\<lambda>i c. c\<lparr>rqeBufferCount := threshold_of st at_rqe i\<rparr>) (snap_rqeQ t)\<rparr>)" for t
    by (rule sweep_member_fill [where sel = snap_rqeQ and put = "\<lambda>d s. s\<lparr>snap_rqeQ := d\<rparr>"])
      (simp_all add: read_threshold_row [OF resolve_rows(13)] bid_offsets)
  have g: "sweep (\<lambda>index. read_threshold pf 0 st 0 index SB_OVSDB_BST_STAT_ID_UCAST_GROUP
      (\<lambda>v s. s\<lparr>snap_eUcQg := at_cell index (\<lambda>c. c\<lparr>eucqg_ucBufferCount := v\<rparr>) (snap_eUcQg s)\<rparr>)) [0..<128] t =
    (True, t\<lparr>snap_eUcQg := fill 128 (\<lambda>i c. c\<lparr>eucqg_ucBufferCount := threshold_of st at_eUCqGroup i\<rparr>) (snap_eUcQg t)\<rparr>)" for t
    by (rule sweep_member_fill [where sel = snap_eUcQg and put = "\<lambda>d s. s\<lparr>snap_eUcQg := d\<rparr>"])
      (simp_all add: read_threshold_row [OF resolve_rows(11)] bid_offsets)
  show ?thesis unfolding cpu_rqe_group_thresholds_def fits_iters [OF assms]
    by (simp add: and_then_True [OF c] and_then_True [OF r] g)
qed

lemma device_threshold_row:
  "read_threshold pf 0 st 0 0 SB_OVSDB_BST_STAT_ID_DEVICE put s = (True, put (threshold_of st at_device 0) s)"
  using read_threshold_row [of pf SB_OVSDB_BST_STAT_ID_DEVICE 0 0 0 st put s] resolve_device [of pf 0 0]
  by (simp add: SB_OVSDB_BST_STAT_ID_DEVICE_def bid_offsets(1) [unfolded SB_OVSDB_BST_STAT_ID_DEVICE_def])

text \<open>The loops over the queues also clear the port of the queue, which is 0 in a snapshot that starts
  zeroed.\<close>

lemma queue_ports:
  "fill 1040 (\<lambda>i c. c\<lparr>mcBufferCount := r i, emcq_port := 0\<rparr>) (snap_eMcQ zero_snapshot) =
   fill 1040 (\<lambda>i c. c\<lparr>mcBufferCount := r i\<rparr>) (snap_eMcQ zero_snapshot)"
  "fill 2960 (\<lambda>i c. c\<lparr>eucq_ucBufferCount := r i, eucq_port := 0\<rparr>) (snap_eUcQ zero_snapshot) =
   fill 2960 (\<lambda>i c. c\<lparr>eucq_ucBufferCount := r i\<rparr>) (snap_eUcQ zero_snapshot)"
  by (rule fill_cong, simp add: zero_snapshot_def)+

lemma threshold_counters:
  assumes "fits env n st"
  shows "sbplugin_ovsdb_bst_threshold_get pf 0 zero_snapshot st =
    (BVIEW_STATUS_SUCCESS, Some (counters_of (threshold_of st) (nat n), ov_clock st), st)"
  unfolding sbplugin_ovsdb_bst_threshold_get_def fits_iters [OF assms] Let_def data_result_def
  by (simp add: fits_unit [OF assms] and_then_True [OF device_threshold_row]
      and_then_True [OF ports_thresholds [OF assms order_refl]] and_then_True [OF queue_thresholds_rows [OF assms]]
      and_then_True [OF pool_thresholds_rows [OF assms]] cpu_rqe_group_thresholds_rows [OF assms]
      counters_of_def queue_ports pg_thresholds_def [abs_def] ipsp_thresholds_def [abs_def] epsp_thresholds_def [abs_def]
      del: One_nat_def upt_Suc)

section \<open>Setting\<close>

text \<open>The port and the queue that are read back from a name.\<close>

definition read_port :: "bid_params \<Rightarrow> int \<Rightarrow> int" where
  "read_port b port = (if is_double_indexed b then port else 0)"

definition read_queue :: "bid_params \<Rightarrow> int \<Rightarrow> int" where
  "read_queue b queue = (if is_indexed b then queue else 0)"

text \<open>A row the plugin names is the row it finds again under that name.\<close>

lemma named_row:
  assumes "bid < SB_OVSDB_BST_STAT_ID_MAX_COUNT" "c_int port" "c_int (index + 1)"
    "bst_ovsdb_resolve_index pf bid port index = Inr k"
    "bst_bid_port_index_to_ovsdb_key pf bid port (index + 1) 1024 = Inr key"
  shows "bst_ovsdb_row_info_get pf key 0 =
      Some (Inr (bid, read_port (bid_row pf bid) port, read_queue (bid_row pf bid) (index + 1)))"
    "bst_ovsdb_cache_row_get pf bid (read_port (bid_row pf bid) port) (read_queue (bid_row pf bid) (index + 1)) =
      Inr (bid_offset (bid_row pf bid), k)"
proof -
  let ?b = "bid_row pf bid"
  have ok: "is_double_indexed ?b \<longrightarrow> is_indexed ?b" using bid_row_ok [OF assms(1), of pf] by (simp add: bid_params_ok_def)
  then have "bst_ovsdb_cache_row_get pf bid (read_port ?b port) (read_queue ?b (index + 1)) =
      bst_ovsdb_cache_row_get pf bid port (index + 1)"
    by (simp add: bst_ovsdb_cache_row_get_def read_port_def read_queue_def Let_def)
  also have "\<dots> = Inr (bid_offset ?b, k)" using assms(4) row_get_resolve [OF assms(1)] by simp
  finally show c: "bst_ovsdb_cache_row_get pf bid (read_port ?b port) (read_queue ?b (index + 1)) = Inr (bid_offset ?b, k)" .
  show "bst_ovsdb_row_info_get pf key 0 = Some (Inr (bid, read_port ?b port, read_queue ?b (index + 1)))"
    using key_row_info [OF assms(1,2,3,5), of 0] c ok
    by (auto simp: Let_def read_port_def read_queue_def split: if_split_asm)
qed

lemma key_exists:
  assumes "bid < SB_OVSDB_BST_STAT_ID_MAX_COUNT" "c_int port" "c_int index"
  obtains key where "bst_bid_port_index_to_ovsdb_key pf bid port index 1024 = Inr key"
  using key_text [OF assms] by blast

lemma threshold_set_sends:
  assumes "bst_ovsdb_resolve_index pf bid port index = Inr k"
    "bst_bid_port_index_to_ovsdb_key pf bid port (index + 1) 1024 = Inr key" "threshold_session st \<or> ov_opens st"
  shows "bst_ovsdb_threshold_set pf asic port index bid v st =
    (BVIEW_STATUS_SUCCESS, send_transaction (BST_OVSDB_THRESHOLD_JSON (fmt_d (sint v)) key) (st\<lparr>threshold_session := True\<rparr>))"
  using assms by (simp add: bst_ovsdb_threshold_set_def bst_ovsdb_threshold_commit_def)

text \<open>The notification of the database that a row of unit 0 has these values and these other
  columns.\<close>

definition bufmon_row_notice :: "string \<Rightarrow> string \<Rightarrow> int \<Rightarrow> int \<Rightarrow> (string \<times> ovs_json) list \<Rightarrow> ovs_msg" where
  "bufmon_row_notice row_uuid key count limit others =
     JSONRPC_NOTIFY ''update'' (JSON_ARRAY [JSON_NULL, JSON_OBJECT [(''bufmon'', JSON_OBJECT [(row_uuid,
       JSON_OBJECT [(''new'', JSON_OBJECT ([(''hw_unit_id'', JSON_INTEGER 0), (''name'', JSON_STRING key),
         (''counter_value'', JSON_INTEGER count), (''trigger_threshold'', JSON_INTEGER limit)] @ others))])])]])"

definition bufmon_notice :: "string \<Rightarrow> string \<Rightarrow> int \<Rightarrow> int \<Rightarrow> ovs_msg" where
  "bufmon_notice row_uuid key count limit = bufmon_row_notice row_uuid key count limit []"

definition trigger_notice :: "string \<Rightarrow> string \<Rightarrow> int \<Rightarrow> int \<Rightarrow> ovs_msg" where
  "trigger_notice row_uuid key count limit =
     bufmon_row_notice row_uuid key count limit [(''status'', JSON_STRING ''triggered'')]"

text \<open>What follows the rows of an update.\<close>

definition after_update :: "bool \<Rightarrow> ovsdb \<Rightarrow> ovsdb" where
  "after_update notify st =
     (let st1 = (if notify then raise_event (OVS_NOTIFY 0 BVIEW_BST_CONFIG_TRACK_UPDATE) st else st)
      in if system_table_uuid st1 \<noteq> [] \<and> sys_cache_init_done st1
         then st1\<lparr>monitor_init_done_sem := monitor_init_done_sem st1 + 1\<rparr> else st1)"

lemma after_update_keeps [simp]:
  "bst_cache (after_update b st) = bst_cache st" "config_data (after_update b st) = config_data st"
  "asicDb (after_update b st) = asicDb st"
  "ov_raised (after_update b st) = ov_raised st @ (if b then [OVS_NOTIFY 0 BVIEW_BST_CONFIG_TRACK_UPDATE] else [])"
  by (simp_all add: after_update_def raise_event_def Let_def)

definition counter_values :: "int \<Rightarrow> int \<Rightarrow> bid_info \<Rightarrow> bid_info" where
  "counter_values count limit r = r\<lparr>stat := of_int count, threshold := of_int limit\<rparr>"

lemma one_table_message:
  assumes "row_step pf ''bufmon'' (u, row) (0, st) = map_option (Pair 0) upd"
  shows "monitor_message pf (JSONRPC_NOTIFY ''update'' (JSON_ARRAY [JSON_NULL,
      JSON_OBJECT [(''bufmon'', JSON_OBJECT [(u, row)])]])) st =
    map_option (after_update (trackingMask (config_data st) \<noteq> 0)) upd"
  using assms by (cases upd) (simp_all add: monitor_message_def bst_ovsdb_cache_update_def bst_table_name_def
      bst_ovsdb_cache_update_table_def after_update_def Let_def)

lemma notice_exact:
  assumes "bst_ovsdb_row_info_get pf key 0 = Some (Inr (bid, p, q))"
    "bst_ovsdb_cache_row_get pf bid p q = Inr (f, k)"
  shows "monitor_message pf (bufmon_notice u key count limit) st =
    map_option (after_update (trackingMask (config_data st) \<noteq> 0)) (write_cell 0 f k (counter_values count limit) st)"
  unfolding bufmon_notice_def bufmon_row_notice_def
  by (rule one_table_message, cases "write_cell 0 f k (counter_values count limit) st")
    (use assms in \<open>simp_all add: row_step_def bufmon_update_def OVSDB_GET_COLUMN_def bufmon_row_def bufmon_values_def
        track_row_def bst_ovsdb_row_update_def counter_values_def [abs_def]\<close>)

lemma trigger_exact:
  assumes "bst_ovsdb_row_info_get pf key 0 = Some (Inr (bid, p, q))"
    "bst_ovsdb_cache_row_get pf bid p q = Inr (f, k)"
  shows "monitor_message pf (trigger_notice u key count limit) st =
    map_option (\<lambda>st1. after_update (trackingMask (config_data st) \<noteq> 0)
        (snd (bst_ovsdb_trigger_callback pf 0 bid p (q - 1) st1)))
      (write_cell 0 f k (counter_values count limit) st)"
proof -
  have "row_step pf ''bufmon'' (u, JSON_OBJECT [(''new'', JSON_OBJECT ([(''hw_unit_id'', JSON_INTEGER 0),
        (''name'', JSON_STRING key), (''counter_value'', JSON_INTEGER count), (''trigger_threshold'', JSON_INTEGER limit)]
        @ [(''status'', JSON_STRING ''triggered'')]))]) (0, st) =
      map_option (Pair 0) (map_option (\<lambda>st1. snd (bst_ovsdb_trigger_callback pf 0 bid p (q - 1) st1))
        (write_cell 0 f k (counter_values count limit) st))"
    using assms by (cases "write_cell 0 f k (counter_values count limit) st")
      (simp_all add: row_step_def bufmon_update_def OVSDB_GET_COLUMN_def bufmon_row_def bufmon_values_def
        track_row_def bst_ovsdb_row_update_def counter_values_def [abs_def])
  from one_table_message [OF this] show ?thesis
    by (simp add: trigger_notice_def bufmon_row_notice_def option.map_comp comp_def)
qed

lemma write_cell_0:
  assumes "cache_ok st" "0 \<le> i"
  obtains st' where "write_cell 0 f i g st = Some st'"
    "bst_cache st' = [(bst_cache st ! 0)(f := ((bst_cache st ! 0) f)[nat i := g ((bst_cache st ! 0) f ! nat i)])]"
proof -
  obtain db where "bst_cache st = [db]"
    using assms(1) by (auto simp: cache_ok_def BVIEW_MAX_ASICS_ON_A_PLATFORM_def length_Suc_conv)
  then show thesis using assms(2) that by (simp add: write_cell_def Let_def)
qed

lemma cache_row_length: "cache_ok st \<Longrightarrow> length ((bst_cache st ! 0) f) = stat_size f"
  by (simp add: cache_ok_def BVIEW_MAX_ASICS_ON_A_PLATFORM_def)

lemma resolve_in_array:
  assumes "bid < SB_OVSDB_BST_STAT_ID_MAX_COUNT" "bst_ovsdb_resolve_index pf bid port index = Inr k"
  shows "k < int (stat_size (bid_offset (bid_row pf bid)))"
  using assms bid_row_ok [OF assms(1), of pf]
  by (auto simp: bst_ovsdb_resolve_index_def bid_params_ok_def Let_def split: if_split_asm)

text \<open>What a threshold that was set reads as once the database has confirmed it, and that nothing
  else changed.\<close>

lemma confirmed_threshold:
  assumes "bid < SB_OVSDB_BST_STAT_ID_MAX_COUNT" "c_int port" "c_int (index + 1)" "cache_ok st"
    "bst_ovsdb_resolve_index pf bid port index = Inr k" "0 \<le> k"
    "bst_bid_port_index_to_ovsdb_key pf bid port (index + 1) 1024 = Inr key"
  obtains st' where "monitor_message pf (bufmon_notice u key count (sint v)) st = Some st'"
    "bst_ovsdb_threshold_get pf 0 port index bid st' = Inr v"
    "stat_of st' (bid_offset (bid_row pf bid)) (nat k) = of_int count"
    "\<And>f i. (f, i) \<noteq> (bid_offset (bid_row pf bid), nat k) \<Longrightarrow> (bst_cache st' ! 0) f ! i = (bst_cache st ! 0) f ! i"
proof -
  let ?f = "bid_offset (bid_row pf bid)"
  note row = named_row [OF assms(1,2,3,5,7)]
  obtain st1 where w: "write_cell 0 ?f k (counter_values count (sint v)) st = Some st1"
      "bst_cache st1 = [(bst_cache st ! 0)(?f := ((bst_cache st ! 0) ?f)[nat k :=
         counter_values count (sint v) ((bst_cache st ! 0) ?f ! nat k)])]"
    using write_cell_0 [OF assms(4,6)] .
  let ?st' = "after_update (trackingMask (config_data st) \<noteq> 0) st1"
  have st': "monitor_message pf (bufmon_notice u key count (sint v)) st = Some ?st'" "bst_cache ?st' = bst_cache st1"
    by (simp_all add: notice_exact [OF row] w(1))
  have "k < int (length ((bst_cache st ! 0) ?f))"
    using resolve_in_array [OF assms(1,5)] cache_row_length [OF assms(4)] by simp
  then have "nat k < length ((bst_cache st ! 0) ?f)" using assms(6) by simp
  then show thesis using st'(2) w(2) assms(5)
    by (intro that [OF st'(1)]) (auto simp: bst_ovsdb_threshold_get_def cell_def stat_of_def counter_values_def)
qed

end
