(* ===== verification/Ovs_System_Laws.thy ===== *)
theory Ovs_System_Laws
  imports Ovs_Plugin_Laws
begin

text \<open>Starting the OVSDB plugin: when the poll of the database ends, which numbers of ports the default sizes
  of the buffers can be written for, what the plugin knows of the silicon afterwards, and that the
  agent then reaches the plugin's functions through the redirector.\<close>

section \<open>The poll\<close>

text \<open>What one reply decides: nothing, so that the poll asks again, or the end of the call.\<close>

definition poll_verdict :: "ovs_reply \<Rightarrow> unit result c_run option" where
  "poll_verdict r = (case r of
     NO_REPLY \<Rightarrow> Some (DONE (Inl BVIEW_STATUS_INVALID_PARAMETER))
   | OTHER_MESSAGE \<Rightarrow> None
   | REPLY j \<Rightarrow> (case first_rows j of
         DONE (Inl e) \<Rightarrow> Some (DONE (Inl e))
       | DONE (Inr []) \<Rightarrow> None
       | DONE (Inr (row # _)) \<Rightarrow>
           (case row_member row ''cur_cfg'' of
              Some (JSON_INTEGER n) \<Rightarrow> if n mod 2 ^ 32 = 0 then None else Some (DONE (Inr ()))
            | _ \<Rightarrow> Some (DONE (Inl BVIEW_STATUS_FAILURE)))
       | _ \<Rightarrow> Some UNDEFINED))"

definition undecided :: "ovs_reply \<Rightarrow> bool" where
  "undecided r = (case poll_verdict r of None \<Rightarrow> True | Some _ \<Rightarrow> False)"

lemma first_rows_answers: "first_rows j \<noteq> WAITS"
  by (simp add: first_rows_def split: ovs_json.splits list.splits option.splits)

lemma poll_verdict_answers: "poll_verdict r \<noteq> Some WAITS"
  by (simp add: poll_verdict_def split: ovs_reply.splits c_run.splits sum.splits list.splits option.splits ovs_json.splits)

lemma poll_rows:
  "(case row_member row ''cur_cfg'' of
      Some (JSON_INTEGER n) \<Rightarrow> if n mod 2 ^ 32 = 0 then p else DONE (Inr (), st)
    | _ \<Rightarrow> DONE (Inl BVIEW_STATUS_FAILURE, st)) =
   (case (case row_member row ''cur_cfg'' of
            Some (JSON_INTEGER n) \<Rightarrow> if n mod 2 ^ 32 = 0 then None else Some (DONE (Inr ()))
          | _ \<Rightarrow> Some (DONE (Inl BVIEW_STATUS_FAILURE))) of
      None \<Rightarrow> p | Some v \<Rightarrow> run_bind v (\<lambda>res. DONE (res, st)))"
  by (simp split: option.split ovs_json.split)

lemma poll_Cons:
  "poll_cur_cfg (r # rs) st =
    (let st1 = send_transaction SYSTEM_OVSDB_CUR_CFG_INFO_JSON st
     in case poll_verdict r of None \<Rightarrow> poll_cur_cfg rs st1 | Some v \<Rightarrow> run_bind v (\<lambda>res. DONE (res, st1)))"
proof (cases r)
  case (REPLY j)
  show ?thesis
  proof (cases "first_rows j")
    case (DONE res)
    show ?thesis
    proof (cases res)
      case (Inr rows)
      then show ?thesis using REPLY DONE by (cases rows) (simp_all add: poll_verdict_def Let_def poll_rows)
    qed (simp add: REPLY DONE poll_verdict_def Let_def)
  qed (simp_all add: REPLY poll_verdict_def Let_def first_rows_answers)
qed (simp_all add: poll_verdict_def Let_def)

lemma poll_waits_iff: "poll_cur_cfg rs st = WAITS \<longleftrightarrow> list_all undecided rs"
proof (induction rs arbitrary: st)
  case (Cons r rs)
  show ?case
  proof (cases "poll_verdict r")
    case (Some v)
    then show ?thesis using poll_verdict_answers [of r]
      by (cases v) (simp_all add: poll_Cons Let_def undecided_def del: poll_cur_cfg.simps(2))
  qed (simp add: poll_Cons Let_def undecided_def Cons.IH del: poll_cur_cfg.simps(2))
qed simp

text \<open>Every undecided reply costs one more request.\<close>

fun poll_requests :: "ovs_reply list \<Rightarrow> nat" where
  "poll_requests [] = 0"
| "poll_requests (r # rs) = Suc (if undecided r then poll_requests rs else 0)"

lemma run_bind_DONE_iff: "run_bind x f = DONE y \<longleftrightarrow> (\<exists>v. x = DONE v \<and> f v = DONE y)"
  by (cases x) simp_all

lemma run_bind_WAITS_iff: "run_bind x f = WAITS \<longleftrightarrow> x = WAITS \<or> (\<exists>v. x = DONE v \<and> f v = WAITS)"
  by (cases x) simp_all

lemma run_of_simps [simp]: "run_of None = UNDEFINED" "run_of (Some v) = DONE v" "run_of x \<noteq> WAITS"
  "run_of x = DONE v \<longleftrightarrow> x = Some v"
  by (simp_all add: run_of_def split: option.splits)

text \<open>The poll sends its question once per reply and changes nothing else.\<close>

definition asked :: "nat \<Rightarrow> ovsdb \<Rightarrow> ovsdb" where
  "asked k st = st\<lparr>ov_sent := ov_sent st @ replicate k SYSTEM_OVSDB_CUR_CFG_INFO_JSON\<rparr>"

lemma asked_Suc: "asked k (send_transaction SYSTEM_OVSDB_CUR_CFG_INFO_JSON st) = asked (Suc k) st"
  by (simp add: asked_def send_transaction_def)

lemma poll_state:
  assumes "poll_cur_cfg rs st = DONE (res, st')"
  shows "st' = asked (poll_requests rs) st"
  using assms
proof (induction rs arbitrary: st)
  case (Cons r rs)
  show ?case
  proof (cases "poll_verdict r")
    case None
    then have "poll_cur_cfg rs (send_transaction SYSTEM_OVSDB_CUR_CFG_INFO_JSON st) = DONE (res, st')"
      using Cons.prems by (simp add: poll_Cons Let_def del: poll_cur_cfg.simps(2))
    then have "st' = asked (poll_requests rs) (send_transaction SYSTEM_OVSDB_CUR_CFG_INFO_JSON st)" by (rule Cons.IH)
    then show ?thesis using None by (simp add: undecided_def asked_Suc)
  next
    case (Some v)
    then show ?thesis using Cons.prems
      by (cases v) (simp_all add: poll_Cons Let_def undecided_def asked_def send_transaction_def del: poll_cur_cfg.simps(2))
  qed
qed simp

section \<open>Sizes of the buffers\<close>

text \<open>A loop over the ports writes nothing outside the array exactly when there are no more ports
  than rows.\<close>

lemma each_ports_exact:
  assumes "\<And>p d'. 1 \<le> p \<Longrightarrow> p \<le> length d \<Longrightarrow> length d' = length d \<Longrightarrow> (\<forall>i<length d. p - 1 \<le> i \<longrightarrow> d' ! i = d ! i)
      \<Longrightarrow> f p d' = Some (at_cell (p - 1) (g p) d')"
    "\<And>d'. length d' = length d \<Longrightarrow> f (Suc (length d)) d' = None"
  shows "each f [1..<Suc n] d = (if n \<le> length d then Some (fill n (\<lambda>i. g (Suc i)) d) else None)"
proof (cases "n \<le> length d")
  case True
  have "each f [1..<Suc n] d = Some (fill n (\<lambda>i. g (Suc i)) d)"
    using assms(1) True by (intro each_ports) simp_all
  then show ?thesis using True by (simp del: upt_Suc)
next
  case False
  then have split: "[1..<Suc n] = [1..<Suc (length d)] @ Suc (length d) # [Suc (Suc (length d))..<Suc n]"
    using upt_add_eq_append [of 1 "Suc (length d)" "n - length d"] by (simp add: upt_conv_Cons)
  have "each f [1..<Suc (length d)] d = Some (fill (length d) (\<lambda>i. g (Suc i)) d)"
    using assms(1) by (intro each_ports) simp_all
  then show ?thesis using False assms(2) unfolding split by (simp add: each_append del: upt_Suc)
qed

lemma grid_ports:
  assumes "\<forall>r\<in>set d. m \<le> length r" "0 < m"
  shows "each (\<lambda>port. each (\<lambda>j. write_grid (port - 1) j (g j)) [0..<m]) [1..<Suc n] d =
    (if n \<le> length d then Some (fill n (\<lambda>i. fill m g) d) else None)"
proof (rule each_ports_exact)
  fix p and d' :: "'a list list"
  assume p: "1 \<le> p" "p \<le> length d" and d': "length d' = length d" "\<forall>i<length d. p - 1 \<le> i \<longrightarrow> d' ! i = d ! i"
  then have "p - 1 < length d" by linarith
  then have "d' ! (p - 1) = d ! (p - 1)" "p - 1 < length d'" using d' by simp_all
  then show "each (\<lambda>j. write_grid (p - 1) j (g j)) [0..<m] d' = Some (at_cell (p - 1) (fill m g) d')"
    using assms(1) \<open>p - 1 < length d\<close> by (intro each_row) simp_all
next
  fix d' :: "'a list list"
  assume "length d' = length d"
  then show "each (\<lambda>j. write_grid (Suc (length d) - 1) j (g j)) [0..<m] d' = None"
    using assms(2) by (simp add: upt_conv_Cons write_grid_def)
qed


text \<open>Rows of eight cells in one array.\<close>

lemma flat_row:
  assumes "a + m \<le> length d"
  shows "each (\<lambda>c. write_at (a + c) (g (a + c))) [0..<m] (fill a g d) = Some (fill (a + m) g d)"
  using assms by (induction m) (simp_all add: each_append write_at_def fill_Suc)

lemma flat_ports:
  assumes "n * m \<le> length d"
  shows "each (\<lambda>port. each (\<lambda>c. write_at ((port - 1) * m + c) (g ((port - 1) * m + c))) [0..<m]) [1..<Suc n] d =
    Some (fill (n * m) g d)"
  using assms
proof (induction n)
  case (Suc n)
  have "[1..<Suc (Suc n)] = [1..<Suc n] @ [Suc n]" by simp
  then show ?case using Suc flat_row [of "n * m" m d g] by (simp add: each_append add.commute)
qed simp

text \<open>The defaults for n ports.\<close>

definition default_max_buf :: "platform_buffers \<Rightarrow> nat \<Rightarrow> max_buf_snapshot" where
  "default_max_buf bf n = \<lparr>
     max_device = of_int (SB_BRCM_BST_STAT_ID_DEVICE_DEFAULT bf),
     max_iPortPg = fill n (\<lambda>_. fill 8 (\<lambda>_ c. c\<lparr>
        ippg_umShareMaxBuf := of_int (SB_BRCM_BST_STAT_ID_PRI_GROUP_SHARED_DEFAULT bf),
        ippg_umHeadroomMaxBuf := of_int (SB_BRCM_BST_STAT_ID_PRI_GROUP_HEADROOM_DEFAULT bf)\<rparr>)) (max_iPortPg zero_max_buf),
     max_iPortSp = fill n (\<lambda>_. fill 4 (\<lambda>_ _. of_int (SB_BRCM_BST_STAT_ID_PORT_POOL_DEFAULT bf))) (max_iPortSp zero_max_buf),
     max_iSp = fill 4 (\<lambda>_ _. of_int (SB_BRCM_BST_STAT_ID_ING_POOL_DEFAULT bf)) (max_iSp zero_max_buf),
     max_ePortSp = fill n (\<lambda>_. fill 4 (\<lambda>_ c. c\<lparr>
        epsp_ucShareMaxBuf := of_int (SB_BRCM_BST_STAT_ID_EGR_UCAST_PORT_SHARED_DEFAULT bf),
        epsp_umShareMaxBuf := of_int (SB_BRCM_BST_STAT_ID_EGR_PORT_SHARED_DEFAULT bf),
        epsp_mcShareMaxBuf := of_int (SB_BRCM_BST_STAT_ID_EGR_MCAST_PORT_SHARED_DEFAULT bf)\<rparr>)) (max_ePortSp zero_max_buf),
     max_eSp = fill 4 (\<lambda>_ c. c\<lparr>esp_umShareMaxBuf := of_int (SB_BRCM_BST_STAT_ID_EGR_POOL_DEFAULT bf),
        esp_mcShareMaxBuf := of_int (SB_BRCM_BST_STAT_ID_EGR_MCAST_POOL_DEFAULT bf)\<rparr>) (max_eSp zero_max_buf),
     max_eUcQ = fill (n * 8) (\<lambda>_ _. of_int (SB_BRCM_BST_STAT_ID_UCAST_DEFAULT bf)) (max_eUcQ zero_max_buf),
     max_eUcQg = replicate 128 (of_int (SB_BRCM_BST_STAT_ID_UCAST_GROUP_DEFAULT bf)),
     max_eMcQ = fill (n * 8) (\<lambda>_ _. of_int (SB_BRCM_BST_STAT_ID_MCAST_DEFAULT bf)) (max_eMcQ zero_max_buf),
     max_cpqQ = replicate 8 (of_int (SB_BRCM_BST_STAT_ID_CPU_DEFAULT bf)),
     max_rqeQ = replicate 11 (of_int (SB_BRCM_BST_STAT_ID_RQE_QUEUE_DEFAULT bf))\<rparr>"

lemma fill_all: "fill n (\<lambda>_ _. v) (replicate n w) = replicate n v"
  by (rule nth_equalityI) simp_all

lemma port_default_lists:
  assumes "unsigned_count (numPorts (asic_params a st)) = n"
  shows "sbplugin_system_default_ippg_max_buf_data_get bf a st (max_iPortPg zero_max_buf) =
      (if n \<le> 130 then Some (max_iPortPg (default_max_buf bf n)) else None)"
    "sbplugin_system_default_ipsp_max_buf_data_get bf a st (max_iPortSp zero_max_buf) =
      (if n \<le> 130 then Some (max_iPortSp (default_max_buf bf n)) else None)"
    "sbplugin_system_default_epsp_max_buf_data_get bf a st (max_ePortSp zero_max_buf) =
      (if n \<le> 130 then Some (max_ePortSp (default_max_buf bf n)) else None)"
    "n \<le> 130 \<Longrightarrow> sbplugin_system_default_eucq_max_buf_data_get bf a st (max_eUcQ zero_max_buf) =
      Some (max_eUcQ (default_max_buf bf n))"
    "n \<le> 130 \<Longrightarrow> sbplugin_system_default_emcq_max_buf_data_get bf a st (max_eMcQ zero_max_buf) =
      Some (max_eMcQ (default_max_buf bf n))"
  using assms grid_ports [of "max_iPortPg zero_max_buf" 8] grid_ports [of "max_iPortSp zero_max_buf" 4]
    grid_ports [of "max_ePortSp zero_max_buf" 4] flat_ports [of n 8 "max_eUcQ zero_max_buf"] flat_ports [of n 8 "max_eMcQ zero_max_buf"]
  by (simp_all add: sbplugin_system_default_ippg_max_buf_data_get_def sbplugin_system_default_ipsp_max_buf_data_get_def
      sbplugin_system_default_epsp_max_buf_data_get_def sbplugin_system_default_eucq_max_buf_data_get_def
      sbplugin_system_default_emcq_max_buf_data_get_def port_iter_def default_max_buf_def zero_max_buf_def
      asic_max_defs BVIEW_SYSTEM_NUM_COS_PORT_def del: upt_Suc)

lemma plain_default_lists:
  "sbplugin_system_default_isp_max_buf_data_get bf a (max_iSp zero_max_buf) = Some (max_iSp (default_max_buf bf n))"
  "sbplugin_system_default_esp_max_buf_data_get bf a (max_eSp zero_max_buf) = Some (max_eSp (default_max_buf bf n))"
  "sbplugin_system_default_eucqg_max_buf_data_get bf a (max_eUcQg zero_max_buf) = Some (max_eUcQg (default_max_buf bf n))"
  "sbplugin_system_default_cpuq_max_buf_data_get bf a (max_cpqQ zero_max_buf) = Some (max_cpqQ (default_max_buf bf n))"
  "sbplugin_system_default_rqeq_max_buf_data_get bf a (max_rqeQ zero_max_buf) = Some (max_rqeQ (default_max_buf bf n))"
  by (simp_all add: sbplugin_system_default_isp_max_buf_data_get_def sbplugin_system_default_esp_max_buf_data_get_def
      sbplugin_system_default_eucqg_max_buf_data_get_def sbplugin_system_default_cpuq_max_buf_data_get_def
      sbplugin_system_default_rqeq_max_buf_data_get_def default_max_buf_def zero_max_buf_def asic_max_defs each_fill fill_all)

lemma max_buf_defaults_exact:
  "sbplugin_system_max_buf_defaults_get bf a st zero_max_buf =
    (let n = unsigned_count (numPorts (asic_params a st)) in
     if n \<le> BVIEW_ASIC_MAX_PORTS then Some (default_max_buf bf n) else None)"
  using port_default_lists [where bf = bf, OF HOL.refl [of "unsigned_count (numPorts (asic_params a st))"]]
    plain_default_lists [of bf a "unsigned_count (numPorts (asic_params a st))"]
  by (simp add: sbplugin_system_max_buf_defaults_get_def sbplugin_system_default_device_max_buf_data_get_def Let_def
      BVIEW_ASIC_MAX_PORTS_def) (simp add: default_max_buf_def)

section \<open>The silicon after the start\<close>

text \<open>The variables of both plugins before the start: all zero.\<close>

definition booted :: "ovsdb \<Rightarrow> bool" where
  "booted st = (length (asicDb st) = 1 \<and> sbMaxBufSnapshot st = [zero_max_buf] \<and> bst_cache st = [zero_stat_db])"

lemma asicinfo_state:
  assumes "system_ovsdb_common_get_asicinfo polls info k st = DONE (rv, n, st1)"
  shows "\<exists>ts. st1 = st\<lparr>ov_sent := ov_sent st @ ts\<rparr>"
proof (cases "ov_opens st")
  case False
  then have "st1 = st\<lparr>ov_sent := ov_sent st @ []\<rparr>" using assms by (simp add: system_ovsdb_common_get_asicinfo_def)
  then show ?thesis by blast
next
  case True
  then obtain res st2 where p: "poll_cur_cfg polls st = DONE (res, st2)"
    and r: "(case res of Inl e \<Rightarrow> DONE (e, k, st2) | Inr _ \<Rightarrow>
        (let st3 = send_transaction SYSTEM_OVSDB_ASIC_INFO_JSON st2 in
         case info of NO_REPLY \<Rightarrow> DONE (BVIEW_STATUS_INVALID_PARAMETER, k, st3)
         | OTHER_MESSAGE \<Rightarrow> UNDEFINED
         | REPLY j \<Rightarrow> run_bind (other_info_ports j k) (\<lambda>(rv, n). DONE (rv, n, st3)))) = DONE (rv, n, st1)"
    using assms by (auto simp: system_ovsdb_common_get_asicinfo_def run_bind_DONE_iff)
  have "st1 = st2 \<or> st1 = send_transaction SYSTEM_OVSDB_ASIC_INFO_JSON st2"
    using r by (auto simp: run_bind_DONE_iff Let_def split: sum.split_asm ovs_reply.split_asm)
  then show ?thesis using poll_state [OF p] by (auto simp: asked_def send_transaction_def)
qed

lemma unsigned_count_0: "unsigned_count n = 0 \<longleftrightarrow> n mod 2 ^ 32 = 0"
  using pos_mod_sign [of "2 ^ 32" n] by (auto simp: unsigned_count_def)

text \<open>What the start does once the number of ports is known, whatever it is.\<close>

lemma system_init_ports:
  assumes "booted st" "system_ovsdb_common_get_asicinfo polls info 0 st = DONE (rv, n, st1)"
  shows "sbplugin_ovsdb_system_init env polls info st =
    (let m = unsigned_count n in
     if m = 0 then DONE (Inl BVIEW_STATUS_FAILURE, st1)
     else if m \<le> BVIEW_ASIC_MAX_PORTS
     then DONE (Inr (ovsdb_system_feature env (ovsdb_asic env n)),
                st1\<lparr>asicDb := [ovsdb_asic env n], sbMaxBufSnapshot := [default_max_buf (env_buffers env) m]\<rparr>)
     else UNDEFINED)"
proof -
  obtain ts where st1: "st1 = st\<lparr>ov_sent := ov_sent st @ ts\<rparr>" using asicinfo_state [OF assms(2)] by blast
  obtain a0 where a0: "asicDb st1 = [a0]" using assms(1) st1 by (auto simp: booted_def length_Suc_conv)
  have max: "sbMaxBufSnapshot st1 = [zero_max_buf]" using assms(1) st1 by (simp add: booted_def)
  let ?a = "sbplugin_ovsdb_system_util_td2_init (a0\<lparr>scalingParams := (scalingParams a0)\<lparr>numPorts := n\<rparr>,
      asic_unit := 0, asic_type := sbplugin_ovsdb_system_util_chip_type_get env\<rparr>)"
  have a: "?a = ovsdb_asic env n"
    by (cases a0; cases "scalingParams a0") (simp add: sbplugin_ovsdb_system_util_td2_init_def ovsdb_asic_def)
  have ports: "numPorts (asic_params 0 (st1\<lparr>asicDb := [ovsdb_asic env n]\<rparr>)) = n"
    by (simp add: asic_params_def ovsdb_asic_def)
  show ?thesis using assms(2) a ports
    by (simp add: sbplugin_ovsdb_system_init_def unsigned_count_0 a0 max sbplugin_system_max_buf_update_def max_buf_defaults_exact Let_def)
qed

text \<open>The replies of a database that has configured the switch, and one that knows its number of
  interfaces.\<close>

definition cur_cfg_reply :: "int \<Rightarrow> ovs_reply" where
  "cur_cfg_reply k = REPLY (JSON_ARRAY [JSON_OBJECT [(''rows'', JSON_ARRAY [JSON_OBJECT [(''cur_cfg'', JSON_INTEGER k)]])]])"

definition interfaces_reply :: "int \<Rightarrow> ovs_reply" where
  "interfaces_reply n = REPLY (JSON_ARRAY [JSON_OBJECT [(''rows'', JSON_ARRAY [JSON_OBJECT [(''other_info'',
     JSON_ARRAY [JSON_STRING ''map'', JSON_ARRAY [JSON_ARRAY [JSON_STRING ''interface_count'', JSON_STRING (fmt_d n)]]])]])]])"

lemma interfaces_answer:
  assumes "interfaces_reply n = REPLY j"
  shows "other_info_ports j k = DONE (BVIEW_STATUS_SUCCESS, n)"
  using assms by (auto simp: interfaces_reply_def other_info_ports_def first_rows_def row_member_def atoi_fmt_d)

lemma asicinfo_interfaces:
  assumes "system_ovsdb_common_get_asicinfo polls (interfaces_reply n) 0 st = DONE (rv, k, st1)"
  shows "rv = BVIEW_STATUS_SUCCESS \<and> k = n \<or> k = 0"
proof -
  obtain j where j: "interfaces_reply n = REPLY j" by (simp add: interfaces_reply_def)
  show ?thesis using assms interfaces_answer [OF j]
    by (auto simp: system_ovsdb_common_get_asicinfo_def run_bind_DONE_iff j Let_def split: if_split_asm sum.split_asm)
      (metis sum.exhaust unit.exhaust)+
qed

lemma unsigned_ports:
  assumes "c_int n"
  shows "unsigned_count n \<noteq> 0 \<and> unsigned_count n \<le> BVIEW_ASIC_MAX_PORTS \<longleftrightarrow> 1 \<le> n \<and> n \<le> int BVIEW_ASIC_MAX_PORTS"
proof (cases "0 \<le> n")
  case True
  then show ?thesis using assms by (auto simp: c_int_def unsigned_count_small BVIEW_ASIC_MAX_PORTS_def)
next
  case False
  then have "n mod 2 ^ 32 = n + 2 ^ 32" using assms mod_pos_pos_trivial [of "n + 2 ^ 32" "2 ^ 32"] by (simp add: c_int_def)
  then show ?thesis using False assms by (simp add: unsigned_count_def c_int_def BVIEW_ASIC_MAX_PORTS_def)
qed

section \<open>The plugin as the agent sees it\<close>

definition ovsdb_plugin :: "ovsdb_env \<Rightarrow> int \<Rightarrow> ovsdb sb_plugin" where
  "ovsdb_plugin env n = (let s = ovsdb_system_feature env (ovsdb_asic env n) in
     \<lparr>numSupportedFeatures = 2,
      featureList = [Some (SB_SYSTEM (s\<lparr>featureMask := featureMask s OR int BVIEW_FEATURE_BST\<rparr>)),
                     Some (SB_BST (ovsdb_bst_feature (env_platform env)))]
        @ replicate (BVIEW_SBPLUGIN_MAX_FEATURES - 2) None\<rparr>)"

lemma ovsdb_plugin_registers:
  "sb_plugin_register (ovsdb_plugin env n) sb_redirector_init =
    (BVIEW_STATUS_SUCCESS, \<lparr>plugin_isInUse = True, sbPlugin = ovsdb_plugin env n\<rparr> # replicate 7 zero_plugin_entry)"
  by (simp add: sb_plugin_register_def sb_plugin_validate_def ovsdb_plugin_def
      sb_redirector_init_def BVIEW_MAX_SUPPORTED_SB_PLUGINS_def BVIEW_SBPLUGIN_MAX_FEATURES_def
      system_feature_ok_def ovsdb_system_feature_def BVIEW_MAX_ASICS_ON_A_PLATFORM_def zero_plugin_entry_def Let_def
      numeral_eq_Suc)


definition ovsdb_registered :: "ovsdb_env \<Rightarrow> int \<Rightarrow> ovsdb plugin_entry list" where
  "ovsdb_registered env n = \<lparr>plugin_isInUse = True, sbPlugin = ovsdb_plugin env n\<rparr> # replicate 7 zero_plugin_entry"

lemma zero_entries_invisible: "visible_features (replicate k zero_plugin_entry) fid = []"
proof -
  have "concat (map plugin_features (replicate k zero_plugin_entry)) = []" by (induction k) simp_all
  then show ?thesis by (simp add: visible_features_def)
qed

lemma ovsdb_visible:
  "visible_features (ovsdb_registered env n) BVIEW_FEATURE_SYSTEM =
     [SB_SYSTEM (ovsdb_system_feature env (ovsdb_asic env n)\<lparr>featureMask :=
        featureMask (ovsdb_system_feature env (ovsdb_asic env n)) OR int BVIEW_FEATURE_BST\<rparr>)]"
  "visible_features (ovsdb_registered env n) BVIEW_FEATURE_BST = [SB_BST (ovsdb_bst_feature (env_platform env))]"
  unfolding ovsdb_registered_def visible_features_Cons [of _ "replicate 7 zero_plugin_entry"] zero_entries_invisible
  by (simp_all add: visible_features_def plugin_features_def ovsdb_plugin_def Let_def
      BVIEW_FEATURE_SYSTEM_def BVIEW_FEATURE_BST_def)

lemma ovsdb_system_handle:
  obtains m where "\<And>t. sb_system_handle (ovsdb_registered env n) t =
    Some (ovsdb_system_feature env (ovsdb_asic env n)\<lparr>featureMask := m\<rparr>)"
proof -
  have "sb_system_handle (ovsdb_registered env n) t =
      Some (ovsdb_system_feature env (ovsdb_asic env n)\<lparr>featureMask :=
        featureMask (ovsdb_system_feature env (ovsdb_asic env n)) OR int BVIEW_FEATURE_BST\<rparr>)" for t
    by (simp add: sb_system_handle_def handle_get_best ovsdb_visible catch_all_def ovsdb_system_feature_def)
  then show thesis by (rule that)
qed

lemma chip_type: "sbplugin_ovsdb_system_util_chip_type_get env \<in> {BVIEW_ASIC_TYPE_TH, BVIEW_ASIC_TYPE_TD2}"
  by (simp add: sbplugin_ovsdb_system_util_chip_type_get_def)

lemma ovsdb_unit_type:
  "sbapi_system_unit_to_asic_type_get (ovsdb_registered env n) 0 = Inr (sbplugin_ovsdb_system_util_chip_type_get env)"
proof -
  obtain m where "\<And>t. sb_system_handle (ovsdb_registered env n) t =
      Some (ovsdb_system_feature env (ovsdb_asic env n)\<lparr>featureMask := m\<rparr>)"
    using ovsdb_system_handle [of env n] by blast
  then show ?thesis
    by (simp add: sbapi_system_unit_to_asic_type_get_def ovsdb_system_feature_def is_unit_def ovsdb_asic_def)
qed

lemma ovsdb_unit_feature:
  "unit_bst_feature (ovsdb_registered env n) 0 = Some (ovsdb_bst_feature (env_platform env))"
  using chip_type [of env]
  by (auto simp: unit_bst_feature_def ovsdb_unit_type sb_bst_handle_def handle_get_best ovsdb_visible
      catch_all_def serves_asic_def ovsdb_bst_feature_def BVIEW_BST_SUPPORT_MASK_def
      BVIEW_ASIC_TYPE_ALL_def BVIEW_ASIC_TYPE_TD2_def BVIEW_ASIC_TYPE_TH_def)

lemma ovsdb_num_ports: "sbapi_system_asic_num_ports_get (ovsdb_registered env n) 0 = Inr n"
proof -
  obtain m where "\<And>t. sb_system_handle (ovsdb_registered env n) t =
      Some (ovsdb_system_feature env (ovsdb_asic env n)\<lparr>featureMask := m\<rparr>)"
    using ovsdb_system_handle [of env n] by blast
  then show ?thesis
    by (simp add: sbapi_system_asic_num_ports_get_def sb_capability_get_def ovsdb_unit_type
        sb_redirect_asic_capabilities_get_def ovsdb_system_feature_def) (simp add: ovsdb_asic_def)
qed

text \<open>A start that succeeds registers the plugin, and leaves the state the functions of the plugin rely
  on.\<close>

lemma zero_cache_ok: "bst_cache st = [zero_stat_db] \<Longrightarrow> cache_ok st"
  by (simp add: cache_ok_def zero_stat_db_def BVIEW_MAX_ASICS_ON_A_PLATFORM_def)

lemma cache_ok_update [simp]:
  "cache_ok (st\<lparr>monitor_init_done_sem := k\<rparr>) = cache_ok st"
  "cache_ok (send_transaction t st) = cache_ok st"
  "cache_ok (st\<lparr>asicDb := a, sbMaxBufSnapshot := m\<rparr>) = cache_ok st"
  "cache_ok (st\<lparr>ov_sent := ts\<rparr>) = cache_ok st"
  by (simp_all add: cache_ok_def send_transaction_def)

lemma monitor_keeps:
  assumes "bst_ovsdb_monitor pf ok msgs st = Some st'" "cache_ok st"
  shows "asicDb st' = asicDb st \<and> cache_ok st'"
proof -
  have m: "asicDb y = asicDb x \<and> (cache_ok x \<longrightarrow> cache_ok y)" if "monitor_messages pf ms x = Some y" for ms x y
    using frame.R_messages [OF that] keeps_cache.R_messages [OF that] by (simp add: monitor_frame_def)
  show ?thesis using assms m [of msgs "send_transaction BST_JSON_MONITOR_BUFMON st" st']
    by (auto simp: bst_ovsdb_monitor_def Let_def send_transaction_def split: if_split_asm)
qed

lemma bst_init_keeps:
  assumes "sbplugin_ovsdb_bst_init pf os msgs st = Some (Inr b, st')" "cache_ok st"
  shows "b = ovsdb_bst_feature pf \<and> asicDb st' = asicDb st \<and> cache_ok st'"
proof -
  obtain st1 where b: "b = ovsdb_bst_feature pf"
    and m: "bst_ovsdb_monitor pf (send_monitor_ok os) msgs (st\<lparr>monitor_init_done_sem := 0\<rparr>) = Some st1"
    and st': "st' = st1\<lparr>monitor_init_done_sem := monitor_init_done_sem st1 - 1\<rparr>"
    using assms(1)
    by (auto simp: sbplugin_ovsdb_bst_init_def sbplugin_ovsdb_bst_infra_init_def bst_ovsdb_client_init_def
        bind_eq_Some_conv split: if_split_asm)
  show ?thesis using monitor_keeps [OF m] assms(2) b st' by simp
qed

lemma common_init_registers:
  assumes "booted st" "c_int n"
    "sbplugin_common_init env os polls (interfaces_reply n) msgs sb_redirector_init st =
       DONE (BVIEW_STATUS_SUCCESS, ps, st')"
  shows "ps = ovsdb_registered env n \<and> fits env n st' \<and> cache_ok st'"
proof -
  obtain sys st1 where sys: "sbplugin_ovsdb_system_init env polls (interfaces_reply n) st = DONE (sys, st1)"
    using assms(3) by (auto simp: sbplugin_common_init_def run_bind_DONE_iff)
  then obtain rv k st0 where info: "system_ovsdb_common_get_asicinfo polls (interfaces_reply n) 0 st = DONE (rv, k, st0)"
    by (auto simp: sbplugin_ovsdb_system_init_def run_bind_DONE_iff)
  have "sys \<noteq> Inl e" if "e \<noteq> BVIEW_STATUS_FAILURE" for e
    using sys that unfolding system_init_ports [OF assms(1) info] by (auto simp: Let_def split: if_split_asm)
  moreover have "sys \<noteq> Inl BVIEW_STATUS_FAILURE" using assms(3) sys by (auto simp: sbplugin_common_init_def)
  ultimately have some: "\<And>e. sys \<noteq> Inl e" by blast
  then have k0: "unsigned_count k \<noteq> 0" and fit: "unsigned_count k \<le> BVIEW_ASIC_MAX_PORTS"
    and feature: "sys = Inr (ovsdb_system_feature env (ovsdb_asic env k))"
    and st1: "asicDb st1 = [ovsdb_asic env k]" "cache_ok st1 = cache_ok st0"
    using sys unfolding system_init_ports [OF assms(1) info] by (auto simp: Let_def split: if_split_asm)
  have "k = n" using asicinfo_interfaces [OF info] k0 by (auto simp: unsigned_count_def)
  have "cache_ok st1" using st1(2) asicinfo_state [OF info] assms(1) zero_cache_ok [of st] by (auto simp: booted_def)
  obtain bst st2 where bst: "sbplugin_ovsdb_bst_init (env_platform env) os msgs st1 = Some (bst, st2)"
    using assms(3) sys feature by (auto simp: sbplugin_common_init_def run_bind_DONE_iff)
  note end_of = assms(3) [unfolded sbplugin_common_init_def, simplified sys feature bst, simplified]
  show ?thesis
  proof (cases bst)
    case (Inl rv)
    then show ?thesis using end_of bst
      by (auto simp: sbplugin_ovsdb_bst_init_def bind_eq_Some_conv split: if_split_asm)
  next
    case (Inr b)
    have b: "b = ovsdb_bst_feature (env_platform env)" and st2: "asicDb st2 = asicDb st1" "cache_ok st2"
      using bst_init_keeps [OF bst [unfolded Inr] \<open>cache_ok st1\<close>] by blast+
    have "sb_plugin_register (ovsdb_plugin env n) sb_redirector_init = (BVIEW_STATUS_SUCCESS, ps)" "st' = st2"
      using end_of bst Inr b \<open>k = n\<close> by (simp_all add: ovsdb_plugin_def Let_def split: prod.split_asm)
    then show ?thesis using st2 st1(1) k0 fit \<open>k = n\<close> unsigned_ports [OF assms(2)]
      by (simp add: ovsdb_plugin_registers ovsdb_registered_def fits_def)
  qed
qed

section \<open>When the start returns\<close>

lemma poll_after_undecided:
  "list_all undecided us \<Longrightarrow> poll_cur_cfg (us @ rs) st = poll_cur_cfg rs (asked (length us) st)"
proof (induction us arbitrary: st)
  case (Cons u us)
  then have "poll_verdict u = None" by (simp add: undecided_def split: option.split_asm)
  then show ?case using Cons by (simp add: poll_Cons Let_def asked_Suc del: poll_cur_cfg.simps(2))
qed (simp add: asked_def)

lemma poll_configured:
  assumes "k mod 2 ^ 32 \<noteq> 0"
  shows "poll_cur_cfg (cur_cfg_reply k # rs) st = DONE (Inr (), asked 1 st)"
  using assms by (simp add: cur_cfg_reply_def first_rows_def row_member_def asked_def send_transaction_def)

lemma asicinfo_known:
  assumes "ov_opens st" "list_all undecided us" "k mod 2 ^ 32 \<noteq> 0"
  shows "system_ovsdb_common_get_asicinfo (us @ cur_cfg_reply k # rs) (interfaces_reply n) m st =
    DONE (BVIEW_STATUS_SUCCESS, n, send_transaction SYSTEM_OVSDB_ASIC_INFO_JSON (asked (Suc (length us)) st))"
proof -
  obtain j where j: "interfaces_reply n = REPLY j" by (simp add: interfaces_reply_def)
  have "asked 1 (asked (length us) st) = asked (Suc (length us)) st"
    by (simp add: asked_def replicate_append_same)
  then show ?thesis using assms interfaces_answer [OF j]
    by (simp add: system_ovsdb_common_get_asicinfo_def poll_after_undecided poll_configured [OF assms(3)] j Let_def
        del: poll_cur_cfg.simps(2))
qed

lemma interface_count_answers: "interface_count es n \<noteq> WAITS"
  by (induction es) (auto simp: run_bind_WAITS_iff split: ovs_json.splits list.splits)

lemma other_info_answers: "other_info_ports j n \<noteq> WAITS"
proof -
  have "run_bind (run_of (json_text m)) (\<lambda>t. case a of
      JSON_ARRAY es \<Rightarrow> if t = ''map'' then interface_count es n else DONE (BVIEW_STATUS_FAILURE, n)
    | _ \<Rightarrow> DONE (BVIEW_STATUS_FAILURE, n)) \<noteq> WAITS" for m a
    by (auto simp: run_bind_WAITS_iff interface_count_answers split: ovs_json.splits)
  then show ?thesis
    by (auto simp: other_info_ports_def run_bind_WAITS_iff first_rows_answers
        split: sum.splits list.splits option.splits ovs_json.splits)
qed

lemma asicinfo_waits_iff:
  "system_ovsdb_common_get_asicinfo polls info n st = WAITS \<longleftrightarrow> ov_opens st \<and> list_all undecided polls"
  using poll_waits_iff [of polls st] other_info_answers
  by (auto simp: system_ovsdb_common_get_asicinfo_def run_bind_WAITS_iff Let_def split: sum.splits ovs_reply.splits)
      (metis sum.exhaust unit.exhaust ovs_reply.exhaust)+

lemma common_init_waits_iff:
  "sbplugin_common_init env os polls info msgs ps st = WAITS \<longleftrightarrow> ov_opens st \<and> list_all undecided polls"
proof -
  have s: "sbplugin_ovsdb_system_init env polls info st = WAITS \<longleftrightarrow> ov_opens st \<and> list_all undecided polls"
    using asicinfo_waits_iff [of polls info 0 st]
    by (auto simp: sbplugin_ovsdb_system_init_def run_bind_WAITS_iff Let_def split: if_splits)
  show ?thesis unfolding sbplugin_common_init_def run_bind_WAITS_iff s
    by (auto simp: run_bind_WAITS_iff Let_def split: sum.splits prod.splits) (metis sum.exhaust)+
qed

end
