(* ===== verification/Ovs_Run.thy ===== *)
theory Ovs_Run
  imports Ovs_Threshold_Laws Ovs_System_Laws
begin

text \<open>The OVSDB plugin at work: a step relation of what can happen to it once it has started - a message of
  the database, a call of the agent, a change of the world outside - and the invariant its functions rely
  on. Then what its configuration functions and its threshold functions promise.\<close>

section \<open>Steps\<close>

text \<open>The threshold functions are all calls of set_thresholds; the reading functions change
  nothing.\<close>

inductive ovs_step :: "platform \<Rightarrow> ovsdb \<Rightarrow> ovsdb \<Rightarrow> bool" for pf where
  message: "monitor_message pf m st = Some st' \<Longrightarrow> ovs_step pf st st'"
| configure: "sbplugin_ovsdb_bst_config_set asic c st = (rv, r, st') \<Longrightarrow> ovs_step pf st st'"
| thresholds: "set_thresholds pf asic refused port index counters st = (rv, r, st') \<Longrightarrow> ovs_step pf st st'"
| clear_stats: "sbplugin_ovsdb_bst_clear_stats asic st = (rv, r, st') \<Longrightarrow> ovs_step pf st st'"
| clear_thresholds: "sbplugin_ovsdb_bst_clear_thresholds asic st = (rv, r, st') \<Longrightarrow> ovs_step pf st st'"
| register: "sbplugin_ovsdb_bst_register_trigger asic callback cookie st = (rv, r, st') \<Longrightarrow> ovs_step pf st st'"
| world: "ovs_step pf st (st\<lparr>ov_opens := opens, ov_clock := t, ov_hwaddr := hw, ov_ipaddr := ip\<rparr>)"

definition ovs_runs :: "platform \<Rightarrow> ovsdb \<Rightarrow> ovsdb \<Rightarrow> bool" where
  "ovs_runs pf = rtranclp (ovs_step pf)"

text \<open>What every step keeps.\<close>

definition same_silicon :: "ovsdb \<Rightarrow> ovsdb \<Rightarrow> bool" where
  "same_silicon st st' = (asicDb st' = asicDb st \<and> sbMaxBufSnapshot st' = sbMaxBufSnapshot st \<and>
     (cache_ok st \<longrightarrow> cache_ok st'))"

lemma same_silicon_refl: "same_silicon st st"
  by (simp add: same_silicon_def)

lemma same_silicon_trans: "same_silicon x y \<Longrightarrow> same_silicon y z \<Longrightarrow> same_silicon x z"
  by (simp add: same_silicon_def)

text \<open>The calls of the agent leave the cache of the counters alone.\<close>

definition same_counters :: "ovsdb \<Rightarrow> ovsdb \<Rightarrow> bool" where
  "same_counters st st' = (asicDb st' = asicDb st \<and> sbMaxBufSnapshot st' = sbMaxBufSnapshot st \<and>
     bst_cache st' = bst_cache st)"

lemma same_counters_silicon: "same_counters st st' \<Longrightarrow> same_silicon st st'"
  by (simp add: same_counters_def same_silicon_def cache_ok_def)

lemma same_counters_send [simp]:
  "same_counters st (send_transaction t st') = same_counters st st'"
  "same_counters st (st'\<lparr>threshold_session := b\<rparr>) = same_counters st st'"
  "same_counters st (st'\<lparr>config_data := c\<rparr>) = same_counters st st'"
  "same_counters st st"
  by (simp_all add: same_counters_def send_transaction_def)

lemma own_session_counters: "own_session t st = (rv, st') \<Longrightarrow> same_counters st st'"
  by (auto simp: own_session_def split: if_split_asm)

lemma tracking_step_counters: "same_counters st0 (snd s) \<Longrightarrow> same_counters st0 (snd (tracking_step m r s))"
  by (cases s) (simp add: tracking_step_def Let_def)

lemma tracking_steps_counters: "same_counters st0 (snd s) \<Longrightarrow> same_counters st0 (snd (fold (tracking_step m) rs s))"
  by (induction rs arbitrary: s) (simp_all add: tracking_step_counters)

lemma tracking_commit_counters:
  "bst_ovsdb_bst_tracking_commit asic c st = (rv, st') \<Longrightarrow> same_counters st st'"
  using tracking_step_counters [OF tracking_steps_counters [of st "([], st)"]]
  by (auto simp: bst_ovsdb_bst_tracking_commit_def Let_def split: if_split_asm)

lemma same_counters_trans: "same_counters x y \<Longrightarrow> same_counters y z \<Longrightarrow> same_counters x z"
  by (simp add: same_counters_def)

lemma config_commit_counters:
  assumes "bst_ovsdb_bst_config_set asic c st = (rv, st')"
  shows "same_counters st st'"
proof -
  obtain rv1 st1 where c: "bst_ovsdb_bst_config_commit asic c st = (rv1, st1)" by fastforce
  obtain rv2 st2 where t: "bst_ovsdb_bst_tracking_commit asic c st1 = (rv2, st2)" by fastforce
  have "same_counters st st1" using c by (simp add: bst_ovsdb_bst_config_commit_def own_session_counters)
  moreover have "same_counters st st2" using same_counters_trans [OF calculation tracking_commit_counters [OF t]] .
  ultimately show ?thesis using assms c t by (auto simp: bst_ovsdb_bst_config_set_def split: if_split_asm)
qed

lemma config_set_counters:
  assumes "sbplugin_ovsdb_bst_config_set asic c st = (rv, r, st')"
  shows "same_counters st st'"
proof -
  have k: "same_counters st st2" if "bst_ovsdb_cache_bst_config_set asic c' st1 = (rv2, st2)" "same_counters st st1"
    for c' st1 rv2 st2
    using that by (auto simp: bst_ovsdb_cache_bst_config_set_def split: if_split_asm)
  show ?thesis using assms config_commit_counters k
    by (auto simp: sbplugin_ovsdb_bst_config_set_def Let_def split: if_split_asm prod.split_asm)
qed

lemma threshold_commit_counters:
  "bst_ovsdb_threshold_commit pf asic port index bid v st = (rv, st') \<Longrightarrow> same_counters st st'"
  by (auto simp: bst_ovsdb_threshold_commit_def split: sum.split_asm if_split_asm)

lemma set_one_counters: "same_counters st (snd (set_one pf asic port index c st))"
  using threshold_commit_counters
  by (auto simp: set_one_def bst_ovsdb_threshold_set_def split: sum.split prod.split)

lemma set_all_counters: "same_counters st (snd (sweep (set_one pf asic port index) cs st))"
proof (induction cs arbitrary: st)
  case (Cons c cs)
  obtain ok st1 where s: "set_one pf asic port index c st = (ok, st1)" by fastforce
  then have "same_counters st st1" using set_one_counters [of st pf asic port index c] by simp
  then show ?case using s Cons.IH [of st1] same_counters_trans by auto
qed simp

lemma set_thresholds_counters:
  assumes "set_thresholds pf asic refused port index cs st = (rv, r, st')"
  shows "same_counters st st'"
  using assms set_all_counters [of st pf asic port index cs]
  by (auto simp: set_thresholds_def split: if_split_asm prod.split_asm)

lemma step_silicon: "ovs_step pf st st' \<Longrightarrow> same_silicon st st'"
proof (induction rule: ovs_step.induct)
  case (message m st st')
  then show ?case using frame.R_message keeps_cache.R_message by (auto simp: same_silicon_def monitor_frame_def)
next
  case (configure asic c st rv r st')
  then show ?case by (intro same_counters_silicon config_set_counters)
next
  case (thresholds asic refused port index counters st rv r st')
  then show ?case by (intro same_counters_silicon set_thresholds_counters)
next
  case (clear_stats asic st rv r st')
  then have "same_counters st st'"
    by (auto simp: sbplugin_ovsdb_bst_clear_stats_def bst_ovsdb_clear_stats_def bst_ovsdb_clear_stats_commit_def
        split: if_split_asm prod.split_asm dest: own_session_counters)
  then show ?case by (rule same_counters_silicon)
next
  case (clear_thresholds asic st rv r st')
  then have "same_counters st st'"
    by (auto simp: sbplugin_ovsdb_bst_clear_thresholds_def bst_ovsdb_clear_thresholds_def
        bst_ovsdb_clear_thresholds_commit_def split: if_split_asm prod.split_asm dest: own_session_counters)
  then show ?case by (rule same_counters_silicon)
qed (auto simp: same_silicon_def cache_ok_def sbplugin_ovsdb_bst_register_trigger_def bst_ovsdb_bst_register_trigger_def)

lemma runs_silicon: "ovs_runs pf st st' \<Longrightarrow> same_silicon st st'"
  unfolding ovs_runs_def
  by (induction rule: rtranclp.induct) (auto intro: same_silicon_refl same_silicon_trans step_silicon)

lemma runs_fit: "ovs_runs pf st st' \<Longrightarrow> fits env n st \<Longrightarrow> fits env n st'"
  using runs_silicon by (fastforce simp: fits_def same_silicon_def)

lemma runs_cache: "ovs_runs pf st st' \<Longrightarrow> cache_ok st \<Longrightarrow> cache_ok st'"
  using runs_silicon by (fastforce simp: same_silicon_def)

section \<open>The configuration\<close>

text \<open>What the database is told of one realm.\<close>

definition realm_transaction :: "int \<Rightarrow> nat \<Rightarrow> string" where
  "realm_transaction m r =
     (let name = (case bst_ovsdb_realm_name_get r [] of Inl _ \<Rightarrow> [] | Inr n \<Rightarrow> n)
      in if mask_bit m r then BST_JSON_TRACKING_FORMAT_ENABLE name else BST_JSON_TRACKING_FORMAT_DISABLE name)"

lemma realm_name_any_buffer:
  assumes "r \<in> {1..<BVIEW_BST_COUNT}"
  shows "bst_ovsdb_realm_name_get r buf = bst_ovsdb_realm_name_get r []"
proof -
  have "r \<in> {1,2,3,4,5,6,7,8,9,10,11}" using assms by (simp add: BVIEW_BST_COUNT_def del: One_nat_def) presburger
  then show ?thesis by (auto simp: bst_ovsdb_realm_name_get_def realm_id_map_def)
qed

lemma tracking_steps:
  assumes "set rs \<subseteq> {1..<BVIEW_BST_COUNT}"
  shows "snd (fold (tracking_step m) rs (buf, st)) = st\<lparr>ov_sent := ov_sent st @ map (realm_transaction m) rs\<rparr>"
  using assms
proof (induction rs arbitrary: buf st)
  case (Cons r rs)
  have "snd (tracking_step m r (buf, st)) = send_transaction (realm_transaction m r) st"
    using Cons.prems realm_name_any_buffer [of r buf]
    by (auto simp: tracking_step_def realm_transaction_def Let_def bst_ovsdb_realm_name_get_def)
  moreover obtain buf1 st1 where "tracking_step m r (buf, st) = (buf1, st1)" by fastforce
  ultimately show ?case using Cons by (simp add: send_transaction_def)
qed simp


definition all_realm_transactions :: "int \<Rightarrow> string list" where
  "all_realm_transactions m = map (realm_transaction m) ([1..<BVIEW_BST_COUNT] @ [BVIEW_BST_COUNT - 1])"

lemma tracking_commit_sends:
  assumes "ov_opens st"
  shows "bst_ovsdb_bst_tracking_commit asic c st =
    (BVIEW_STATUS_SUCCESS, st\<lparr>ov_sent := ov_sent st @ all_realm_transactions (trackingMask c)\<rparr>)"
proof -
  let ?rs = "[1..<BVIEW_BST_COUNT] @ [BVIEW_BST_COUNT - 1]"
  have "set ?rs \<subseteq> {1..<BVIEW_BST_COUNT}" by (auto simp: BVIEW_BST_COUNT_def)
  then have "snd (fold (tracking_step (trackingMask c)) ?rs ([], st)) =
      st\<lparr>ov_sent := ov_sent st @ map (realm_transaction (trackingMask c)) ?rs\<rparr>"
    by (rule tracking_steps)
  then show ?thesis using assms
    by (simp add: bst_ovsdb_bst_tracking_commit_def all_realm_transactions_def)
qed

text \<open>What the plugin asks of the database for a configuration of the agent.\<close>

definition plugin_config :: "bst_config \<Rightarrow> ovsdb_config" where
  "plugin_config c = \<lparr>bst_enable = enableStatsMonitoring c, bst_tracking_mode = cfg_mode c,
     periodic_collection = enablePeriodicCollection c, collection_interval = collectionPeriod c,
     ovs_bstMaxTriggers = cfg_bstMaxTriggers c, ovs_sendSnapshotOnTrigger = (cfg_sendSnapshotOnTrigger c \<noteq> 0),
     triggerCollectionEnabled = True, trackingMask = cfg_trackMask c, ovs_trackInit = cfg_trackInit c\<rparr>"

definition config_after :: "bst_config \<Rightarrow> ovsdb_config \<Rightarrow> ovsdb_config" where
  "config_after c old = old\<lparr>bst_enable := enableStatsMonitoring c, bst_tracking_mode := cfg_mode c,
     periodic_collection := enablePeriodicCollection c, collection_interval := collectionPeriod c,
     ovs_bstMaxTriggers := cfg_bstMaxTriggers c, ovs_sendSnapshotOnTrigger := (cfg_sendSnapshotOnTrigger c \<noteq> 0),
     trackingMask := (if cfg_trackInit c then trackingMask old else cfg_trackMask c)\<rparr>"

lemma config_set_exact:
  "sbplugin_ovsdb_bst_config_set asic c st =
    (if \<not> unit_known asic st \<or> cfg_mode c \<notin> {BVIEW_BST_MODE_CURRENT, BVIEW_BST_MODE_PEAK}
     then (BVIEW_STATUS_INVALID_PARAMETER, None, st)
     else if \<not> ov_opens st then (BVIEW_STATUS_FAILURE, None, st)
     else (BVIEW_STATUS_SUCCESS, None, st\<lparr>config_data := config_after c (config_data st),
             ov_sent := ov_sent st @ BST_OVSDB_CONFIG_JSON_FORMAT (plugin_config c) (system_table_uuid st) #
               (if cfg_trackInit c then [] else all_realm_transactions (cfg_trackMask c))\<rparr>))"
proof -
  have unit: "unit_known asic (st\<lparr>config_data := d, ov_sent := ts\<rparr>) = unit_known asic st"
      "unit_known asic (st\<lparr>ov_sent := ts\<rparr>) = unit_known asic st"
      "unit_known asic (st\<lparr>ov_sent := ts, config_data := d\<rparr>) = unit_known asic st" for d ts
    by (simp_all add: sbplugin_ovsdb_valid_unit_check_def)
  show ?thesis
    by (simp add: sbplugin_ovsdb_bst_config_set_def bst_ovsdb_bst_config_set_def bst_ovsdb_bst_config_commit_def
        own_session_def tracking_commit_sends send_transaction_def bst_ovsdb_cache_bst_config_set_def unit
        plugin_config_def config_after_def Let_def)
qed

text \<open>A rate limit of 0 comes back as the default, a mask that is only initialised as the mask of the
  database; the members the plugin does not know come back zero.\<close>

definition config_read_back :: "bst_config \<Rightarrow> int \<Rightarrow> bst_config" where
  "config_read_back c tmask = zero_bst_config\<lparr>enableStatsMonitoring := enableStatsMonitoring c, cfg_mode := cfg_mode c,
     enablePeriodicCollection := enablePeriodicCollection c, collectionPeriod := collectionPeriod c,
     cfg_bstMaxTriggers := (if cfg_bstMaxTriggers c = 0 then 60 else cfg_bstMaxTriggers c),
     cfg_sendSnapshotOnTrigger := (if cfg_sendSnapshotOnTrigger c = 0 then 0 else 1),
     cfg_trackMask := (if cfg_trackInit c then tmask else cfg_trackMask c)\<rparr>"

lemma config_set_get:
  assumes "sbplugin_ovsdb_bst_config_set asic c st = (BVIEW_STATUS_SUCCESS, r, st')"
  shows "sbplugin_ovsdb_bst_config_get asic zero_bst_config st' =
    (BVIEW_STATUS_SUCCESS, Some (config_read_back c (trackingMask (config_data st))), st')"
proof -
  have u: "unit_known asic st" and st': "config_data st' = config_after c (config_data st)" "asicDb st' = asicDb st"
    using assms by (auto simp: config_set_exact split: if_split_asm)
  have "unit_known asic st'" using u st'(2) by (simp add: sbplugin_ovsdb_valid_unit_check_def)
  then show ?thesis using st'(1)
    by (simp add: sbplugin_ovsdb_bst_config_get_def bst_ovsdb_bst_config_get_def bst_ovsdb_cache_bst_config_get_def
        config_after_def config_read_back_def OVSDB_BST_MAX_TRIGGERS_NOT_INIT_def OVSDB_BST_MAX_TRIGGERS_DEFAULT_def Let_def)
qed

section \<open>Thresholds\<close>

text \<open>Counters of one geometry have their rows in the same places.\<close>

definition same_rows :: "platform \<Rightarrow> nat \<Rightarrow> nat \<Rightarrow> bool" where
  "same_rows pf bid bid' = (bid < SB_OVSDB_BST_STAT_ID_MAX_COUNT \<and> bid' < SB_OVSDB_BST_STAT_ID_MAX_COUNT \<and>
     is_indexed (bid_row pf bid) = is_indexed (bid_row pf bid') \<and>
     is_double_indexed (bid_row pf bid) = is_double_indexed (bid_row pf bid') \<and>
     num_of_columns (bid_row pf bid) = num_of_columns (bid_row pf bid') \<and>
     bid_size (bid_row pf bid) = bid_size (bid_row pf bid'))"

lemma same_rows_resolve:
  "same_rows pf bid bid' \<Longrightarrow> bst_ovsdb_resolve_index pf bid port index = bst_ovsdb_resolve_index pf bid' port index"
  by (simp add: same_rows_def bst_ovsdb_resolve_index_def Let_def)

lemma pairs_same_rows:
  "same_rows pf SB_OVSDB_BST_STAT_ID_PRI_GROUP_SHARED SB_OVSDB_BST_STAT_ID_PRI_GROUP_HEADROOM"
  "same_rows pf SB_OVSDB_BST_STAT_ID_EGR_UCAST_PORT_SHARED SB_OVSDB_BST_STAT_ID_EGR_PORT_SHARED"
  "same_rows pf SB_OVSDB_BST_STAT_ID_EGR_POOL SB_OVSDB_BST_STAT_ID_EGR_MCAST_POOL"
  by (simp_all add: same_rows_def bid_tab_params_def stat_id_defs)

text \<open>Both counters of a pair are sent, or none.\<close>

definition sends_thresholds :: "ovsdb \<Rightarrow> (u64 \<times> string) list \<Rightarrow> ovsdb" where
  "sends_thresholds st vs = st\<lparr>threshold_session := True,
     ov_sent := ov_sent st @ map (\<lambda>(v, key). BST_OVSDB_THRESHOLD_JSON (fmt_d (sint v)) key) vs\<rparr>"

definition both_or_nothing ::
  "platform \<Rightarrow> int \<Rightarrow> int \<Rightarrow> nat \<times> u64 \<Rightarrow> nat \<times> u64 \<Rightarrow> ovsdb \<Rightarrow> BVIEW_STATUS \<times> unit option \<times> ovsdb \<Rightarrow> bool" where
  "both_or_nothing pf port index c1 c2 st r =
     (if fst r = BVIEW_STATUS_SUCCESS
      then \<exists>k1 k2. bst_bid_port_index_to_ovsdb_key pf (fst c1) port (index + 1) 1024 = Inr k1 \<and>
             bst_bid_port_index_to_ovsdb_key pf (fst c2) port (index + 1) 1024 = Inr k2 \<and>
             snd (snd r) = sends_thresholds st [(snd c1, k1), (snd c2, k2)]
      else snd (snd r) = st)"

lemma pair_all_or_nothing:
  assumes "same_rows pf b1 b2" "c_int port" "c_int (index + 1)"
  shows "both_or_nothing pf port index (b1, v1) (b2, v2) st
    (set_thresholds pf asic refused port index [(b1, v1), (b2, v2)] st)"
proof (cases "unit_known asic st \<and> \<not> refused")
  case True
  have b: "b1 < SB_OVSDB_BST_STAT_ID_MAX_COUNT" "b2 < SB_OVSDB_BST_STAT_ID_MAX_COUNT"
    using assms(1) by (simp_all add: same_rows_def)
  obtain k1 where k1: "bst_bid_port_index_to_ovsdb_key pf b1 port (index + 1) 1024 = Inr k1" using key_exists [OF b(1) assms(2,3)] .
  obtain k2 where k2: "bst_bid_port_index_to_ovsdb_key pf b2 port (index + 1) 1024 = Inr k2" using key_exists [OF b(2) assms(2,3)] .
  show ?thesis
  proof (cases "bst_ovsdb_resolve_index pf b1 port index")
    case (Inl rv)
    then have "rv = BVIEW_STATUS_FAILURE" by (auto simp: bst_ovsdb_resolve_index_def Let_def split: if_split_asm)
    then show ?thesis using Inl True by (simp add: both_or_nothing_def set_thresholds_def set_one_def bst_ovsdb_threshold_set_def)
  next
    case (Inr k)
    then have "bst_ovsdb_resolve_index pf b2 port index = Inr k" using same_rows_resolve [OF assms(1)] by simp
    then show ?thesis using Inr True k1 k2
      by (simp add: both_or_nothing_def set_thresholds_def set_one_def bst_ovsdb_threshold_set_def
          bst_ovsdb_threshold_commit_def sends_thresholds_def send_transaction_def)
  qed
next
  case False
  then show ?thesis by (simp add: both_or_nothing_def set_thresholds_def)
qed

end
