(* ===== verification/Ovs_Props.thy ===== *)
theory Ovs_Props
  imports Ovs_Run
begin

text \<open>Properties of the OVSDB plugin: its start and registration, what the agent reads through it, the
  commands it passes to the database, and what the updates of the database do to it.\<close>

section \<open>A concrete start\<close>

definition sample_env :: ovsdb_env where
  "sample_env = \<lparr>env_platform = trident2_platform, env_buffers = trident2_buffers, env_tomahawk = False,
     env_before_asicMap = (\<lambda>_. 0), env_before_asicAppMap = (\<lambda>_. 0)\<rparr>"

definition sample_booted :: ovsdb where
  "sample_booted = \<lparr>asicDb = [\<lparr>asic_unit = 0, asic_type = 0, scalingParams = zero_capabilities\<rparr>],
     sbMaxBufSnapshot = [zero_max_buf], config_data = zero_ovsdb_config, bst_cache = [zero_stat_db],
     system_table_uuid = [], sys_cache_init_done = False, monitor_init_done_sem = 0, trigger_callback = 0,
     trigger_cookie = 0, threshold_session = False, ov_opens = True, ov_clock = 7, ov_hwaddr = None,
     ov_ipaddr = None, ov_sent = [], ov_raised = []\<rparr>"

definition sample_grants :: os_grants where
  "sample_grants = \<lparr>sem_ok = True, thread_ok = True, clock_ok = True, lock_ok = True, send_monitor_ok = True\<rparr>"

definition sample_system_row :: ovs_msg where
  "sample_system_row = JSONRPC_REPLY True (JSON_OBJECT [(''System'', JSON_OBJECT [(replicate 36 CHR ''a'',
     JSON_OBJECT [(''new'', JSON_OBJECT [(''bufmon_config'', JSON_ARRAY [JSON_STRING ''map'', JSON_ARRAY []])])])])])"

lemma sample_booted: "booted sample_booted" "ov_opens sample_booted" "cache_ok sample_booted"
  by (simp_all add: booted_def sample_booted_def zero_cache_ok)

definition sample_started :: ovsdb where
  "sample_started = (let st = send_transaction SYSTEM_OVSDB_ASIC_INFO_JSON (asked 1 sample_booted)
     in st\<lparr>asicDb := [ovsdb_asic sample_env 2], sbMaxBufSnapshot := [default_max_buf trident2_buffers 2],
           ov_sent := ov_sent st @ [BST_JSON_MONITOR_BUFMON], system_table_uuid := replicate 36 CHR ''a'',
           sys_cache_init_done := True, monitor_init_done_sem := 0\<rparr>)"

lemma sample_plugin_start:
  "sbplugin_common_init sample_env sample_grants [cur_cfg_reply 1] (interfaces_reply 2) [sample_system_row]
     sb_redirector_init sample_booted =
   DONE (BVIEW_STATUS_SUCCESS, ovsdb_registered sample_env 2, sample_started)"
proof -
  let ?st = "send_transaction SYSTEM_OVSDB_ASIC_INFO_JSON (asked 1 sample_booted)"
  have info: "system_ovsdb_common_get_asicinfo [cur_cfg_reply 1] (interfaces_reply 2) 0 sample_booted =
      DONE (BVIEW_STATUS_SUCCESS, 2, ?st)"
    using asicinfo_known [of sample_booted "[]" 1 "[]" 2 0] sample_booted(2) by simp
  have sys: "sbplugin_ovsdb_system_init sample_env [cur_cfg_reply 1] (interfaces_reply 2) sample_booted =
      DONE (Inr (ovsdb_system_feature sample_env (ovsdb_asic sample_env 2)),
        ?st\<lparr>asicDb := [ovsdb_asic sample_env 2], sbMaxBufSnapshot := [default_max_buf trident2_buffers 2]\<rparr>)"
    using system_init_ports [OF sample_booted(1) info, of sample_env]
    by (simp add: unsigned_count_def BVIEW_ASIC_MAX_PORTS_def sample_env_def)
  have bst: "sbplugin_ovsdb_bst_init trident2_platform sample_grants [sample_system_row]
      (?st\<lparr>asicDb := [ovsdb_asic sample_env 2], sbMaxBufSnapshot := [default_max_buf trident2_buffers 2]\<rparr>) =
      Some (Inr (ovsdb_bst_feature trident2_platform), sample_started)"
    by (simp add: sbplugin_ovsdb_bst_init_def sbplugin_ovsdb_bst_infra_init_def bst_ovsdb_client_init_def
        bst_ovsdb_monitor_def sample_grants_def sample_system_row_def monitor_message_def bst_ovsdb_cache_update_def
        bst_table_name_def bst_ovsdb_cache_update_table_def row_step_def system_update_def OVSDB_GET_COLUMN_def
        OVSDB_UUID_SIZE_def bst_system_bufmon_config_update_def config_map_def sample_booted_def sample_started_def
        send_transaction_def asked_def zero_ovsdb_config_def Let_def)
  have "sb_plugin_register (ovsdb_plugin sample_env 2) sb_redirector_init =
      (BVIEW_STATUS_SUCCESS, ovsdb_registered sample_env 2)"
    by (simp add: ovsdb_plugin_registers ovsdb_registered_def)
  moreover have "env_platform sample_env = trident2_platform" by (simp add: sample_env_def)
  ultimately show ?thesis using bst by (simp add: sbplugin_common_init_def sys ovsdb_plugin_def Let_def)
qed

section \<open>The start\<close>

text \<open>C14: when the start of the plugin succeeds on a switch whose database names n interfaces,
  n is between 1 and 130, the redirector reports n ports for unit 0, and every BST call of the agent for unit 0
  reaches the functions of this plugin.\<close>

theorem ovsdb_plugin_serves:
  assumes "booted st" "c_int n"
    "sbplugin_common_init env os polls (interfaces_reply n) msgs sb_redirector_init st =
       DONE (BVIEW_STATUS_SUCCESS, ps, st')"
  shows "1 \<le> n \<and> n \<le> 130 \<and> sbapi_system_asic_num_ports_get ps 0 = Inr n
    \<and> unit_bst_feature ps 0 = Some (ovsdb_bst_feature (env_platform env))"
  using common_init_registers [OF assms]
  by (simp add: ovsdb_num_ports ovsdb_unit_feature fits_def BVIEW_ASIC_MAX_PORTS_def)

theorem ovsdb_plugin_serves_witness:
  "sbapi_system_asic_num_ports_get (ovsdb_registered sample_env 2) 0 = Inr 2 \<and>
   unit_bst_feature (ovsdb_registered sample_env 2) 0 = Some (ovsdb_bst_feature trident2_platform)"
  using ovsdb_plugin_serves [OF sample_booted(1) _ sample_plugin_start] by (simp add: c_int_def sample_env_def)

text \<open>C10: at any later time - whatever the database sent, whatever the agent configured,
  cleared or set, and however the world changed - a snapshot the agent takes of unit 0 through the redirector
  succeeds and holds, for every port, priority group, pool and queue, the value of that counter in the
  plugin's cache, in its own place, and nothing else; and so do the thresholds.\<close>

theorem ovsdb_reports_exact:
  assumes "booted st" "c_int n"
    "sbplugin_common_init env os polls (interfaces_reply n) msgs sb_redirector_init st =
       DONE (BVIEW_STATUS_SUCCESS, ps, st')"
    "ovs_runs (env_platform env) st' st''"
  shows "sbapi_bst_snapshot_get ps 0 st'' =
      (BVIEW_STATUS_SUCCESS, Some (counters_of (stat_of st'') (nat n), ov_clock st''), st'')
    \<and> sbapi_bst_threshold_get ps 0 st'' =
      (BVIEW_STATUS_SUCCESS, Some (counters_of (threshold_of st'') (nat n), ov_clock st''), st'')"
proof -
  have ps: "ps = ovsdb_registered env n" and "fits env n st''"
    using common_init_registers [OF assms(1-3)] runs_fit [OF assms(4)] by blast+
  then show ?thesis
    by (simp add: sbapi_bst_snapshot_get_def sbapi_bst_threshold_get_def sb_bst_call_simps ovsdb_unit_feature
        ovsdb_bst_feature_def snapshot_counters threshold_counters)
qed

theorem ovsdb_reports_exact_witness:
  "sbapi_bst_snapshot_get (ovsdb_registered sample_env 2) 0 (sample_started\<lparr>ov_opens := False, ov_clock := 9\<rparr>) =
     (BVIEW_STATUS_SUCCESS, Some (counters_of (stat_of sample_started) 2, 9), sample_started\<lparr>ov_opens := False, ov_clock := 9\<rparr>)"
proof -
  let ?st = "sample_started\<lparr>ov_opens := False, ov_clock := 9, ov_hwaddr := None, ov_ipaddr := None\<rparr>"
  have "ovs_runs (env_platform sample_env) sample_started ?st"
    by (simp add: ovs_runs_def ovs_step.world r_into_rtranclp)
  moreover have "?st = sample_started\<lparr>ov_opens := False, ov_clock := 9\<rparr>"
    by (simp add: sample_started_def sample_booted_def send_transaction_def asked_def Let_def)
  ultimately show ?thesis using ovsdb_reports_exact [OF sample_booted(1) _ sample_plugin_start]
    by (simp add: c_int_def stat_of_def [abs_def])
qed


text \<open>C22: on a configured switch with n interfaces the start fails when n is 0, works for 1 to
  130 interfaces, leaving the defaults of exactly n ports in the table of buffer sizes, and for any other number
  writes outside that table: the number the database names is never checked against the array.\<close>

theorem max_buf_ports:
  assumes "booted st" "ov_opens st" "c_int n" "c_int k" "k \<noteq> 0"
    "polls = us @ cur_cfg_reply k # rs" "list_all undecided us"
  shows "sbplugin_ovsdb_system_init env polls (interfaces_reply n) st =
    (let st1 = send_transaction SYSTEM_OVSDB_ASIC_INFO_JSON (asked (Suc (length us)) st) in
     if n = 0 then DONE (Inl BVIEW_STATUS_FAILURE, st1)
     else if 1 \<le> n \<and> n \<le> 130
     then DONE (Inr (ovsdb_system_feature env (ovsdb_asic env n)),
                st1\<lparr>asicDb := [ovsdb_asic env n], sbMaxBufSnapshot := [default_max_buf (env_buffers env) (nat n)]\<rparr>)
     else UNDEFINED)"
proof -
  have "k mod 2 ^ 32 \<noteq> 0" using assms(4,5) by (auto simp: c_int_def dvd_def mod_eq_0_iff_dvd)
  then have info: "system_ovsdb_common_get_asicinfo polls (interfaces_reply n) 0 st =
      DONE (BVIEW_STATUS_SUCCESS, n, send_transaction SYSTEM_OVSDB_ASIC_INFO_JSON (asked (Suc (length us)) st))"
    unfolding assms(6) by (rule asicinfo_known [OF assms(2,7)])
  have zero: "unsigned_count n = 0 \<longleftrightarrow> n = 0"
    using assms(3) by (auto simp: unsigned_count_0 c_int_def dvd_def mod_eq_0_iff_dvd)
  have "unsigned_count n = nat n" if "1 \<le> n" using that assms(3) by (simp add: c_int_def unsigned_count_small)
  then show ?thesis using unsigned_ports [OF assms(3)] zero
    unfolding system_init_ports [OF assms(1) info] by (auto simp: Let_def BVIEW_ASIC_MAX_PORTS_def)
qed

theorem max_buf_ports_witness:
  "sbplugin_ovsdb_system_init sample_env [OTHER_MESSAGE, cur_cfg_reply 1] (interfaces_reply 131) sample_booted = UNDEFINED"
  using max_buf_ports [OF sample_booted(1,2), of 131 1 "[OTHER_MESSAGE, cur_cfg_reply 1]" "[OTHER_MESSAGE]" "[]" sample_env]
  by (simp add: c_int_def undecided_def poll_verdict_def)

section \<open>What the database is told, and what it answers\<close>

text \<open>C15: setting a threshold whose counter has a row sends one transaction, which names the
  counter; when the database answers with that row, the threshold reads back as it was set and the count as the
  database gave it, and the thresholds and counts of all other counters are as they were.\<close>

theorem threshold_roundtrip:
  assumes "bid < SB_OVSDB_BST_STAT_ID_MAX_COUNT" "c_int port" "c_int (index + 1)" "cache_ok st"
    "bst_ovsdb_resolve_index pf bid port index = Inr k" "0 \<le> k" "threshold_session st \<or> ov_opens st"
  shows "\<exists>key st1 st2.
      bst_ovsdb_threshold_set pf 0 port index bid v st = (BVIEW_STATUS_SUCCESS, st1)
    \<and> ov_sent st1 = ov_sent st @ [BST_OVSDB_THRESHOLD_JSON (fmt_d (sint v)) key]
    \<and> monitor_message pf (bufmon_notice u key count (sint v)) st1 = Some st2
    \<and> bst_ovsdb_threshold_get pf 0 port index bid st2 = Inr v
    \<and> stat_of st2 (bid_offset (bid_row pf bid)) (nat k) = of_int count
    \<and> (\<forall>f i. (f, i) \<noteq> (bid_offset (bid_row pf bid), nat k) \<longrightarrow>
          stat_of st2 f i = stat_of st f i \<and> threshold_of st2 f i = threshold_of st f i)"
proof -
  obtain key where key: "bst_bid_port_index_to_ovsdb_key pf bid port (index + 1) 1024 = Inr key"
    using key_exists [OF assms(1-3)] .
  let ?st1 = "send_transaction (BST_OVSDB_THRESHOLD_JSON (fmt_d (sint v)) key) (st\<lparr>threshold_session := True\<rparr>)"
  have set: "bst_ovsdb_threshold_set pf 0 port index bid v st = (BVIEW_STATUS_SUCCESS, ?st1)"
    by (rule threshold_set_sends [OF assms(5) key assms(7)])
  have cache: "bst_cache ?st1 = bst_cache st" by (simp add: send_transaction_def)
  then have ok: "cache_ok ?st1" using assms(4) by (simp add: cache_ok_def)
  obtain st2 where "monitor_message pf (bufmon_notice u key count (sint v)) ?st1 = Some st2"
      "bst_ovsdb_threshold_get pf 0 port index bid st2 = Inr v"
      "stat_of st2 (bid_offset (bid_row pf bid)) (nat k) = of_int count"
      "\<And>f i. (f, i) \<noteq> (bid_offset (bid_row pf bid), nat k) \<Longrightarrow> (bst_cache st2 ! 0) f ! i = (bst_cache ?st1 ! 0) f ! i"
    using confirmed_threshold [where u = u and count = count and v = v, OF assms(1-3) ok assms(5,6) key] by blast
  then show ?thesis using set cache
    by (intro exI [of _ key] exI [of _ ?st1] exI [of _ st2])
      (auto simp: stat_of_def threshold_of_def send_transaction_def)
qed

lemma sample_queue_row:
  "bst_ovsdb_resolve_index trident2_platform SB_OVSDB_BST_STAT_ID_CPU_QUEUE 0 3 = Inr 3"
  using resolve_rows(12) [of 3 trident2_platform 0] by simp

theorem threshold_roundtrip_witness:
  "\<exists>key st1 st2.
      bst_ovsdb_threshold_set trident2_platform 0 0 3 SB_OVSDB_BST_STAT_ID_CPU_QUEUE 208 sample_booted = (BVIEW_STATUS_SUCCESS, st1)
    \<and> monitor_message trident2_platform (bufmon_notice ''row'' key 5 208) st1 = Some st2
    \<and> bst_ovsdb_threshold_get trident2_platform 0 0 3 SB_OVSDB_BST_STAT_ID_CPU_QUEUE st2 = Inr 208"
proof -
  have "sint (208 :: u64) = 208" by simp
  then show ?thesis
    using threshold_roundtrip [OF _ _ _ sample_booted(3) sample_queue_row, of "208" "''row''" 5] sample_booted(2)
    by (auto simp: stat_id_defs c_int_def)
qed

text \<open>C18: a threshold request for a priority group, an egress port and pool, or an egress
  pool, which sets two counters, either sends the transactions of both, or fails and changes nothing;
  there is no half-done request.\<close>

theorem thresholds_all_or_nothing:
  assumes "c_int port" "c_int (index + 1)"
  shows "both_or_nothing pf port index
      (SB_OVSDB_BST_STAT_ID_PRI_GROUP_SHARED, ippg_umShareThreshold t1)
      (SB_OVSDB_BST_STAT_ID_PRI_GROUP_HEADROOM, ippg_umHeadroomThreshold t1) st
      (sbplugin_ovsdb_bst_ippg_threshold_set pf asic port index t1 st)
    \<and> both_or_nothing pf port index
      (SB_OVSDB_BST_STAT_ID_EGR_UCAST_PORT_SHARED, epsp_ucShareThreshold t2)
      (SB_OVSDB_BST_STAT_ID_EGR_PORT_SHARED, epsp_umShareThreshold t2) st
      (sbplugin_ovsdb_bst_epsp_threshold_set pf asic port index t2 st)
    \<and> both_or_nothing pf 0 index
      (SB_OVSDB_BST_STAT_ID_EGR_POOL, esp_umShareThreshold t3)
      (SB_OVSDB_BST_STAT_ID_EGR_MCAST_POOL, esp_mcShareThreshold t3) st
      (sbplugin_ovsdb_bst_esp_threshold_set pf asic index t3 st)"
proof -
  have "c_int 0" by (simp add: c_int_def)
  then show ?thesis
    unfolding sbplugin_ovsdb_bst_ippg_threshold_set_def sbplugin_ovsdb_bst_epsp_threshold_set_def
      sbplugin_ovsdb_bst_esp_threshold_set_def
    using pair_all_or_nothing [OF pairs_same_rows(1) assms] pair_all_or_nothing [OF pairs_same_rows(2) assms]
      pair_all_or_nothing [OF pairs_same_rows(3) _ assms(2)]
    by blast
qed

theorem thresholds_all_or_nothing_witness:
  "both_or_nothing trident2_platform 1 7
      (SB_OVSDB_BST_STAT_ID_PRI_GROUP_SHARED, 208) (SB_OVSDB_BST_STAT_ID_PRI_GROUP_HEADROOM, 416) sample_started
      (sbplugin_ovsdb_bst_ippg_threshold_set trident2_platform 0 1 7
         \<lparr>ippg_umShareThreshold = 208, ippg_umHeadroomThreshold = 416\<rparr> sample_started)"
  using thresholds_all_or_nothing [of 1 7 trident2_platform "\<lparr>ippg_umShareThreshold = 208, ippg_umHeadroomThreshold = 416\<rparr>"
      sample_started 0] by (simp add: c_int_def)

text \<open>C17: the plugin accepts a configuration exactly when it knows the unit, the mode is one of the
  two modes and the database can be reached. It then sends one transaction for the configuration, and unless
  only the mask is being initialised one for each realm (the last realm twice) that switches the realm on or off as its
  bit says; and the agent reads back what it wrote, with a rate limit of 0 turned into 60 and,
  when the mask is only initialised, the mask the database had.\<close>

theorem config_roundtrip:
  "(fst (sbplugin_ovsdb_bst_config_set asic c st) = BVIEW_STATUS_SUCCESS \<longleftrightarrow>
      unit_known asic st \<and> cfg_mode c \<in> {BVIEW_BST_MODE_CURRENT, BVIEW_BST_MODE_PEAK} \<and> ov_opens st)
   \<and> (sbplugin_ovsdb_bst_config_set asic c st = (BVIEW_STATUS_SUCCESS, r, st') \<longrightarrow>
        ov_sent st' = ov_sent st @ BST_OVSDB_CONFIG_JSON_FORMAT (plugin_config c) (system_table_uuid st) #
          (if cfg_trackInit c then [] else all_realm_transactions (cfg_trackMask c))
      \<and> sbplugin_ovsdb_bst_config_get asic zero_bst_config st' =
          (BVIEW_STATUS_SUCCESS, Some (config_read_back c (trackingMask (config_data st))), st'))"
  using config_set_get [of asic c st r st'] by (auto simp: config_set_exact)

theorem config_roundtrip_witness:
  "\<exists>st'. sbplugin_ovsdb_bst_config_set 0 (zero_bst_config\<lparr>cfg_mode := BVIEW_BST_MODE_PEAK, cfg_trackMask := 6\<rparr>) sample_started =
      (BVIEW_STATUS_SUCCESS, None, st') \<and>
    sbplugin_ovsdb_bst_config_get 0 zero_bst_config st' =
      (BVIEW_STATUS_SUCCESS, Some (zero_bst_config\<lparr>cfg_mode := BVIEW_BST_MODE_PEAK, cfg_bstMaxTriggers := 60,
         cfg_trackMask := 6\<rparr>), st')"
proof -
  let ?c = "zero_bst_config\<lparr>cfg_mode := BVIEW_BST_MODE_PEAK, cfg_trackMask := 6\<rparr>"
  have "fits sample_env 2 sample_started" by (simp add: fits_def sample_started_def Let_def BVIEW_ASIC_MAX_PORTS_def)
  then have "unit_known 0 sample_started" "ov_opens sample_started"
    by (simp_all add: fits_unit sample_started_def sample_booted_def asked_def send_transaction_def Let_def)
  then obtain st' where set: "sbplugin_ovsdb_bst_config_set 0 ?c sample_started = (BVIEW_STATUS_SUCCESS, None, st')"
    by (simp add: config_set_exact)
  have "config_read_back ?c m = zero_bst_config\<lparr>cfg_mode := BVIEW_BST_MODE_PEAK, cfg_bstMaxTriggers := 60,
         cfg_trackMask := 6\<rparr>" for m
    by (simp add: config_read_back_def zero_bst_config_def)
  then show ?thesis using set config_roundtrip [of 0 ?c sample_started None st'] by auto
qed

section \<open>What the database does to the plugin\<close>



text \<open>C20: whatever the database sends, it cannot switch the collection of statistics off at the
  plugin once it is on, and no realm ever leaves the tracking mask.\<close>

theorem database_only_enables:
  assumes "monitor_messages pf ms st = Some st'"
  shows "(bst_enable (config_data st) \<longrightarrow> bst_enable (config_data st'))
    \<and> trackingMask (config_data st) AND trackingMask (config_data st') = trackingMask (config_data st)"
  using enables.R_messages [OF assms] by (simp add: only_enables_def)

definition switch_off :: ovs_msg where
  "switch_off = JSONRPC_NOTIFY ''update'' (JSON_ARRAY [JSON_NULL, JSON_OBJECT [(''System'', JSON_OBJECT [(replicate 36 CHR ''a'',
     JSON_OBJECT [(''new'', JSON_OBJECT [(''bufmon_config'', JSON_ARRAY [JSON_STRING ''map'',
       JSON_ARRAY [JSON_ARRAY [JSON_STRING ''enabled'', JSON_STRING ''false'']]])])])])]])"

theorem database_only_enables_witness:
  "\<exists>st'. monitor_messages trident2_platform [switch_off]
      (sample_booted\<lparr>config_data := zero_ovsdb_config\<lparr>bst_enable := True\<rparr>\<rparr>) = Some st' \<and> bst_enable (config_data st')"
proof -
  let ?st = "sample_booted\<lparr>config_data := zero_ovsdb_config\<lparr>bst_enable := True\<rparr>\<rparr>"
  have "monitor_messages trident2_platform [switch_off] ?st \<noteq> None"
    by (simp add: switch_off_def monitor_message_def bst_ovsdb_cache_update_def
        bst_table_name_def bst_ovsdb_cache_update_table_def row_step_def system_update_def OVSDB_GET_COLUMN_def
        OVSDB_UUID_SIZE_def bst_system_bufmon_config_update_def config_map_def config_entry_def Let_def)
  then obtain st' where "monitor_messages trident2_platform [switch_off] ?st = Some st'" by auto
  with database_only_enables [OF this] show ?thesis by simp
qed

text \<open>An update of the database that only gives a counter new values changes no
  configuration, but notifies the agent of a changed tracking configuration whenever any realm is tracked at
  all: the mask of the update is compared with the mask of the cache, not the masks before and after.\<close>

lemma counter_update_notifies:
  assumes "bid < SB_OVSDB_BST_STAT_ID_MAX_COUNT" "c_int port" "c_int (index + 1)"
    "bst_ovsdb_resolve_index pf bid port index = Inr k"
    "bst_bid_port_index_to_ovsdb_key pf bid port (index + 1) 1024 = Inr key"
    "monitor_message pf (bufmon_notice u key count limit) st = Some st'"
  shows "config_data st' = config_data st \<and> ov_raised st' = ov_raised st @
    (if trackingMask (config_data st) \<noteq> 0 then [OVS_NOTIFY 0 BVIEW_BST_CONFIG_TRACK_UPDATE] else [])"
proof -
  obtain st1 where w: "write_cell 0 (bid_offset (bid_row pf bid)) k (counter_values count limit) st = Some st1"
    and st': "st' = after_update (trackingMask (config_data st) \<noteq> 0) st1"
    using assms(6) notice_exact [OF named_row [OF assms(1-5)], of u count limit st] by auto
  obtain c where "st1 = st\<lparr>bst_cache := c\<rparr>" using write_cell_shape [OF w] by blast
  then show ?thesis using st' by simp
qed

lemma sample_digits: "digit_char 0 = CHR ''0''" "digit_char 1 = CHR ''1''" "digit_char 4 = CHR ''4''"
  by code_simp+

lemma sample_queue_key:
  "bst_bid_port_index_to_ovsdb_key trident2_platform SB_OVSDB_BST_STAT_ID_CPU_QUEUE 0 4 1024 =
     Inr ''egress-cpu-queue/cpu-buffer-count/4/NONE''"
  using key_text [of SB_OVSDB_BST_STAT_ID_CPU_QUEUE 0 4 trident2_platform]
  by (simp add: key_tokens_def bid_tab_params_def stat_id_defs c_int_def fmt_d_def decimal.simps sample_digits)

lemma three_one: "3 + 1 = (4 :: int)"
  by simp

lemma sample_queue_notice:
  "\<exists>st'. monitor_message trident2_platform (bufmon_notice ''row'' ''egress-cpu-queue/cpu-buffer-count/4/NONE'' 5 208)
      (sample_booted\<lparr>config_data := zero_ovsdb_config\<lparr>trackingMask := 6\<rparr>\<rparr>) = Some st'"
proof -
  let ?st = "sample_booted\<lparr>config_data := zero_ovsdb_config\<lparr>trackingMask := 6\<rparr>\<rparr>"
  have ok: "cache_ok ?st" using sample_booted(3) by (simp add: cache_ok_def)
  obtain st1 where "write_cell 0 (bid_offset (bid_row trident2_platform SB_OVSDB_BST_STAT_ID_CPU_QUEUE)) 3
      (counter_values 5 208) ?st = Some st1"
    using write_cell_0 [OF ok, of 3] by (metis zero_le_numeral)
  moreover have "SB_OVSDB_BST_STAT_ID_CPU_QUEUE < SB_OVSDB_BST_STAT_ID_MAX_COUNT" "c_int 0" "c_int (3 + 1)"
    by (simp_all add: stat_id_defs c_int_def)
  note notice_exact [OF named_row [OF this sample_queue_row sample_queue_key [folded three_one]]]
  ultimately show ?thesis by simp
qed

lemma counter_update_notifies_witness:
  "\<exists>st'. monitor_message trident2_platform (bufmon_notice ''row'' ''egress-cpu-queue/cpu-buffer-count/4/NONE'' 5 208)
      (sample_booted\<lparr>config_data := zero_ovsdb_config\<lparr>trackingMask := 6\<rparr>\<rparr>) = Some st'
    \<and> ov_raised st' = [OVS_NOTIFY 0 BVIEW_BST_CONFIG_TRACK_UPDATE]"
proof -
  obtain st' where m: "monitor_message trident2_platform (bufmon_notice ''row'' ''egress-cpu-queue/cpu-buffer-count/4/NONE'' 5 208)
      (sample_booted\<lparr>config_data := zero_ovsdb_config\<lparr>trackingMask := 6\<rparr>\<rparr>) = Some st'"
    using sample_queue_notice by blast
  have "ov_raised sample_booted = []" by (simp add: sample_booted_def)
  then show ?thesis using m counter_update_notifies [OF _ _ _ sample_queue_row _ m] sample_queue_key
    by (simp add: stat_id_defs c_int_def)
qed

text \<open>A row of the database whose name is well formed but whose numbers lie below the first
  row of its counter makes the plugin write in front of the array: only the upper bound is checked.\<close>

lemma row_zero_undefined:
  assumes "bid < SB_OVSDB_BST_STAT_ID_MAX_COUNT" "c_int port" "c_int (index + 1)"
    "bst_ovsdb_resolve_index pf bid port index = Inr k" "k < 0"
    "bst_bid_port_index_to_ovsdb_key pf bid port (index + 1) 1024 = Inr key"
  shows "monitor_message pf (bufmon_notice u key count limit) st = None"
  using notice_exact [OF named_row [OF assms(1-4,6)], of u count limit st] assms(5) by (simp add: write_cell_def)

lemma sample_zero_key:
  "bst_bid_port_index_to_ovsdb_key trident2_platform SB_OVSDB_BST_STAT_ID_CPU_QUEUE 0 0 1024 =
     Inr ''egress-cpu-queue/cpu-buffer-count/0/NONE''"
  using key_text [of SB_OVSDB_BST_STAT_ID_CPU_QUEUE 0 0 trident2_platform]
  by (simp add: key_tokens_def bid_tab_params_def stat_id_defs c_int_def fmt_d_def decimal.simps sample_digits)

lemma row_zero_undefined_witness:
  "monitor_message trident2_platform (bufmon_notice ''row'' ''egress-cpu-queue/cpu-buffer-count/0/NONE'' 5 208) sample_booted = None"
proof -
  have "bst_ovsdb_resolve_index trident2_platform SB_OVSDB_BST_STAT_ID_CPU_QUEUE 0 (- 1) = Inr (- 1)"
    by (simp add: bst_ovsdb_resolve_index_def bid_tab_params_def stat_id_defs Let_def asic_max_defs)
  from row_zero_undefined [OF _ _ _ this, of "''egress-cpu-queue/cpu-buffer-count/0/NONE''" "''row''" 5 208 sample_booted]
  show ?thesis using sample_zero_key by (simp add: stat_id_defs c_int_def)
qed

text \<open>C16: when the database marks the row of a counter as triggered, the plugin stores the
  values and calls the registered callback once, with the realm and the counter of the row, and the port and
  index the agent uses for it: the index again counts from 0, and a counter without an index is
  reported with index -1.\<close>

theorem trigger_reaches_agent:
  assumes "bid < SB_OVSDB_BST_STAT_ID_MAX_COUNT" "c_int port" "c_int (index + 1)" "cache_ok st" "trigger_callback st \<noteq> 0"
    "bst_ovsdb_resolve_index pf bid port index = Inr k" "0 \<le> k"
    "bst_bid_port_index_to_ovsdb_key pf bid port (index + 1) 1024 = Inr key"
  shows "\<exists>st'. monitor_message pf (trigger_notice u key count limit) st = Some st'
    \<and> ov_raised st' = ov_raised st @ [OVS_TRIGGER (trigger_callback st) 0 (trigger_cookie st)
        \<lparr>trig_realm = bid_realm_name (bid_row pf bid), trig_counter = bid_counter_name (bid_row pf bid),
         trig_port = (if is_double_indexed (bid_row pf bid) then port else 0),
         trig_queue = (if is_indexed (bid_row pf bid) then index else - 1)\<rparr>]
      @ (if trackingMask (config_data st) \<noteq> 0 then [OVS_NOTIFY 0 BVIEW_BST_CONFIG_TRACK_UPDATE] else [])
    \<and> stat_of st' (bid_offset (bid_row pf bid)) (nat k) = of_int count"
proof -
  let ?f = "bid_offset (bid_row pf bid)"
  obtain st1 where w: "write_cell 0 ?f k (counter_values count limit) st = Some st1"
      "bst_cache st1 = [(bst_cache st ! 0)(?f := ((bst_cache st ! 0) ?f)[nat k := counter_values count limit ((bst_cache st ! 0) ?f ! nat k)])]"
    using write_cell_0 [OF assms(4,7)] .
  obtain c where st1: "st1 = st\<lparr>bst_cache := c\<rparr>" using write_cell_shape [OF w(1)] by blast
  have "k < int (length ((bst_cache st ! 0) ?f))"
    using resolve_in_array [OF assms(1,6)] cache_row_length [OF assms(4)] by simp
  then have "nat k < length ((bst_cache st ! 0) ?f)" using assms(7) by simp
  then have "stat_of st1 ?f (nat k) = of_int count" using w(2) by (simp add: stat_of_def counter_values_def)
  moreover have "stat_of (after_update b (raise_event e st1)) ?f i = stat_of st1 ?f i" for b e i
    by (simp add: stat_of_def raise_event_def)
  ultimately show ?thesis using assms(5) trigger_exact [OF named_row [OF assms(1-3,6,8)], of u count limit st] w(1)
    by (simp add: bst_ovsdb_trigger_callback_def Let_def st1 read_port_def read_queue_def) (simp add: raise_event_def)
qed

theorem trigger_reaches_agent_witness:
  "\<exists>st'. monitor_message trident2_platform (trigger_notice ''row'' ''egress-cpu-queue/cpu-buffer-count/4/NONE'' 500 208)
      (sample_booted\<lparr>trigger_callback := 1, trigger_cookie := 2\<rparr>) = Some st'
    \<and> ov_raised st' = [OVS_TRIGGER 1 0 2 \<lparr>trig_realm = ''egress-cpu-queue'', trig_counter = ''cpu-buffer-count'',
         trig_port = 0, trig_queue = 3\<rparr>]"
proof -
  let ?st = "sample_booted\<lparr>trigger_callback := 1, trigger_cookie := 2\<rparr>"
  have ok: "cache_ok ?st" using sample_booted(3) by (simp add: cache_ok_def)
  have "ov_raised ?st = []" "trackingMask (config_data ?st) = 0" by (simp_all add: sample_booted_def zero_ovsdb_config_def)
  then show ?thesis
    using trigger_reaches_agent [OF _ _ _ ok _ sample_queue_row, of "''egress-cpu-queue/cpu-buffer-count/4/NONE''" "''row''" 500 208]
      sample_queue_key by (auto simp: c_int_def bid_tab_params_def stat_id_defs)
qed

section \<open>Notations\<close>

text \<open>Through the redirector, every port number survives the way to its notation and back; unit
  0 is written 1 and read back as 0; but a text whose number is 0 or that holds no number at all is
  accepted as a unit, with success, and becomes unit -1.\<close>

lemma notations_translate:
  fixes env n defines "ps \<equiv> ovsdb_registered env n"
  shows "sbapi_system_port_translate_to_notation ps 0 port st = (BVIEW_STATUS_SUCCESS, Some (fmt_d port), st)
    \<and> sbapi_system_port_translate_from_notation ps (fmt_d port) st = (BVIEW_STATUS_SUCCESS, Some port, st)
    \<and> sbapi_system_asic_translate_to_notation ps 0 st = (BVIEW_STATUS_SUCCESS, Some ''1'', st)
    \<and> sbapi_system_asic_translate_from_notation ps ''1'' st = (BVIEW_STATUS_SUCCESS, Some 0, st)
    \<and> (atoi text = 0 \<longrightarrow>
        sbapi_system_asic_translate_from_notation ps text st = (BVIEW_STATUS_SUCCESS, Some (- 1), st))"
proof -
  obtain m where s: "\<And>t. sb_system_handle (ovsdb_registered env n) t =
      Some (ovsdb_system_feature env (ovsdb_asic env n)\<lparr>featureMask := m\<rparr>)"
    using ovsdb_system_handle [of env n] by blast
  have one: "fmt_d 1 = ''1''" by (simp add: fmt_d_def decimal.simps sample_digits [unfolded One_nat_def])
  moreover have "atoi ''1'' = 1" using atoi_fmt_d [of 1] one by simp
  ultimately show ?thesis unfolding ps_def
    by (simp add: sbapi_system_port_translate_to_notation_def sbapi_system_port_translate_from_notation_def
        sbapi_system_asic_translate_to_notation_def sbapi_system_asic_translate_from_notation_def sb_system_call_def s
        ovsdb_system_feature_def sbplugin_ovsdb_system_port_translate_to_notation_def
        sbplugin_ovsdb_system_port_translate_from_notation_def sbplugin_ovsdb_system_asic_translate_to_notation_def
        sbplugin_ovsdb_system_asic_translate_from_notation_def atoi_fmt_d asicMap_def asicAppMap_def
        BVIEW_MAX_ASICS_ON_A_PLATFORM_def Let_def)
qed

lemma notations_translate_witness:
  "sbapi_system_asic_translate_from_notation (ovsdb_registered sample_env 2) ''all'' sample_booted =
     (BVIEW_STATUS_SUCCESS, Some (- 1), sample_booted)"
proof -
  have "atoi ''all'' = 0" by (rule atoi_no_number) (simp_all add: is_space_def is_digit_def)
  then show ?thesis using notations_translate by blast
qed

end
