(* ===== verification/C_Double.thy ===== *)
theory C_Double
  imports Bview_Prelude Complex_Main "HOL-Library.Log_Nat"
begin

text \<open>The double arithmetic of C as far as the encoder uses it: quotients and sums of numbers that are not
  negative, rounded to 53 bits, half to even. Sizes beyond the range of double do not occur, so a double is
  a rational number.\<close>

section \<open>Rounding\<close>

definition round_half_even :: "rat \<Rightarrow> int" where
  "round_half_even x =
     (let n = \<lfloor>x\<rfloor>; d = x - of_int n
      in if d < 1 / 2 then n else if 1 / 2 < d then n + 1 else if even n then n else n + 1)"

text \<open>The exponent of the last of the 53 bits of a positive number.\<close>

definition dbl_exp :: "rat \<Rightarrow> int" where
  "dbl_exp x =
     (case quotient_of x of (p, q) \<Rightarrow>
        let k = bitlen p - bitlen q in if 2 powi k \<le> x then k - 52 else k - 53)"

definition dbl :: "rat \<Rightarrow> rat" where
  "dbl x = (if x \<le> 0 then 0 else of_int (round_half_even (x / 2 powi dbl_exp x)) * 2 powi dbl_exp x)"

section \<open>Facts\<close>

lemma round_half_even_error: "\<bar>of_int (round_half_even x) - x\<bar> \<le> 1 / 2"
proof -
  have "of_int \<lfloor>x\<rfloor> \<le> x" "x < of_int \<lfloor>x\<rfloor> + 1" by linarith+
  then show ?thesis by (auto simp: round_half_even_def Let_def abs_le_iff)
qed

lemma round_half_even_int [simp]: "round_half_even (of_int n) = n"
  by (simp add: round_half_even_def)

lemma bitlen_range:
  assumes "0 < n"
  shows "2 powi (bitlen n - 1) \<le> (of_int n :: rat)" "(of_int n :: rat) < 2 powi bitlen n"
proof -
  have b: "2 ^ nat (bitlen n - 1) \<le> n \<and> n < 2 ^ nat (bitlen n)" "0 < bitlen n"
    using assms bitlen_bounds [of n] bitlen_eq_zero_iff [of n] bitlen_nonneg [of n] by (auto simp: less_le)
  have "(2 :: rat) powi (bitlen n - 1) = of_int (2 ^ nat (bitlen n - 1))" "(2 :: rat) powi bitlen n = of_int (2 ^ nat (bitlen n))"
    using b(2) by (simp_all add: power_int_def)
  then show "2 powi (bitlen n - 1) \<le> (of_int n :: rat)" "(of_int n :: rat) < 2 powi bitlen n"
    using b(1) by (simp_all only: of_int_le_iff of_int_less_iff)
qed

text \<open>The number lies between the power of its first bit and the next one.\<close>

lemma dbl_exp_range:
  assumes "0 < x"
  shows "2 powi (dbl_exp x + 52) \<le> x"
proof -
  obtain p q where pq: "quotient_of x = (p, q)" by fastforce
  have q: "0 < q" using quotient_of_denom_pos [OF pq] .
  have x: "x = of_int p / of_int q" using quotient_of_div [OF pq] .
  have p: "0 < p" using assms q unfolding x by (simp add: zero_less_divide_iff)
  have "2 powi (bitlen p - bitlen q - 1) = (2 powi (bitlen p - 1) :: rat) / 2 powi bitlen q"
    by (simp add: power_int_diff)
  also have "\<dots> \<le> of_int p / of_int q"
    using bitlen_range [OF p] bitlen_range [OF q] p q by (intro frac_le) (simp_all add: less_imp_le)
  finally have "2 powi (bitlen p - bitlen q - 1) \<le> x" using x by simp
  then show ?thesis using pq by (auto simp: dbl_exp_def Let_def diff_diff_eq)
qed

lemma dbl_error:
  assumes "0 < x"
  shows "\<bar>dbl x - x\<bar> \<le> x / 2 ^ 53"
proof -
  let ?u = "2 powi dbl_exp x :: rat"
  have u: "0 < ?u" by simp
  have "\<bar>dbl x - x\<bar> = \<bar>of_int (round_half_even (x / ?u)) - x / ?u\<bar> * ?u"
  proof -
    have "dbl x - x = (of_int (round_half_even (x / ?u)) - x / ?u) * ?u"
      using assms u by (simp add: dbl_def left_diff_distrib)
    then show ?thesis using u by (simp add: abs_mult)
  qed
  also have "\<dots> \<le> 1 / 2 * ?u" using round_half_even_error u by (intro mult_right_mono) simp_all
  also have "\<dots> = 2 powi (dbl_exp x + 52) / 2 ^ 53" by (simp add: power_int_add field_simps)
  also have "\<dots> \<le> x / 2 ^ 53" using dbl_exp_range [OF assms] by (simp add: divide_right_mono)
  finally show ?thesis .
qed

lemma dbl_nonneg: "0 \<le> dbl x"
proof (cases "x \<le> 0")
  case False
  then have "\<bar>dbl x - x\<bar> \<le> x / 2 ^ 53" by (intro dbl_error) simp
  then have "x - dbl x \<le> x / 2 ^ 53" by linarith
  moreover have "x / 2 ^ 53 \<le> x" using False by simp
  ultimately show ?thesis by linarith
qed (simp add: dbl_def)

lemma half_pow: "n / 2 / 2 powi e = n * 2 powi (- e - 1)" for n :: rat
proof -
  have m: "- e - 1 = - (e + 1)" by presburger
  have "(2::rat) \<noteq> 0 \<or> e \<noteq> -1" by (rule disjI1, rule zero_neq_numeral [symmetric])
  then have p: "2 powi (e + 1) = (2 powi e * 2 :: rat)" by (rule power_int_add_1)
  have q: "n / 2 / a = n * inverse (a * 2)" for a :: rat by (simp only: divide_inverse inverse_mult_distrib mult.assoc mult.commute [of "inverse a"])
  show ?thesis unfolding m power_int_minus p by (rule q)
qed

text \<open>Halves of small numbers are exact.\<close>

lemma dbl_half:
  assumes "0 \<le> n" "n < 2 ^ 52"
  shows "dbl (of_int n / 2) = of_int n / 2"
proof (cases "n = 0")
  case False
  let ?x = "of_int n / 2 :: rat" and ?e = "dbl_exp (of_int n / 2)"
  have x: "0 < ?x" using False assms(1) by simp
  have n: "of_int n < (of_int (2 ^ 52) :: rat)" using assms(2) by (simp only: of_int_less_iff)
  have "2 powi (?e + 52) < (2 powi 51 :: rat)"
    using dbl_exp_range [OF x] n by (simp add: power_int_def)
  then have e: "?e + 52 < 51"
    using power_int_increasing [of 51 "?e + 52" "2 :: rat"] by linarith
  have p: "(2 :: rat) powi (- ?e - 1) = of_int (2 ^ nat (- ?e - 1))" using e by (simp add: power_int_def)
  have "?x / 2 powi ?e = of_int n * 2 powi (- ?e - 1)"
    by (rule half_pow)
  also have "\<dots> = of_int (n * 2 ^ nat (- ?e - 1))" unfolding p by (simp only: of_int_mult)
  finally have q: "?x / 2 powi ?e = of_int (n * 2 ^ nat (- ?e - 1))" .
  then have "round_half_even (?x / 2 powi ?e) = n * 2 ^ nat (- ?e - 1)" by (simp only: round_half_even_int)
  then have "of_int (round_half_even (?x / 2 powi ?e)) = ?x / 2 powi ?e"
    using q by (simp only:)
  moreover have "(2 :: rat) powi ?e \<noteq> 0" by simp
  ultimately show ?thesis using x unfolding dbl_def by (simp only: not_le [THEN iffD2] if_False) simp
qed (simp add: dbl_def)

lemma dbl_int:
  assumes "0 \<le> n" "n < 2 ^ 51"
  shows "dbl (of_int n) = of_int n"
  using dbl_half [of "2 * n"] assms by simp

end
