(* ===== verification/Bst_Encode.thy ===== *)
theory Bst_Encode
  imports Bst_Main Json_Memory C_Text C_Double
begin

text \<open>The JSON encoders of the BST application: apps/bst/api/bst_json_encoder.c, bst_json_encoder_ingress.c and
  bst_json_encoder_egress.c. A report is written with snprintf into a buffer of fixed size through a
  cursor that also moves back, over the comma after the last entry. A number that lies outside an
  array of the snapshot is not modelled. None in place of a result is what C leaves undefined: a
  cursor beyond the buffer, or a division by zero.\<close>

section \<open>The buffer\<close>

text \<open>The characters before the cursor, those between the cursor and the end of the text, the length
  that is left, and the state of the plugins that translate the names of the ports.\<close>

record 'hw enc =
  en_text :: string
  en_tail :: string
  en_rem :: int
  en_hw :: 'hw

type_synonym 'hw enc_run = "(BVIEW_STATUS \<times> 'hw enc) option"

text \<open>snprintf at the cursor, which then moves on by the length of the whole text; a text that just fits
  ends with the terminator in place of its last character.\<close>

definition snprintf_at :: "string \<Rightarrow> 'hw enc \<Rightarrow> 'hw enc option" where
  "snprintf_at s e =
     (if en_rem e < int (length s) then None
      else if en_rem e = int (length s)
      then Some (e\<lparr>en_text := en_text e @ butlast s @ [CHR 0x00], en_tail := [], en_rem := 0\<rparr>)
      else Some (e\<lparr>en_text := en_text e @ s, en_tail := [], en_rem := en_rem e - int (length s)\<rparr>))"

definition JSONENCODE_COPY_FORMATTED_STRING_AND_ADVANCE :: "string \<Rightarrow> 'hw enc \<Rightarrow> 'hw enc_run" where
  "JSONENCODE_COPY_FORMATTED_STRING_AND_ADVANCE s e =
     (if en_rem e = int (length s) then Some (BVIEW_STATUS_OUTOFMEMORY, e)
      else map_option (\<lambda>e1. (BVIEW_STATUS_SUCCESS, e1)) (snprintf_at s e))"

abbreviation emit :: "string \<Rightarrow> 'hw enc \<Rightarrow> 'hw enc_run" where
  "emit \<equiv> JSONENCODE_COPY_FORMATTED_STRING_AND_ADVANCE"

definition back_up :: "'hw enc \<Rightarrow> 'hw enc" where
  "back_up e = e\<lparr>en_text := butlast (en_text e), en_tail := last (en_text e) # en_tail e, en_rem := en_rem e + 1\<rparr>"

definition enc_ok :: "'hw enc \<Rightarrow> 'hw enc_run" where
  "enc_ok e = Some (BVIEW_STATUS_SUCCESS, e)"

definition enc_bind :: "'hw enc_run \<Rightarrow> ('hw enc \<Rightarrow> 'hw enc_run) \<Rightarrow> 'hw enc_run" where
  "enc_bind r f = (case r of None \<Rightarrow> None
     | Some (rv, e) \<Rightarrow> if rv = BVIEW_STATUS_SUCCESS then f e else Some (rv, e))"

primrec enc_each :: "('k \<Rightarrow> 'hw enc \<Rightarrow> 'hw enc_run) \<Rightarrow> 'k list \<Rightarrow> 'hw enc \<Rightarrow> 'hw enc_run" where
  "enc_each f [] e = enc_ok e"
| "enc_each f (k # ks) e = enc_bind (f k e) (enc_each f ks)"

definition JSON_PORT_MAP_TO_NOTATION ::
  "'hw plugin_entry list \<Rightarrow> int \<Rightarrow> int \<Rightarrow> 'hw enc \<Rightarrow> (string \<Rightarrow> 'hw enc \<Rightarrow> 'hw enc_run) \<Rightarrow> 'hw enc_run" where
  "JSON_PORT_MAP_TO_NOTATION ps port asic e f =
     (case sbapi_system_port_translate_to_notation ps asic port (en_hw e) of
        (rv, out, hw) \<Rightarrow>
          let e1 = e\<lparr>en_hw := hw\<rparr> in
          if rv \<noteq> BVIEW_STATUS_SUCCESS then Some (BVIEW_STATUS_INVALID_JSON, e1)
          else f (case out of None \<Rightarrow> [] | Some s \<Rightarrow> s) e1)"

section \<open>Values\<close>

definition fmt_u :: "u64 \<Rightarrow> string" where
  "fmt_u w = decimal (unat w)"

text \<open>The conversion to uint64_t drops the fraction and is undefined from 2 to the 64 on. The argument is
  never negative; 0 gives half a unit below 0, which converts to 0.\<close>

definition round_int :: "rat \<Rightarrow> u64 option" where
  "round_int r =
     (if 0 < r then (let x = dbl (r + 1 / 2) in if x < 2 ^ 64 then Some (of_int \<lfloor>x\<rfloor>) else None) else Some 0)"

definition in_cells :: "asic_capabilities \<Rightarrow> u64 \<Rightarrow> u64 option" where
  "in_cells asic v = (if of_int (cellToByteConv asic) = (0 :: u64) then None else Some (v div of_int (cellToByteConv asic)))"

definition bst_json_convert_data :: "report_options \<Rightarrow> asic_capabilities \<Rightarrow> u64 \<Rightarrow> u64 \<Rightarrow> u64 option" where
  "bst_json_convert_data options asic v maxBufVal =
     (if reportThreshold options then (if opt_statUnitsInCells options then in_cells asic v else Some v)
      else if opt_statsInPercentage options then
        (if maxBufVal = 0 then Some 0
         else round_int (dbl (dbl (of_int (uint (v * 100))) / dbl (of_int (uint maxBufVal)))))
      else if opt_statUnitsInCells options then in_cells asic v else Some v)"

section \<open>What a report leaves out\<close>

text \<open>A triggered report without a snapshot is about one port and one index.\<close>

definition port_skipped :: "report_options \<Rightarrow> nat \<Rightarrow> bool" where
  "port_skipped o1 port =
     (int port \<noteq> trig_port (opt_triggerInfo o1) \<and> \<not> sendSnapShotOnTrigger o1 \<and> reportTrigger o1)"

definition queue_skipped :: "report_options \<Rightarrow> nat \<Rightarrow> bool" where
  "queue_skipped o1 i =
     (int i \<noteq> trig_queue (opt_triggerInfo o1) \<and> \<not> sendSnapShotOnTrigger o1 \<and> reportTrigger o1)"

text \<open>same says whether the entry equals that of the previous record, if there is one.\<close>

definition unreported :: "report_options \<Rightarrow> bool \<Rightarrow> bool option \<Rightarrow> bool" where
  "unreported o1 zero same =
     (case same of None \<Rightarrow> opt_sendIncrementalReport o1 \<and> zero | Some eq \<Rightarrow> eq)"

section \<open>Realms without ports\<close>

definition queue_section ::
  "string \<Rightarrow> int \<Rightarrow> (nat \<Rightarrow> 'hw enc \<Rightarrow> 'hw enc_run) \<Rightarrow> 'hw enc \<Rightarrow> 'hw enc_run" where
  "queue_section realm count entry e =
     enc_bind (emit ('' { \"realm\": \"'' @ realm @ ''\", \"data\": [ '') e) (\<lambda>e1.
     enc_bind (enc_each entry [0..<nat count] e1) (\<lambda>e2.
     emit ''] } ,'' (back_up e2)))"

text \<open>One entry: skipped, left out, or its values converted and written.\<close>

definition queue_entry ::
  "report_options \<Rightarrow> nat \<Rightarrow> bool \<Rightarrow> bool option \<Rightarrow> ('hw enc \<Rightarrow> 'hw enc_run) \<Rightarrow> 'hw enc \<Rightarrow> 'hw enc_run" where
  "queue_entry o1 i zero same write e =
     (if queue_skipped o1 i \<or> unreported o1 zero same then enc_ok e else write e)"

definition with_value :: "u64 option \<Rightarrow> (u64 \<Rightarrow> 'hw enc_run) \<Rightarrow> 'hw enc_run" where
  "with_value v f = (case v of None \<Rightarrow> None | Some x \<Rightarrow> f x)"

definition jsonencode_report_ingress_sp ::
  "asic_snapshot option \<Rightarrow> asic_snapshot \<Rightarrow> report_options \<Rightarrow> max_buf_snapshot \<Rightarrow> asic_capabilities \<Rightarrow>
   'hw enc \<Rightarrow> 'hw enc_run" where
  "jsonencode_report_ingress_sp previous current o1 mx asic =
     queue_section ''ingress-service-pool'' (numServicePools asic) (\<lambda>i e.
       let c = isp_umShareBufferCount (snap_iSp current ! i) in
       queue_entry o1 i (c = 0) (map_option (\<lambda>p. isp_umShareBufferCount (snap_iSp p ! i) = c) previous) (\<lambda>e.
         with_value (bst_json_convert_data o1 asic c (max_iSp mx ! i)) (\<lambda>v.
         emit ('' [  '' @ fmt_d (int i) @ '' , '' @ fmt_u v @ '' ] ,'') e)) e)"

definition jsonencode_report_egress_cpuq ::
  "asic_snapshot option \<Rightarrow> asic_snapshot \<Rightarrow> report_options \<Rightarrow> max_buf_snapshot \<Rightarrow> asic_capabilities \<Rightarrow>
   'hw enc \<Rightarrow> 'hw enc_run" where
  "jsonencode_report_egress_cpuq previous current o1 mx asic =
     queue_section ''egress-cpu-queue'' (numCpuQueues asic) (\<lambda>i e.
       let c = snap_cpqQ current ! i in
       queue_entry o1 i (cpuBufferCount c = 0 \<and> cpuQueueEntries c = 0)
         (map_option (\<lambda>p. cpuBufferCount (snap_cpqQ p ! i) = cpuBufferCount c \<and>
            cpuQueueEntries (snap_cpqQ p ! i) = cpuQueueEntries c) previous) (\<lambda>e.
         with_value (bst_json_convert_data o1 asic (cpuBufferCount c) (max_cpqQ mx ! i)) (\<lambda>v.
         emit ('' [  '' @ fmt_d (int i) @ '' , '' @ fmt_u v @ '', '' @ fmt_u (cpuQueueEntries c) @ '' ] ,'') e)) e)"

definition jsonencode_report_egress_rqeq ::
  "asic_snapshot option \<Rightarrow> asic_snapshot \<Rightarrow> report_options \<Rightarrow> max_buf_snapshot \<Rightarrow> asic_capabilities \<Rightarrow>
   'hw enc \<Rightarrow> 'hw enc_run" where
  "jsonencode_report_egress_rqeq previous current o1 mx asic =
     queue_section ''egress-rqe-queue'' (numRqeQueues asic) (\<lambda>i e.
       let c = snap_rqeQ current ! i in
       queue_entry o1 i (rqeBufferCount c = 0 \<and> rqeQueueEntries c = 0)
         (map_option (\<lambda>p. rqeBufferCount (snap_rqeQ p ! i) = rqeBufferCount c \<and>
            rqeQueueEntries (snap_rqeQ p ! i) = rqeQueueEntries c) previous) (\<lambda>e.
         with_value (bst_json_convert_data o1 asic (rqeBufferCount c) (max_rqeQ mx ! i)) (\<lambda>v.
         emit ('' [  '' @ fmt_d (int i) @ '' , '' @ fmt_u v @ '', '' @ fmt_u (rqeQueueEntries c) @ '' ] ,'') e)) e)"

text \<open>The port of a queue is cast to int.\<close>

definition int_of_port :: "u64 \<Rightarrow> int" where
  "int_of_port p = sint (ucast p :: 32 word)"

definition jsonencode_report_egress_mcq ::
  "'hw plugin_entry list \<Rightarrow> int \<Rightarrow> asic_snapshot option \<Rightarrow> asic_snapshot \<Rightarrow> report_options \<Rightarrow> max_buf_snapshot \<Rightarrow>
   asic_capabilities \<Rightarrow> 'hw enc \<Rightarrow> 'hw enc_run" where
  "jsonencode_report_egress_mcq ps asicId previous current o1 mx asic =
     queue_section ''egress-mc-queue'' (numMulticastQueues asic) (\<lambda>i e.
       let c = snap_eMcQ current ! i in
       queue_entry o1 i (mcBufferCount c = 0 \<and> mcQueueEntries c = 0)
         (map_option (\<lambda>p. mcBufferCount (snap_eMcQ p ! i) = mcBufferCount c \<and>
            mcQueueEntries (snap_eMcQ p ! i) = mcQueueEntries c) previous) (\<lambda>e.
         JSON_PORT_MAP_TO_NOTATION ps (int_of_port (emcq_port c)) asicId e (\<lambda>name e1.
         with_value (bst_json_convert_data o1 asic (mcBufferCount c) (max_eMcQ mx ! i)) (\<lambda>v.
         emit ('' [  '' @ fmt_d (int i) @ '' , \"'' @ name @ ''\" ,  '' @ fmt_u v @ '', '' @
           fmt_u (mcQueueEntries c) @ '' ] ,'') e1))) e)"

definition jsonencode_report_egress_ucq ::
  "'hw plugin_entry list \<Rightarrow> int \<Rightarrow> asic_snapshot option \<Rightarrow> asic_snapshot \<Rightarrow> report_options \<Rightarrow> max_buf_snapshot \<Rightarrow>
   asic_capabilities \<Rightarrow> 'hw enc \<Rightarrow> 'hw enc_run" where
  "jsonencode_report_egress_ucq ps asicId previous current o1 mx asic =
     queue_section ''egress-uc-queue'' (numUnicastQueues asic) (\<lambda>i e.
       let c = snap_eUcQ current ! i in
       queue_entry o1 i (eucq_ucBufferCount c = 0)
         (map_option (\<lambda>p. eucq_ucBufferCount (snap_eUcQ p ! i) = eucq_ucBufferCount c) previous) (\<lambda>e.
         JSON_PORT_MAP_TO_NOTATION ps (int_of_port (eucq_port c)) asicId e (\<lambda>name e1.
         with_value (bst_json_convert_data o1 asic (eucq_ucBufferCount c) (max_eUcQ mx ! i)) (\<lambda>v.
         emit ('' [  '' @ fmt_d (int i) @ '' , \"'' @ name @ ''\" , '' @ fmt_u v @ '' ] ,'') e1))) e)"

definition jsonencode_report_egress_ucqg ::
  "asic_snapshot option \<Rightarrow> asic_snapshot \<Rightarrow> report_options \<Rightarrow> max_buf_snapshot \<Rightarrow> asic_capabilities \<Rightarrow>
   'hw enc \<Rightarrow> 'hw enc_run" where
  "jsonencode_report_egress_ucqg previous current o1 mx asic =
     queue_section ''egress-uc-queue-group'' (numUnicastQueueGroups asic) (\<lambda>i e.
       let c = eucqg_ucBufferCount (snap_eUcQg current ! i) in
       queue_entry o1 i (c = 0) (map_option (\<lambda>p. eucqg_ucBufferCount (snap_eUcQg p ! i) = c) previous) (\<lambda>e.
         with_value (bst_json_convert_data o1 asic c (max_eUcQg mx ! i)) (\<lambda>v.
         emit ('' [  '' @ fmt_d (int i) @ '' , '' @ fmt_u v @ '' ] ,'') e)) e)"

definition jsonencode_report_egress_sp ::
  "asic_snapshot option \<Rightarrow> asic_snapshot \<Rightarrow> report_options \<Rightarrow> max_buf_snapshot \<Rightarrow> asic_capabilities \<Rightarrow>
   'hw enc \<Rightarrow> 'hw enc_run" where
  "jsonencode_report_egress_sp previous current o1 mx asic =
     queue_section ''egress-service-pool'' (numServicePools asic) (\<lambda>i e.
       let c = snap_eSp current ! i in
       queue_entry o1 i
         (esp_umShareBufferCount c = 0 \<and> esp_mcShareBufferCount c = 0 \<and> esp_mcShareQueueEntries c = 0)
         (map_option (\<lambda>p. esp_umShareBufferCount (snap_eSp p ! i) = esp_umShareBufferCount c \<and>
            esp_mcShareBufferCount (snap_eSp p ! i) = esp_mcShareBufferCount c \<and>
            esp_mcShareQueueEntries (snap_eSp p ! i) = esp_mcShareQueueEntries c) previous) (\<lambda>e.
         with_value (bst_json_convert_data o1 asic (esp_umShareBufferCount c) (esp_umShareMaxBuf (max_eSp mx ! i))) (\<lambda>v1.
         with_value (bst_json_convert_data o1 asic (esp_mcShareBufferCount c) (esp_mcShareMaxBuf (max_eSp mx ! i))) (\<lambda>v2.
         emit ('' [  '' @ fmt_d (int i) @ '' , '' @ fmt_u v1 @ '' , '' @ fmt_u v2 @ '', '' @
           fmt_u (esp_mcShareQueueEntries c) @ '' ] ,'') e))) e)"

section \<open>Realms with ports\<close>

text \<open>A port is written when any of its entries is; entries are those that are written.\<close>

definition port_section ::
  "'hw plugin_entry list \<Rightarrow> int \<Rightarrow> string \<Rightarrow> report_options \<Rightarrow> int \<Rightarrow> (nat \<Rightarrow> nat list) \<Rightarrow>
   (nat \<Rightarrow> nat \<Rightarrow> 'hw enc \<Rightarrow> 'hw enc_run) \<Rightarrow> 'hw enc \<Rightarrow> 'hw enc_run" where
  "port_section ps asicId realm o1 ports entries entry e =
     enc_bind (emit ('' { \"realm\": \"'' @ realm @ ''\", \"data\": [ '') e) (\<lambda>e1.
     enc_bind (enc_each (\<lambda>port e.
        if port_skipped o1 port \<or> entries (port - 1) = [] then enc_ok e
        else JSON_PORT_MAP_TO_NOTATION ps (int port) asicId e (\<lambda>name e1.
             enc_bind (emit ('' { \"port\": \"'' @ name @ ''\", \"data\": [ '') e1) (\<lambda>e2.
             enc_bind (enc_each (entry (port - 1)) (entries (port - 1)) e2) (\<lambda>e3.
             emit ''] } ,'' (back_up e3)))))
       [1..<Suc (nat ports)] e1) (\<lambda>e2.
     emit ''] } ,'' (back_up e2)))"

definition included :: "report_options \<Rightarrow> int \<Rightarrow> (nat \<Rightarrow> bool) \<Rightarrow> (nat \<Rightarrow> bool option) \<Rightarrow> nat list" where
  "included o1 count zero same =
     filter (\<lambda>i. \<not> (queue_skipped o1 i \<or> unreported o1 (zero i) (same i))) [0..<nat count]"

definition jsonencode_report_ingress_ippg ::
  "'hw plugin_entry list \<Rightarrow> int \<Rightarrow> asic_snapshot option \<Rightarrow> asic_snapshot \<Rightarrow> report_options \<Rightarrow> max_buf_snapshot \<Rightarrow>
   asic_capabilities \<Rightarrow> 'hw enc \<Rightarrow> 'hw enc_run" where
  "jsonencode_report_ingress_ippg ps asicId previous current o1 mx asic =
     (let c = (\<lambda>p i. snap_iPortPg current ! p ! i) in
      port_section ps asicId ''ingress-port-priority-group'' o1 (numPorts asic)
        (\<lambda>p. included o1 (numPriorityGroups asic)
          (\<lambda>i. ippg_umShareBufferCount (c p i) = 0 \<and> ippg_umHeadroomBufferCount (c p i) = 0)
          (\<lambda>i. map_option (\<lambda>s. ippg_umShareBufferCount (snap_iPortPg s ! p ! i) = ippg_umShareBufferCount (c p i) \<and>
             ippg_umHeadroomBufferCount (snap_iPortPg s ! p ! i) = ippg_umHeadroomBufferCount (c p i)) previous))
        (\<lambda>p i e.
          with_value (bst_json_convert_data o1 asic (ippg_umShareBufferCount (c p i)) (ippg_umShareMaxBuf (max_iPortPg mx ! p ! i))) (\<lambda>v1.
          with_value (bst_json_convert_data o1 asic (ippg_umHeadroomBufferCount (c p i)) (ippg_umHeadroomMaxBuf (max_iPortPg mx ! p ! i))) (\<lambda>v2.
          emit ('' [  '' @ fmt_d (int i) @ '' , '' @ fmt_u v1 @ '' , '' @ fmt_u v2 @ '' ] ,'') e))))"

definition jsonencode_report_ingress_ipsp ::
  "'hw plugin_entry list \<Rightarrow> int \<Rightarrow> asic_snapshot option \<Rightarrow> asic_snapshot \<Rightarrow> report_options \<Rightarrow> max_buf_snapshot \<Rightarrow>
   asic_capabilities \<Rightarrow> 'hw enc \<Rightarrow> 'hw enc_run" where
  "jsonencode_report_ingress_ipsp ps asicId previous current o1 mx asic =
     (let c = (\<lambda>p i. ipsp_umShareBufferCount (snap_iPortSp current ! p ! i)) in
      port_section ps asicId ''ingress-port-service-pool'' o1 (numPorts asic)
        (\<lambda>p. included o1 (numServicePools asic) (\<lambda>i. c p i = 0)
          (\<lambda>i. map_option (\<lambda>s. ipsp_umShareBufferCount (snap_iPortSp s ! p ! i) = c p i) previous))
        (\<lambda>p i e.
          with_value (bst_json_convert_data o1 asic (c p i) (max_iPortSp mx ! p ! i)) (\<lambda>v.
          emit ('' [  '' @ fmt_d (int i) @ '' , '' @ fmt_u v @ '' ] ,'') e)))"

text \<open>The format has no place for the queue entries, the last of the values it is given.\<close>

definition jsonencode_report_egress_epsp ::
  "'hw plugin_entry list \<Rightarrow> int \<Rightarrow> asic_snapshot option \<Rightarrow> asic_snapshot \<Rightarrow> report_options \<Rightarrow> max_buf_snapshot \<Rightarrow>
   asic_capabilities \<Rightarrow> 'hw enc \<Rightarrow> 'hw enc_run" where
  "jsonencode_report_egress_epsp ps asicId previous current o1 mx asic =
     (let c = (\<lambda>p i. snap_ePortSp current ! p ! i) in
      port_section ps asicId ''egress-port-service-pool'' o1 (numPorts asic)
        (\<lambda>p. included o1 (numServicePools asic)
          (\<lambda>i. epsp_umShareBufferCount (c p i) = 0 \<and> epsp_ucShareBufferCount (c p i) = 0 \<and>
             epsp_mcShareBufferCount (c p i) = 0 \<and> epsp_mcShareQueueEntries (c p i) = 0)
          (\<lambda>i. map_option (\<lambda>s. let b = snap_ePortSp s ! p ! i in
             epsp_umShareBufferCount b = epsp_umShareBufferCount (c p i) \<and>
             epsp_ucShareBufferCount b = epsp_ucShareBufferCount (c p i) \<and>
             epsp_mcShareBufferCount b = epsp_mcShareBufferCount (c p i) \<and>
             epsp_mcShareQueueEntries b = epsp_mcShareQueueEntries (c p i)) previous))
        (\<lambda>p i e.
          with_value (bst_json_convert_data o1 asic (epsp_ucShareBufferCount (c p i)) (epsp_ucShareMaxBuf (max_ePortSp mx ! p ! i))) (\<lambda>v1.
          with_value (bst_json_convert_data o1 asic (epsp_umShareBufferCount (c p i)) (epsp_umShareMaxBuf (max_ePortSp mx ! p ! i))) (\<lambda>v2.
          with_value (bst_json_convert_data o1 asic (epsp_mcShareBufferCount (c p i)) (epsp_mcShareMaxBuf (max_ePortSp mx ! p ! i))) (\<lambda>v3.
          emit ('' [  '' @ fmt_d (int i) @ '' , '' @ fmt_u v1 @ '' , '' @ fmt_u v2 @ '' , '' @ fmt_u v3 @ '' ] ,'') e)))))"

end
