(* ===== verification/C_Time.thy ===== *)
theory C_Time
  imports C_Text
begin

text \<open>The calendar of localtime and the format the reports use with strftime. The time zone is a parameter:
  the offset in seconds from UTC at a moment.\<close>

section \<open>The calendar\<close>

text \<open>Year, month and day of a number of days since 1 January 1970, counted in years that begin in March and
  eras of 400 years.\<close>

definition year_of_era :: "int \<Rightarrow> int" where
  "year_of_era doe = (doe - doe div 1460 + doe div 36524 - doe div 146096) div 365"

definition day_of_year :: "int \<Rightarrow> int" where
  "day_of_year doe = doe - (365 * year_of_era doe + year_of_era doe div 4 - year_of_era doe div 100)"

definition month_of :: "int \<Rightarrow> int" where
  "month_of doy = (if (5 * doy + 2) div 153 < 10 then (5 * doy + 2) div 153 + 3 else (5 * doy + 2) div 153 - 9)"

definition day_of :: "int \<Rightarrow> int" where
  "day_of doy = doy - (153 * ((5 * doy + 2) div 153) + 2) div 5 + 1"

definition civil_from_days :: "int \<Rightarrow> int \<times> int \<times> int" where
  "civil_from_days days =
     (let z = days + 719468; doe = z mod 146097; doy = day_of_year doe in
      (year_of_era doe + z div 146097 * 400 + (if month_of doy \<le> 2 then 1 else 0), month_of doy, day_of doy))"

definition fmt_02 :: "int \<Rightarrow> string" where
  "fmt_02 n = [digit_char (nat (n div 10)), digit_char (nat (n mod 10))]"

text \<open>The format is year, month, day, hour, minute and second with a space at the end.\<close>

definition report_time_text :: "(int \<Rightarrow> int) \<Rightarrow> int \<Rightarrow> string" where
  "report_time_text utc_offset t =
     (let local = t + utc_offset t; s = local mod 86400 in
      case civil_from_days (local div 86400) of (y, m, d) \<Rightarrow>
        fmt_d y @ ''-'' @ fmt_02 m @ ''-'' @ fmt_02 d @ '' - '' @ fmt_02 (s div 3600) @ '':'' @
        fmt_02 (s div 60 mod 60) @ '':'' @ fmt_02 (s mod 60) @ '' '')"

lemma civil_samples:
  "civil_from_days 0 = (1970, 1, 1)" "civil_from_days 59 = (1970, 3, 1)"
  "civil_from_days 11016 = (2000, 2, 29)" "civil_from_days 11017 = (2000, 3, 1)"
  "civil_from_days 19782 = (2024, 2, 29)" "civil_from_days 20088 = (2024, 12, 31)"
  "civil_from_days 47540 = (2100, 2, 28)" "civil_from_days 47541 = (2100, 3, 1)"
  by code_simp+

section \<open>Facts\<close>

text \<open>Month and day have two digits.\<close>

lemma day_of_year_bound:
  assumes doe: "0 \<le> doe" "doe < 146097"
  shows "day_of_year doe \<le> 600"
proof -
  have a: "0 \<le> doe div 1460" "doe div 1460 \<le> 101" "0 \<le> doe div 36524" "doe div 36524 \<le> 4" "0 \<le> doe div 146096" "doe div 146096 \<le> 1"
    using doe by linarith+
  have yoe: "365 * year_of_era doe \<le> doe - doe div 1460 + doe div 36524 - doe div 146096"
    "doe - doe div 1460 + doe div 36524 - doe div 146096 < 365 * year_of_era doe + 365"
    unfolding year_of_era_def by linarith+
  have "-1 \<le> year_of_era doe" "year_of_era doe \<le> 401" using yoe a doe by linarith+
  then have "-1 \<le> year_of_era doe div 4" "year_of_era doe div 100 \<le> 5" by linarith+
  then show ?thesis unfolding day_of_year_def using yoe a by linarith
qed

lemma civil_two_digits:
  assumes "civil_from_days n = (y, m, d)"
  shows "m < 100 \<and> d < 100"
proof -
  let ?doy = "day_of_year ((n + 719468) mod 146097)"
  have r: "m = month_of ?doy" "d = day_of ?doy" using assms by (simp_all add: civil_from_days_def Let_def)
  have "?doy \<le> 600" by (rule day_of_year_bound) simp_all
  then have "m < 100" unfolding r(1) month_of_def by (simp, linarith)
  moreover have "d < 100" unfolding r(2) day_of_def by linarith
  ultimately show ?thesis by simp
qed

lemma fmt_02_digits: "n < 100 \<Longrightarrow> list_all is_digit (fmt_02 n)"
proof -
  assume "n < 100"
  then have "nat (n div 10) < 10" "nat (n mod 10) < 10" by linarith+
  then show ?thesis by (simp add: fmt_02_def is_digit_char)
qed

definition time_char :: "char \<Rightarrow> bool" where
  "time_char c = (is_digit c \<or> c = CHR ''-'' \<or> c = CHR '':'' \<or> c = CHR '' '')"

lemma digits_time: "list_all is_digit s \<Longrightarrow> list_all time_char s"
  by (auto simp: list_all_iff time_char_def)

lemma fmt_d_time: "list_all time_char (fmt_d i)"
  using decimal_digits [of "nat i"] decimal_digits [of "nat (- i)"] by (auto simp: fmt_d_def list_all_iff time_char_def)

lemma report_time_chars: "list_all time_char (report_time_text off t)"
proof -
  let ?l = "t + off t"
  obtain y m d where c: "civil_from_days (?l div 86400) = (y, m, d)" by (metis prod_cases3)
  have s: "?l mod 86400 div 3600 < 100" "?l mod 86400 div 60 mod 60 < 100" "?l mod 86400 mod 60 < 100" by linarith+
  show ?thesis
    using civil_two_digits [OF c] s
    unfolding report_time_text_def Let_def c prod.case
    by (simp add: fmt_02_digits [THEN digits_time] fmt_d_time del: digits_time) (simp add: time_char_def)
qed

lemma fmt_02_length [simp]: "length (fmt_02 n) = 2"
  by (simp add: fmt_02_def)

end
