(* ===== verification/Bst_Encode_Report.thy ===== *)
theory Bst_Encode_Report
  imports Bst_Encode C_Time
begin

text \<open>The reports as a whole and the answers to get-bst-feature and get-bst-tracking:
  apps/bst/api/bst_json_encoder.c and the entry points of the ingress and egress encoders.\<close>

section \<open>The parts of a report\<close>

text \<open>snprintf outside the macro: the cursor moves on whether the text fitted or not.\<close>

definition print_at :: "string \<Rightarrow> 'hw enc \<Rightarrow> 'hw enc_run" where
  "print_at s e = map_option (\<lambda>e1. (BVIEW_STATUS_SUCCESS, e1)) (snprintf_at s e)"

definition ingress_asked :: "report_options \<Rightarrow> bool" where
  "ingress_asked o1 =
     (opt_includeIngressPortPriorityGroup o1 \<or> opt_includeIngressPortServicePool o1 \<or> opt_includeIngressServicePool o1)"

definition egress_asked :: "report_options \<Rightarrow> bool" where
  "egress_asked o1 =
     (opt_includeEgressCpuQueue o1 \<or> opt_includeEgressMcQueue o1 \<or> opt_includeEgressPortServicePool o1 \<or>
      opt_includeEgressRqeQueue o1 \<or> opt_includeEgressServicePool o1 \<or> opt_includeEgressUcQueue o1 \<or>
      opt_includeEgressUcQueueGroup o1)"

definition realm_part :: "bool \<Rightarrow> ('hw enc \<Rightarrow> 'hw enc_run) \<Rightarrow> 'hw enc \<Rightarrow> 'hw enc_run" where
  "realm_part asked f e = (if asked then f e else enc_ok e)"

text \<open>A realm that was asked for always has a length, so the comma after the last one goes unless egress
  realms follow.\<close>

definition jsonencode_report_ingress ::
  "'hw plugin_entry list \<Rightarrow> int \<Rightarrow> asic_snapshot option \<Rightarrow> asic_snapshot \<Rightarrow> report_options \<Rightarrow> max_buf_snapshot \<Rightarrow>
   asic_capabilities \<Rightarrow> 'hw enc \<Rightarrow> 'hw enc_run" where
  "jsonencode_report_ingress ps asicId previous current o1 mx asic e =
     enc_bind (realm_part (opt_includeIngressPortPriorityGroup o1)
       (jsonencode_report_ingress_ippg ps asicId previous current o1 mx asic) e) (\<lambda>e1.
     enc_bind (realm_part (opt_includeIngressPortServicePool o1)
       (jsonencode_report_ingress_ipsp ps asicId previous current o1 mx asic) e1) (\<lambda>e2.
     enc_bind (realm_part (opt_includeIngressServicePool o1)
       (jsonencode_report_ingress_sp previous current o1 mx asic) e2) (\<lambda>e3.
     enc_ok (if ingress_asked o1 \<and> \<not> egress_asked o1 then back_up e3 else e3))))"

definition jsonencode_report_egress ::
  "'hw plugin_entry list \<Rightarrow> int \<Rightarrow> asic_snapshot option \<Rightarrow> asic_snapshot \<Rightarrow> report_options \<Rightarrow> max_buf_snapshot \<Rightarrow>
   asic_capabilities \<Rightarrow> 'hw enc \<Rightarrow> 'hw enc_run" where
  "jsonencode_report_egress ps asicId previous current o1 mx asic e =
     enc_bind (realm_part (opt_includeEgressCpuQueue o1)
       (jsonencode_report_egress_cpuq previous current o1 mx asic) e) (\<lambda>e1.
     enc_bind (realm_part (opt_includeEgressMcQueue o1)
       (jsonencode_report_egress_mcq ps asicId previous current o1 mx asic) e1) (\<lambda>e2.
     enc_bind (realm_part (opt_includeEgressPortServicePool o1)
       (jsonencode_report_egress_epsp ps asicId previous current o1 mx asic) e2) (\<lambda>e3.
     enc_bind (realm_part (opt_includeEgressRqeQueue o1)
       (jsonencode_report_egress_rqeq previous current o1 mx asic) e3) (\<lambda>e4.
     enc_bind (realm_part (opt_includeEgressServicePool o1)
       (jsonencode_report_egress_sp previous current o1 mx asic) e4) (\<lambda>e5.
     enc_bind (realm_part (opt_includeEgressUcQueue o1)
       (jsonencode_report_egress_ucq ps asicId previous current o1 mx asic) e5) (\<lambda>e6.
     enc_bind (realm_part (opt_includeEgressUcQueueGroup o1)
       (jsonencode_report_egress_ucqg previous current o1 mx asic) e6) (\<lambda>e7.
     enc_ok (if egress_asked o1 then back_up e7 else e7))))))))"

text \<open>The length written, 0 when the device is left out.\<close>

definition jsonencode_report_device ::
  "asic_snapshot option \<Rightarrow> asic_snapshot \<Rightarrow> report_options \<Rightarrow> max_buf_snapshot \<Rightarrow> asic_capabilities \<Rightarrow>
   'hw enc \<Rightarrow> (int \<times> 'hw enc) option" where
  "jsonencode_report_device previous current o1 mx asic e =
     (let c = bufferCount (snap_device current) in
      if \<not> opt_includeDevice o1 \<or> (\<exists>p\<in>set_option previous. c = bufferCount (snap_device p)) then Some (0, e)
      else (case bst_json_convert_data o1 asic c (max_device mx) of
          None \<Rightarrow> None
        | Some v \<Rightarrow> (let s = ''{ \"realm\" : \"device\", \"data\" : '' @ fmt_u v @ ''}'' in
            map_option (\<lambda>e1. (int (length s), e1)) (snprintf_at s e))))"

section \<open>The head of a report\<close>

definition realm_indices_map :: "(string \<times> string option \<times> string option) list" where
  "realm_indices_map =
     [(''device'', None, None),
      (''ingress-service-pool'', Some ''service-pool'', None),
      (''ingress-port-service-pool'', Some ''port'', Some ''service-pool''),
      (''ingress-port-priority-group'', Some ''port'', Some ''priority-group''),
      (''egress-port-service-pool'', Some ''port'', Some ''service-pool''),
      (''egress-service-pool'', Some ''service-pool'', None),
      (''egress-uc-queue'', Some ''queue'', None),
      (''egress-uc-queue-group'', Some ''queue-group'', None),
      (''egress-mc-queue'', Some ''queue'', None),
      (''egress-cpu-queue'', Some ''queue'', None),
      (''egress-rqe-queue'', Some ''queue'', None)]"

text \<open>The buffers of the indices are cleared before; None is left empty.\<close>

definition bstjson_realm_to_indices_get :: "string \<Rightarrow> (string \<times> string) option" where
  "bstjson_realm_to_indices_get realm =
     map_option (\<lambda>(i1, i2). (case i1 of None \<Rightarrow> [] | Some s \<Rightarrow> s, case i2 of None \<Rightarrow> [] | Some s \<Rightarrow> s))
       (map_of realm_indices_map realm)"

definition bstjson_encode_trigger_realm_index_info ::
  "'hw plugin_entry list \<Rightarrow> int \<Rightarrow> string \<Rightarrow> int \<Rightarrow> int \<Rightarrow> 'hw enc \<Rightarrow> 'hw enc_run" where
  "bstjson_encode_trigger_realm_index_info ps asicId index port queue e =
     (if index = ''port'' then
        JSON_PORT_MAP_TO_NOTATION ps port asicId e (\<lambda>name e1. print_at (''\"port\" : \"'' @ name @ ''\",'') e1)
      else print_at (CHR 0x22 # index @ ''\" : '' @ fmt_d queue @ '','') e)"

definition BVIEW_JSON_VERSION :: int where "BVIEW_JSON_VERSION = 2"

definition report_head :: "bool \<Rightarrow> string \<Rightarrow> string \<Rightarrow> string" where
  "report_head threshold asicIdStr timeString =
     '' { \"jsonrpc\": \"2.0\",\"method\": \"'' @ (if threshold then ''get-bst-thresholds'' else ''get-bst-report'') @
     ''\",\"asic-id\": \"'' @ asicIdStr @ ''\",\"version\": \"'' @ fmt_d BVIEW_JSON_VERSION @
     ''\",\"time-stamp\": \"'' @ timeString @ ''\",\"report\": [ ''"

definition trigger_head :: "string \<Rightarrow> string \<Rightarrow> trigger_info \<Rightarrow> string" where
  "trigger_head asicIdStr timeString t =
     '' { \"jsonrpc\": \"2.0\",\"method\": \"trigger-report\",\"asic-id\": \"'' @ asicIdStr @
     ''\",\"version\": \"'' @ fmt_d BVIEW_JSON_VERSION @ ''\",\"time-stamp\": \"'' @ timeString @
     ''\",\"realm\": \"'' @ trig_realm t @ ''\",\"counter\": \"'' @ trig_counter t @ ''\",''"

definition encode_head ::
  "'hw plugin_entry list \<Rightarrow> int \<Rightarrow> report_options \<Rightarrow> string \<Rightarrow> string \<Rightarrow> 'hw enc \<Rightarrow> 'hw enc_run" where
  "encode_head ps asicId o1 asicIdStr timeString e =
     (if \<not> reportTrigger o1 then print_at (report_head (reportThreshold o1) asicIdStr timeString) e
      else (let t = opt_triggerInfo o1 in
        case bstjson_realm_to_indices_get (trig_realm t) of
          None \<Rightarrow> Some (BVIEW_STATUS_INVALID_PARAMETER, e)
        | Some (index1, index2) \<Rightarrow>
            enc_bind (print_at (trigger_head asicIdStr timeString t) e) (\<lambda>e1.
            enc_bind (if index1 = [] then enc_ok e1
              else bstjson_encode_trigger_realm_index_info ps asicId index1 (trig_port t) (trig_queue t) e1) (\<lambda>e2.
            enc_bind (if index2 = [] then enc_ok e2
              else bstjson_encode_trigger_realm_index_info ps asicId index2 (trig_port t) (trig_queue t) e2) (\<lambda>e3.
            print_at ''\"report\" : ['' e3)))))"

section \<open>Reports\<close>

definition encode_body ::
  "'hw plugin_entry list \<Rightarrow> int \<Rightarrow> asic_snapshot option \<Rightarrow> asic_snapshot \<Rightarrow> report_options \<Rightarrow> max_buf_snapshot \<Rightarrow>
   asic_capabilities \<Rightarrow> 'hw enc \<Rightarrow> 'hw enc_run" where
  "encode_body ps asicId previous current o1 mx asic e =
     (case jsonencode_report_device previous current o1 mx asic e of
        None \<Rightarrow> None
      | Some (tempLength, e1) \<Rightarrow>
          enc_bind (if tempLength \<noteq> 0 then print_at '' ,'' e1 else enc_ok e1) (\<lambda>e2.
          enc_bind (realm_part (ingress_asked o1)
            (jsonencode_report_ingress ps asicId previous current o1 mx asic) e2) (\<lambda>e3.
          realm_part (egress_asked o1) (jsonencode_report_egress ps asicId previous current o1 mx asic) e3)))"

text \<open>The cursor moves back, but the length that is left shrinks as well; over the last character, and over
  the one before when that is a terminator. A negative length is no size for snprintf.\<close>

definition step_back :: "'hw enc \<Rightarrow> 'hw enc" where
  "step_back e = e\<lparr>en_text := butlast (en_text e), en_tail := last (en_text e) # en_tail e, en_rem := en_rem e - 1\<rparr>"

definition encode_end :: "'hw enc \<Rightarrow> string option" where
  "encode_end e =
     (let e1 = step_back e; e2 = (if hd (en_tail e1) = CHR 0x00 then step_back e1 else e1) in
      if en_rem e2 < 0 then None
      else if en_rem e2 = 0 then Some (en_text e2 @ en_tail e2)
      else Some (en_text e2 @ take (nat (en_rem e2) - 1) '' ] } ''))"

text \<open>The status, the buffer with its text when the caller gets it, the pool and the plugins. A buffer that
  was taken stays taken when encoding fails afterwards.\<close>

type_synonym 'hw encoded = "(BVIEW_STATUS \<times> (nat \<times> string) option \<times> bst_memory_pool \<times> 'hw) option"

definition bstjson_encode_get_bst_report ::
  "'hw plugin_entry list \<Rightarrow> (int \<Rightarrow> int) \<Rightarrow> int \<Rightarrow> int \<Rightarrow> asic_snapshot option \<Rightarrow> asic_snapshot \<Rightarrow> report_options \<Rightarrow>
   max_buf_snapshot \<Rightarrow> asic_capabilities \<Rightarrow> int \<Rightarrow> bst_memory_pool \<Rightarrow> 'hw \<Rightarrow> 'hw encoded" where
  "bstjson_encode_get_bst_report ps utc_offset now asicId previous current o1 mx asic tv pool hw =
     (case bstjson_memory_allocate now BSTJSON_MEMSIZE_REPORT pool of (rv, buf, pool1) \<Rightarrow>
      if rv \<noteq> BVIEW_STATUS_SUCCESS then Some (BVIEW_STATUS_INVALID_PARAMETER, None, pool1, hw)
      else (case sbapi_system_asic_translate_to_notation ps asicId hw of (rv1, out, hw1) \<Rightarrow>
        if rv1 \<noteq> BVIEW_STATUS_SUCCESS then Some (BVIEW_STATUS_INVALID_JSON, None, pool1, hw1)
        else (case enc_bind (encode_head ps asicId o1 (case out of None \<Rightarrow> [] | Some s \<Rightarrow> s) (report_time_text utc_offset tv)
                 \<lparr>en_text = [], en_tail = [], en_rem = int BSTJSON_MEMSIZE_REPORT, en_hw = hw1\<rparr>)
               (encode_body ps asicId previous current o1 mx asic) of
            None \<Rightarrow> None
          | Some (rv2, e) \<Rightarrow>
              if rv2 \<noteq> BVIEW_STATUS_SUCCESS then Some (rv2, None, pool1, en_hw e)
              else map_option (\<lambda>s. (BVIEW_STATUS_SUCCESS, map_option (\<lambda>p. (p, s)) buf, pool1, en_hw e)) (encode_end e))))"

section \<open>Feature and tracking\<close>

definition feature_text :: "string \<Rightarrow> config_params \<Rightarrow> int \<Rightarrow> string" where
  "feature_text asicIdStr c i =
     '' {\"jsonrpc\": \"2.0\",\"method\": \"get-bst-feature\",\"asic-id\": \"'' @ asicIdStr @
     ''\",\"version\": \"'' @ fmt_d BVIEW_JSON_VERSION @ ''\",\"result\": {\"bst-enable\": '' @ fmt_d (bstEnable c) @
     '',\"send-async-reports\": '' @ fmt_d (sendAsyncReports c) @
     '',\"collection-interval\": '' @ fmt_d (collectionInterval c) @
     '',\"stat-units-in-cells\": '' @ fmt_d (statUnitsInCells c) @
     '',\"trigger-rate-limit\": '' @ fmt_d (bstMaxTriggers c) @
     '',\"send-snapshot-on-trigger\": '' @ fmt_d (sendSnapshotOnTrigger c) @
     '',\"trigger-rate-limit-interval\": '' @ fmt_d (triggerTransmitInterval c) @
     '',\"async-full-reports\": '' @ fmt_d (if sendIncrementalReport c = 0 then 1 else 0) @
     '',\"stats-in-percentage\": '' @ fmt_d (statsInPercentage c) @ ''},\"id\": '' @ fmt_d i @ ''}''"

definition tracking_text :: "string \<Rightarrow> track_params \<Rightarrow> int \<Rightarrow> string" where
  "tracking_text asicIdStr t i =
     '' {\"jsonrpc\": \"2.0\",\"method\": \"get-bst-tracking\",\"asic-id\": \"'' @ asicIdStr @
     ''\",\"version\": \"'' @ fmt_d BVIEW_JSON_VERSION @ ''\",\"result\": {\"track-peak-stats\" : '' @ fmt_d (trackPeakStats t) @
     '', \"track-ingress-port-priority-group\" : '' @ fmt_d (trackIngressPortPriorityGroup t) @
     '', \"track-ingress-port-service-pool\" : '' @ fmt_d (trackIngressPortServicePool t) @
     '', \"track-ingress-service-pool\" : '' @ fmt_d (trackIngressServicePool t) @
     '', \"track-egress-port-service-pool\" : '' @ fmt_d (trackEgressPortServicePool t) @
     '', \"track-egress-service-pool\" : '' @ fmt_d (trackEgressServicePool t) @
     '', \"track-egress-uc-queue\" : '' @ fmt_d (trackEgressUcQueue t) @
     '', \"track-egress-uc-queue-group\" : '' @ fmt_d (trackEgressUcQueueGroup t) @
     '', \"track-egress-mc-queue\" : '' @ fmt_d (trackEgressMcQueue t) @
     '', \"track-egress-cpu-queue\" : '' @ fmt_d (trackEgressCpuQueue t) @
     '', \"track-egress-rqe-queue\" : '' @ fmt_d (trackEgressRqeQueue t) @
     '', \"track-device\" : '' @ fmt_d (trackDevice t) @ '' },\"id\": '' @ fmt_d i @ ''}''"

text \<open>Both answers: a small buffer, the name of the asic, and the text cut to the buffer.\<close>

definition encode_response ::
  "'hw plugin_entry list \<Rightarrow> int \<Rightarrow> int \<Rightarrow> (string \<Rightarrow> string) \<Rightarrow> bst_memory_pool \<Rightarrow> 'hw \<Rightarrow> 'hw encoded" where
  "encode_response ps now asicId text pool hw =
     (case bstjson_memory_allocate now BSTJSON_MEMSIZE_RESPONSE pool of (rv, buf, pool1) \<Rightarrow>
      if rv \<noteq> BVIEW_STATUS_SUCCESS then Some (BVIEW_STATUS_INVALID_PARAMETER, None, pool1, hw)
      else (case sbapi_system_asic_translate_to_notation ps asicId hw of (rv1, out, hw1) \<Rightarrow>
        if rv1 \<noteq> BVIEW_STATUS_SUCCESS then Some (BVIEW_STATUS_INVALID_JSON, None, pool1, hw1)
        else Some (BVIEW_STATUS_SUCCESS,
          map_option (\<lambda>p. (p, take (BSTJSON_MEMSIZE_RESPONSE - 1) (text (case out of None \<Rightarrow> [] | Some s \<Rightarrow> s)))) buf,
          pool1, hw1)))"

definition bstjson_encode_get_bst_feature ::
  "'hw plugin_entry list \<Rightarrow> int \<Rightarrow> int \<Rightarrow> int \<Rightarrow> config_params option \<Rightarrow> bst_memory_pool \<Rightarrow> 'hw \<Rightarrow> 'hw encoded" where
  "bstjson_encode_get_bst_feature ps now asicId i pData pool hw =
     (case pData of None \<Rightarrow> Some (BVIEW_STATUS_INVALID_PARAMETER, None, pool, hw)
      | Some c \<Rightarrow> encode_response ps now asicId (\<lambda>a. feature_text a c i) pool hw)"

definition bstjson_encode_get_bst_tracking ::
  "'hw plugin_entry list \<Rightarrow> int \<Rightarrow> int \<Rightarrow> int \<Rightarrow> track_params option \<Rightarrow> bst_memory_pool \<Rightarrow> 'hw \<Rightarrow> 'hw encoded" where
  "bstjson_encode_get_bst_tracking ps now asicId i pData pool hw =
     (case pData of None \<Rightarrow> Some (BVIEW_STATUS_INVALID_PARAMETER, None, pool, hw)
      | Some t \<Rightarrow> encode_response ps now asicId (\<lambda>a. tracking_text a t i) pool hw)"

end
