(* ===== verification/Json_Text.thy ===== *)
theory Json_Text
  imports Json C_Text
begin

text \<open>Which texts are JSON, and of which value: the grammar of RFC 8259 without escapes, fractions and
  exponents, with blanks for white space.\<close>

section \<open>The grammar\<close>

definition plain :: "char \<Rightarrow> bool" where
  "plain c = (32 \<le> (of_char c :: nat) \<and> c \<noteq> CHR 0x22 \<and> c \<noteq> CHR 0x5C)"

definition blanks :: "string \<Rightarrow> bool" where
  "blanks s = list_all (\<lambda>c. c = CHR '' '') s"

definition quoted :: "string \<Rightarrow> string" where
  "quoted s = CHR 0x22 # s @ [CHR 0x22]"

inductive denotes_json :: "string \<Rightarrow> json \<Rightarrow> bool"
  and items_text :: "string \<Rightarrow> json list \<Rightarrow> bool"
  and members_text :: "string \<Rightarrow> (string \<times> json) list \<Rightarrow> bool" where
  number: "denotes_json (fmt_d i) (cJSON_Number i)"
| text_value: "list_all plain s \<Longrightarrow> denotes_json (quoted s) (cJSON_String s)"
| array: "items_text s vs \<Longrightarrow> denotes_json (CHR ''['' # s @ '']'') (cJSON_Array vs)"
| object: "members_text s ms \<Longrightarrow> denotes_json (CHR ''{'' # s @ ''}'') (cJSON_Object ms)"
| spaced: "blanks b1 \<Longrightarrow> blanks b2 \<Longrightarrow> denotes_json s v \<Longrightarrow> denotes_json (b1 @ s @ b2) v"
| no_item: "blanks b \<Longrightarrow> items_text b []"
| item: "denotes_json s v \<Longrightarrow> items_text s [v]"
| more_items: "denotes_json s v \<Longrightarrow> items_text t vs \<Longrightarrow> vs \<noteq> [] \<Longrightarrow> items_text (s @ CHR '','' # t) (v # vs)"
| member: "blanks b1 \<Longrightarrow> blanks b2 \<Longrightarrow> list_all plain k \<Longrightarrow> denotes_json s v \<Longrightarrow>
    members_text (b1 @ quoted k @ b2 @ CHR '':'' # s) [(k, v)]"
| more_members: "members_text s [m] \<Longrightarrow> members_text t ms \<Longrightarrow> ms \<noteq> [] \<Longrightarrow> members_text (s @ CHR '','' # t) (m # ms)"

section \<open>Facts\<close>

lemma blanks_simps [simp]: "blanks []" "blanks (c # s) \<longleftrightarrow> c = CHR '' '' \<and> blanks s" "blanks (s @ t) \<longleftrightarrow> blanks s \<and> blanks t"
  by (simp_all add: blanks_def)

lemma spaced_before: "blanks b \<Longrightarrow> denotes_json s v \<Longrightarrow> denotes_json (b @ s) v"
  using spaced [of b "[]" s v] by simp

lemma spaced_after: "blanks b \<Longrightarrow> denotes_json s v \<Longrightarrow> denotes_json (s @ b) v"
  using spaced [of "[]" b s v] by simp

lemma plain_digit:
  assumes "n < 10"
  shows "plain (digit_char n)"
proof -
  have d: "(of_char (digit_char n) :: nat) = 48 + n" by (rule of_digit_char [OF assms])
  have "digit_char n \<noteq> CHR 0x22"
  proof
    assume "digit_char n = CHR 0x22"
    then have "(of_char (digit_char n) :: nat) = 34" by simp
    then show False using d by simp
  qed
  moreover have "digit_char n \<noteq> CHR 0x5C"
  proof
    assume "digit_char n = CHR 0x5C"
    then have "(of_char (digit_char n) :: nat) = 92" by simp
    then show False using d assms by simp
  qed
  ultimately show ?thesis using d by (simp add: plain_def)
qed

lemma plain_digits: "is_digit c \<Longrightarrow> plain c"
  by (auto simp: is_digit_def plain_def)

section \<open>Lists of texts\<close>

fun comma_join :: "string list \<Rightarrow> string" where
  "comma_join [] = []"
| "comma_join [s] = s"
| "comma_join (s # t # ss) = s @ CHR '','' # comma_join (t # ss)"

lemma comma_join_Cons: "comma_join (s # ss) = (if ss = [] then s else s @ CHR '','' # comma_join ss)"
  by (cases ss) simp_all

lemma comma_join_snoc: "comma_join (ss @ [s @ t]) = comma_join (ss @ [s]) @ t"
  by (induction ss) (simp_all add: comma_join_Cons)

lemma items_join:
  "list_all2 denotes_json ss vs \<Longrightarrow> ss \<noteq> [] \<Longrightarrow> items_text (comma_join ss) vs"
proof (induction ss arbitrary: vs)
  case (Cons s ss)
  then obtain v ws where vs: "vs = v # ws" "denotes_json s v" "list_all2 denotes_json ss ws"
    by (auto simp: list_all2_Cons1)
  then show ?case using Cons.IH [of ws] by (cases ss) (auto simp: comma_join_Cons intro: item more_items)
qed simp

lemma members_join:
  "list_all2 (\<lambda>s m. members_text s [m]) ss ms \<Longrightarrow> ss \<noteq> [] \<Longrightarrow> members_text (comma_join ss) ms"
proof (induction ss arbitrary: ms)
  case (Cons s ss)
  then obtain m ns where ms: "ms = m # ns" "members_text s [m]" "list_all2 (\<lambda>s m. members_text s [m]) ss ns"
    by (auto simp: list_all2_Cons1)
  then show ?case using Cons.IH [of ns] by (cases ss) (auto simp: comma_join_Cons intro: more_members)
qed simp

text \<open>Lists with blanks around: an array whose items are joined, an object whose members are.\<close>

lemma array_join:
  assumes "list_all2 denotes_json ss vs" "blanks b1" "blanks b2"
  shows "denotes_json (CHR ''['' # b1 @ comma_join ss @ b2 @ '']'') (cJSON_Array vs)"
proof (cases ss)
  case Nil
  then have "items_text (b1 @ b2) vs" using assms by (auto intro: no_item)
  from array [OF this] Nil show ?thesis by simp
next
  case (Cons s ts)
  have "ss \<noteq> []" using Cons by simp
  then obtain zs z where z: "ss = zs @ [z]" by (metis append_butlast_last_id)
  then obtain ws w where w: "vs = ws @ [w]" "list_all2 denotes_json zs ws" "denotes_json z w"
    using assms(1) by (auto simp: list_all2_append1 list_all2_Cons1)
  have "list_all2 denotes_json (zs @ [z @ b2]) vs"
    using w assms(3) by (auto intro!: list_all2_appendI spaced_after)
  moreover obtain y ys where y: "zs @ [z @ b2] = y # ys" by (cases zs) auto
  ultimately obtain v us where v: "vs = v # us" "denotes_json y v" "list_all2 denotes_json ys us"
    by (auto simp: list_all2_Cons1)
  have "items_text (comma_join ((b1 @ y) # ys)) vs"
    unfolding v(1) by (rule items_join) (use v assms(2) in \<open>auto intro: spaced_before\<close>)
  moreover have "comma_join ((b1 @ y) # ys) = b1 @ comma_join ss @ b2"
    using y z comma_join_snoc [of zs z b2] by (simp add: comma_join_Cons split: if_split_asm)
  ultimately show ?thesis using array [of "b1 @ comma_join ss @ b2" vs] by simp
qed

lemma object_members: "members_text s ms \<Longrightarrow> denotes_json (CHR ''{'' # s @ ''}'') (cJSON_Object ms)"
  by (rule object)

lemma member_plain: "list_all plain k \<Longrightarrow> denotes_json s v \<Longrightarrow> members_text (quoted k @ CHR '':'' # s) [(k, v)]"
  using member [of "[]" "[]" k s v] by simp

end
