(* ===== verification/Bst_Report_Text.thy ===== *)
theory Bst_Report_Text
  imports Bst_Encode_Report Json_Text
begin

text \<open>The reference of the encoders: what a report says, as rows of cells, realm by realm, and the text of
  rows, realms and reports without buffer, cursor or commas to take back.\<close>

section \<open>Rows\<close>

text \<open>A cell is a name or a counter; a counter that C leaves undefined is None. A row starts with an index,
  and every cell has the separator that comes before it.\<close>

datatype report_cell = Name string | Count "u64 option"

type_synonym row = "nat \<times> (string \<times> report_cell) list"

primrec cell_json :: "report_cell \<Rightarrow> json" where
  "cell_json (Name s) = cJSON_String s"
| "cell_json (Count v) = cJSON_Number (uint (the v))"

primrec cell_text :: "report_cell \<Rightarrow> string" where
  "cell_text (Name s) = CHR 0x22 # s @ [CHR 0x22]"
| "cell_text (Count v) = fmt_u (the v)"

definition row_ok :: "row \<Rightarrow> bool" where
  "row_ok r = list_all (\<lambda>c. snd c \<noteq> Count None) (snd r)"

definition row_text :: "row \<Rightarrow> string" where
  "row_text r = '' [  '' @ fmt_d (int (fst r)) @ concat (map (\<lambda>c. fst c @ cell_text (snd c)) (snd r)) @ '' ] ''"

definition row_json :: "row \<Rightarrow> json" where
  "row_json r = cJSON_Array (cJSON_Number (int (fst r)) # map (\<lambda>c. cell_json (snd c)) (snd r))"

definition section_text :: "string \<Rightarrow> string list \<Rightarrow> string" where
  "section_text realm items =
     '' { \"realm\": \"'' @ realm @ ''\", \"data\": ['' @ (if items = [] then [] else CHR '' '' # comma_join items) @ ''] } ,''"

definition section_json :: "string \<Rightarrow> json list \<Rightarrow> json" where
  "section_json realm items = cJSON_Object [(''realm'', cJSON_String realm), (''data'', cJSON_Array items)]"

definition port_text :: "string \<times> row list \<Rightarrow> string" where
  "port_text p = '' { \"port\": \"'' @ fst p @ ''\", \"data\": [ '' @ comma_join (map row_text (snd p)) @ ''] } ''"

definition port_json :: "string \<times> row list \<Rightarrow> json" where
  "port_json p = cJSON_Object [(''port'', cJSON_String (fst p)), (''data'', cJSON_Array (map row_json (snd p)))]"

section \<open>The rows of the realms\<close>

record report_input =
  ri_previous :: "asic_snapshot option"
  ri_current :: asic_snapshot
  ri_options :: report_options
  ri_max :: max_buf_snapshot
  ri_asic :: asic_capabilities

definition ri_count :: "report_input \<Rightarrow> u64 \<Rightarrow> u64 \<Rightarrow> report_cell" where
  "ri_count x v m = Count (bst_json_convert_data (ri_options x) (ri_asic x) v m)"

text \<open>The indices of a realm whose entries, seen through g, are reported.\<close>

definition ri_included :: "report_input \<Rightarrow> int \<Rightarrow> (asic_snapshot \<Rightarrow> nat \<Rightarrow> u64 list) \<Rightarrow> nat list" where
  "ri_included x count g =
     included (ri_options x) count (\<lambda>i. \<forall>v\<in>set (g (ri_current x) i). v = 0)
       (\<lambda>i. map_option (\<lambda>s. g s i = g (ri_current x) i) (ri_previous x))"

primrec queue_rows :: "bst_realm \<Rightarrow> (int \<Rightarrow> string) \<Rightarrow> report_input \<Rightarrow> row list" where
  "queue_rows BVIEW_BST_DEVICE name x = []"
| "queue_rows BVIEW_BST_INGRESS_PORT_PG name x = []"
| "queue_rows BVIEW_BST_INGRESS_PORT_SP name x = []"
| "queue_rows BVIEW_BST_EGRESS_PORT_SP name x = []"
| "queue_rows BVIEW_BST_INGRESS_SP name x =
     map (\<lambda>i. (i, [('' , '', ri_count x (isp_umShareBufferCount (snap_iSp (ri_current x) ! i)) (max_iSp (ri_max x) ! i))]))
       (ri_included x (numServicePools (ri_asic x)) (\<lambda>s i. [isp_umShareBufferCount (snap_iSp s ! i)]))"
| "queue_rows BVIEW_BST_EGRESS_SP name x =
     map (\<lambda>i. let c = snap_eSp (ri_current x) ! i in
        (i, [('' , '', ri_count x (esp_umShareBufferCount c) (esp_umShareMaxBuf (max_eSp (ri_max x) ! i))),
             ('' , '', ri_count x (esp_mcShareBufferCount c) (esp_mcShareMaxBuf (max_eSp (ri_max x) ! i))),
             ('', '', Count (Some (esp_mcShareQueueEntries c)))]))
       (ri_included x (numServicePools (ri_asic x)) (\<lambda>s i. [esp_umShareBufferCount (snap_eSp s ! i),
          esp_mcShareBufferCount (snap_eSp s ! i), esp_mcShareQueueEntries (snap_eSp s ! i)]))"
| "queue_rows BVIEW_BST_EGRESS_UC_QUEUE name x =
     map (\<lambda>i. let c = snap_eUcQ (ri_current x) ! i in
        (i, [('' , '', Name (name (int_of_port (eucq_port c)))),
             ('' , '', ri_count x (eucq_ucBufferCount c) (max_eUcQ (ri_max x) ! i))]))
       (ri_included x (numUnicastQueues (ri_asic x)) (\<lambda>s i. [eucq_ucBufferCount (snap_eUcQ s ! i)]))"
| "queue_rows BVIEW_BST_EGRESS_UC_QUEUEGROUPS name x =
     map (\<lambda>i. (i, [('' , '', ri_count x (eucqg_ucBufferCount (snap_eUcQg (ri_current x) ! i)) (max_eUcQg (ri_max x) ! i))]))
       (ri_included x (numUnicastQueueGroups (ri_asic x)) (\<lambda>s i. [eucqg_ucBufferCount (snap_eUcQg s ! i)]))"
| "queue_rows BVIEW_BST_EGRESS_MC_QUEUE name x =
     map (\<lambda>i. let c = snap_eMcQ (ri_current x) ! i in
        (i, [('' , '', Name (name (int_of_port (emcq_port c)))),
             ('' ,  '', ri_count x (mcBufferCount c) (max_eMcQ (ri_max x) ! i)),
             ('', '', Count (Some (mcQueueEntries c)))]))
       (ri_included x (numMulticastQueues (ri_asic x)) (\<lambda>s i. [mcBufferCount (snap_eMcQ s ! i), mcQueueEntries (snap_eMcQ s ! i)]))"
| "queue_rows BVIEW_BST_EGRESS_CPU_QUEUE name x =
     map (\<lambda>i. let c = snap_cpqQ (ri_current x) ! i in
        (i, [('' , '', ri_count x (cpuBufferCount c) (max_cpqQ (ri_max x) ! i)), ('', '', Count (Some (cpuQueueEntries c)))]))
       (ri_included x (numCpuQueues (ri_asic x)) (\<lambda>s i. [cpuBufferCount (snap_cpqQ s ! i), cpuQueueEntries (snap_cpqQ s ! i)]))"
| "queue_rows BVIEW_BST_EGRESS_RQE_QUEUE name x =
     map (\<lambda>i. let c = snap_rqeQ (ri_current x) ! i in
        (i, [('' , '', ri_count x (rqeBufferCount c) (max_rqeQ (ri_max x) ! i)), ('', '', Count (Some (rqeQueueEntries c)))]))
       (ri_included x (numRqeQueues (ri_asic x)) (\<lambda>s i. [rqeBufferCount (snap_rqeQ s ! i), rqeQueueEntries (snap_rqeQ s ! i)]))"

text \<open>The rows of one port; the shared multicast queue entries of a port are looked at and not reported.\<close>

primrec port_rows :: "bst_realm \<Rightarrow> nat \<Rightarrow> report_input \<Rightarrow> row list" where
  "port_rows BVIEW_BST_DEVICE p x = []"
| "port_rows BVIEW_BST_INGRESS_SP p x = []"
| "port_rows BVIEW_BST_EGRESS_SP p x = []"
| "port_rows BVIEW_BST_EGRESS_UC_QUEUE p x = []"
| "port_rows BVIEW_BST_EGRESS_UC_QUEUEGROUPS p x = []"
| "port_rows BVIEW_BST_EGRESS_MC_QUEUE p x = []"
| "port_rows BVIEW_BST_EGRESS_CPU_QUEUE p x = []"
| "port_rows BVIEW_BST_EGRESS_RQE_QUEUE p x = []"
| "port_rows BVIEW_BST_INGRESS_PORT_PG p x =
     map (\<lambda>i. let c = snap_iPortPg (ri_current x) ! p ! i; m = max_iPortPg (ri_max x) ! p ! i in
        (i, [('' , '', ri_count x (ippg_umShareBufferCount c) (ippg_umShareMaxBuf m)),
             ('' , '', ri_count x (ippg_umHeadroomBufferCount c) (ippg_umHeadroomMaxBuf m))]))
       (ri_included x (numPriorityGroups (ri_asic x)) (\<lambda>s i. let c = snap_iPortPg s ! p ! i in
          [ippg_umShareBufferCount c, ippg_umHeadroomBufferCount c]))"
| "port_rows BVIEW_BST_INGRESS_PORT_SP p x =
     map (\<lambda>i. (i, [('' , '', ri_count x (ipsp_umShareBufferCount (snap_iPortSp (ri_current x) ! p ! i))
        (max_iPortSp (ri_max x) ! p ! i))]))
       (ri_included x (numServicePools (ri_asic x)) (\<lambda>s i. [ipsp_umShareBufferCount (snap_iPortSp s ! p ! i)]))"
| "port_rows BVIEW_BST_EGRESS_PORT_SP p x =
     map (\<lambda>i. let c = snap_ePortSp (ri_current x) ! p ! i; m = max_ePortSp (ri_max x) ! p ! i in
        (i, [('' , '', ri_count x (epsp_ucShareBufferCount c) (epsp_ucShareMaxBuf m)),
             ('' , '', ri_count x (epsp_umShareBufferCount c) (epsp_umShareMaxBuf m)),
             ('' , '', ri_count x (epsp_mcShareBufferCount c) (epsp_mcShareMaxBuf m))]))
       (ri_included x (numServicePools (ri_asic x)) (\<lambda>s i. let c = snap_ePortSp s ! p ! i in
          [epsp_umShareBufferCount c, epsp_ucShareBufferCount c, epsp_mcShareBufferCount c, epsp_mcShareQueueEntries c]))"

definition ri_ports :: "bst_realm \<Rightarrow> (int \<Rightarrow> string) \<Rightarrow> report_input \<Rightarrow> (string \<times> row list) list" where
  "ri_ports r name x =
     map (\<lambda>p. (name (int p), port_rows r (p - 1) x))
       (filter (\<lambda>p. \<not> port_skipped (ri_options x) p \<and> port_rows r (p - 1) x \<noteq> []) [1..<Suc (nat (numPorts (ri_asic x)))])"

section \<open>Reports\<close>

definition port_realm :: "bst_realm \<Rightarrow> bool" where
  "port_realm r = (r \<in> {BVIEW_BST_INGRESS_PORT_PG, BVIEW_BST_INGRESS_PORT_SP, BVIEW_BST_EGRESS_PORT_SP})"

definition realm_text :: "(int \<Rightarrow> string) \<Rightarrow> report_input \<Rightarrow> bst_realm \<Rightarrow> string" where
  "realm_text name x r = section_text (realm_name r)
     (if port_realm r then map port_text (ri_ports r name x) else map row_text (queue_rows r name x))"

definition realm_json :: "(int \<Rightarrow> string) \<Rightarrow> report_input \<Rightarrow> bst_realm \<Rightarrow> json" where
  "realm_json name x r = section_json (realm_name r)
     (if port_realm r then map port_json (ri_ports r name x) else map row_json (queue_rows r name x))"

definition realm_ok :: "(int \<Rightarrow> string) \<Rightarrow> report_input \<Rightarrow> bst_realm \<Rightarrow> bool" where
  "realm_ok name x r =
     (if port_realm r then list_all (\<lambda>p. list_all row_ok (snd p)) (ri_ports r name x)
      else list_all row_ok (queue_rows r name x))"

text \<open>The realms in the order of the encoders.\<close>

definition report_realms :: "report_options \<Rightarrow> bst_realm list" where
  "report_realms o1 = filter (\<lambda>r. realm_included r o1)
     [BVIEW_BST_INGRESS_PORT_PG, BVIEW_BST_INGRESS_PORT_SP, BVIEW_BST_INGRESS_SP,
      BVIEW_BST_EGRESS_CPU_QUEUE, BVIEW_BST_EGRESS_MC_QUEUE, BVIEW_BST_EGRESS_PORT_SP, BVIEW_BST_EGRESS_RQE_QUEUE,
      BVIEW_BST_EGRESS_SP, BVIEW_BST_EGRESS_UC_QUEUE, BVIEW_BST_EGRESS_UC_QUEUEGROUPS]"

text \<open>The device, unless it is not asked for or has not changed.\<close>

definition device_cell :: "report_input \<Rightarrow> report_cell option" where
  "device_cell x =
     (let c = bufferCount (snap_device (ri_current x)) in
      if opt_includeDevice (ri_options x) \<and> (\<forall>p\<in>set_option (ri_previous x). c \<noteq> bufferCount (snap_device p))
      then Some (ri_count x c (max_device (ri_max x))) else None)"

definition device_text :: "report_input \<Rightarrow> string" where
  "device_text x = (case device_cell x of None \<Rightarrow> []
     | Some c \<Rightarrow> ''{ \"realm\" : \"device\", \"data\" : '' @ cell_text c @ ''} ,'')"

definition index_text :: "(int \<Rightarrow> string) \<Rightarrow> string \<Rightarrow> int \<Rightarrow> int \<Rightarrow> string" where
  "index_text name index port queue =
     (if index = [] then [] else if index = ''port'' then ''\"port\" : \"'' @ name port @ ''\",''
      else CHR 0x22 # index @ ''\" : '' @ fmt_d queue @ '','')"

definition head_text :: "(int \<Rightarrow> string) \<Rightarrow> string \<Rightarrow> string \<Rightarrow> report_options \<Rightarrow> string option" where
  "head_text name asicIdStr timeString o1 =
     (if \<not> reportTrigger o1 then Some (report_head (reportThreshold o1) asicIdStr timeString)
      else (let t = opt_triggerInfo o1 in
        map_option (\<lambda>(i1, i2). trigger_head asicIdStr timeString t @ index_text name i1 (trig_port t) (trig_queue t) @
          index_text name i2 (trig_port t) (trig_queue t) @ ''\"report\" : ['') (bstjson_realm_to_indices_get (trig_realm t))))"

text \<open>All that is written before the closing brackets.\<close>

definition open_text :: "(int \<Rightarrow> string) \<Rightarrow> string \<Rightarrow> report_input \<Rightarrow> string" where
  "open_text name head x = head @ device_text x @ concat (map (realm_text name x) (report_realms (ri_options x)))"

text \<open>The last comma goes, with the space before it when it ends a realm.\<close>

definition report_text :: "(int \<Rightarrow> string) \<Rightarrow> string \<Rightarrow> report_input \<Rightarrow> string" where
  "report_text name head x =
     (if report_realms (ri_options x) = [] then butlast (open_text name head x)
      else butlast (butlast (open_text name head x))) @ '' ] } ''"

definition report_ok :: "(int \<Rightarrow> string) \<Rightarrow> report_input \<Rightarrow> bool" where
  "report_ok name x = (device_cell x \<noteq> Some (Count None) \<and> list_all (realm_ok name x) (report_realms (ri_options x)))"

end
