(* ===== verification/Bst_Encode_Laws.thy ===== *)
theory Bst_Encode_Laws
  imports Bst_Report_Text
begin

text \<open>What the encoders write: each step, entry, realm and report adds exactly its reference text when that
  fits into the buffer, and does not succeed otherwise.\<close>

section \<open>Writing\<close>

definition adv :: "string \<Rightarrow> 'hw enc \<Rightarrow> 'hw enc" where
  "adv s e = e\<lparr>en_text := en_text e @ s, en_rem := en_rem e - int (length s)\<rparr>"

definition at_end :: "'hw enc \<Rightarrow> bool" where
  "at_end e = (en_tail e = [] \<and> 0 < en_rem e)"

definition writes :: "bool \<Rightarrow> ('hw enc \<Rightarrow> 'hw enc_run) \<Rightarrow> string \<Rightarrow> bool" where
  "writes d f s = (\<forall>e. at_end e \<longrightarrow>
     (if d \<and> int (length s) < en_rem e then f e = Some (BVIEW_STATUS_SUCCESS, adv s e)
      else \<forall>e1. f e \<noteq> Some (BVIEW_STATUS_SUCCESS, e1)))"

lemma writesI:
  assumes "\<And>e. at_end e \<Longrightarrow> d \<Longrightarrow> int (length s) < en_rem e \<Longrightarrow> f e = Some (BVIEW_STATUS_SUCCESS, adv s e)"
    and "\<And>e e1. at_end e \<Longrightarrow> f e = Some (BVIEW_STATUS_SUCCESS, e1) \<Longrightarrow> d \<and> int (length s) < en_rem e"
  shows "writes d f s"
  using assms unfolding writes_def by auto

lemma writesD: "writes d f s \<Longrightarrow> at_end e \<Longrightarrow> d \<Longrightarrow> int (length s) < en_rem e \<Longrightarrow> f e = Some (BVIEW_STATUS_SUCCESS, adv s e)"
  by (simp add: writes_def)

lemma writes_success:
  "writes d f s \<Longrightarrow> at_end e \<Longrightarrow> f e = Some (BVIEW_STATUS_SUCCESS, e1) \<Longrightarrow> d \<and> int (length s) < en_rem e \<and> e1 = adv s e"
  unfolding writes_def by (drule spec [of _ e]) (auto split: if_split_asm)

lemma adv_simps [simp]:
  "en_text (adv s e) = en_text e @ s" "en_tail (adv s e) = en_tail e" "en_rem (adv s e) = en_rem e - int (length s)"
  "en_hw (adv s e) = en_hw e"
  by (simp_all add: adv_def)

lemma adv_Nil [simp]: "adv [] e = e"
  by (simp add: adv_def)

lemma adv_adv [simp]: "adv t (adv s e) = adv (s @ t) e"
  by (simp add: adv_def)

lemma at_end_adv: "at_end e \<Longrightarrow> int (length s) < en_rem e \<Longrightarrow> at_end (adv s e)"
  by (simp add: at_end_def)

lemma emit_cases:
  assumes "en_rem e1 = r" "s \<noteq> []"
  shows "emit s e1 = (if int (length s) < r
      then Some (BVIEW_STATUS_SUCCESS, e1\<lparr>en_text := en_text e1 @ s, en_tail := [], en_rem := r - int (length s)\<rparr>)
      else if r = int (length s) then Some (BVIEW_STATUS_OUTOFMEMORY, e1) else None)"
  using assms by (auto simp: JSONENCODE_COPY_FORMATTED_STRING_AND_ADVANCE_def snprintf_at_def)

lemma writes_emit: "s \<noteq> [] \<Longrightarrow> writes True (emit s) s"
  by (rule writesI) (auto simp: emit_cases [OF refl] adv_def at_end_def split: if_split_asm)

lemma writes_ok: "writes True enc_ok []"
  by (rule writesI) (auto simp: enc_ok_def at_end_def)

lemma enc_bind_simps [simp]:
  "enc_bind None g = None"
  "enc_bind (Some (BVIEW_STATUS_SUCCESS, e)) g = g e"
  by (simp_all add: enc_bind_def)

lemma enc_bind_success:
  "enc_bind r g = Some (BVIEW_STATUS_SUCCESS, e2) \<longleftrightarrow> (\<exists>e1. r = Some (BVIEW_STATUS_SUCCESS, e1) \<and> g e1 = Some (BVIEW_STATUS_SUCCESS, e2))"
  by (auto simp: enc_bind_def split: option.split)

lemma writes_bind:
  assumes f: "writes d1 f s1" and g: "writes d2 g s2"
  shows "writes (d1 \<and> d2) (\<lambda>e. enc_bind (f e) g) (s1 @ s2)"
proof (rule writesI)
  fix e :: "'a enc" assume e: "at_end e" "d1 \<and> d2" "int (length (s1 @ s2)) < en_rem e"
  then show "enc_bind (f e) g = Some (BVIEW_STATUS_SUCCESS, adv (s1 @ s2) e)"
    using writesD [OF f e(1)] writesD [OF g at_end_adv [OF e(1)], of s1] by simp
next
  fix e e2 :: "'a enc" assume e: "at_end e" "enc_bind (f e) g = Some (BVIEW_STATUS_SUCCESS, e2)"
  then obtain e1 where 1: "f e = Some (BVIEW_STATUS_SUCCESS, e1)" and 2: "g e1 = Some (BVIEW_STATUS_SUCCESS, e2)"
    by (auto simp: enc_bind_success)
  have s: "d1" "int (length s1) < en_rem e" "e1 = adv s1 e" using writes_success [OF f e(1) 1] by auto
  from writes_success [OF g at_end_adv [OF e(1) s(2)], folded s(3), OF 2] s
  show "(d1 \<and> d2) \<and> int (length (s1 @ s2)) < en_rem e" by simp
qed

lemma writes_each:
  assumes "\<And>k. k \<in> set ks \<Longrightarrow> writes (d k) (f k) (t k)"
  shows "writes (\<forall>k\<in>set ks. d k) (enc_each f ks) (concat (map t ks))"
  using assms
proof (induction ks)
  case Nil
  have "enc_each f [] = enc_ok" by (rule ext) simp
  then show ?case using writes_ok by simp
next
  case (Cons k ks)
  have "enc_each f (k # ks) = (\<lambda>e. enc_bind (f k e) (enc_each f ks))" by (rule ext) simp
  then show ?case using writes_bind [OF Cons.prems [of k] Cons.IH] Cons.prems by simp
qed

text \<open>Text whose last character is taken back.\<close>

lemma writes_back:
  assumes f: "writes d f s" and "s \<noteq> []" "t \<noteq> []"
  shows "writes d (\<lambda>e. enc_bind (f e) (\<lambda>e1. emit t (back_up e1))) (butlast s @ t)"
proof -
  have l: "int (length (butlast s @ t)) = int (length s) - 1 + int (length t)" "0 < length s" "0 < length t"
    using assms(2,3) by (simp_all add: of_nat_diff Suc_le_eq)
  have b: "en_rem (back_up (adv s e)) = en_rem e - int (length s) + 1" for e :: "'a enc"
    by (simp add: back_up_def)
  show ?thesis
  proof (rule writesI)
    fix e :: "'a enc" assume e: "at_end e" d "int (length (butlast s @ t)) < en_rem e"
    then show "enc_bind (f e) (\<lambda>e1. emit t (back_up e1)) = Some (BVIEW_STATUS_SUCCESS, adv (butlast s @ t) e)"
      using writesD [OF f e(1,2)] l assms(2,3)
      by (simp add: emit_cases [OF b]) (cases e, simp add: adv_def back_up_def butlast_append at_end_def of_nat_diff Suc_le_eq)
  next
    fix e e2 :: "'a enc" assume e: "at_end e" "enc_bind (f e) (\<lambda>e1. emit t (back_up e1)) = Some (BVIEW_STATUS_SUCCESS, e2)"
    then obtain e1 where 1: "f e = Some (BVIEW_STATUS_SUCCESS, e1)" "emit t (back_up e1) = Some (BVIEW_STATUS_SUCCESS, e2)"
      by (auto simp: enc_bind_success)
    then show "d \<and> int (length (butlast s @ t)) < en_rem e"
      using writes_success [OF f e(1) 1(1)] l assms(2,3)
      by (auto simp: emit_cases [OF b] of_nat_diff Suc_le_eq split: if_split_asm)
  qed
qed

lemma writes_value:
  assumes "\<And>v. x = Some v \<Longrightarrow> writes d (f v) s"
  shows "writes (x \<noteq> None \<and> d) (\<lambda>e. with_value x (\<lambda>v. f v e)) s"
  using assms by (cases x) (auto simp: writes_def with_value_def)

lemma writes_part: "writes d f s \<Longrightarrow> writes (\<not> b \<or> d) (realm_part b f) (if b then s else [])"
  using writes_ok by (auto simp: realm_part_def [abs_def])

lemma print_fits:
  assumes "at_end e" "int (length s) < en_rem e"
  shows "print_at s e = Some (BVIEW_STATUS_SUCCESS, adv s e)"
  using assms by (cases e) (simp add: print_at_def snprintf_at_def adv_def at_end_def)

lemma writes_if: "(b \<Longrightarrow> writes d f s) \<Longrightarrow> (\<not> b \<Longrightarrow> writes d g s) \<Longrightarrow> writes d (\<lambda>e. if b then f e else g e) s"
  by (cases b) auto

lemma writes_cong: "writes d f s \<Longrightarrow> (\<And>e. g e = f e) \<Longrightarrow> d = d' \<Longrightarrow> s = s' \<Longrightarrow> writes d' g s'"
  by (simp add: writes_def)

section \<open>Sections\<close>

text \<open>The texts of items, each with its comma; the last comma goes, or the space before when there is no item.\<close>

lemma comma_join_butlast: "ss \<noteq> [] \<Longrightarrow> butlast (concat (map (\<lambda>s. s @ '','') ss)) = comma_join ss"
  by (induction ss rule: comma_join.induct) (simp_all add: butlast_append)

lemma concat_commas: "concat (map (\<lambda>s. s @ '','') ss) = [] \<longleftrightarrow> ss = []"
  by (cases ss) simp_all

lemma items_butlast:
  "butlast (h @ '' '' @ concat (map (\<lambda>s. s @ '','') ss)) = h @ (if ss = [] then [] else CHR '' '' # comma_join ss)"
  using comma_join_butlast [of ss] concat_commas [of ss] by (simp add: butlast_append)

lemma concat_filter:
  "concat (map (\<lambda>k. if inc k then f k @ '','' else []) ks) = concat (map (\<lambda>s. s @ '','') (map f (filter inc ks)))"
  by (induction ks) simp_all

definition section_head :: "string \<Rightarrow> string" where
  "section_head realm = '' { \"realm\": \"'' @ realm @ ''\", \"data\": [''"

lemma section_text_head:
  "section_text realm items = section_head realm @ (if items = [] then [] else CHR '' '' # comma_join items) @ ''] } ,''"
  by (simp add: section_text_def section_head_def)

lemma enc_bind_assoc: "enc_bind (enc_bind r f) g = enc_bind r (\<lambda>e. enc_bind (f e) g)"
  by (simp add: enc_bind_def split: option.split)

lemma head_space: "'' { \"realm\": \"'' @ realm @ ''\", \"data\": [ '' = section_head realm @ '' ''"
  by (simp add: section_head_def)

lemma queue_section_alt:
  "queue_section realm count entry = (\<lambda>e. enc_bind (enc_bind (emit (section_head realm @ '' '') e) (enc_each entry [0..<nat count]))
     (\<lambda>e1. emit ''] } ,'' (back_up e1)))"
  by (rule ext) (simp only: queue_section_def enc_bind_assoc head_space)

text \<open>What a section of items writes, queue or port.\<close>

lemma writes_items:
  assumes "\<And>k. k \<in> set ks \<Longrightarrow> writes (d k) (item k) (if inc k then f k @ '','' else [])"
  shows "writes (\<forall>k\<in>set ks. d k) (\<lambda>e. enc_bind (enc_bind (emit (h @ '' '') e) (enc_each item ks)) (\<lambda>e1. emit ''] } ,'' (back_up e1)))
     (h @ (let ss = map f (filter inc ks) in if ss = [] then [] else CHR '' '' # comma_join ss) @ ''] } ,'')"
proof -
  have "writes True (emit (h @ '' '')) (h @ '' '')" by (rule writes_emit) simp
  moreover have "writes (\<forall>k\<in>set ks. d k) (enc_each item ks) (concat (map (\<lambda>k. if inc k then f k @ '','' else []) ks))"
    by (rule writes_each) (rule assms)
  ultimately have "writes (True \<and> (\<forall>k\<in>set ks. d k)) (\<lambda>e. enc_bind (emit (h @ '' '') e) (enc_each item ks))
     ((h @ '' '') @ concat (map (\<lambda>k. if inc k then f k @ '','' else []) ks))" by (rule writes_bind)
  from writes_back [OF this, of "''] } ,''"]
  have *: "writes (True \<and> (\<forall>k\<in>set ks. d k)) (\<lambda>e. enc_bind (enc_bind (emit (h @ '' '') e) (enc_each item ks)) (\<lambda>e1. emit ''] } ,'' (back_up e1)))
     (butlast ((h @ '' '') @ concat (map (\<lambda>k. if inc k then f k @ '','' else []) ks)) @ ''] } ,'')"
    by simp
  then show ?thesis by (simp only: concat_filter append_assoc items_butlast Let_def simp_thms)
qed

lemma writes_queue_section:
  assumes "\<And>i. i < nat count \<Longrightarrow> writes (d i) (entry i) (if inc i then row i @ '','' else [])"
  shows "writes (\<forall>i<nat count. d i) (queue_section realm count entry)
     (section_text realm (map row (filter inc [0..<nat count])))"
proof -
  have "writes (\<forall>i\<in>set [0..<nat count]. d i) (queue_section realm count entry)
     (section_head realm @ (let ss = map row (filter inc [0..<nat count]) in if ss = [] then [] else CHR '' '' # comma_join ss) @ ''] } ,'')"
    unfolding queue_section_alt by (rule writes_items) (simp add: assms)
  then show ?thesis by (simp only: section_text_head Let_def Ball_def set_upt atLeastLessThan_iff le0 simp_thms)
qed

lemma writes_queue_entry:
  assumes "writes d write s"
  shows "writes (queue_skipped o1 i \<or> unreported o1 zero same \<or> d) (queue_entry o1 i zero same write)
     (if \<not> (queue_skipped o1 i \<or> unreported o1 zero same) then s else [])"
  using assms writes_ok unfolding queue_entry_def by (auto intro: writes_cong)

section \<open>Rows\<close>

lemma fmt_d_unat: "fmt_d (uint v) = fmt_u v" for v :: u64
  unfolding fmt_d_def fmt_u_def unat_eq_nat_uint by (simp add: not_less)

lemma writes_None: "\<not> d \<Longrightarrow> writes d (\<lambda>e. None) s"
  by (simp add: writes_def)

lemmas row_simps = writes_emit writes_None row_ok_def row_text_def with_value_def

lemma writes_row1:
  "writes (row_ok (i, [(s1, Count x)]))
     (\<lambda>e. with_value x (\<lambda>v. emit ('' [  '' @ fmt_d (int i) @ s1 @ fmt_u v @ '' ] ,'') e))
     (row_text (i, [(s1, Count x)]) @ '','')"
  by (cases x) (simp_all add: row_simps)

lemma writes_row2:
  "writes (row_ok (i, [(s1, Count x), (s2, Count (Some q))]))
     (\<lambda>e. with_value x (\<lambda>v. emit ('' [  '' @ fmt_d (int i) @ s1 @ fmt_u v @ s2 @ fmt_u q @ '' ] ,'') e))
     (row_text (i, [(s1, Count x), (s2, Count (Some q))]) @ '','')"
  by (cases x) (simp_all add: row_simps)

lemma writes_row22:
  "writes (row_ok (i, [(s1, Count x), (s2, Count y)]))
     (\<lambda>e. with_value x (\<lambda>v. with_value y (\<lambda>w.
        emit ('' [  '' @ fmt_d (int i) @ s1 @ fmt_u v @ s2 @ fmt_u w @ '' ] ,'') e)))
     (row_text (i, [(s1, Count x), (s2, Count y)]) @ '','')"
  by (cases x; cases y) (simp_all add: row_simps)

lemma writes_row3:
  "writes (row_ok (i, [(s1, Count x), (s2, Count y), (s3, Count (Some q))]))
     (\<lambda>e. with_value x (\<lambda>v. with_value y (\<lambda>w.
        emit ('' [  '' @ fmt_d (int i) @ s1 @ fmt_u v @ s2 @ fmt_u w @ s3 @ fmt_u q @ '' ] ,'') e)))
     (row_text (i, [(s1, Count x), (s2, Count y), (s3, Count (Some q))]) @ '','')"
  by (cases x; cases y) (simp_all add: row_simps)

lemma writes_row33:
  "writes (row_ok (i, [(s1, Count x), (s2, Count y), (s3, Count z)]))
     (\<lambda>e. with_value x (\<lambda>v. with_value y (\<lambda>w. with_value z (\<lambda>u.
        emit ('' [  '' @ fmt_d (int i) @ s1 @ fmt_u v @ s2 @ fmt_u w @ s3 @ fmt_u u @ '' ] ,'') e))))
     (row_text (i, [(s1, Count x), (s2, Count y), (s3, Count z)]) @ '','')"
  by (cases x; cases y; cases z) (simp_all add: row_simps)

lemma writes_name1:
  "writes (row_ok (i, [(s1, Name n), (s2, Count x)]))
     (\<lambda>e. with_value x (\<lambda>v. emit ('' [  '' @ fmt_d (int i) @ s1 @ CHR 0x22 # n @ CHR 0x22 # s2 @ fmt_u v @ '' ] ,'') e))
     (row_text (i, [(s1, Name n), (s2, Count x)]) @ '','')"
  by (cases x) (simp_all add: row_simps)

lemma writes_name2:
  "writes (row_ok (i, [(s1, Name n), (s2, Count x), (s3, Count (Some q))]))
     (\<lambda>e. with_value x (\<lambda>v.
        emit ('' [  '' @ fmt_d (int i) @ s1 @ CHR 0x22 # n @ CHR 0x22 # s2 @ fmt_u v @ s3 @ fmt_u q @ '' ] ,'') e))
     (row_text (i, [(s1, Name n), (s2, Count x), (s3, Count (Some q))]) @ '','')"
  by (cases x) (simp_all add: row_simps)

lemma writes_queue_realm:
  assumes "\<And>i. writes (row_ok (row i)) (write i) (row_text (row i) @ '','')"
  shows "writes (list_all row_ok (map row (ri_included x count g)))
     (queue_section realm count (\<lambda>i. queue_entry (ri_options x) i (\<forall>v\<in>set (g (ri_current x) i). v = 0)
        (map_option (\<lambda>s. g s i = g (ri_current x) i) (ri_previous x)) (write i)))
     (section_text realm (map row_text (map row (ri_included x count g))))"
proof -
  let ?out = "\<lambda>i. queue_skipped (ri_options x) i \<or> unreported (ri_options x) (\<forall>v\<in>set (g (ri_current x) i). v = 0)
      (map_option (\<lambda>s. g s i = g (ri_current x) i) (ri_previous x))"
  have e: "writes (?out i \<or> row_ok (row i)) (queue_entry (ri_options x) i (\<forall>v\<in>set (g (ri_current x) i). v = 0)
        (map_option (\<lambda>s. g s i = g (ri_current x) i) (ri_previous x)) (write i))
      (if \<not> ?out i then row_text (row i) @ '','' else [])" for i
    using writes_queue_entry [OF assms, of "ri_options x" i] by (simp only: disj_assoc)
  have i: "ri_included x count g = filter (\<lambda>i. \<not> ?out i) [0..<nat count]"
    by (simp only: ri_included_def included_def)
  have "list_all row_ok (map row (filter (\<lambda>i. \<not> ?out i) [0..<nat count])) = (\<forall>i<nat count. ?out i \<or> row_ok (row i))"
    by (auto simp: list_all_iff)
  then show ?thesis
    using writes_queue_section [OF e, where count = count and realm = realm]
    unfolding i by (simp add: comp_def)
qed

end
