(* ===== verification/Bst_Realm_Text.thy ===== *)
theory Bst_Realm_Text
  imports Bst_Encode_Laws
begin

text \<open>Each realm encoder writes the reference text of its realm, whatever plugin translates the ports.\<close>

section \<open>Realms without ports\<close>

abbreviation enc_args :: "(asic_snapshot option \<Rightarrow> asic_snapshot \<Rightarrow> report_options \<Rightarrow> max_buf_snapshot \<Rightarrow> asic_capabilities \<Rightarrow> 'a) \<Rightarrow> report_input \<Rightarrow> 'a" where
  "enc_args f x \<equiv> f (ri_previous x) (ri_current x) (ri_options x) (ri_max x) (ri_asic x)"

lemmas realm_simps = realm_text_def realm_ok_def port_realm_def ri_count_def Let_def

lemma writes_isp:
  "writes (realm_ok name x BVIEW_BST_INGRESS_SP) (enc_args jsonencode_report_ingress_sp x) (realm_text name x BVIEW_BST_INGRESS_SP)"
  by (rule writes_cong [OF writes_queue_realm [OF writes_row1]])
    (simp_all add: jsonencode_report_ingress_sp_def realm_simps)

lemma writes_ucqg:
  "writes (realm_ok name x BVIEW_BST_EGRESS_UC_QUEUEGROUPS) (enc_args jsonencode_report_egress_ucqg x)
     (realm_text name x BVIEW_BST_EGRESS_UC_QUEUEGROUPS)"
  by (rule writes_cong [OF writes_queue_realm [OF writes_row1]])
    (simp_all add: jsonencode_report_egress_ucqg_def realm_simps)

lemma writes_cpuq:
  "writes (realm_ok name x BVIEW_BST_EGRESS_CPU_QUEUE) (enc_args jsonencode_report_egress_cpuq x)
     (realm_text name x BVIEW_BST_EGRESS_CPU_QUEUE)"
  by (rule writes_cong [OF writes_queue_realm [OF writes_row2]])
    (simp_all add: jsonencode_report_egress_cpuq_def realm_simps)

lemma writes_rqeq:
  "writes (realm_ok name x BVIEW_BST_EGRESS_RQE_QUEUE) (enc_args jsonencode_report_egress_rqeq x)
     (realm_text name x BVIEW_BST_EGRESS_RQE_QUEUE)"
  by (rule writes_cong [OF writes_queue_realm [OF writes_row2]])
    (simp_all add: jsonencode_report_egress_rqeq_def realm_simps)

lemma writes_esp:
  "writes (realm_ok name x BVIEW_BST_EGRESS_SP) (enc_args jsonencode_report_egress_sp x) (realm_text name x BVIEW_BST_EGRESS_SP)"
  by (rule writes_cong [OF writes_queue_realm [OF writes_row3]])
    (simp_all add: jsonencode_report_egress_sp_def realm_simps)

section \<open>Realms with ports\<close>

text \<open>A plugin whose names of the ports depend on nothing but the port.\<close>

locale port_names =
  fixes ps :: "'hw plugin_entry list" and asicId :: int and name :: "int \<Rightarrow> string"
  assumes translate: "sbapi_system_port_translate_to_notation ps asicId port hw = (BVIEW_STATUS_SUCCESS, Some (name port), hw)"
begin

lemma notation_name: "JSON_PORT_MAP_TO_NOTATION ps port asicId e f = f (name port) e"
  by (simp add: JSON_PORT_MAP_TO_NOTATION_def translate)

lemma writes_mcq:
  "writes (realm_ok name x BVIEW_BST_EGRESS_MC_QUEUE) (enc_args (jsonencode_report_egress_mcq ps asicId) x)
     (realm_text name x BVIEW_BST_EGRESS_MC_QUEUE)"
  by (rule writes_cong [OF writes_queue_realm [OF writes_name2]])
    (simp_all add: jsonencode_report_egress_mcq_def realm_simps notation_name)

lemma writes_ucq:
  "writes (realm_ok name x BVIEW_BST_EGRESS_UC_QUEUE) (enc_args (jsonencode_report_egress_ucq ps asicId) x)
     (realm_text name x BVIEW_BST_EGRESS_UC_QUEUE)"
  by (rule writes_cong [OF writes_queue_realm [OF writes_name1]])
    (simp_all add: jsonencode_report_egress_ucq_def realm_simps notation_name)

lemma writes_port:
  assumes row: "\<And>i. writes (row_ok (row i)) (entry i) (row_text (row i) @ '','')" and "ks \<noteq> []"
  shows "writes (list_all row_ok (map row ks))
     (\<lambda>e. enc_bind (emit ('' { \"port\": \"'' @ n @ ''\", \"data\": [ '') e) (\<lambda>e2.
        enc_bind (enc_each entry ks e2) (\<lambda>e3. emit ''] } ,'' (back_up e3))))
     (port_text (n, map row ks) @ '','')"
proof -
  let ?h = "'' { \"port\": \"'' @ n @ ''\", \"data\": [ ''"
  have h: "writes True (emit ?h) ?h" by (rule writes_emit) simp
  have each: "writes (\<forall>i\<in>set ks. row_ok (row i)) (enc_each entry ks) (concat (map (\<lambda>i. row_text (row i) @ '','') ks))"
    by (rule writes_each) (rule row)
  have c: "concat (map (\<lambda>i. row_text (row i) @ '','') ks) = concat (map (\<lambda>s. s @ '','') (map row_text (map row ks)))"
    by (simp add: comp_def)
  have "butlast (?h @ concat (map (\<lambda>i. row_text (row i) @ '','') ks)) = ?h @ comma_join (map row_text (map row ks))"
    unfolding c using assms(2) comma_join_butlast [of "map row_text (map row ks)"] concat_commas [of "map row_text (map row ks)"]
    by (subst butlast_append) (simp only: if_False map_is_Nil_conv simp_thms)
  then show ?thesis
    using writes_back [OF writes_bind [OF h each], of "''] } ,''"]
    by (simp only: enc_bind_assoc port_text_def fst_conv snd_conv append_assoc list_all_iff set_map ball_simps simp_thms) simp
qed

lemma port_section_alt:
  "port_section ps asicId realm o1 ports entries entry = (\<lambda>e. enc_bind (enc_bind (emit (section_head realm @ '' '') e)
     (enc_each (\<lambda>port e.
        if port_skipped o1 port \<or> entries (port - 1) = [] then enc_ok e
        else enc_bind (emit ('' { \"port\": \"'' @ name (int port) @ ''\", \"data\": [ '') e) (\<lambda>e2.
             enc_bind (enc_each (entry (port - 1)) (entries (port - 1)) e2) (\<lambda>e3. emit ''] } ,'' (back_up e3))))
       [1..<Suc (nat ports)]))
     (\<lambda>e1. emit ''] } ,'' (back_up e1)))"
  by (rule ext) (simp only: port_section_def enc_bind_assoc head_space notation_name)

lemma writes_port_realm:
  assumes row: "\<And>p i. writes (row_ok (row p i)) (entry p i) (row_text (row p i) @ '','')"
  shows "writes (list_all (\<lambda>q. list_all row_ok (snd q))
        (map (\<lambda>p. (name (int p), map (row (p - 1)) (ks (p - 1))))
          (filter (\<lambda>p. \<not> port_skipped o1 p \<and> map (row (p - 1)) (ks (p - 1)) \<noteq> []) [1..<Suc (nat ports)])))
     (port_section ps asicId realm o1 ports ks entry)
     (section_text realm (map port_text (map (\<lambda>p. (name (int p), map (row (p - 1)) (ks (p - 1))))
          (filter (\<lambda>p. \<not> port_skipped o1 p \<and> map (row (p - 1)) (ks (p - 1)) \<noteq> []) [1..<Suc (nat ports)]))))"
proof -
  let ?in = "\<lambda>p. \<not> port_skipped o1 p \<and> map (row (p - 1)) (ks (p - 1)) \<noteq> []"
  let ?q = "\<lambda>p. (name (int p), map (row (p - 1)) (ks (p - 1)))"
  let ?item = "\<lambda>port e. if port_skipped o1 port \<or> ks (port - 1) = [] then enc_ok e
        else enc_bind (emit ('' { \"port\": \"'' @ name (int port) @ ''\", \"data\": [ '') e) (\<lambda>e2.
             enc_bind (enc_each (entry (port - 1)) (ks (port - 1)) e2) (\<lambda>e3. emit ''] } ,'' (back_up e3)))"
  have "writes (\<not> ?in p \<or> list_all row_ok (snd (?q p))) (?item p) (if ?in p then port_text (?q p) @ '','' else [])" for p
  proof (cases "?in p")
    case True
    then have "ks (p - 1) \<noteq> []" by simp
    from writes_port [OF row this] True show ?thesis by (auto intro: writes_cong)
  next
    case False
    then show ?thesis using writes_ok by (auto intro: writes_cong)
  qed
  from writes_items [OF this, where ks = "[1..<Suc (nat ports)]" and h = "section_head realm"]
  show ?thesis unfolding port_section_alt
    by (rule writes_cong) (auto simp: section_text_head Let_def comp_def list_all_iff)
qed

lemma writes_ippg:
  "writes (realm_ok name x BVIEW_BST_INGRESS_PORT_PG) (enc_args (jsonencode_report_ingress_ippg ps asicId) x)
     (realm_text name x BVIEW_BST_INGRESS_PORT_PG)"
  by (rule writes_cong [OF writes_port_realm [OF writes_row22]])
    (simp_all add: jsonencode_report_ingress_ippg_def realm_simps ri_ports_def ri_included_def)

lemma writes_ipsp:
  "writes (realm_ok name x BVIEW_BST_INGRESS_PORT_SP) (enc_args (jsonencode_report_ingress_ipsp ps asicId) x)
     (realm_text name x BVIEW_BST_INGRESS_PORT_SP)"
  by (rule writes_cong [OF writes_port_realm [OF writes_row1]])
    (simp_all add: jsonencode_report_ingress_ipsp_def realm_simps ri_ports_def ri_included_def)

lemma writes_epsp:
  "writes (realm_ok name x BVIEW_BST_EGRESS_PORT_SP) (enc_args (jsonencode_report_egress_epsp ps asicId) x)
     (realm_text name x BVIEW_BST_EGRESS_PORT_SP)"
  by (rule writes_cong [OF writes_port_realm [OF writes_row33]])
    (simp_all add: jsonencode_report_egress_epsp_def realm_simps ri_ports_def ri_included_def)

end

end
