(* ===== verification/Bst_Whole_Text.thy ===== *)
theory Bst_Whole_Text
  imports Bst_Realm_Text
begin

text \<open>A whole report: the encoder writes the reference text of its head, its device and its realms, and closes
  them.\<close>

section \<open>Head and device\<close>

context port_names
begin

lemma index_info_fits:
  assumes "at_end e" "int (length (index_text name index port queue)) < en_rem e"
  shows "(if index = [] then enc_ok e else bstjson_encode_trigger_realm_index_info ps asicId index port queue e)
     = Some (BVIEW_STATUS_SUCCESS, adv (index_text name index port queue) e)"
  using assms
  by (auto simp: index_text_def enc_ok_def bstjson_encode_trigger_realm_index_info_def notation_name print_fits
      simp del: length_append)

lemma head_fits:
  assumes e: "at_end e" and h: "head_text name asicIdStr timeString o1 = Some h" and l: "int (length h) < en_rem e"
  shows "encode_head ps asicId o1 asicIdStr timeString e = Some (BVIEW_STATUS_SUCCESS, adv h e)"
proof (cases "reportTrigger o1")
  case False
  then show ?thesis using h l by (simp add: encode_head_def head_text_def print_fits [OF e])
next
  case True
  let ?t = "opt_triggerInfo o1"
  let ?x = "\<lambda>i. index_text name i (trig_port ?t) (trig_queue ?t)"
  obtain i1 i2 where i: "bstjson_realm_to_indices_get (trig_realm ?t) = Some (i1, i2)"
    and hd: "h = trigger_head asicIdStr timeString ?t @ ?x i1 @ ?x i2 @ ''\"report\" : [''"
    using True h by (auto simp: head_text_def Let_def)
  let ?h = "trigger_head asicIdStr timeString ?t"
  have l': "int (length ?h) < en_rem e" "int (length (?h @ ?x i1)) < en_rem e" "int (length (?h @ ?x i1 @ ?x i2)) < en_rem e"
    using l unfolding hd by simp_all
  have e1: "at_end (adv ?h e)" "at_end (adv (?h @ ?x i1) e)" "at_end (adv (?h @ ?x i1 @ ?x i2) e)"
    using at_end_adv [OF e l'(1)] at_end_adv [OF e l'(2)] at_end_adv [OF e l'(3)] by simp_all
  have "int (length (?x i1)) < en_rem (adv ?h e)" "int (length (?x i2)) < en_rem (adv (?h @ ?x i1) e)"
    "int (length ''\"report\" : ['') < en_rem (adv (?h @ ?x i1 @ ?x i2) e)"
    using l unfolding hd by simp_all
  from index_info_fits [OF e1(1) this(1)] index_info_fits [OF e1(2) this(2)] print_fits [OF e1(3) this(3)]
  show ?thesis using True i l'(1) unfolding hd by (simp add: encode_head_def Let_def print_fits [OF e])
qed

lemma head_unknown:
  "head_text name asicIdStr timeString o1 = None \<Longrightarrow>
   encode_head ps asicId o1 asicIdStr timeString e = Some (BVIEW_STATUS_INVALID_PARAMETER, e)"
  by (auto simp: encode_head_def head_text_def Let_def split: if_split_asm)

end

text \<open>The device with the comma after it.\<close>

definition encode_device :: "report_input \<Rightarrow> 'hw enc \<Rightarrow> 'hw enc_run" where
  "encode_device x e =
     (case enc_args jsonencode_report_device x e of
        None \<Rightarrow> None
      | Some (tempLength, e1) \<Rightarrow> if tempLength \<noteq> 0 then print_at '' ,'' e1 else enc_ok e1)"

lemma device_fits:
  assumes e: "at_end e" and l: "int (length (device_text x)) < en_rem e" and d: "device_cell x \<noteq> Some (Count None)"
  shows "encode_device x e = Some (BVIEW_STATUS_SUCCESS, adv (device_text x) e)"
proof (cases "device_cell x")
  case None
  then show ?thesis
    by (auto simp: encode_device_def device_cell_def device_text_def jsonencode_report_device_def Let_def enc_ok_def
        split: if_split_asm)
next
  case (Some c)
  let ?b = "bufferCount (snap_device (ri_current x))"
  have asked: "opt_includeDevice (ri_options x)" "\<forall>p\<in>set_option (ri_previous x). ?b \<noteq> bufferCount (snap_device p)"
    and c: "c = ri_count x ?b (max_device (ri_max x))"
    using Some by (auto simp: device_cell_def Let_def split: if_split_asm)
  from d c Some obtain v where v: "bst_json_convert_data (ri_options x) (ri_asic x) ?b (max_device (ri_max x)) = Some v"
    by (auto simp: ri_count_def)
  let ?s = "''{ \"realm\" : \"device\", \"data\" : '' @ fmt_u v @ ''}''"
  have t: "device_text x = ?s @ '' ,''" using Some c v by (simp add: device_text_def ri_count_def)
  have s: "int (length ?s) < en_rem e" using l t by simp
  have p: "snprintf_at ?s e = Some (adv ?s e)" using s e by (cases e) (simp add: snprintf_at_def adv_def at_end_def)
  have "int (length '' ,'') < en_rem (adv ?s e)" using l t by simp
  from print_fits [OF at_end_adv [OF e s] this]
  have "print_at '' ,'' (adv ?s e) = Some (BVIEW_STATUS_SUCCESS, adv (device_text x) e)" by (simp add: t)
  moreover have "enc_args jsonencode_report_device x e = Some (int (length ?s), adv ?s e)"
    using asked v p by (simp add: jsonencode_report_device_def Let_def del: bex_simps)
  ultimately show ?thesis by (simp add: encode_device_def)
qed

section \<open>Realms\<close>

lemma list_all_filter: "list_all p (filter q xs) = list_all (\<lambda>x. \<not> q x \<or> p x) xs"
  by (induction xs) auto

lemma concat_map_filter: "concat (map f (filter q xs)) = concat (map (\<lambda>x. if q x then f x else []) xs)"
  by (induction xs) auto

text \<open>The ingress and egress realms before the last comma goes.\<close>

context port_names
begin

lemma body_device:
  "enc_args (encode_body ps asicId) x e = enc_bind (encode_device x e) (\<lambda>e2.
     enc_bind (realm_part (ingress_asked (ri_options x)) (enc_args (jsonencode_report_ingress ps asicId) x) e2)
       (realm_part (egress_asked (ri_options x)) (enc_args (jsonencode_report_egress ps asicId) x)))"
  by (auto simp: encode_body_def encode_device_def enc_bind_def enc_ok_def split: option.split)

definition open_ingress :: "report_input \<Rightarrow> 'hw enc \<Rightarrow> 'hw enc_run" where
  "open_ingress x e =
     enc_bind (realm_part (opt_includeIngressPortPriorityGroup (ri_options x)) (enc_args (jsonencode_report_ingress_ippg ps asicId) x) e)
    (\<lambda>e. enc_bind (realm_part (opt_includeIngressPortServicePool (ri_options x)) (enc_args (jsonencode_report_ingress_ipsp ps asicId) x) e)
      (realm_part (opt_includeIngressServicePool (ri_options x)) (enc_args jsonencode_report_ingress_sp x)))"

definition open_egress :: "report_input \<Rightarrow> 'hw enc \<Rightarrow> 'hw enc_run" where
  "open_egress x e =
     enc_bind (realm_part (opt_includeEgressCpuQueue (ri_options x)) (enc_args jsonencode_report_egress_cpuq x) e)
    (\<lambda>e. enc_bind (realm_part (opt_includeEgressMcQueue (ri_options x)) (enc_args (jsonencode_report_egress_mcq ps asicId) x) e)
    (\<lambda>e. enc_bind (realm_part (opt_includeEgressPortServicePool (ri_options x)) (enc_args (jsonencode_report_egress_epsp ps asicId) x) e)
    (\<lambda>e. enc_bind (realm_part (opt_includeEgressRqeQueue (ri_options x)) (enc_args jsonencode_report_egress_rqeq x) e)
    (\<lambda>e. enc_bind (realm_part (opt_includeEgressServicePool (ri_options x)) (enc_args jsonencode_report_egress_sp x) e)
    (\<lambda>e. enc_bind (realm_part (opt_includeEgressUcQueue (ri_options x)) (enc_args (jsonencode_report_egress_ucq ps asicId) x) e)
      (realm_part (opt_includeEgressUcQueueGroup (ri_options x)) (enc_args jsonencode_report_egress_ucqg x)))))))"

abbreviation part_text :: "report_input \<Rightarrow> bst_realm \<Rightarrow> string" where
  "part_text x r \<equiv> if realm_included r (ri_options x) then realm_text name x r else []"

abbreviation part_ok :: "report_input \<Rightarrow> bst_realm \<Rightarrow> bool" where
  "part_ok x r \<equiv> \<not> realm_included r (ri_options x) \<or> realm_ok name x r"

lemma writes_open_ingress:
  "writes (part_ok x BVIEW_BST_INGRESS_PORT_PG \<and> part_ok x BVIEW_BST_INGRESS_PORT_SP \<and> part_ok x BVIEW_BST_INGRESS_SP)
     (open_ingress x)
     (part_text x BVIEW_BST_INGRESS_PORT_PG @ part_text x BVIEW_BST_INGRESS_PORT_SP @ part_text x BVIEW_BST_INGRESS_SP)"
  unfolding open_ingress_def [abs_def] realm_included.simps
  by (intro writes_bind writes_part writes_ippg writes_ipsp writes_isp)

lemma writes_open_egress:
  "writes (part_ok x BVIEW_BST_EGRESS_CPU_QUEUE \<and> part_ok x BVIEW_BST_EGRESS_MC_QUEUE \<and> part_ok x BVIEW_BST_EGRESS_PORT_SP \<and>
      part_ok x BVIEW_BST_EGRESS_RQE_QUEUE \<and> part_ok x BVIEW_BST_EGRESS_SP \<and> part_ok x BVIEW_BST_EGRESS_UC_QUEUE \<and>
      part_ok x BVIEW_BST_EGRESS_UC_QUEUEGROUPS)
     (open_egress x)
     (part_text x BVIEW_BST_EGRESS_CPU_QUEUE @ part_text x BVIEW_BST_EGRESS_MC_QUEUE @ part_text x BVIEW_BST_EGRESS_PORT_SP @
      part_text x BVIEW_BST_EGRESS_RQE_QUEUE @ part_text x BVIEW_BST_EGRESS_SP @ part_text x BVIEW_BST_EGRESS_UC_QUEUE @
      part_text x BVIEW_BST_EGRESS_UC_QUEUEGROUPS)"
  unfolding open_egress_def [abs_def] realm_included.simps
  by (intro writes_bind writes_part writes_cpuq writes_mcq writes_epsp writes_rqeq writes_esp writes_ucq writes_ucqg)

definition open_realms :: "report_input \<Rightarrow> 'hw enc \<Rightarrow> 'hw enc_run" where
  "open_realms x e = enc_bind (open_ingress x e) (open_egress x)"

lemma writes_open_realms:
  "writes (list_all (realm_ok name x) (report_realms (ri_options x))) (open_realms x)
     (concat (map (realm_text name x) (report_realms (ri_options x))))"
  unfolding open_realms_def [abs_def]
  by (rule writes_cong [OF writes_bind [OF writes_open_ingress writes_open_egress]])
    (simp_all only: report_realms_def list_all_filter concat_map_filter list.pred_inject list.map concat.simps append_assoc
       append_Nil2 conj_assoc simp_thms)

lemma ingress_open:
  "enc_args (jsonencode_report_ingress ps asicId) x e = enc_bind (open_ingress x e)
     (\<lambda>e3. enc_ok (if ingress_asked (ri_options x) \<and> \<not> egress_asked (ri_options x) then back_up e3 else e3))"
  by (simp only: jsonencode_report_ingress_def open_ingress_def enc_bind_assoc)

lemma egress_open:
  "enc_args (jsonencode_report_egress ps asicId) x e = enc_bind (open_egress x e)
     (\<lambda>e7. enc_ok (if egress_asked (ri_options x) then back_up e7 else e7))"
  by (simp only: jsonencode_report_egress_def open_egress_def enc_bind_assoc)

lemma enc_bind_ok [simp]: "enc_bind (enc_ok e) g = g e" "enc_bind r enc_ok = r"
  by (auto simp: enc_bind_def enc_ok_def split: option.split)

lemma open_skipped:
  "\<not> ingress_asked (ri_options x) \<Longrightarrow> open_ingress x e = enc_ok e"
  "\<not> egress_asked (ri_options x) \<Longrightarrow> open_egress x e = enc_ok e"
  by (simp_all add: open_ingress_def open_egress_def ingress_asked_def egress_asked_def realm_part_def)

lemma no_realms: "report_realms o1 = [] \<longleftrightarrow> \<not> ingress_asked o1 \<and> \<not> egress_asked o1"
  by (simp add: report_realms_def filter_empty_conv ingress_asked_def egress_asked_def)

lemma body_open:
  "enc_args (encode_body ps asicId) x e = enc_bind (encode_device x e) (\<lambda>e2. enc_bind (open_realms x e2)
     (\<lambda>e3. enc_ok (if report_realms (ri_options x) = [] then e3 else back_up e3)))"
  unfolding body_device ingress_open egress_open open_realms_def no_realms
  by (cases "ingress_asked (ri_options x)"; cases "egress_asked (ri_options x)")
    (simp_all add: realm_part_def [abs_def] open_skipped enc_bind_assoc)

end

section \<open>The end of a report\<close>

lemma device_text_last: "device_text x = [] \<or> (\<exists>s. device_text x = s @ '','')"
  by (auto simp: device_text_def split: option.split)

lemma realm_text_last: "\<exists>s. realm_text name x r = s @ ''] } ,''"
  by (simp add: realm_text_def section_text_def)

lemma realms_last:
  assumes "rs \<noteq> []"
  shows "\<exists>s. concat (map (realm_text name x) rs) = s @ ''] } ,''"
proof -
  obtain qs r where "rs = qs @ [r]" using assms by (cases rs rule: rev_cases) auto
  then show ?thesis using realm_text_last [of name x r] by auto
qed

lemma head_last: "head_text name asicIdStr timeString o1 = Some h \<Longrightarrow> \<exists>s c. h = s @ [c] \<and> c \<noteq> CHR 0x00"
  by (auto simp: head_text_def report_head_def Let_def split: if_split_asm)

lemma end_plain:
  assumes "en_text e = s @ [c]" "c \<noteq> CHR 0x00" "7 \<le> en_rem e"
  shows "encode_end e = Some (s @ '' ] } '')"
proof -
  have "5 \<le> nat (en_rem e - 1) - 1" using assms(3) by simp
  then have "take (nat (en_rem e - 1) - 1) '' ] } '' = '' ] } ''" by simp
  then show ?thesis using assms by (simp add: encode_end_def step_back_def Let_def)
qed

lemma end_realms:
  assumes "en_text e = s @ ''] } ,''" "6 \<le> en_rem e"
  shows "encode_end (back_up e) = Some (s @ ''] }'' @ '' ] } '')"
proof -
  have "5 \<le> nat (en_rem e) - 1" using assms(2) by simp
  then have "take (nat (en_rem e) - 1) '' ] } '' = '' ] } ''" by simp
  then show ?thesis using assms by (simp add: encode_end_def step_back_def back_up_def Let_def butlast_append)
qed

section \<open>Reports\<close>

text \<open>The names of the unit and of the ports, and the report the pool has a buffer for.\<close>

locale unit_names = port_names +
  fixes asicIdStr :: string
  assumes translate_asic: "sbapi_system_asic_translate_to_notation ps asicId hw = (BVIEW_STATUS_SUCCESS, Some asicIdStr, hw)"
begin

abbreviation enc_start :: "'a \<Rightarrow> 'a enc" where
  "enc_start hw \<equiv> \<lparr>en_text = [], en_tail = [], en_rem = int BSTJSON_MEMSIZE_REPORT, en_hw = hw\<rparr>"

lemma start_at_end: "at_end (enc_start hw)"
  by (simp add: at_end_def BSTJSON_MEMSIZE_REPORT_def)

lemma report_encoded:
  assumes alloc: "bstjson_memory_allocate now BSTJSON_MEMSIZE_REPORT pool = (BVIEW_STATUS_SUCCESS, Some p, pool1)"
    and head: "head_text name asicIdStr (report_time_text utc_offset tv) (ri_options x) = Some h"
    and ok: "report_ok name x" and fits: "length (open_text name h x) + 7 \<le> BSTJSON_MEMSIZE_REPORT"
  shows "enc_args (bstjson_encode_get_bst_report ps utc_offset now asicId) x tv pool hw
     = Some (BVIEW_STATUS_SUCCESS, Some (p, report_text name h x), pool1, hw)"
proof -
  let ?e = "enc_start hw" and ?R = "concat (map (realm_text name x) (report_realms (ri_options x)))"
  have l: "int (length (h @ device_text x @ ?R)) + 7 \<le> en_rem ?e" using fits by (simp add: open_text_def)
  then have lh: "int (length h) < en_rem ?e" and lhd: "int (length (h @ device_text x)) < en_rem ?e" by simp_all
  have h: "encode_head ps asicId (ri_options x) asicIdStr (report_time_text utc_offset tv) ?e = Some (BVIEW_STATUS_SUCCESS, adv h ?e)"
    by (rule head_fits [OF start_at_end head lh])
  have "encode_device x (adv h ?e) = Some (BVIEW_STATUS_SUCCESS, adv (device_text x) (adv h ?e))"
    using ok lhd by (intro device_fits at_end_adv start_at_end) (simp_all add: report_ok_def)
  moreover have "open_realms x (adv (h @ device_text x) ?e) = Some (BVIEW_STATUS_SUCCESS, adv ?R (adv (h @ device_text x) ?e))"
    using writesD [OF writes_open_realms at_end_adv [OF start_at_end lhd]] ok l by (simp add: report_ok_def)
  ultimately have b: "enc_args (encode_body ps asicId) x (adv h ?e) = Some (BVIEW_STATUS_SUCCESS,
      if report_realms (ri_options x) = [] then adv (open_text name h x) ?e else back_up (adv (open_text name h x) ?e))"
    unfolding body_open by (simp add: enc_ok_def open_text_def)
  have "encode_end (if report_realms (ri_options x) = [] then adv (open_text name h x) ?e else back_up (adv (open_text name h x) ?e))
      = Some (report_text name h x)"
  proof (cases "report_realms (ri_options x) = []")
    case True
    obtain s c where "h @ device_text x = s @ [c]" "c \<noteq> CHR 0x00"
      using head_last [OF head] device_text_last [of x] by auto
    then have "open_text name h x = s @ [c]" "c \<noteq> CHR 0x00" using True by (simp_all add: open_text_def)
    moreover from this have "encode_end (adv (open_text name h x) ?e) = Some (s @ '' ] } '')"
      using fits by (intro end_plain) simp_all
    ultimately show ?thesis using True by (simp add: report_text_def)
  next
    case False
    obtain s where "?R = s @ ''] } ,''" using realms_last [OF False] by blast
    then have o: "open_text name h x = (h @ device_text x @ s) @ ''] } ,''" by (simp add: open_text_def)
    then have "encode_end (back_up (adv (open_text name h x) ?e)) = Some ((h @ device_text x @ s) @ ''] }'' @ '' ] } '')"
      using fits by (intro end_realms) simp_all
    then show ?thesis using False o by (simp add: report_text_def butlast_append)
  qed
  then show ?thesis
    using alloc h b by (simp add: bstjson_encode_get_bst_report_def translate_asic back_up_def)
qed

text \<open>What does not fit is not encoded.\<close>

lemma report_too_long:
  assumes alloc: "bstjson_memory_allocate now BSTJSON_MEMSIZE_REPORT pool = (BVIEW_STATUS_SUCCESS, Some p, pool1)"
    and head: "head_text name asicIdStr (report_time_text utc_offset tv) (ri_options x) = Some h"
    and short: "length (h @ device_text x) < BSTJSON_MEMSIZE_REPORT" and "device_cell x \<noteq> Some (Count None)"
    and realms: "report_realms (ri_options x) \<noteq> []"
    and bad: "\<not> list_all (realm_ok name x) (report_realms (ri_options x)) \<or> BSTJSON_MEMSIZE_REPORT \<le> length (open_text name h x)"
  shows "\<nexists>b q hw1. enc_args (bstjson_encode_get_bst_report ps utc_offset now asicId) x tv pool hw = Some (BVIEW_STATUS_SUCCESS, b, q, hw1)"
proof -
  let ?e = "enc_start hw" and ?R = "concat (map (realm_text name x) (report_realms (ri_options x)))"
  have lh: "int (length h) < en_rem ?e" and lhd: "int (length (h @ device_text x)) < en_rem ?e" using short by simp_all
  have h: "encode_head ps asicId (ri_options x) asicIdStr (report_time_text utc_offset tv) ?e = Some (BVIEW_STATUS_SUCCESS, adv h ?e)"
    by (rule head_fits [OF start_at_end head lh])
  have d: "encode_device x (adv h ?e) = Some (BVIEW_STATUS_SUCCESS, adv (h @ device_text x) ?e)"
    using assms(4) lhd device_fits [OF at_end_adv [OF start_at_end lh], of x] by simp
  have "open_realms x (adv (h @ device_text x) ?e) \<noteq> Some (BVIEW_STATUS_SUCCESS, e1)" for e1
    using writes_success [OF writes_open_realms at_end_adv [OF start_at_end lhd]] bad by (fastforce simp: open_text_def)
  then have "enc_args (encode_body ps asicId) x (adv h ?e) \<noteq> Some (BVIEW_STATUS_SUCCESS, e1)" for e1
    unfolding body_open d by (auto simp: enc_bind_success)
  then show ?thesis
    using alloc h by (auto simp: bstjson_encode_get_bst_report_def translate_asic split: option.split)
qed

end

end
