(* ===== verification/Bst_Report_Json.thy ===== *)
theory Bst_Report_Json
  imports Bst_Whole_Text
begin

text \<open>The text of a report is JSON, and of which value: an object with the head as its members and one object
  per device and realm in the array of its report.\<close>

section \<open>Rows\<close>

definition separators :: "string set" where
  "separators = {'' , '', '', '', '' ,  ''}"

primrec cell_plain :: "report_cell \<Rightarrow> bool" where
  "cell_plain (Name s) = list_all plain s"
| "cell_plain (Count v) = True"

definition row_plain :: "row \<Rightarrow> bool" where
  "row_plain r = list_all (\<lambda>c. fst c \<in> separators \<and> cell_plain (snd c)) (snd r)"

lemma cell_denotes: "cell_plain c \<Longrightarrow> denotes_json (cell_text c) (cell_json c)"
  using number text_value by (cases c) (auto simp: quoted_def simp flip: fmt_d_unat)

lemma separator_split:
  "s \<in> separators \<Longrightarrow> \<exists>b1 b2. s = b1 @ CHR '','' # b2 \<and> blanks b1 \<and> blanks b2"
proof -
  assume "s \<in> separators"
  then consider "s = '' '' @ CHR '','' # '' ''" | "s = [] @ CHR '','' # '' ''" | "s = '' '' @ CHR '','' # ''  ''"
    by (auto simp: separators_def)
  then show ?thesis by cases (intro exI conjI, assumption, simp, simp)+
qed

lemma cells_items:
  assumes "denotes_json s v" "list_all (\<lambda>c. fst c \<in> separators \<and> cell_plain (snd c)) cs" "blanks b"
  shows "items_text (s @ concat (map (\<lambda>c. fst c @ cell_text (snd c)) cs) @ b) (v # map (\<lambda>c. cell_json (snd c)) cs)"
  using assms(1,2)
proof (induction cs arbitrary: s v)
  case Nil
  then show ?case using spaced_after [OF assms(3)] by (auto intro: item)
next
  case (Cons c cs)
  obtain b1 b2 where b: "fst c = b1 @ CHR '','' # b2" "blanks b1" "blanks b2" using separator_split [of "fst c"] Cons.prems(2) by auto
  have "denotes_json (b2 @ cell_text (snd c)) (cell_json (snd c))"
    using Cons.prems(2) b(3) by (auto intro: spaced_before cell_denotes)
  from more_items [OF spaced_after [OF b(2) Cons.prems(1)] Cons.IH [OF this]] Cons.prems(2) b(1)
  show ?case by simp
qed

lemma row_denotes:
  assumes "row_plain r"
  shows "denotes_json (row_text r) (row_json r)"
proof -
  have "denotes_json (''  '' @ fmt_d (int (fst r))) (cJSON_Number (int (fst r)))" by (rule spaced_before [OF _ number]) simp
  from array [OF cells_items [OF this, of "snd r" "'' ''"]] assms
  have "denotes_json (CHR ''['' # (''  '' @ fmt_d (int (fst r))) @ concat (map (\<lambda>c. fst c @ cell_text (snd c)) (snd r)) @ '' '' @ '']'') (row_json r)"
    by (simp add: row_plain_def row_json_def)
  from spaced [OF _ _ this, of "'' ''" "'' ''"] show ?thesis by (simp add: row_text_def)
qed

section \<open>Sections\<close>

lemma named_array:
  assumes "list_all2 denotes_json ss vs" "blanks b" "list_all plain k" "list_all plain n"
  shows "denotes_json ('' { '' @ quoted k @ '': '' @ quoted n @ '', \"data\": ['' @ b @ comma_join ss @ ''] }'')
     (cJSON_Object [(k, cJSON_String n), (''data'', cJSON_Array vs)])"
proof -
  have a: "denotes_json ('' ['' @ b @ comma_join ss @ ''] '') (cJSON_Array vs)"
    using spaced [OF _ _ array_join [OF assms(1,2), of "[]"], of "'' ''" "'' ''"] by simp
  have d: "members_text ('' '' @ quoted ''data'' @ [] @ CHR '':'' # '' ['' @ b @ comma_join ss @ ''] '') [(''data'', cJSON_Array vs)]"
    by (rule member) (use a in \<open>simp_all add: plain_def\<close>)
  have "members_text ('' '' @ quoted k @ [] @ CHR '':'' # '' '' @ quoted n) [(k, cJSON_String n)]"
    by (rule member) (use assms spaced_before [of "'' ''" "quoted n"] text_value in simp_all)
  from spaced_before [OF _ object [OF more_members [OF this d]], of "'' ''"] show ?thesis by (simp add: quoted_def)
qed

definition port_plain :: "string \<times> row list \<Rightarrow> bool" where
  "port_plain p = (list_all plain (fst p) \<and> list_all row_plain (snd p))"

lemma rows_denote: "list_all row_plain rs \<Longrightarrow> list_all2 denotes_json (map row_text rs) (map row_json rs)"
  by (induction rs) (auto intro: row_denotes)

lemma port_denotes:
  assumes "port_plain p"
  shows "denotes_json (port_text p) (port_json p)"
proof -
  have "denotes_json ('' { '' @ quoted ''port'' @ '': '' @ quoted (fst p) @ '', \"data\": ['' @ '' '' @ comma_join (map row_text (snd p)) @ ''] }'')
     (cJSON_Object [(''port'', cJSON_String (fst p)), (''data'', cJSON_Array (map row_json (snd p)))])"
    by (rule named_array) (use assms in \<open>simp_all add: port_plain_def rows_denote plain_def\<close>)
  from spaced_after [OF _ this, of "'' ''"] show ?thesis by (simp add: port_text_def port_json_def quoted_def)
qed

lemma ports_denote: "list_all port_plain qs \<Longrightarrow> list_all2 denotes_json (map port_text qs) (map port_json qs)"
  by (induction qs) (auto intro: port_denotes)

section \<open>Realms and the device\<close>

text \<open>What has to be free of quotes: the names of the ports.\<close>

definition names_plain :: "(int \<Rightarrow> string) \<Rightarrow> bool" where
  "names_plain name = (\<forall>p. list_all plain (name p))"

lemma queue_rows_plain: "names_plain name \<Longrightarrow> list_all row_plain (queue_rows r name x)"
  by (cases r) (auto simp: list_all_iff row_plain_def separators_def names_plain_def Let_def ri_count_def)

lemma port_rows_plain: "list_all row_plain (port_rows r p x)"
  by (cases r) (auto simp: list_all_iff row_plain_def separators_def Let_def ri_count_def)

lemma ri_ports_plain: "names_plain name \<Longrightarrow> list_all port_plain (ri_ports r name x)"
  using port_rows_plain by (auto simp: ri_ports_def list_all_iff port_plain_def names_plain_def)

lemma realm_name_plain: "list_all plain (realm_name r)"
  by (cases r) (simp_all add: plain_def)

text \<open>A realm without its comma and the blank before it.\<close>

definition realm_body :: "(int \<Rightarrow> string) \<Rightarrow> report_input \<Rightarrow> bst_realm \<Rightarrow> string" where
  "realm_body name x r = butlast (butlast (realm_text name x r))"

lemma realm_text_body: "realm_text name x r = realm_body name x r @ '' ,''"
  using realm_text_last [of name x r] by (auto simp: realm_body_def butlast_append)

lemma section_body:
  "butlast (butlast (section_text n items)) = '' { '' @ quoted ''realm'' @ '': '' @ quoted n @ '', \"data\": ['' @
     (if items = [] then [] else '' '') @ comma_join items @ ''] }''"
  by (simp add: section_text_def quoted_def butlast_append)

lemma realm_denotes:
  assumes "names_plain name"
  shows "denotes_json (realm_body name x r) (realm_json name x r)"
proof -
  let ?ss = "if port_realm r then map port_text (ri_ports r name x) else map row_text (queue_rows r name x)"
  let ?vs = "if port_realm r then map port_json (ri_ports r name x) else map row_json (queue_rows r name x)"
  have "list_all2 denotes_json ?ss ?vs"
    using rows_denote [OF queue_rows_plain [OF assms]] ports_denote [OF ri_ports_plain [OF assms]] by simp
  from named_array [OF this _ _ realm_name_plain [of r], of "if ?ss = [] then [] else '' ''" "''realm''"]
  show ?thesis unfolding realm_body_def realm_text_def section_body realm_json_def section_json_def
    by (simp add: plain_def)
qed

definition device_json :: "report_cell \<Rightarrow> json" where
  "device_json c = cJSON_Object [(''realm'', cJSON_String ''device''), (''data'', cell_json c)]"

lemma device_denotes:
  assumes "cell_plain c"
  shows "denotes_json (''{ \"realm\" : \"device\", \"data\" : '' @ cell_text c @ ''}'') (device_json c)"
proof -
  have n: "members_text ('' '' @ quoted ''realm'' @ '' '' @ CHR '':'' # '' '' @ quoted ''device'') [(''realm'', cJSON_String ''device'')]"
    by (rule member) (use spaced_before [of "'' ''" "quoted ''device''"] text_value [of "''device''"] in \<open>simp_all add: plain_def\<close>)
  have d: "members_text ('' '' @ quoted ''data'' @ '' '' @ CHR '':'' # '' '' @ cell_text c) [(''data'', cell_json c)]"
    by (rule member) (use spaced_before [of "'' ''" "cell_text c"] cell_denotes [OF assms] in \<open>simp_all add: plain_def\<close>)
  from object [OF more_members [OF n d]] show ?thesis by (simp add: quoted_def device_json_def)
qed

section \<open>The value of a report\<close>

definition index_json :: "(int \<Rightarrow> string) \<Rightarrow> string \<Rightarrow> int \<Rightarrow> int \<Rightarrow> (string \<times> json) list" where
  "index_json name index port queue =
     (if index = [] then [] else if index = ''port'' then [(''port'', cJSON_String (name port))]
      else [(index, cJSON_Number queue)])"

definition trigger_json :: "(int \<Rightarrow> string) \<Rightarrow> trigger_info \<Rightarrow> (string \<times> json) list" where
  "trigger_json name t =
     (''realm'', cJSON_String (trig_realm t)) # (''counter'', cJSON_String (trig_counter t)) #
     (case bstjson_realm_to_indices_get (trig_realm t) of None \<Rightarrow> []
      | Some (i1, i2) \<Rightarrow> index_json name i1 (trig_port t) (trig_queue t) @ index_json name i2 (trig_port t) (trig_queue t))"

definition report_items :: "(int \<Rightarrow> string) \<Rightarrow> report_input \<Rightarrow> json list" where
  "report_items name x = (case device_cell x of None \<Rightarrow> [] | Some c \<Rightarrow> [device_json c]) @
     map (realm_json name x) (report_realms (ri_options x))"

definition report_json :: "(int \<Rightarrow> string) \<Rightarrow> string \<Rightarrow> string \<Rightarrow> report_input \<Rightarrow> json" where
  "report_json name asicIdStr timeString x = cJSON_Object
     ([(''jsonrpc'', cJSON_String ''2.0''),
       (''method'', cJSON_String (if reportTrigger (ri_options x) then ''trigger-report''
          else if reportThreshold (ri_options x) then ''get-bst-thresholds'' else ''get-bst-report'')),
       (''asic-id'', cJSON_String asicIdStr), (''version'', cJSON_String ''2''), (''time-stamp'', cJSON_String timeString)] @
      (if reportTrigger (ri_options x) then trigger_json name (opt_triggerInfo (ri_options x)) else []) @
      [(''report'', cJSON_Array (report_items name x))])"

section \<open>The array of a report\<close>

definition item_texts :: "(int \<Rightarrow> string) \<Rightarrow> report_input \<Rightarrow> string list" where
  "item_texts name x =
     (case device_cell x of None \<Rightarrow> [] | Some c \<Rightarrow> [''{ \"realm\" : \"device\", \"data\" : '' @ cell_text c @ ''}'']) @
     map (realm_body name x) (report_realms (ri_options x))"

lemma open_items: "open_text name h x = h @ concat (map (\<lambda>s. s @ '' ,'') (item_texts name x))"
  by (cases "device_cell x") (simp_all add: open_text_def device_text_def item_texts_def realm_text_body [abs_def] comp_def)

lemma items_denote:
  assumes "names_plain name"
  shows "list_all2 denotes_json (item_texts name x) (report_items name x)"
proof -
  have "list_all2 denotes_json (map (realm_body name x) rs) (map (realm_json name x) rs)" for rs
    by (induction rs) (auto intro: realm_denotes [OF assms])
  moreover have "cell_plain c" if "device_cell x = Some c" for c
    using that by (auto simp: device_cell_def Let_def ri_count_def split: if_split_asm)
  ultimately show ?thesis
    by (cases "device_cell x") (auto simp: item_texts_def report_items_def intro: device_denotes [simplified])
qed

lemma concat_blank_commas: "butlast (concat (map (\<lambda>s. s @ '' ,'') (ss @ [s]))) = comma_join (map (\<lambda>s. s @ '' '') (ss @ [s]))"
  by (induction ss) (auto simp: comma_join_Cons butlast_append)

text \<open>A report is its head, the items with blanks and commas, and the closing brackets.\<close>

lemma report_text_array:
  assumes items: "item_texts name x \<noteq> []"
  shows "\<exists>ss b. list_all2 (\<lambda>s t. \<exists>b. blanks b \<and> s = t @ b) ss (item_texts name x) \<and> blanks b \<and>
    report_text name h x = h @ comma_join ss @ b @ ''] } ''"
proof -
  obtain ts t where ts: "item_texts name x = ts @ [t]" using items by (metis append_butlast_last_id)
  let ?c = "concat (map (\<lambda>s. s @ '' ,'') (ts @ [t]))" and ?ss = "map (\<lambda>s. s @ '' '') (ts @ [t])"
  have c: "?c \<noteq> []" "butlast ?c = comma_join ?ss" by (simp, rule concat_blank_commas)
  have ss: "list_all2 (\<lambda>s t. \<exists>b. blanks b \<and> s = t @ b) ?ss (ts @ [t])"
    unfolding list_all2_conv_all_nth by (auto simp: nth_append intro!: exI [of _ "'' ''"])
  have s1: "list_all2 (\<lambda>s t. \<exists>b. blanks b \<and> s = t @ b) (map (\<lambda>s. s @ '' '') ts @ [t]) (ts @ [t])"
    unfolding list_all2_conv_all_nth by (auto simp: nth_append less_Suc_eq intro!: exI [of _ "'' ''"] exI [of _ "[]"])
  have sn: "comma_join ?ss = comma_join (map (\<lambda>s. s @ '' '') ts @ [t]) @ '' ''"
    using comma_join_snoc [of "map (\<lambda>s. s @ '' '') ts" t "'' ''"] by simp
  show ?thesis
  proof (cases "report_realms (ri_options x) = []")
    case True
    then have "report_text name h x = h @ comma_join ?ss @ '' '' @ ''] } ''"
      using c ts by (simp add: report_text_def open_items butlast_append del: concat_append)
    then show ?thesis using ss ts by (intro exI [of _ ?ss] exI [of _ "'' ''"]) simp
  next
    case False
    have "report_text name h x = h @ comma_join (map (\<lambda>s. s @ '' '') ts @ [t]) @ '' '' @ ''] } ''"
      using False c ts sn by (simp add: report_text_def open_items butlast_append del: concat_append)
    then show ?thesis using s1 ts by (intro exI [of _ "map (\<lambda>s. s @ '' '') ts @ [t]"] exI [of _ "'' ''"]) simp
  qed
qed

lemma padded_denote:
  "list_all2 (\<lambda>s t. \<exists>b. blanks b \<and> s = t @ b) ss ts \<Longrightarrow> list_all2 denotes_json ts vs \<Longrightarrow> list_all2 denotes_json ss vs"
  by (rule list_all2_trans [of "\<lambda>s t. \<exists>b. blanks b \<and> s = t @ b" denotes_json denotes_json]) (auto intro: spaced_after)

section \<open>Head\<close>

definition str_member :: "string \<Rightarrow> string \<Rightarrow> string" where
  "str_member k s = quoted k @ '': '' @ quoted s"

lemma str_member_denotes:
  "list_all plain k \<Longrightarrow> list_all plain s \<Longrightarrow> members_text (str_member k s) [(k, cJSON_String s)]"
  using member [of "[]" "[]" k "'' '' @ quoted s" "cJSON_String s"] spaced_before [of "'' ''" "quoted s"] text_value
  by (simp add: str_member_def)

definition index_texts :: "(int \<Rightarrow> string) \<Rightarrow> string \<Rightarrow> int \<Rightarrow> int \<Rightarrow> string list" where
  "index_texts name index port queue =
     (if index = [] then [] else if index = ''port'' then [quoted ''port'' @ '' : '' @ quoted (name port)]
      else [quoted index @ '' : '' @ fmt_d queue])"

lemma index_texts_text: "index_text name i p q = concat (map (\<lambda>s. s @ '','') (index_texts name i p q))"
  by (simp add: index_text_def index_texts_def quoted_def)

lemma index_texts_denote:
  assumes "names_plain name" "list_all plain i"
  shows "list_all2 (\<lambda>s m. members_text s [m]) (index_texts name i p q) (index_json name i p q)"
proof -
  have "members_text (quoted ''port'' @ '' '' @ CHR '':'' # '' '' @ quoted (name p)) [(''port'', cJSON_String (name p))]"
    using member [of "[]" "'' ''" "''port''" "'' '' @ quoted (name p)"] spaced_before [of "'' ''" "quoted (name p)"] text_value assms
    by (simp add: plain_def names_plain_def)
  moreover have "members_text (quoted i @ '' '' @ CHR '':'' # '' '' @ fmt_d q) [(i, cJSON_Number q)]"
    using member [of "[]" "'' ''" i "'' '' @ fmt_d q"] spaced_before [of "'' ''" "fmt_d q"] number assms by simp
  ultimately show ?thesis by (simp add: index_texts_def index_json_def)
qed

lemma indices_plain:
  assumes "bstjson_realm_to_indices_get r = Some (i1, i2)"
  shows "list_all plain i1 \<and> list_all plain i2"
proof -
  obtain j1 j2 where "(r, j1, j2) \<in> set realm_indices_map" "i1 = (case j1 of None \<Rightarrow> [] | Some s \<Rightarrow> s)"
    "i2 = (case j2 of None \<Rightarrow> [] | Some s \<Rightarrow> s)"
    using assms by (auto simp: bstjson_realm_to_indices_get_def dest: map_of_SomeD)
  then show ?thesis by (auto simp: realm_indices_map_def plain_def)
qed

text \<open>The members before the report, each with its comma.\<close>

definition head_members :: "(int \<Rightarrow> string) \<Rightarrow> string \<Rightarrow> string \<Rightarrow> report_options \<Rightarrow> string list" where
  "head_members name asicIdStr timeString o1 =
     [str_member ''jsonrpc'' ''2.0'',
      str_member ''method'' (if reportTrigger o1 then ''trigger-report'' else if reportThreshold o1 then ''get-bst-thresholds''
        else ''get-bst-report''),
      str_member ''asic-id'' asicIdStr, str_member ''version'' ''2'', str_member ''time-stamp'' timeString] @
     (if reportTrigger o1 then (let t = opt_triggerInfo o1 in
        str_member ''realm'' (trig_realm t) # str_member ''counter'' (trig_counter t) #
        (case bstjson_realm_to_indices_get (trig_realm t) of None \<Rightarrow> []
         | Some (i1, i2) \<Rightarrow> index_texts name i1 (trig_port t) (trig_queue t) @ index_texts name i2 (trig_port t) (trig_queue t)))
      else [])"

lemma version_2: "fmt_d BVIEW_JSON_VERSION = ''2''"
  by code_simp

lemma head_text_members:
  assumes "head_text name asicIdStr timeString o1 = Some h"
  shows "h = '' { '' @ concat (map (\<lambda>s. s @ '','') (head_members name asicIdStr timeString o1)) @
     (if reportTrigger o1 then ''\"report\" : ['' else ''\"report\": [ '')"
  using assms
  by (auto simp: head_text_def head_members_def report_head_def trigger_head_def Let_def str_member_def quoted_def
      index_texts_text version_2)

definition head_plain :: "string \<Rightarrow> string \<Rightarrow> report_options \<Rightarrow> bool" where
  "head_plain asicIdStr timeString o1 =
     (list_all plain asicIdStr \<and> list_all plain timeString \<and>
      (reportTrigger o1 \<longrightarrow> list_all plain (trig_realm (opt_triggerInfo o1)) \<and> list_all plain (trig_counter (opt_triggerInfo o1))))"

definition head_json :: "(int \<Rightarrow> string) \<Rightarrow> string \<Rightarrow> string \<Rightarrow> report_options \<Rightarrow> (string \<times> json) list" where
  "head_json name asicIdStr timeString o1 =
     [(''jsonrpc'', cJSON_String ''2.0''),
       (''method'', cJSON_String (if reportTrigger o1 then ''trigger-report''
          else if reportThreshold o1 then ''get-bst-thresholds'' else ''get-bst-report'')),
       (''asic-id'', cJSON_String asicIdStr), (''version'', cJSON_String ''2''), (''time-stamp'', cJSON_String timeString)] @
      (if reportTrigger o1 then trigger_json name (opt_triggerInfo o1) else [])"

lemma report_json_head:
  "report_json name asicIdStr timeString x = cJSON_Object (head_json name asicIdStr timeString (ri_options x) @
     [(''report'', cJSON_Array (report_items name x))])"
  by (simp add: report_json_def head_json_def)

lemma head_denotes:
  assumes "names_plain name" "head_plain asicIdStr timeString o1"
  shows "list_all2 (\<lambda>s m. members_text s [m]) (head_members name asicIdStr timeString o1) (head_json name asicIdStr timeString o1)"
proof -
  have s: "members_text (str_member k s) [(k, cJSON_String s)]" if "list_all plain k" "list_all plain s" for k s
    using str_member_denotes that .
  have "list_all2 (\<lambda>s m. members_text s [m])
     (case bstjson_realm_to_indices_get r of None \<Rightarrow> [] | Some (i1, i2) \<Rightarrow> index_texts name i1 p q @ index_texts name i2 p q)
     (case bstjson_realm_to_indices_get r of None \<Rightarrow> [] | Some (i1, i2) \<Rightarrow> index_json name i1 p q @ index_json name i2 p q)" for r p q
  proof (cases "bstjson_realm_to_indices_get r")
    case (Some i)
    obtain i1 i2 where i: "i = (i1, i2)" by fastforce
    from indices_plain [OF Some [unfolded i]] show ?thesis
      using Some i by (simp add: list_all2_appendI index_texts_denote assms(1))
  qed simp
  then show ?thesis
    using assms(2) by (simp add: head_members_def head_json_def trigger_json_def Let_def head_plain_def s plain_def)
qed

text \<open>Members with commas, the last one written apart.\<close>

lemma comma_join_append: "comma_join (ss @ [s]) = concat (map (\<lambda>s. s @ '','') ss) @ s"
  by (induction ss) (simp_all add: comma_join_Cons)

lemma object_of_members:
  assumes "list_all2 (\<lambda>s m. members_text s [m]) ss ms" "members_text s [m]"
  shows "denotes_json (CHR ''{'' # concat (map (\<lambda>s. s @ '','') ss) @ s @ ''}'') (cJSON_Object (ms @ [m]))"
proof -
  have "list_all2 (\<lambda>s m. members_text s [m]) (ss @ [s]) (ms @ [m])" using assms by (simp add: list_all2_appendI)
  from object [OF members_join [OF this]] show ?thesis by (simp add: comma_join_append)
qed

lemma member_blank:
  assumes "members_text s [m]"
  shows "members_text (CHR '' '' # s) [m]"
  using assms
proof (cases rule: members_text.cases)
  case (member b1 b2 k s' v)
  then show ?thesis using denotes_json_items_text_members_text.member [of "CHR '' '' # b1" b2 k s' v] by simp
qed simp

lemma report_member:
  assumes "list_all2 denotes_json ss vs" "blanks b0" "blanks b1" "blanks b2"
  shows "members_text (quoted ''report'' @ b0 @ '': ['' @ b1 @ comma_join ss @ b2 @ ''] '') [(''report'', cJSON_Array vs)]"
proof -
  have "denotes_json ('' ['' @ b1 @ comma_join ss @ b2 @ ''] '') (cJSON_Array vs)"
    using spaced [OF _ _ array_join [OF assms(1,3,4)], of "'' ''" "'' ''"] by simp
  from member [of "[]" b0 "''report''", OF _ assms(2) _ this] show ?thesis by (simp add: plain_def)
qed

lemma first_blank:
  "list_all2 (\<lambda>s m. members_text s [m]) (s # ss) ms \<Longrightarrow> list_all2 (\<lambda>s m. members_text s [m]) ((CHR '' '' # s) # ss) ms"
  by (auto simp: list_all2_Cons1 intro: member_blank)

text \<open>A report with an item, or one that is not triggered, is JSON with the value of the report.\<close>

lemma report_denotes:
  assumes names: "names_plain name" and plain: "head_plain asicIdStr timeString (ri_options x)"
    and head: "head_text name asicIdStr timeString (ri_options x) = Some h"
    and some: "\<not> reportTrigger (ri_options x) \<or> report_items name x \<noteq> []"
  shows "denotes_json (report_text name h x) (report_json name asicIdStr timeString x)"
proof -
  let ?ms = "head_members name asicIdStr timeString (ri_options x)"
  obtain m0 ms where ms: "?ms = m0 # ms" by (simp add: head_members_def)
  have close: "denotes_json ('' { '' @ concat (map (\<lambda>s. s @ '','') ?ms) @ s @ ''} '') (report_json name asicIdStr timeString x)"
    if "members_text s [(''report'', cJSON_Array (report_items name x))]" for s
  proof -
    have "list_all2 (\<lambda>s m. members_text s [m]) ((CHR '' '' # m0) # ms) (head_json name asicIdStr timeString (ri_options x))"
      using head_denotes [OF names plain] unfolding ms by (rule first_blank)
    from spaced [OF _ _ object_of_members [OF this that], of "'' ''" "'' ''"]
    show ?thesis by (simp add: ms report_json_head)
  qed
  have h: "h = '' { '' @ concat (map (\<lambda>s. s @ '','') ?ms) @
      (if reportTrigger (ri_options x) then ''\"report\" : ['' else ''\"report\": [ '')"
    by (rule head_text_members [OF head])
  have items: "list_all2 denotes_json (item_texts name x) (report_items name x)" by (rule items_denote [OF names])
  show ?thesis
  proof (cases "item_texts name x = []")
    case False
    from report_text_array [OF False, of h] obtain ss b where
      ss: "list_all2 (\<lambda>s t. \<exists>b. blanks b \<and> s = t @ b) ss (item_texts name x)" "blanks b"
      and r: "report_text name h x = h @ comma_join ss @ b @ ''] } ''" by blast
    have "list_all2 denotes_json ss (report_items name x)" by (rule padded_denote [OF ss(1) items])
    from close [OF report_member [OF this, of "if reportTrigger (ri_options x) then '' '' else []"
        "if reportTrigger (ri_options x) then [] else '' ''" b]] ss(2)
    show ?thesis unfolding r by (cases "reportTrigger (ri_options x)") (simp_all add: h quoted_def)
  next
    case True
    then have none: "report_items name x = []" "report_realms (ri_options x) = []" using items
      by (auto simp: item_texts_def)
    then have "\<not> reportTrigger (ri_options x)" using some by simp
    then have "report_text name h x = '' { '' @ concat (map (\<lambda>s. s @ '','') ?ms) @ quoted ''report'' @ [] @ '': ['' @ [] @ comma_join [] @ '' '' @ ''] '' @ ''} ''"
      using none True by (simp add: report_text_def open_items h butlast_append quoted_def)
    moreover have e: "list_all2 denotes_json [] (report_items name x)" using none by simp
    ultimately show ?thesis using close [OF report_member [OF e, of "[]" "[]" "'' ''"]] by simp
  qed
qed

end
