(* ===== verification/Bst_Report_Fits.thy ===== *)
theory Bst_Report_Fits
  imports Bst_Report_Json
begin

text \<open>How long a report gets: with counters of at most eight digits, names of at most six characters and a unit
  no larger than the one of the OVSDB plugin with 64 ports, it fits into its buffer.\<close>

section \<open>Numbers\<close>

lemma index_length: "i < 10000 \<Longrightarrow> length (fmt_d (int i)) \<le> 4"
  using decimal_length [of i 4] by (simp add: fmt_d_def)

section \<open>Rows\<close>

definition cell_short :: "report_cell \<Rightarrow> bool" where
  "cell_short c = (length (cell_text c) \<le> 8)"

definition row_short :: "row \<Rightarrow> bool" where
  "row_short r = (fst r < 10000 \<and> list_all (\<lambda>c. cell_short (snd c)) (snd r))"

lemma row_length1: "row_short (i, [(s1, c1)]) \<Longrightarrow> length s1 \<le> 4 \<Longrightarrow> length (row_text (i, [(s1, c1)])) \<le> 23"
  using index_length [of i] by (simp add: row_short_def row_text_def cell_short_def)

lemma row_length2:
  "row_short (i, [(s1, c1), (s2, c2)]) \<Longrightarrow> length s1 \<le> 3 \<Longrightarrow> length s2 \<le> 3 \<Longrightarrow>
   length (row_text (i, [(s1, c1), (s2, c2)])) \<le> 33"
  using index_length [of i] by (simp add: row_short_def row_text_def cell_short_def)

lemma row_length3:
  "row_short (i, [(s1, c1), (s2, c2), (s3, c3)]) \<Longrightarrow> length s1 + length s2 + length s3 \<le> 9 \<Longrightarrow>
   length (row_text (i, [(s1, c1), (s2, c2), (s3, c3)])) \<le> 44"
  using index_length [of i] by (simp add: row_short_def row_text_def cell_short_def)

lemma comma_join_length: "list_all (\<lambda>s. length s \<le> b) ss \<Longrightarrow> length (comma_join ss) \<le> length ss * (b + 1)"
  by (induction ss) (auto simp: comma_join_Cons)

lemma ri_included_length: "length (ri_included x count g) \<le> nat count"
  unfolding ri_included_def included_def by (rule order_trans [OF length_filter_le]) simp

text \<open>The longest row of a realm.\<close>

primrec row_bound :: "bst_realm \<Rightarrow> nat" where
  "row_bound BVIEW_BST_DEVICE = 0"
| "row_bound BVIEW_BST_INGRESS_PORT_PG = 33"
| "row_bound BVIEW_BST_INGRESS_PORT_SP = 23"
| "row_bound BVIEW_BST_INGRESS_SP = 23"
| "row_bound BVIEW_BST_EGRESS_PORT_SP = 44"
| "row_bound BVIEW_BST_EGRESS_SP = 44"
| "row_bound BVIEW_BST_EGRESS_UC_QUEUE = 33"
| "row_bound BVIEW_BST_EGRESS_UC_QUEUEGROUPS = 23"
| "row_bound BVIEW_BST_EGRESS_MC_QUEUE = 44"
| "row_bound BVIEW_BST_EGRESS_CPU_QUEUE = 33"
| "row_bound BVIEW_BST_EGRESS_RQE_QUEUE = 33"

lemma queue_row_lengths:
  "list_all row_short (queue_rows r name x) \<Longrightarrow> list_all (\<lambda>s. length s \<le> row_bound r) (map row_text (queue_rows r name x))"
  by (cases r) (auto simp: list_all_iff Let_def intro: row_length1 row_length2 row_length3)

lemma port_row_lengths:
  "list_all row_short (port_rows r p x) \<Longrightarrow> list_all (\<lambda>s. length s \<le> row_bound r) (map row_text (port_rows r p x))"
  by (cases r) (auto simp: list_all_iff Let_def intro: row_length1 row_length2 row_length3)

section \<open>Realms\<close>

definition unit_small :: "asic_capabilities \<Rightarrow> bool" where
  "unit_small a = (numPorts a \<le> 64 \<and> numUnicastQueues a \<le> 2960 \<and> numUnicastQueueGroups a \<le> 128 \<and>
     numMulticastQueues a \<le> 1040 \<and> numServicePools a \<le> 4 \<and> numCpuQueues a \<le> 8 \<and> numRqeQueues a \<le> 11 \<and>
     numPriorityGroups a \<le> 8)"

primrec row_count :: "bst_realm \<Rightarrow> nat" where
  "row_count BVIEW_BST_DEVICE = 0"
| "row_count BVIEW_BST_INGRESS_PORT_PG = 8"
| "row_count BVIEW_BST_INGRESS_PORT_SP = 4"
| "row_count BVIEW_BST_INGRESS_SP = 4"
| "row_count BVIEW_BST_EGRESS_PORT_SP = 4"
| "row_count BVIEW_BST_EGRESS_SP = 4"
| "row_count BVIEW_BST_EGRESS_UC_QUEUE = 2960"
| "row_count BVIEW_BST_EGRESS_UC_QUEUEGROUPS = 128"
| "row_count BVIEW_BST_EGRESS_MC_QUEUE = 1040"
| "row_count BVIEW_BST_EGRESS_CPU_QUEUE = 8"
| "row_count BVIEW_BST_EGRESS_RQE_QUEUE = 11"

lemma queue_rows_count: "unit_small (ri_asic x) \<Longrightarrow> length (queue_rows r name x) \<le> row_count r"
  by (cases r) (auto simp: unit_small_def intro: order_trans [OF ri_included_length])

lemma port_rows_count: "unit_small (ri_asic x) \<Longrightarrow> length (port_rows r p x) \<le> row_count r"
  by (cases r) (auto simp: unit_small_def intro: order_trans [OF ri_included_length])

definition realm_short :: "(int \<Rightarrow> string) \<Rightarrow> report_input \<Rightarrow> bst_realm \<Rightarrow> bool" where
  "realm_short name x r = (list_all row_short (queue_rows r name x) \<and>
     (\<forall>p<nat (numPorts (ri_asic x)). list_all row_short (port_rows r p x)))"

lemma port_text_length:
  assumes "length n \<le> 6" "list_all row_short (port_rows r p x)" "unit_small (ri_asic x)"
  shows "length (port_text (n, port_rows r p x)) \<le> 36 + row_count r * (row_bound r + 1)"
proof -
  have "length (comma_join (map row_text (port_rows r p x))) \<le> length (port_rows r p x) * (row_bound r + 1)"
    using comma_join_length [OF port_row_lengths [OF assms(2)]] by simp
  also have "\<dots> \<le> row_count r * (row_bound r + 1)" using port_rows_count [OF assms(3)] by (rule mult_le_mono1)
  finally show ?thesis using assms(1) by (simp add: port_text_def)
qed

lemma realm_name_length: "length (realm_name r) \<le> 27"
  by (cases r) simp_all

lemma section_length:
  assumes "list_all (\<lambda>s. length s \<le> b) items" "length items \<le> n"
  shows "length (section_text (realm_name r) items) \<le> 63 + n * (b + 1)"
proof -
  have "length (comma_join items) \<le> length items * (b + 1)" by (rule comma_join_length [OF assms(1)])
  also have "\<dots> \<le> n * (b + 1)" using assms(2) by (rule mult_le_mono1)
  finally show ?thesis using realm_name_length [of r] by (simp add: section_text_def)
qed

definition realm_bound :: "bst_realm \<Rightarrow> nat" where
  "realm_bound r = 63 + (if port_realm r then 64 * (36 + row_count r * (row_bound r + 1) + 1)
     else row_count r * (row_bound r + 1))"

lemma realm_length:
  assumes "realm_short name x r" "unit_small (ri_asic x)" "\<And>p. p \<le> 64 \<Longrightarrow> length (name (int p)) \<le> 6"
  shows "length (realm_text name x r) \<le> realm_bound r"
proof (cases "port_realm r")
  case True
  let ?b = "36 + row_count r * (row_bound r + 1)"
  have "length (port_text (name (int n), port_rows r (n - 1) x)) \<le> ?b" if "n \<le> 64" "n - 1 < nat (numPorts (ri_asic x))" for n
    by (rule port_text_length) (use assms that in \<open>simp_all add: realm_short_def\<close>)
  moreover have "n \<le> 64 \<and> n - 1 < nat (numPorts (ri_asic x))" if "n \<in> set [1..<Suc (nat (numPorts (ri_asic x)))]" for n
    using that assms(2) by (auto simp: unit_small_def)
  ultimately have "list_all (\<lambda>s. length s \<le> ?b) (map port_text (ri_ports r name x))"
    unfolding list_all_iff ri_ports_def by (auto simp del: upt_Suc)
  moreover have "length (map port_text (ri_ports r name x)) \<le> 64"
    unfolding ri_ports_def length_map by (rule order_trans [OF length_filter_le]) (use assms(2) in \<open>auto simp: unit_small_def nat_le_iff\<close>)
  ultimately show ?thesis using True section_length [of ?b _ 64 r] by (simp add: realm_text_def realm_bound_def)
next
  case False
  have "list_all (\<lambda>s. length s \<le> row_bound r) (map row_text (queue_rows r name x))"
    using assms(1) by (intro queue_row_lengths) (simp add: realm_short_def)
  moreover have "length (map row_text (queue_rows r name x)) \<le> row_count r" using queue_rows_count [OF assms(2)] by simp
  ultimately show ?thesis using False section_length [of "row_bound r" _ "row_count r" r]
    by (simp add: realm_text_def realm_bound_def)
qed

section \<open>Reports\<close>

definition report_short :: "(int \<Rightarrow> string) \<Rightarrow> report_input \<Rightarrow> bool" where
  "report_short name x = ((\<forall>c. device_cell x = Some c \<longrightarrow> cell_short c) \<and>
     list_all (realm_short name x) (report_realms (ri_options x)))"

lemma realms_length:
  assumes "list_all (realm_short name x) (report_realms o1)" "unit_small (ri_asic x)" "\<And>p. p \<le> 64 \<Longrightarrow> length (name (int p)) \<le> 6"
  shows "length (concat (map (realm_text name x) (report_realms o1))) \<le> 194240"
proof -
  let ?rs = "[BVIEW_BST_INGRESS_PORT_PG, BVIEW_BST_INGRESS_PORT_SP, BVIEW_BST_INGRESS_SP,
      BVIEW_BST_EGRESS_CPU_QUEUE, BVIEW_BST_EGRESS_MC_QUEUE, BVIEW_BST_EGRESS_PORT_SP, BVIEW_BST_EGRESS_RQE_QUEUE,
      BVIEW_BST_EGRESS_SP, BVIEW_BST_EGRESS_UC_QUEUE, BVIEW_BST_EGRESS_UC_QUEUEGROUPS]"
  have l: "length (realm_text name x r) \<le> realm_bound r" if "realm_short name x r" for r
    by (rule realm_length) (use assms that in simp_all)
  have "length (concat (map (realm_text name x) (filter q rs))) \<le> sum_list (map realm_bound rs)"
    if "list_all (realm_short name x) (filter q rs)" for q rs
    using that
  proof (induction rs)
    case (Cons r rs)
    then show ?case using l [of r] by (auto split: if_split_asm)
  qed simp
  from this [OF assms(1) [unfolded report_realms_def]] have "length (concat (map (realm_text name x) (report_realms o1))) \<le> sum_list (map realm_bound ?rs)"
    unfolding report_realms_def .
  also have "\<dots> = 194240" by (simp add: realm_bound_def port_realm_def)
  finally show ?thesis .
qed

lemma open_text_fits:
  assumes "report_short name x" "unit_small (ri_asic x)" "\<And>p. p \<le> 64 \<Longrightarrow> length (name (int p)) \<le> 6" "length h \<le> 1000"
  shows "length (open_text name h x) + 7 \<le> BSTJSON_MEMSIZE_REPORT"
proof -
  have "length (device_text x) \<le> 50"
    using assms(1) by (auto simp: device_text_def report_short_def cell_short_def split: option.split)
  moreover have "length (concat (map (realm_text name x) (report_realms (ri_options x)))) \<le> 194240"
    by (rule realms_length) (use assms in \<open>simp_all add: report_short_def\<close>)
  ultimately show ?thesis using assms(4) by (simp add: open_text_def BSTJSON_MEMSIZE_REPORT_def)
qed

section \<open>Heads\<close>

lemma index_text_length: "length (name p) \<le> 6 \<Longrightarrow> length i \<le> 20 \<Longrightarrow> length (fmt_d q) \<le> 11 \<Longrightarrow> length (index_text name i p q) \<le> 40"
  by (simp add: index_text_def)

lemma indices_length:
  assumes "bstjson_realm_to_indices_get r = Some (i1, i2)"
  shows "length i1 \<le> 20 \<and> length i2 \<le> 20"
proof -
  obtain j1 j2 where "(r, j1, j2) \<in> set realm_indices_map" "i1 = (case j1 of None \<Rightarrow> [] | Some s \<Rightarrow> s)"
    "i2 = (case j2 of None \<Rightarrow> [] | Some s \<Rightarrow> s)"
    using assms by (auto simp: bstjson_realm_to_indices_get_def dest: map_of_SomeD)
  then show ?thesis by (auto simp: realm_indices_map_def)
qed

lemma head_length:
  assumes "head_text name asicIdStr timeString o1 = Some h" "length asicIdStr \<le> 63" "length timeString \<le> 63"
    "length (name (trig_port (opt_triggerInfo o1))) \<le> 6" "length (trig_realm (opt_triggerInfo o1)) \<le> 63"
    "length (trig_counter (opt_triggerInfo o1)) \<le> 63" "length (fmt_d (trig_queue (opt_triggerInfo o1))) \<le> 11"
  shows "length h \<le> 1000"
proof (cases "reportTrigger o1")
  case False
  then show ?thesis using assms by (auto simp: head_text_def report_head_def version_2)
next
  case True
  let ?t = "opt_triggerInfo o1"
  obtain i1 i2 where i: "bstjson_realm_to_indices_get (trig_realm ?t) = Some (i1, i2)"
    and h: "h = trigger_head asicIdStr timeString ?t @ index_text name i1 (trig_port ?t) (trig_queue ?t) @
       index_text name i2 (trig_port ?t) (trig_queue ?t) @ ''\"report\" : [''"
    using True assms(1) by (auto simp: head_text_def Let_def)
  have "length (index_text name i1 (trig_port ?t) (trig_queue ?t)) \<le> 40" "length (index_text name i2 (trig_port ?t) (trig_queue ?t)) \<le> 40"
    using indices_length [OF i] assms(4,7) by (simp_all add: index_text_length)
  then show ?thesis using assms unfolding h by (simp add: trigger_head_def version_2)
qed

end
