(* ===== verification/Ovs_Names.thy ===== *)
theory Ovs_Names
  imports Ovs_System_Laws Bst_Report_Fits
begin

text \<open>The names the OVSDB plugin gives to the unit and its ports, and the encoders on top of them: whatever the
  plugin reports can be sent, as long as its counters have at most eight digits.\<close>

section \<open>Names\<close>

lemma fmt_d_one: "fmt_d 1 = ''1''"
  by (simp add: fmt_d_def decimal.simps digit_char_def) code_simp

lemma ovsdb_translates:
  "sbapi_system_port_translate_to_notation (ovsdb_registered env n) 0 port st = (BVIEW_STATUS_SUCCESS, Some (fmt_d port), st)"
  "sbapi_system_asic_translate_to_notation (ovsdb_registered env n) 0 st = (BVIEW_STATUS_SUCCESS, Some ''1'', st)"
proof -
  obtain m where s: "\<And>t. sb_system_handle (ovsdb_registered env n) t =
      Some (ovsdb_system_feature env (ovsdb_asic env n)\<lparr>featureMask := m\<rparr>)"
    using ovsdb_system_handle [of env n] by blast
  note defs = sb_system_call_def s ovsdb_system_feature_def Let_def
  show "sbapi_system_port_translate_to_notation (ovsdb_registered env n) 0 port st = (BVIEW_STATUS_SUCCESS, Some (fmt_d port), st)"
    by (simp add: sbapi_system_port_translate_to_notation_def sbplugin_ovsdb_system_port_translate_to_notation_def defs)
  show "sbapi_system_asic_translate_to_notation (ovsdb_registered env n) 0 st = (BVIEW_STATUS_SUCCESS, Some ''1'', st)"
    by (simp add: sbapi_system_asic_translate_to_notation_def sbplugin_ovsdb_system_asic_translate_to_notation_def defs
        asicMap_def asicAppMap_def BVIEW_MAX_ASICS_ON_A_PLATFORM_def fmt_d_one)
qed

interpretation ovs: unit_names "ovsdb_registered env n" 0 fmt_d "''1''" for env n
  by unfold_locales (rule ovsdb_translates)+

lemma numbers_plain: "names_plain fmt_d"
proof -
  have "list_all plain (decimal i)" for i using decimal_digits [of i] by (auto simp: list_all_iff intro: plain_digits)
  then show ?thesis by (simp add: names_plain_def fmt_d_def plain_def)
qed

lemma port_name_short: "p \<le> 64 \<Longrightarrow> length (fmt_d (int p)) \<le> 6"
  using index_length [of p] by simp

section \<open>Times\<close>

lemma time_plain: "list_all time_char s \<Longrightarrow> list_all plain s"
proof -
  have "plain c" if "time_char c" for c using that plain_digits [of c] by (auto simp: time_char_def plain_def)
  then show "list_all time_char s \<Longrightarrow> list_all plain s" by (auto simp: list_all_iff)
qed

text \<open>A local time of the years 0 to 99999 has six fields of known width.\<close>

lemma year_length:
  assumes "civil_from_days d = (y, m, k)" "- 719468 \<le> d" "d < 30000000"
  shows "length (fmt_d y) \<le> 6"
proof -
  let ?e = "(d + 719468) mod 146097"
  have e: "0 \<le> ?e" "?e < 146097" by simp_all
  have "0 \<le> (d + 719468) div 146097" "(d + 719468) div 146097 \<le> 211" using assms(2,3) by linarith+
  moreover have "- 1 \<le> year_of_era ?e" "year_of_era ?e \<le> 401"
  proof -
    have a: "0 \<le> ?e div 1460" "?e div 1460 \<le> 101" "0 \<le> ?e div 36524" "?e div 36524 \<le> 4" "0 \<le> ?e div 146096" "?e div 146096 \<le> 1"
      using e by linarith+
    have "365 * year_of_era ?e \<le> ?e - ?e div 1460 + ?e div 36524 - ?e div 146096"
      "?e - ?e div 1460 + ?e div 36524 - ?e div 146096 < 365 * year_of_era ?e + 365"
      unfolding year_of_era_def by linarith+
    then show "- 1 \<le> year_of_era ?e" "year_of_era ?e \<le> 401" using e a by linarith+
  qed
  moreover have "y = year_of_era ?e + (d + 719468) div 146097 * 400 + (if month_of (day_of_year ?e) \<le> 2 then 1 else 0)"
    using arg_cong [OF assms(1), of fst] by (simp only: civil_from_days_def Let_def prod.sel)
  ultimately have "- 1 \<le> y" "y < 100000" by auto
  then show ?thesis using decimal_length [of "nat y" 5] decimal_length [of "nat (- y)" 1]
    by (cases "0 \<le> y") (simp_all add: fmt_d_def nat_less_iff)
qed

lemma time_length:
  assumes "0 \<le> t + off t" "t + off t < 2592000000000"
  shows "length (report_time_text off t) \<le> 25"
proof -
  obtain y m d where c: "civil_from_days ((t + off t) div 86400) = (y, m, d)" by (metis prod_cases3)
  have "length (fmt_d y) \<le> 6" by (rule year_length [OF c]) (use assms in linarith)+
  then show ?thesis by (simp add: report_time_text_def c Let_def)
qed

section \<open>Reports of the plugin\<close>

lemma ovsdb_report_fits:
  assumes "\<not> reportTrigger (ri_options x)" "unit_small (ri_asic x)" "report_short fmt_d x"
    and h: "head_text fmt_d ''1'' (report_time_text off tv) (ri_options x) = Some h"
    and t: "0 \<le> tv + off tv" "tv + off tv < 2592000000000"
  shows "length (open_text fmt_d h x) + 7 \<le> BSTJSON_MEMSIZE_REPORT"
proof -
  have "h = report_head (reportThreshold (ri_options x)) ''1'' (report_time_text off tv)"
    using h assms(1) by (simp add: head_text_def)
  then have "length h \<le> 1000" using time_length [of tv off, OF t] by (simp add: report_head_def version_2)
  then show ?thesis by (intro open_text_fits [OF assms(3,2)] port_name_short)
qed

end
