(* ===== verification/Rest_Client.thy ===== *)
theory Rest_Client
  imports Json C_Text
begin

text \<open>The answering side of the REST plugin: nb_plugin/rest/rest_session.c, rest_config.c, rest_http_client.c and
  rest_api.c. The sockets are calls of the kernel: parameters that return what the call returns and
  the network afterwards. The mutexes never fail and are left out. A session pointer is the index of the
  session, one beyond the table is any other address. None in place of a result is what C leaves undefined.\<close>

section \<open>The kernel\<close>

text \<open>send with its flag MSG_MORE, SO_SNDBUF, close, socket, inet_pton and connect.\<close>

record 'net posix =
  px_send :: "int \<Rightarrow> string \<Rightarrow> bool \<Rightarrow> 'net \<Rightarrow> int \<times> 'net"
  px_sndbuf :: "int \<Rightarrow> int \<Rightarrow> 'net \<Rightarrow> int \<times> 'net"
  px_close :: "int \<Rightarrow> 'net \<Rightarrow> 'net"
  px_socket :: "'net \<Rightarrow> int \<times> 'net"
  px_pton :: "string \<Rightarrow> int"
  px_connect :: "int \<Rightarrow> string \<Rightarrow> int \<Rightarrow> 'net \<Rightarrow> int \<times> 'net"

type_synonym 'net net_op = "'net \<Rightarrow> BVIEW_STATUS \<times> 'net"

definition crlf :: string where "crlf = [CHR 0x0D, CHR 0x0A]"

section \<open>Sessions\<close>

definition REST_MAX_SESSIONS :: nat where "REST_MAX_SESSIONS = 5"
definition REST_MAX_STRING_LENGTH :: nat where "REST_MAX_STRING_LENGTH = 128"
definition REST_MAX_HTTP_BUFFER_LENGTH :: nat where "REST_MAX_HTTP_BUFFER_LENGTH = 2048"
definition REST_MAX_IP_ADDR_LENGTH :: nat where "REST_MAX_IP_ADDR_LENGTH = 20"

text \<open>The JSON of a request is a position in the buffer.\<close>

record rest_session =
  sess_inUse :: bool
  sess_httpMethod :: string
  sess_url :: string
  sess_restMethod :: string
  sess_connectionFd :: int
  sess_buffer :: string
  sess_length :: int
  sess_json :: "nat option"
  sess_creationTime :: int

record 'net rest_context =
  rest_sessions :: "rest_session list"
  rest_clientIp :: string
  rest_clientPort :: int
  rest_localPort :: int
  rest_net :: 'net

definition zero_session :: rest_session where
  "zero_session = \<lparr>sess_inUse = False, sess_httpMethod = [], sess_url = [], sess_restMethod = [], sess_connectionFd = 0,
     sess_buffer = replicate (REST_MAX_HTTP_BUFFER_LENGTH + 1) (CHR 0x00), sess_length = 0, sess_json = None,
     sess_creationTime = 0\<rparr>"

definition rest_sessions_init :: "'net rest_context \<Rightarrow> 'net rest_context" where
  "rest_sessions_init ctx = ctx\<lparr>rest_sessions := replicate REST_MAX_SESSIONS zero_session\<rparr>"

text \<open>The first session that is free, cleared.\<close>

primrec first_free :: "nat \<Rightarrow> rest_session list \<Rightarrow> nat option" where
  "first_free i [] = None"
| "first_free i (s # ss) = (if \<not> sess_inUse s then Some i else first_free (Suc i) ss)"

definition rest_allocate_session :: "'net rest_context \<Rightarrow> (nat \<times> 'net rest_context) option" where
  "rest_allocate_session ctx =
     map_option (\<lambda>i. (i, ctx\<lparr>rest_sessions := (rest_sessions ctx)[i := zero_session]\<rparr>)) (first_free 0 (rest_sessions ctx))"

definition rest_session_validate :: "'net rest_context \<Rightarrow> nat \<Rightarrow> BVIEW_STATUS" where
  "rest_session_validate ctx i =
     (if i < length (rest_sessions ctx) then BVIEW_STATUS_SUCCESS else BVIEW_STATUS_RESOURCE_NOT_AVAILABLE)"

definition rest_config_init :: "int \<Rightarrow> string \<Rightarrow> int \<Rightarrow> 'net rest_context \<Rightarrow> 'net rest_context" where
  "rest_config_init clientPort clientIp localPort ctx =
     ctx\<lparr>rest_clientPort := clientPort, rest_clientIp := clientIp, rest_localPort := localPort\<rparr>"

section \<open>Responses\<close>

definition server_line :: string where
  "server_line = ''Server: BroadViewAgent (Unix) (Linux) '' @ crlf"

definition send_text :: "'net posix \<Rightarrow> int \<Rightarrow> string \<Rightarrow> 'net net_op" where
  "send_text px fd s net =
     (case px_send px fd s False net of (n, net1) \<Rightarrow> (if n < 0 then BVIEW_STATUS_FAILURE else BVIEW_STATUS_SUCCESS, net1))"

definition rest_send_200 :: "'net posix \<Rightarrow> int \<Rightarrow> 'net net_op" where
  "rest_send_200 px fd = send_text px fd (''HTTP/1.1 200 OK '' @ crlf @ server_line @ crlf)"

definition rest_send_404 :: "'net posix \<Rightarrow> int \<Rightarrow> 'net net_op" where
  "rest_send_404 px fd = send_text px fd (''HTTP/1.1 404 Not Found '' @ crlf @ server_line @ crlf @
     '' <html> <body> Unsupported </body> </html>'')"

definition rest_send_400 :: "'net posix \<Rightarrow> int \<Rightarrow> 'net net_op" where
  "rest_send_400 px fd = send_text px fd (''HTTP/1.1 400 Bad Request '' @ crlf @ server_line @ crlf @
     ''<html> <body> Bad Request </body> </html>'')"

definition rest_send_500 :: "'net posix \<Rightarrow> int \<Rightarrow> 'net net_op" where
  "rest_send_500 px fd = send_text px fd (''HTTP/1.1 500 Internal Server Error '' @ crlf @ server_line @ crlf @
     ''<html> <body> Internal Server Error </body> </html>'')"

text \<open>A head and data after it.\<close>

definition send_pair :: "string \<Rightarrow> 'net posix \<Rightarrow> int \<Rightarrow> string \<Rightarrow> 'net net_op" where
  "send_pair head px fd buffer net =
     (case px_send px fd head True net of (n, net1) \<Rightarrow>
        if n < 0 then (BVIEW_STATUS_FAILURE, net1)
        else (case px_send px fd buffer False net1 of (m, net2) \<Rightarrow>
          (if m < 0 then BVIEW_STATUS_FAILURE else BVIEW_STATUS_SUCCESS, net2)))"

definition rest_send_404_with_data :: "'net posix \<Rightarrow> int \<Rightarrow> string \<Rightarrow> 'net net_op" where
  "rest_send_404_with_data = send_pair (''HTTP/1.1 404 Not Found '' @ crlf @ server_line @ crlf @ '' Content-Type: text/json'')"

definition rest_send_400_with_data :: "'net posix \<Rightarrow> int \<Rightarrow> string \<Rightarrow> 'net net_op" where
  "rest_send_400_with_data = send_pair (''HTTP/1.1 400 Bad Request '' @ crlf @ server_line @ crlf @ ''Content-Type: text/json'')"

definition rest_send_500_with_data :: "'net posix \<Rightarrow> int \<Rightarrow> string \<Rightarrow> 'net net_op" where
  "rest_send_500_with_data =
     send_pair (''HTTP/1.1 500 Internal Server Error '' @ crlf @ server_line @ crlf @ ''Content-Type: text/json'')"

text \<open>The loop that sends the rest of the data; None when it does not return. A failed send before it leaves
  -1 as the number of bytes sent, and the loop then sends from the byte before the buffer.\<close>

partial_function (option) send_rest ::
  "'net posix \<Rightarrow> int \<Rightarrow> string \<Rightarrow> int \<Rightarrow> BVIEW_STATUS \<Rightarrow> 'net \<Rightarrow> (BVIEW_STATUS \<times> 'net) option option" where
  "send_rest px fd buffer bytes_sent rv net =
     (if int (length buffer) - bytes_sent > 0 then
        (case px_sndbuf px fd (int (length buffer)) net of (r, net1) \<Rightarrow>
           if r < 0 then Some (Some (BVIEW_STATUS_FAILURE, net1))
           else if bytes_sent < 0 then Some None
           else (case px_send px fd (drop (nat bytes_sent) buffer) False net1 of (n, net2) \<Rightarrow>
             if n < 0 then Some (Some (BVIEW_STATUS_FAILURE, net2))
             else send_rest px fd (drop (nat bytes_sent) buffer) n rv net2))
      else Some (Some (rv, net)))"

definition head_200 :: string where
  "head_200 = ''HTTP/1.1 200 OK '' @ crlf @ server_line @ ''Content-Type: text/json '' @ crlf @ crlf"

definition rest_send_200_with_data ::
  "'net posix \<Rightarrow> int \<Rightarrow> string \<Rightarrow> 'net \<Rightarrow> (BVIEW_STATUS \<times> 'net) option option" where
  "rest_send_200_with_data px fd buffer net =
     (case px_send px fd head_200 True net of (n, net1) \<Rightarrow>
      case px_send px fd buffer True net1 of (bytes_sent, net2) \<Rightarrow>
        send_rest px fd buffer bytes_sent
          (if n < 0 \<or> bytes_sent < 0 then BVIEW_STATUS_FAILURE else BVIEW_STATUS_SUCCESS) net2)"

section \<open>Reports nobody has asked for\<close>

definition async_head :: "int \<Rightarrow> string" where
  "async_head len = ''POST /agent_response HTTP/1.1'' @ crlf @ ''Host: BVIEW Client'' @ crlf @
     ''User-Agent: BroadViewAgent'' @ crlf @ ''Accept: text/html,application/xhtml+xml,application/xml'' @ crlf @
     ''Content-Length: '' @ fmt_d len @ crlf @ crlf"

definition SYSTEM_CONFIG_PROPERTY_CLIENT_IP_DEFAULT :: string where
  "SYSTEM_CONFIG_PROPERTY_CLIENT_IP_DEFAULT = ''127.0.0.1''"

definition SYSTEM_CONFIG_PROPERTY_CLIENT_PORT_DEFAULT :: int where
  "SYSTEM_CONFIG_PROPERTY_CLIENT_PORT_DEFAULT = 9070"

text \<open>Nobody listening at the default address is no failure.\<close>

definition rest_send_async_report :: "'net posix \<Rightarrow> string \<Rightarrow> 'net rest_context \<Rightarrow> BVIEW_STATUS \<times> 'net rest_context" where
  "rest_send_async_report px buffer ctx =
     (case px_socket px (rest_net ctx) of (fd, net1) \<Rightarrow>
        let done = (\<lambda>rv net. (rv, ctx\<lparr>rest_net := px_close px fd net\<rparr>)) in
        if fd = -1 then (BVIEW_STATUS_FAILURE, ctx\<lparr>rest_net := net1\<rparr>)
        else if \<not> px_pton px (rest_clientIp ctx) > 0 then done BVIEW_STATUS_FAILURE net1
        else (case px_connect px fd (rest_clientIp ctx) (rest_clientPort ctx) net1 of (temp, net2) \<Rightarrow>
          if temp = -1 \<and> rest_clientPort ctx = SYSTEM_CONFIG_PROPERTY_CLIENT_PORT_DEFAULT \<and>
             rest_clientIp ctx = SYSTEM_CONFIG_PROPERTY_CLIENT_IP_DEFAULT
          then done BVIEW_STATUS_SUCCESS net2
          else if temp = -1 then done BVIEW_STATUS_FAILURE net2
          else (case px_send px fd (take (REST_MAX_HTTP_BUFFER_LENGTH - 2) (async_head (int (length buffer)))) True net2 of (n, net3) \<Rightarrow>
                case px_send px fd buffer False net3 of (m, net4) \<Rightarrow>
                  done (if n < 0 \<or> m < 0 then BVIEW_STATUS_FAILURE else BVIEW_STATUS_SUCCESS) net4)))"

section \<open>Errors as JSON\<close>

definition rest_json_error_array :: "(BVIEW_STATUS \<times> int \<times> string \<times> ('net posix \<Rightarrow> int \<Rightarrow> string \<Rightarrow> 'net net_op)) list" where
  "rest_json_error_array =
     [(BVIEW_STATUS_FAILURE, -32603, ''Internal Error'', rest_send_400_with_data),
      (BVIEW_STATUS_OUTOFMEMORY, -32603, ''Internal Error'', rest_send_400_with_data),
      (BVIEW_STATUS_RESOURCE_NOT_AVAILABLE, -32603, ''Internal Error'', rest_send_400_with_data),
      (BVIEW_STATUS_INVALID_MEMORY, -32603, ''Internal Error'', rest_send_400_with_data),
      (BVIEW_STATUS_INVALID_PARAMETER, -32602, ''Invalid Params'', rest_send_400_with_data),
      (BVIEW_STATUS_INVALID_ID, -32602, ''Invalid Params'', rest_send_400_with_data),
      (BVIEW_STATUS_UNSUPPORTED, -32601, ''Method Not Found'', rest_send_404_with_data),
      (BVIEW_STATUS_INVALID_JSON, -32700, ''Parse Error'', rest_send_500_with_data)]"

definition pad :: "nat \<Rightarrow> string" where
  "pad n = replicate n (CHR '' '')"

definition json_error :: "int \<Rightarrow> string \<Rightarrow> int \<Rightarrow> string" where
  "json_error code message i =
     ''{'' @ pad 34 @ ''\"jsonrpc\": \"2.0\",'' @ pad 30 @ ''\"error\": {'' @ pad 30 @ ''\"code\": '' @ fmt_d code @ '','' @ pad 30 @
     ''\"message\": \"'' @ message @ ''\" ,'' @ pad 30 @ ''\"version\": \"2\" },'' @ pad 30 @ ''\"id\":  '' @ fmt_d i @ pad 30 @ ''}''"

definition json_error_async :: "int \<Rightarrow> string \<Rightarrow> string" where
  "json_error_async code message =
     ''{'' @ pad 37 @ ''\"jsonrpc\": \"2.0\",'' @ pad 33 @ ''\"error\": {'' @ pad 33 @ ''\"code\": '' @ fmt_d code @ '','' @ pad 33 @
     ''\"message\": \"'' @ message @ ''\" ,'' @ pad 33 @ ''\"version\": \"2\" },'' @ pad 33 @ ''}''"

definition REST_JSON_BUFF_LEN :: nat where "REST_JSON_BUFF_LEN = 512"

definition rest_get_json_error_data ::
  "BVIEW_STATUS \<Rightarrow> (int \<times> string \<times> ('net posix \<Rightarrow> int \<Rightarrow> string \<Rightarrow> 'net net_op)) option" where
  "rest_get_json_error_data rv = map_of rest_json_error_array rv"

definition rest_json_error_fn_invoke :: "'net posix \<Rightarrow> int \<Rightarrow> BVIEW_STATUS \<Rightarrow> int \<Rightarrow> 'net net_op" where
  "rest_json_error_fn_invoke px fd rv i net =
     (case rest_get_json_error_data rv of
        None \<Rightarrow> (BVIEW_STATUS_INVALID_PARAMETER, net)
      | Some (json_val, str, handler) \<Rightarrow> handler px fd (take (REST_JSON_BUFF_LEN - 1) (json_error json_val str i)) net)"

definition rest_send_json_error_async :: "'net posix \<Rightarrow> BVIEW_STATUS \<Rightarrow> 'net rest_context \<Rightarrow> BVIEW_STATUS \<times> 'net rest_context" where
  "rest_send_json_error_async px rv ctx =
     (case (rest_get_json_error_data rv :: (int \<times> string \<times> ('net posix \<Rightarrow> int \<Rightarrow> string \<Rightarrow> 'net net_op)) option) of
        None \<Rightarrow> (BVIEW_STATUS_INVALID_PARAMETER, ctx)
      | Some (json_val, str, handler) \<Rightarrow> rest_send_async_report px (take (REST_JSON_BUFF_LEN - 1) (json_error_async json_val str)) ctx)"

section \<open>Answers to a session\<close>

definition close_session :: "'net posix \<Rightarrow> nat \<Rightarrow> 'net rest_context \<Rightarrow> 'net rest_context" where
  "close_session px i ctx = ctx\<lparr>rest_net := px_close px (sess_connectionFd (rest_sessions ctx ! i)) (rest_net ctx),
     rest_sessions := (rest_sessions ctx)[i := (rest_sessions ctx ! i)\<lparr>sess_inUse := False\<rparr>]\<rparr>"

definition rest_session_fd_get :: "nat option \<Rightarrow> 'net rest_context \<Rightarrow> int result" where
  "rest_session_fd_get cookie ctx =
     (case cookie of None \<Rightarrow> Inl BVIEW_STATUS_INVALID_PARAMETER
      | Some i \<Rightarrow> (let status = rest_session_validate ctx i in
          if status = BVIEW_STATUS_SUCCESS then Inr (sess_connectionFd (rest_sessions ctx ! i)) else Inl status))"

text \<open>The session is closed even when it is not one of the table.\<close>

definition rest_response_send ::
  "'net posix \<Rightarrow> nat option \<Rightarrow> string option \<Rightarrow> 'net rest_context \<Rightarrow> (BVIEW_STATUS \<times> 'net rest_context) option option" where
  "rest_response_send px cookie pBuf ctx =
     (case pBuf of
        None \<Rightarrow> Some (Some (BVIEW_STATUS_INVALID_PARAMETER,
          case cookie of None \<Rightarrow> ctx
          | Some i \<Rightarrow> if rest_session_validate ctx i = BVIEW_STATUS_SUCCESS then close_session px i ctx else ctx))
      | Some buf \<Rightarrow> (case cookie of
          None \<Rightarrow> Some (Some (rest_send_async_report px buf ctx))
        | Some i \<Rightarrow>
            if rest_session_validate ctx i \<noteq> BVIEW_STATUS_SUCCESS then Some None
            else map_option (map_option (\<lambda>(status, net). (status, close_session px i (ctx\<lparr>rest_net := net\<rparr>))))
              (rest_send_200_with_data px (sess_connectionFd (rest_sessions ctx ! i)) buf (rest_net ctx))))"

definition rest_response_send_ok :: "'net posix \<Rightarrow> nat option \<Rightarrow> 'net rest_context \<Rightarrow> BVIEW_STATUS \<times> 'net rest_context" where
  "rest_response_send_ok px cookie ctx =
     (case rest_session_fd_get cookie ctx of
        Inl status \<Rightarrow> (status, ctx)
      | Inr fd \<Rightarrow> (case rest_send_200 px fd (rest_net ctx) of
          (ret, net) \<Rightarrow> (ret, close_session px (the cookie) (ctx\<lparr>rest_net := net\<rparr>))))"

definition rest_send_json_error :: "'net posix \<Rightarrow> nat option \<Rightarrow> BVIEW_STATUS \<Rightarrow> int \<Rightarrow> 'net rest_context \<Rightarrow> BVIEW_STATUS \<times> 'net rest_context" where
  "rest_send_json_error px cookie rv i ctx =
     (case rest_session_fd_get cookie ctx of
        Inl status \<Rightarrow> (status, ctx)
      | Inr fd \<Rightarrow> (case rest_json_error_fn_invoke px fd rv i (rest_net ctx) of
          (ret, net) \<Rightarrow> (ret, close_session px (the cookie) (ctx\<lparr>rest_net := net\<rparr>))))"

definition rest_response_send_error ::
  "'net posix \<Rightarrow> nat option \<Rightarrow> BVIEW_STATUS \<Rightarrow> int \<Rightarrow> 'net rest_context \<Rightarrow> BVIEW_STATUS \<times> 'net rest_context" where
  "rest_response_send_error px cookie rv i ctx =
     (if cookie = None then rest_send_json_error_async px rv ctx else rest_send_json_error px cookie rv i ctx)"

text \<open>The address of the client changes while the agent runs: strncpy fills the 20 characters without a
  terminator when the text is as long.\<close>

definition rest_agent_config_params_modify :: "string \<Rightarrow> int \<Rightarrow> 'net rest_context \<Rightarrow> 'net rest_context" where
  "rest_agent_config_params_modify ipaddr clientPort ctx =
     ctx\<lparr>rest_clientIp := take REST_MAX_IP_ADDR_LENGTH ipaddr, rest_clientPort := clientPort\<rparr>"

end
