(* ===== verification/Rest_Server.thy ===== *)
theory Rest_Server
  imports Rest_Client Module_Mgr
begin

text \<open>The receiving side of the REST plugin, nb_plugin/rest/rest_http_server.c: a connection gets a session, its
  bytes are read into the buffer of the session and taken apart there, and the handler of the command is
  called. A C string is what starts at a position of the buffer and ends before the next NUL. Setting up
  the listening socket is left out: a connection starts with the descriptor accept has returned.\<close>

section \<open>Strings in a buffer\<close>

definition c_str :: "nat \<Rightarrow> string \<Rightarrow> string" where
  "c_str pos buf = takeWhile (\<lambda>c. c \<noteq> CHR 0x00) (drop pos buf)"

text \<open>One call of strtok with a buffer: where the token starts, and the buffer with a NUL in place of the
  delimiter after it.\<close>

definition strtok_at :: "char \<Rightarrow> nat \<Rightarrow> string \<Rightarrow> (nat \<times> string) option" where
  "strtok_at d pos buf =
     (let s = c_str pos buf; skip = length (takeWhile (\<lambda>c. c = d) s); t = drop skip s;
          tok = takeWhile (\<lambda>c. c \<noteq> d) t; stop = pos + skip + length tok
      in if t = [] then None else Some (pos + skip, if length tok < length t then buf[stop := CHR 0x00] else buf))"

fun strstr :: "string \<Rightarrow> string \<Rightarrow> nat option" where
  "strstr hay needle =
     (if take (length needle) hay = needle then Some 0
      else case hay of [] \<Rightarrow> None | c # cs \<Rightarrow> map_option Suc (strstr cs needle))"

declare strstr.simps [simp del]

section \<open>The request line\<close>

definition BVIEW_AGENT_SW_NAME :: string where "BVIEW_AGENT_SW_NAME = ''broadview''"

definition rest_validate_http_method :: "string \<Rightarrow> BVIEW_STATUS" where
  "rest_validate_http_method method =
     (if method \<in> {''GET'', ''POST'', ''PUT'', ''DELETE''} then BVIEW_STATUS_SUCCESS else BVIEW_STATUS_FAILURE)"

text \<open>The command is written with sprintf into 128 characters.\<close>

definition rest_validate_url :: "string \<Rightarrow> string \<Rightarrow> string \<Rightarrow> BVIEW_STATUS option" where
  "rest_validate_url url featureName restMethod =
     (let command = (if featureName \<noteq> [] then BVIEW_AGENT_SW_NAME @ ''/'' @ featureName @ ''/'' @ restMethod
                     else BVIEW_AGENT_SW_NAME @ ''/'' @ restMethod)
      in if 128 \<le> length command then None
         else Some (if strstr url command = None then BVIEW_STATUS_FAILURE else BVIEW_STATUS_SUCCESS))"

text \<open>What follows the last slash that is not the last character.\<close>

definition rest_method_start :: "string \<Rightarrow> nat" where
  "rest_method_start url =
     (case filter (\<lambda>p. url ! p = CHR ''/'' \<and> p < length url - 1) [0..<length url] of
        [] \<Rightarrow> 0 | ps \<Rightarrow> Suc (last ps))"

text \<open>The buffer is moved on by the lengths of the method and of the URL and one each, which is right when no
  blank comes before them. Reading beyond the buffer is undefined: the end of the head is looked for after a
  URL that fills the buffer, and 128 characters are copied from the name of the command.\<close>

definition rest_parse_http_request_to_session ::
  "module_entry list \<Rightarrow> rest_session \<Rightarrow> (BVIEW_STATUS \<times> rest_session) option" where
  "rest_parse_http_request_to_session t session =
     (case strtok_at (CHR '' '') 0 (sess_buffer session) of
        None \<Rightarrow> Some (BVIEW_STATUS_FAILURE, session)
      | Some (m, buf1) \<Rightarrow>
          let s1 = session\<lparr>sess_buffer := buf1\<rparr>; httpMethod = c_str m buf1; b1 = length httpMethod + 1 in
          if rest_validate_http_method httpMethod \<noteq> BVIEW_STATUS_SUCCESS then Some (BVIEW_STATUS_FAILURE, s1)
          else (case strtok_at (CHR '' '') b1 buf1 of
              None \<Rightarrow> Some (BVIEW_STATUS_FAILURE, s1)
            | Some (u, buf2) \<Rightarrow>
                let s2 = session\<lparr>sess_buffer := buf2\<rparr>; url = c_str u buf2; rm = u + rest_method_start url;
                    restMethod = c_str rm buf2; b2 = b1 + length url + 1 in
                (case modulemgr_rest_api_feature_name_get restMethod [] t of (status, featureName) \<Rightarrow>
                  if status \<noteq> BVIEW_STATUS_SUCCESS then Some (BVIEW_STATUS_FAILURE, s2)
                  else (case rest_validate_url url featureName restMethod of
                      None \<Rightarrow> None
                    | Some status1 \<Rightarrow>
                        if status1 \<noteq> BVIEW_STATUS_SUCCESS then Some (BVIEW_STATUS_FAILURE, s2)
                        else if length buf2 \<le> b2 then None
                        else (case strstr (c_str b2 buf2) (crlf @ crlf) of
                            None \<Rightarrow> Some (BVIEW_STATUS_FAILURE, s2)
                          | Some k \<Rightarrow>
                              let json = b2 + k + 4 in
                              if length buf2 < rm + REST_MAX_STRING_LENGTH then None
                              else Some (BVIEW_STATUS_SUCCESS, s2\<lparr>sess_json := Some json,
                                sess_httpMethod := take REST_MAX_STRING_LENGTH httpMethod,
                                sess_url := take REST_MAX_STRING_LENGTH url,
                                sess_restMethod := take REST_MAX_STRING_LENGTH restMethod,
                                sess_length := sess_length session - int json\<rparr>))))))"

definition session_json :: "rest_session \<Rightarrow> string option" where
  "session_json s = map_option (\<lambda>p. c_str p (sess_buffer s)) (sess_json s)"

text \<open>The id of a request, for the errors.\<close>

definition rest_get_id_from_request :: "(string \<Rightarrow> json option) \<Rightarrow> string option \<Rightarrow> int result" where
  "rest_get_id_from_request cJSON_Parse jsonBuffer =
     res_bind (JSON_VALIDATE_POINTER jsonBuffer BVIEW_STATUS_INVALID_PARAMETER) (\<lambda>buf.
     res_bind (JSON_VALIDATE_POINTER (cJSON_Parse buf) BVIEW_STATUS_INVALID_JSON) (\<lambda>root.
     res_bind (JSON_VALIDATE_POINTER (cJSON_GetObjectItem root ''id'') BVIEW_STATUS_INVALID_JSON) (\<lambda>j.
     res_bind (JSON_VALIDATE_JSON_AS_NUMBER j) (\<lambda>n.
     res_bind (JSON_CHECK_VALUE_AND_CLEANUP n 1 100000) (\<lambda>_. Inr n)))))"

section \<open>Reading\<close>

text \<open>What select and read report: an error, two seconds without data, a call to repeat, the end of the
  connection, or data.\<close>

datatype recv_event = Recv_error | Recv_timeout | Recv_again | Recv_closed | Recv_data string

text \<open>The loop ends at a timeout or the end of the connection; a full buffer reads nothing, which looks like
  the end. The result is None after an error. No result: the loop does not end.\<close>

partial_function (option) rest_receive ::
  "(int \<Rightarrow> nat \<Rightarrow> 'net \<Rightarrow> recv_event \<times> 'net) \<Rightarrow> int \<Rightarrow> nat \<Rightarrow> string \<Rightarrow> 'net \<Rightarrow> ((nat \<times> string) option \<times> 'net) option" where
  "rest_receive recv fd len buf net =
     (case recv fd (REST_MAX_HTTP_BUFFER_LENGTH - len) net of (ev, net1) \<Rightarrow>
      (case ev of
         Recv_error \<Rightarrow> Some (None, net1)
       | Recv_timeout \<Rightarrow> Some (Some (len, buf), net1)
       | Recv_closed \<Rightarrow> Some (Some (len, buf), net1)
       | Recv_again \<Rightarrow> rest_receive recv fd len buf net1
       | Recv_data s \<Rightarrow> rest_receive recv fd (len + length s) (take len buf @ s @ drop (len + length s) buf) net1))"

section \<open>A connection\<close>

definition set_session :: "nat \<Rightarrow> rest_session \<Rightarrow> 'net rest_context \<Rightarrow> 'net rest_context" where
  "set_session i s ctx = ctx\<lparr>rest_sessions := (rest_sessions ctx)[i := s]\<rparr>"

definition close_fd :: "'net posix \<Rightarrow> int \<Rightarrow> 'net rest_context \<Rightarrow> 'net rest_context" where
  "close_fd px fd ctx = ctx\<lparr>rest_net := px_close px fd (rest_net ctx)\<rparr>"

text \<open>An answer on the connection, whose status nobody looks at.\<close>

definition reply :: "'net net_op \<Rightarrow> 'net rest_context \<Rightarrow> 'net rest_context" where
  "reply f ctx = ctx\<lparr>rest_net := snd (f (rest_net ctx))\<rparr>"

text \<open>A request that fails is answered with its id when it has one, with plain HTML otherwise; the connection
  is closed and the session given back.\<close>

definition reject ::
  "'net posix \<Rightarrow> int \<Rightarrow> nat \<Rightarrow> int result \<Rightarrow> BVIEW_STATUS \<Rightarrow> 'net net_op \<Rightarrow> 'net rest_context \<Rightarrow> 'net rest_context" where
  "reject px fd i ret status html ctx =
     (let ctx1 = close_fd px fd (reply (case ret of Inr n \<Rightarrow> rest_json_error_fn_invoke px fd status n | Inl _ \<Rightarrow> html) ctx)
      in set_session i ((rest_sessions ctx1 ! i)\<lparr>sess_inUse := False\<rparr>) ctx1)"

text \<open>What happens after the bytes are read. invoke calls a handler with the session as its cookie.\<close>

definition rest_handle_request ::
  "'net posix \<Rightarrow> (string \<Rightarrow> json option) \<Rightarrow> module_entry list \<Rightarrow>
   (nat \<Rightarrow> nat option \<Rightarrow> string option \<Rightarrow> int \<Rightarrow> 'w \<Rightarrow> BVIEW_STATUS \<times> 'w) \<Rightarrow> int \<Rightarrow> nat \<Rightarrow>
   'net rest_context \<Rightarrow> 'w \<Rightarrow> ('net rest_context \<times> 'w) option" where
  "rest_handle_request px cJSON_Parse t invoke fd i ctx w =
     (case rest_parse_http_request_to_session t (rest_sessions ctx ! i) of
        None \<Rightarrow> None
      | Some (status, session) \<Rightarrow>
          let ctx1 = set_session i session ctx;
              ret = rest_get_id_from_request cJSON_Parse (session_json session) in
          if status \<noteq> BVIEW_STATUS_SUCCESS then
            Some (reject px fd i ret BVIEW_STATUS_UNSUPPORTED (rest_send_404 px fd) ctx1, w)
          else
            (let ctx2 = set_session i (session\<lparr>sess_inUse := True\<rparr>) ctx1 in
             case modulemgr_rest_api_handler_get cJSON_Parse (session_json session) t of (status1, h) \<Rightarrow>
               if status1 \<noteq> BVIEW_STATUS_SUCCESS then
                 Some (reject px fd i ret BVIEW_STATUS_UNSUPPORTED (rest_send_404 px fd) ctx2, w)
               else (case h of None \<Rightarrow> None
                 | Some f \<Rightarrow> (case invoke f (Some i) (session_json session) (sess_length session) w of (status2, w1) \<Rightarrow>
                     if status2 \<noteq> BVIEW_STATUS_SUCCESS then
                       Some (reject px fd i ret status2
                         (if status2 = BVIEW_STATUS_INVALID_JSON then rest_send_500 px fd else rest_send_400 px fd) ctx2, w1)
                     else Some (ctx2, w1)))))"

text \<open>Without a free session the connection is left as it is, open.\<close>

definition rest_process_http_request ::
  "'net posix \<Rightarrow> (int \<Rightarrow> nat \<Rightarrow> 'net \<Rightarrow> recv_event \<times> 'net) \<Rightarrow> (string \<Rightarrow> json option) \<Rightarrow> module_entry list \<Rightarrow>
   (nat \<Rightarrow> nat option \<Rightarrow> string option \<Rightarrow> int \<Rightarrow> 'w \<Rightarrow> BVIEW_STATUS \<times> 'w) \<Rightarrow> int \<Rightarrow> int \<Rightarrow>
   'net rest_context \<Rightarrow> 'w \<Rightarrow> (BVIEW_STATUS \<times> 'net rest_context \<times> 'w) option option" where
  "rest_process_http_request px recv cJSON_Parse t invoke now fd ctx w =
     (case rest_allocate_session ctx of
        None \<Rightarrow> Some (Some (BVIEW_STATUS_FAILURE, ctx, w))
      | Some (i, ctx1) \<Rightarrow>
          map_option (\<lambda>(read, net).
            (case read of
               None \<Rightarrow> Some (BVIEW_STATUS_SUCCESS, close_fd px fd (ctx1\<lparr>rest_net := net\<rparr>), w)
             | Some (len, buf) \<Rightarrow>
                 map_option (\<lambda>(ctx2, w1). (BVIEW_STATUS_SUCCESS, ctx2, w1))
                   (rest_handle_request px cJSON_Parse t invoke fd i
                     (set_session i ((rest_sessions ctx1 ! i)\<lparr>sess_buffer := buf, sess_connectionFd := fd,
                        sess_creationTime := now, sess_length := int len\<rparr>) (ctx1\<lparr>rest_net := net\<rparr>)) w)))
            (rest_receive recv fd 0 (sess_buffer (rest_sessions ctx1 ! i)) (rest_net ctx1)))"

end
