(* ===== verification/Rest_Laws.thy ===== *)
theory Rest_Laws
  imports Rest_Server
begin

text \<open>The REST plugin against a kernel that keeps the documented behaviour of its calls: what a client receives,
  which connections are closed, and which sessions are free again.\<close>

section \<open>The kernel\<close>

text \<open>received is what the peer of a descriptor gets, closed the descriptors closed so far. send takes at least
  one byte of a text that is not empty, or fails and takes none.\<close>

definition kernel_ok :: "'net posix \<Rightarrow> ('net \<Rightarrow> int \<Rightarrow> string) \<Rightarrow> ('net \<Rightarrow> int list) \<Rightarrow> bool" where
  "kernel_ok px received closed =
     ((\<forall>fd s fl net n net1. px_send px fd s fl net = (n, net1) \<longrightarrow>
         n \<le> int (length s) \<and> (s \<noteq> [] \<longrightarrow> n \<noteq> 0) \<and> closed net1 = closed net \<and>
         received net1 = (received net)(fd := received net fd @ take (nat n) s)) \<and>
      (\<forall>fd k net r net1. px_sndbuf px fd k net = (r, net1) \<longrightarrow> received net1 = received net \<and> closed net1 = closed net) \<and>
      (\<forall>fd net. received (px_close px fd net) = received net \<and> closed (px_close px fd net) = closed net @ [fd]))"

lemma kernel_send:
  "kernel_ok px rc cl \<Longrightarrow> px_send px fd s fl net = (n, net1) \<Longrightarrow>
   n \<le> int (length s) \<and> (s \<noteq> [] \<longrightarrow> n \<noteq> 0) \<and> cl net1 = cl net \<and> rc net1 = (rc net)(fd := rc net fd @ take (nat n) s)"
  by (simp add: kernel_ok_def)

lemma kernel_sndbuf:
  "kernel_ok px rc cl \<Longrightarrow> px_sndbuf px fd k net = (r, net1) \<Longrightarrow> rc net1 = rc net \<and> cl net1 = cl net"
  by (simp add: kernel_ok_def)

lemma kernel_close: "kernel_ok px rc cl \<Longrightarrow> rc (px_close px fd net) = rc net \<and> cl (px_close px fd net) = cl net @ [fd]"
  by (simp add: kernel_ok_def)

section \<open>Sending everything\<close>

text \<open>The loop ends, and after a success the client has the rest of the data.\<close>

lemma send_rest_ends:
  assumes k: "kernel_ok px rc cl"
  shows "0 \<le> sent \<Longrightarrow> sent \<le> int (length buf) \<Longrightarrow> (buf \<noteq> [] \<longrightarrow> sent \<noteq> 0) \<Longrightarrow>
    \<exists>rv1 net1. send_rest px fd buf sent rv net = Some (Some (rv1, net1)) \<and> cl net1 = cl net \<and>
      (\<forall>g. g \<noteq> fd \<longrightarrow> rc net1 g = rc net g) \<and> (rv1 = rv \<or> rv1 = BVIEW_STATUS_FAILURE) \<and>
      (rv1 = BVIEW_STATUS_SUCCESS \<longrightarrow> rc net1 fd = rc net fd @ drop (nat sent) buf)"
proof (induction "length buf" arbitrary: buf sent net rule: less_induct)
  case less
  show ?case
  proof (cases "int (length buf) - sent > 0")
    case False
    then have "sent = int (length buf)" using less.prems(2) by simp
    then show ?thesis by (subst send_rest.simps) simp
  next
    case True
    let ?b = "drop (nat sent) buf"
    obtain r net1 where r: "px_sndbuf px fd (int (length buf)) net = (r, net1)" by fastforce
    note b = kernel_sndbuf [OF k r]
    obtain n net2 where n: "px_send px fd ?b False net1 = (n, net2)" by fastforce
    note s = kernel_send [OF k n]
    have nonempty: "?b \<noteq> []" using True less.prems(1) by simp
    have shorter: "length ?b < length buf" using True less.prems by (cases "buf = []") auto
    show ?thesis
    proof (cases "r < 0 \<or> n < 0")
      case True
      then show ?thesis using r n b s less.prems(1) \<open>int (length buf) - sent > 0\<close> by (subst send_rest.simps) auto
    next
      case False
      then obtain rv1 net3 where "send_rest px fd ?b n rv net2 = Some (Some (rv1, net3))" "cl net3 = cl net2"
        "\<forall>g. g \<noteq> fd \<longrightarrow> rc net3 g = rc net2 g" "rv1 = rv \<or> rv1 = BVIEW_STATUS_FAILURE"
        "rv1 = BVIEW_STATUS_SUCCESS \<longrightarrow> rc net3 fd = rc net2 fd @ drop (nat n) ?b"
        using less.hyps [OF shorter, of n net2] s nonempty by auto
      moreover have "send_rest px fd buf sent rv net = send_rest px fd ?b n rv net2"
        using True False r n less.prems(1) by (subst send_rest.simps) simp
      ultimately show ?thesis using b s by (auto simp del: drop_drop simp: append_take_drop_id)
    qed
  qed
qed

section \<open>Answers\<close>

lemma head_200_not_Nil: "head_200 \<noteq> []"
  by (simp add: head_200_def)

lemma send_200_data:
  assumes k: "kernel_ok px rc cl" and "buf \<noteq> []"
  shows "\<exists>r. rest_send_200_with_data px fd buf net = Some r
    \<and> (r = None \<longrightarrow> (\<exists>net n net1. px_send px fd buf True net = (n, net1) \<and> n < 0))
    \<and> (\<forall>rv net1. r = Some (rv, net1) \<longrightarrow> cl net1 = cl net \<and> (\<forall>g. g \<noteq> fd \<longrightarrow> rc net1 g = rc net g)
        \<and> (rv = BVIEW_STATUS_SUCCESS \<longrightarrow> (\<exists>j. rc net1 fd = rc net fd @ take j head_200 @ buf)))"
proof -
  obtain n net1 where n: "px_send px fd head_200 True net = (n, net1)" by fastforce
  note 1 = kernel_send [OF k n]
  obtain m net2 where m: "px_send px fd buf True net1 = (m, net2)" by fastforce
  note 2 = kernel_send [OF k m]
  let ?rv = "if n < 0 \<or> m < 0 then BVIEW_STATUS_FAILURE else BVIEW_STATUS_SUCCESS"
  have s: "rest_send_200_with_data px fd buf net = send_rest px fd buf m ?rv net2"
    using n m by (simp add: rest_send_200_with_data_def)
  show ?thesis
  proof (cases "m < 0")
    case True
    obtain r net3 where r: "px_sndbuf px fd (int (length buf)) net2 = (r, net3)" by fastforce
    note b = kernel_sndbuf [OF k r]
    have "send_rest px fd buf m ?rv net2 = Some (if r < 0 then Some (BVIEW_STATUS_FAILURE, net3) else None)"
      using True r by (subst send_rest.simps) simp
    then show ?thesis using s True m b 1 2 by (cases "r < 0") auto
  next
    case False
    from send_rest_ends [OF k, of m buf fd ?rv net2] obtain rv1 net3 where
      e: "send_rest px fd buf m ?rv net2 = Some (Some (rv1, net3))" "cl net3 = cl net2"
        "\<forall>g. g \<noteq> fd \<longrightarrow> rc net3 g = rc net2 g"
        "rv1 = BVIEW_STATUS_SUCCESS \<longrightarrow> rc net3 fd = rc net2 fd @ drop (nat m) buf"
      using False 2 by auto
    have "rc net3 fd = rc net fd @ take (nat n) head_200 @ buf" if "rv1 = BVIEW_STATUS_SUCCESS"
      using e(4) that 1 2 by simp
    then show ?thesis using s e 1 2 by auto
  qed
qed

definition busy :: "'net rest_context \<Rightarrow> nat set" where
  "busy ctx = {i. i < length (rest_sessions ctx) \<and> sess_inUse (rest_sessions ctx ! i)}"

lemma busy_net [simp]: "busy (ctx\<lparr>rest_net := net\<rparr>) = busy ctx"
  by (simp add: busy_def)

lemma busy_close: "i < length (rest_sessions ctx) \<Longrightarrow> busy (close_session px i ctx) = busy ctx - {i}"
  by (auto simp: busy_def close_session_def nth_list_update)

lemma close_session_net:
  assumes "kernel_ok px rc cl"
  shows "rc (rest_net (close_session px i ctx)) = rc (rest_net ctx)"
    "cl (rest_net (close_session px i ctx)) = cl (rest_net ctx) @ [sess_connectionFd (rest_sessions ctx ! i)]"
  using kernel_close [OF assms] by (simp_all add: close_session_def)

text \<open>A text sent to a session: the call returns, the connection is closed, the session is free, and the
  client has the whole text after a success.\<close>

lemma response_sent:
  assumes k: "kernel_ok px rc cl" and i: "i < length (rest_sessions ctx)" and "buf \<noteq> []"
  defines "fd \<equiv> sess_connectionFd (rest_sessions ctx ! i)"
  shows "\<exists>r. rest_response_send px (Some i) (Some buf) ctx = Some r
    \<and> (r = None \<longrightarrow> (\<exists>net n net1. px_send px fd buf True net = (n, net1) \<and> n < 0))
    \<and> (\<forall>rv ctx1. r = Some (rv, ctx1) \<longrightarrow> busy ctx1 = busy ctx - {i} \<and> cl (rest_net ctx1) = cl (rest_net ctx) @ [fd]
        \<and> (\<forall>g. g \<noteq> fd \<longrightarrow> rc (rest_net ctx1) g = rc (rest_net ctx) g)
        \<and> (rv = BVIEW_STATUS_SUCCESS \<longrightarrow> (\<exists>j. rc (rest_net ctx1) fd = rc (rest_net ctx) fd @ take j head_200 @ buf)))"
proof -
  obtain r where r: "rest_send_200_with_data px fd buf (rest_net ctx) = Some r"
    "r = None \<longrightarrow> (\<exists>net n net1. px_send px fd buf True net = (n, net1) \<and> n < 0)"
    "\<And>rv net1. r = Some (rv, net1) \<Longrightarrow> cl net1 = cl (rest_net ctx) \<and> (\<forall>g. g \<noteq> fd \<longrightarrow> rc net1 g = rc (rest_net ctx) g)
        \<and> (rv = BVIEW_STATUS_SUCCESS \<longrightarrow> (\<exists>j. rc net1 fd = rc (rest_net ctx) fd @ take j head_200 @ buf))"
    using send_200_data [OF k assms(3), of fd "rest_net ctx"] by metis
  have send: "rest_response_send px (Some i) (Some buf) ctx =
      Some (map_option (\<lambda>(status, net). (status, close_session px i (ctx\<lparr>rest_net := net\<rparr>))) r)"
    using r(1) i by (simp add: rest_response_send_def rest_session_validate_def fd_def)
  show ?thesis
  proof (cases r)
    case None
    then show ?thesis using send r(2) by simp
  next
    case (Some q)
    obtain rv net1 where q: "q = (rv, net1)" by fastforce
    note 3 = r(3) [OF Some [unfolded q]]
    have "busy (close_session px i (ctx\<lparr>rest_net := net1\<rparr>)) = busy ctx - {i}" using i by (simp add: busy_close)
    then show ?thesis using send Some q 3 close_session_net [OF k, of i "ctx\<lparr>rest_net := net1\<rparr>"] by (simp add: fd_def)
  qed
qed

section \<open>Connections\<close>

definition quiet :: "('net \<Rightarrow> int list) \<Rightarrow> 'net net_op \<Rightarrow> bool" where
  "quiet cl f = (\<forall>net. cl (snd (f net)) = cl net)"

lemma quiet_text: "kernel_ok px rc cl \<Longrightarrow> quiet cl (send_text px fd s)"
  by (auto simp: quiet_def send_text_def dest: kernel_send split: prod.split)

lemma quiet_pair:
  assumes k: "kernel_ok px rc cl"
  shows "quiet cl (send_pair h px fd s)"
  unfolding quiet_def
proof
  fix net
  obtain n net1 where n: "px_send px fd h True net = (n, net1)" by fastforce
  obtain m net2 where m: "px_send px fd s False net1 = (m, net2)" by fastforce
  show "cl (snd (send_pair h px fd s net)) = cl net"
    using n m kernel_send [OF k n] kernel_send [OF k m] by (simp add: send_pair_def)
qed

lemma quiet_html:
  assumes "kernel_ok px rc cl"
  shows "quiet cl (rest_send_200 px fd)" "quiet cl (rest_send_404 px fd)" "quiet cl (rest_send_400 px fd)" "quiet cl (rest_send_500 px fd)"
  using quiet_text [OF assms] by (simp_all add: rest_send_200_def rest_send_404_def rest_send_400_def rest_send_500_def)

lemma quiet_error:
  assumes "kernel_ok px rc cl"
  shows "quiet cl (rest_json_error_fn_invoke px fd rv i)"
  using quiet_pair [OF assms]
  by (auto simp: quiet_def rest_json_error_fn_invoke_def rest_get_json_error_data_def rest_json_error_array_def
      rest_send_400_with_data_def rest_send_404_with_data_def rest_send_500_with_data_def)

lemma reject_outcome:
  assumes k: "kernel_ok px rc cl" and "quiet cl html" and i: "i < length (rest_sessions ctx)"
  shows "cl (rest_net (reject px fd i ret status html ctx)) = cl (rest_net ctx) @ [fd]
    \<and> busy (reject px fd i ret status html ctx) = busy ctx - {i}"
proof -
  have "cl (snd ((case ret of Inr n \<Rightarrow> rest_json_error_fn_invoke px fd status n | Inl _ \<Rightarrow> html) net)) = cl net" for net
    using quiet_error [OF k] assms(2) by (simp add: quiet_def split: sum.split)
  then show ?thesis
    using kernel_close [OF k] i
    by (auto simp: reject_def Let_def set_session_def close_fd_def reply_def busy_def nth_list_update)
qed

end
