(* ===== verification/Rest_Connections.thy ===== *)
theory Rest_Connections
  imports Rest_Laws
begin

text \<open>What becomes of a connection the REST server has accepted: the reading ends, and then the connection is
  closed with its session free again, or it waits for the reply of a handler.\<close>

section \<open>Reading\<close>

text \<open>The documented behaviour of select and read: data is not empty and fits into the room, a call is repeated
  only finitely often, and nothing is sent or closed by it.\<close>

definition recv_ok ::
  "(int \<Rightarrow> nat \<Rightarrow> 'net \<Rightarrow> recv_event \<times> 'net) \<Rightarrow> ('net \<Rightarrow> nat) \<Rightarrow> ('net \<Rightarrow> int \<Rightarrow> string) \<Rightarrow> ('net \<Rightarrow> int list) \<Rightarrow> bool" where
  "recv_ok recv again received closed =
     (\<forall>fd k net ev net1. recv fd k net = (ev, net1) \<longrightarrow>
        received net1 = received net \<and> closed net1 = closed net \<and>
        (ev = Recv_again \<longrightarrow> again net1 < again net) \<and> (\<forall>s. ev = Recv_data s \<longrightarrow> s \<noteq> [] \<and> length s \<le> k))"

lemma recv_okD:
  "recv_ok recv again rc cl \<Longrightarrow> recv fd k net = (ev, net1) \<Longrightarrow> rc net1 = rc net \<and> cl net1 = cl net \<and>
    (ev = Recv_again \<longrightarrow> again net1 < again net) \<and> (\<forall>s. ev = Recv_data s \<longrightarrow> s \<noteq> [] \<and> length s \<le> k)"
  unfolding recv_ok_def by blast

lemma receive_ends:
  assumes "recv_ok recv again rc cl"
  shows "len \<le> REST_MAX_HTTP_BUFFER_LENGTH \<Longrightarrow> REST_MAX_HTTP_BUFFER_LENGTH \<le> length buf \<Longrightarrow>
    \<exists>r net1. rest_receive recv fd len buf net = Some (r, net1) \<and> rc net1 = rc net \<and> cl net1 = cl net \<and>
      (\<forall>n b. r = Some (n, b) \<longrightarrow> n \<le> REST_MAX_HTTP_BUFFER_LENGTH \<and> length b = length buf)"
proof (induction "(REST_MAX_HTTP_BUFFER_LENGTH - len, again net)" arbitrary: len buf net
    rule: wf_induct_rule [OF wf_lex_prod [OF wf_less wf_less], consumes 0])
  case 1
  obtain ev net1 where e: "recv fd (REST_MAX_HTTP_BUFFER_LENGTH - len) net = (ev, net1)" by fastforce
  note k = recv_okD [OF assms e]
  show ?case
  proof (cases ev)
    case Recv_again
    then obtain r net2 where "rest_receive recv fd len buf net1 = Some (r, net2)" "rc net2 = rc net1" "cl net2 = cl net1"
      "\<forall>n b. r = Some (n, b) \<longrightarrow> n \<le> REST_MAX_HTTP_BUFFER_LENGTH \<and> length b = length buf"
      using 1(1) [of len net1 buf] k 1(2,3) by auto
    then show ?thesis using Recv_again e k by (subst rest_receive.simps) simp
  next
    case (Recv_data s)
    let ?b = "take len buf @ s @ drop (len + length s) buf"
    have l: "len + length s \<le> REST_MAX_HTTP_BUFFER_LENGTH" "s \<noteq> []" using k Recv_data 1(2) by auto
    then have "REST_MAX_HTTP_BUFFER_LENGTH - (len + length s) < REST_MAX_HTTP_BUFFER_LENGTH - len" by (cases s) auto
    moreover have b: "length ?b = length buf" using l 1(3) by simp
    ultimately obtain r net2 where "rest_receive recv fd (len + length s) ?b net1 = Some (r, net2)" "rc net2 = rc net1"
      "cl net2 = cl net1" "\<forall>n b. r = Some (n, b) \<longrightarrow> n \<le> REST_MAX_HTTP_BUFFER_LENGTH \<and> length b = length ?b"
      using 1(1) [of "len + length s" net1 ?b] l 1(3) by auto
    then show ?thesis using Recv_data e k b by (subst rest_receive.simps) simp
  qed (use e k 1(2) in \<open>subst rest_receive.simps, simp\<close>)+
qed

section \<open>Sessions\<close>

lemma first_free_Some:
  "first_free k ss = Some i \<Longrightarrow> k \<le> i \<and> i < k + length ss \<and> \<not> sess_inUse (ss ! (i - k))"
  by (induction ss arbitrary: k) (fastforce split: if_splits simp: nth_Cons')+

lemma allocated:
  "rest_allocate_session ctx = Some (i, ctx1) \<Longrightarrow>
   i < length (rest_sessions ctx) \<and> i \<notin> busy ctx \<and> ctx1 = set_session i zero_session ctx"
  by (auto simp: rest_allocate_session_def set_session_def busy_def dest: first_free_Some)

lemma busy_set: "i < length (rest_sessions ctx) \<Longrightarrow>
    busy (set_session i s ctx) = (if sess_inUse s then insert i (busy ctx) else busy ctx - {i})"
  by (auto simp: busy_def set_session_def nth_list_update)

lemma set_session_net [simp]: "rest_net (set_session i s ctx) = rest_net ctx"
  by (simp add: set_session_def)

lemma set_session_sessions [simp]: "rest_sessions (set_session i s ctx) = (rest_sessions ctx)[i := s]"
  by (simp add: set_session_def)

lemma parsed_fd:
  "rest_parse_http_request_to_session t s = Some (status, s1) \<Longrightarrow>
   sess_connectionFd s1 = sess_connectionFd s \<and> sess_inUse s1 = sess_inUse s"
  by (auto simp: rest_parse_http_request_to_session_def Let_def split: option.splits prod.splits if_splits)

section \<open>The outcome\<close>

text \<open>What a request leaves behind, once its bytes are in the session.\<close>

definition request_outcome ::
  "('net \<Rightarrow> int list) \<Rightarrow> (nat \<Rightarrow> nat option \<Rightarrow> string option \<Rightarrow> int \<Rightarrow> 'w \<Rightarrow> BVIEW_STATUS \<times> 'w) \<Rightarrow> int \<Rightarrow> nat \<Rightarrow>
   'net rest_context \<Rightarrow> 'w \<Rightarrow> 'net rest_context \<Rightarrow> 'w \<Rightarrow> bool" where
  "request_outcome closed invoke fd i ctx w ctx1 w1 =
     (if i \<in> busy ctx1
      then closed (rest_net ctx1) = closed (rest_net ctx) \<and> busy ctx1 = insert i (busy ctx) \<and>
        sess_connectionFd (rest_sessions ctx1 ! i) = fd \<and>
        (\<exists>f json n. invoke f (Some i) json n w = (BVIEW_STATUS_SUCCESS, w1))
      else closed (rest_net ctx1) = closed (rest_net ctx) @ [fd] \<and> busy ctx1 = busy ctx - {i})"

lemma rejected:
  assumes "kernel_ok px rc cl" "quiet cl html" "i < length (rest_sessions ctx)" "rest_net ctx = rest_net ctx0"
    "busy ctx - {i} = busy ctx0 - {i}"
  shows "request_outcome cl invoke fd i ctx0 w (reject px fd i ret status html ctx) w1"
  using reject_outcome [OF assms(1-3), of fd ret status] assms(4,5) by (simp add: request_outcome_def)

lemma request_ends:
  assumes k: "kernel_ok px rc cl" and i: "i < length (rest_sessions ctx)" and fd: "sess_connectionFd (rest_sessions ctx ! i) = fd"
    and h: "rest_handle_request px cJSON_Parse t invoke fd i ctx w = Some (ctx1, w1)"
  shows "request_outcome cl invoke fd i ctx w ctx1 w1"
proof -
  obtain status s where p: "rest_parse_http_request_to_session t (rest_sessions ctx ! i) = Some (status, s)"
    using h by (auto simp: rest_handle_request_def split: option.splits)
  let ?ctx1 = "set_session i s ctx" and ?ctx2 = "set_session i (s\<lparr>sess_inUse := True\<rparr>) (set_session i s ctx)"
  have l: "i < length (rest_sessions ?ctx1)" "i < length (rest_sessions ?ctx2)" using i by simp_all
  have b: "busy ?ctx1 - {i} = busy ctx - {i}" "busy ?ctx2 - {i} = busy ctx - {i}" "busy ?ctx2 = insert i (busy ctx)"
    using i by (auto simp: busy_set)
  have r1: "request_outcome cl invoke fd i ctx w (reject px fd i ret st (rest_send_404 px fd) ?ctx1) w2" for ret st w2
    by (rule rejected [OF k]) (use quiet_html [OF k] l b in simp_all)
  have r2: "request_outcome cl invoke fd i ctx w (reject px fd i ret st html ?ctx2) w2" if "quiet cl html" for ret st html w2
    by (rule rejected [OF k]) (use that l b in simp_all)
  obtain st1 f where g: "modulemgr_rest_api_handler_get cJSON_Parse (session_json s) t = (st1, f)" by fastforce
  show ?thesis
  proof (cases "status = BVIEW_STATUS_SUCCESS \<and> st1 = BVIEW_STATUS_SUCCESS")
    case False
    then show ?thesis using h p g r1 r2 [OF quiet_html(2) [OF k]]
      by (cases "status = BVIEW_STATUS_SUCCESS") (auto simp: rest_handle_request_def Let_def)
  next
    case True
    then obtain f1 where f: "f = Some f1" using h p g by (auto simp: rest_handle_request_def Let_def split: option.splits)
    obtain st2 w2 where v: "invoke f1 (Some i) (session_json s) (sess_length s) w = (st2, w2)" by fastforce
    show ?thesis
    proof (cases "st2 = BVIEW_STATUS_SUCCESS")
      case True
      then have "ctx1 = ?ctx2" "w1 = w2" using h p g f v \<open>_ \<and> _\<close> by (simp_all add: rest_handle_request_def Let_def)
      moreover have "sess_connectionFd (rest_sessions ?ctx2 ! i) = fd" using parsed_fd [OF p] fd i by simp
      moreover have "\<exists>f json n. invoke f (Some i) json n w = (BVIEW_STATUS_SUCCESS, w2)" using v True by blast
      ultimately show ?thesis using b(3) by (simp add: request_outcome_def)
    next
      case False
      have "quiet cl (if st2 = BVIEW_STATUS_INVALID_JSON then rest_send_500 px fd else rest_send_400 px fd)"
        using quiet_html [OF k] by simp
      from r2 [OF this, of "rest_get_id_from_request cJSON_Parse (session_json s)" st2 w2] False show ?thesis
        using h p g f v \<open>_ \<and> _\<close> by (auto simp: rest_handle_request_def Let_def)
    qed
  qed
qed

lemma connection_ends:
  assumes k: "kernel_ok px rc cl" and rv: "recv_ok recv again rc cl" and free: "rest_allocate_session ctx = Some (i, ctx0)"
  shows "\<exists>r. rest_process_http_request px recv cJSON_Parse t invoke now fd ctx w = Some r \<and>
    (\<forall>status ctx1 w1. r = Some (status, ctx1, w1) \<longrightarrow>
       status = BVIEW_STATUS_SUCCESS \<and> request_outcome cl invoke fd i ctx w ctx1 w1)"
proof -
  note a = allocated [OF free]
  let ?b = "sess_buffer (rest_sessions ctx0 ! i)"
  have b: "length ?b = REST_MAX_HTTP_BUFFER_LENGTH + 1" using a by (simp add: zero_session_def)
  obtain r net1 where r: "rest_receive recv fd 0 ?b (rest_net ctx0) = Some (r, net1)" "cl net1 = cl (rest_net ctx0)"
    using receive_ends [OF rv, of 0 ?b fd "rest_net ctx0"] b by auto
  show ?thesis
  proof (cases r)
    case None
    have "request_outcome cl invoke fd i ctx w (close_fd px fd (ctx0\<lparr>rest_net := net1\<rparr>)) w"
      using a r(2) kernel_close [OF k] by (auto simp: request_outcome_def close_fd_def busy_def nth_list_update zero_session_def)
    then show ?thesis using None r(1) free by (simp add: rest_process_http_request_def)
  next
    case (Some q)
    obtain n buf where q: "q = (n, buf)" by fastforce
    let ?ctx = "set_session i ((rest_sessions ctx0 ! i)\<lparr>sess_buffer := buf, sess_connectionFd := fd,
        sess_creationTime := now, sess_length := int n\<rparr>) (ctx0\<lparr>rest_net := net1\<rparr>)"
    have i: "i < length (rest_sessions ?ctx)" "sess_connectionFd (rest_sessions ?ctx ! i) = fd" using a by simp_all
    have bu: "busy ?ctx = busy ctx" using a by (auto simp: busy_def nth_list_update zero_session_def)
    have c: "cl (rest_net ?ctx) = cl (rest_net ctx)" using a r(2) by simp
    have "request_outcome cl invoke fd i ctx w ctx1 w1"
      if "rest_handle_request px cJSON_Parse t invoke fd i ?ctx w = Some (ctx1, w1)" for ctx1 w1
      using request_ends [OF k i that] a unfolding request_outcome_def bu c by simp
    then show ?thesis using Some q r(1) free by (auto simp: rest_process_http_request_def)
  qed
qed

end
