(* ===== verification/Bst_Answers.thy ===== *)
theory Bst_Answers
  imports Bst_Report_Json Bst_Rest_Laws Bst_Config_Laws
begin

text \<open>The answers to get-bst-feature and get-bst-tracking: JSON texts whose result is what the decoder of the
  command that sets them takes.\<close>

section \<open>Values\<close>

definition feature_result :: "config_params \<Rightarrow> json" where
  "feature_result c = cJSON_Object
     [(''bst-enable'', cJSON_Number (bstEnable c)), (''send-async-reports'', cJSON_Number (sendAsyncReports c)),
      (''collection-interval'', cJSON_Number (collectionInterval c)),
      (''stat-units-in-cells'', cJSON_Number (statUnitsInCells c)),
      (''trigger-rate-limit'', cJSON_Number (bstMaxTriggers c)),
      (''send-snapshot-on-trigger'', cJSON_Number (sendSnapshotOnTrigger c)),
      (''trigger-rate-limit-interval'', cJSON_Number (triggerTransmitInterval c)),
      (''async-full-reports'', cJSON_Number (if sendIncrementalReport c = 0 then 1 else 0)),
      (''stats-in-percentage'', cJSON_Number (statsInPercentage c))]"

definition tracking_result :: "track_params \<Rightarrow> json" where
  "tracking_result t = cJSON_Object
     [(''track-peak-stats'', cJSON_Number (trackPeakStats t)),
      (''track-ingress-port-priority-group'', cJSON_Number (trackIngressPortPriorityGroup t)),
      (''track-ingress-port-service-pool'', cJSON_Number (trackIngressPortServicePool t)),
      (''track-ingress-service-pool'', cJSON_Number (trackIngressServicePool t)),
      (''track-egress-port-service-pool'', cJSON_Number (trackEgressPortServicePool t)),
      (''track-egress-service-pool'', cJSON_Number (trackEgressServicePool t)),
      (''track-egress-uc-queue'', cJSON_Number (trackEgressUcQueue t)),
      (''track-egress-uc-queue-group'', cJSON_Number (trackEgressUcQueueGroup t)),
      (''track-egress-mc-queue'', cJSON_Number (trackEgressMcQueue t)),
      (''track-egress-cpu-queue'', cJSON_Number (trackEgressCpuQueue t)),
      (''track-egress-rqe-queue'', cJSON_Number (trackEgressRqeQueue t)),
      (''track-device'', cJSON_Number (trackDevice t))]"

definition answer_json :: "string \<Rightarrow> string \<Rightarrow> json \<Rightarrow> int \<Rightarrow> json" where
  "answer_json method asicIdStr result i = cJSON_Object
     [(''jsonrpc'', cJSON_String ''2.0''), (''method'', cJSON_String method), (''asic-id'', cJSON_String asicIdStr),
      (''version'', cJSON_String ''2''), (''result'', result), (''id'', cJSON_Number i)]"

section \<open>Texts\<close>

definition num_member :: "string \<Rightarrow> int \<Rightarrow> string" where
  "num_member k i = quoted k @ '': '' @ fmt_d i"

lemma num_member_denotes: "list_all plain k \<Longrightarrow> members_text (num_member k i) [(k, cJSON_Number i)]"
  using member [of "[]" "[]" k "'' '' @ fmt_d i"] spaced_before [of "'' ''" "fmt_d i"] number by (simp add: num_member_def)

definition flag_member :: "string \<Rightarrow> int \<Rightarrow> string" where
  "flag_member k i = quoted k @ '' : '' @ fmt_d i"

lemma flag_member_denotes:
  assumes "list_all plain k" "blanks b" "blanks c"
  shows "members_text (b @ flag_member k i @ c) [(k, cJSON_Number i)]"
  using member [OF assms(2) _ assms(1), of "'' ''" "'' '' @ fmt_d i @ c"] spaced [OF _ assms(3) number, of "'' ''"]
  by (simp add: flag_member_def)

definition answer_text :: "string \<Rightarrow> string \<Rightarrow> string \<Rightarrow> int \<Rightarrow> string" where
  "answer_text method asicIdStr members i = '' '' @ CHR ''{'' # comma_join
     [str_member ''jsonrpc'' ''2.0'', str_member ''method'' method, str_member ''asic-id'' asicIdStr,
      str_member ''version'' ''2'', quoted ''result'' @ '': {'' @ members @ ''}'', num_member ''id'' i] @ ''}''"

lemma answer_denotes:
  assumes "members_text members ms" "list_all plain method" "list_all plain asicIdStr"
  shows "denotes_json (answer_text method asicIdStr members i) (answer_json method asicIdStr (cJSON_Object ms) i)"
proof -
  have "members_text (quoted ''result'' @ [] @ CHR '':'' # '' '' @ CHR ''{'' # members @ ''}'') [(''result'', cJSON_Object ms)]"
    using member [of "[]" "[]" "''result''", OF _ _ _ spaced_before [OF _ object [OF assms(1)], of "'' ''"]]
    by (simp add: plain_def)
  then have "members_text (quoted ''result'' @ '': {'' @ members @ ''}'') [(''result'', cJSON_Object ms)]" by simp
  then have "list_all2 (\<lambda>s m. members_text s [m])
     [str_member ''jsonrpc'' ''2.0'', str_member ''method'' method, str_member ''asic-id'' asicIdStr,
      str_member ''version'' ''2'', quoted ''result'' @ '': {'' @ members @ ''}'', num_member ''id'' i]
     [(''jsonrpc'', cJSON_String ''2.0''), (''method'', cJSON_String method), (''asic-id'', cJSON_String asicIdStr),
      (''version'', cJSON_String ''2''), (''result'', cJSON_Object ms), (''id'', cJSON_Number i)]"
    using assms(2,3) by (simp add: str_member_denotes num_member_denotes plain_def)
  from spaced_before [OF _ object [OF members_join [OF this]], of "'' ''"]
  show ?thesis by (simp add: answer_text_def answer_json_def del: comma_join.simps)
qed

lemma feature_answer:
  "feature_text a c i = answer_text ''get-bst-feature'' a (comma_join
     [num_member ''bst-enable'' (bstEnable c), num_member ''send-async-reports'' (sendAsyncReports c),
      num_member ''collection-interval'' (collectionInterval c), num_member ''stat-units-in-cells'' (statUnitsInCells c),
      num_member ''trigger-rate-limit'' (bstMaxTriggers c), num_member ''send-snapshot-on-trigger'' (sendSnapshotOnTrigger c),
      num_member ''trigger-rate-limit-interval'' (triggerTransmitInterval c),
      num_member ''async-full-reports'' (if sendIncrementalReport c = 0 then 1 else 0),
      num_member ''stats-in-percentage'' (statsInPercentage c)]) i"
  by (simp add: feature_text_def answer_text_def str_member_def num_member_def quoted_def version_2 del: if_split)

lemma feature_denotes:
  assumes "list_all plain a"
  shows "denotes_json (feature_text a c i) (answer_json ''get-bst-feature'' a (feature_result c) i)"
  unfolding feature_answer feature_result_def
  by (rule answer_denotes [OF members_join]) (use assms in \<open>simp_all add: num_member_denotes plain_def\<close>)

lemma tracking_answer:
  "tracking_text a t i = answer_text ''get-bst-tracking'' a (comma_join
     [flag_member ''track-peak-stats'' (trackPeakStats t),
      '' '' @ flag_member ''track-ingress-port-priority-group'' (trackIngressPortPriorityGroup t),
      '' '' @ flag_member ''track-ingress-port-service-pool'' (trackIngressPortServicePool t),
      '' '' @ flag_member ''track-ingress-service-pool'' (trackIngressServicePool t),
      '' '' @ flag_member ''track-egress-port-service-pool'' (trackEgressPortServicePool t),
      '' '' @ flag_member ''track-egress-service-pool'' (trackEgressServicePool t),
      '' '' @ flag_member ''track-egress-uc-queue'' (trackEgressUcQueue t),
      '' '' @ flag_member ''track-egress-uc-queue-group'' (trackEgressUcQueueGroup t),
      '' '' @ flag_member ''track-egress-mc-queue'' (trackEgressMcQueue t),
      '' '' @ flag_member ''track-egress-cpu-queue'' (trackEgressCpuQueue t),
      '' '' @ flag_member ''track-egress-rqe-queue'' (trackEgressRqeQueue t),
      '' '' @ flag_member ''track-device'' (trackDevice t) @ '' '']) i"
  by (simp add: tracking_text_def answer_text_def str_member_def num_member_def flag_member_def quoted_def version_2)

lemma tracking_denotes:
  assumes "list_all plain a"
  shows "denotes_json (tracking_text a t i) (answer_json ''get-bst-tracking'' a (tracking_result t) i)"
proof -
  have f: "list_all plain k \<Longrightarrow> members_text (flag_member k n) [(k, cJSON_Number n)]"
    "list_all plain k \<Longrightarrow> members_text (CHR '' '' # flag_member k n) [(k, cJSON_Number n)]"
    "list_all plain k \<Longrightarrow> members_text (CHR '' '' # flag_member k n @ '' '') [(k, cJSON_Number n)]" for k n
    using flag_member_denotes [of k "[]" "[]"] flag_member_denotes [of k "'' ''" "[]"] flag_member_denotes [of k "'' ''" "'' ''"]
    by simp_all
  show ?thesis
    unfolding tracking_answer tracking_result_def
    by (rule answer_denotes [OF members_join])
      (use assms in \<open>simp_all add: f plain_def\<close>)
qed

section \<open>Decoding\<close>

definition config_in_range :: "config_params \<Rightarrow> bool" where
  "config_in_range c = (bstEnable c \<in> {0, 1} \<and> sendAsyncReports c \<in> {0, 1} \<and> 0 \<le> collectionInterval c \<and>
     collectionInterval c \<le> 600 \<and> statUnitsInCells c \<in> {0, 1} \<and> 1 \<le> bstMaxTriggers c \<and> bstMaxTriggers c \<le> 30 \<and>
     sendSnapshotOnTrigger c \<in> {0, 1} \<and> 1 \<le> triggerTransmitInterval c \<and> triggerTransmitInterval c \<le> 60 \<and>
     sendIncrementalReport c \<in> {0, 1} \<and> statsInPercentage c \<in> {0, 1})"

lemma object_item: "cJSON_GetObjectItem (cJSON_Object ((k, v) # ms)) n =
    (if cJSON_strcasecmp k n = 0 then Some v else cJSON_GetObjectItem (cJSON_Object ms) n)"
  by (simp add: cJSON_GetObjectItem_def)

lemma feature_items:
  "cJSON_GetObjectItem (feature_result c) ''bst-enable'' = Some (cJSON_Number (bstEnable c))"
  "cJSON_GetObjectItem (feature_result c) ''send-async-reports'' = Some (cJSON_Number (sendAsyncReports c))"
  "cJSON_GetObjectItem (feature_result c) ''collection-interval'' = Some (cJSON_Number (collectionInterval c))"
  "cJSON_GetObjectItem (feature_result c) ''stat-units-in-cells'' = Some (cJSON_Number (statUnitsInCells c))"
  "cJSON_GetObjectItem (feature_result c) ''trigger-rate-limit'' = Some (cJSON_Number (bstMaxTriggers c))"
  "cJSON_GetObjectItem (feature_result c) ''send-snapshot-on-trigger'' = Some (cJSON_Number (sendSnapshotOnTrigger c))"
  "cJSON_GetObjectItem (feature_result c) ''trigger-rate-limit-interval'' = Some (cJSON_Number (triggerTransmitInterval c))"
  "cJSON_GetObjectItem (feature_result c) ''async-full-reports'' =
     Some (cJSON_Number (if sendIncrementalReport c = 0 then 1 else 0))"
  "cJSON_GetObjectItem (feature_result c) ''stats-in-percentage'' = Some (cJSON_Number (statsInPercentage c))"
  unfolding feature_result_def object_item by (simp_all add: c_tolower_def del: if_split)

text \<open>The request a client gets by sending back what it has read.\<close>

definition feature_echo :: "config_params \<Rightarrow> config_params" where
  "feature_echo c = c\<lparr>sendIncrementalReport := (if sendIncrementalReport c = 0 then 1 else 0), configMask := 511\<rparr>"

lemma feature_decoded:
  assumes "config_in_range c"
  shows "decode_configure_bst_feature (feature_result c) = Inr (feature_echo c)"
proof -
  have "feature_request_valid (feature_result c)"
    using assms by (auto simp: feature_request_valid_def number_in_def maybe_in_def feature_items config_in_range_def)
  moreover have "feature_of (feature_result c) = feature_echo c"
    by (cases c) (simp add: feature_of_def feature_echo_def member_int_def feature_items member_bit_def has_member_def)
  ultimately show ?thesis by (simp add: decode_feature_Inr)
qed

lemma feature_echo_spec:
  assumes "config_in_range c"
  shows "feature_spec (feature_echo c) d = d\<lparr>collectionInterval := collectionInterval c,
     sendSnapshotOnTrigger := sendSnapshotOnTrigger c, bstMaxTriggers := bstMaxTriggers c,
     triggerTransmitInterval := triggerTransmitInterval c, sendIncrementalReport := sendIncrementalReport c,
     sendAsyncReports := sendAsyncReports c, statUnitsInCells := statUnitsInCells c, statsInPercentage := statsInPercentage c\<rparr>"
  using assms by (auto simp: feature_spec_def feature_echo_def cfg_has_def config_param_defs config_in_range_def)

lemma tracking_items:
  "cJSON_GetObjectItem (tracking_result t) ''track-peak-stats'' = Some (cJSON_Number (trackPeakStats t))"
  "cJSON_GetObjectItem (tracking_result t) ''track-ingress-port-priority-group'' = Some (cJSON_Number (trackIngressPortPriorityGroup t))"
  "cJSON_GetObjectItem (tracking_result t) ''track-ingress-port-service-pool'' = Some (cJSON_Number (trackIngressPortServicePool t))"
  "cJSON_GetObjectItem (tracking_result t) ''track-ingress-service-pool'' = Some (cJSON_Number (trackIngressServicePool t))"
  "cJSON_GetObjectItem (tracking_result t) ''track-egress-port-service-pool'' = Some (cJSON_Number (trackEgressPortServicePool t))"
  "cJSON_GetObjectItem (tracking_result t) ''track-egress-service-pool'' = Some (cJSON_Number (trackEgressServicePool t))"
  "cJSON_GetObjectItem (tracking_result t) ''track-egress-uc-queue'' = Some (cJSON_Number (trackEgressUcQueue t))"
  "cJSON_GetObjectItem (tracking_result t) ''track-egress-uc-queue-group'' = Some (cJSON_Number (trackEgressUcQueueGroup t))"
  "cJSON_GetObjectItem (tracking_result t) ''track-egress-mc-queue'' = Some (cJSON_Number (trackEgressMcQueue t))"
  "cJSON_GetObjectItem (tracking_result t) ''track-egress-cpu-queue'' = Some (cJSON_Number (trackEgressCpuQueue t))"
  "cJSON_GetObjectItem (tracking_result t) ''track-egress-rqe-queue'' = Some (cJSON_Number (trackEgressRqeQueue t))"
  "cJSON_GetObjectItem (tracking_result t) ''track-device'' = Some (cJSON_Number (trackDevice t))"
  unfolding tracking_result_def object_item by (simp_all add: c_tolower_def)

definition flags_in_range :: "track_params \<Rightarrow> bool" where
  "flags_in_range t = list_all (\<lambda>v. v \<in> {0, 1})
     [trackPeakStats t, trackIngressPortPriorityGroup t, trackIngressPortServicePool t, trackIngressServicePool t,
      trackEgressPortServicePool t, trackEgressServicePool t, trackEgressUcQueue t, trackEgressUcQueueGroup t,
      trackEgressMcQueue t, trackEgressCpuQueue t, trackEgressRqeQueue t, trackDevice t]"

lemma tracking_decoded:
  assumes "flags_in_range t"
  shows "decode_configure_bst_tracking (tracking_result t) = Inr (t\<lparr>trackMask := bst_realm_to_mask t\<rparr>)"
proof -
  have range: "number_in (tracking_result t) n 0 1"
    if "cJSON_GetObjectItem (tracking_result t) n = Some (cJSON_Number v)" "v \<in> {0, 1}" for n v
    using that by (auto simp: number_in_def)
  have "number_in (tracking_result t) (realm_member ''track'' r) 0 1" for r
    using assms by (cases r) (simp_all add: realm_member_def flags_in_range_def range [OF tracking_items(2)]
      range [OF tracking_items(3)] range [OF tracking_items(4)] range [OF tracking_items(5)] range [OF tracking_items(6)]
      range [OF tracking_items(7)] range [OF tracking_items(8)] range [OF tracking_items(9)] range [OF tracking_items(10)]
      range [OF tracking_items(11)] range [OF tracking_items(12)])
  moreover have "number_in (tracking_result t) ''track-peak-stats'' 0 1"
    using assms by (intro range [OF tracking_items(1)]) (simp add: flags_in_range_def)
  moreover have "track_of (tracking_result t) = t\<lparr>trackMask := bst_realm_to_mask t\<rparr>"
    by (cases t) (simp add: track_of_def member_int_def tracking_items zero_track_params_def Let_def bst_realm_to_mask_def)
  ultimately show ?thesis by (simp add: decode_tracking_Inr)
qed

section \<open>Lengths\<close>

lemma fmt_d_length: "0 \<le> i \<Longrightarrow> i < 10 ^ k \<Longrightarrow> 0 < k \<Longrightarrow> length (fmt_d i) \<le> k"
proof -
  assume i: "0 \<le> i" "i < 10 ^ k" "0 < k"
  then have "nat i < 10 ^ k" by (simp add: nat_less_iff)
  then show ?thesis using i decimal_length [of "nat i" k] by (simp add: fmt_d_def)
qed

lemma flag_length: "v = 0 \<or> v = 1 \<Longrightarrow> length (fmt_d v) \<le> 3"
  by (rule fmt_d_length) auto

lemma feature_text_length:
  assumes "config_in_range c" "length a \<le> 63" "0 \<le> i" "i \<le> 100000"
  shows "length (feature_text a c i) \<le> 1023"
proof -
  have d: "length (fmt_d (bstEnable c)) \<le> 3" "length (fmt_d (sendAsyncReports c)) \<le> 3"
    "length (fmt_d (collectionInterval c)) \<le> 3" "length (fmt_d (statUnitsInCells c)) \<le> 3"
    "length (fmt_d (bstMaxTriggers c)) \<le> 3" "length (fmt_d (sendSnapshotOnTrigger c)) \<le> 3"
    "length (fmt_d (triggerTransmitInterval c)) \<le> 3" "length (fmt_d (statsInPercentage c)) \<le> 3"
    using assms(1) by (simp_all add: config_in_range_def flag_length fmt_d_length)
  have "length (fmt_d (if sendIncrementalReport c = 0 then 1 else 0)) \<le> 3" "length (fmt_d i) \<le> 6" "length (fmt_d BVIEW_JSON_VERSION) = 1"
    using assms(3,4) by (auto intro!: fmt_d_length simp: version_2)
  with d assms(2) show ?thesis by (simp add: feature_text_def del: if_split)
qed

lemma tracking_text_length:
  assumes "flags_in_range t" "length a \<le> 63" "0 \<le> i" "i \<le> 100000"
  shows "length (tracking_text a t i) \<le> 1023"
proof -
  have f: "v \<in> {0, 1} \<Longrightarrow> length (fmt_d v) \<le> 1" for v :: int by (auto intro!: fmt_d_length)
  have "length (fmt_d i) \<le> 6" "length (fmt_d BVIEW_JSON_VERSION) = 1"
    using assms(3,4) by (auto intro!: fmt_d_length simp: version_2)
  then show ?thesis
    using assms(1,2) f [of "trackPeakStats t"] f [of "trackIngressPortPriorityGroup t"] f [of "trackIngressPortServicePool t"]
      f [of "trackIngressServicePool t"] f [of "trackEgressPortServicePool t"] f [of "trackEgressServicePool t"]
      f [of "trackEgressUcQueue t"] f [of "trackEgressUcQueueGroup t"] f [of "trackEgressMcQueue t"]
      f [of "trackEgressCpuQueue t"] f [of "trackEgressRqeQueue t"] f [of "trackDevice t"]
    unfolding flags_in_range_def list.pred_inject by (simp add: tracking_text_def)
qed

end
