(* ===== verification/Bst_Response.thy ===== *)
theory Bst_Response
  imports Bst_Answers Bst_Report_Fits Rest_Client
begin

text \<open>bst_send_response of apps/bst/bst_main.c: a reply of the application becomes an answer of the REST plugin,
  an error, a plain success, or a text of the encoders. The lock of the unit never fails.\<close>

section \<open>The state\<close>

text \<open>The pools of the encoders, the switch plugins and the REST plugin.\<close>

record ('hw, 'net) answer_state =
  ans_pool :: bst_memory_pool
  ans_hw :: 'hw
  ans_rest :: "'net rest_context"

text \<open>The structure the maximum buffers are read into is zeroed with its unit.\<close>

definition no_max_buffers :: max_buf_snapshot where
  "no_max_buffers = \<lparr>max_device = 0,
     max_iPortPg = replicate BVIEW_ASIC_MAX_PORTS (replicate BVIEW_ASIC_MAX_PRIORITY_GROUPS
       \<lparr>ippg_umShareMaxBuf = 0, ippg_umHeadroomMaxBuf = 0\<rparr>),
     max_iPortSp = replicate BVIEW_ASIC_MAX_PORTS (replicate BVIEW_ASIC_MAX_INGRESS_SERVICE_POOLS 0),
     max_iSp = replicate BVIEW_ASIC_MAX_INGRESS_SERVICE_POOLS 0,
     max_ePortSp = replicate BVIEW_ASIC_MAX_PORTS (replicate BVIEW_ASIC_MAX_SERVICE_POOLS
       \<lparr>epsp_ucShareMaxBuf = 0, epsp_umShareMaxBuf = 0, epsp_mcShareMaxBuf = 0\<rparr>),
     max_eSp = replicate BVIEW_ASIC_MAX_SERVICE_POOLS \<lparr>esp_umShareMaxBuf = 0, esp_mcShareMaxBuf = 0\<rparr>,
     max_eUcQ = replicate BVIEW_ASIC_MAX_UC_QUEUES 0, max_eUcQg = replicate BVIEW_ASIC_MAX_UC_QUEUE_GROUPS 0,
     max_eMcQ = replicate BVIEW_ASIC_MAX_MC_QUEUES 0, max_cpqQ = replicate BVIEW_ASIC_MAX_CPU_QUEUES 0,
     max_rqeQ = replicate BVIEW_ASIC_MAX_RQE_QUEUES 0\<rparr>"

definition unit_max_buffers :: "bst_unit \<Rightarrow> max_buf_snapshot" where
  "unit_max_buffers u = (case bst_max_buffers u of None \<Rightarrow> no_max_buffers | Some b \<Rightarrow> b)"

section \<open>Encoding\<close>

text \<open>The encoder that belongs to a message; other messages have none and leave success and no text. The
  capabilities and the maximum buffers are those of the unit the reply points into.\<close>

definition encode_reply ::
  "'hw plugin_entry list \<Rightarrow> (int \<Rightarrow> int) \<Rightarrow> int \<Rightarrow> bst_unit \<Rightarrow> response_msg \<Rightarrow> bst_memory_pool \<Rightarrow> 'hw \<Rightarrow> 'hw encoded" where
  "encode_reply ps utc_offset now u r pool hw =
     (if resp_msg_type r = BVIEW_BST_CMD_API_GET_TRACK then
        bstjson_encode_get_bst_tracking ps now (resp_unit r) (resp_id r) (resp_track r) pool hw
      else if resp_msg_type r = BVIEW_BST_CMD_API_GET_FEATURE then
        bstjson_encode_get_bst_feature ps now (resp_unit r) (resp_id r) (resp_config r) pool hw
      else if resp_msg_type r = BVIEW_BST_CMD_API_GET_REPORT \<or> resp_msg_type r = BVIEW_BST_CMD_API_TRIGGER_REPORT \<or>
              resp_msg_type r = BVIEW_BST_CMD_API_GET_THRESHOLD then
        (case resp_active r of None \<Rightarrow> None
         | Some active \<Rightarrow>
             bstjson_encode_get_bst_report ps utc_offset now (resp_unit r) (map_option rec_snapshot (resp_backup r))
               (rec_snapshot active) (resp_options r) (unit_max_buffers u) (unit_capabilities u) (rec_tv active) pool hw)
      else Some (BVIEW_STATUS_SUCCESS, None, pool, hw))"

definition set_command :: "bst_cmd \<Rightarrow> bool" where
  "set_command c = (c = BVIEW_BST_CMD_API_SET_TRACK \<or> c = BVIEW_BST_CMD_API_SET_FEATURE \<or>
     c = BVIEW_BST_CMD_API_SET_THRESHOLD \<or> c = BVIEW_BST_CMD_API_CLEAR_STATS \<or> c = BVIEW_BST_CMD_API_CLEAR_THRESHOLD)"

section \<open>Sending\<close>

text \<open>The outer None is a call that does not return, the inner one is undefined. The text of the buffer is the
  C string in it.\<close>

definition bst_send_response ::
  "'net posix \<Rightarrow> 'hw plugin_entry list \<Rightarrow> (int \<Rightarrow> int) \<Rightarrow> int \<Rightarrow> bst_unit \<Rightarrow> response_msg option \<Rightarrow>
   ('hw, 'net) answer_state \<Rightarrow> (BVIEW_STATUS \<times> ('hw, 'net) answer_state) option option" where
  "bst_send_response px ps utc_offset now u reply_data st =
     (case reply_data of None \<Rightarrow> Some (Some (BVIEW_STATUS_INVALID_PARAMETER, st))
      | Some r \<Rightarrow>
        if resp_rv r \<noteq> BVIEW_STATUS_SUCCESS then
          Some (Some (BVIEW_STATUS_SUCCESS,
            st\<lparr>ans_rest := snd (rest_response_send_error px (resp_cookie r) (resp_rv r) (resp_id r) (ans_rest st))\<rparr>))
        else if set_command (resp_msg_type r) then
          Some (Some (BVIEW_STATUS_SUCCESS, st\<lparr>ans_rest := snd (rest_response_send_ok px (resp_cookie r) (ans_rest st))\<rparr>))
        else (case encode_reply ps utc_offset now u r (ans_pool st) (ans_hw st) of
            None \<Rightarrow> Some None
          | Some (rv, buf, pool, hw) \<Rightarrow>
              (case buf of
                 None \<Rightarrow> Some (Some (rv, st\<lparr>ans_pool := pool, ans_hw := hw\<rparr>))
               | Some (p, text) \<Rightarrow>
                   if rv \<noteq> BVIEW_STATUS_SUCCESS
                   then Some (Some (rv, st\<lparr>ans_pool := snd (bstjson_memory_free p pool), ans_hw := hw\<rparr>))
                   else map_option (map_option (\<lambda>(rv1, ctx).
                          (rv1, st\<lparr>ans_pool := snd (bstjson_memory_free p pool), ans_hw := hw, ans_rest := ctx\<rparr>)))
                     (rest_response_send px (resp_cookie r) (Some text) (ans_rest st)))))"

end
