(* ===== verification/Answer_Laws.thy ===== *)
theory Answer_Laws
  imports Ovs_Names Rest_Connections Bst_Response Platform_Props
begin

text \<open>Reports of the OVSDB plugin on their way to a client: they are encoded, sent, and their buffer is given
  back.\<close>

section \<open>Counters\<close>

text \<open>What the encoders leave undefined is a division by a cell size of 0 and a percentage of 2 to the 64.\<close>

lemma counts_defined:
  assumes "\<And>v m. bst_json_convert_data (ri_options x) (ri_asic x) v m \<noteq> None"
  shows "report_ok name x"
proof -
  have c: "ri_count x v m \<noteq> Count None" for v m using assms by (simp add: ri_count_def)
  have q: "list_all row_ok (queue_rows r name x)" for r
    by (cases r) (simp_all add: list_all_iff row_ok_def c Let_def)
  have "list_all row_ok (port_rows r p x)" for r p
    by (cases r) (simp_all add: list_all_iff row_ok_def c Let_def)
  then show ?thesis using c q
    by (simp add: report_ok_def device_cell_def realm_ok_def list_all_iff ri_ports_def Let_def)
qed

definition ovsdb_reportable :: "ovsdb_env \<Rightarrow> int \<Rightarrow> report_input \<Rightarrow> bool" where
  "ovsdb_reportable env n x =
     (ri_asic x = scalingParams (ovsdb_asic env n) \<and> n \<le> 64 \<and> \<not> reportTrigger (ri_options x) \<and>
      (opt_statsInPercentage (ri_options x) \<longrightarrow> reportThreshold (ri_options x)) \<and> report_short fmt_d x)"

lemma ovsdb_report_ok: "ovsdb_reportable env n x \<Longrightarrow> report_ok name x"
  by (rule counts_defined) (auto simp: ovsdb_reportable_def bst_json_convert_data_def in_cells_def ovsdb_asic_def)

lemma ovsdb_unit_small: "ovsdb_reportable env n x \<Longrightarrow> unit_small (ri_asic x)"
  by (simp add: ovsdb_reportable_def unit_small_def ovsdb_asic_def)

section \<open>Encoding\<close>

definition time_known :: "(int \<Rightarrow> int) \<Rightarrow> int \<Rightarrow> bool" where
  "time_known off tv = (0 \<le> tv + off tv \<and> tv + off tv < 2592000000000)"

lemma head_plain_one: "\<not> reportTrigger o1 \<Longrightarrow> head_plain ''1'' (report_time_text off tv) o1"
  using time_plain [OF report_time_chars] by (simp add: head_plain_def plain_def)

lemma ovsdb_encodes:
  assumes x: "ovsdb_reportable env n x" and "time_known off tv"
    and alloc: "bstjson_memory_allocate now BSTJSON_MEMSIZE_REPORT pool = (BVIEW_STATUS_SUCCESS, Some p, pool1)"
  shows "\<exists>t. enc_args (bstjson_encode_get_bst_report (ovsdb_registered env n) off now 0) x tv pool hw
      = Some (BVIEW_STATUS_SUCCESS, Some (p, t), pool1, hw)
    \<and> denotes_json t (report_json fmt_d ''1'' (report_time_text off tv) x) \<and> length t < BSTJSON_MEMSIZE_REPORT"
proof -
  have nt: "\<not> reportTrigger (ri_options x)" "report_short fmt_d x" using x by (simp_all add: ovsdb_reportable_def)
  then obtain h where h: "head_text fmt_d ''1'' (report_time_text off tv) (ri_options x) = Some h" by (simp add: head_text_def)
  have fits: "length (open_text fmt_d h x) + 7 \<le> BSTJSON_MEMSIZE_REPORT"
    by (rule ovsdb_report_fits [OF nt(1) ovsdb_unit_small [OF x] nt(2) h]) (use assms(2) in \<open>simp_all add: time_known_def\<close>)
  have "enc_args (bstjson_encode_get_bst_report (ovsdb_registered env n) off now 0) x tv pool hw
      = Some (BVIEW_STATUS_SUCCESS, Some (p, report_text fmt_d h x), pool1, hw)"
    by (rule ovs.report_encoded [OF alloc h ovsdb_report_ok [OF x] fits])
  moreover have "denotes_json (report_text fmt_d h x) (report_json fmt_d ''1'' (report_time_text off tv) x)"
    by (rule report_denotes [OF numbers_plain head_plain_one [OF nt(1)] h]) (simp add: nt)
  moreover have "length (report_text fmt_d h x) < BSTJSON_MEMSIZE_REPORT"
  proof -
    have "length (report_text fmt_d h x) \<le> length (open_text fmt_d h x) + 5" by (simp add: report_text_def)
    then show ?thesis using fits by linarith
  qed
  ultimately show ?thesis by blast
qed

lemma ovsdb_response:
  assumes "bstjson_memory_allocate now BSTJSON_MEMSIZE_RESPONSE pool = (BVIEW_STATUS_SUCCESS, Some p, pool1)"
    and "length (text ''1'') \<le> 1023"
  shows "encode_response (ovsdb_registered env n) now 0 text pool hw = Some (BVIEW_STATUS_SUCCESS, Some (p, text ''1''), pool1, hw)"
proof -
  have "take (BSTJSON_MEMSIZE_RESPONSE - 1) (text ''1'') = text ''1''" using assms(2) by (simp add: BSTJSON_MEMSIZE_RESPONSE_def)
  then show ?thesis by (simp add: encode_response_def assms(1) ovsdb_translates)
qed

text \<open>A failing encoder hands out no buffer.\<close>

lemma failed_encoding:
  assumes "encode_reply ps off now u r pool hw = Some (rv, buf, pool1, hw1)" "rv \<noteq> BVIEW_STATUS_SUCCESS"
  shows "buf = None"
  using assms
  by (auto simp: encode_reply_def bstjson_encode_get_bst_report_def bstjson_encode_get_bst_feature_def
      bstjson_encode_get_bst_tracking_def encode_response_def split: option.splits prod.splits if_split_asm)

section \<open>Sending\<close>

definition reply_input :: "bst_unit \<Rightarrow> response_msg \<Rightarrow> report_snapshot \<Rightarrow> report_input" where
  "reply_input u r active = \<lparr>ri_previous = map_option rec_snapshot (resp_backup r), ri_current = rec_snapshot active,
     ri_options = resp_options r, ri_max = unit_max_buffers u, ri_asic = unit_capabilities u\<rparr>"

definition report_reply :: "response_msg \<Rightarrow> bool" where
  "report_reply r = (resp_rv r = BVIEW_STATUS_SUCCESS \<and> resp_unit r = 0 \<and>
     (resp_msg_type r = BVIEW_BST_CMD_API_GET_REPORT \<or> resp_msg_type r = BVIEW_BST_CMD_API_GET_THRESHOLD))"

lemma report_reply_encodes:
  assumes "report_reply r" "resp_active r = Some active"
  shows "encode_reply ps off now u r pool hw =
    enc_args (bstjson_encode_get_bst_report ps off now 0) (reply_input u r active) (rec_tv active) pool hw"
  using assms by (auto simp: report_reply_def encode_reply_def reply_input_def)

lemma report_reply_sends:
  assumes "report_reply r"
    and "encode_reply ps off now u r (ans_pool st) (ans_hw st) = Some (BVIEW_STATUS_SUCCESS, Some (p, t), pool1, hw)"
  shows "bst_send_response px ps off now u (Some r) st =
    map_option (map_option (\<lambda>(rv, ctx). (rv, st\<lparr>ans_pool := snd (bstjson_memory_free p pool1), ans_hw := hw, ans_rest := ctx\<rparr>)))
      (rest_response_send px (resp_cookie r) (Some t) (ans_rest st))"
  using assms by (auto simp: bst_send_response_def report_reply_def set_command_def)

lemma denotes_json_not_Nil: "denotes_json t v \<Longrightarrow> t \<noteq> []"
  by (induction rule: denotes_json_items_text_members_text.inducts(1)
      [where ?P2.0 = "\<lambda>_ _. True" and ?P3.0 = "\<lambda>_ _. True"])
    (simp_all add: quoted_def fmt_d_not_Nil)

end
