(* ===== verification/Bst_Percent.thy ===== *)
theory Bst_Percent
  imports Bst_Encode
begin

text \<open>The percentages of a report: two divisions of doubles away from an exact quotient, the encoder still
  rounds to the nearest integer.\<close>

lemma dbl_of_nonpos: "x \<le> 0 \<Longrightarrow> dbl x = 0"
  by (simp add: dbl_def)

lemma dbl_pos:
  assumes "0 < x"
  shows "0 < dbl x"
proof -
  have "x / 2 ^ 53 < x" using assms by simp
  then show ?thesis using dbl_error [OF assms] by linarith
qed

lemma quotient_error:
  fixes r :: rat
  assumes r: "0 < r"
  shows "\<bar>dbl (dbl r + 1 / 2) - (r + 1 / 2)\<bar> \<le> r * (2 / 2 ^ 53 + 1 / 2 ^ 106) + 1 / 2 ^ 54"
proof -
  have q: "\<bar>dbl r - r\<bar> \<le> r / 2 ^ 53" by (rule dbl_error [OF r])
  have "0 < dbl r + 1 / 2" using dbl_nonneg [of r] by simp
  from dbl_error [OF this]
  have s: "\<bar>dbl (dbl r + 1 / 2) - (dbl r + 1 / 2)\<bar> \<le> (dbl r + 1 / 2) / 2 ^ 53" .
  have "dbl r \<le> r + r / 2 ^ 53" using q by linarith
  then have "(dbl r + 1 / 2) / 2 ^ 53 \<le> (r + r / 2 ^ 53 + 1 / 2) / 2 ^ 53" by (intro divide_right_mono) simp_all
  also have "\<dots> = r / 2 ^ 53 + r / 2 ^ 106 + 1 / 2 ^ 54" by (simp add: field_simps)
  finally have s': "\<bar>dbl (dbl r + 1 / 2) - (dbl r + 1 / 2)\<bar> \<le> r / 2 ^ 53 + r / 2 ^ 106 + 1 / 2 ^ 54" using s by linarith
  have "\<bar>dbl (dbl r + 1 / 2) - (r + 1 / 2)\<bar> \<le> \<bar>dbl (dbl r + 1 / 2) - (dbl r + 1 / 2)\<bar> + \<bar>dbl r - r\<bar>" by linarith
  also have "\<dots> \<le> r * (2 / 2 ^ 53 + 1 / 2 ^ 106) + 1 / 2 ^ 54" using s' q by (simp add: distrib_left)
  finally show ?thesis .
qed

lemma quotient_error_small:
  fixes a m :: int
  assumes a: "0 < a" "a \<le> 100 * 2 ^ 44" and m: "0 < m" "m < 2 ^ 44"
  defines "r \<equiv> of_int a / of_int m :: rat"
  shows "\<bar>dbl (dbl r + 1 / 2) - (r + 1 / 2)\<bar> < 1 / (2 * of_int m)"
proof -
  have r: "0 < r" using a(1) m(1) by (simp add: r_def)
  have rm: "r * of_int m = of_int a" using m(1) by (simp add: r_def)
  let ?x = "r * (2 / 2 ^ 53 + 1 / 2 ^ 106) + 1 / 2 ^ 54 :: rat"
  have "?x * (2 * of_int m) = 2 * (r * of_int m) * (2 / 2 ^ 53 + 1 / 2 ^ 106) + of_int m / 2 ^ 53"
    by (simp add: algebra_simps)
  also have "\<dots> = 2 * of_int a * (2 / 2 ^ 53 + 1 / 2 ^ 106) + of_int m / 2 ^ 53" by (simp only: rm)
  also have "\<dots> < 1"
  proof -
    have "of_int a \<le> (of_int (100 * 2 ^ 44) :: rat)" "of_int m < (of_int (2 ^ 44) :: rat)"
      using a(2) m(2) by (simp_all only: of_int_le_iff of_int_less_iff)
    then show ?thesis by (simp add: field_simps)
  qed
  finally have "?x < 1 / (2 * of_int m)" using m(1) by (simp add: pos_less_divide_eq)
  then show ?thesis using quotient_error [OF r] by linarith
qed

lemma of_int_divide_mono: "p \<le> q \<Longrightarrow> 0 < c \<Longrightarrow> of_int p / of_int c \<le> (of_int q / of_int c :: rat)"
  by (intro divide_right_mono) simp_all

lemma of_int_divide_pos: "0 < p \<Longrightarrow> 0 < c \<Longrightarrow> 0 < (of_int p / of_int c :: rat)"
  by (intro divide_pos_pos) simp_all

lemma rounded_quotient:
  fixes a m :: int
  assumes a: "0 < a" "a \<le> 100 * 2 ^ 44" and m: "0 < m" "m < 2 ^ 44"
  shows "\<lfloor>dbl (dbl (of_int a / of_int m) + 1 / 2)\<rfloor> = (2 * a + m) div (2 * m)"
proof -
  let ?r = "of_int a / of_int m :: rat" and ?k = "(2 * a + m) div (2 * m)"
  let ?s = "dbl (dbl ?r + 1 / 2)" and ?d = "1 / (2 * of_int m) :: rat"
  have e: "\<bar>?s - (?r + 1 / 2)\<bar> < ?d" by (rule quotient_error_small [OF assms])
  have n: "?r + 1 / 2 = of_int (2 * a + m) / of_int (2 * m)" using m(1) by (simp add: field_simps)
  have d: "of_int k = (of_int (k * (2 * m)) / of_int (2 * m) :: rat)" for k using m(1) by simp
  define k R where "k = ?k" and "R = (2 * a + m) mod (2 * m)"
  have kR: "2 * a + m = k * (2 * m) + R" unfolding k_def R_def by (rule div_mult_mod_eq [symmetric])
  have R: "0 \<le> R" "R < 2 * m" using m(1) by (simp_all add: R_def)
  have k1: "(k + 1) * (2 * m) = k * (2 * m) + 2 * m" by (simp add: distrib_right)
  have "2 * a + m + 1 \<le> (k + 1) * (2 * m)" using kR R k1 by linarith
  then have "of_int (2 * a + m + 1) / of_int (2 * m) \<le> (of_int ((k + 1) * (2 * m)) / of_int (2 * m) :: rat)"
    by (rule of_int_divide_mono) (use m(1) in simp)
  moreover have "of_int (2 * a + m + 1) / of_int (2 * m) = of_int (2 * a + m) / of_int (2 * m) + ?d"
    by (simp only: of_int_add add_divide_distrib of_int_1 of_int_mult of_int_numeral)
  ultimately have up: "?s < of_int (k + 1)" using e unfolding n d [of "k + 1", symmetric] by linarith
  have low: "of_int k \<le> ?s"
  proof (cases "R = 0")
    case True
    then have "of_int k = (of_int (2 * a + m) / of_int (2 * m) :: rat)" unfolding d [of k] kR by simp
    then have r: "?r + 1 / 2 = of_int k" using n by simp
    then have r2: "?r = of_int (2 * k - 1) / 2" by (simp add: field_simps)
    have "0 < ?r" using a(1) m(1) by simp
    then have "(0 :: rat) < of_int (2 * k - 1)" unfolding r2 by simp
    then have k0: "0 < 2 * k - 1" by (simp only: of_int_0_less_iff)
    have "k * 2 \<le> k * (2 * m)" using k0 m(1) by (intro mult_left_mono) linarith+
    moreover have "a \<le> 1759218604441600" "m < 17592186044416" using a(2) m(2) by simp_all
    ultimately have "2 * k < 4503599627370496" using kR True by linarith
    then have kb: "2 * k < 2 ^ 52" by simp
    have "dbl ?r = ?r" unfolding r2 using k0 kb by (intro dbl_half) linarith+
    moreover have "dbl (of_int k) = of_int k" using k0 kb by (intro dbl_int) simp_all
    ultimately show ?thesis using r by simp
  next
    case False
    then have "k * (2 * m) + 1 \<le> 2 * a + m" using kR R by linarith
    then have "(of_int (k * (2 * m) + 1) / of_int (2 * m) :: rat) \<le> of_int (2 * a + m) / of_int (2 * m)"
      by (rule of_int_divide_mono) (use m(1) in simp)
    moreover have "(of_int (k * (2 * m) + 1) / of_int (2 * m) :: rat) = of_int (k * (2 * m)) / of_int (2 * m) + ?d"
      by (simp add: add_divide_distrib)
    moreover note d [of k]
    ultimately show ?thesis using e unfolding n by linarith
  qed
  show ?thesis using low up unfolding k_def by (intro floor_unique) simp_all
qed

lemma rounded_percentage:
  fixes v m :: u64
  assumes "v < 2 ^ 44" "0 < m" "m < 2 ^ 44"
  shows "round_int (dbl (dbl (of_int (uint (v * 100))) / dbl (of_int (uint m)))) = Some (of_int ((200 * uint v + uint m) div (2 * uint m)))"
proof -
  have v: "uint v < 2 ^ 44" and m: "0 < uint m" "uint m < 2 ^ 44"
    using assms by (simp_all add: word_less_def)
  have "uint v * 100 < 2 ^ 64" using v by simp
  then have a: "uint (v * 100) = uint v * 100" by (simp add: uint_word_ariths)
  have da: "dbl (of_int (uint v * 100)) = of_int (uint v * 100)" by (rule dbl_int) (use v in simp_all)
  have dm: "dbl (of_int (uint m)) = of_int (uint m)" by (rule dbl_int) (use m in simp_all)
  show ?thesis
  proof (cases "v = 0")
    case True
    then show ?thesis using m by (simp add: round_int_def dbl_of_nonpos)
  next
    case False
    then have v0: "0 < uint v" by (simp add: word_neq_0_conv flip: word_less_def) (metis uint_ge_0 less_le uint_0_iff)
    let ?r = "of_int (uint v * 100) / of_int (uint m) :: rat" and ?k = "(2 * (uint v * 100) + uint m) div (2 * uint m)"
    have f: "\<lfloor>dbl (dbl ?r + 1 / 2)\<rfloor> = ?k" by (rule rounded_quotient) (use v v0 m in linarith)+
    have r: "0 < ?r" by (rule of_int_divide_pos) (use v0 m(1) in simp_all)
    have pos: "0 < dbl ?r" by (rule dbl_pos [OF r])
    have "?k * 1 \<le> ?k * (2 * uint m)" using m(1) v0 by (intro mult_left_mono pos_imp_zdiv_nonneg_iff [THEN iffD2]) linarith+
    moreover have "?k * (2 * uint m) \<le> 2 * (uint v * 100) + uint m" using m(1)
      by (metis div_mult_mod_eq le_add_same_cancel1 mult_pos_pos pos_mod_sign zero_less_numeral)
    ultimately have "?k \<le> 2 * (uint v * 100) + uint m" by linarith
    moreover have "uint v < 17592186044416" "uint m < 17592186044416" using v m(2) by simp_all
    ultimately have "?k + 1 \<le> 18446744073709551616" by linarith
    then have "?k + 1 \<le> 2 ^ 64" by simp
    then have "\<lfloor>dbl (dbl ?r + 1 / 2)\<rfloor> < 2 ^ 64" unfolding f by linarith
    then have "dbl (dbl ?r + 1 / 2) < of_int (2 ^ 64)" by (simp only: floor_less_iff)
    then have "dbl (dbl ?r + 1 / 2) < 2 ^ 64" by simp
    then have "round_int (dbl ?r) = Some (of_int ?k)"
      using pos by (simp only: round_int_def Let_def if_True f simp_thms)
    moreover have "dbl (dbl (of_int (uint (v * 100))) / dbl (of_int (uint m))) = dbl ?r" by (simp only: a da dm)
    moreover have "2 * (uint v * 100) = 200 * uint v" by simp
    ultimately show ?thesis by (simp only:)
  qed
qed

end
