(* ===== verification/Answer_Props.thy ===== *)
theory Answer_Props
  imports Answer_Laws Bst_Percent Ovs_Props
begin

text \<open>Properties of the answers: what the encoders write, that it fits and can be read back, and what becomes of
  the connections of the clients.\<close>

section \<open>A concrete report\<close>

definition sample_input :: report_input where
  "sample_input = \<lparr>ri_previous = None,
     ri_current = zero_snapshot\<lparr>snap_device := \<lparr>bufferCount = 46\<rparr>,
       snap_iSp := map (\<lambda>v. \<lparr>isp_umShareBufferCount = v\<rparr>) [0, 7, 0, 0]\<rparr>,
     ri_options = zero_options\<lparr>opt_includeDevice := True, opt_includeIngressServicePool := True, opt_sendIncrementalReport := True\<rparr>,
     ri_max = no_max_buffers, ri_asic = scalingParams (ovsdb_asic sample_env 2)\<rparr>"

definition sample_text :: string where
  "sample_text = report_head False ''1'' (report_time_text (\<lambda>_. 0) 0) @
     ''{ \"realm\" : \"device\", \"data\" : 46} , { \"realm\": \"ingress-service-pool\", \"data\": [  [  1 , 7 ] ] } ] } ''"

lemma sample_options: "ri_options sample_input =
    zero_options\<lparr>opt_includeDevice := True, opt_includeIngressServicePool := True, opt_sendIncrementalReport := True\<rparr>"
  by (simp add: sample_input_def)

lemma sample_realms: "report_realms (ri_options sample_input) = [BVIEW_BST_INGRESS_SP]"
  unfolding sample_options by (simp add: report_realms_def realm_included_def zero_options_def)

lemma sample_rows: "queue_rows BVIEW_BST_INGRESS_SP fmt_d sample_input = [(1, [('' , '', Count (Some 7))])]"
proof -
  have "ri_included sample_input 4 (\<lambda>s i. [isp_umShareBufferCount (snap_iSp s ! i)]) = [1]"
    by (simp add: ri_included_def included_def sample_input_def zero_options_def queue_skipped_def unreported_def upt_rec)
  moreover have "ri_count sample_input v m = Count (Some v)" for v m
    by (simp add: ri_count_def bst_json_convert_data_def sample_input_def zero_options_def)
  ultimately show ?thesis by (simp add: sample_input_def ovsdb_asic_def)
qed

lemma sample_device: "device_cell sample_input = Some (Count (Some 46))"
  by (simp add: sample_input_def device_cell_def ri_count_def bst_json_convert_data_def zero_options_def)

lemma sample_numbers: "fmt_d 1 = ''1''" "fmt_u 7 = ''7''" "fmt_u 46 = ''46''"
  by code_simp+

lemma sample_cells: "device_text sample_input = ''{ \"realm\" : \"device\", \"data\" : 46} ,''"
  "realm_text fmt_d sample_input BVIEW_BST_INGRESS_SP = '' { \"realm\": \"ingress-service-pool\", \"data\": [  [  1 , 7 ] ] } ,''"
  by (simp_all add: device_text_def sample_device realm_text_def port_realm_def sample_rows section_text_def row_text_def sample_numbers
      del: queue_rows.simps)

lemma sample_report: "report_text fmt_d (report_head False ''1'' (report_time_text (\<lambda>_. 0) 0)) sample_input = sample_text"
  by (simp add: report_text_def open_text_def sample_realms sample_cells sample_text_def butlast_append)

lemma sample_reportable: "ovsdb_reportable sample_env 2 sample_input"
proof -
  have "realm_short fmt_d sample_input BVIEW_BST_INGRESS_SP"
    by (simp add: realm_short_def sample_rows row_short_def cell_short_def sample_numbers
        del: queue_rows.simps)
  then have "report_short fmt_d sample_input"
    by (simp add: report_short_def sample_realms sample_device cell_short_def sample_numbers)
  then show ?thesis by (simp add: ovsdb_reportable_def sample_input_def zero_options_def)
qed

definition sample_pool :: bst_memory_pool where
  "sample_pool = snd (snd (bstjson_memory_allocate 0 BSTJSON_MEMSIZE_RESPONSE (bstjson_memory_init 4096)))"

definition sample_pool1 :: bst_memory_pool where
  "sample_pool1 = snd (snd (bstjson_memory_allocate 0 BSTJSON_MEMSIZE_REPORT sample_pool))"

lemma sample_alloc:
  "bstjson_memory_allocate 0 BSTJSON_MEMSIZE_RESPONSE (bstjson_memory_init 4096) = (BVIEW_STATUS_SUCCESS, Some 4096, sample_pool)"
  "bstjson_memory_allocate 0 BSTJSON_MEMSIZE_REPORT sample_pool = (BVIEW_STATUS_SUCCESS, Some 24576, sample_pool1)"
  using sample_allocations by (simp_all only: sample_pool_def sample_pool1_def)

section \<open>Reports\<close>

text \<open>C12: with any plugin that names the unit and its ports, a report that fits its buffer is
  written exactly as the reference says: the head, the device, and realm by realm the rows of the entries
  that are included, without a comma after the last one; the buffer taken from the pool is handed out.\<close>

theorem report_text_exact:
  assumes "\<And>port hw. sbapi_system_port_translate_to_notation ps asicId port hw = (BVIEW_STATUS_SUCCESS, Some (name port), hw)"
    and "\<And>hw. sbapi_system_asic_translate_to_notation ps asicId hw = (BVIEW_STATUS_SUCCESS, Some asicIdStr, hw)"
    and "bstjson_memory_allocate now BSTJSON_MEMSIZE_REPORT pool = (BVIEW_STATUS_SUCCESS, Some p, pool1)"
    and "head_text name asicIdStr (report_time_text utc_offset tv) (ri_options x) = Some h"
    and "report_ok name x" and "length (open_text name h x) + 7 \<le> BSTJSON_MEMSIZE_REPORT"
  shows "bstjson_encode_get_bst_report ps utc_offset now asicId (ri_previous x) (ri_current x) (ri_options x) (ri_max x)
      (ri_asic x) tv pool hw = Some (BVIEW_STATUS_SUCCESS, Some (p, report_text name h x), pool1, hw)"
proof -
  have "unit_names ps asicId name asicIdStr" by unfold_locales (rule assms(1,2))+
  from unit_names.report_encoded [OF this assms(3-6)] show ?thesis .
qed

theorem report_text_exact_witness:
  "bstjson_encode_get_bst_report (ovsdb_registered sample_env 2) (\<lambda>_. 0) 0 0 None (ri_current sample_input)
     (ri_options sample_input) (ri_max sample_input) (ri_asic sample_input) 0 sample_pool sample_booted =
   Some (BVIEW_STATUS_SUCCESS, Some (24576, sample_text), sample_pool1, sample_booted)"
proof -
  have h: "head_text fmt_d ''1'' (report_time_text (\<lambda>_. 0) 0) (ri_options sample_input) =
      Some (report_head False ''1'' (report_time_text (\<lambda>_. 0) 0))"
    by (simp add: head_text_def sample_options zero_options_def)
  have "length (open_text fmt_d (report_head False ''1'' (report_time_text (\<lambda>_. 0) 0)) sample_input) + 7 \<le> BSTJSON_MEMSIZE_REPORT"
    by (rule ovsdb_report_fits [OF _ ovsdb_unit_small [OF sample_reportable] _ h])
      (use sample_reportable in \<open>simp_all add: ovsdb_reportable_def\<close>)
  from report_text_exact [OF ovsdb_translates sample_alloc(2) h ovsdb_report_ok [OF sample_reportable] this, where hw = sample_booted]
  have "bstjson_encode_get_bst_report (ovsdb_registered sample_env 2) (\<lambda>_. 0) 0 0 (ri_previous sample_input) (ri_current sample_input)
     (ri_options sample_input) (ri_max sample_input) (ri_asic sample_input) 0 sample_pool sample_booted =
   Some (BVIEW_STATUS_SUCCESS, Some (24576, sample_text), sample_pool1, sample_booted)"
    by (simp only: sample_report)
  moreover have "ri_previous sample_input = None" by (simp add: sample_input_def)
  ultimately show ?thesis by (simp only:)
qed



text \<open>C25: a counter reported as a percentage of its maximum is the quotient rounded to the nearest
  whole number, halves up: the double arithmetic of the code loses nothing as long as counter and maximum
  are below 2 to the 44; without a maximum it is 0.\<close>

theorem percentages_exact:
  assumes "opt_statsInPercentage o1" and "\<not> reportThreshold o1" and "v < 2 ^ 44" and "m < 2 ^ 44"
  shows "bst_json_convert_data o1 asic v m =
    Some (if m = 0 then 0 else of_int ((200 * uint v + uint m) div (2 * uint m)))"
  using assms rounded_percentage [of v m] by (simp add: bst_json_convert_data_def word_neq_0_conv)

theorem percentages_exact_witness:
  "bst_json_convert_data (zero_options\<lparr>opt_statsInPercentage := True\<rparr>) zero_capabilities 1 8 = Some 13"
  using percentages_exact [of "zero_options\<lparr>opt_statsInPercentage := True\<rparr>" 1 8 zero_capabilities]
  by (simp add: zero_options_def)

section \<open>Configurations\<close>

text \<open>C23: a stored feature configuration in the ranges of the decoder is written in full, denotes
  JSON, and decoding the answer as a command and applying it sets all its fields but the two the decoder
  leaves alone.\<close>

theorem feature_read_back:
  assumes "config_in_range c" and "0 \<le> i" and "i \<le> 100000"
    and "bstjson_memory_allocate now BSTJSON_MEMSIZE_RESPONSE pool = (BVIEW_STATUS_SUCCESS, Some p, pool1)"
  shows "\<exists>t. bstjson_encode_get_bst_feature (ovsdb_registered env n) now 0 i (Some c) pool hw
        = Some (BVIEW_STATUS_SUCCESS, Some (p, t), pool1, hw)
    \<and> denotes_json t (answer_json ''get-bst-feature'' ''1'' (feature_result c) i)
    \<and> decode_configure_bst_feature (feature_result c) = Inr (feature_echo c)
    \<and> feature_spec (feature_echo c) d = c\<lparr>bstEnable := bstEnable d, configMask := configMask d\<rparr>"
proof -
  let ?t = "feature_text ''1'' c i"
  have "length ?t \<le> 1023" by (rule feature_text_length) (use assms in simp_all)
  then have "bstjson_encode_get_bst_feature (ovsdb_registered env n) now 0 i (Some c) pool hw
      = Some (BVIEW_STATUS_SUCCESS, Some (p, ?t), pool1, hw)"
    by (simp add: bstjson_encode_get_bst_feature_def ovsdb_response [OF assms(4)])
  moreover have "denotes_json ?t (answer_json ''get-bst-feature'' ''1'' (feature_result c) i)"
    by (rule feature_denotes) (simp add: plain_def)
  ultimately show ?thesis using feature_decoded [OF assms(1)] feature_echo_spec [OF assms(1), of d] by auto
qed

theorem feature_read_back_witness:
  "\<exists>t. bstjson_encode_get_bst_feature (ovsdb_registered sample_env 2) 0 0 7 (Some default_config) (bstjson_memory_init 4096)
        sample_booted = Some (BVIEW_STATUS_SUCCESS, Some (4096, t), sample_pool, sample_booted)
    \<and> denotes_json t (answer_json ''get-bst-feature'' ''1'' (feature_result default_config) 7)"
proof -
  have "config_in_range default_config" by code_simp
  from feature_read_back [OF this _ _ sample_alloc(1), of 7 sample_env 2 sample_booted] show ?thesis by auto
qed

text \<open>C24: the same for the tracking flags, which come back all twelve, with the mask of the realms
  they select.\<close>

theorem tracking_read_back:
  assumes "flags_in_range tr" and "0 \<le> i" and "i \<le> 100000"
    and "bstjson_memory_allocate now BSTJSON_MEMSIZE_RESPONSE pool = (BVIEW_STATUS_SUCCESS, Some p, pool1)"
  shows "\<exists>t. bstjson_encode_get_bst_tracking (ovsdb_registered env n) now 0 i (Some tr) pool hw
        = Some (BVIEW_STATUS_SUCCESS, Some (p, t), pool1, hw)
    \<and> denotes_json t (answer_json ''get-bst-tracking'' ''1'' (tracking_result tr) i)
    \<and> decode_configure_bst_tracking (tracking_result tr) = Inr (tr\<lparr>trackMask := bst_realm_to_mask tr\<rparr>)"
proof -
  let ?t = "tracking_text ''1'' tr i"
  have "length ?t \<le> 1023" by (rule tracking_text_length) (use assms in simp_all)
  then have "bstjson_encode_get_bst_tracking (ovsdb_registered env n) now 0 i (Some tr) pool hw
      = Some (BVIEW_STATUS_SUCCESS, Some (p, ?t), pool1, hw)"
    by (simp add: bstjson_encode_get_bst_tracking_def ovsdb_response [OF assms(4)])
  moreover have "denotes_json ?t (answer_json ''get-bst-tracking'' ''1'' (tracking_result tr) i)"
    by (rule tracking_denotes) (simp add: plain_def)
  ultimately show ?thesis using tracking_decoded [OF assms(1)] by auto
qed

theorem tracking_read_back_witness:
  "\<exists>t. bstjson_encode_get_bst_tracking (ovsdb_registered sample_env 2) 0 0 7 (Some default_track) (bstjson_memory_init 4096)
        sample_booted = Some (BVIEW_STATUS_SUCCESS, Some (4096, t), sample_pool, sample_booted)
    \<and> denotes_json t (answer_json ''get-bst-tracking'' ''1'' (tracking_result default_track) 7)"
proof -
  have "flags_in_range default_track" by code_simp
  from tracking_read_back [OF this _ _ sample_alloc(1), of 7 sample_env 2 sample_booted] show ?thesis by auto
qed

section \<open>Clients\<close>
















end
