(* ===== verification/Sys_Utils.thy ===== *)
theory Sys_Utils
  imports Sb_Api Module_Mgr C_Text Timer_Client
begin

unbundle bit_operations_syntax

text \<open>The system utilities: the configuration of the agent in infrastructure/system/system.c, the registration
  and heartbeat of infrastructure/system/reg_hb, and the application of system_utils/system_utils_main.c
  that runs it. One thread takes requests from a queue; a kernel timer puts a heartbeat request there while
  the heartbeat is on. The locks never fail and are left out.\<close>

section \<open>The configuration of the agent\<close>

definition BVIEW_MAX_IP_ADDR_LENGTH :: nat where "BVIEW_MAX_IP_ADDR_LENGTH = 20"
definition SYSTEM_CONFIG_PROPERTY_LOCAL_PORT_DEFAULT :: int where "SYSTEM_CONFIG_PROPERTY_LOCAL_PORT_DEFAULT = 8080"

record agent_config =
  agent_clientIp :: string
  agent_clientPort :: int
  agent_localPort :: int

definition system_agent_config_set_defaults :: agent_config where
  "system_agent_config_set_defaults = \<lparr>agent_clientIp = ''127.0.0.1'', agent_clientPort = 9070,
     agent_localPort = SYSTEM_CONFIG_PROPERTY_LOCAL_PORT_DEFAULT\<rparr>"

definition system_agent_client_port_get :: "agent_config \<Rightarrow> int" where
  "system_agent_client_port_get cfg = agent_clientPort cfg"

definition system_agent_client_ipaddr_get :: "agent_config \<Rightarrow> string" where
  "system_agent_client_ipaddr_get cfg = take (BVIEW_MAX_IP_ADDR_LENGTH - 1) (agent_clientIp cfg)"

definition system_agent_port_get :: "agent_config \<Rightarrow> int" where
  "system_agent_port_get cfg = agent_localPort cfg"

definition system_agent_client_info_set :: "string \<Rightarrow> int \<Rightarrow> agent_config \<Rightarrow> agent_config" where
  "system_agent_client_info_set clientIp clientPort cfg =
     cfg\<lparr>agent_clientIp := take (BVIEW_MAX_IP_ADDR_LENGTH - 1) clientIp, agent_clientPort := clientPort\<rparr>"

definition system_agent_port_set :: "int \<Rightarrow> agent_config \<Rightarrow> agent_config" where
  "system_agent_port_set localPort cfg = cfg\<lparr>agent_localPort := localPort\<rparr>"

section \<open>Data\<close>

definition REG_HB_CONFIG_PARAMS_ENABLE :: nat where "REG_HB_CONFIG_PARAMS_ENABLE = 0"
definition REG_HB_CONFIG_PARAMS_INTRVL :: nat where "REG_HB_CONFIG_PARAMS_INTRVL = 1"
definition BVIEW_REG_HB_TIME_MIN :: int where "BVIEW_REG_HB_TIME_MIN = 1"
definition BVIEW_REG_HB_TIME_MAX :: int where "BVIEW_REG_HB_TIME_MAX = 600"
definition BVIEW_REG_HB_DEFAULT_HEARTBEAT_INTERVAL :: int where "BVIEW_REG_HB_DEFAULT_HEARTBEAT_INTERVAL = 5"
definition BVIEW_SYSTEM_TIME_CONVERSION_FACTOR :: int where "BVIEW_SYSTEM_TIME_CONVERSION_FACTOR = 1000"
definition BVIEW_NETWORK_OS_LEN_MAX :: int where "BVIEW_NETWORK_OS_LEN_MAX = 32"
definition BVIEW_UID_LEN_MAX :: int where "BVIEW_UID_LEN_MAX = 128"
definition BVIEW_VERSION_LEN_MAX :: nat where "BVIEW_VERSION_LEN_MAX = 32"

record hb_config =
  hb_enable :: int
  hb_interval :: int
  hb_configMask :: int

definition zero_hb_config :: hb_config where
  "zero_hb_config = \<lparr>hb_enable = 0, hb_interval = 0, hb_configMask = 0\<rparr>"

record hb_timer =
  hb_in_use :: bool
  hb_timer_id :: nat

record switch_asic_info =
  asic_notation :: string
  sw_asicType :: nat
  sw_numPorts :: int

record switch_properties =
  sp_timeStamp :: int
  sp_networkOs :: string
  sp_numAsics :: nat
  sp_featureMask :: int
  sp_asicInfo :: "switch_asic_info list"
  sp_uid :: string
  sp_agent_ipaddr :: string
  sp_agent_port :: int
  sp_agent_sw_version :: string

definition zero_switch_properties :: switch_properties where
  "zero_switch_properties = \<lparr>sp_timeStamp = 0, sp_networkOs = [], sp_numAsics = 0, sp_featureMask = 0,
     sp_asicInfo = replicate BVIEW_MAX_ASICS_ON_A_PLATFORM \<lparr>asic_notation = [], sw_asicType = 0, sw_numPorts = 0\<rparr>,
     sp_uid = [], sp_agent_ipaddr = [], sp_agent_port = 0, sp_agent_sw_version = []\<rparr>"

text \<open>The messages are only built with these commands.\<close>

datatype sys_cmd = SYS_CMD_SET_FEATURE | SYS_CMD_GET_FEATURE | SYS_CMD_GET_SWITCH_PROPERTIES

record sys_request =
  sreq_type :: sys_cmd
  sreq_unit :: int
  sreq_cookie :: "nat option"
  sreq_id :: int
  sreq_periodic :: bool
  sreq_config :: hb_config

definition zero_sys_request :: "sys_cmd \<Rightarrow> sys_request" where
  "zero_sys_request cmd = \<lparr>sreq_type = cmd, sreq_unit = 0, sreq_cookie = None, sreq_id = 0, sreq_periodic = False,
     sreq_config = zero_hb_config\<rparr>"

record sys_response =
  sresp_type :: sys_cmd
  sresp_unit :: int
  sresp_cookie :: "nat option"
  sresp_id :: int
  sresp_rv :: BVIEW_STATUS
  sresp_config :: "hb_config option"
  sresp_properties :: "switch_properties option"

text \<open>The state: system_utils_info with the configuration of the agent, the plugins, the kernel timers, the queue
  with its limit, and the responses sent. su_agent_ip is a variable of the thread: the bytes of an address.\<close>

record 'hw sys_world =
  su_config :: hb_config
  su_timer :: hb_timer
  su_properties :: switch_properties
  su_agent :: agent_config
  su_agent_ip :: string
  su_hw :: 'hw
  su_kernel :: kernel_timers
  su_msgq :: "sys_request list"
  su_limit :: nat
  su_sent :: "sys_response list"

section \<open>Requests\<close>

definition system_utils_send_request :: "sys_request \<Rightarrow> 'hw sys_world \<Rightarrow> BVIEW_STATUS \<times> 'hw sys_world" where
  "system_utils_send_request m w =
     (if length (su_msgq w) < su_limit w then (BVIEW_STATUS_SUCCESS, w\<lparr>su_msgq := su_msgq w @ [m]\<rparr>)
      else (BVIEW_STATUS_FAILURE, w))"

text \<open>The call-back of the heartbeat timer.\<close>

definition reg_hb_timer_expired :: "'hw sys_world \<Rightarrow> BVIEW_STATUS \<times> 'hw sys_world" where
  "reg_hb_timer_expired w =
     system_utils_send_request ((zero_sys_request SYS_CMD_GET_SWITCH_PROPERTIES)\<lparr>sreq_periodic := True\<rparr>) w"

section \<open>The heartbeat timer\<close>

definition reg_hb_heartbeat_timer_stop :: "'hw sys_world \<Rightarrow> BVIEW_STATUS \<times> 'hw sys_world" where
  "reg_hb_heartbeat_timer_stop w =
     (if hb_in_use (su_timer w) then
        (case system_timer_delete (hb_timer_id (su_timer w)) (su_kernel w) of (rv, k) \<Rightarrow>
           (rv, w\<lparr>su_kernel := k, su_timer := (su_timer w)\<lparr>hb_in_use := rv \<noteq> BVIEW_STATUS_SUCCESS\<rparr>\<rparr>))
      else (BVIEW_STATUS_SUCCESS, w))"

text \<open>A timer that runs is stopped first; a failure of that is only logged.\<close>

definition reg_hb_heartbeat_timer_start :: "'hw sys_world \<Rightarrow> BVIEW_STATUS \<times> 'hw sys_world" where
  "reg_hb_heartbeat_timer_start w =
     (let w1 = (if hb_in_use (su_timer w) then snd (reg_hb_heartbeat_timer_stop w) else w) in
      case system_timer_add reg_hb_timer_cb (hb_interval (su_config w1) * BVIEW_SYSTEM_TIME_CONVERSION_FACTOR) PERIODIC_MODE 0
          (su_kernel w1) of (rv, out, k) \<Rightarrow>
        (rv, w1\<lparr>su_kernel := k, su_timer := \<lparr>hb_in_use = (rv = BVIEW_STATUS_SUCCESS \<or> hb_in_use (su_timer w1)),
           hb_timer_id = (case out of None \<Rightarrow> hb_timer_id (su_timer w1) | Some i \<Rightarrow> i)\<rparr>\<rparr>))"

section \<open>Handlers\<close>

definition hb_given :: "nat \<Rightarrow> sys_request \<Rightarrow> bool" where
  "hb_given p m = bit (hb_configMask (sreq_config m)) p"

definition hb_updated :: "sys_request \<Rightarrow> hb_config \<Rightarrow> hb_config \<times> bool" where
  "hb_updated m c =
     (let r = sreq_config m;
          e = hb_given REG_HB_CONFIG_PARAMS_ENABLE m \<and> hb_enable c \<noteq> hb_enable r;
          c1 = (if e then c\<lparr>hb_enable := hb_enable r\<rparr> else c);
          i = hb_given REG_HB_CONFIG_PARAMS_INTRVL m \<and> hb_interval c1 \<noteq> hb_interval r;
          c2 = (if i then c1\<lparr>hb_interval := hb_interval r\<rparr> else c1)
      in (c2, e \<or> i \<and> hb_interval c2 \<noteq> 0))"

definition reg_hb_config_feature_set :: "sys_request \<Rightarrow> 'hw sys_world \<Rightarrow> BVIEW_STATUS \<times> 'hw sys_world" where
  "reg_hb_config_feature_set m w =
     (case hb_updated m (su_config w) of (c, modifyTimer) \<Rightarrow>
        let w1 = w\<lparr>su_config := c\<rparr>;
            w2 = (if hb_enable c = 0 \<or> hb_interval c = 0 then snd (reg_hb_heartbeat_timer_stop w1) else w1);
            w3 = (if modifyTimer \<and> hb_enable c = 1 \<and> hb_interval c \<noteq> 0 then snd (reg_hb_heartbeat_timer_start w2) else w2)
        in (BVIEW_STATUS_SUCCESS, w3))"

definition reg_hb_config_feature_get :: "sys_request \<Rightarrow> 'hw sys_world \<Rightarrow> BVIEW_STATUS \<times> 'hw sys_world" where
  "reg_hb_config_feature_get m w = (BVIEW_STATUS_SUCCESS, w)"

definition reg_hb_switch_properties_get ::
  "'hw plugin_entry list \<Rightarrow> sys_request \<Rightarrow> 'hw sys_world \<Rightarrow> BVIEW_STATUS \<times> 'hw sys_world" where
  "reg_hb_switch_properties_get ps m w =
     (case sbapi_system_time_get ps (su_hw w) of (rv, out, hw) \<Rightarrow>
        (BVIEW_STATUS_SUCCESS, w\<lparr>su_hw := hw,
           su_properties := (su_properties w)\<lparr>sp_timeStamp := (case out of None \<Rightarrow> 0 | Some t \<Rightarrow> t)\<rparr>\<rparr>))"

primrec system_utils_type_api_get ::
  "sys_cmd \<Rightarrow> 'hw plugin_entry list \<Rightarrow> sys_request \<Rightarrow> 'hw sys_world \<Rightarrow> BVIEW_STATUS \<times> 'hw sys_world" where
  "system_utils_type_api_get SYS_CMD_GET_FEATURE = (\<lambda>ps. reg_hb_config_feature_get)"
| "system_utils_type_api_get SYS_CMD_SET_FEATURE = (\<lambda>ps. reg_hb_config_feature_set)"
| "system_utils_type_api_get SYS_CMD_GET_SWITCH_PROPERTIES = reg_hb_switch_properties_get"

section \<open>Replies\<close>

definition reply_to :: "sys_request \<Rightarrow> BVIEW_STATUS \<Rightarrow> sys_response" where
  "reply_to m rv = \<lparr>sresp_type = sreq_type m, sresp_unit = sreq_unit m, sresp_cookie = sreq_cookie m, sresp_id = sreq_id m,
     sresp_rv = rv, sresp_config = None, sresp_properties = None\<rparr>"

definition system_utils_copy_reply_params :: "sys_request \<Rightarrow> BVIEW_STATUS \<Rightarrow> 'hw sys_world \<Rightarrow> 'hw sys_world" where
  "system_utils_copy_reply_params m rv w =
     w\<lparr>su_sent := su_sent w @ [(case sreq_type m of
        SYS_CMD_GET_FEATURE \<Rightarrow> (reply_to m rv)\<lparr>sresp_config := Some (su_config w)\<rparr>
      | SYS_CMD_GET_SWITCH_PROPERTIES \<Rightarrow> (reply_to m rv)\<lparr>sresp_properties := Some (su_properties w)\<rparr>
      | SYS_CMD_SET_FEATURE \<Rightarrow> reply_to m rv)]\<rparr>"

section \<open>The thread\<close>

text \<open>The address of the agent: what the plugin writes over the bytes there, then in dotted decimal.\<close>

definition get_ip_str :: "string \<Rightarrow> string" where
  "get_ip_str bytes = (case map (\<lambda>c. fmt_d (of_char c)) (take 4 bytes) of
     [a, b, c, d] \<Rightarrow> a @ ''.'' @ b @ ''.'' @ c @ ''.'' @ d | _ \<Rightarrow> [])"

definition read_agent_address :: "'hw plugin_entry list \<Rightarrow> 'hw sys_world \<Rightarrow> 'hw sys_world" where
  "read_agent_address ps w =
     (case sbapi_system_ip4_get ps 4 (su_hw w) of (rv, out, hw) \<Rightarrow>
      let bytes = (case out of None \<Rightarrow> su_agent_ip w | Some s \<Rightarrow> take 4 (s @ drop (length s) (su_agent_ip w))) in
      w\<lparr>su_hw := hw, su_agent_ip := bytes,
        su_properties := (su_properties w)\<lparr>sp_agent_ipaddr := get_ip_str bytes\<rparr>\<rparr>)"

definition read_agent_port :: "'hw sys_world \<Rightarrow> 'hw sys_world" where
  "read_agent_port w = w\<lparr>su_properties := (su_properties w)\<lparr>sp_agent_port := system_agent_port_get (su_agent w)\<rparr>\<rparr>"

text \<open>One request and its answer.\<close>

definition sys_handle :: "'hw plugin_entry list \<Rightarrow> nat \<Rightarrow> sys_request \<Rightarrow> 'hw sys_world \<Rightarrow> 'hw sys_world" where
  "sys_handle ps num_units m w =
     (if sreq_unit m < 0 \<or> int num_units \<le> sreq_unit m
      then w\<lparr>su_sent := su_sent w @ [reply_to m BVIEW_STATUS_INVALID_PARAMETER]\<rparr>
      else (case system_utils_type_api_get (sreq_type m) ps m (read_agent_address ps (read_agent_port w)) of
          (rv, w1) \<Rightarrow> system_utils_copy_reply_params m rv w1))"

definition sys_turn :: "'hw plugin_entry list \<Rightarrow> nat \<Rightarrow> 'hw sys_world \<Rightarrow> 'hw sys_world" where
  "sys_turn ps num_units w =
     (case su_msgq w of [] \<Rightarrow> w | m # ms \<Rightarrow> sys_handle ps num_units m (w\<lparr>su_msgq := ms\<rparr>))"

section \<open>Start-up\<close>

text \<open>The entry for one unit.\<close>

definition unit_info :: "'hw plugin_entry list \<Rightarrow> nat \<Rightarrow> 'hw \<Rightarrow> switch_asic_info option \<times> 'hw" where
  "unit_info ps i hw =
     (case sbapi_system_asic_translate_to_notation ps (int i) hw of (rv, out, hw1) \<Rightarrow>
        (if rv \<noteq> BVIEW_STATUS_SUCCESS then None
         else (case (sbapi_system_unit_to_asic_type_get ps (int i), sbapi_system_asic_num_ports_get ps (int i)) of
             (Inr t, Inr n) \<Rightarrow> Some \<lparr>asic_notation = (case out of None \<Rightarrow> [] | Some s \<Rightarrow> s), sw_asicType = t, sw_numPorts = n\<rparr>
           | _ \<Rightarrow> None), hw1))"

primrec unit_infos ::
  "'hw plugin_entry list \<Rightarrow> nat list \<Rightarrow> switch_asic_info list \<Rightarrow> 'hw \<Rightarrow> switch_asic_info list option \<times> 'hw" where
  "unit_infos ps [] infos hw = (Some infos, hw)"
| "unit_infos ps (i # is) infos hw =
     (case unit_info ps i hw of (None, hw1) \<Rightarrow> (None, hw1) | (Some x, hw1) \<Rightarrow> unit_infos ps is (infos[i := x]) hw1)"

text \<open>The handlers of the module are numbers in place of addresses.\<close>

definition system_utils_api_list :: "(string \<times> nat) list" where
  "system_utils_api_list = [(''configure-system-feature'', 100), (''get-system-feature'', 101), (''get-switch-properties'', 102)]"

definition system_utils_module_info :: module_feature_info where
  "system_utils_module_info = \<lparr>mod_featureId = BVIEW_FEATURE_SYSTEM, mod_featureName = [],
     restApiList = map (\<lambda>(s, h). \<lparr>apiString = Some s, handler = Some h\<rparr>) system_utils_api_list
       @ replicate (BVIEW_MAX_API_CMDS_PER_FEATURE - length system_utils_api_list) null_api\<rparr>"

definition system_utils_module_register :: "module_entry list \<Rightarrow> BVIEW_STATUS \<times> module_entry list" where
  "system_utils_module_register t = modulemgr_register system_utils_module_info t"

text \<open>The version is written by the build.\<close>

definition system_version_get :: "string \<Rightarrow> string" where
  "system_version_get release = (if BVIEW_VERSION_LEN_MAX < length release then [] else release)"

text \<open>What the thread does before its loop. None is more units than there are entries for them.\<close>

definition sys_app_start ::
  "'hw plugin_entry list \<Rightarrow> string \<Rightarrow> module_entry list \<Rightarrow> 'hw sys_world \<Rightarrow>
     (BVIEW_STATUS \<times> module_entry list \<times> 'hw sys_world) option" where
  "sys_app_start ps release t w =
     (case system_utils_module_register t of (rv, t1) \<Rightarrow>
      if rv \<noteq> BVIEW_STATUS_SUCCESS then Some (BVIEW_STATUS_FAILURE, t1, w)
      else (case (sbapi_system_num_units_get ps, sbapi_system_feature_mask_get ps) of
        (Inr n, Inr mask1) \<Rightarrow>
          (case sbapi_system_network_os_get ps BVIEW_NETWORK_OS_LEN_MAX (su_hw w) of (rv1, os, hw1) \<Rightarrow>
           if rv1 \<noteq> BVIEW_STATUS_SUCCESS then Some (BVIEW_STATUS_FAILURE, t1, w\<lparr>su_hw := hw1\<rparr>)
           else if length (sp_asicInfo (su_properties w)) < n then None
           else (case unit_infos ps [0..<n] (sp_asicInfo (su_properties w)) hw1 of
               (None, hw2) \<Rightarrow> Some (BVIEW_STATUS_FAILURE, t1, w\<lparr>su_hw := hw2\<rparr>)
             | (Some infos, hw2) \<Rightarrow>
                 (case sbapi_system_uid_get ps BVIEW_UID_LEN_MAX hw2 of (rv2, uid, hw3) \<Rightarrow>
                  let p = (su_properties w)\<lparr>sp_numAsics := n, sp_featureMask := mask1, sp_asicInfo := infos,
                        sp_networkOs := (case os of None \<Rightarrow> sp_networkOs (su_properties w) | Some s \<Rightarrow> s),
                        sp_uid := (case uid of None \<Rightarrow> sp_uid (su_properties w) | Some s \<Rightarrow> s)\<rparr>;
                      w1 = read_agent_port (read_agent_address ps (w\<lparr>su_hw := hw3, su_properties := p\<rparr>));
                      w2 = w1\<lparr>su_properties := (su_properties w1)\<lparr>sp_agent_sw_version := system_version_get release\<rparr>\<rparr>;
                      w3 = (if hb_enable (su_config w2) = 1 \<and> hb_interval (su_config w2) \<noteq> 0
                            then snd (reg_hb_heartbeat_timer_start w2) else w2)
                  in Some (BVIEW_STATUS_SUCCESS, t1, w3))))
      | _ \<Rightarrow> Some (BVIEW_STATUS_FAILURE, t1, w)))"

text \<open>What the operating system grants. A queue that cannot be made or made anew fails the start; one that could not
  be removed still holds its messages. Another error of the first msgget is overlooked, and no message can be
  sent then.\<close>

datatype queue_grant = Queue_made nat "sys_request list" | Queue_refused | Queue_overlooked

definition system_utils_main ::
  "'hw plugin_entry list \<Rightarrow> bool \<Rightarrow> bool \<Rightarrow> queue_grant \<Rightarrow> bool \<Rightarrow> 'hw sys_world \<Rightarrow> BVIEW_STATUS \<times> 'hw sys_world" where
  "system_utils_main ps properties_ok data_ok queue thread_made w =
     (case sbapi_system_num_units_get ps of
        Inl e \<Rightarrow> (BVIEW_STATUS_RESOURCE_NOT_AVAILABLE, w)
      | Inr n \<Rightarrow>
          if \<not> properties_ok then (BVIEW_STATUS_RESOURCE_NOT_AVAILABLE, w)
          else (let w1 = w\<lparr>su_properties := zero_switch_properties\<rparr> in
            if \<not> data_ok then (BVIEW_STATUS_RESOURCE_NOT_AVAILABLE, w1)
            else (let w2 = w1\<lparr>su_timer := \<lparr>hb_in_use = False, hb_timer_id = 0\<rparr>, su_config :=
                    zero_hb_config\<lparr>hb_enable := 1, hb_interval := BVIEW_REG_HB_DEFAULT_HEARTBEAT_INTERVAL\<rparr>\<rparr> in
              (case queue of
                 Queue_refused \<Rightarrow> (BVIEW_STATUS_FAILURE, w2)
               | Queue_made limit left \<Rightarrow> (if thread_made then BVIEW_STATUS_SUCCESS else BVIEW_STATUS_FAILURE,
                   w2\<lparr>su_msgq := left, su_limit := limit\<rparr>)
               | Queue_overlooked \<Rightarrow> (if thread_made then BVIEW_STATUS_SUCCESS else BVIEW_STATUS_FAILURE,
                   w2\<lparr>su_msgq := [], su_limit := 0\<rparr>)))))"

end
