(* ===== verification/Sys_Json.thy ===== *)
theory Sys_Json
  imports Sys_Utils Bst_Decode Rest_Client C_Time Json_Memory
begin

unbundle bit_operations_syntax

text \<open>The commands of the system utilities as text and their answers: the decoders of
  infrastructure/system/reg_hb/api with the functions of reg_hb_nb_api.c they call, the encoders of
  reg_hb/api/reg_hb_json_encoder.c, and system_utils_send_response.\<close>

section \<open>Commands\<close>

text \<open>The checks all three share. The unit is not among them.\<close>

definition sys_envelope ::
  "(string \<Rightarrow> json option) \<Rightarrow> string \<Rightarrow> nat option \<Rightarrow> string option \<Rightarrow> int \<Rightarrow> (json \<times> json) result" where
  "sys_envelope cJSON_Parse name cookie jsonBuffer bufLength =
     res_bind (JSON_VALIDATE_POINTER cookie BVIEW_STATUS_INVALID_PARAMETER) (\<lambda>_.
     res_bind (JSON_VALIDATE_POINTER jsonBuffer BVIEW_STATUS_INVALID_PARAMETER) (\<lambda>buf.
     res_bind (check (0 \<le> bufLength \<and> bufLength \<le> int (length buf)) BVIEW_STATUS_INVALID_PARAMETER) (\<lambda>_.
     res_bind (JSON_VALIDATE_POINTER (cJSON_Parse buf) BVIEW_STATUS_INVALID_JSON) (\<lambda>root.
     res_bind (JSON_VALIDATE_POINTER (cJSON_GetObjectItem root ''params'') BVIEW_STATUS_INVALID_JSON) (\<lambda>params.
     res_bind (node_string root ''jsonrpc'') (\<lambda>jsonrpc.
     res_bind (JSON_COMPARE_STRINGS_AND_CLEANUP jsonrpc ''2.0'') (\<lambda>_.
     res_bind (node_string root ''method'') (\<lambda>method.
     res_bind (JSON_COMPARE_STRINGS_AND_CLEANUP method name) (\<lambda>_.
     Inr (root, params))))))))))"

definition request_id :: "json \<Rightarrow> int result" where
  "request_id root = range_member root ''id'' 1 100000"

definition hb_set :: "nat \<Rightarrow> (int \<Rightarrow> hb_config \<Rightarrow> hb_config) \<Rightarrow> int \<Rightarrow> hb_config \<Rightarrow> hb_config" where
  "hb_set p upd v c = (upd v c)\<lparr>hb_configMask := hb_configMask c OR push_bit p 1\<rparr>"

definition decode_configure_reg_hb :: "json \<Rightarrow> hb_config result" where
  "decode_configure_reg_hb params = res_chain
     [required params ''heartbeat-enable'' 0 1 (hb_set REG_HB_CONFIG_PARAMS_ENABLE (\<lambda>v. hb_enable_update (\<lambda>_. v))),
      required params ''msg-interval'' BVIEW_REG_HB_TIME_MIN BVIEW_REG_HB_TIME_MAX
        (hb_set REG_HB_CONFIG_PARAMS_INTRVL (\<lambda>v. hb_interval_update (\<lambda>_. v)))]
     zero_hb_config"

definition reg_hb_json_configure_feature_impl ::
  "nat option \<Rightarrow> int \<Rightarrow> hb_config \<Rightarrow> 'hw sys_world \<Rightarrow> BVIEW_STATUS \<times> 'hw sys_world" where
  "reg_hb_json_configure_feature_impl cookie i pCommand w =
     system_utils_send_request ((zero_sys_request SYS_CMD_SET_FEATURE)
       \<lparr>sreq_cookie := cookie, sreq_id := i, sreq_config := pCommand\<rparr>) w"

definition reg_hb_json_get_feature_impl :: "nat option \<Rightarrow> int \<Rightarrow> 'hw sys_world \<Rightarrow> BVIEW_STATUS \<times> 'hw sys_world" where
  "reg_hb_json_get_feature_impl cookie i w =
     system_utils_send_request ((zero_sys_request SYS_CMD_GET_FEATURE)\<lparr>sreq_cookie := cookie, sreq_id := i\<rparr>) w"

definition reg_hb_json_get_switch_properties_impl :: "nat option \<Rightarrow> int \<Rightarrow> 'hw sys_world \<Rightarrow> BVIEW_STATUS \<times> 'hw sys_world" where
  "reg_hb_json_get_switch_properties_impl cookie i w =
     system_utils_send_request ((zero_sys_request SYS_CMD_GET_SWITCH_PROPERTIES)\<lparr>sreq_cookie := cookie, sreq_id := i\<rparr>) w"

definition reg_hb_json_configure_feature ::
  "(string \<Rightarrow> json option) \<Rightarrow> nat option \<Rightarrow> string option \<Rightarrow> int \<Rightarrow> 'hw sys_world \<Rightarrow> BVIEW_STATUS \<times> 'hw sys_world" where
  "reg_hb_json_configure_feature cJSON_Parse cookie jsonBuffer bufLength w =
     (case res_bind (sys_envelope cJSON_Parse ''configure-system-feature'' cookie jsonBuffer bufLength) (\<lambda>(root, params).
        res_bind (request_id root) (\<lambda>i. res_bind (decode_configure_reg_hb params) (\<lambda>c. Inr (i, c)))) of
        Inl e \<Rightarrow> (e, w)
      | Inr (i, c) \<Rightarrow> reg_hb_json_configure_feature_impl cookie i c w)"

definition reg_hb_json_get_feature ::
  "(string \<Rightarrow> json option) \<Rightarrow> nat option \<Rightarrow> string option \<Rightarrow> int \<Rightarrow> 'hw sys_world \<Rightarrow> BVIEW_STATUS \<times> 'hw sys_world" where
  "reg_hb_json_get_feature cJSON_Parse cookie jsonBuffer bufLength w =
     (case res_bind (sys_envelope cJSON_Parse ''get-system-feature'' cookie jsonBuffer bufLength) (\<lambda>(root, params). request_id root) of
        Inl e \<Rightarrow> (e, w)
      | Inr i \<Rightarrow> reg_hb_json_get_feature_impl cookie i w)"

text \<open>A unit may be named and must then be one; which one makes no difference.\<close>

definition named_unit_ok :: "'hw plugin_entry list \<Rightarrow> json \<Rightarrow> 'hw \<Rightarrow> unit result \<times> 'hw" where
  "named_unit_ok ps root hw =
     (case cJSON_GetObjectItem root ''asic-id'' of
        None \<Rightarrow> (Inr (), hw)
      | Some v \<Rightarrow> (case JSON_VALIDATE_JSON_AS_STRING v BVIEW_STATUS_INVALID_JSON of
            Inl e \<Rightarrow> (Inl e, hw)
          | Inr s \<Rightarrow> (case JSON_ASIC_ID_MAP_FROM_NOTATION ps s hw of
              (Inl e, hw1) \<Rightarrow> (Inl e, hw1)
            | (Inr asicId, hw1) \<Rightarrow> (check (0 \<le> asicId) BVIEW_STATUS_INVALID_PARAMETER, hw1))))"

definition reg_hb_json_get_switch_properties ::
  "(string \<Rightarrow> json option) \<Rightarrow> 'hw plugin_entry list \<Rightarrow> nat option \<Rightarrow> string option \<Rightarrow> int \<Rightarrow> 'hw sys_world
     \<Rightarrow> BVIEW_STATUS \<times> 'hw sys_world" where
  "reg_hb_json_get_switch_properties cJSON_Parse ps cookie jsonBuffer bufLength w =
     (case sys_envelope cJSON_Parse ''get-switch-properties'' cookie jsonBuffer bufLength of
        Inl e \<Rightarrow> (e, w)
      | Inr (root, params) \<Rightarrow>
          (case named_unit_ok ps root (su_hw w) of (r, hw) \<Rightarrow>
             (case res_bind r (\<lambda>_. request_id root) of
                Inl e \<Rightarrow> (e, w\<lparr>su_hw := hw\<rparr>)
              | Inr i \<Rightarrow> reg_hb_json_get_switch_properties_impl cookie i (w\<lparr>su_hw := hw\<rparr>))))"

text \<open>The decoder of the same command in apps/bst/api, which the BST application does not register. It asks for the
  unit and hands it to a function that is not in the sources.\<close>

definition bstjson_get_switch_properties ::
  "(string \<Rightarrow> json option) \<Rightarrow> 'hw plugin_entry list \<Rightarrow> (nat option \<Rightarrow> int \<Rightarrow> int \<Rightarrow> 'hw \<Rightarrow> BVIEW_STATUS \<times> 'hw)
     \<Rightarrow> nat option \<Rightarrow> string option \<Rightarrow> int \<Rightarrow> 'hw \<Rightarrow> BVIEW_STATUS \<times> 'hw" where
  "bstjson_get_switch_properties cJSON_Parse ps impl cookie jsonBuffer bufLength hw =
     (case bst_envelope cJSON_Parse ps ''get-switch-properties'' cookie jsonBuffer bufLength hw of
        (Inl e, hw1) \<Rightarrow> (e, hw1)
      | (Inr (params, asicId, i), hw1) \<Rightarrow> impl cookie asicId i hw1)"

section \<open>Answers\<close>

text \<open>The texts continue over the lines of the source, with the blanks those lines start with.\<close>

definition hb_feature_text :: "hb_config \<Rightarrow> int \<Rightarrow> string" where
  "hb_feature_text c i =
     '' {'' @ pad 33 @ ''\"jsonrpc\": \"2.0\",'' @ pad 33 @ ''\"method\": \"get-system-feature\",'' @ pad 33 @
     ''\"version\": \"2\",'' @ pad 33 @ ''\"result\": {'' @ pad 33 @ ''\"heartbeat-enable\": '' @ fmt_d (hb_enable c) @ '','' @ pad 33 @
     ''\"msg-interval\": '' @ fmt_d (hb_interval c) @ ''},  \"id\": '' @ fmt_d i @ ''  }''"

definition asic_info_text :: "switch_asic_info \<Rightarrow> string" where
  "asic_info_text a = ''[\"'' @ asic_notation a @ ''\", \"'' @
     (if sw_asicType a = BVIEW_ASIC_TYPE_TD2 then ''BCM56850'' else ''BCM56960'') @ ''\", '' @ fmt_d (sw_numPorts a) @ ''],''"

text \<open>The units are written one after the other into 64 characters; every snprintf is told it has all 64, so
  only a text that fits them is defined. The last comma is cut.\<close>

definition asic_infos_text :: "switch_asic_info list \<Rightarrow> string option" where
  "asic_infos_text as =
     (let s = concat (map asic_info_text as) in
      if s = [] \<or> JSON_MAX_NODE_LENGTH \<le> length s then None else Some (butlast s))"

definition features_text :: "int \<Rightarrow> string" where
  "features_text fmask = (if fmask AND int BVIEW_FEATURE_BST \<noteq> 0 then ''\"BST\"'' else []) @
     (if fmask AND int BVIEW_FEATURE_PACKET_TRACE \<noteq> 0 then '',\"PT\"'' else [])"

text \<open>Strings that fill their array have no terminator, and printing them is undefined.\<close>

definition terminated :: "switch_properties \<Rightarrow> bool" where
  "terminated p = (int (length (sp_networkOs p)) < BVIEW_NETWORK_OS_LEN_MAX \<and> int (length (sp_uid p)) < BVIEW_UID_LEN_MAX \<and>
     length (sp_agent_sw_version p) < BVIEW_VERSION_LEN_MAX)"

definition properties_text :: "(int \<Rightarrow> int) \<Rightarrow> switch_properties \<Rightarrow> int \<Rightarrow> string option" where
  "properties_text utc_offset p i =
     (if \<not> terminated p then None else map_option (\<lambda>asics.
       ''{'' @ pad 33 @ ''\"jsonrpc\": \"2.0\",'' @ pad 33 @ ''\"method\": \"get-switch-properties\",'' @ pad 33 @
       ''\"version\": \"2\",'' @ pad 33 @ ''\"time-stamp\": \"'' @ report_time_text utc_offset (sp_timeStamp p) @ ''\",'' @ pad 33 @
       ''\"result\": {\"number-of-asics\": '' @ fmt_d (int (sp_numAsics p)) @ '','' @ pad 33 @
       ''\"asic-info\":['' @ asics @ ''],'' @ pad 33 @ ''\"supported-features\":['' @ features_text (sp_featureMask p) @ ''],'' @ pad 33 @
       ''\"network-os\":\"'' @ sp_networkOs p @ ''\",'' @ pad 33 @ ''\"uid\":\"'' @ sp_uid p @ ''\",'' @ pad 33 @
       ''\"agent-ip\":\"'' @ sp_agent_ipaddr p @ ''\",'' @ pad 33 @ ''\"agent-port\":\"'' @ fmt_d (sp_agent_port p) @ ''\",'' @ pad 33 @
       ''\"agent-sw-version\":\"'' @ sp_agent_sw_version p @ ''\"}'' @
       (if i = 0 then [] else '','' @ pad 33 @ ''\"id\":'' @ fmt_d i @ '' '') @ ''}'')
     (asic_infos_text (take (sp_numAsics p) (sp_asicInfo p))))"

type_synonym sys_encoded = "BVIEW_STATUS \<times> (nat \<times> string) option \<times> sys_memory_pool"

definition sys_encode :: "int \<Rightarrow> string option \<Rightarrow> sys_memory_pool \<Rightarrow> sys_encoded option" where
  "sys_encode now text pool =
     (case system_utils_json_memory_allocate now BSTJSON_MEMSIZE_RESPONSE pool of (rv, buf, pool1) \<Rightarrow>
      if rv \<noteq> BVIEW_STATUS_SUCCESS then Some (BVIEW_STATUS_INVALID_PARAMETER, None, pool1)
      else map_option (\<lambda>s. (BVIEW_STATUS_SUCCESS, map_option (\<lambda>p. (p, take (BSTJSON_MEMSIZE_RESPONSE - 1) s)) buf, pool1)) text)"

definition reg_hb_json_encode_get_feature :: "int \<Rightarrow> int \<Rightarrow> hb_config option \<Rightarrow> sys_memory_pool \<Rightarrow> sys_encoded option" where
  "reg_hb_json_encode_get_feature now i pData pool =
     (case pData of None \<Rightarrow> Some (BVIEW_STATUS_INVALID_PARAMETER, None, pool)
      | Some c \<Rightarrow> sys_encode now (Some (hb_feature_text c i)) pool)"

definition reg_hb_json_encode_get_switch_properties ::
  "(int \<Rightarrow> int) \<Rightarrow> int \<Rightarrow> int \<Rightarrow> switch_properties option \<Rightarrow> sys_memory_pool \<Rightarrow> sys_encoded option" where
  "reg_hb_json_encode_get_switch_properties utc_offset now i pData pool =
     (case pData of None \<Rightarrow> Some (BVIEW_STATUS_INVALID_PARAMETER, None, pool)
      | Some p \<Rightarrow> sys_encode now (properties_text utc_offset p i) pool)"

record 'net sys_answers =
  sa_pool :: sys_memory_pool
  sa_rest :: "'net rest_context"

text \<open>The outer None is a call that does not return, the inner one is undefined.\<close>

definition system_utils_send_response ::
  "'net posix \<Rightarrow> (int \<Rightarrow> int) \<Rightarrow> int \<Rightarrow> sys_response \<Rightarrow> 'net sys_answers \<Rightarrow> (BVIEW_STATUS \<times> 'net sys_answers) option option" where
  "system_utils_send_response px utc_offset now r st =
     (if sresp_rv r \<noteq> BVIEW_STATUS_SUCCESS then
        Some (Some (BVIEW_STATUS_SUCCESS,
          st\<lparr>sa_rest := snd (rest_response_send_error px (sresp_cookie r) (sresp_rv r) (sresp_id r) (sa_rest st))\<rparr>))
      else if sresp_type r = SYS_CMD_SET_FEATURE then
        Some (Some (BVIEW_STATUS_SUCCESS, st\<lparr>sa_rest := snd (rest_response_send_ok px (sresp_cookie r) (sa_rest st))\<rparr>))
      else (case (if sresp_type r = SYS_CMD_GET_FEATURE
                  then reg_hb_json_encode_get_feature now (sresp_id r) (sresp_config r) (sa_pool st)
                  else reg_hb_json_encode_get_switch_properties utc_offset now (sresp_id r) (sresp_properties r) (sa_pool st)) of
          None \<Rightarrow> Some None
        | Some (rv, None, pool) \<Rightarrow> Some (Some (rv, st\<lparr>sa_pool := pool\<rparr>))
        | Some (rv, Some (p, text), pool) \<Rightarrow>
            if rv \<noteq> BVIEW_STATUS_SUCCESS then Some (Some (rv, st\<lparr>sa_pool := snd (system_utils_json_memory_free p pool)\<rparr>))
            else map_option (map_option (\<lambda>(rv1, ctx). (rv1, st\<lparr>sa_pool := snd (system_utils_json_memory_free p pool), sa_rest := ctx\<rparr>)))
              (rest_response_send px (sresp_cookie r) (Some text) (sa_rest st))))"

end
