(* ===== verification/Sys_Laws.thy ===== *)
theory Sys_Laws
  imports Sys_Json
begin

text \<open>The system utilities at work: the heartbeat timer as a client of the kernel's timers, the application as a
  step relation with its invariant, and the answers in their turn.\<close>

section \<open>The heartbeat timer\<close>

definition hb_flag :: "'hw sys_world \<Rightarrow> bool" where
  "hb_flag w = hb_in_use (su_timer w)"

definition hb_id :: "'hw sys_world \<Rightarrow> nat" where
  "hb_id w = hb_timer_id (su_timer w)"

definition hb_period :: "'hw sys_world \<Rightarrow> int" where
  "hb_period w = hb_interval (su_config w) * BVIEW_SYSTEM_TIME_CONVERSION_FACTOR"

abbreviation hb_slot :: "'hw sys_world \<Rightarrow> bool" where
  "hb_slot w \<equiv> slot_ok reg_hb_timer_cb 0 (hb_flag w) (hb_id w) (su_kernel w)"

lemma hb_stop:
  assumes "hb_slot w" "reg_hb_heartbeat_timer_stop w = (rv, w')"
  shows "rv = BVIEW_STATUS_SUCCESS \<and> hb_slot w' \<and> \<not> hb_flag w'"
proof (cases "hb_flag w")
  case True
  then have s: "slot_ok reg_hb_timer_cb 0 True (hb_id w) (su_kernel w)" using assms(1) by simp
  show ?thesis
    using assms(2) True slot_delete [OF s]
    by (auto simp: reg_hb_heartbeat_timer_stop_def hb_flag_def hb_id_def)
next
  case False
  then show ?thesis using assms by (simp add: reg_hb_heartbeat_timer_stop_def hb_flag_def)
qed

text \<open>What the two leave alone: everything but the kernel's timers and the timer's own record. And starting a timer
  that runs is starting it after a stop.\<close>

lemma hb_timer_only:
  "reg_hb_heartbeat_timer_stop w = (rv, w') \<Longrightarrow> w' = w\<lparr>su_kernel := su_kernel w', su_timer := su_timer w'\<rparr>"
  "reg_hb_heartbeat_timer_start w = (rv, w') \<Longrightarrow> w' = w\<lparr>su_kernel := su_kernel w', su_timer := su_timer w'\<rparr>"
  by (auto simp: reg_hb_heartbeat_timer_stop_def reg_hb_heartbeat_timer_start_def Let_def split: if_splits prod.splits)

lemma hb_timer_keeps [simp]:
  "su_config (snd (reg_hb_heartbeat_timer_stop w)) = su_config w" "su_config (snd (reg_hb_heartbeat_timer_start w)) = su_config w"
  "su_msgq (snd (reg_hb_heartbeat_timer_stop w)) = su_msgq w" "su_msgq (snd (reg_hb_heartbeat_timer_start w)) = su_msgq w"
  "su_sent (snd (reg_hb_heartbeat_timer_stop w)) = su_sent w" "su_sent (snd (reg_hb_heartbeat_timer_start w)) = su_sent w"
  "su_properties (snd (reg_hb_heartbeat_timer_stop w)) = su_properties w"
  "su_properties (snd (reg_hb_heartbeat_timer_start w)) = su_properties w"
  by (simp_all add: reg_hb_heartbeat_timer_stop_def reg_hb_heartbeat_timer_start_def Let_def split: prod.splits)

lemma hb_stop_limit: "timer_limit (su_kernel (snd (reg_hb_heartbeat_timer_stop w))) = timer_limit (su_kernel w)"
  by (simp add: reg_hb_heartbeat_timer_stop_def system_timer_delete_def timer_delete_def)

lemma hb_stop_kernel:
  obtains Q where "timers (su_kernel (snd (reg_hb_heartbeat_timer_stop w))) = filter Q (timers (su_kernel w))"
proof -
  have "timers (su_kernel (snd (reg_hb_heartbeat_timer_stop w))) = filter (\<lambda>t. kt_id t \<noteq> hb_timer_id (su_timer w)) (timers (su_kernel w))
    \<or> timers (su_kernel (snd (reg_hb_heartbeat_timer_stop w))) = filter (\<lambda>_. True) (timers (su_kernel w))"
    by (simp add: reg_hb_heartbeat_timer_stop_def system_timer_delete_def timer_delete_def)
  then show thesis using that by blast
qed

lemma hb_start_running:
  "hb_flag w \<Longrightarrow> \<not> hb_flag (snd (reg_hb_heartbeat_timer_stop w)) \<Longrightarrow>
   reg_hb_heartbeat_timer_start w = reg_hb_heartbeat_timer_start (snd (reg_hb_heartbeat_timer_stop w))"
  by (simp add: reg_hb_heartbeat_timer_start_def hb_flag_def)

lemma hb_start_stopped:
  assumes "hb_slot w" "\<not> hb_flag w" "length (timers (su_kernel w)) < timer_limit (su_kernel w)" "0 \<le> hb_period w"
    "reg_hb_heartbeat_timer_start w = (rv, w')"
  shows "rv = BVIEW_STATUS_SUCCESS \<and> hb_slot w' \<and> hb_flag w'"
proof -
  have s: "slot_ok reg_hb_timer_cb 0 False (hb_id w) (su_kernel w)" using assms(1,2) by simp
  obtain k' where "system_timer_add reg_hb_timer_cb (hb_period w) PERIODIC_MODE 0 (su_kernel w)
      = (BVIEW_STATUS_SUCCESS, Some (next_timer (su_kernel w)), k')"
    "slot_ok reg_hb_timer_cb 0 True (next_timer (su_kernel w)) k'"
    using slot_add [OF s assms(3,4), of PERIODIC_MODE] by blast
  then show ?thesis
    using assms(2,5)
    by (auto simp: reg_hb_heartbeat_timer_start_def hb_flag_def hb_id_def hb_period_def)
qed

lemma hb_start:
  assumes "hb_slot w" "length (timers (su_kernel w)) < timer_limit (su_kernel w)" "0 \<le> hb_period w"
    "reg_hb_heartbeat_timer_start w = (rv, w')"
  shows "rv = BVIEW_STATUS_SUCCESS \<and> hb_slot w' \<and> hb_flag w'"
proof (cases "hb_flag w")
  case True
  define v where "v = snd (reg_hb_heartbeat_timer_stop w)"
  have v: "hb_slot v" "\<not> hb_flag v"
    using hb_stop [OF assms(1), of "fst (reg_hb_heartbeat_timer_stop w)" v] by (auto simp: v_def)
  obtain Q where "timers (su_kernel v) = filter Q (timers (su_kernel w))"
    using hb_stop_kernel [of w] by (auto simp: v_def)
  then have l: "length (timers (su_kernel v)) \<le> length (timers (su_kernel w))" by simp
  have "reg_hb_heartbeat_timer_start v = (rv, w')"
    using hb_start_running [OF True] v(2) assms(4) by (simp add: v_def)
  moreover have "length (timers (su_kernel v)) < timer_limit (su_kernel v)" "0 \<le> hb_period v"
    using assms(2,3) hb_stop_limit [of w] l by (simp_all add: hb_period_def v_def)
  ultimately show ?thesis using hb_start_stopped [OF v] by blast
qed (use hb_start_stopped assms in blast)

interpretation hbtimer: timer_client reg_hb_timer_cb 0 su_kernel hb_flag hb_id hb_period
  reg_hb_heartbeat_timer_start reg_hb_heartbeat_timer_stop "\<lambda>_. True"
  using hb_stop hb_start by unfold_locales blast+

section \<open>When it runs\<close>

definition hb_on :: "hb_config \<Rightarrow> bool" where
  "hb_on c = (hb_enable c = 1 \<and> hb_interval c \<noteq> 0)"

definition hb_spec :: "int \<Rightarrow> itimerspec option" where
  "hb_spec s = Some (ms_timerspec (s * BVIEW_SYSTEM_TIME_CONVERSION_FACTOR) PERIODIC_MODE)"

text \<open>The timers of the heartbeat all have the interval s, and the rest of the agent leaves two timers.\<close>

definition hb_timers :: "kernel_timers \<Rightarrow> kernel_timer list" where
  "hb_timers k = filter (\<lambda>t. kt_handler t = reg_hb_timer_cb) (timers k)"

definition elsewhere :: "kernel_timers \<Rightarrow> kernel_timer list" where
  "elsewhere k = filter (\<lambda>t. kt_handler t \<noteq> reg_hb_timer_cb) (timers k)"

definition hb_state :: "int \<Rightarrow> 'hw sys_world \<Rightarrow> bool" where
  "hb_state s w = (hbtimer.consistent w \<and> list_all (\<lambda>t. kt_param t = 0 \<and> kt_spec t = hb_spec s) (hb_timers (su_kernel w)) \<and>
     Suc (length (elsewhere (su_kernel w))) < timer_limit (su_kernel w))"

lemma hb_owned: "list_all (\<lambda>t. kt_param t = 0 \<and> Q t) (hb_timers k) \<Longrightarrow> owned reg_hb_timer_cb 0 k = map kt_id (hb_timers k)"
  by (auto simp: owned_def hb_timers_def list_all_iff intro!: arg_cong [of _ _ "map kt_id"] filter_cong)

lemma hb_state_timers:
  assumes "hb_state s w"
  shows "map kt_spec (hb_timers (su_kernel w)) = (if hb_flag w then [hb_spec s] else [])"
proof -
  have a: "list_all (\<lambda>t. kt_param t = 0 \<and> kt_spec t = hb_spec s) (hb_timers (su_kernel w))"
    and "hb_slot w"
    using assms by (simp_all add: hb_state_def hbtimer.consistent_def)
  then have "map kt_id (hb_timers (su_kernel w)) = (if hb_flag w then [hb_id w] else [])"
    using hb_owned [OF a] by (simp add: slot_ok_def)
  then show ?thesis using a by (auto simp: map_eq_Cons_conv split: if_splits)
qed

lemma kernel_split: "length (timers k) = length (hb_timers k) + length (elsewhere k)"
  by (simp add: hb_timers_def elsewhere_def sum_length_filter_compl)

lemma hb_state_room: "hb_state s w \<Longrightarrow> length (timers (su_kernel w)) < timer_limit (su_kernel w)"
  using hb_state_timers [of s w] arg_cong [of _ _ length] kernel_split [of "su_kernel w"]
  by (fastforce simp: hb_state_def split: if_splits)

lemma hb_state_stop:
  assumes "hb_state s w"
  shows "hb_state s' (snd (reg_hb_heartbeat_timer_stop w))" "\<not> hb_flag (snd (reg_hb_heartbeat_timer_stop w))"
proof -
  let ?v = "snd (reg_hb_heartbeat_timer_stop w)"
  have v: "hbtimer.consistent ?v" "owned reg_hb_timer_cb 0 (su_kernel ?v) = []"
    using hbtimer.stop_consistent [of w] assms by (simp_all add: hb_state_def)
  then show "\<not> hb_flag ?v" using hbtimer.running_iff by blast
  obtain Q where q: "timers (su_kernel ?v) = filter Q (timers (su_kernel w))" by (rule hb_stop_kernel)
  then have "list_all (\<lambda>t. kt_param t = 0 \<and> kt_spec t = hb_spec s) (hb_timers (su_kernel ?v))"
    using assms by (auto simp: hb_state_def hb_timers_def list_all_iff)
  then have "hb_timers (su_kernel ?v) = []" using hb_owned v(2) by simp
  moreover have "elsewhere (su_kernel ?v) = filter Q (elsewhere (su_kernel w))"
    using q by (simp add: elsewhere_def conj_commute)
  then have "length (elsewhere (su_kernel ?v)) \<le> length (elsewhere (su_kernel w))" by simp
  ultimately show "hb_state s' ?v" using v(1) assms by (simp add: hb_state_def hb_stop_limit)
qed

lemma hb_state_start_stopped:
  assumes "hb_state s w" "\<not> hb_flag w" "0 \<le> hb_interval (su_config w)"
  shows "hb_state (hb_interval (su_config w)) (snd (reg_hb_heartbeat_timer_start w)) \<and> hb_flag (snd (reg_hb_heartbeat_timer_start w))"
proof -
  let ?i = "hb_interval (su_config w)" and ?v = "snd (reg_hb_heartbeat_timer_start w)" and ?k = "su_kernel w"
  have c: "hbtimer.consistent w" "timers_ok ?k" and room: "length (timers ?k) < timer_limit ?k" "0 \<le> hb_period w"
    using assms(1,3) hb_state_room by (auto simp: hb_state_def hbtimer.consistent_def slot_ok_def hb_period_def
        BVIEW_SYSTEM_TIME_CONVERSION_FACTOR_def)
  define e where "e = \<lparr>kt_id = next_timer ?k, kt_handler = reg_hb_timer_cb, kt_param = 0, kt_spec = hb_spec ?i\<rparr>"
  have "su_kernel ?v = ?k\<lparr>timers := timers ?k @ [e], next_timer := Suc (next_timer ?k)\<rparr>"
    using assms(2) room(2) system_timer_add_success [OF room(1) _ c(2)]
    by (simp add: reg_hb_heartbeat_timer_start_def hb_flag_def hb_period_def e_def hb_spec_def)
  moreover have "hb_timers ?k = []" using hb_state_timers [OF assms(1)] assms(2) by simp
  ultimately have "hb_timers (su_kernel ?v) = [e]" "elsewhere (su_kernel ?v) = elsewhere ?k"
    "timer_limit (su_kernel ?v) = timer_limit ?k"
    by (simp_all add: hb_timers_def elsewhere_def e_def)
  moreover have "hbtimer.consistent ?v" "hb_flag ?v"
    using hbtimer.start_consistent [OF c(1) room] hbtimer.running_iff [of ?v] by force+
  ultimately show ?thesis using assms(1) by (simp add: hb_state_def e_def)
qed

lemma hb_state_start:
  assumes "hb_state s w" "0 \<le> hb_interval (su_config w)"
  shows "hb_state (hb_interval (su_config w)) (snd (reg_hb_heartbeat_timer_start w)) \<and> hb_flag (snd (reg_hb_heartbeat_timer_start w))"
proof (cases "hb_flag w")
  case True
  show ?thesis
    using hb_state_start_stopped [OF hb_state_stop(1) [OF assms(1)] hb_state_stop(2) [OF assms(1)]] assms(2)
      hb_start_running [OF True hb_state_stop(2) [OF assms(1)]] by simp
qed (use hb_state_start_stopped assms in blast)

section \<open>The configuration\<close>

text \<open>The invariant: the heartbeat timer runs exactly while the heartbeat is on, with the interval of the
  configuration. Requests that the decoder makes keep it.\<close>

definition hb_valid :: "hb_config \<Rightarrow> bool" where
  "hb_valid c = (hb_enable c \<in> {0, 1} \<and> 0 \<le> hb_interval c)"

definition hb_inv :: "'hw sys_world \<Rightarrow> bool" where
  "hb_inv w = (hb_state (hb_interval (su_config w)) w \<and> hb_flag w = hb_on (su_config w) \<and> hb_valid (su_config w) \<and>
     list_all (\<lambda>m. hb_valid (sreq_config m)) (su_msgq w))"

lemma hb_updated_valid: "hb_valid c \<Longrightarrow> hb_valid (sreq_config m) \<Longrightarrow> hb_valid (fst (hb_updated m c))"
  by (auto simp: hb_updated_def hb_valid_def Let_def)

lemma hb_updated_same:
  "\<not> snd (hb_updated m c) \<Longrightarrow> hb_interval (fst (hb_updated m c)) \<noteq> 0 \<Longrightarrow> fst (hb_updated m c) = c"
  by (auto simp: hb_updated_def Let_def split: if_splits)

lemma hb_state_config [simp]:
  "hb_state s (w\<lparr>su_config := c\<rparr>) = hb_state s w" "hb_flag (w\<lparr>su_config := c\<rparr>) = hb_flag w"
  "hb_state s (w\<lparr>su_msgq := q\<rparr>) = hb_state s w" "hb_flag (w\<lparr>su_msgq := q\<rparr>) = hb_flag w"
  "hb_state s (w\<lparr>su_sent := r\<rparr>) = hb_state s w" "hb_flag (w\<lparr>su_sent := r\<rparr>) = hb_flag w"
  "hb_state s (w\<lparr>su_hw := h\<rparr>) = hb_state s w" "hb_flag (w\<lparr>su_hw := h\<rparr>) = hb_flag w"
  "hb_state s (w\<lparr>su_properties := p\<rparr>) = hb_state s w" "hb_flag (w\<lparr>su_properties := p\<rparr>) = hb_flag w"
  "hb_state s (w\<lparr>su_agent := a\<rparr>) = hb_state s w" "hb_flag (w\<lparr>su_agent := a\<rparr>) = hb_flag w"
  "hb_state s (w\<lparr>su_agent_ip := b\<rparr>) = hb_state s w" "hb_flag (w\<lparr>su_agent_ip := b\<rparr>) = hb_flag w"
  by (simp_all add: hb_state_def hbtimer.consistent_def hb_flag_def hb_id_def)

lemma feature_set_inv:
  assumes "hb_inv w" "hb_valid (sreq_config m)"
  shows "hb_inv (snd (reg_hb_config_feature_set m w))"
proof -
  obtain c modify where c: "hb_updated m (su_config w) = (c, modify)" by fastforce
  have v: "hb_valid c" using hb_updated_valid [of "su_config w" m] assms c by (simp add: hb_inv_def)
  let ?w = "w\<lparr>su_config := c\<rparr>"
  have s: "hb_state (hb_interval (su_config w)) ?w" using assms(1) by (simp add: hb_inv_def)
  consider (off) "\<not> hb_on c" | (changed) "hb_on c" modify | (kept) "hb_on c" "\<not> modify" by blast
  then show ?thesis
  proof cases
    case off
    then have "hb_enable c = 0 \<or> hb_interval c = 0" "\<not> (hb_enable c = 1 \<and> hb_interval c \<noteq> 0)"
      using v by (auto simp: hb_on_def hb_valid_def)
    then have "snd (reg_hb_config_feature_set m w) = snd (reg_hb_heartbeat_timer_stop ?w)"
      by (auto simp: reg_hb_config_feature_set_def c Let_def)
    then show ?thesis using hb_state_stop [OF s] off v assms(1) by (simp add: hb_inv_def)
  next
    case changed
    then have "snd (reg_hb_config_feature_set m w) = snd (reg_hb_heartbeat_timer_start ?w)"
      by (simp add: reg_hb_config_feature_set_def c Let_def hb_on_def)
    then show ?thesis using hb_state_start [OF s] changed v assms(1) by (simp add: hb_inv_def hb_valid_def)
  next
    case kept
    then have "c = su_config w" using hb_updated_same [of m "su_config w"] c by (simp add: hb_on_def)
    then show ?thesis using kept assms(1) by (simp add: reg_hb_config_feature_set_def c Let_def hb_on_def)
  qed
qed

end
