(* ===== verification/Sys_Run.thy ===== *)
theory Sys_Run
  imports Sys_Laws Bst_Rest_Laws
begin

unbundle bit_operations_syntax

text \<open>The system utilities as a step relation: whatever text a client sends, whenever the heartbeat timer expires
  and whatever the rest of the agent does with its own timers, the invariant of Sys_Laws holds; the properties
  read at the start stay; and each request gets its answer in its turn.\<close>

section \<open>Commands\<close>

definition hb_of :: "json \<Rightarrow> hb_config" where
  "hb_of j = \<lparr>hb_enable = member_int j ''heartbeat-enable'', hb_interval = member_int j ''msg-interval'', hb_configMask = 3\<rparr>"

lemma decode_hb_Inr:
  "decode_configure_reg_hb j = Inr c \<longleftrightarrow>
     number_in j ''heartbeat-enable'' 0 1 \<and> number_in j ''msg-interval'' 1 600 \<and> c = hb_of j"
  by (auto simp: decode_configure_reg_hb_def status_simps hb_set_def zero_hb_config_def hb_of_def
      REG_HB_CONFIG_PARAMS_ENABLE_def REG_HB_CONFIG_PARAMS_INTRVL_def BVIEW_REG_HB_TIME_MIN_def BVIEW_REG_HB_TIME_MAX_def)

lemma decode_hb_valid: "decode_configure_reg_hb j = Inr c \<Longrightarrow> hb_valid c \<and> 1 \<le> hb_interval c \<and> hb_interval c \<le> 600 \<and> hb_configMask c = 3"
  by (auto simp: decode_hb_Inr hb_valid_def hb_of_def number_in_def member_int_def split: option.splits json.splits)

text \<open>What a command adds to the queue.\<close>

definition asks :: "sys_request \<Rightarrow> 'hw sys_world \<Rightarrow> 'hw sys_world" where
  "asks m w = snd (system_utils_send_request m w)"

lemma configure_asks:
  "snd (reg_hb_json_configure_feature cJSON_Parse cookie buf len w) = w \<or>
   (\<exists>m. hb_valid (sreq_config m) \<and> snd (reg_hb_json_configure_feature cJSON_Parse cookie buf len w) = asks m w)"
proof -
  let ?r = "res_bind (sys_envelope cJSON_Parse ''configure-system-feature'' cookie buf len) (\<lambda>(root, params).
        res_bind (request_id root) (\<lambda>i. res_bind (decode_configure_reg_hb params) (\<lambda>c. Inr (i, c))))"
  show ?thesis
  proof (cases ?r)
    case (Inr a)
    then obtain i c params where a: "a = (i, c)" and "decode_configure_reg_hb params = Inr c"
      by (auto simp: res_bind_Inr_iff)
    then have "hb_valid c" using decode_hb_valid by blast
    then show ?thesis using Inr a
      by (auto simp: reg_hb_json_configure_feature_def reg_hb_json_configure_feature_impl_def asks_def intro!: exI
          [of _ "(zero_sys_request SYS_CMD_SET_FEATURE)\<lparr>sreq_cookie := cookie, sreq_id := i, sreq_config := c\<rparr>"])
  qed (simp add: reg_hb_json_configure_feature_def)
qed

lemma zero_request_valid [simp]: "hb_valid (sreq_config (zero_sys_request c))"
  by (simp add: zero_sys_request_def zero_hb_config_def hb_valid_def)

lemma get_feature_asks:
  "snd (reg_hb_json_get_feature cJSON_Parse cookie buf len w) = w \<or>
   (\<exists>m. hb_valid (sreq_config m) \<and> snd (reg_hb_json_get_feature cJSON_Parse cookie buf len w) = asks m w)"
  by (auto simp: reg_hb_json_get_feature_def reg_hb_json_get_feature_impl_def asks_def split: sum.splits
      intro: exI [of _ "(zero_sys_request SYS_CMD_GET_FEATURE)\<lparr>sreq_cookie := cookie, sreq_id := i\<rparr>" for i])

lemma get_properties_asks:
  "\<exists>hw. snd (reg_hb_json_get_switch_properties cJSON_Parse ps cookie buf len w) = w\<lparr>su_hw := hw\<rparr> \<or>
   (\<exists>m. hb_valid (sreq_config m) \<and> snd (reg_hb_json_get_switch_properties cJSON_Parse ps cookie buf len w) = asks m (w\<lparr>su_hw := hw\<rparr>))"
proof (cases "sys_envelope cJSON_Parse ''get-switch-properties'' cookie buf len")
  case (Inl e)
  then show ?thesis by (intro exI [of _ "su_hw w"]) (simp add: reg_hb_json_get_switch_properties_def)
next
  case (Inr a)
  obtain root params where a: "a = (root, params)" by fastforce
  obtain r hw where n: "named_unit_ok ps root (su_hw w) = (r, hw)" by fastforce
  show ?thesis
    by (intro exI [of _ hw])
      (auto simp: reg_hb_json_get_switch_properties_def reg_hb_json_get_switch_properties_impl_def Inr a n asks_def
        split: sum.splits intro!: exI [of _ "(zero_sys_request SYS_CMD_GET_SWITCH_PROPERTIES)\<lparr>sreq_cookie := cookie, sreq_id := i\<rparr>" for i])
qed

section \<open>Steps\<close>

text \<open>The timers of others may change in any way that leaves room for the one of the heartbeat.\<close>

inductive sys_step :: "'hw plugin_entry list \<Rightarrow> nat \<Rightarrow> 'hw sys_world \<Rightarrow> 'hw sys_world \<Rightarrow> bool" for ps n where
  configure: "sys_step ps n w (snd (reg_hb_json_configure_feature cJSON_Parse cookie buf len w))"
| get_feature: "sys_step ps n w (snd (reg_hb_json_get_feature cJSON_Parse cookie buf len w))"
| get_properties: "sys_step ps n w (snd (reg_hb_json_get_switch_properties cJSON_Parse ps cookie buf len w))"
| expired: "hb_timers (su_kernel w) \<noteq> [] \<Longrightarrow> sys_step ps n w (snd (reg_hb_timer_expired w))"
| turn: "sys_step ps n w (sys_turn ps n w)"
| others: "timers_ok k \<Longrightarrow> hb_timers k = hb_timers (su_kernel w) \<Longrightarrow> Suc (length (elsewhere k)) < timer_limit k \<Longrightarrow>
     sys_step ps n w (w\<lparr>su_kernel := k\<rparr>)"
| silicon: "sys_step ps n w (w\<lparr>su_hw := hw\<rparr>)"
| agent: "sys_step ps n w (w\<lparr>su_agent := cfg\<rparr>)"
| answered: "sys_step ps n w (w\<lparr>su_sent := rs\<rparr>)"

inductive sys_reach :: "'hw plugin_entry list \<Rightarrow> nat \<Rightarrow> 'hw sys_world \<Rightarrow> 'hw sys_world \<Rightarrow> bool" for ps n w0 where
  reach_start: "sys_reach ps n w0 w0"
| reach_step: "sys_reach ps n w0 w \<Longrightarrow> sys_step ps n w w' \<Longrightarrow> sys_reach ps n w0 w'"

lemma hb_inv_asks: "hb_inv w \<Longrightarrow> hb_valid (sreq_config m) \<Longrightarrow> hb_inv (asks m w)"
  by (simp add: hb_inv_def asks_def system_utils_send_request_def)

lemma hb_inv_other [simp]:
  "hb_inv (w\<lparr>su_hw := h\<rparr>) = hb_inv w" "hb_inv (w\<lparr>su_properties := p\<rparr>) = hb_inv w"
  "hb_inv (w\<lparr>su_agent := a\<rparr>) = hb_inv w" "hb_inv (w\<lparr>su_agent_ip := b\<rparr>) = hb_inv w"
  "hb_inv (w\<lparr>su_sent := r\<rparr>) = hb_inv w"
  by (simp_all add: hb_inv_def)

lemma hb_inv_read: "hb_inv (read_agent_address ps w) = hb_inv w" "hb_inv (read_agent_port w) = hb_inv w"
  by (simp_all add: read_agent_address_def read_agent_port_def Let_def split_beta)

lemma hb_inv_handler:
  assumes "hb_inv w" "hb_valid (sreq_config m)"
  shows "hb_inv (snd (system_utils_type_api_get c ps m w))"
  using assms feature_set_inv [OF assms]
  by (cases c) (simp_all add: reg_hb_config_feature_get_def reg_hb_switch_properties_get_def split_beta)

lemma hb_inv_handle: "hb_inv w \<Longrightarrow> hb_valid (sreq_config m) \<Longrightarrow> hb_inv (sys_handle ps n m w)"
  using hb_inv_handler [of "read_agent_address ps (read_agent_port w)" m "sreq_type m" ps]
  by (simp add: sys_handle_def hb_inv_read system_utils_copy_reply_params_def split_beta)

lemma hb_inv_turn: "hb_inv w \<Longrightarrow> hb_inv (sys_turn ps n w)"
proof -
  assume i: "hb_inv w"
  then have "hb_inv (w\<lparr>su_msgq := ms\<rparr>)" "hb_valid (sreq_config m)" if "su_msgq w = m # ms" for m ms
    using that by (simp_all add: hb_inv_def)
  then show ?thesis using i hb_inv_handle by (auto simp: sys_turn_def split: list.split)
qed

lemma hb_inv_others:
  assumes "hb_inv w" "timers_ok k" "hb_timers k = hb_timers (su_kernel w)" "Suc (length (elsewhere k)) < timer_limit k"
  shows "hb_inv (w\<lparr>su_kernel := k\<rparr>)"
proof -
  have a: "list_all (\<lambda>t. kt_param t = 0 \<and> kt_spec t = hb_spec (hb_interval (su_config w))) (hb_timers (su_kernel w))"
    "hb_slot w"
    using assms(1) unfolding hb_inv_def hb_state_def hbtimer.consistent_def by blast+
  have "owned reg_hb_timer_cb 0 k = owned reg_hb_timer_cb 0 (su_kernel w)"
    using hb_owned [OF a(1)] hb_owned [of _ k] a(1) assms(3) by metis
  then have "hb_slot (w\<lparr>su_kernel := k\<rparr>)" using a(2) assms(2) by (simp add: slot_ok_def hb_flag_def hb_id_def)
  then show ?thesis
    using assms a(1) by (simp add: hb_inv_def hb_state_def hbtimer.consistent_def hb_flag_def)
qed

lemma hb_inv_step: "sys_step ps n w w' \<Longrightarrow> hb_inv w \<Longrightarrow> hb_inv w'"
proof (induction rule: sys_step.induct)
  case (configure w cJSON_Parse cookie buf len)
  then show ?case using configure_asks [of cJSON_Parse cookie buf len w] hb_inv_asks by auto
next
  case (get_feature w cJSON_Parse cookie buf len)
  then show ?case using get_feature_asks [of cJSON_Parse cookie buf len w] hb_inv_asks by auto
next
  case (get_properties w cJSON_Parse cookie buf len)
  then show ?case using get_properties_asks [of cJSON_Parse ps cookie buf len w] hb_inv_asks by fastforce
next
  case (expired w)
  then show ?case
    using hb_inv_asks [of w "(zero_sys_request SYS_CMD_GET_SWITCH_PROPERTIES)\<lparr>sreq_periodic := True\<rparr>"]
    by (simp add: reg_hb_timer_expired_def asks_def zero_sys_request_def zero_hb_config_def hb_valid_def)
qed (simp_all add: hb_inv_turn hb_inv_others)

lemma hb_inv_reach: "sys_reach ps n w0 w \<Longrightarrow> hb_inv w0 \<Longrightarrow> hb_inv w"
  by (induction rule: sys_reach.induct) (auto intro: hb_inv_step)

section \<open>Answers\<close>

text \<open>A turn takes one request and gives one answer.\<close>

primrec sys_turns :: "'hw plugin_entry list \<Rightarrow> nat \<Rightarrow> nat \<Rightarrow> 'hw sys_world \<Rightarrow> 'hw sys_world" where
  "sys_turns ps n 0 w = w"
| "sys_turns ps n (Suc k) w = sys_turn ps n (sys_turns ps n k w)"

lemma read_keeps [simp]:
  "su_msgq (read_agent_address ps w) = su_msgq w" "su_msgq (read_agent_port w) = su_msgq w"
  "su_sent (read_agent_address ps w) = su_sent w" "su_sent (read_agent_port w) = su_sent w"
  "su_config (read_agent_address ps w) = su_config w" "su_config (read_agent_port w) = su_config w"
  by (simp_all add: read_agent_address_def read_agent_port_def Let_def split_beta)

lemma handler_keeps:
  "su_msgq (snd (system_utils_type_api_get c ps m w)) = su_msgq w"
  "su_sent (snd (system_utils_type_api_get c ps m w)) = su_sent w"
  "fst (system_utils_type_api_get c ps m w) = BVIEW_STATUS_SUCCESS"
  by (cases c; simp add: reg_hb_config_feature_get_def reg_hb_switch_properties_get_def reg_hb_config_feature_set_def
      split_beta Let_def)+

definition answers :: "nat \<Rightarrow> sys_request \<Rightarrow> sys_response \<Rightarrow> bool" where
  "answers n m r = (sresp_type r = sreq_type m \<and> sresp_unit r = sreq_unit m \<and> sresp_cookie r = sreq_cookie m \<and>
     sresp_id r = sreq_id m \<and>
     sresp_rv r = (if 0 \<le> sreq_unit m \<and> sreq_unit m < int n then BVIEW_STATUS_SUCCESS else BVIEW_STATUS_INVALID_PARAMETER))"

lemma handle_answers:
  "su_msgq (sys_handle ps n m w) = su_msgq w"
  "\<exists>r. su_sent (sys_handle ps n m w) = su_sent w @ [r] \<and> answers n m r"
  using handler_keeps [of "sreq_type m" ps m "read_agent_address ps (read_agent_port w)"]
  by (auto simp: sys_handle_def system_utils_copy_reply_params_def split_beta answers_def reply_to_def split: sys_cmd.split)

lemma turns_queue: "k \<le> length (su_msgq w) \<Longrightarrow> su_msgq (sys_turns ps n k w) = drop k (su_msgq w)"
proof (induction k)
  case (Suc k)
  then have "su_msgq (sys_turns ps n k w) = su_msgq w ! k # drop (Suc k) (su_msgq w)"
    by (simp add: Cons_nth_drop_Suc)
  then show ?case by (simp add: sys_turn_def handle_answers(1))
qed simp

lemma turn_answers:
  assumes "k < length (su_msgq w)"
  shows "\<exists>r. su_sent (sys_turns ps n (Suc k) w) = su_sent (sys_turns ps n k w) @ [r] \<and> answers n (su_msgq w ! k) r"
proof -
  let ?v = "sys_turns ps n k w"
  have "su_msgq ?v = su_msgq w ! k # drop (Suc k) (su_msgq w)"
    using assms by (simp add: turns_queue Cons_nth_drop_Suc)
  then show ?thesis using handle_answers(2) [of ps n "su_msgq w ! k" "?v\<lparr>su_msgq := drop (Suc k) (su_msgq w)\<rparr>"]
    by (simp add: sys_turn_def)
qed

section \<open>The properties of the switch\<close>

text \<open>After the start only the time, the address and the port are read anew.\<close>

definition fixed_properties :: "'hw sys_world \<Rightarrow> nat \<times> int \<times> switch_asic_info list \<times> string \<times> string \<times> string" where
  "fixed_properties w = (let p = su_properties w in
     (sp_numAsics p, sp_featureMask p, sp_asicInfo p, sp_networkOs p, sp_uid p, sp_agent_sw_version p))"

lemma fixed_read [simp]:
  "fixed_properties (read_agent_address ps w) = fixed_properties w" "fixed_properties (read_agent_port w) = fixed_properties w"
  by (simp_all add: read_agent_address_def read_agent_port_def fixed_properties_def Let_def split_beta)

lemma fixed_update [simp]:
  "fixed_properties (w\<lparr>su_msgq := q\<rparr>) = fixed_properties w" "fixed_properties (w\<lparr>su_sent := r\<rparr>) = fixed_properties w"
  "fixed_properties (w\<lparr>su_hw := h\<rparr>) = fixed_properties w" "fixed_properties (w\<lparr>su_kernel := k\<rparr>) = fixed_properties w"
  "fixed_properties (w\<lparr>su_agent := a\<rparr>) = fixed_properties w" "fixed_properties (w\<lparr>su_config := c\<rparr>) = fixed_properties w"
  by (simp_all add: fixed_properties_def)

lemma fixed_timer [simp]:
  "fixed_properties (snd (reg_hb_heartbeat_timer_stop w)) = fixed_properties w"
  "fixed_properties (snd (reg_hb_heartbeat_timer_start w)) = fixed_properties w"
  by (simp_all add: fixed_properties_def)

lemma fixed_turn: "fixed_properties (sys_turn ps n w) = fixed_properties w"
proof -
  have "fixed_properties (snd (system_utils_type_api_get c ps m v)) = fixed_properties v" for c m v
    by (cases c) (simp_all add: reg_hb_config_feature_get_def reg_hb_switch_properties_get_def reg_hb_config_feature_set_def
        split_beta Let_def, simp add: fixed_properties_def Let_def)
  then show ?thesis
    by (simp add: sys_turn_def sys_handle_def system_utils_copy_reply_params_def split_beta split: list.split)
qed

lemma fixed_asks [simp]: "fixed_properties (asks m w) = fixed_properties w"
  by (simp add: asks_def system_utils_send_request_def)

lemma fixed_step: "sys_step ps n w w' \<Longrightarrow> fixed_properties w' = fixed_properties w"
proof (induction rule: sys_step.induct)
  case (configure w cJSON_Parse cookie buf len)
  then show ?case using configure_asks [of cJSON_Parse cookie buf len w] by auto
next
  case (get_feature w cJSON_Parse cookie buf len)
  then show ?case using get_feature_asks [of cJSON_Parse cookie buf len w] by auto
next
  case (get_properties w cJSON_Parse cookie buf len)
  then show ?case using get_properties_asks [of cJSON_Parse ps cookie buf len w] by fastforce
qed (simp_all add: fixed_turn reg_hb_timer_expired_def flip: asks_def)

lemma fixed_reach: "sys_reach ps n w0 w \<Longrightarrow> fixed_properties w = fixed_properties w0"
  by (induction rule: sys_reach.induct) (simp_all add: fixed_step)

end
