(* ===== verification/Sys_Text.thy ===== *)
theory Sys_Text
  imports Sys_Run Ovs_Names Answer_Laws
begin

unbundle bit_operations_syntax

text \<open>The answers of the system utilities: JSON, and of which value; the answer to get-system-feature is what
  configure-system-feature takes; and the properties of a switch always fit into the buffer.\<close>

section \<open>Members\<close>

text \<open>The answers go over several lines of the source, so that blanks come before most members.\<close>

definition indented :: "nat \<Rightarrow> string \<Rightarrow> string \<Rightarrow> string" where
  "indented n k s = pad n @ quoted k @ CHR '':'' # s"

lemma blanks_pad [simp]: "blanks (pad n)"
  by (simp add: blanks_def pad_def list_all_iff)

lemma indented_denotes: "list_all plain k \<Longrightarrow> denotes_json s v \<Longrightarrow> members_text (indented n k s) [(k, v)]"
  using member [of "pad n" "[]" k s v] by (simp add: indented_def)

lemma number_after: "denotes_json ('' '' @ fmt_d i) (cJSON_Number i)"
  using spaced_before [of "'' ''"] number by simp

lemma string_after: "list_all plain s \<Longrightarrow> denotes_json ('' '' @ quoted s) (cJSON_String s)"
  using spaced_before [of "'' ''"] text_value by simp

lemma object_after: "members_text s ms \<Longrightarrow> denotes_json ('' '' @ CHR ''{'' # s @ ''}'') (cJSON_Object ms)"
  using spaced_before [of "'' ''"] object by simp

section \<open>The heartbeat feature\<close>

definition hb_result :: "hb_config \<Rightarrow> json" where
  "hb_result c = cJSON_Object [(''heartbeat-enable'', cJSON_Number (hb_enable c)), (''msg-interval'', cJSON_Number (hb_interval c))]"

definition hb_json :: "hb_config \<Rightarrow> int \<Rightarrow> json" where
  "hb_json c i = cJSON_Object
     [(''jsonrpc'', cJSON_String ''2.0''), (''method'', cJSON_String ''get-system-feature''), (''version'', cJSON_String ''2''),
      (''result'', hb_result c), (''id'', cJSON_Number i)]"

lemma hb_text_join:
  "hb_feature_text c i = '' '' @ CHR ''{'' # comma_join
     [indented 33 ''jsonrpc'' ('' '' @ quoted ''2.0''), indented 33 ''method'' ('' '' @ quoted ''get-system-feature''),
      indented 33 ''version'' ('' '' @ quoted ''2''),
      indented 33 ''result'' ('' '' @ CHR ''{'' # comma_join
        [indented 33 ''heartbeat-enable'' ('' '' @ fmt_d (hb_enable c)), indented 33 ''msg-interval'' ('' '' @ fmt_d (hb_interval c))] @ ''}''),
      indented 2 ''id'' ('' '' @ fmt_d i @ ''  '')] @ ''}''"
proof -
  have "pad 2 = ''  ''" by code_simp
  then show ?thesis by (simp add: hb_feature_text_def indented_def quoted_def del: comma_join.simps) (simp add: comma_join_Cons)
qed

lemma hb_denotes: "denotes_json (hb_feature_text c i) (hb_json c i)"
proof -
  have n: "denotes_json ('' '' @ fmt_d i @ ''  '') (cJSON_Number i)"
    using spaced [of "'' ''" "''  ''"] number by simp
  show ?thesis
    unfolding hb_text_join hb_json_def hb_result_def
    by (rule spaced_before, simp, rule object, rule members_join,
        intro list.rel_intros indented_denotes string_after n object_after members_join number_after)
      (simp_all add: plain_def)
qed

lemma hb_items:
  "cJSON_GetObjectItem (hb_result c) ''heartbeat-enable'' = Some (cJSON_Number (hb_enable c))"
  "cJSON_GetObjectItem (hb_result c) ''msg-interval'' = Some (cJSON_Number (hb_interval c))"
  "cJSON_GetObjectItem (hb_json c i) ''result'' = Some (hb_result c)"
  unfolding hb_json_def hb_result_def object_item by (simp_all add: c_tolower_def)

lemma hb_decoded:
  assumes "hb_enable c \<in> {0, 1}" "1 \<le> hb_interval c" "hb_interval c \<le> 600"
  shows "decode_configure_reg_hb (hb_result c) = Inr (c\<lparr>hb_configMask := 3\<rparr>)"
  using assms by (cases c) (auto simp: decode_hb_Inr number_in_def hb_of_def member_int_def hb_items)

text \<open>Setting what was decoded: the members are those of the request.\<close>

lemma hb_updated_all:
  assumes "hb_configMask (sreq_config m) = 3"
  shows "fst (hb_updated m d) = d\<lparr>hb_enable := hb_enable (sreq_config m), hb_interval := hb_interval (sreq_config m)\<rparr>"
proof -
  have "bit (3 :: int) 0" "bit (3 :: int) 1" by (simp_all add: bit_iff_odd)
  then show ?thesis
    using assms by (auto simp: hb_updated_def hb_given_def REG_HB_CONFIG_PARAMS_ENABLE_def REG_HB_CONFIG_PARAMS_INTRVL_def Let_def)
qed

lemma hb_set_config: "su_config (snd (reg_hb_config_feature_set m w)) = fst (hb_updated m (su_config w))"
  by (simp add: reg_hb_config_feature_set_def split_beta Let_def)

lemma fmt_d_long: "\<bar>i\<bar> < 10 ^ k \<Longrightarrow> 0 < k \<Longrightarrow> length (fmt_d i) \<le> Suc k"
proof -
  assume "\<bar>i\<bar> < 10 ^ k" "0 < k"
  then have "nat \<bar>i\<bar> < 10 ^ k" by (simp add: nat_less_iff)
  then have "length (decimal (nat \<bar>i\<bar>)) \<le> k" using decimal_length \<open>0 < k\<close> by blast
  then show ?thesis by (cases "i < 0") (simp_all add: fmt_d_def)
qed

lemma hb_text_length:
  assumes "hb_enable c \<in> {0, 1}" "\<bar>hb_interval c\<bar> < 10000" "\<bar>i\<bar> < 10000000"
  shows "length (hb_feature_text c i) \<le> 1023"
proof -
  have "length (fmt_d (hb_enable c)) \<le> 2" "length (fmt_d (hb_interval c)) \<le> 5" "length (fmt_d i) \<le> 8"
    using assms fmt_d_long [of "hb_enable c" 1] fmt_d_long [of "hb_interval c" 4] fmt_d_long [of i 7] by auto
  then show ?thesis by (simp add: hb_feature_text_def pad_def)
qed

section \<open>The properties of the switch\<close>

definition asic_type_name :: "switch_asic_info \<Rightarrow> string" where
  "asic_type_name a = (if sw_asicType a = BVIEW_ASIC_TYPE_TD2 then ''BCM56850'' else ''BCM56960'')"

definition asic_json :: "switch_asic_info \<Rightarrow> json" where
  "asic_json a = cJSON_Array [cJSON_String (asic_notation a), cJSON_String (asic_type_name a), cJSON_Number (sw_numPorts a)]"

definition asic_text :: "switch_asic_info \<Rightarrow> string" where
  "asic_text a = CHR ''['' # [] @ comma_join
     [quoted (asic_notation a), '' '' @ quoted (asic_type_name a), '' '' @ fmt_d (sw_numPorts a)] @ [] @ '']''"

lemma asic_text_denotes: "list_all plain (asic_notation a) \<Longrightarrow> denotes_json (asic_text a) (asic_json a)"
  unfolding asic_text_def asic_json_def
  by (rule array_join, intro list.rel_intros text_value string_after number_after) (simp_all add: plain_def asic_type_name_def)

lemma asic_info_comma: "asic_info_text a = asic_text a @ '',''"
  by (simp add: asic_info_text_def asic_text_def quoted_def asic_type_name_def)

lemma commas_cut: "ss \<noteq> [] \<Longrightarrow> butlast (concat (map (\<lambda>s. s @ '','') ss)) = comma_join ss"
proof (induction ss)
  case (Cons s ss)
  then show ?case by (cases ss) (auto simp: butlast_append comma_join_Cons)
qed simp

lemma asic_infos_join:
  assumes "asic_infos_text as = Some s"
  shows "s = comma_join (map asic_text as)" "as \<noteq> []" "length s \<le> 62"
proof -
  let ?c = "concat (map asic_info_text as)"
  have c: "?c = concat (map (\<lambda>s. s @ '','') (map asic_text as))"
    using asic_info_comma by (simp add: comp_def flip: asic_info_comma)
  have s: "s = butlast ?c" "?c \<noteq> []" "length ?c < JSON_MAX_NODE_LENGTH"
    using assms by (auto simp: asic_infos_text_def Let_def split: if_splits)
  then show n: "as \<noteq> []" by auto
  then show "s = comma_join (map asic_text as)" using s(1) c commas_cut [of "map asic_text as"] by simp
  show "length s \<le> 62" using s by (simp add: JSON_MAX_NODE_LENGTH_def)
qed

definition features_of :: "int \<Rightarrow> string list" where
  "features_of m = (if m AND int BVIEW_FEATURE_BST \<noteq> 0 then [''BST''] else []) @
     (if m AND int BVIEW_FEATURE_PACKET_TRACE \<noteq> 0 then [''PT''] else [])"

lemma features_join:
  "m AND int BVIEW_FEATURE_BST \<noteq> 0 \<or> m AND int BVIEW_FEATURE_PACKET_TRACE = 0 \<Longrightarrow>
     features_text m = comma_join (map quoted (features_of m))"
  by (auto simp: features_text_def features_of_def quoted_def)

text \<open>Without the BST feature the list starts with its comma, and is not a list of JSON values.\<close>

lemma denotes_start: "denotes_json s v \<Longrightarrow> \<exists>b c r. blanks b \<and> s = b @ c # r \<and> c \<noteq> CHR '' '' \<and> c \<noteq> CHR '',''"
proof (induction s v rule: denotes_json_items_text_members_text.inducts(1)
    [where ?P2.0 = "\<lambda>_ _. True" and ?P3.0 = "\<lambda>_ _. True"])
  case (number i)
  obtain c r where c: "fmt_d i = c # r" by (cases "fmt_d i") (auto simp: fmt_d_def split: if_splits)
  then have "is_digit c \<or> c = CHR ''-''"
    using decimal_digits [of "nat i"] by (auto simp: fmt_d_def split: if_splits)
  moreover have "\<not> is_digit (CHR '' '')" "\<not> is_digit (CHR '','')" by code_simp+
  ultimately have "c \<noteq> CHR '' '' \<and> c \<noteq> CHR '',''" by auto
  then show ?case using c by (intro exI [of _ "[]"] exI [of _ c] exI [of _ r]) simp
next
  case (text_value s)
  then show ?case by (intro exI [of _ "[]"]) (simp add: quoted_def)
next
  case (spaced b1 b2 s v)
  then obtain b c r where "blanks b" "s = b @ c # r" "c \<noteq> CHR '' ''" "c \<noteq> CHR '',''" by blast
  then show ?case using spaced.hyps(1) by (intro exI [of _ "b1 @ b"] exI [of _ c] exI [of _ "r @ b2"]) simp
qed (auto intro: exI [of _ "[]"])

lemma features_broken:
  assumes "m AND int BVIEW_FEATURE_BST = 0" "m AND int BVIEW_FEATURE_PACKET_TRACE \<noteq> 0"
  shows "\<not> items_text (features_text m) vs"
proof
  have f: "features_text m = CHR '','' # quoted ''PT''" using assms by (simp add: features_text_def quoted_def)
  have n: "\<not> denotes_json (CHR '','' # s) v" "\<not> denotes_json [] v" for s v
    using denotes_start [of "CHR '','' # s" v] denotes_start [of "[]" v] by (auto simp: append_eq_Cons_conv Cons_eq_append_conv)
  assume "items_text (features_text m) vs"
  then show False unfolding f by cases (use n in \<open>auto simp: Cons_eq_append_conv\<close>)
qed

text \<open>The answer, for properties with a time that is text already.\<close>

definition properties_json :: "string \<Rightarrow> switch_properties \<Rightarrow> int \<Rightarrow> json" where
  "properties_json time p i = cJSON_Object
     ([(''jsonrpc'', cJSON_String ''2.0''), (''method'', cJSON_String ''get-switch-properties''), (''version'', cJSON_String ''2''),
       (''time-stamp'', cJSON_String time),
       (''result'', cJSON_Object
          [(''number-of-asics'', cJSON_Number (int (sp_numAsics p))),
           (''asic-info'', cJSON_Array (map asic_json (take (sp_numAsics p) (sp_asicInfo p)))),
           (''supported-features'', cJSON_Array (map cJSON_String (features_of (sp_featureMask p)))),
           (''network-os'', cJSON_String (sp_networkOs p)), (''uid'', cJSON_String (sp_uid p)),
           (''agent-ip'', cJSON_String (sp_agent_ipaddr p)), (''agent-port'', cJSON_String (fmt_d (sp_agent_port p))),
           (''agent-sw-version'', cJSON_String (sp_agent_sw_version p))])]
      @ (if i = 0 then [] else [(''id'', cJSON_Number i)]))"

definition properties_plain :: "switch_properties \<Rightarrow> bool" where
  "properties_plain p = (list_all (\<lambda>a. list_all plain (asic_notation a)) (take (sp_numAsics p) (sp_asicInfo p)) \<and>
     list_all plain (sp_networkOs p) \<and> list_all plain (sp_uid p) \<and> list_all plain (sp_agent_ipaddr p) \<and>
     list_all plain (sp_agent_sw_version p))"

lemma properties_text_join:
  assumes "properties_text off p i = Some t"
    "sp_featureMask p AND int BVIEW_FEATURE_BST \<noteq> 0 \<or> sp_featureMask p AND int BVIEW_FEATURE_PACKET_TRACE = 0"
  shows "t = CHR ''{'' # comma_join
     ([indented 33 ''jsonrpc'' ('' '' @ quoted ''2.0''), indented 33 ''method'' ('' '' @ quoted ''get-switch-properties''),
       indented 33 ''version'' ('' '' @ quoted ''2''), indented 33 ''time-stamp'' ('' '' @ quoted (report_time_text off (sp_timeStamp p))),
       indented 33 ''result'' ('' '' @ CHR ''{'' # comma_join
         [indented 0 ''number-of-asics'' ('' '' @ fmt_d (int (sp_numAsics p))),
          indented 33 ''asic-info'' (CHR ''['' # [] @ comma_join (map asic_text (take (sp_numAsics p) (sp_asicInfo p))) @ [] @ '']''),
          indented 33 ''supported-features'' (CHR ''['' # [] @ comma_join (map quoted (features_of (sp_featureMask p))) @ [] @ '']''),
          indented 33 ''network-os'' (quoted (sp_networkOs p)), indented 33 ''uid'' (quoted (sp_uid p)),
          indented 33 ''agent-ip'' (quoted (sp_agent_ipaddr p)), indented 33 ''agent-port'' (quoted (fmt_d (sp_agent_port p))),
          indented 33 ''agent-sw-version'' (quoted (sp_agent_sw_version p))] @ ''}'')]
      @ (if i = 0 then [] else [indented 33 ''id'' (fmt_d i @ '' '')])) @ ''}''"
proof -
  obtain as where as: "asic_infos_text (take (sp_numAsics p) (sp_asicInfo p)) = Some as"
    using assms(1) by (auto simp: properties_text_def split: if_splits)
  have "pad 0 = []" by (simp add: pad_def)
  then show ?thesis
    using assms(1) asic_infos_join(1) [OF as] as features_join [OF assms(2)]
    by (cases "i = 0") (auto simp: properties_text_def indented_def quoted_def comma_join_Cons split: if_splits)
qed

lemma time_text_plain: "list_all plain (report_time_text off t)"
  by (rule time_plain [OF report_time_chars])

lemma fmt_d_plain: "list_all plain (fmt_d i)"
  by (rule time_plain [OF fmt_d_time])

lemma properties_denotes:
  assumes "properties_text off p i = Some t" "properties_plain p"
    "sp_featureMask p AND int BVIEW_FEATURE_BST \<noteq> 0 \<or> sp_featureMask p AND int BVIEW_FEATURE_PACKET_TRACE = 0"
  shows "denotes_json t (properties_json (report_time_text off (sp_timeStamp p)) p i)"
proof -
  let ?as = "take (sp_numAsics p) (sp_asicInfo p)"
  have a: "denotes_json (CHR ''['' # [] @ comma_join (map asic_text ?as) @ [] @ '']'') (cJSON_Array (map asic_json ?as))"
    using assms(2) by (intro array_join) (auto simp: properties_plain_def list_all_iff list.rel_map intro!: list.rel_refl_strong asic_text_denotes)
  have f: "denotes_json (CHR ''['' # [] @ comma_join (map quoted (features_of m)) @ [] @ '']'')
      (cJSON_Array (map cJSON_String (features_of m)))" for m
    by (intro array_join) (auto simp: features_of_def plain_def intro!: text_value)
  have n: "denotes_json (fmt_d i @ '' '') (cJSON_Number i)" using spaced_after [of "'' ''"] number by simp
  have p: "list_all plain (sp_networkOs p)" "list_all plain (sp_uid p)" "list_all plain (sp_agent_ipaddr p)"
    "list_all plain (sp_agent_sw_version p)"
    using assms(2) by (simp_all add: properties_plain_def)
  show ?thesis
    unfolding properties_text_join [OF assms(1,3)] properties_json_def
    by (rule object, rule members_join, intro list_all2_appendI list.rel_intros indented_denotes string_after text_value n
        object_after members_join number_after a f p time_text_plain fmt_d_plain)
      (simp_all add: plain_def indented_denotes n)
qed

text \<open>The array of the entries and the arrays of the strings bound the text.\<close>

lemma properties_length:
  assumes "properties_text off p i = Some t" "time_known off (sp_timeStamp p)" "length (sp_agent_ipaddr p) < 20"
    "\<bar>sp_agent_port p\<bar> < 10000000000" "sp_numAsics p < 100" "\<bar>i\<bar> < 10000000"
  shows "length t \<le> 1023"
proof -
  have n: "length (fmt_d (int (sp_numAsics p))) \<le> 3" "length (fmt_d (sp_agent_port p)) \<le> 11" "length (fmt_d i) \<le> 8"
    using assms(4-6) fmt_d_long [of "int (sp_numAsics p)" 2] fmt_d_long [of "sp_agent_port p" 10] fmt_d_long [of i 7] by auto
  have "length (report_time_text off (sp_timeStamp p)) \<le> 25"
    using assms(2) by (simp add: time_known_def time_length)
  moreover obtain as where as: "asic_infos_text (take (sp_numAsics p) (sp_asicInfo p)) = Some as" and tm: "terminated p"
    using assms(1) by (auto simp: properties_text_def split: if_splits)
  have "length as \<le> 62" by (rule asic_infos_join(3) [OF as])
  moreover have "length (features_text (sp_featureMask p)) \<le> 10" by (simp add: features_text_def)
  moreover have "length (sp_networkOs p) \<le> 31" "length (sp_uid p) \<le> 127" "length (sp_agent_sw_version p) \<le> 31"
    using tm by (simp_all add: terminated_def BVIEW_NETWORK_OS_LEN_MAX_def BVIEW_UID_LEN_MAX_def BVIEW_VERSION_LEN_MAX_def)
  ultimately have "length (the (properties_text off p i)) \<le> 1023"
    using assms(3) n [simplified] as tm by (cases "i = 0") (simp_all add: properties_text_def pad_def)
  then show ?thesis using assms(1) by simp
qed

end
