(* ===== verification/Sys_Start.thy ===== *)
theory Sys_Start
  imports Sys_Text
begin

unbundle bit_operations_syntax

text \<open>The start of the system utilities: with the timers of the agent in order it establishes the invariant, and on
  the OVSDB plugin the properties of the switch are those of its one unit.\<close>

section \<open>The invariant\<close>

definition system_room :: "kernel_timers \<Rightarrow> bool" where
  "system_room k = (timers_ok k \<and> hb_timers k = [] \<and> Suc (length (elsewhere k)) < timer_limit k)"

lemma main_started:
  assumes "system_utils_main ps properties_ok data_ok (Queue_made limit []) thread_made w0 = (BVIEW_STATUS_SUCCESS, w1)"
    "system_room (su_kernel w0)"
  shows "hb_state 5 w1 \<and> \<not> hb_flag w1 \<and> su_config w1 = \<lparr>hb_enable = 1, hb_interval = 5, hb_configMask = 0\<rparr> \<and>
    su_msgq w1 = [] \<and> su_properties w1 = zero_switch_properties"
  using assms
  by (auto simp: system_utils_main_def zero_hb_config_def BVIEW_REG_HB_DEFAULT_HEARTBEAT_INTERVAL_def hb_state_def
      hbtimer.consistent_def hb_flag_def system_room_def slot_ok_def owned_def hb_timers_def filter_empty_conv
      Let_def split: sum.splits if_splits)

text \<open>What a start that succeeds has read, and that it then starts the heartbeat.\<close>

definition started_properties ::
  "'hw plugin_entry list \<Rightarrow> string \<Rightarrow> nat \<Rightarrow> int \<Rightarrow> string option \<Rightarrow> switch_asic_info list \<Rightarrow> string option \<Rightarrow> 'hw \<Rightarrow> 'hw sys_world \<Rightarrow> 'hw sys_world" where
  "started_properties ps release n m os infos uid hw w =
     (let p = (su_properties w)\<lparr>sp_numAsics := n, sp_featureMask := m, sp_asicInfo := infos,
            sp_networkOs := (case os of None \<Rightarrow> sp_networkOs (su_properties w) | Some s \<Rightarrow> s),
            sp_uid := (case uid of None \<Rightarrow> sp_uid (su_properties w) | Some s \<Rightarrow> s)\<rparr>;
          w1 = read_agent_port (read_agent_address ps (w\<lparr>su_hw := hw, su_properties := p\<rparr>))
      in w1\<lparr>su_properties := (su_properties w1)\<lparr>sp_agent_sw_version := system_version_get release\<rparr>\<rparr>)"

lemma app_started:
  assumes "sys_app_start ps release t w1 = Some (BVIEW_STATUS_SUCCESS, t1, w2)"
  obtains n m os hw1 infos hw2 uid hw3 v where
    "sbapi_system_num_units_get ps = Inr n" "sbapi_system_feature_mask_get ps = Inr m"
    "sbapi_system_network_os_get ps BVIEW_NETWORK_OS_LEN_MAX (su_hw w1) = (BVIEW_STATUS_SUCCESS, os, hw1)"
    "unit_infos ps [0..<n] (sp_asicInfo (su_properties w1)) hw1 = (Some infos, hw2)"
    "snd (sbapi_system_uid_get ps BVIEW_UID_LEN_MAX hw2) = (uid, hw3)"
    "v = started_properties ps release n m os infos uid hw3 w1"
    "w2 = (if hb_on (su_config v) then snd (reg_hb_heartbeat_timer_start v) else v)"
proof -
  obtain r tt where r: "system_utils_module_register t = (r, tt)" by fastforce
  obtain rv1 os hw1 where os: "sbapi_system_network_os_get ps BVIEW_NETWORK_OS_LEN_MAX (su_hw w1) = (rv1, os, hw1)"
    by (metis prod_cases3)
  have reg: "r = BVIEW_STATUS_SUCCESS" using assms by (simp add: sys_app_start_def r split: if_splits)
  obtain n m where n: "sbapi_system_num_units_get ps = Inr n" "sbapi_system_feature_mask_get ps = Inr m"
    using assms by (auto simp: sys_app_start_def r reg split: sum.splits)
  have ok: "rv1 = BVIEW_STATUS_SUCCESS" "\<not> length (sp_asicInfo (su_properties w1)) < n"
    using assms by (simp_all add: sys_app_start_def r reg n os split: if_splits)
  obtain infos hw2 where infos: "unit_infos ps [0..<n] (sp_asicInfo (su_properties w1)) hw1 = (Some infos, hw2)"
    using assms by (cases "unit_infos ps [0..<n] (sp_asicInfo (su_properties w1)) hw1")
      (auto simp: sys_app_start_def r reg n os ok split: option.splits)
  obtain rv2 uid hw3 where uid: "sbapi_system_uid_get ps BVIEW_UID_LEN_MAX hw2 = (rv2, uid, hw3)" by (metis prod_cases3)
  have "(if hb_on (su_config (started_properties ps release n m os infos uid hw3 w1))
      then snd (reg_hb_heartbeat_timer_start (started_properties ps release n m os infos uid hw3 w1))
      else started_properties ps release n m os infos uid hw3 w1) = w2"
    using assms unfolding sys_app_start_def started_properties_def hb_on_def Let_def by (simp add: r reg n os ok infos uid)
  moreover have "snd (sbapi_system_uid_get ps BVIEW_UID_LEN_MAX hw2) = (uid, hw3)" by (simp add: uid)
  ultimately show thesis using that [OF n _ infos _ refl sym] os ok by blast
qed

lemma start_inv:
  assumes "system_utils_main ps properties_ok data_ok (Queue_made limit []) thread_made w0 = (BVIEW_STATUS_SUCCESS, w1)"
    "system_room (su_kernel w0)" "sys_app_start ps release t w1 = Some (BVIEW_STATUS_SUCCESS, t1, w2)"
  shows "hb_inv w2" "su_config w2 = \<lparr>hb_enable = 1, hb_interval = 5, hb_configMask = 0\<rparr>" "su_msgq w2 = []"
proof -
  note w1 = main_started [OF assms(1,2)]
  obtain n m os infos uid hw3 v where v: "v = started_properties ps release n m os infos uid hw3 w1"
    "w2 = (if hb_on (su_config v) then snd (reg_hb_heartbeat_timer_start v) else v)"
    by (rule app_started [OF assms(3)])
  have k: "su_config v = su_config w1" "su_msgq v = su_msgq w1"
    by (simp_all add: v(1) started_properties_def Let_def)
  have "hb_state 5 v" using w1
    by (simp add: v(1) started_properties_def Let_def read_agent_address_def read_agent_port_def split_beta)
  then have "hb_state 5 w2 \<and> hb_flag w2"
    using hb_state_start [of 5 v] k w1 v(2) by (simp add: hb_on_def)
  then show "hb_inv w2" "su_config w2 = \<lparr>hb_enable = 1, hb_interval = 5, hb_configMask = 0\<rparr>" "su_msgq w2 = []"
    using k w1 v(2) by (simp_all add: hb_inv_def hb_on_def hb_valid_def)
qed

section \<open>On the OVSDB plugin\<close>

lemma ovsdb_handle: "sb_system_handle (ovsdb_registered env n) t =
    Some (ovsdb_system_feature env (ovsdb_asic env n)\<lparr>featureMask := int BVIEW_FEATURE_BST\<rparr>)"
  by (simp add: sb_system_handle_def handle_get_best ovsdb_visible catch_all_def)
    (simp add: ovsdb_system_feature_def)

lemma ovsdb_system_calls:
  "sbapi_system_num_units_get (ovsdb_registered env n) = Inr 1"
  "sbapi_system_feature_mask_get (ovsdb_registered env n) = Inr 2"
  "sbapi_system_network_os_get (ovsdb_registered env n) BVIEW_NETWORK_OS_LEN_MAX st = (BVIEW_STATUS_SUCCESS, Some ''ovsdb'', st)"
  "sbapi_system_time_get (ovsdb_registered env n) st = (BVIEW_STATUS_SUCCESS, Some (ov_clock st), st)"
  "sbapi_system_uid_get (ovsdb_registered env n) len st = sbplugin_ovsdb_system_uid_get len st"
  "sbapi_system_ip4_get (ovsdb_registered env n) len st = sbplugin_ovsdb_system_ipv4_get len st"
  by (simp_all add: sbapi_system_num_units_get_def sbapi_system_feature_mask_get_def sbapi_system_network_os_get_def
      sbapi_system_time_get_def sbapi_system_uid_get_def sbapi_system_ip4_get_def sb_system_call_def ovsdb_handle)
    (simp_all add: ovsdb_system_feature_def sbplugin_ovsdb_system_network_os_get_def sbplugin_ovsdb_system_time_get_def
      BVIEW_FEATURE_BST_def BVIEW_NETWORK_OS_LEN_MAX_def SBPLUGIN_NETWORK_OS_def)

definition ovsdb_unit_info :: "ovsdb_env \<Rightarrow> int \<Rightarrow> switch_asic_info" where
  "ovsdb_unit_info env n =
     \<lparr>asic_notation = ''1'', sw_asicType = sbplugin_ovsdb_system_util_chip_type_get env, sw_numPorts = n\<rparr>"

lemma ovsdb_unit_infos: "unit_infos (ovsdb_registered env n) [0..<1] infos st = (Some (infos[0 := ovsdb_unit_info env n]), st)"
  by (simp add: unit_info_def ovsdb_translates ovsdb_unit_type ovsdb_num_ports ovsdb_unit_info_def)

lemma hex_plain: "n < 16 \<Longrightarrow> plain (hex_digit n)"
proof -
  assume "n < 16"
  then have "n \<in> set [0..<16]" by simp
  moreover have "list_all (\<lambda>n. plain (hex_digit n)) [0..<16]" by code_simp
  ultimately show ?thesis by (simp add: list_all_iff)
qed

lemma ovsdb_uid:
  assumes "snd (sbplugin_ovsdb_system_uid_get BVIEW_UID_LEN_MAX st) = (uid, st')"
  shows "list_all plain (case uid of None \<Rightarrow> [] | Some s \<Rightarrow> s)" "length (case uid of None \<Rightarrow> [] | Some s \<Rightarrow> s) \<le> 127"
proof -
  have "list_all plain (fmt_02x b)" for b using hex_plain by (simp add: fmt_02x_def)
  then have h: "list_all plain (concat (map fmt_02x bs))" for bs by (induction bs) simp_all
  obtain rv mac st1 where m: "sbplugin_ovsdb_system_mac_get (int BVIEW_MACADDR_LEN) st = (rv, mac, st1)" by (metis prod_cases3)
  have "uid = None \<or> (\<exists>bs. uid = Some (take (nat (BVIEW_UID_LEN_MAX - 1)) (concat (map fmt_02x bs))))"
    using assms unfolding sbplugin_ovsdb_system_uid_get_def m
    by (cases mac; cases rv; simp del: list.map concat.simps; blast)
  then show "list_all plain (case uid of None \<Rightarrow> [] | Some s \<Rightarrow> s)" "length (case uid of None \<Rightarrow> [] | Some s \<Rightarrow> s) \<le> 127"
    using h by (auto simp: list_all_iff BVIEW_UID_LEN_MAX_def dest!: in_set_takeD)
qed

lemma ip_text: "list_all plain (get_ip_str b)" "length (get_ip_str b) \<le> 15"
proof -
  have "length (fmt_d (int (of_char c))) \<le> 3" for c
    using decimal_length [of "of_char c" 3] nat_of_char_less_256 [of c] by (simp add: fmt_d_def)
  then have o: "length (fmt_d (of_char c)) \<le> 3" for c by (simp add: of_nat_of_char)
  have "list_all (\<lambda>s. list_all plain s \<and> length s \<le> 3) (map (\<lambda>c. fmt_d (of_char c)) (take 4 b))"
    using o by (auto simp: list_all_iff fmt_d_plain [unfolded list_all_iff])
  then have "list_all plain (get_ip_str b) \<and> length (get_ip_str b) \<le> 15"
    unfolding get_ip_str_def by (auto simp: plain_def split: list.split)
  then show "list_all plain (get_ip_str b)" "length (get_ip_str b) \<le> 15" by simp_all
qed

lemma ovsdb_started:
  assumes "system_utils_main (ovsdb_registered env n) properties_ok data_ok (Queue_made limit []) thread_made w0 = (BVIEW_STATUS_SUCCESS, w1)"
    "system_room (su_kernel w0)"
    "sys_app_start (ovsdb_registered env n) release t w1 = Some (BVIEW_STATUS_SUCCESS, t1, w2)"
  obtains uid where "fixed_properties w2 = (1, 2, [ovsdb_unit_info env n], ''ovsdb'', uid, system_version_get release)"
    "list_all plain uid" "length uid \<le> 127"
proof -
  note w1 = main_started [OF assms(1,2)]
  obtain k m os hw1 infos hw2 uid hw3 v where
    "sbapi_system_num_units_get (ovsdb_registered env n) = Inr k" "sbapi_system_feature_mask_get (ovsdb_registered env n) = Inr m"
    "sbapi_system_network_os_get (ovsdb_registered env n) BVIEW_NETWORK_OS_LEN_MAX (su_hw w1) = (BVIEW_STATUS_SUCCESS, os, hw1)"
    and i: "unit_infos (ovsdb_registered env n) [0..<k] (sp_asicInfo (su_properties w1)) hw1 = (Some infos, hw2)"
    and u: "snd (sbapi_system_uid_get (ovsdb_registered env n) BVIEW_UID_LEN_MAX hw2) = (uid, hw3)"
    and v: "v = started_properties (ovsdb_registered env n) release k m os infos uid hw3 w1"
      "w2 = (if hb_on (su_config v) then snd (reg_hb_heartbeat_timer_start v) else v)"
    by (rule app_started [OF assms(3)])
  then have r: "k = 1" "m = 2" "os = Some ''ovsdb''" by (simp_all add: ovsdb_system_calls)
  have "infos = [ovsdb_unit_info env n]"
    using i w1 ovsdb_unit_infos [of env n "sp_asicInfo (su_properties w1)" hw1]
    by (simp add: r(1) zero_switch_properties_def BVIEW_MAX_ASICS_ON_A_PLATFORM_def)
  moreover have "fixed_properties w2 = fixed_properties v" using v(2) by simp
  moreover have "fixed_properties v = (k, m, infos, ''ovsdb'', case uid of None \<Rightarrow> [] | Some s \<Rightarrow> s, system_version_get release)"
    using w1 by (cases uid) (simp_all add: v(1) started_properties_def Let_def fixed_properties_def read_agent_address_def
        read_agent_port_def split_beta r(3) zero_switch_properties_def)
  ultimately show thesis using that ovsdb_uid [of hw2 uid hw3] u by (simp add: r ovsdb_system_calls)
qed

text \<open>What the answer to a request for the properties says.\<close>

lemma properties_answer:
  assumes "sreq_type m = SYS_CMD_GET_SWITCH_PROPERTIES" "sreq_unit m = 0"
  obtains p where "su_sent (sys_handle (ovsdb_registered env n) 1 m w) =
      su_sent w @ [(reply_to m BVIEW_STATUS_SUCCESS)\<lparr>sresp_properties := Some p\<rparr>]"
    "(sp_numAsics p, sp_featureMask p, sp_asicInfo p, sp_networkOs p, sp_uid p, sp_agent_sw_version p) = fixed_properties w"
    "sp_timeStamp p = ov_clock (su_hw w)" "sp_agent_port p = agent_localPort (su_agent w)" "\<exists>b. sp_agent_ipaddr p = get_ip_str b"
proof -
  have c: "ov_clock (snd (snd (sbplugin_ovsdb_system_ipv4_get 4 st))) = ov_clock st" for st
    by (simp add: sbplugin_ovsdb_system_ipv4_get_def split: option.split)
  let ?w = "snd (reg_hb_switch_properties_get (ovsdb_registered env n) m (read_agent_address (ovsdb_registered env n) (read_agent_port w)))"
  have "su_sent (sys_handle (ovsdb_registered env n) 1 m w) =
      su_sent w @ [(reply_to m BVIEW_STATUS_SUCCESS)\<lparr>sresp_properties := Some (su_properties ?w)\<rparr>]"
    using assms handler_keeps [of SYS_CMD_GET_SWITCH_PROPERTIES "ovsdb_registered env n" m]
    by (simp add: sys_handle_def system_utils_copy_reply_params_def split_beta)
  moreover have "sp_timeStamp (su_properties ?w) = ov_clock (su_hw w)" "sp_agent_port (su_properties ?w) = agent_localPort (su_agent w)"
    "\<exists>b. sp_agent_ipaddr (su_properties ?w) = get_ip_str b"
    "(sp_numAsics (su_properties ?w), sp_featureMask (su_properties ?w), sp_asicInfo (su_properties ?w), sp_networkOs (su_properties ?w),
      sp_uid (su_properties ?w), sp_agent_sw_version (su_properties ?w)) = fixed_properties w"
    by (auto simp: reg_hb_switch_properties_get_def ovsdb_system_calls read_agent_address_def read_agent_port_def split_beta Let_def c
        system_agent_port_get_def fixed_properties_def)
  ultimately show thesis using that by blast
qed

lemma bst_feature_bit: "(2 :: int) AND int BVIEW_FEATURE_BST \<noteq> 0"
  by (simp add: BVIEW_FEATURE_BST_def)

text \<open>The text of the properties is defined, plain and short.\<close>

lemma ovsdb_properties_text:
  assumes "(sp_numAsics p, sp_featureMask p, sp_asicInfo p, sp_networkOs p, sp_uid p, sp_agent_sw_version p) =
      (1, 2, [ovsdb_unit_info env n], ''ovsdb'', uid, system_version_get release)"
    "list_all plain uid" "length uid \<le> 127" "list_all plain release" "length release < 32" "\<bar>n\<bar> < 10000000000"
    "sp_agent_ipaddr p = get_ip_str b"
  shows "\<exists>t. properties_text off p i = Some t" "properties_plain p"
proof -
  have f: "sp_numAsics p = 1" "sp_featureMask p = 2" "sp_asicInfo p = [ovsdb_unit_info env n]" "sp_networkOs p = ''ovsdb''"
    "sp_uid p = uid" "sp_agent_sw_version p = release"
    using assms(1,5) by (simp_all add: system_version_get_def BVIEW_VERSION_LEN_MAX_def)
  have "length (fmt_d n) \<le> 11" using fmt_d_long [of n 10] assms(6) by simp
  then have "\<exists>s. asic_infos_text [ovsdb_unit_info env n] = Some s"
    by (simp add: asic_infos_text_def asic_info_text_def ovsdb_unit_info_def JSON_MAX_NODE_LENGTH_def)
  moreover have "terminated p" using f assms(3,5)
    by (simp add: terminated_def BVIEW_NETWORK_OS_LEN_MAX_def BVIEW_UID_LEN_MAX_def BVIEW_VERSION_LEN_MAX_def)
  ultimately show "\<exists>t. properties_text off p i = Some t" using f by (auto simp: properties_text_def)
  show "properties_plain p"
    using f assms(2,4,7) ip_text by (simp add: properties_plain_def ovsdb_unit_info_def plain_def)
qed

end
