(* ===== verification/Sys_Props.thy ===== *)
theory Sys_Props
  imports Sys_Start Ovs_Props
begin

text \<open>Properties of the system utilities: the heartbeat timer, the answers to requests, the configuration read
  back, and the heartbeat itself on the OVSDB plugin.\<close>

section \<open>A concrete start\<close>

definition sample_sys0 :: "ovsdb sys_world" where
  "sample_sys0 = \<lparr>su_config = zero_hb_config, su_timer = \<lparr>hb_in_use = False, hb_timer_id = 0\<rparr>,
     su_properties = zero_switch_properties, su_agent = system_agent_config_set_defaults, su_agent_ip = ''1234'',
     su_hw = sample_started, su_kernel = \<lparr>timers = [], next_timer = 0, timer_limit = 4\<rparr>, su_msgq = [], su_limit = 0, su_sent = []\<rparr>"

definition sample_sys1 :: "ovsdb sys_world" where
  "sample_sys1 = snd (system_utils_main (ovsdb_registered sample_env 2) True True (Queue_made 10 []) True sample_sys0)"

definition sample_modules :: "module_entry list" where
  "sample_modules = fst (snd (the (sys_app_start (ovsdb_registered sample_env 2) ''1.0'' modulemgr_init sample_sys1)))"

definition sample_sys2 :: "ovsdb sys_world" where
  "sample_sys2 = snd (snd (the (sys_app_start (ovsdb_registered sample_env 2) ''1.0'' modulemgr_init sample_sys1)))"

lemma sample_sys_main: "system_utils_main (ovsdb_registered sample_env 2) True True (Queue_made 10 []) True sample_sys0 =
   (BVIEW_STATUS_SUCCESS, sample_sys1)"
proof -
  have "fst (system_utils_main (ovsdb_registered sample_env 2) True True (Queue_made 10 []) True sample_sys0) = BVIEW_STATUS_SUCCESS"
    by (simp add: system_utils_main_def ovsdb_system_calls Let_def)
  then show ?thesis by (simp add: sample_sys1_def prod_eq_iff)
qed

lemma sample_sys_room: "system_room (su_kernel sample_sys0)"
  by (simp add: sample_sys0_def system_room_def timers_ok_def hb_timers_def elsewhere_def)

lemma sample_sys_start: "sys_app_start (ovsdb_registered sample_env 2) ''1.0'' modulemgr_init sample_sys1 =
   Some (BVIEW_STATUS_SUCCESS, sample_modules, sample_sys2)"
proof -
  have "registered modulemgr_init = []" using registered_shape [of "[]" BVIEW_MAX_MODULES] by (simp add: modulemgr_init_def)
  then have "fst (system_utils_module_register modulemgr_init) = BVIEW_STATUS_SUCCESS"
    using register_refines [OF modulemgr_init_ok, of system_utils_module_info, OF _ prod.collapse [symmetric]]
    by (simp add: system_utils_module_register_def BVIEW_MAX_MODULES_def system_utils_module_info_def BVIEW_FEATURE_SYSTEM_def)
  moreover have "su_properties sample_sys1 = zero_switch_properties"
    using main_started [OF sample_sys_main sample_sys_room] by simp
  ultimately have "\<exists>x. sys_app_start (ovsdb_registered sample_env 2) ''1.0'' modulemgr_init sample_sys1 = Some (BVIEW_STATUS_SUCCESS, x)"
    using ovsdb_unit_infos [of sample_env 2 "sp_asicInfo (su_properties sample_sys1)" "su_hw sample_sys1"]
    by (simp add: sys_app_start_def split_beta ovsdb_system_calls Let_def zero_switch_properties_def BVIEW_MAX_ASICS_ON_A_PLATFORM_def
        del: unit_infos.simps)
  then show ?thesis by (auto simp: sample_sys2_def sample_modules_def)
qed

section \<open>The heartbeat timer\<close>

text \<open>C8: from a successful start on, whatever texts the clients send, whenever the heartbeat timer
  expires and whatever the rest of the agent does with its own timers, the agent has exactly one heartbeat
  timer, with the configured interval, while the heartbeat is enabled, and none otherwise.\<close>

theorem heartbeat_timer:
  assumes "system_utils_main ps True True (Queue_made limit []) True w0 = (BVIEW_STATUS_SUCCESS, w1)"
    "timers_ok (su_kernel w0)" "filter (\<lambda>t. kt_handler t = reg_hb_timer_cb) (timers (su_kernel w0)) = []"
    "Suc (length (elsewhere (su_kernel w0))) < timer_limit (su_kernel w0)"
    "sys_app_start ps release t w1 = Some (BVIEW_STATUS_SUCCESS, t1, w2)" "sys_reach ps n w2 w"
  shows "map kt_spec (filter (\<lambda>t. kt_handler t = reg_hb_timer_cb) (timers (su_kernel w))) =
    (if hb_enable (su_config w) = 1 \<and> hb_interval (su_config w) \<noteq> 0
     then [Some (ms_timerspec (hb_interval (su_config w) * 1000) PERIODIC_MODE)] else [])"
proof -
  have "system_room (su_kernel w0)" using assms(2-4) by (simp add: system_room_def hb_timers_def)
  then have "hb_inv w" using start_inv(1) [OF assms(1) _ assms(5)] hb_inv_reach [OF assms(6)] by blast
  then show ?thesis
    using hb_state_timers [of "hb_interval (su_config w)" w]
    by (auto simp: hb_inv_def hb_on_def hb_spec_def hb_timers_def BVIEW_SYSTEM_TIME_CONVERSION_FACTOR_def)
qed

theorem heartbeat_timer_witness:
  "\<exists>spec. map kt_spec (filter (\<lambda>t. kt_handler t = reg_hb_timer_cb) (timers (su_kernel
     (sys_turn (ovsdb_registered sample_env 2) 1 sample_sys2)))) = [spec]"
proof -
  have r: "sys_reach (ovsdb_registered sample_env 2) 1 sample_sys2 (sys_turn (ovsdb_registered sample_env 2) 1 sample_sys2)"
    by (rule sys_reach.reach_step [OF sys_reach.reach_start sys_step.turn])
  note q = start_inv [OF sample_sys_main sample_sys_room sample_sys_start]
  show ?thesis
    using heartbeat_timer [OF sample_sys_main _ _ _ sample_sys_start r] sample_sys_room q(2,3)
    by (simp add: system_room_def hb_timers_def sys_turn_def)
qed

text \<open>C28: a request in the queue of the system utilities is answered in exactly as many turns
  as its position, with its own command, unit, session and id, and refused only for a unit that does not
  exist; the requests behind it stay in the queue.\<close>

theorem system_request_answered:
  assumes "k < length (su_msgq w)" "m = su_msgq w ! k"
  shows "\<exists>r. su_sent (sys_turns ps n (Suc k) w) = su_sent (sys_turns ps n k w) @ [r]
    \<and> sresp_type r = sreq_type m \<and> sresp_unit r = sreq_unit m \<and> sresp_cookie r = sreq_cookie m \<and> sresp_id r = sreq_id m
    \<and> (sresp_rv r = BVIEW_STATUS_SUCCESS \<longleftrightarrow> 0 \<le> sreq_unit m \<and> sreq_unit m < int n)
    \<and> su_msgq (sys_turns ps n (Suc k) w) = drop (Suc k) (su_msgq w)"
  using turn_answers [OF assms(1), of ps n] turns_queue [of "Suc k" w ps n] assms by (auto simp: answers_def)

theorem system_request_answered_witness:
  "\<exists>r. su_sent (sys_turns (ovsdb_registered sample_env 2) 1 1
      (sample_sys0\<lparr>su_msgq := [(zero_sys_request SYS_CMD_GET_FEATURE)\<lparr>sreq_id := 42\<rparr>]\<rparr>)) = [r] \<and> sresp_id r = 42 \<and>
     sresp_rv r = BVIEW_STATUS_SUCCESS"
  using system_request_answered [of 0 "sample_sys0\<lparr>su_msgq := [(zero_sys_request SYS_CMD_GET_FEATURE)\<lparr>sreq_id := 42\<rparr>]\<rparr>"
      "(zero_sys_request SYS_CMD_GET_FEATURE)\<lparr>sreq_id := 42\<rparr>" "ovsdb_registered sample_env 2" 1]
  by (auto simp: zero_sys_request_def sample_sys0_def simp del: sys_turns.simps(2))

section \<open>What clients read\<close>

definition sample_sys_pool :: sys_memory_pool where
  "sample_sys_pool = snd (snd (system_utils_json_memory_allocate 0 BSTJSON_MEMSIZE_RESPONSE (system_utils_json_memory_init 4096)))"

lemma sample_sys_alloc: "system_utils_json_memory_allocate 0 BSTJSON_MEMSIZE_RESPONSE (system_utils_json_memory_init 4096) =
   (BVIEW_STATUS_SUCCESS, Some 4096, sample_sys_pool)"
proof -
  have "slices_take 0 BSTJSON_MEMSIZE_RESPONSE (slices_init 4096 BSTJSON_MEMSIZE_RESPONSE BUFPOOL_MAX_RESPONE_SLICES) =
      Some ((slices_init 4096 BSTJSON_MEMSIZE_RESPONSE BUFPOOL_MAX_RESPONE_SLICES)
        [0 := \<lparr>slice_buffer = 4096, slice_size = BSTJSON_MEMSIZE_RESPONSE, slice_inUse = True, slice_timeTaken = 0\<rparr>], 0)"
    by (simp add: slices_take_def slices_init_def BUFPOOL_MAX_RESPONE_SLICES_def upt_rec)
  then show ?thesis
    by (simp add: sample_sys_pool_def system_utils_json_memory_allocate_def system_utils_json_memory_init_def slices_init_def
        BUFPOOL_MAX_RESPONE_SLICES_def)
qed

text \<open>C27: what configure-system-feature accepts is what get-system-feature answers afterwards,
  whatever the configuration was before: JSON with the id of its request whose result has the same values and
  is itself accepted.\<close>

theorem heartbeat_read_back:
  assumes "decode_configure_reg_hb params = Inr c" "sreq_config m = c" "\<bar>i\<bar> < 10000000"
    "system_utils_json_memory_allocate now BSTJSON_MEMSIZE_RESPONSE pool = (BVIEW_STATUS_SUCCESS, Some p, pool1)"
  shows "\<exists>t. reg_hb_json_encode_get_feature now i (Some (su_config (snd (reg_hb_config_feature_set m w)))) pool =
      Some (BVIEW_STATUS_SUCCESS, Some (p, t), pool1)
    \<and> denotes_json t (cJSON_Object [(''jsonrpc'', cJSON_String ''2.0''), (''method'', cJSON_String ''get-system-feature''),
        (''version'', cJSON_String ''2''), (''result'', hb_result c), (''id'', cJSON_Number i)])
    \<and> decode_configure_reg_hb (hb_result c) = Inr c"
proof -
  let ?c = "su_config (snd (reg_hb_config_feature_set m w))"
  have v: "hb_valid c" "1 \<le> hb_interval c" "hb_interval c \<le> 600" "hb_configMask c = 3"
    using decode_hb_valid [OF assms(1)] by auto
  then have s: "hb_enable ?c = hb_enable c" "hb_interval ?c = hb_interval c"
    using hb_updated_all [of m "su_config w"] assms(2) by (simp_all add: hb_set_config)
  have "length (hb_feature_text ?c i) \<le> 1023" using v assms(3) by (intro hb_text_length) (auto simp: s hb_valid_def)
  then have "reg_hb_json_encode_get_feature now i (Some ?c) pool = Some (BVIEW_STATUS_SUCCESS, Some (p, hb_feature_text ?c i), pool1)"
    using assms(4) by (simp add: reg_hb_json_encode_get_feature_def sys_encode_def BSTJSON_MEMSIZE_RESPONSE_def)
  moreover have "denotes_json (hb_feature_text ?c i) (hb_json c i)"
    using hb_denotes [of ?c i] by (simp add: hb_json_def hb_result_def s)
  moreover have "decode_configure_reg_hb (hb_result c) = Inr c"
    using hb_decoded [of c] v by (cases c) (simp add: hb_valid_def)
  ultimately show ?thesis by (auto simp: hb_json_def)
qed

theorem heartbeat_read_back_witness:
  "\<exists>t. reg_hb_json_encode_get_feature 0 7 (Some (su_config (snd (reg_hb_config_feature_set
      ((zero_sys_request SYS_CMD_SET_FEATURE)\<lparr>sreq_config := \<lparr>hb_enable = 1, hb_interval = 30, hb_configMask = 3\<rparr>\<rparr>) sample_sys2))))
      (system_utils_json_memory_init 4096) = Some (BVIEW_STATUS_SUCCESS, Some (4096, t), sample_sys_pool)"
proof -
  have "decode_configure_reg_hb (hb_result \<lparr>hb_enable = 1, hb_interval = 30, hb_configMask = 0\<rparr>) =
      Inr \<lparr>hb_enable = 1, hb_interval = 30, hb_configMask = 3\<rparr>"
    using hb_decoded [of "\<lparr>hb_enable = 1, hb_interval = 30, hb_configMask = 0\<rparr>"] by simp
  from heartbeat_read_back [OF this _ _ sample_sys_alloc,
      of "(zero_sys_request SYS_CMD_SET_FEATURE)\<lparr>sreq_config := \<lparr>hb_enable = 1, hb_interval = 30, hb_configMask = 3\<rparr>\<rparr>" 7 sample_sys2]
  show ?thesis by auto
qed



end
