(* ===== verification/Shutdown.thy ===== *)
theory Shutdown
  imports Bst_System Sys_Laws
begin

text \<open>The end of the agent: bst_app_uninit of apps/bst/bst_main.c and system_utils_app_uninit of
  system_utils_main.c, called by bview_system_deinit when the agent has started, so that every pointer they
  test is set. The blocks they free are named in the order of the calls. Both look for their message queue in a way that never removes it: one that exists is
  not found, and one that does not exist is made.\<close>

datatype queue_left = Queue_kept | Queue_new

definition queue_after :: "bool \<Rightarrow> queue_left" where
  "queue_after found = (if found then Queue_kept else Queue_new)"

section \<open>The BST application\<close>

text \<open>A unit has the block of its configuration and timers, and its records by their addresses.\<close>

datatype unit_block = Bst_data | Record_at nat

primrec uninit_units :: "nat list \<Rightarrow> 'hw bst_world \<Rightarrow> (nat \<times> unit_block) list \<times> 'hw bst_world" where
  "uninit_units [] w = ([], w)"
| "uninit_units (i # is) w =
     (let w1 = snd (bst_periodic_collection_timer_delete (int i) w); u = unit_get w1 (int i) in
      case uninit_units is w1 of (freed, w2) \<Rightarrow>
        (map (Pair i) [Bst_data, Record_at (stats_active_record_ptr u), Record_at (stats_backup_record_ptr u),
             Record_at (stats_current_record_ptr u), Record_at (threshold_record_ptr u)]
           @ freed, w2))"

text \<open>Without a number of units the loop runs to a number nobody has set.\<close>

definition bst_app_uninit ::
  "'hw plugin_entry list \<Rightarrow> bool \<Rightarrow> 'hw bst_world \<Rightarrow> (queue_left \<times> (nat \<times> unit_block) list \<times> 'hw bst_world) option" where
  "bst_app_uninit ps found w =
     (case sbapi_system_num_units_get ps of
        Inl e \<Rightarrow> None
      | Inr n \<Rightarrow> Some (queue_after found, uninit_units [0..<n] w))"

section \<open>The system utilities\<close>

datatype sys_block = Switch_properties_block | Sys_data

definition system_utils_app_uninit :: "bool \<Rightarrow> 'hw sys_world \<Rightarrow> queue_left \<times> sys_block list \<times> 'hw sys_world" where
  "system_utils_app_uninit found w =
     (queue_after found, [Switch_properties_block, Sys_data], snd (reg_hb_heartbeat_timer_stop w))"

section \<open>What is left\<close>

definition unit_blocks :: "bst_unit \<Rightarrow> unit_block list" where
  "unit_blocks u = Bst_data # map Record_at (record_ptrs u)"

lemma length_unit_blocks [simp]: "length (unit_blocks u) = 5"
  by (simp add: unit_blocks_def record_ptrs_def)

text \<open>The timers of the first n units are in order, and the trigger timers are those of an earlier state.\<close>

definition ending :: "nat \<Rightarrow> 'hw bst_world \<Rightarrow> 'hw bst_world \<Rightarrow> bool" where
  "ending n w0 w = (\<forall>j. 0 \<le> j \<longrightarrow> j < int n \<longrightarrow> coll_ok j w \<and> trig_ok j w \<and>
     owned bst_trigger_timer_cb j (kernel w) = owned bst_trigger_timer_cb j (kernel w0))"

lemma ending_delete:
  assumes "ending n w0 w" "i < n"
  defines "w1 \<equiv> snd (bst_periodic_collection_timer_delete (int i) w)"
  shows "ending n w0 w1" "\<not> coll_flag (int i) w1" "0 \<le> j \<Longrightarrow> j \<noteq> int i \<Longrightarrow> coll_flag j w1 = coll_flag j w"
proof -
  have i: "coll_ok (int i) w" using assms(1,2) by (simp add: ending_def)
  have f: "coll_frame (int i) w w1" unfolding w1_def by (rule coll_frame_delete [OF i])
  have s: "coll_ok (int i) w1" "\<not> coll_flag (int i) w1"
    using coll_stop [OF i prod.collapse [symmetric]] unfolding w1_def by blast+
  show "\<not> coll_flag (int i) w1" by (rule s)
  have o: "unit_get w1 j = unit_get w j" if "0 \<le> j" "j \<noteq> int i" for j
    using f that by (simp add: coll_frame_def unit_frame_def)
  then show "0 \<le> j \<Longrightarrow> j \<noteq> int i \<Longrightarrow> coll_flag j w1 = coll_flag j w" by (simp add: coll_flag_def)
  have l: "length (bst_units w1) = length (bst_units w)" using f by (simp add: coll_frame_def unit_frame_def)
  have k: "slot_ok h p b m (kernel w) \<Longrightarrow> (h, p) \<noteq> (bst_periodic_collection_cb, int i) \<Longrightarrow> slot_ok h p b m (kernel w1)" for h p b m
    using f by (simp add: coll_frame_def unit_frame_def foreign_kept_def)
  have "coll_ok j w1 \<and> trig_ok j w1 \<and> owned bst_trigger_timer_cb j (kernel w1) = owned bst_trigger_timer_cb j (kernel w0)"
    if j: "0 \<le> j" "j < int n" for j
  proof -
    have j0: "coll_ok j w" "trig_ok j w" "owned bst_trigger_timer_cb j (kernel w) = owned bst_trigger_timer_cb j (kernel w0)"
      using assms(1) j by (simp_all add: ending_def)
    have t: "bst_trigger_timer (unit_get w1 j) = bst_trigger_timer (unit_get w j)"
      using f o [OF j(1)] by (cases "j = int i") (simp_all add: coll_frame_def)
    then have "trig_ok j w1" using j0(2) l k [of bst_trigger_timer_cb j]
      by (simp add: trig_wf_def trig_flag_def trig_id_def unit_valid_def)
    moreover have "coll_ok j w1"
    proof (cases "j = int i")
      case False
      then show ?thesis using j0(1) o [OF j(1)] l k [of bst_periodic_collection_cb j]
        by (simp add: coll_wf_def coll_flag_def coll_id_def unit_valid_def)
    qed (use s in simp)
    moreover have "owned bst_trigger_timer_cb j (kernel w1) = owned bst_trigger_timer_cb j (kernel w)"
      using j0(2) \<open>trig_ok j w1\<close> t by (simp add: slot_ok_def trig_flag_def trig_id_def)
    ultimately show ?thesis using j0(3) by simp
  qed
  then show "ending n w0 w1" by (simp add: ending_def)
qed

lemma ending_units:
  assumes "ending n w0 w" "set is \<subseteq> {0..<n}" "uninit_units is w = (freed, w')"
  shows "ending n w0 w' \<and> (\<forall>i\<in>set is. \<not> coll_flag (int i) w') \<and> (\<forall>j. 0 \<le> j \<longrightarrow> \<not> coll_flag j w \<longrightarrow> \<not> coll_flag j w') \<and>
    freed = concat (map (\<lambda>i. map (Pair i) (unit_blocks (unit_get w (int i)))) is)"
  using assms
proof (induction "is" arbitrary: w freed)
  case (Cons i "is")
  define w1 where "w1 = snd (bst_periodic_collection_timer_delete (int i) w)"
  have i: "i < n" using Cons.prems(2) by simp
  note d = ending_delete [OF Cons.prems(1) i, folded w1_def]
  obtain fr where fr: "uninit_units is w1 = (fr, w')" "freed = map (Pair i) (unit_blocks (unit_get w1 (int i))) @ fr"
    using Cons.prems(3) by (auto simp: Let_def unit_blocks_def record_ptrs_def w1_def split: prod.splits)
  have p: "same_ptrs w w1" by (simp add: w1_def same_ptrs_refl)
  then have "record_ptrs (unit_get w1 (int k)) = record_ptrs (unit_get w (int k))" if "k < n" for k
  proof -
    have "unit_valid w (int k)" using that Cons.prems(1) by (simp add: ending_def coll_wf_def)
    then have "k < length (map record_ptrs (bst_units w))" by (simp add: unit_valid_def)
    moreover have "map record_ptrs (bst_units w1) = map record_ptrs (bst_units w)" using p by (simp add: same_ptrs_def)
    ultimately show ?thesis by (metis length_map nat_int nth_map unit_get_def)
  qed
  then have "concat (map (\<lambda>i. map (Pair i) (unit_blocks (unit_get w1 (int i)))) is) =
      concat (map (\<lambda>i. map (Pair i) (unit_blocks (unit_get w (int i)))) is)"
    "unit_blocks (unit_get w1 (int i)) = unit_blocks (unit_get w (int i))"
    using Cons.prems(2) by (auto intro!: arg_cong [of _ _ concat] map_cong simp: unit_blocks_def)
  moreover have "\<not> coll_flag j w1" if "0 \<le> j" "\<not> coll_flag j w" for j
    using that d(2,3) by (cases "j = int i") auto
  moreover note Cons.IH [OF d(1) _ fr(1)]
  ultimately show ?case using fr(2) d(2) Cons.prems(2) by simp
qed simp

text \<open>In a state that satisfies the invariant of the application.\<close>

lemma freed_distinct: "distinct is \<Longrightarrow> list_all (\<lambda>i. distinct (f i)) is \<Longrightarrow> distinct (concat (map (\<lambda>i. map (Pair i) (f i)) is))"
  by (induction "is") (auto simp: distinct_map inj_on_def)

lemma bst_app_uninit_spec:
  assumes "sys_inv n w" "sbapi_system_num_units_get ps = Inr n"
  obtains freed w' where "bst_app_uninit ps found w = Some (queue_after found, freed, w')" "distinct freed"
    "length freed = 5 * n" "\<And>j. 0 \<le> j \<Longrightarrow> j < int n \<Longrightarrow> owned bst_periodic_collection_cb j (kernel w') = []"
    "\<And>j. 0 \<le> j \<Longrightarrow> j < int n \<Longrightarrow> owned bst_trigger_timer_cb j (kernel w') = owned bst_trigger_timer_cb j (kernel w)"
proof -
  obtain freed w' where u: "uninit_units [0..<n] w = (freed, w')" by fastforce
  have t: "timers_inv n w" and r: "records_ok w" using assms(1) by (simp_all add: sys_inv_def)
  have "coll_ok j w \<and> trig_ok j w" if "0 \<le> j" "j < int n" for j
    using timers_inv_unit [OF t that] unfolding unit_timers_ok_def async_inv_def by blast
  then have "ending n w w" unfolding ending_def by blast
  note e = ending_units [OF this _ u]
  have end_: "ending n w w'" and off: "\<And>i. i < n \<Longrightarrow> \<not> coll_flag (int i) w'"
    and f: "freed = concat (map (\<lambda>i. map (Pair i) (unit_blocks (unit_get w (int i)))) [0..<n])"
    using e by auto
  have c: "owned bst_periodic_collection_cb j (kernel w') = []" if "0 \<le> j" "j < int n" for j
    using end_ off [of "nat j"] that by (auto simp: ending_def slot_ok_def)
  have "list_all (\<lambda>i. distinct (unit_blocks (unit_get w (int i)))) [0..<n]"
    using r t by (auto simp: list_all_iff records_ok_def unit_get_def timers_inv_def unit_blocks_def distinct_map inj_on_def)
  then have "distinct freed" unfolding f by (intro freed_distinct) simp_all
  moreover have "length freed = 5 * n"
    unfolding f by (simp add: length_concat comp_def sum_list_triv)
  ultimately show thesis
    using that [of freed w'] u c end_ assms(2) by (simp add: bst_app_uninit_def ending_def)
qed

text \<open>The system utilities stop their only timer.\<close>

lemma system_utils_app_uninit_stops:
  assumes "hb_slot w" "system_utils_app_uninit found w = (q, bs, w')"
  shows "\<not> hb_flag w' \<and> owned reg_hb_timer_cb 0 (su_kernel w') = []"
proof -
  have "hb_slot w' \<and> \<not> hb_flag w'"
    using hb_stop [OF assms(1) prod.collapse [symmetric]] assms(2) by (auto simp: system_utils_app_uninit_def)
  then show ?thesis by (simp add: slot_ok_def)
qed

end
