(* ===== verification/Spec2Isabelle.thy ===== *)
theory Spec2Isabelle
  imports Platform_Props Bst_Props Report_Props Rest_Props Ovs_Props Answer_Props Sys_Props Shutdown
begin

text \<open>The OpenSwitch BroadView agent (ops-broadview): a process on a switch that reads the buffer
  statistics of the switching silicon and reports them to collectors over REST. This library models
  the agent from the connection of a client down to the messages of the switch's database, and back: the web
  server, the buffer-statistics-tracking application (BST) with its decoders and encoders, the services it
  runs on, and the plugin for the Open vSwitch database (OVSDB). All paths below are under src/src.

  THE PROGRAM. A REST command arrives on a connection as JSON text; the server takes a free session for it and
  the module manager finds the handler registered for its method; the handler decodes it and puts a request on
  the message queue of the BST application. The application thread takes requests one by one, runs the handler
  of the command, encodes the answer and hands it to the REST plugin, which writes it to the connection of the
  session and closes it. Handlers reach the silicon through the redirector, which finds the plugin feature that
  serves a unit. The OVSDB plugin keeps a cache of the counters, thresholds and configuration that a thread
  of its own fills from the updates of the database; what the agent sets goes to the database as a transaction.
  Two timers per unit feed the application: the collection timer queues periodic report requests, the
  trigger timer ends the interval in which threshold triggers are counted. Triggers of the silicon arrive on
  a second queue that a second thread empties.

  THE THEORIES, in the order of the calls.
  Bview_Prelude: the status codes of public/broadview.h (with order and equality), results, and the locales
    slot_table and slot_pool, the contract of a fixed table that hands out its first free slot.
  Bst_Types: the records of public/asic.h, public/bst.h, public/system.h and the parameter structures of
    apps/bst/api; 64-bit counters are 64 word, the trigger counters 32 word, C ints are int.
  Json: values and member lookup of vendor/cjson, and the validation macros of public/json.h. Json_Text: the
    grammar of JSON texts and their values (denotes_json), the specification the encoders are measured by.
  C_Text, C_Loops, C_Time, C_Double: what the program uses of the C library, executable: decimal conversion,
    strtok, counting loops over arrays, the calendar of localtime and strftime, rounding to double.
  Platform: the limits and the sizes of buffers of src/platform as records, one value per board.
  Module_Mgr: infrastructure/module_mgr/modulemgr.c; its table is an instance of slot_table, its
    registration refines appending to a list keyed by feature id.
  Sb_Redirect: sb_plugin/sb_redirector/sbplugin_redirect_core.c, the table of plugins (an instance of
    slot_table) and the search for a feature. A plugin's callback is a function on the plugin's own state 'hw;
    the plugins are a parameter of everything above them.
  Sb_Api: sbplugin_redirect_system.c and the 29 functions of sbplugin_redirect_bst.c; the locale
    sb_service is the contract they share and each BST function is an interpretation of it.
  System_Time: infrastructure/system/system_time.c over the POSIX timer calls, which are modelled with
    their documented failures. Timer_Client: the locale of a component that owns one kernel timer.
  Json_Memory: the buffer pools of apps/bst/api/bst_json_memory.c and of
    system_utils/api/system_utils_json_memory.c; three instances of the locale buffer_pool.
  Bst_Realm: masks, flags, names and trigger indices of the realms.
  Bst_State: apps/bst/bst_app.h. The record bst_world is bst_info together with its environment: the
    plugin state, the kernel timers, both message queues with their limits and the responses sent. The four
    report records of a unit are addresses in a memory, so that aliasing can be stated.
  Bst_Core, Bst_Report: the handlers of apps/bst/bst.c. Bst_Trigger: apps/bst/bst_trigger.c and the two
    handlers of bst_main.c that end an interval. Bst_Main: the rest of apps/bst/bst_main.c: the command
    table, replies, one turn of each thread, and the start-up. A handler takes the plugin table, the
    message and the world to a status and the new world, on every branch of the code.
  Bst_Decode: the decoders of apps/bst/api, one definition per command behind the checks they share.
    Bst_Nb_Api: apps/bst/bst_nb_api.c, the validation and queueing of each decoded command;
    bst_rest_handler is the handler behind each command number.
  Bst_Timers, Bst_Config_Laws, Bst_Report_Laws, Bst_Trigger_Laws: what the handlers guarantee. Bst_Timers
    interprets timer_client for both timers of a unit; Bst_Trigger_Laws holds the limiter as a step relation.
  Bst_System: the whole application as a step relation (a client request, either timer expiring, a
    trigger, a plugin notification, a turn of either thread), its reachable states and their invariant sys_inv.
  Bst_Sample: a plugin and a just-started application on which the properties are applied.
  Bst_Rest_Laws: which requests the decoders and the validation accept, and what they queue; a REST
    command, whatever its text, is a step of Bst_System.
  Bst_Encode, Bst_Encode_Report: the encoders of apps/bst/api (bst_json_encoder*.c): the record enc is the buffer
    around the cursor with the length that is left, and each C statement is a step on it, the one that moves
    the cursor back over a comma included. Bst_Report_Text is the reference: the rows a report has and their
    text, without buffer or cursor. Bst_Encode_Laws, Bst_Realm_Text (locale port_names: what the encoders ask
    of a plugin that names ports) and Bst_Whole_Text (locale unit_names, which extends it) prove that the
    encoders write the reference; Bst_Report_Json that the reference is JSON; Bst_Report_Fits how long it
    gets; Bst_Percent what the percentages are; Bst_Answers the answers to the two get commands.
  Bst_Response: bst_send_response of apps/bst/bst_main.c, between encoders and REST plugin.
  Rest_Client, Rest_Server: nb_plugin/rest: sessions (rest_session.c), answers and the loops around send
    (rest_http_client.c, rest_api.c, rest_config.c), and what rest_http_server.c does with one connection. The calls
    of the kernel are a record of functions on the state 'net of the network. Rest_Laws and Rest_Connections:
    the loops end and what they leave. Answer_Laws: from the reply of the application to the socket.
  Ovs_Table, Ovs_Bst: sb_plugin/sb_ovsdb/bst: the table bid_tab_params, names and rows of the counters, the cache
    of sbplugin_bst_cache.c and the transactions and parsers of sbplugin_bst_ovsdb.c. Ovs_Monitor: the thread of
    ovsdb_bst_ctl.c. Ovs_Plugin, Ovs_Init: sbplugin_bst.c, its BST feature, and sbplugin_init.c.
    Ovs_System: sb_plugin/sb_ovsdb/system. The record ovsdb is the state of all of them with the transactions sent.
  Ovs_Laws, Ovs_Monitor_Laws (locale monitor_relation: a relation kept by the elementary changes is kept by any
    sequence of messages), Ovs_Plugin_Laws, Ovs_Threshold_Laws, Ovs_System_Laws: the cache invariant, what is
    read, what is set, and how the plugin starts. Ovs_Run: the plugin as a step relation with its
    invariant. Ovs_Names: the plugin satisfies unit_names, so the encoders work on top of it.
  Sys_Utils, Sys_Json: the second application of the agent, infrastructure/system: the configuration of the agent
    (system.c), registration and heartbeat (reg_hb), and the thread that serves them (system_utils_main.c). The
    record sys_world is system_utils_info with its environment. Sys_Laws: the heartbeat timer as a client of
    timer_client. Sys_Run: the application as a step relation, its invariant hb_inv, and its answers. Sys_Text:
    the answers are JSON. Sys_Start: what the start establishes, and what it reads from the OVSDB plugin.
  Shutdown: bst_app_uninit and system_utils_app_uninit, the end of both applications, and what they leave.
  Platform_Props, Bst_Props, Report_Props, Rest_Props, Ovs_Props, Answer_Props, Sys_Props and this theory: the
    properties.

  WHAT THE PROPERTIES SHOW. For the whole application: the kernel timers of the agent are exactly the
  ones its switches ask for, so no timer is leaked; the report records never
  alias; every queued request is answered in its turn; the end of the application frees each block once, and
  leaves the trigger timers (this theory). For the handlers: what a feature or
  tracking request stores and pushes, how the configuration follows the plugin, which record a report
  answers and with which realms, what clearing does, how the rate limiter bounds and admits reports. For the commands: what text
  is accepted, what it stores and answers, and that no text breaks an invariant. For the platform: both tables refine lists,
  the feature search prefers a feature made for the silicon, buffers never overlap and come back. For the answers:
  a report of the OVSDB unit is encoded as its reference text, that text is JSON whose value is the report,
  and it reaches the client that asked, with the session and the buffer given back; what get-bst-feature and
  get-bst-tracking answer is accepted by the decoders of the set commands and means the same; percentages are rounded
  exactly; when an encoder fails the client waits for ever. For connections: the three ways a request ends.
  For the OVSDB plugin: it starts or gives up, registers, and then answers every call of the agent without leaving
  its arrays; configuration and thresholds sent to the database come back as they were sent; a counter the
  database reports is the one the agent reads; triggers reach the agent. For the system utilities: there is
  exactly one heartbeat timer, with the configured interval, while the heartbeat is on; requests are answered in
  their turn; what is configured is read back; every heartbeat of the OVSDB unit is JSON. Some properties state
  behaviour the code does not intend; they are listed as findings in the manifest.

  BOUNDS. Nothing here runs on fuel. Loops over tables and lists are structural recursion or folds; the
  endless message loops are their single turns, iterated by the step relations and by app_turns. The loops around
  send and recv may run for ever with a kernel that never makes progress, and so may the poll of the OVSDB plugin:
  they are partial functions whose value None means not returning, and under kernel_ok, recv_ok (a call
  transfers something or fails, and the peer sends finitely much) and a poll that is answered they are proved to return.
  An inner None marks what C leaves undefined: a cursor beyond its buffer, an index outside an array, a union
  member never written, a failed assertion of the database library; the properties prove it does not occur, or
  name the input where it does. The trigger counters wrap at 2^32, and the limiter's bound says so. Start-up
  assumes twice as many kernel timers as there are units; with that, creating a timer never fails. That
  a report fits into its buffer is proved for counters of at most eight digits, names of at most six characters
  and at most 64 ports; the percentages are exact for counters below 2^44.

  NOT MODELLED. The locks: a handler or call-back is one atomic step, so a race inside a handler is out of
  reach. NULL arguments that no caller passes. The JSON parser of vendor/cjson: cJSON_Parse is a parameter, about
  which the round trips assume that it reads what denotes_json says. Opening the listening socket and the
  endless loop of the web server, and opening the session with the database: they are calls of
  the kernel and of libraries in sequence. The same holds of the start of the agent as a whole
  (bview_system_init_ph2). The ends of the applications on the paths where their start has failed. Logging, the command line and the example client:
  input and output. The packet trace redirector has no caller.\<close>

section \<open>The whole application\<close>

lemma sample_system_TD2: "sb_system_handle sample_plugins BVIEW_ASIC_TYPE_TD2 = Some sample_system"
  by (simp add: sb_system_handle_def handle_get_best sample_visible)
     (simp add: catch_all_def serves_asic_def sample_system_def BVIEW_ASIC_TYPE_ALL_def BVIEW_ASIC_TYPE_TD2_def)

lemma sample_capabilities_get: "sbapi_system_asic_capabilities_get sample_plugins 0 = Inr sample_capabilities"
  by (simp add: sbapi_system_asic_capabilities_get_def sample_unit_type sb_redirect_asic_capabilities_get_def
      sample_system_TD2) (simp add: sample_system_def)

lemma sample_register_trigger: "sbapi_bst_register_trigger sample_plugins 0 cb c h = (BVIEW_STATUS_SUCCESS, Some (), h)"
  by (simp add: sbapi_bst_register_trigger_def sb_bst_call_simps sample_unit_feature) (simp add: sample_bst_def)

lemma sample_main: "fst (bst_main sample_plugins (\<lambda>_. True) sample_world) = BVIEW_STATUS_SUCCESS"
  by (simp add: bst_main_def sample_units bst_app_config_init_def bst_unit_config_init_def hw_call_def
      Let_def filled_def default_config_def list_all_iff)

lemma sample_start: "fst (bst_app_start sample_plugins modulemgr_init w) = BVIEW_STATUS_SUCCESS"
proof -
  have "fst (bst_module_register modulemgr_init) = BVIEW_STATUS_SUCCESS"
    using register_refines [OF modulemgr_init_ok, of bst_module_info, OF _ prod.collapse [symmetric]] bst_module_id
    by (simp add: bst_module_register_def registered_init BVIEW_MAX_MODULES_def)
  then show ?thesis
    by (simp add: bst_app_start_def split_beta sample_units hw_call_def sample_register_trigger
        sample_capabilities_get)
qed


definition sample_running :: "bst_config bst_world" where
  "sample_running = snd (snd (bst_app_start sample_plugins modulemgr_init
     (snd (bst_main sample_plugins (\<lambda>_. True) sample_world))))"

definition sample_async :: request_msg where
  "sample_async = sample_request BVIEW_BST_CMD_API_SET_FEATURE
     (REQ_CONFIG (zero_config_params\<lparr>sendAsyncReports := 1, configMask := 2\<rparr>))"

lemma sample_main_started:
  "bst_main sample_plugins (\<lambda>_. True) sample_world =
     (BVIEW_STATUS_SUCCESS, snd (bst_main sample_plugins (\<lambda>_. True) sample_world))"
  "bst_app_start sample_plugins modulemgr_init (snd (bst_main sample_plugins (\<lambda>_. True) sample_world)) =
     (BVIEW_STATUS_SUCCESS, fst (snd (bst_app_start sample_plugins modulemgr_init
        (snd (bst_main sample_plugins (\<lambda>_. True) sample_world)))), sample_running)"
  using sample_main sample_start [of "snd (bst_main sample_plugins (\<lambda>_. True) sample_world)"]
  by (simp_all add: sample_running_def prod_eq_iff)

lemma sample_reach:
  "bst_reach sample_plugins 1 sample_running
     (bst_app_step sample_plugins 1 (snd (bst_send_request sample_async sample_running)))"
proof -
  have "request_ok sample_async"
    by (simp add: request_ok_def sample_async_def req_config_def zero_config_params_def)
  then have "bst_step sample_plugins 1 sample_running (snd (bst_send_request sample_async sample_running))"
    by (rule bst_step.request)
  then show ?thesis
    by (rule bst_reach.reach_step [OF bst_reach.reach_step [OF bst_reach.reach_start] bst_step.app])
qed


text \<open>C2: in every state the application reaches it has the units it started with, and the
  active, the previous and the next statistics record and the threshold record of each are four
  different blocks.\<close>

theorem records_never_alias:
  assumes "bst_main ps alloc_ok w0 = (BVIEW_STATUS_SUCCESS, w1)" "sbapi_system_num_units_get ps = Inr n"
    "timers (kernel w0) = []" "2 * n < timer_limit (kernel w0)"
    "bst_app_start ps t w1 = (BVIEW_STATUS_SUCCESS, t', w2)" "bst_reach ps n w2 w" "k < n"
  shows "length (bst_units w) = n
    \<and> distinct [stats_active_record_ptr (bst_units w ! k), stats_backup_record_ptr (bst_units w ! k),
        stats_current_record_ptr (bst_units w ! k), threshold_record_ptr (bst_units w ! k)]"
proof -
  have "sys_inv n w"
    using sys_inv_reach [OF assms(6)] sys_inv_app_start [OF bst_main_started [OF assms(1-4)] assms(5)] by blast
  then show ?thesis using assms(7) by (simp add: sys_inv_def timers_inv_def records_ok_def record_ptrs_def)
qed

theorem records_never_alias_witness:
  "stats_active_record_ptr (bst_units (bst_app_step sample_plugins 1 (snd (bst_send_request sample_async sample_running))) ! 0)
   \<noteq> stats_current_record_ptr (bst_units (bst_app_step sample_plugins 1 (snd (bst_send_request sample_async sample_running))) ! 0)"
  using records_never_alias [OF sample_main_started(1) sample_units _ _ sample_main_started(2) sample_reach, of 0]
  by simp



text \<open>C4: a request in the application's queue is answered in exactly as many turns as its
  position, with the status its handler returns and with the request's command, unit and id, whatever the
  handlers before it do; only the notifications of the plugin get no answer.\<close>

theorem request_gets_answered:
  assumes "k < length (bst_msgq w)" "m = bst_msgq w ! k" "0 \<le> msg_unit m" "msg_unit m < int n"
    "msg_type m \<notin> {BVIEW_BST_CMD_API_UPDATE_TRACK, BVIEW_BST_CMD_API_UPDATE_FEATURE, BVIEW_BST_CMD_API_MAX}"
    "v = app_turns ps n k w"
  shows "\<exists>r h. sent_responses (app_turns ps n (Suc k) w) = sent_responses v @ [r]
    \<and> bst_type_api_get (msg_type m) = Inr h
    \<and> resp_rv r = fst (run_handler h ps m (v\<lparr>bst_msgq := tl (bst_msgq v)\<rparr>))
    \<and> resp_msg_type r = msg_type m \<and> resp_unit r = msg_unit m \<and> resp_id r = msg_id m"
  using request_answered [OF assms(1-4) _ assms(6)] assms(5) by (simp add: gets_answer_def)

theorem request_gets_answered_witness:
  "\<exists>r. sent_responses (app_turns sample_plugins 1 1 (sample_world\<lparr>bst_msgq := [sample_async]\<rparr>)) = [r]
     \<and> resp_msg_type r = BVIEW_BST_CMD_API_SET_FEATURE \<and> resp_id r = 42"
  using request_gets_answered [of 0 "sample_world\<lparr>bst_msgq := [sample_async]\<rparr>" sample_async 1 _ sample_plugins]
  by (auto simp: sample_async_def)

end
